(* ===== verification/Prelude.thy ===== *)
theory Prelude
  imports Complex_Main "HOL-Library.Word"
begin

section \<open>Prelude: results, stateful operations, Python numbers\<close>

text \<open>
  Vocabulary shared by every component theory.
  \<^item> An operation of the Python source that may raise is a function into \<open>'e + 'a\<close>
    (\<open>Inl\<close> the exception); \<open>bindE\<close> sequences two of them.
  \<^item> A method that mutates an object and may raise is a function
    \<open>'s \<Rightarrow> ('e + 'a) \<times> 's\<close>: the state reached is returned on both outcomes, because an
    exception of the source does not undo the assignments made before it.
  \<^item> Python's \<open>int\<close> is \<^typ>\<open>int\<close>; Python's finite \<open>float\<close> is \<^typ>\<open>real\<close> (rounding of the
    individual float operations is not modelled); \<open>round\<close> is round-half-to-even and
    \<open>int(x)\<close> of a float truncates towards zero.
\<close>

unbundle bit_operations_syntax

named_theorems opsimps \<open>unfoldings of the sequencing combinators\<close>
named_theorems frame \<open>fields and keys an operation leaves unchanged\<close>

subsection \<open>Results and stateful operations\<close>

type_synonym ('s, 'e, 'a) op = "'s \<Rightarrow> ('e + 'a) \<times> 's"

definition bindE :: "'e + 'a \<Rightarrow> ('a \<Rightarrow> 'e + 'b) \<Rightarrow> 'e + 'b" where
  "bindE m f = (case m of Inl e \<Rightarrow> Inl e | Inr a \<Rightarrow> f a)"

definition retS :: "'a \<Rightarrow> ('s, 'e, 'a) op" where
  "retS a s = (Inr a, s)"

definition raiseS :: "'e \<Rightarrow> ('s, 'e, 'a) op" where
  "raiseS e s = (Inl e, s)"

definition bindS :: "('s, 'e, 'a) op \<Rightarrow> ('a \<Rightarrow> ('s, 'e, 'b) op) \<Rightarrow> ('s, 'e, 'b) op" where
  "bindS m f s = (case m s of (Inl e, t) \<Rightarrow> (Inl e, t) | (Inr a, t) \<Rightarrow> f a t)"

definition liftE :: "('s \<Rightarrow> 'e + 'a) \<Rightarrow> ('s, 'e, 'a) op" where
  "liftE f s = (f s, s)"

definition modifyS :: "('s \<Rightarrow> 's) \<Rightarrow> ('s, 'e, unit) op" where
  "modifyS f s = (Inr (), f s)"

definition catchS :: "('s, 'e, 'a) op \<Rightarrow> ('e \<Rightarrow> ('s, 'e, 'a) op) \<Rightarrow> ('s, 'e, 'a) op" where
  "catchS m h s = (case m s of (Inl e, t) \<Rightarrow> h e t | (Inr a, t) \<Rightarrow> (Inr a, t))"

fun mapE :: "('a \<Rightarrow> 'e + 'b) \<Rightarrow> 'a list \<Rightarrow> 'e + 'b list" where
  "mapE f [] = Inr []"
| "mapE f (x # xs) = bindE (f x) (\<lambda>y. bindE (mapE f xs) (\<lambda>ys. Inr (y # ys)))"

fun forS :: "'a list \<Rightarrow> ('a \<Rightarrow> ('s, 'e, unit) op) \<Rightarrow> ('s, 'e, unit) op" where
  "forS [] f = retS ()"
| "forS (x # xs) f = bindS (f x) (\<lambda>_. forS xs f)"

lemma bindE_simps [simp]:
  "bindE (Inl e) f = Inl e"
  "bindE (Inr a) f = f a"
  by (simp_all add: bindE_def)

lemma bindE_eq_Inr [simp]: "bindE m f = Inr b \<longleftrightarrow> (\<exists>a. m = Inr a \<and> f a = Inr b)"
  by (cases m) simp_all

lemma bindE_eq_Inl: "bindE m f = Inl e \<longleftrightarrow> m = Inl e \<or> (\<exists>a. m = Inr a \<and> f a = Inl e)"
  by (cases m) auto

lemma op_simps [opsimps]:
  "retS a s = (Inr a, s)"
  "raiseS e s = (Inl e, s)"
  "modifyS g s = (Inr (), g s)"
  "liftE h s = (h s, s)"
  by (simp_all add: retS_def raiseS_def modifyS_def liftE_def)

lemma bindS_simps [simp]:
  "m s = (Inl e, t) \<Longrightarrow> bindS m f s = (Inl e, t)"
  "m s = (Inr a, t) \<Longrightarrow> bindS m f s = f a t"
  by (simp_all add: bindS_def)

lemma bindS_prims [opsimps]:
  "bindS (retS a) f s = f a s"
  "bindS (raiseS e) f s = (Inl e, s)"
  "bindS (modifyS g) k s = k () (g s)"
  "h s = Inr b \<Longrightarrow> bindS (liftE h) f s = f b s"
  "h s = Inl e \<Longrightarrow> bindS (liftE h) f s = (Inl e, s)"
  by (simp_all add: bindS_def retS_def raiseS_def modifyS_def liftE_def)

lemma mapE_Inr_iff:
  "mapE f xs = Inr ys \<longleftrightarrow> list_all2 (\<lambda>x y. f x = Inr y) xs ys"
  by (induction xs arbitrary: ys) (auto simp: list_all2_Cons1)

lemma mapE_total:
  assumes "\<forall>x \<in> set xs. f x = Inr (g x)"
  shows "mapE f xs = Inr (map g xs)"
  using assms by (induction xs) simp_all

lemma forS_append: "forS (xs @ ys) f s = bindS (forS xs f) (\<lambda>_. forS ys f) s"
proof (induction xs arbitrary: s)
  case Nil
  then show ?case by (simp add: bindS_def retS_def)
next
  case (Cons x xs)
  obtain r t where "f x s = (r, t)" by fastforce
  with Cons show ?case by (cases r) (simp_all add: bindS_def)
qed

text \<open>An invariant every step of a loop keeps is an invariant of the loop, whether or not
  it stops at an exception.\<close>

lemma forS_invariant:
  assumes "\<And>x s. x \<in> set xs \<Longrightarrow> P s \<Longrightarrow> P (snd (f x s))"
    and "P s"
  shows "P (snd (forS xs f s))"
  using assms
proof (induction xs arbitrary: s)
  case Nil
  then show ?case by (simp add: retS_def)
next
  case (Cons x xs)
  have P1: "P (snd (f x s))" using Cons.prems by simp
  show ?case
  proof (cases "f x s")
    case (Pair r t)
    then show ?thesis
      using P1 Cons by (cases r) auto
  qed
qed

subsection \<open>Python values\<close>

text \<open>The dynamically typed values that cross an interface of the source: decoded JSON,
  object dictionary values, exception attributes. \<open>PInf\<close> (with its sign) and \<open>PNaN\<close> are the
  non-finite floats. A dictionary keeps its insertion order; all its keys are strings.\<close>

datatype pyval =
    PNone
  | PBool bool
  | PInt int
  | PFloat real
  | PInf bool
  | PNaN
  | PStr string
  | PBytes "8 word list"
  | PList "pyval list"
  | PDict "(string \<times> pyval) list"

type_synonym pydict = "(string \<times> pyval) list"

definition opt_str :: "string option \<Rightarrow> pyval" where
  "opt_str x = (case x of None \<Rightarrow> PNone | Some t \<Rightarrow> PStr t)"

definition dict_set :: "pydict \<Rightarrow> string \<Rightarrow> pyval \<Rightarrow> pydict" where
  "dict_set d k v =
     (if k \<in> fst ` set d then map (\<lambda>(k', v'). (k', if k' = k then v else v')) d
      else d @ [(k, v)])"

definition dict_del :: "pydict \<Rightarrow> string \<Rightarrow> pydict" where
  "dict_del d k = filter (\<lambda>(k', v). k' \<noteq> k) d"

lemma map_of_dict_set: "map_of (dict_set d k v) = (map_of d)(k \<mapsto> v)"
proof -
  have "map_of (map (\<lambda>(k', v'). (k', if k' = k then v else v')) d) =
      (map_of d)(k := if k \<in> fst ` set d then Some v else None)"
    by (induction d) auto
  moreover have "map_of (d @ [(k, v)]) = (map_of d)(k \<mapsto> v)" if "k \<notin> fst ` set d"
    using that map_of_eq_None_iff [of d k] by (auto simp: map_add_def fun_eq_iff split: option.splits)
  ultimately show ?thesis by (simp add: dict_set_def)
qed

lemma map_of_dict_del: "map_of (dict_del d k) = (map_of d)(k := None)"
  by (induction d) (auto simp: dict_del_def)

subsection \<open>Text\<close>

text \<open>Strings are ASCII texts: \<open>strip\<close> removes Python's whitespace on both sides and
  \<open>lower\<close> maps the capital letters.\<close>

definition is_space :: "char \<Rightarrow> bool" where
  "is_space c \<longleftrightarrow> c \<in> {CHR '' '', CHR 0x09, CHR 0x0A, CHR 0x0B, CHR 0x0C, CHR 0x0D,
     CHR 0x1C, CHR 0x1D, CHR 0x1E, CHR 0x1F}"

definition strip :: "string \<Rightarrow> string" where
  "strip s = rev (dropWhile is_space (rev (dropWhile is_space s)))"

definition lower_char :: "char \<Rightarrow> char" where
  "lower_char c = (let n = (of_char c :: nat)
     in if 65 \<le> n \<and> n \<le> 90 then char_of (n + 32) else c)"

definition lower :: "string \<Rightarrow> string" where
  "lower s = map lower_char s"

fun starts_with :: "string \<Rightarrow> string \<Rightarrow> bool" where
  "starts_with [] s = True"
| "starts_with (p # ps) [] = False"
| "starts_with (p # ps) (c # cs) = (p = c \<and> starts_with ps cs)"

text \<open>\<open>int(text, base)\<close> for base 10 and for base 0 (the base read off the prefix, no leading
  zeros in a decimal literal): surrounding whitespace, an optional sign, digits with single
  underscores between them; \<open>None\<close> is the \<open>ValueError\<close>.\<close>

definition digit_value :: "char \<Rightarrow> nat option" where
  "digit_value c =
     (let n = (of_char (lower_char c) :: nat)
      in if 48 \<le> n \<and> n \<le> 57 then Some (n - 48)
         else if 97 \<le> n \<and> n \<le> 122 then Some (n - 87) else None)"

fun digits_value :: "nat \<Rightarrow> bool \<Rightarrow> nat \<Rightarrow> string \<Rightarrow> nat option" where
  "digits_value b us acc [] = (if us then None else Some acc)"
| "digits_value b us acc (c # cs) =
     (if c = CHR ''_'' then (if us then None else digits_value b True acc cs)
      else case digit_value c of
        None \<Rightarrow> None
      | Some d \<Rightarrow> if d < b then digits_value b False (acc * b + d) cs else None)"

definition unsigned_value :: "nat \<Rightarrow> string \<Rightarrow> nat option" where
  "unsigned_value b s = (if s = [] then None else
     case s of c # cs \<Rightarrow> if c = CHR ''_'' then None else digits_value b False 0 s)"

definition base0_value :: "string \<Rightarrow> nat option" where
  "base0_value s =
     (case s of
        c0 # c1 # rest \<Rightarrow>
          if c0 = CHR ''0'' then
            (let p = lower_char c1;
                 body = (case rest of c # cs \<Rightarrow> if c = CHR ''_'' then cs else rest | [] \<Rightarrow> [])
             in if p = CHR ''x'' then unsigned_value 16 body
                else if p = CHR ''o'' then unsigned_value 8 body
                else if p = CHR ''b'' then unsigned_value 2 body
                else case unsigned_value 10 s of
                  Some 0 \<Rightarrow> Some 0 | _ \<Rightarrow> None)
          else unsigned_value 10 s
      | _ \<Rightarrow> unsigned_value 10 s)"

definition py_int_text :: "(string \<Rightarrow> nat option) \<Rightarrow> string \<Rightarrow> int option" where
  "py_int_text f s =
     (case strip s of
        c # cs \<Rightarrow>
          if c = CHR ''-'' then map_option (\<lambda>n. - int n) (f cs)
          else if c = CHR ''+'' then map_option int (f cs)
          else map_option int (f (c # cs))
      | [] \<Rightarrow> None)"

subsection \<open>Python numbers\<close>

definition py_int :: "real \<Rightarrow> int" where
  "py_int x = (if 0 \<le> x then \<lfloor>x\<rfloor> else \<lceil>x\<rceil>)"

definition py_round :: "real \<Rightarrow> int" where
  "py_round x =
     (let f = \<lfloor>x\<rfloor>; d = x - of_int f
      in if d < 1 / 2 then f
         else if 1 / 2 < d then f + 1
         else if even f then f else f + 1)"

lemma py_int_of_int [simp]: "py_int (of_int i) = i"
  by (simp add: py_int_def)

lemma py_round_of_int [simp]: "py_round (of_int i) = i"
  by (simp add: py_round_def)

lemma py_round_close: "\<bar>of_int (py_round x) - x\<bar> \<le> 1 / 2"
  unfolding py_round_def Let_def by (simp add: abs_le_iff)

lemma py_int_close: "\<bar>of_int (py_int x) - x\<bar> < 1"
  unfolding py_int_def by (auto simp: abs_less_iff) linarith+

abbreviation clamp01 :: "real \<Rightarrow> real" where
  "clamp01 x \<equiv> max 0 (min 1 x)"

subsection \<open>Single bits of an integer\<close>

text \<open>The source tests a bit with \<open>word & (1 << k)\<close> and sets it with \<open>word | (1 << k)\<close>;
  masks of several bits stay written as in the source.\<close>

definition has_bit :: "int \<Rightarrow> nat \<Rightarrow> bool" where
  "has_bit w k \<longleftrightarrow> w AND push_bit k 1 \<noteq> 0"

definition with_bit :: "int \<Rightarrow> nat \<Rightarrow> int" where
  "with_bit w k = w OR push_bit k 1"

lemma has_bit_iff_bit [simp]: "has_bit w k \<longleftrightarrow> bit w k"
  by (simp add: has_bit_def and_exp_eq_0_iff_not_bit)

lemma bit_with_bit [simp]: "bit (with_bit w k) n \<longleftrightarrow> bit w n \<or> n = k"
  by (auto simp: with_bit_def bit_or_iff bit_exp_iff)

end
