(* ===== verification/Cia402.thy ===== *)
theory Cia402
  imports Prelude
begin

section \<open>The CiA 402 power state machine of the virtual drive\<close>

text \<open>
  Models \<^verbatim>\<open>device/cia402/state_machine.py\<close> (\<open>CiA402StateMachine\<close>) and the statusword display of
  \<^verbatim>\<open>control_panel/axis_control_panel/statusword.py\<close>. \<open>process\<close> keeps the order of the source's
  tests: fault reset first, then disable voltage, then the tests of the current state. The
  lemmas relate it to an inductive transition relation of the profile, show which controlwords
  lead into Operation Enabled, that the enabling sequence always arrives, and that the panel
  shows the state the drive is in.
\<close>

datatype CiA402State =
  SWITCH_ON_DISABLED | READY_TO_SWITCH_ON | SWITCHED_ON | OPERATION_ENABLED | FAULT

definition cia402_init :: CiA402State where
  "cia402_init = SWITCH_ON_DISABLED"

definition process :: "CiA402State \<Rightarrow> int \<Rightarrow> CiA402State" where
  "process st cw =
     (if cw AND 0x0080 \<noteq> 0 then
        (if st = FAULT then SWITCH_ON_DISABLED else st)
      else if cw AND 0x0087 = 0x0000 then SWITCH_ON_DISABLED
      else case st of
        SWITCH_ON_DISABLED \<Rightarrow>
          if cw AND 0x0087 = 0x0006 then READY_TO_SWITCH_ON else st
      | READY_TO_SWITCH_ON \<Rightarrow>
          if cw AND 0x008F = 0x0007 then SWITCHED_ON
          else if cw AND 0x0087 = 0x0000 then SWITCH_ON_DISABLED else st
      | SWITCHED_ON \<Rightarrow>
          if cw AND 0x008F = 0x000F then OPERATION_ENABLED
          else if cw AND 0x0087 = 0x0006 then READY_TO_SWITCH_ON
          else if cw AND 0x0087 = 0x0000 then SWITCH_ON_DISABLED else st
      | OPERATION_ENABLED \<Rightarrow>
          if cw AND 0x008F = 0x0007 then SWITCHED_ON
          else if cw AND 0x0087 = 0x0006 then READY_TO_SWITCH_ON
          else if cw AND 0x0087 = 0x0000 then SWITCH_ON_DISABLED else st
      | FAULT \<Rightarrow>
          if cw AND 0x0080 \<noteq> 0 then SWITCH_ON_DISABLED else st)"

fun get_statusword :: "CiA402State \<Rightarrow> int" where
  "get_statusword SWITCH_ON_DISABLED = 0x0040"
| "get_statusword READY_TO_SWITCH_ON = 0x0021"
| "get_statusword SWITCHED_ON = 0x0023"
| "get_statusword OPERATION_ENABLED = 0x0027"
| "get_statusword FAULT = 0x0008"

definition process_all :: "CiA402State \<Rightarrow> int list \<Rightarrow> CiA402State" where
  "process_all st cws = foldl process st cws"

text \<open>The panel's text for a statusword.\<close>

definition statusword_state_text :: "int \<Rightarrow> string" where
  "statusword_state_text sw =
     (let masked = sw AND 0x006F
      in if sw AND 0x0008 \<noteq> 0 then ''Fault''
         else if masked = 0x0027 then ''Op Enabled''
         else if masked = 0x0023 then ''Switched On''
         else if masked = 0x0021 then ''Ready''
         else if masked = 0x0040 then ''Switch Disabled''
         else if masked = 0x0000 then ''Not Ready''
         else ''State Changed'')"

definition axis_enable_button :: "int \<Rightarrow> bool \<times> string" where
  "axis_enable_button sw =
     (let enabled = (sw AND 0x0004 \<noteq> 0) in (enabled, if enabled then ''Disable'' else ''Enable''))"

subsection \<open>The transition relation of the profile\<close>

text \<open>The transitions of the drive profile that the model can take, by the numbers of the
  standard: 2 shutdown, 3 switch on, 4 enable operation, 5 disable operation, 6 and 8
  shutdown, 7, 9 and 10 disable voltage, 15 fault reset.\<close>

inductive cia402_step :: "CiA402State \<Rightarrow> CiA402State \<Rightarrow> bool" where
  t2: "cia402_step SWITCH_ON_DISABLED READY_TO_SWITCH_ON"
| t3: "cia402_step READY_TO_SWITCH_ON SWITCHED_ON"
| t4: "cia402_step SWITCHED_ON OPERATION_ENABLED"
| t5: "cia402_step OPERATION_ENABLED SWITCHED_ON"
| t6: "cia402_step SWITCHED_ON READY_TO_SWITCH_ON"
| t7: "cia402_step READY_TO_SWITCH_ON SWITCH_ON_DISABLED"
| t8: "cia402_step OPERATION_ENABLED READY_TO_SWITCH_ON"
| t9: "cia402_step OPERATION_ENABLED SWITCH_ON_DISABLED"
| t10: "cia402_step SWITCHED_ON SWITCH_ON_DISABLED"
| t15: "cia402_step FAULT SWITCH_ON_DISABLED"

declare cia402_step.intros [intro]

inductive_cases cia402_into_enabled [elim]: "cia402_step s OPERATION_ENABLED"
inductive_cases cia402_into_fault [elim]: "cia402_step s FAULT"

lemma process_step: "process st cw = st \<or> cia402_step st (process st cw)"
  by (cases st) (auto simp: process_def)

lemma process_never_faults: "process st cw = FAULT \<Longrightarrow> st = FAULT"
  using process_step [of st cw] by auto

lemma statusword_text_of_state:
  "statusword_state_text (get_statusword st) =
     (case st of SWITCH_ON_DISABLED \<Rightarrow> ''Switch Disabled'' | READY_TO_SWITCH_ON \<Rightarrow> ''Ready''
      | SWITCHED_ON \<Rightarrow> ''Switched On'' | OPERATION_ENABLED \<Rightarrow> ''Op Enabled'' | FAULT \<Rightarrow> ''Fault'')"
  by (cases st) (simp_all add: statusword_state_text_def)

text \<open>Controlwords that differ only outside bits 0 to 3 and 7 act alike, so the mode-specific
  bits 4 to 6, the halt bit 8 and everything above never move the power state.\<close>

lemma and_mask_and:
  fixes w m n :: int
  assumes "m AND n = n"
  shows "(w AND m) AND n = w AND n"
  using assms by (simp add: and.assoc)

lemma process_mask: "process st (cw AND 0x008F) = process st cw"
proof -
  have "(cw AND 0x008F) AND 0x0080 = cw AND 0x0080"
    and "(cw AND 0x008F) AND 0x0087 = cw AND 0x0087"
    and "(cw AND 0x008F) AND 0x008F = cw AND 0x008F"
    by (rule and_mask_and, simp)+
  then show ?thesis by (simp only: process_def)
qed

text \<open>Only the state bits of the mask \<open>0x006F\<close> decide the text.\<close>

lemma state_text_by_mask:
  assumes "sw AND 0x006F = get_statusword st AND 0x006F"
  shows "statusword_state_text sw = statusword_state_text (get_statusword st)"
proof -
  have "sw AND 0x0008 = (sw AND 0x006F) AND 0x0008"
    by (rule and_mask_and [symmetric]) simp
  then have "statusword_state_text sw = statusword_state_text (sw AND 0x006F)"
    by (simp add: statusword_state_text_def and.assoc)
  also have "\<dots> = statusword_state_text (get_statusword st)"
    unfolding assms by (cases st) (simp_all add: statusword_state_text_def)
  finally show ?thesis .
qed

subsection \<open>Properties\<close>


text \<open>Operation Enabled is entered only from Switched On and only by an enable-operation
  controlword (bits 0 to 3 set, fault reset bit clear); a drive in any other state stays out of
  Operation Enabled.\<close>

theorem enabled_only_from_switched_on:
  assumes "process st cw = OPERATION_ENABLED" and "st \<noteq> OPERATION_ENABLED"
  shows "st = SWITCHED_ON \<and> cw AND 0x008F = 0x000F"
  using assms by (cases st) (auto simp: process_def split: if_splits)

text \<open>From every state, a fault reset followed by the shutdown, switch-on and
  enable-operation controlwords 0x06, 0x07 and 0x0F brings the drive into Operation Enabled,
  and the statusword then reads 0x0027.\<close>

theorem enable_sequence_arrives:
  "process_all st [0x0080, 0x0006, 0x0007, 0x000F] = OPERATION_ENABLED \<and>
   get_statusword (process_all st [0x0080, 0x0006, 0x0007, 0x000F]) = 0x0027"
  by (cases st) (simp_all add: process_all_def process_def)

text \<open>A drive that starts in its initial state never reports a fault, whatever
  controlwords it receives, and the panel always shows the text of the state it is in.\<close>

theorem never_fault_from_init:
  "process_all cia402_init cws \<noteq> FAULT \<and>
   get_statusword (process_all cia402_init cws) AND 0x0008 = 0"
proof -
  have "process_all st cws \<noteq> FAULT" if "st \<noteq> FAULT" for st
    using that
    by (induction cws arbitrary: st) (auto simp: process_all_def dest: process_never_faults)
  then have "process_all cia402_init cws \<noteq> FAULT" by (simp add: cia402_init_def)
  then show ?thesis by (cases "process_all cia402_init cws") simp_all
qed

text \<open>The statusword identifies the power state, and the panel's text of a statusword whose
  state bits are those of the drive names that state whatever the other bits are.\<close>

theorem statusword_identifies_state:
  "(sw AND 0x006F = get_statusword st AND 0x006F \<longrightarrow>
      statusword_state_text sw =
        (case st of SWITCH_ON_DISABLED \<Rightarrow> ''Switch Disabled'' | READY_TO_SWITCH_ON \<Rightarrow> ''Ready''
         | SWITCHED_ON \<Rightarrow> ''Switched On'' | OPERATION_ENABLED \<Rightarrow> ''Op Enabled''
         | FAULT \<Rightarrow> ''Fault'')) \<and> inj get_statusword"
proof (intro conjI impI injI)
  show "statusword_state_text sw =
      (case st of SWITCH_ON_DISABLED \<Rightarrow> ''Switch Disabled'' | READY_TO_SWITCH_ON \<Rightarrow> ''Ready''
       | SWITCHED_ON \<Rightarrow> ''Switched On'' | OPERATION_ENABLED \<Rightarrow> ''Op Enabled''
       | FAULT \<Rightarrow> ''Fault'')" if "sw AND 0x006F = get_statusword st AND 0x006F"
    using state_text_by_mask [OF that] by (simp add: statusword_text_of_state)
  show "a = b" if "get_statusword a = get_statusword b" for a b
    using that by (cases a; cases b) simp_all
qed

theorem statusword_identifies_state_witness:
  "statusword_state_text 0x9427 = ''Op Enabled''"
proof -
  have "(0x9427 :: int) AND 0x006F = get_statusword OPERATION_ENABLED AND 0x006F" by simp
  then show ?thesis
    using statusword_identifies_state [of "0x9427" OPERATION_ENABLED] by simp
qed

end
