(* ===== verification/Virtual_Servo.thy ===== *)
theory Virtual_Servo
  imports Cia402
begin

section \<open>The virtual servo drive\<close>

text \<open>
  Models \<^verbatim>\<open>device/virtual_servo_drive/servo_model.py\<close> (\<open>VirtualCiA402Servo\<close>): the drive that the mock
  bus runs. The object dictionary is a map from index and subindex to a number; the objects the
  drive reads are taken to be present with a number in them, as the profile's catalogue provides
  them (only the unit exponents may be missing, for which the source has a default). The role
  names of the profile, its configured values and the defaults of its process data are an argument
  (\<open>servo_profile\<close>). Floats are real numbers and the cycle time is positive. The lemmas show when the drive may move: never
  without Operation Enabled, never accelerating in a position mode before it is referenced, never
  towards a target outside the software limits; that homing ends referenced at zero; and that the
  statusword reports the state.
\<close>

subsection \<open>State\<close>

type_synonym od_key = "int \<times> int"
type_synonym servo_od = "od_key \<Rightarrow> real option"

record servo_profile =
  role_key :: "string \<Rightarrow> od_key"
  non_pdo_values :: "(od_key \<times> real) list"
  pdo_defaults :: "(od_key \<times> real) list"

record servo =
  sv_cycle_time :: real
  kp :: real
  od :: servo_od
  sm :: CiA402State
  actual_position :: real
  actual_velocity :: real
  target_reached :: bool
  window_counter :: int
  previous_controlword :: int
  pp_active :: bool
  pp_target_position :: real
  pp_setpoint_ack :: bool
  halt_active :: bool
  homing_active :: bool
  homing_counter :: int
  homing_referenced :: bool
  homing_error :: bool
  software_limit_warning :: bool
  position_target_rejected :: bool
  last_mode_command :: int
  last_target_position_command :: real
  last_device_reset_command :: int
  last_parameter_save_command :: int

definition od_read :: "servo \<Rightarrow> int \<Rightarrow> int \<Rightarrow> real" where
  "od_read s index subindex = (case od s (index, subindex) of Some v \<Rightarrow> v | None \<Rightarrow> 0)"

definition od_write :: "int \<Rightarrow> int \<Rightarrow> real \<Rightarrow> servo \<Rightarrow> servo" where
  "od_write index subindex v s = s\<lparr>od := (od s)((index, subindex) \<mapsto> v)\<rparr>"

definition read_role :: "servo_profile \<Rightarrow> servo \<Rightarrow> string \<Rightarrow> real" where
  "read_role pr s role = od_read s (fst (role_key pr role)) (snd (role_key pr role))"

definition write_role :: "servo_profile \<Rightarrow> string \<Rightarrow> real \<Rightarrow> servo \<Rightarrow> servo" where
  "write_role pr role v = od_write (fst (role_key pr role)) (snd (role_key pr role)) v"

definition controlword :: "servo \<Rightarrow> int" where
  "controlword s = py_int (od_read s 0x6040 0)"

definition new_servo :: "servo_profile \<Rightarrow> real \<Rightarrow> servo_od \<Rightarrow> servo" where
  "new_servo pr ct dict =
     (let s = \<lparr>sv_cycle_time = ct, kp = 5, od = dict, sm = cia402_init, actual_position = 0,
               actual_velocity = 0, target_reached = False, window_counter = 0,
               previous_controlword = 0, pp_active = False, pp_target_position = 0,
               pp_setpoint_ack = False, halt_active = False, homing_active = False,
               homing_counter = 0, homing_referenced = False, homing_error = False,
               software_limit_warning = False, position_target_rejected = False,
               last_mode_command = 0, last_target_position_command = 0,
               last_device_reset_command = 0, last_parameter_save_command = 0\<rparr>
      in s\<lparr>last_mode_command := py_int (read_role pr s ''mode_of_operation''),
           last_target_position_command := read_role pr s ''target_position'',
           last_device_reset_command := py_int (read_role pr s ''device_reset_command''),
           last_parameter_save_command := py_int (read_role pr s ''parameter_save_command'')\<rparr>)"

subsection \<open>Units and limits\<close>

definition servo_scale_from_exponent :: "int \<Rightarrow> real" where
  "servo_scale_from_exponent e = (if e > 0 then 10 powi (- e) else 10 powi e)"

definition unit_scale :: "servo \<Rightarrow> int \<Rightarrow> real" where
  "unit_scale s subindex =
     (case od s (0x2194, subindex) of
        None \<Rightarrow> 1 | Some v \<Rightarrow> servo_scale_from_exponent (py_int v))"

definition position_scale :: "servo \<Rightarrow> real" where
  "position_scale s = max (unit_scale s 0x01) (1 / 10 ^ 12)"

definition velocity_scale :: "servo \<Rightarrow> real" where
  "velocity_scale s = max (unit_scale s 0x02) (1 / 10 ^ 12)"

definition acceleration_scale :: "servo \<Rightarrow> real" where
  "acceleration_scale s = max (unit_scale s 0x03) (1 / 10 ^ 12)"

definition velocity_to_position_rate :: "servo \<Rightarrow> real \<Rightarrow> real" where
  "velocity_to_position_rate s v = v * velocity_scale s / position_scale s"

definition position_rate_to_velocity :: "servo \<Rightarrow> real \<Rightarrow> real" where
  "position_rate_to_velocity s r = r * position_scale s / velocity_scale s"

definition acceleration_to_position_rate :: "servo \<Rightarrow> real \<Rightarrow> real" where
  "acceleration_to_position_rate s a = a * acceleration_scale s / position_scale s"

definition acceleration_to_velocity_delta :: "servo \<Rightarrow> real \<Rightarrow> real \<Rightarrow> real" where
  "acceleration_to_velocity_delta s a dt = a * acceleration_scale s / velocity_scale s * dt"

definition move_towards :: "real \<Rightarrow> real \<Rightarrow> real \<Rightarrow> real" where
  "move_towards current target max_delta =
     (if max_delta \<le> 0 then current
      else let delta = target - current
           in if \<bar>delta\<bar> \<le> max_delta then target
              else current + max_delta * (if delta > 0 then 1 else - 1))"

definition software_position_limits :: "servo \<Rightarrow> real \<times> real" where
  "software_position_limits s =
     (let negative_limit = od_read s 0x607D 1; positive_limit = od_read s 0x607D 2
      in if negative_limit > positive_limit then (positive_limit, negative_limit)
         else (negative_limit, positive_limit))"

definition position_target_is_within_software_limits :: "servo \<Rightarrow> real \<Rightarrow> bool" where
  "position_target_is_within_software_limits s position =
     (let (negative_limit, positive_limit) = software_position_limits s
      in negative_limit \<le> position \<and> position \<le> positive_limit)"

definition actual_position_exceeds_software_limits :: "servo \<Rightarrow> bool" where
  "actual_position_exceeds_software_limits s =
     (let (negative_limit, positive_limit) = software_position_limits s
      in actual_position s < negative_limit \<or> actual_position s > positive_limit)"

definition software_limit_is_active :: "servo \<Rightarrow> bool" where
  "software_limit_is_active s \<longleftrightarrow>
     software_limit_warning s \<or> actual_position_exceeds_software_limits s"

definition is_moving :: "servo \<Rightarrow> bool" where
  "is_moving s \<longleftrightarrow> \<bar>actual_velocity s\<bar> > 1 / 10 ^ 9 \<or> pp_active s \<or> homing_active s"

subsection \<open>Commands\<close>

definition write_actual_feedback :: "servo \<Rightarrow> servo" where
  "write_actual_feedback s =
     od_write 0x606C 0 (actual_velocity s) (od_write 0x6064 0 (actual_position s) s)"

definition stop_at_current_position :: "servo \<Rightarrow> servo" where
  "stop_at_current_position s =
     (let s1 = s\<lparr>actual_velocity := 0, pp_active := False, pp_target_position := actual_position s\<rparr>;
          s2 = od_write 0x607A 0 (actual_position s1) s1;
          s3 = s2\<lparr>last_target_position_command := actual_position s2\<rparr>
      in (write_actual_feedback s3)\<lparr>window_counter := 0, target_reached := True\<rparr>)"

definition set_mode :: "int \<Rightarrow> int option \<Rightarrow> servo \<Rightarrow> servo" where
  "set_mode next_mode previous_mode s =
     (let current_mode = (case previous_mode of None \<Rightarrow> py_int (od_read s 0x6060 0) | Some m \<Rightarrow> m);
          s1 = (if next_mode \<noteq> current_mode then
                  (let s' = stop_at_current_position s
                   in if next_mode \<noteq> 6 then s'\<lparr>homing_active := False, homing_error := False\<rparr> else s')
                else s)
      in (od_write 0x6061 0 (of_int next_mode) (od_write 0x6060 0 (of_int next_mode) s1))
           \<lparr>last_mode_command := next_mode\<rparr>)"

definition position_command_requires_reference :: "servo \<Rightarrow> bool" where
  "position_command_requires_reference s \<longleftrightarrow> py_int (od_read s 0x6060 0) \<in> {1, 8}"

definition servo_set_target_position :: "real \<Rightarrow> real option \<Rightarrow> servo \<Rightarrow> servo" where
  "servo_set_target_position position previous_target s =
     (if position_command_requires_reference s \<and> \<not> homing_referenced s then
        (case previous_target of
           None \<Rightarrow> s
         | Some p \<Rightarrow> (od_write 0x607A 0 p s)\<lparr>last_target_position_command := p\<rparr>)
      else if \<not> position_target_is_within_software_limits s position then
        (stop_at_current_position (s\<lparr>software_limit_warning := True, position_target_rejected := True\<rparr>))
          \<lparr>target_reached := False\<rparr>
      else
        let s1 = s\<lparr>position_target_rejected := False\<rparr>;
            s2 = (if \<not> actual_position_exceeds_software_limits s1
                  then s1\<lparr>software_limit_warning := False\<rparr> else s1);
            current_target = (case previous_target of None \<Rightarrow> od_read s2 0x607A 0 | Some p \<Rightarrow> p);
            s3 = (if position \<noteq> current_target
                  then s2\<lparr>target_reached := False, window_counter := 0\<rparr> else s2)
        in (od_write 0x607A 0 position s3)\<lparr>last_target_position_command := position\<rparr>)"

definition reset_values :: "(od_key \<times> real) list \<Rightarrow> servo \<Rightarrow> servo" where
  "reset_values kvs s = fold (\<lambda>((i, j), v). od_write i j v) kvs s"

definition apply_device_reset_response :: "servo_profile \<Rightarrow> servo \<Rightarrow> servo" where
  "apply_device_reset_response pr s =
     (let current_position = read_role pr s ''actual_position'';
          s1 = reset_values (pdo_defaults pr) (reset_values (non_pdo_values pr) s);
          s2 = write_role pr ''target_position'' current_position s1;
          s3 = write_role pr ''actual_position'' current_position s2;
          s4 = write_role pr ''statusword'' 0x0027 s3;
          s5 = write_role pr ''mode_of_operation_display'' (read_role pr s4 ''mode_of_operation'') s4
      in s5\<lparr>last_mode_command := py_int (read_role pr s5 ''mode_of_operation''),
            last_target_position_command := read_role pr s5 ''target_position''\<rparr>)"

definition apply_od_commands :: "servo_profile \<Rightarrow> servo \<Rightarrow> servo" where
  "apply_od_commands pr s =
     (let device_reset_command = py_int (read_role pr s ''device_reset_command'');
          s1 = (if device_reset_command \<noteq> last_device_reset_command s \<and> device_reset_command = 1
                then apply_device_reset_response pr s else s);
          s2 = s1\<lparr>last_device_reset_command := device_reset_command\<rparr>;
          parameter_save_command = py_int (read_role pr s2 ''parameter_save_command'');
          s3 = (if parameter_save_command \<noteq> last_parameter_save_command s2
                   \<and> parameter_save_command = 1
                then write_role pr ''parameter_save_return_value'' 1
                       (write_role pr ''parameter_save_return_code'' 0
                         (write_role pr ''parameter_save_status'' 0 s2))
                else s2);
          s4 = s3\<lparr>last_parameter_save_command := parameter_save_command\<rparr>;
          requested_mode = py_int (read_role pr s4 ''mode_of_operation'');
          requested_target = read_role pr s4 ''target_position'';
          s5 = (if requested_mode \<noteq> last_mode_command s4
                then set_mode requested_mode (Some (last_mode_command s4)) s4 else s4)
      in if requested_target \<noteq> last_target_position_command s5
         then servo_set_target_position requested_target (Some (last_target_position_command s5)) s5
         else s5)"

definition set_software_position_limits :: "real \<Rightarrow> real \<Rightarrow> servo \<Rightarrow> servo" where
  "set_software_position_limits n p s = od_write 0x607D 2 p (od_write 0x607D 1 n s)"

definition is_in_position :: "servo \<Rightarrow> bool" where
  "is_in_position s \<longleftrightarrow>
     \<bar>od_read s 0x607A 0 - od_read s 0x6064 0\<bar> \<le> od_read s 0x6067 0"

definition update_target_reached :: "servo \<Rightarrow> servo" where
  "update_target_reached s =
     (let s1 = (if is_in_position s then s\<lparr>window_counter := window_counter s + 1\<rparr>
                else s\<lparr>window_counter := 0, target_reached := False\<rparr>);
          required_count = max 1 (py_int (od_read s1 0x6068 0 / (sv_cycle_time s1 * 1000)))
      in if window_counter s1 \<ge> required_count then s1\<lparr>target_reached := True\<rparr> else s1)"

subsection \<open>Motion in one cycle\<close>

text \<open>The statements every mode ends its velocity ramp with: the new velocity moves the position for
  one cycle.\<close>

definition integrate :: "real \<Rightarrow> servo \<Rightarrow> servo" where
  "integrate v s =
     s\<lparr>actual_velocity := v,
       actual_position := actual_position s + velocity_to_position_rate s v * sv_cycle_time s\<rparr>"

definition decelerate_to_stop :: "servo \<Rightarrow> servo" where
  "decelerate_to_stop s =
     integrate (move_towards (actual_velocity s) 0
       (acceleration_to_velocity_delta s \<bar>od_read s 0x6084 0\<bar> (sv_cycle_time s))) s"

text \<open>The acceleration (0x6083) or deceleration (0x6084) that limits the change to \<open>target\<close>, as the
  largest change of velocity in one cycle.\<close>

definition ramp_delta :: "servo \<Rightarrow> real \<Rightarrow> real" where
  "ramp_delta s target =
     acceleration_to_velocity_delta s
       (if \<bar>target\<bar> > \<bar>actual_velocity s\<bar> then od_read s 0x6083 0 else od_read s 0x6084 0)
       (sv_cycle_time s)"

definition start_bit :: "servo \<Rightarrow> bool" where
  "start_bit s \<longleftrightarrow> has_bit (controlword s) 4 \<and> \<not> has_bit (previous_controlword s) 4"

definition process_homing :: "servo \<Rightarrow> servo" where
  "process_homing s =
     (if get_statusword (sm s) \<noteq> 0x0027 then s
      else
        let s1 = (if start_bit s then
                    (write_actual_feedback
                       (s\<lparr>homing_active := True,
                          homing_counter := max 1 (py_int (0.1 / sv_cycle_time s)),
                          homing_referenced := False, homing_error := False,
                          actual_velocity := 0\<rparr>))\<lparr>target_reached := False\<rparr>
                  else s)
        in if \<not> homing_active s1 then s1
           else
             let s2 = s1\<lparr>homing_counter := homing_counter s1 - 1\<rparr>
             in if homing_counter s2 > 0 then s2
                else
                  let s3 = s2\<lparr>actual_position := 0, actual_velocity := 0\<rparr>;
                      s4 = write_actual_feedback (od_write 0x607A 0 (actual_position s3) s3)
                  in s4\<lparr>target_reached := True, homing_active := False, homing_referenced := True\<rparr>)"

text \<open>The velocity limit of a position move towards \<open>target\<close>.\<close>

definition position_max_velocity :: "servo \<Rightarrow> real \<Rightarrow> real" where
  "position_max_velocity s target =
     (let profile_vel = \<bar>od_read s 0x6081 0\<bar>;
          positive_limit = \<bar>od_read s 0x607F 0\<bar>;
          negative_limit = \<bar>od_read s 0x2183 0x0C * 1000\<bar>;
          max_profile_vel = (if target < actual_position s \<and> negative_limit > 0
                             then negative_limit else positive_limit)
      in if max_profile_vel > 0 then min profile_vel max_profile_vel else profile_vel)"

text \<open>The velocity of a profile position move in the next cycle.\<close>

definition pp_velocity :: "servo \<Rightarrow> real" where
  "pp_velocity s =
     (let target = pp_target_position s;
          max_vel = position_max_velocity s target;
          accel = \<bar>od_read s 0x6083 0\<bar>;
          decel = \<bar>od_read s 0x6084 0\<bar>;
          error = target - actual_position s;
          direction = (if error \<ge> 0 then 1 else - 1);
          velocity_toward_target = actual_velocity s * direction;
          position_velocity_toward_target =
            velocity_to_position_rate s (actual_velocity s) * direction;
          decel_position_rate = acceleration_to_position_rate s decel;
          stopping_distance =
            (if decel_position_rate > 0
             then (max position_velocity_toward_target 0) ^ 2 / (2 * decel_position_rate)
             else 0);
          (desired_velocity, velocity_limit) =
            (if velocity_toward_target < 0 then (0, decel)
             else if \<bar>error\<bar> \<le> stopping_distance then (0, decel)
             else (direction * max_vel, accel))
      in move_towards (actual_velocity s) desired_velocity
           (acceleration_to_velocity_delta s velocity_limit (sv_cycle_time s)))"

definition pp_in_window :: "servo \<Rightarrow> bool" where
  "pp_in_window s \<longleftrightarrow>
     \<bar>pp_target_position s - actual_position s\<bar> \<le> \<bar>od_read s 0x6067 0\<bar> \<and>
     \<bar>actual_velocity s\<bar> \<le>
       max (acceleration_to_velocity_delta s \<bar>od_read s 0x6084 0\<bar> (sv_cycle_time s)) (1 / 10 ^ 9)"

definition pp_arrive :: "servo \<Rightarrow> servo" where
  "pp_arrive s = s\<lparr>actual_position := pp_target_position s, actual_velocity := 0, pp_active := False\<rparr>"

text \<open>The part of \<open>process_pp\<close> after the set-point has been taken over.\<close>

definition pp_move :: "servo \<Rightarrow> servo" where
  "pp_move s =
     update_target_reached (write_actual_feedback
       (if pp_in_window s then pp_arrive s
        else
          let target = pp_target_position s; s1 = integrate (pp_velocity s) s
          in if target - actual_position s = 0
                \<or> (target - actual_position s) * (target - actual_position s1) \<le> 0
             then pp_arrive s else s1))"

definition process_pp :: "servo \<Rightarrow> servo" where
  "process_pp s =
     (if get_statusword (sm s) \<noteq> 0x0027 then s
      else if halt_active s then
        (let s1 = write_actual_feedback
                    (decelerate_to_stop (s\<lparr>pp_active := False, pp_setpoint_ack := False\<rparr>))
         in s1\<lparr>target_reached := (\<bar>actual_velocity s1\<bar> \<le> 1 / 10 ^ 9)\<rparr>)
      else if \<not> homing_referenced s then
        write_actual_feedback (decelerate_to_stop
          (s\<lparr>pp_active := False, pp_setpoint_ack := False, target_reached := False\<rparr>))
      else if start_bit s \<and> position_target_rejected s then
        write_actual_feedback (decelerate_to_stop
          (s\<lparr>pp_active := False, pp_setpoint_ack := False\<rparr>))
      else
        let s1 = (if start_bit s then
                    s\<lparr>pp_target_position := od_read s 0x607A 0, pp_active := True,
                      target_reached := False, window_counter := 0\<rparr>
                  else s);
            s2 = s1\<lparr>pp_setpoint_ack := has_bit (controlword s1) 4\<rparr>
        in if \<not> pp_active s2
           then update_target_reached (write_actual_feedback (decelerate_to_stop s2))
           else pp_move s2)"

definition pv_target_velocity :: "servo \<Rightarrow> real" where
  "pv_target_velocity s =
     (let target_velocity = (if halt_active s then 0 else od_read s 0x60FF 0);
          positive_limit = \<bar>od_read s 0x607F 0\<bar>;
          negative_limit = \<bar>od_read s 0x2183 0x0C * 1000\<bar>
      in if target_velocity \<ge> 0 \<and> positive_limit > 0 then min target_velocity positive_limit
         else if target_velocity < 0 \<and> negative_limit > 0 then max target_velocity (- negative_limit)
         else target_velocity)"

definition process_pv :: "servo \<Rightarrow> servo" where
  "process_pv s =
     (if get_statusword (sm s) \<noteq> 0x0027 then s
      else
        let target_velocity = pv_target_velocity s;
            delta = ramp_delta s target_velocity;
            s1 = write_actual_feedback
                   (integrate (move_towards (actual_velocity s) target_velocity delta) s)
        in s1\<lparr>target_reached :=
                (\<bar>actual_velocity s1 - target_velocity\<bar> \<le> max delta (1 / 10 ^ 9))\<rparr>)"

definition jog_velocity_limit :: "servo \<Rightarrow> int \<Rightarrow> real" where
  "jog_velocity_limit s cw =
     (let profile_velocity = \<bar>od_read s 0x6081 0\<bar>;
          positive_limit = \<bar>od_read s 0x607F 0\<bar>;
          negative_limit = \<bar>od_read s 0x2183 0x0C * 1000\<bar>;
          configured_limits = filter (\<lambda>v. v > 0) [profile_velocity, positive_limit, negative_limit];
          max_velocity = (if configured_limits \<noteq> [] then Min (set configured_limits) else 0);
          speed_factor = (if has_bit cw 12 then 1 else if has_bit cw 11 then 0.25 else 0.5)
      in max_velocity * speed_factor)"

definition limit_jog_velocity_at_software_limit :: "servo \<Rightarrow> real \<Rightarrow> real" where
  "limit_jog_velocity_at_software_limit s target_velocity =
     (if \<bar>target_velocity\<bar> \<le> 1 / 10 ^ 12 then 0
      else let (negative_limit, positive_limit) = software_position_limits s
           in if target_velocity > 0 \<and> actual_position s \<ge> positive_limit then 0
              else if target_velocity < 0 \<and> actual_position s \<le> negative_limit then 0
              else target_velocity)"

definition jog_target_velocity :: "servo \<Rightarrow> real" where
  "jog_target_velocity s =
     (let cw = controlword s; positive = has_bit cw 4; negative = has_bit cw 5
      in limit_jog_velocity_at_software_limit s
           (if positive = negative \<or> halt_active s then 0
            else (if positive then 1 else - 1) * jog_velocity_limit s cw))"

definition process_jog :: "servo \<Rightarrow> servo" where
  "process_jog s =
     (if get_statusword (sm s) \<noteq> 0x0027 then s
      else
        let target_velocity = jog_target_velocity s;
            s1 = write_actual_feedback
                   (integrate (move_towards (actual_velocity s) target_velocity
                                 (ramp_delta s target_velocity)) s)
        in s1\<lparr>target_reached := (\<bar>actual_velocity s1\<bar> \<le> 1 / 10 ^ 9)\<rparr>)"

definition csp_velocity :: "servo \<Rightarrow> real" where
  "csp_velocity s =
     (let target = od_read s 0x607A 0;
          max_vel = position_max_velocity s target;
          error = target - actual_position s;
          desired_velocity =
            max (min (position_rate_to_velocity s (kp s * error)) max_vel) (- max_vel);
          max_delta_v = ramp_delta s desired_velocity
      in actual_velocity s
           + max (min (desired_velocity - actual_velocity s) max_delta_v) (- max_delta_v))"

definition process_csp :: "servo \<Rightarrow> servo" where
  "process_csp s =
     (if get_statusword (sm s) \<noteq> 0x0027 then s
      else if halt_active s then
        (let s1 = write_actual_feedback (decelerate_to_stop s)
         in s1\<lparr>target_reached := (\<bar>actual_velocity s1\<bar> \<le> 1 / 10 ^ 9)\<rparr>)
      else if \<not> homing_referenced s then
        write_actual_feedback (decelerate_to_stop (s\<lparr>target_reached := False\<rparr>))
      else update_target_reached (write_actual_feedback (integrate (csp_velocity s) s)))"

subsection \<open>The cycle\<close>

definition run_mode :: "int \<Rightarrow> servo \<Rightarrow> servo" where
  "run_mode mode s =
     (if mode = 1 then process_pp s
      else if mode = 3 then process_pv s
      else if mode = 8 then process_csp s
      else if mode = 6 then process_homing s
      else if mode = - 3 then process_jog s
      else s)"

definition status_bits :: "int \<Rightarrow> servo \<Rightarrow> int" where
  "status_bits mode s =
     (let w0 = get_statusword (sm s);
          w1 = (if target_reached s then with_bit w0 10 else w0);
          w2 = (if pp_setpoint_ack s then with_bit w1 12 else w1);
          w3 = (if is_moving s then with_bit w2 8 else w2);
          w4 = (if software_limit_is_active s then with_bit (with_bit w3 7) 11 else w3);
          w5 = (if homing_referenced s then with_bit w4 15 else w4)
      in if mode = 6 \<and> homing_error s then with_bit w5 3 else w5)"

definition process_cycle :: "servo \<Rightarrow> servo" where
  "process_cycle s =
     (let cw = controlword s;
          was_operation_enabled = (get_statusword (sm s) = 0x0027);
          s1 = s\<lparr>halt_active := has_bit cw 8, sm := process (sm s) cw\<rparr>;
          is_operation_enabled = (get_statusword (sm s1) = 0x0027);
          s2 = (if was_operation_enabled \<and> \<not> is_operation_enabled
                then stop_at_current_position s1 else s1);
          mode = py_int (od_read s2 0x6060 0);
          s3 = run_mode mode s2
      in (od_write 0x6041 0 (of_int (status_bits mode s3)) s3)\<lparr>previous_controlword := cw\<rparr>)"

definition model_update :: "servo_profile \<Rightarrow> servo \<Rightarrow> servo" where
  "model_update pr s = process_cycle (apply_od_commands pr s)"

subsection \<open>What the operations leave alone\<close>

lemma od_write_frame [simp]:
  "actual_position (od_write i j v s) = actual_position s" "actual_velocity (od_write i j v s) = actual_velocity s"
  "sm (od_write i j v s) = sm s" "pp_active (od_write i j v s) = pp_active s"
  "homing_referenced (od_write i j v s) = homing_referenced s" "homing_active (od_write i j v s) = homing_active s"
  "homing_counter (od_write i j v s) = homing_counter s" "homing_error (od_write i j v s) = homing_error s"
  "sv_cycle_time (od_write i j v s) = sv_cycle_time s" "kp (od_write i j v s) = kp s"
  "halt_active (od_write i j v s) = halt_active s" "previous_controlword (od_write i j v s) = previous_controlword s"
  "position_target_rejected (od_write i j v s) = position_target_rejected s"
  "target_reached (od_write i j v s) = target_reached s" "window_counter (od_write i j v s) = window_counter s"
  "pp_setpoint_ack (od_write i j v s) = pp_setpoint_ack s"
  "software_limit_warning (od_write i j v s) = software_limit_warning s"
  by (simp_all add: od_write_def)

lemma od_read_write [simp]:
  "od_read (od_write i j v s) i' j' = (if i' = i \<and> j' = j then v else od_read s i' j')"
  by (simp add: od_read_def od_write_def)

lemma write_actual_feedback_frame [simp]:
  "actual_position (write_actual_feedback s) = actual_position s"
  "actual_velocity (write_actual_feedback s) = actual_velocity s"
  "sm (write_actual_feedback s) = sm s" "pp_active (write_actual_feedback s) = pp_active s"
  "homing_referenced (write_actual_feedback s) = homing_referenced s"
  "homing_active (write_actual_feedback s) = homing_active s"
  "homing_counter (write_actual_feedback s) = homing_counter s"
  "homing_error (write_actual_feedback s) = homing_error s"
  "sv_cycle_time (write_actual_feedback s) = sv_cycle_time s"
  "previous_controlword (write_actual_feedback s) = previous_controlword s"
  by (simp_all add: write_actual_feedback_def)

lemma update_target_reached_frame [simp]:
  "actual_position (update_target_reached s) = actual_position s"
  "actual_velocity (update_target_reached s) = actual_velocity s"
  "sm (update_target_reached s) = sm s" "pp_active (update_target_reached s) = pp_active s"
  "homing_referenced (update_target_reached s) = homing_referenced s"
  "homing_error (update_target_reached s) = homing_error s"
  by (simp_all add: update_target_reached_def Let_def)

lemma stop_at_current_position_effect [simp]:
  "actual_position (stop_at_current_position s) = actual_position s"
  "actual_velocity (stop_at_current_position s) = 0"
  "sm (stop_at_current_position s) = sm s" "pp_active (stop_at_current_position s) = False"
  "homing_referenced (stop_at_current_position s) = homing_referenced s"
  "homing_error (stop_at_current_position s) = homing_error s"
  "position_target_rejected (stop_at_current_position s) = position_target_rejected s"
  by (simp_all add: stop_at_current_position_def write_actual_feedback_def Let_def)

lemma reset_values_frame [simp]:
  "actual_position (reset_values kvs s) = actual_position s"
  "actual_velocity (reset_values kvs s) = actual_velocity s" "sm (reset_values kvs s) = sm s"
  by (induction kvs arbitrary: s) (auto simp: reset_values_def)

lemma write_role_frame [simp]:
  "actual_position (write_role pr r v s) = actual_position s"
  "actual_velocity (write_role pr r v s) = actual_velocity s" "sm (write_role pr r v s) = sm s"
  by (simp_all add: write_role_def)

text \<open>Taking over the commands of the dictionary never moves the drive: the position and the power
  state stay, and the velocity stays or becomes zero.\<close>

lemma set_mode_effect:
  "actual_position (set_mode m p s) = actual_position s" "sm (set_mode m p s) = sm s"
  "actual_velocity (set_mode m p s) = actual_velocity s \<or> actual_velocity (set_mode m p s) = 0"
  by (simp_all add: set_mode_def Let_def)

lemma set_target_effect:
  "actual_position (servo_set_target_position x p s) = actual_position s"
  "sm (servo_set_target_position x p s) = sm s"
  "actual_velocity (servo_set_target_position x p s) = actual_velocity s
   \<or> actual_velocity (servo_set_target_position x p s) = 0"
  by (simp_all add: servo_set_target_position_def Let_def split: option.split)

lemma device_reset_effect [simp]:
  "actual_position (apply_device_reset_response pr s) = actual_position s"
  "sm (apply_device_reset_response pr s) = sm s"
  "actual_velocity (apply_device_reset_response pr s) = actual_velocity s"
  by (simp_all add: apply_device_reset_response_def Let_def)

definition still :: "servo \<Rightarrow> servo \<Rightarrow> bool" where
  "still s t \<longleftrightarrow> actual_position t = actual_position s \<and> sm t = sm s \<and>
     (actual_velocity t = actual_velocity s \<or> actual_velocity t = 0)"

lemma still_refl: "still s s"
  by (simp add: still_def)

lemma still_trans: "still s t \<Longrightarrow> still t u \<Longrightarrow> still s u"
  by (auto simp: still_def)

lemma still_if: "still s t \<Longrightarrow> still s u \<Longrightarrow> still s (if c then t else u)"
  by simp

lemma still_steps:
  "still s t \<Longrightarrow> still s (set_mode m p t)"
  "still s t \<Longrightarrow> still s (servo_set_target_position x p' t)"
  "still s t \<Longrightarrow> still s (apply_device_reset_response pr t)"
  "still s t \<Longrightarrow> still s (write_role pr r v t)"
  "still s t \<Longrightarrow> still s (t\<lparr>last_device_reset_command := i\<rparr>)"
  "still s t \<Longrightarrow> still s (t\<lparr>last_parameter_save_command := i\<rparr>)"
  using set_mode_effect [of m p t] set_target_effect [of x p' t] by (auto simp: still_def)

lemma apply_od_commands_still: "still s (apply_od_commands pr s)"
  unfolding apply_od_commands_def Let_def
  by (intro still_if still_steps still_refl)

lemma enabled_statusword [simp]: "get_statusword st = 0x0027 \<longleftrightarrow> st = OPERATION_ENABLED"
  by (cases st) simp_all

subsection \<open>A drive that stands unless enabled\<close>

text \<open>What a supervisor of drives relies on. A drive is cycled and its dictionary is written from
  outside; when it is not enabled after a cycle, the cycle has not moved it and left it without
  velocity. It follows that a drive that is never enabled never moves.\<close>

inductive drive_run :: "('s \<Rightarrow> 's) \<Rightarrow> ('s \<Rightarrow> 's \<Rightarrow> bool) \<Rightarrow> 's \<Rightarrow> 's list \<Rightarrow> 's \<Rightarrow> bool"
  for cyc ext where
  stop: "drive_run cyc ext s [] s"
| cycled: "drive_run cyc ext (cyc s) ss t \<Longrightarrow> drive_run cyc ext s (cyc s # ss) t"
| written: "ext s s' \<Longrightarrow> drive_run cyc ext s' ss t \<Longrightarrow> drive_run cyc ext s ss t"

locale standing_drive =
  fixes cyc :: "'s \<Rightarrow> 's" and ext :: "'s \<Rightarrow> 's \<Rightarrow> bool"
    and enabled :: "'s \<Rightarrow> bool" and pos vel :: "'s \<Rightarrow> real"
  assumes cyc_stands: "(\<not> enabled s \<longrightarrow> vel s = 0) \<Longrightarrow> \<not> enabled (cyc s) \<Longrightarrow>
      pos (cyc s) = pos s \<and> vel (cyc s) = 0"
    and ext_frame: "ext s s' \<Longrightarrow> enabled s' = enabled s \<and> pos s' = pos s \<and> vel s' = vel s"
begin

lemma velocity_inv:
  "drive_run cyc ext s ss t \<Longrightarrow> \<not> enabled s \<longrightarrow> vel s = 0 \<Longrightarrow> \<not> enabled t \<longrightarrow> vel t = 0"
  by (induction rule: drive_run.induct) (use cyc_stands ext_frame in auto)

lemma never_enabled_never_moves:
  "drive_run cyc ext s ss t \<Longrightarrow> vel s = 0 \<Longrightarrow> \<forall>u \<in> set ss. \<not> enabled u \<Longrightarrow> pos t = pos s \<and> vel t = 0"
proof (induction rule: drive_run.induct)
  case (cycled s ss t)
  with cyc_stands [of s] show ?case by simp
qed (use ext_frame in auto)

end

lemma move_towards_zero: "\<bar>move_towards v 0 d\<bar> \<le> \<bar>v\<bar>"
  by (auto simp: move_towards_def Let_def)

lemma move_towards_between:
  "min v w \<le> move_towards v w d" "move_towards v w d \<le> max v w"
  by (auto simp: move_towards_def Let_def min_def max_def)

lemma run_mode_disabled: "sm s \<noteq> OPERATION_ENABLED \<Longrightarrow> run_mode mode s = s"
  by (simp add: run_mode_def process_pp_def process_pv_def process_csp_def process_homing_def
      process_jog_def)

definition before_mode :: "servo \<Rightarrow> servo" where
  "before_mode s =
     (let s1 = s\<lparr>halt_active := has_bit (controlword s) 8, sm := process (sm s) (controlword s)\<rparr>
      in if sm s = OPERATION_ENABLED \<and> sm s1 \<noteq> OPERATION_ENABLED
         then stop_at_current_position s1 else s1)"

lemma process_cycle_unfold:
  "process_cycle s =
     (let s2 = before_mode s; mode = py_int (od_read s2 0x6060 0); s3 = run_mode mode s2
      in (od_write 0x6041 0 (of_int (status_bits mode s3)) s3)\<lparr>previous_controlword := controlword s\<rparr>)"
  by (simp add: process_cycle_def before_mode_def Let_def)

lemma before_mode_frame:
  "sm (before_mode s) = process (sm s) (controlword s)"
  "actual_position (before_mode s) = actual_position s"
  "\<bar>actual_velocity (before_mode s)\<bar> \<le> \<bar>actual_velocity s\<bar>"
  "homing_referenced (before_mode s) = homing_referenced s"
  "homing_error (before_mode s) = homing_error s"
  "position_target_rejected (before_mode s) = position_target_rejected s"
  "pp_active (before_mode s) \<Longrightarrow> pp_active s"
  by (auto simp: before_mode_def Let_def split: if_splits)

lemma integrate_frame [simp]:
  "sm (integrate v s) = sm s" "actual_velocity (integrate v s) = v"
  "pp_active (integrate v s) = pp_active s" "homing_referenced (integrate v s) = homing_referenced s"
  "homing_error (integrate v s) = homing_error s"
  by (simp_all add: integrate_def)

lemma decelerate_frame [simp]: "sm (decelerate_to_stop s) = sm s"
  "pp_active (decelerate_to_stop s) = pp_active s"
  "homing_referenced (decelerate_to_stop s) = homing_referenced s"
  "homing_error (decelerate_to_stop s) = homing_error s"
  by (simp_all add: decelerate_to_stop_def)

lemma pp_move_sm [simp]: "sm (pp_move s) = sm s"
  by (simp add: pp_move_def Let_def pp_arrive_def)

lemma process_sm [simp]:
  "sm (process_pp s) = sm s" "sm (process_pv s) = sm s" "sm (process_csp s) = sm s"
  "sm (process_homing s) = sm s" "sm (process_jog s) = sm s"
  by (simp_all add: process_pp_def process_pv_def process_csp_def process_homing_def process_jog_def
      Let_def)

lemma run_mode_sm: "sm (run_mode mode s) = sm s"
  by (simp add: run_mode_def)

lemma process_cycle_sm: "sm (process_cycle s) = process (sm s) (controlword s)"
  by (simp add: process_cycle_unfold Let_def run_mode_sm before_mode_frame)

lemma process_cycle_stands:
  assumes "sm (process_cycle s) \<noteq> OPERATION_ENABLED" "sm s \<noteq> OPERATION_ENABLED \<longrightarrow> actual_velocity s = 0"
  shows "actual_position (process_cycle s) = actual_position s" "actual_velocity (process_cycle s) = 0"
proof -
  have sm: "sm (before_mode s) \<noteq> OPERATION_ENABLED"
    using assms(1) by (simp add: process_cycle_sm before_mode_frame)
  have "actual_velocity (before_mode s) = 0"
    using assms(2) sm [unfolded before_mode_frame] by (auto simp: before_mode_def Let_def)
  then show "actual_position (process_cycle s) = actual_position s" "actual_velocity (process_cycle s) = 0"
    using run_mode_disabled [OF sm] by (simp_all add: process_cycle_unfold Let_def before_mode_frame)
qed

definition od_changed :: "servo \<Rightarrow> servo \<Rightarrow> bool" where
  "od_changed s s' \<longleftrightarrow> (\<exists>d. s' = s\<lparr>od := d\<rparr>)"

interpretation servo_stands: standing_drive "model_update pr" od_changed
  "\<lambda>s. sm s = OPERATION_ENABLED" actual_position actual_velocity
  for pr
proof unfold_locales
  fix s assume v: "\<not> sm s = OPERATION_ENABLED \<longrightarrow> actual_velocity s = 0"
    and d: "\<not> sm (model_update pr s) = OPERATION_ENABLED"
  let ?a = "apply_od_commands pr s"
  have st: "still s ?a" by (rule apply_od_commands_still)
  have "sm ?a \<noteq> OPERATION_ENABLED \<longrightarrow> actual_velocity ?a = 0" using st v by (auto simp: still_def)
  with process_cycle_stands [of ?a] d st
  show "actual_position (model_update pr s) = actual_position s \<and> actual_velocity (model_update pr s) = 0"
    by (simp add: model_update_def still_def)
qed (auto simp: od_changed_def)

subsection \<open>Velocities\<close>

lemma decelerate_velocity: "\<bar>actual_velocity (decelerate_to_stop s)\<bar> \<le> \<bar>actual_velocity s\<bar>"
  by (simp add: decelerate_to_stop_def move_towards_zero)

lemma decelerate_cong_velocity:
  "\<bar>actual_velocity (decelerate_to_stop (s\<lparr>pp_active := a, pp_setpoint_ack := b\<rparr>))\<bar> \<le> \<bar>actual_velocity s\<bar>"
  "\<bar>actual_velocity (decelerate_to_stop (s\<lparr>pp_active := a, pp_setpoint_ack := b, target_reached := c\<rparr>))\<bar>
     \<le> \<bar>actual_velocity s\<bar>"
  "\<bar>actual_velocity (decelerate_to_stop (s\<lparr>target_reached := c\<rparr>))\<bar> \<le> \<bar>actual_velocity s\<bar>"
  "\<bar>actual_velocity (decelerate_to_stop (s\<lparr>pp_setpoint_ack := b\<rparr>))\<bar> \<le> \<bar>actual_velocity s\<bar>"
  using decelerate_velocity [of "s\<lparr>pp_active := a, pp_setpoint_ack := b\<rparr>"]
    decelerate_velocity [of "s\<lparr>pp_active := a, pp_setpoint_ack := b, target_reached := c\<rparr>"]
    decelerate_velocity [of "s\<lparr>target_reached := c\<rparr>"]
    decelerate_velocity [of "s\<lparr>pp_setpoint_ack := b\<rparr>"] by simp_all

lemma position_max_velocity_bound:
  "0 \<le> position_max_velocity s t" "position_max_velocity s t \<le> \<bar>od_read s 0x6081 0\<bar>"
  by (simp_all add: position_max_velocity_def Let_def)

lemma move_towards_bounded: "\<bar>w\<bar> \<le> b \<Longrightarrow> \<bar>move_towards v w d\<bar> \<le> max \<bar>v\<bar> b"
  using move_towards_between [of v w d] by (auto simp: min_def max_def split: if_splits)

lemma pp_velocity_bound: "\<bar>pp_velocity s\<bar> \<le> max \<bar>actual_velocity s\<bar> \<bar>od_read s 0x6081 0\<bar>"
proof -
  have "\<exists>w d. pp_velocity s = move_towards (actual_velocity s) w d \<and>
      (w = 0 \<or> \<bar>w\<bar> = position_max_velocity s (pp_target_position s))"
    unfolding pp_velocity_def Let_def
    by (auto simp: abs_mult position_max_velocity_bound(1))
  then show ?thesis
    using move_towards_bounded position_max_velocity_bound(2) [of s "pp_target_position s"] by fastforce
qed

lemma clamped_ramp:
  fixes v w m :: real
  assumes "0 \<le> m" "\<bar>w\<bar> \<le> b"
  shows "\<bar>v + max (min (w - v) m) (- m)\<bar> \<le> max \<bar>v\<bar> b"
  using assms by (auto simp: min_def max_def abs_le_iff)

lemma scales_pos: "0 < position_scale s" "0 < velocity_scale s" "0 < acceleration_scale s"
  by (simp_all add: position_scale_def velocity_scale_def acceleration_scale_def less_max_iff_disj)

lemma ramp_delta_nonneg:
  assumes "0 \<le> od_read s 0x6083 0" "0 \<le> od_read s 0x6084 0" "0 \<le> sv_cycle_time s"
  shows "0 \<le> ramp_delta s t"
  using assms scales_pos [of s] by (simp add: ramp_delta_def acceleration_to_velocity_delta_def)

lemma csp_velocity_bound:
  assumes "0 \<le> od_read s 0x6083 0" "0 \<le> od_read s 0x6084 0" "0 \<le> sv_cycle_time s"
  shows "\<bar>csp_velocity s\<bar> \<le> max \<bar>actual_velocity s\<bar> \<bar>od_read s 0x6081 0\<bar>"
proof -
  let ?m = "position_max_velocity s (od_read s 0x607A 0)"
  have "\<bar>max (min x ?m) (- ?m)\<bar> \<le> \<bar>od_read s 0x6081 0\<bar>" for x
    using position_max_velocity_bound [of s "od_read s 0x607A 0"] by (auto simp: min_def max_def)
  then show ?thesis
    unfolding csp_velocity_def Let_def by (intro clamped_ramp ramp_delta_nonneg [OF assms])
qed

lemma process_csp_velocity:
  assumes "0 \<le> od_read s 0x6083 0" "0 \<le> od_read s 0x6084 0" "0 \<le> sv_cycle_time s"
  shows "\<bar>actual_velocity (process_csp s)\<bar> \<le> max \<bar>actual_velocity s\<bar> \<bar>od_read s 0x6081 0\<bar>"
    and "\<not> homing_referenced s \<Longrightarrow> \<bar>actual_velocity (process_csp s)\<bar> \<le> \<bar>actual_velocity s\<bar>"
proof -
  have eq: "actual_velocity (process_csp s) =
      (if sm s \<noteq> OPERATION_ENABLED then actual_velocity s
       else if halt_active s then actual_velocity (decelerate_to_stop s)
       else if \<not> homing_referenced s then actual_velocity (decelerate_to_stop (s\<lparr>target_reached := False\<rparr>))
       else csp_velocity s)"
    by (simp add: process_csp_def Let_def)
  have d: "\<bar>actual_velocity (decelerate_to_stop s)\<bar> \<le> \<bar>actual_velocity s\<bar>"
    "\<bar>actual_velocity (decelerate_to_stop (s\<lparr>target_reached := False\<rparr>))\<bar> \<le> \<bar>actual_velocity s\<bar>"
    by (rule decelerate_velocity, rule decelerate_cong_velocity(3))
  note b = d [THEN max.coboundedI1] csp_velocity_bound [OF assms]
  show "\<bar>actual_velocity (process_csp s)\<bar> \<le> max \<bar>actual_velocity s\<bar> \<bar>od_read s 0x6081 0\<bar>"
    unfolding eq by (simp only: b max.cobounded1 split: if_split) simp
  show "\<bar>actual_velocity (process_csp s)\<bar> \<le> \<bar>actual_velocity s\<bar>" if "\<not> homing_referenced s"
    unfolding eq using that by (simp only: d order_refl split: if_split) simp
qed

lemma pp_move_velocity: "\<bar>actual_velocity (pp_move s)\<bar> \<le> max \<bar>actual_velocity s\<bar> \<bar>od_read s 0x6081 0\<bar>"
proof -
  have eq: "actual_velocity (pp_move s) =
      (if pp_in_window s \<or> pp_target_position s - actual_position s = 0
          \<or> (pp_target_position s - actual_position s)
              * (pp_target_position s - actual_position (integrate (pp_velocity s) s)) \<le> 0
       then 0 else pp_velocity s)"
    by (simp add: pp_move_def Let_def pp_arrive_def)
  have "\<bar>0\<bar> \<le> max \<bar>actual_velocity s\<bar> \<bar>od_read s 0x6081 0\<bar>" by (simp add: le_max_iff_disj)
  with pp_velocity_bound [of s] show ?thesis unfolding eq by (simp only: split: if_split) simp
qed

lemma pp_velocity_cong: "od_read (s\<lparr>pp_setpoint_ack := b\<rparr>) i j = od_read s i j"
  "od_read (s\<lparr>pp_target_position := x, pp_active := a, target_reached := t, window_counter := w\<rparr>) i j = od_read s i j"
  by (simp_all add: od_read_def)

lemma process_pp_velocity:
  "\<bar>actual_velocity (process_pp s)\<bar> \<le> max \<bar>actual_velocity s\<bar> \<bar>od_read s 0x6081 0\<bar>"
  "\<not> homing_referenced s \<or> position_target_rejected s \<and> \<not> pp_active s \<Longrightarrow>
     \<bar>actual_velocity (process_pp s)\<bar> \<le> \<bar>actual_velocity s\<bar> \<and>
     (\<not> homing_referenced s \<longrightarrow> sm s = OPERATION_ENABLED \<longrightarrow> \<not> pp_active (process_pp s)) \<and>
     (position_target_rejected s \<and> \<not> pp_active s \<longrightarrow> \<not> pp_active (process_pp s))"
proof -
  define s1 where "s1 = (if start_bit s then s\<lparr>pp_target_position := od_read s 0x607A 0, pp_active := True,
                      target_reached := False, window_counter := 0\<rparr> else s)"
  define s2 where "s2 = s1\<lparr>pp_setpoint_ack := has_bit (controlword s1) 4\<rparr>"
  have v2: "actual_velocity s2 = actual_velocity s" "od_read s2 0x6081 0 = od_read s 0x6081 0"
    "\<not> start_bit s \<Longrightarrow> pp_active s2 = pp_active s"
    by (simp_all add: s2_def s1_def pp_velocity_cong)
  have pp: "process_pp s =
     (if sm s \<noteq> OPERATION_ENABLED then s
      else if halt_active s then
        (let s1 = write_actual_feedback (decelerate_to_stop (s\<lparr>pp_active := False, pp_setpoint_ack := False\<rparr>))
         in s1\<lparr>target_reached := (\<bar>actual_velocity s1\<bar> \<le> 1 / 10 ^ 9)\<rparr>)
      else if \<not> homing_referenced s then
        write_actual_feedback (decelerate_to_stop
          (s\<lparr>pp_active := False, pp_setpoint_ack := False, target_reached := False\<rparr>))
      else if start_bit s \<and> position_target_rejected s then
        write_actual_feedback (decelerate_to_stop (s\<lparr>pp_active := False, pp_setpoint_ack := False\<rparr>))
      else if \<not> pp_active s2 then update_target_reached (write_actual_feedback (decelerate_to_stop s2))
      else pp_move s2)"
    unfolding process_pp_def Let_def s2_def s1_def by simp
  have d: "\<bar>actual_velocity (decelerate_to_stop (s\<lparr>pp_active := False, pp_setpoint_ack := False\<rparr>))\<bar>
      \<le> \<bar>actual_velocity s\<bar>"
    "\<bar>actual_velocity (decelerate_to_stop
      (s\<lparr>pp_active := False, pp_setpoint_ack := False, target_reached := False\<rparr>))\<bar> \<le> \<bar>actual_velocity s\<bar>"
    "\<bar>actual_velocity (decelerate_to_stop s2)\<bar> \<le> \<bar>actual_velocity s\<bar>"
    using decelerate_velocity [of s2] by (simp_all only: decelerate_cong_velocity v2)
  have eq: "actual_velocity (process_pp s) =
     (if sm s \<noteq> OPERATION_ENABLED then actual_velocity s
      else if halt_active s \<or> homing_referenced s \<and> start_bit s \<and> position_target_rejected s then
        actual_velocity (decelerate_to_stop (s\<lparr>pp_active := False, pp_setpoint_ack := False\<rparr>))
      else if \<not> homing_referenced s then
        actual_velocity (decelerate_to_stop
          (s\<lparr>pp_active := False, pp_setpoint_ack := False, target_reached := False\<rparr>))
      else if \<not> pp_active s2 then actual_velocity (decelerate_to_stop s2)
      else actual_velocity (pp_move s2))"
    unfolding pp Let_def by auto
  note m = pp_move_velocity [of s2, unfolded v2(1,2)]
  show "\<bar>actual_velocity (process_pp s)\<bar> \<le> max \<bar>actual_velocity s\<bar> \<bar>od_read s 0x6081 0\<bar>"
    unfolding eq by (simp only: d [THEN max.coboundedI1] m max.cobounded1 split: if_split) simp
  assume a: "\<not> homing_referenced s \<or> position_target_rejected s \<and> \<not> pp_active s"
  then have "homing_referenced s \<Longrightarrow> \<not> start_bit s \<Longrightarrow> \<not> pp_active s2" using v2(3) by blast
  with a have "\<bar>actual_velocity (process_pp s)\<bar> \<le> \<bar>actual_velocity s\<bar>"
    unfolding eq by (auto simp only: d order_refl split: if_split)
  moreover have "\<not> homing_referenced s \<longrightarrow> sm s = OPERATION_ENABLED \<longrightarrow> \<not> pp_active (process_pp s)"
    unfolding pp Let_def by simp
  moreover have "position_target_rejected s \<and> \<not> pp_active s \<longrightarrow> \<not> pp_active (process_pp s)"
    using v2(3) unfolding pp Let_def by simp
  ultimately show "\<bar>actual_velocity (process_pp s)\<bar> \<le> \<bar>actual_velocity s\<bar> \<and>
     (\<not> homing_referenced s \<longrightarrow> sm s = OPERATION_ENABLED \<longrightarrow> \<not> pp_active (process_pp s)) \<and>
     (position_target_rejected s \<and> \<not> pp_active s \<longrightarrow> \<not> pp_active (process_pp s))" by blast
qed

lemma stop_od: "i \<notin> {0x607A, 0x6064, 0x606C} \<Longrightarrow> od_read (stop_at_current_position s) i j = od_read s i j"
  by (simp add: stop_at_current_position_def write_actual_feedback_def Let_def od_read_def od_write_def)

lemma od_read_cong: "od s = od t \<Longrightarrow> od_read s i j = od_read t i j"
  by (simp add: od_read_def)

lemma before_mode_od:
  "i \<notin> {0x607A, 0x6064, 0x606C} \<Longrightarrow> od_read (before_mode s) i j = od_read s i j"
  "sv_cycle_time (before_mode s) = sv_cycle_time s"
proof -
  have "od_read (s\<lparr>halt_active := h, sm := x\<rparr>) i j = od_read s i j" for h x by (simp add: od_read_def)
  then show "i \<notin> {0x607A, 0x6064, 0x606C} \<Longrightarrow> od_read (before_mode s) i j = od_read s i j"
    by (simp add: before_mode_def Let_def stop_od)
  show "sv_cycle_time (before_mode s) = sv_cycle_time s"
    by (simp add: before_mode_def Let_def stop_at_current_position_def)
qed

abbreviation drive_mode :: "servo \<Rightarrow> int" where
  "drive_mode s \<equiv> py_int (od_read s 0x6060 0)"

lemma process_cycle_fields:
  "actual_velocity (process_cycle s) = actual_velocity (run_mode (drive_mode s) (before_mode s))"
  "actual_position (process_cycle s) = actual_position (run_mode (drive_mode s) (before_mode s))"
  "pp_active (process_cycle s) = pp_active (run_mode (drive_mode s) (before_mode s))"
  by (simp_all add: process_cycle_unfold Let_def before_mode_od)

subsection \<open>Properties\<close>

text \<open>C24: the drive stands unless it is enabled. From its construction on, whatever is written to the
  object dictionary between the cycles, the drive has no velocity in any state but Operation
  Enabled, and as long as no cycle ends in Operation Enabled its position does not change.\<close>

theorem servo_stands_unless_enabled:
  assumes "drive_run (model_update pr) od_changed (new_servo pr ct dict) ss t"
  shows "(sm t \<noteq> OPERATION_ENABLED \<longrightarrow> actual_velocity t = 0) \<and>
         ((\<forall>u \<in> set ss. sm u \<noteq> OPERATION_ENABLED) \<longrightarrow> actual_position t = 0)"
proof -
  have "actual_velocity (new_servo pr ct dict) = 0" "actual_position (new_servo pr ct dict) = 0"
    by (simp_all add: new_servo_def Let_def)
  with servo_stands.velocity_inv [OF assms] servo_stands.never_enabled_never_moves [OF assms]
  show ?thesis by simp
qed

definition demo_profile :: servo_profile where
  "demo_profile = \<lparr>role_key = (\<lambda>r. if r = ''mode_of_operation'' then (0x6060, 0)
       else if r = ''target_position'' then (0x607A, 0) else (0x2000, 0)),
     non_pdo_values = [], pdo_defaults = []\<rparr>"

definition demo_servo :: servo where
  "demo_servo = new_servo demo_profile (1 / 1000) (\<lambda>_. None)"

theorem servo_stands_unless_enabled_witness:
  "actual_velocity (model_update demo_profile demo_servo) = 0 \<and>
   actual_position (model_update demo_profile demo_servo) = 0"
proof -
  let ?a = "apply_od_commands demo_profile demo_servo"
  have "sm ?a = SWITCH_ON_DISABLED"
    using apply_od_commands_still [of demo_servo demo_profile]
    by (simp add: still_def demo_servo_def new_servo_def cia402_init_def Let_def)
  then have "sm (model_update demo_profile demo_servo) \<noteq> OPERATION_ENABLED"
    by (simp add: model_update_def process_cycle_sm process_def)
  moreover have "drive_run (model_update demo_profile) od_changed demo_servo
      [model_update demo_profile demo_servo] (model_update demo_profile demo_servo)"
    by (intro drive_run.intros)
  ultimately show ?thesis
    using servo_stands_unless_enabled [of demo_profile "1 / 1000" "\<lambda>_. None", folded demo_servo_def]
    by fastforce
qed

text \<open>A position move keeps to the profile velocity. In the profile position and the cyclic
  position mode a cycle never raises the speed above the larger of the speed before and the
  profile velocity (0x6081); before the drive is referenced it never raises the speed at all, and
  a target that was rejected at the software limits starts no move.\<close>

theorem position_modes_bound_velocity:
  assumes "drive_mode s = 1 \<or> drive_mode s = 8" and "0 \<le> sv_cycle_time s"
    and "0 \<le> od_read s 0x6083 0" and "0 \<le> od_read s 0x6084 0"
  shows "\<bar>actual_velocity (process_cycle s)\<bar> \<le> max \<bar>actual_velocity s\<bar> \<bar>od_read s 0x6081 0\<bar> \<and>
         (\<not> homing_referenced s \<longrightarrow> \<bar>actual_velocity (process_cycle s)\<bar> \<le> \<bar>actual_velocity s\<bar>) \<and>
         (drive_mode s = 1 \<and> position_target_rejected s \<and> \<not> pp_active s \<longrightarrow>
            \<not> pp_active (process_cycle s) \<and> \<bar>actual_velocity (process_cycle s)\<bar> \<le> \<bar>actual_velocity s\<bar>)"
proof -
  let ?b = "before_mode s"
  have od: "od_read ?b 0x6083 0 = od_read s 0x6083 0" "od_read ?b 0x6084 0 = od_read s 0x6084 0"
    "od_read ?b 0x6081 0 = od_read s 0x6081 0" by (simp_all add: before_mode_od)
  have v: "\<bar>actual_velocity ?b\<bar> \<le> \<bar>actual_velocity s\<bar>" by (rule before_mode_frame)
  have m: "max \<bar>actual_velocity ?b\<bar> \<bar>od_read s 0x6081 0\<bar> \<le> max \<bar>actual_velocity s\<bar> \<bar>od_read s 0x6081 0\<bar>"
    using v by (rule max.mono) simp
  note pp = process_pp_velocity [of ?b, unfolded od before_mode_frame]
  note csp = process_csp_velocity [of ?b, unfolded od before_mode_od before_mode_frame, OF assms(3,4,2)]
  have npp: "\<not> pp_active s \<Longrightarrow> \<not> pp_active ?b" using before_mode_frame(7) by blast
  show ?thesis
  proof (cases "drive_mode s = 1")
    case True
    then have run: "run_mode (drive_mode s) ?b = process_pp ?b" by (simp add: run_mode_def)
    show ?thesis
      unfolding process_cycle_fields run using pp npp v m
      by (meson order_trans)
  next
    case False
    then have run: "run_mode (drive_mode s) ?b = process_csp ?b" using assms(1) by (simp add: run_mode_def)
    show ?thesis
      unfolding process_cycle_fields run using csp False v m
      by (meson order_trans)
  qed
qed

theorem position_modes_bound_velocity_witness:
  "\<bar>actual_velocity (process_cycle (od_write 0x6060 0 8 demo_servo))\<bar> \<le> 0"
  using position_modes_bound_velocity [of "od_write 0x6060 0 8 demo_servo"]
  by (simp add: demo_servo_def new_servo_def od_read_def od_write_def Let_def py_int_def)

lemma bit_status_bits:
  "bit (status_bits mode s) n \<longleftrightarrow>
     bit (get_statusword (sm s)) n \<or> n = 10 \<and> target_reached s \<or> n = 12 \<and> pp_setpoint_ack s
     \<or> n = 8 \<and> is_moving s \<or> (n = 7 \<or> n = 11) \<and> software_limit_is_active s
     \<or> n = 15 \<and> homing_referenced s \<or> n = 3 \<and> mode = 6 \<and> homing_error s"
  by (auto simp: status_bits_def Let_def)

lemma low_bits_only: "6 < n \<Longrightarrow> \<not> bit (get_statusword st) n"
proof -
  have "take_bit 7 (get_statusword st) = get_statusword st"
    by (cases st) simp_all
  then show "6 < n \<Longrightarrow> \<not> bit (get_statusword st) n"
    by (metis bit_take_bit_iff not_less_eq numeral_eq_Suc pred_numeral_simps(3) BitM.simps eval_nat_numeral)
qed

lemma status_bits_state:
  assumes "\<not> (mode = 6 \<and> homing_error s)"
  shows "status_bits mode s AND 0x006F = get_statusword (sm s) AND 0x006F"
proof (rule bit_eqI)
  fix n
  show "bit (status_bits mode s AND 0x006F) n = bit (get_statusword (sm s) AND 0x006F) n"
    using assms by (auto simp: bit_and_iff bit_status_bits)
qed

text \<open>The statusword the drive publishes tells its state. After a cycle the power state can be
  read off the statusword in the object dictionary (unless a homing error is flagged), and bits 10,
  12, 8, 11 and 15 are set exactly when the target is reached, the set-point is acknowledged, the
  drive moves, a software limit is active and the drive is referenced.\<close>

theorem published_statusword:
  "(\<not> homing_error (process_cycle s) \<longrightarrow>
      statusword_state_text (py_int (od_read (process_cycle s) 0x6041 0)) =
        statusword_state_text (get_statusword (sm (process_cycle s)))) \<and>
   (bit (py_int (od_read (process_cycle s) 0x6041 0)) 10 \<longleftrightarrow> target_reached (process_cycle s)) \<and>
   (bit (py_int (od_read (process_cycle s) 0x6041 0)) 12 \<longleftrightarrow> pp_setpoint_ack (process_cycle s)) \<and>
   (bit (py_int (od_read (process_cycle s) 0x6041 0)) 8 \<longleftrightarrow> is_moving (process_cycle s)) \<and>
   (bit (py_int (od_read (process_cycle s) 0x6041 0)) 11 \<longleftrightarrow> software_limit_is_active (process_cycle s)) \<and>
   (bit (py_int (od_read (process_cycle s) 0x6041 0)) 15 \<longleftrightarrow> homing_referenced (process_cycle s))"
proof -
  define m where "m = py_int (od_read (before_mode s) 0x6060 0)"
  define u where "u = run_mode m (before_mode s)"
  have c: "process_cycle s =
      (od_write 0x6041 0 (of_int (status_bits m u)) u)\<lparr>previous_controlword := controlword s\<rparr>"
    by (simp add: process_cycle_unfold Let_def m_def u_def)
  have sw: "py_int (od_read (process_cycle s) 0x6041 0) = status_bits m u"
    by (simp add: c od_read_def od_write_def)
  have f: "sm (process_cycle s) = sm u" "target_reached (process_cycle s) = target_reached u"
    "pp_setpoint_ack (process_cycle s) = pp_setpoint_ack u" "is_moving (process_cycle s) = is_moving u"
    "software_limit_is_active (process_cycle s) = software_limit_is_active u"
    "homing_referenced (process_cycle s) = homing_referenced u" "homing_error (process_cycle s) = homing_error u"
    by (simp_all add: c is_moving_def software_limit_is_active_def actual_position_exceeds_software_limits_def
        software_position_limits_def od_read_def od_write_def Let_def)
  have "statusword_state_text (status_bits m u) = statusword_state_text (get_statusword (sm u))"
    if "\<not> homing_error u" using that by (intro state_text_by_mask status_bits_state) simp
  then show ?thesis
    using low_bits_only [of 10 "sm u"] low_bits_only [of 12 "sm u"] low_bits_only [of 8 "sm u"]
      low_bits_only [of 11 "sm u"] low_bits_only [of 15 "sm u"]
    unfolding sw f by (simp add: bit_status_bits)
qed

theorem published_statusword_witness:
  "statusword_state_text (py_int (od_read (process_cycle demo_servo) 0x6041 0)) = ''Switch Disabled'' \<and>
   (bit (py_int (od_read (process_cycle demo_servo) 0x6041 0)) 10 \<longleftrightarrow> target_reached (process_cycle demo_servo))"
proof -
  have d: "sm demo_servo = SWITCH_ON_DISABLED" "homing_error demo_servo = False" "controlword demo_servo = 0"
    by (simp_all add: demo_servo_def new_servo_def cia402_init_def Let_def controlword_def od_read_def py_int_def)
  then have sm: "sm (before_mode demo_servo) = SWITCH_ON_DISABLED"
    by (simp add: before_mode_frame process_def)
  then have "\<not> homing_error (process_cycle demo_servo)" "sm (process_cycle demo_servo) = SWITCH_ON_DISABLED"
    using run_mode_disabled [of "before_mode demo_servo"] d
    by (simp_all add: process_cycle_unfold Let_def before_mode_frame)
  with published_statusword [of demo_servo] show ?thesis
    by (simp add: statusword_state_text_def)
qed

definition homing_set :: "servo \<Rightarrow> bool" where
  "homing_set s \<longleftrightarrow> sm s = OPERATION_ENABLED \<and> process OPERATION_ENABLED (controlword s) = OPERATION_ENABLED
     \<and> drive_mode s = 6 \<and> bit (controlword s) 4"

definition homed :: "servo \<Rightarrow> bool" where
  "homed s \<longleftrightarrow> homing_referenced s \<and> \<not> homing_active s \<and> actual_position s = 0 \<and> actual_velocity s = 0"

definition homing_cycles :: "servo \<Rightarrow> int" where
  "homing_cycles s = max 1 (py_int (0.1 / sv_cycle_time s))"

text \<open>One cycle of homing, on the counter.\<close>

lemma homing_cycle:
  assumes h: "homing_set s"
  defines "s' \<equiv> process_cycle s"
    and "c \<equiv> (if bit (previous_controlword s) 4 then homing_counter s else homing_cycles s)"
    and "act \<equiv> (if bit (previous_controlword s) 4 then homing_active s else True)"
  shows "homing_set s'" "bit (previous_controlword s') 4" "sv_cycle_time s' = sv_cycle_time s"
    and "act \<Longrightarrow> c \<le> 1 \<Longrightarrow> homed s'"
    and "act \<Longrightarrow> 1 < c \<Longrightarrow> homing_active s' \<and> homing_counter s' = c - 1"
proof -
  define b where "b = s\<lparr>halt_active := bit (controlword s) 8, sm := OPERATION_ENABLED\<rparr>"
  have b: "before_mode s = b" using h by (simp add: before_mode_def b_def homing_set_def Let_def)
  have bf: "homing_active b = homing_active s" "homing_counter b = homing_counter s"
    "start_bit b \<longleftrightarrow> \<not> bit (previous_controlword s) 4" "homing_cycles b = homing_cycles s"
    "od_read b i j = od_read s i j" "sm b = OPERATION_ENABLED" for i j
    using h by (simp_all add: b_def start_bit_def controlword_def od_read_def homing_set_def homing_cycles_def)
  define u where "u = process_homing b"
  have s': "s' = (od_write 0x6041 0 (of_int (status_bits 6 u)) u)\<lparr>previous_controlword := controlword s\<rparr>"
    using h by (simp add: s'_def process_cycle_unfold Let_def b u_def bf run_mode_def homing_set_def)
  have "od_read u i j = od_read s i j" if "i \<notin> {0x607A, 0x6064, 0x606C}" for i j
    using that by (simp add: u_def process_homing_def Let_def write_actual_feedback_def bf(5) [symmetric])
      (simp add: od_read_def od_write_def)
  then have u: "od_read u 0x6040 0 = od_read s 0x6040 0" "od_read u 0x6060 0 = od_read s 0x6060 0"
    "sm u = OPERATION_ENABLED" "sv_cycle_time u = sv_cycle_time s"
    by (simp_all add: u_def b_def process_homing_def Let_def)
  have rd: "od_read s' i j = od_read u i j" if "i \<noteq> 0x6041" for i j
    using that by (simp add: s' od_read_def od_write_def)
  show "homing_set s'" using h u rd by (simp add: homing_set_def controlword_def s')
  show "bit (previous_controlword s') 4" using h by (simp add: s' homing_set_def)
  show "sv_cycle_time s' = sv_cycle_time s" by (simp add: s' u)
  have hc: "max 1 (py_int (1 / (10 * sv_cycle_time b))) = homing_cycles s"
    by (simp add: homing_cycles_def b_def)
  show "homed s'" if "act" "c \<le> 1"
    using that by (auto simp: s' homed_def u_def process_homing_def Let_def bf hc act_def c_def
        split: if_splits)
  show "homing_active s' \<and> homing_counter s' = c - 1" if "act" "1 < c"
    using that by (auto simp: s' u_def process_homing_def Let_def bf hc act_def c_def
        split: if_splits)
qed

text \<open>C25: homing ends referenced at zero. In homing mode, enabled and with the start bit rising, the
  drive is referenced at position zero after \<open>int(0.1 / cycle_time)\<close> cycles (at least one) with the
  controlword kept, and homing is no longer active.\<close>

theorem homing_completes:
  assumes "sm s = OPERATION_ENABLED" and "process OPERATION_ENABLED (controlword s) = OPERATION_ENABLED"
    and "drive_mode s = 6" and "bit (controlword s) 4" and "\<not> bit (previous_controlword s) 4"
  shows "homing_referenced ((process_cycle ^^ nat (max 1 (py_int (0.1 / sv_cycle_time s)))) s) \<and>
         \<not> homing_active ((process_cycle ^^ nat (max 1 (py_int (0.1 / sv_cycle_time s)))) s) \<and>
         actual_position ((process_cycle ^^ nat (max 1 (py_int (0.1 / sv_cycle_time s)))) s) = 0 \<and>
         actual_velocity ((process_cycle ^^ nat (max 1 (py_int (0.1 / sv_cycle_time s)))) s) = 0"
proof -
  let ?K = "homing_cycles s" and ?c = "\<lambda>n. (process_cycle ^^ n) s"
  have h: "homing_set s" using assms by (simp add: homing_set_def)
  have run: "homing_set (?c (Suc n)) \<and> bit (previous_controlword (?c (Suc n))) 4 \<and>
      (int (Suc n) < ?K \<longrightarrow> homing_active (?c (Suc n)) \<and> homing_counter (?c (Suc n)) = ?K - int (Suc n)) \<and>
      (int (Suc n) = ?K \<longrightarrow> homed (?c (Suc n)))" for n
  proof (induction n)
    case 0
    show ?case using homing_cycle [OF h] assms(5) by auto
  next
    case (Suc n)
    then show ?case using homing_cycle [of "?c (Suc n)"] by auto
  qed
  have "1 \<le> ?K" by (simp add: homing_cycles_def)
  then obtain n where "nat ?K = Suc n" "int (Suc n) = ?K" by (cases "nat ?K") auto
  with run [of n] show ?thesis unfolding homed_def homing_cycles_def by simp
qed

definition demo_homing :: servo where
  "demo_homing = od_write 0x6060 0 6 (od_write 0x6040 0 0x1F (demo_servo\<lparr>sm := OPERATION_ENABLED\<rparr>))"

theorem homing_completes_witness:
  "homing_referenced ((process_cycle ^^ nat (max 1 (py_int (0.1 / sv_cycle_time demo_homing)))) demo_homing) \<and>
   \<not> homing_active ((process_cycle ^^ nat (max 1 (py_int (0.1 / sv_cycle_time demo_homing)))) demo_homing) \<and>
   actual_position ((process_cycle ^^ nat (max 1 (py_int (0.1 / sv_cycle_time demo_homing)))) demo_homing) = 0 \<and>
   actual_velocity ((process_cycle ^^ nat (max 1 (py_int (0.1 / sv_cycle_time demo_homing)))) demo_homing) = 0"
proof -
  have "controlword demo_homing = 0x1F" "drive_mode demo_homing = 6" "previous_controlword demo_homing = 0"
    "sm demo_homing = OPERATION_ENABLED"
    by (simp_all add: demo_homing_def controlword_def py_int_def demo_servo_def new_servo_def Let_def)
  then show ?thesis by (intro homing_completes) (simp_all add: process_def)
qed

end
