(* ===== verification/Failures.thy ===== *)
theory Failures
  imports Prelude
begin

section \<open>Failures: the exception hierarchy and its public form\<close>

text \<open>
  Models \<^verbatim>\<open>motion_server/failure\<close>: \<^verbatim>\<open>exceptions.py\<close> (the class hierarchy with the attributes
  each class stores), \<^verbatim>\<open>codes.py\<close>, \<^verbatim>\<open>mapping.py\<close> (\<open>map_exception\<close> walks the method resolution
  order to the nearest mapped class and copies the declared attributes that are present and
  not \<open>None\<close>) and \<^verbatim>\<open>partial.py\<close> (\<open>collect_target_results\<close>), with the built-in exceptions the
  sources raise or catch, the two classes of \<^verbatim>\<open>device/exceptions.py\<close> and
  \<open>InitializationException\<close> of \<^verbatim>\<open>app/initialization.py\<close>. The lemmas show that every failure the
  server raises on purpose reaches the client under a specific code, that nothing of an
  unexpected exception reaches the client, and that \<open>collect_target_results\<close> splits the
  targets without loss or reordering.
\<close>

datatype InitializationStage =
  CONFIGURATION | DEVICE_MODEL_BUILD | RUNTIME_CREATION | BUS_CONNECTION | DEVICE_INITIALIZATION

datatype InitializationCause =
    CONFIGURATION_INVALID | CONFIGURATION_FAILED | DEVICE_PROFILE_INVALID
  | DEVICE_LAYOUT_INVALID | DEVICE_IDENTITY_MISMATCH | PDO_CATALOG_MISMATCH
  | DEVICE_MODEL_BUILD_FAILED | RUNTIME_CREATION_FAILED | BUS_CONNECTION_FAILED
  | REQUIRED_PARAMETER_READ_FAILED | DEVICE_INITIALIZATION_FAILED

datatype FailureCode =
    INVALID_REQUEST | UNKNOWN_COMMAND | UNSUPPORTED_OPERATION | INVALID_ARGUMENT
  | RESOURCE_NOT_FOUND | AUTHORITY_REQUIRED | AUTHORITY_BUSY | PERMISSION_DENIED
  | SERVER_NOT_READY | INVALID_STATE | OPERATION_CONFLICT | OPERATION_BLOCKED
  | LIMIT_VIOLATION | TIMEOUT | COMMUNICATION_FAILED | DEVICE_ACCESS_FAILED
  | DEVICE_REJECTED | PARTIAL_FAILURE | OPERATION_FAILED | INTERNAL_FAILURE

text \<open>An exception object is its class and its attributes; the cause that an
  \<open>InitializationException\<close> carries is kept typed.\<close>

datatype exn_class =
    CMotionServer | CConfiguration | CRequest | CInvalidRequest | CUnknownCommand
  | CUnsupportedOperation | CInvalidArgument | CResourceNotFound | CAuthority
  | CAuthorityRequired | CAuthorityBusy | CPermissionDenied | CState | CServerNotReady
  | CInvalidState | COperationConflict | COperationBlocked | CLimitViolation
  | CCommunication | CCommunicationTimeout | CDevice | CDeviceAccess | CDeviceRejected
  | CSdoObjectNotFound | COperation | COperationTimeout
  | CDeviceModel | CDeviceLayoutInvalid | CDeviceIdentityMismatch | CPdoCatalogMismatch
  | CInitialization
  | CValueError | CTypeError | CLookupError | CKeyError | CIndexError | CAttributeError
  | CRuntimeError | CArithmeticError | COverflowError | CZeroDivisionError
  | COSError | CConnectionError | CTimeoutError | CStructError | CException

datatype exn = Exn exn_class pydict | InitExn InitializationCause

fun class_of :: "exn \<Rightarrow> exn_class" where
  "class_of (Exn c _) = c"
| "class_of (InitExn _) = CInitialization"

fun attrs :: "exn \<Rightarrow> pydict" where
  "attrs (Exn _ a) = a"
| "attrs (InitExn _) = []"

text \<open>The constructors of \<^verbatim>\<open>exceptions.py\<close>. A built-in exception carries no attribute the
  sources read.\<close>

definition ConfigurationException :: "string \<Rightarrow> string \<Rightarrow> exn" where
  "ConfigurationException setting reason =
     Exn CConfiguration [(''setting'', PStr setting), (''reason'', PStr reason)]"

definition InvalidRequestException :: "string \<Rightarrow> exn" where
  "InvalidRequestException reason = Exn CInvalidRequest [(''reason'', PStr reason)]"

definition UnknownCommandException :: "string \<Rightarrow> exn" where
  "UnknownCommandException command = Exn CUnknownCommand [(''command'', PStr command)]"

definition UnsupportedOperationException :: "string \<Rightarrow> string option \<Rightarrow> exn" where
  "UnsupportedOperationException operation reason =
     Exn CUnsupportedOperation [(''operation'', PStr operation), (''reason'', opt_str reason)]"

definition InvalidArgumentException :: "string \<Rightarrow> string \<Rightarrow> pyval option \<Rightarrow> exn" where
  "InvalidArgumentException field reason public_value =
     Exn CInvalidArgument
       ([(''field'', PStr field), (''reason'', PStr reason)]
        @ (case public_value of None \<Rightarrow> [] | Some v \<Rightarrow> [(''public_value'', v)]))"

definition ResourceNotFoundException :: "string \<Rightarrow> pyval \<Rightarrow> exn" where
  "ResourceNotFoundException resource_type resource_id =
     Exn CResourceNotFound
       [(''resource_type'', PStr resource_type), (''resource_id'', resource_id)]"

definition AuthorityRequiredException :: exn where
  "AuthorityRequiredException = Exn CAuthorityRequired []"

definition AuthorityBusyException :: "pyval \<Rightarrow> exn" where
  "AuthorityBusyException owner = Exn CAuthorityBusy [(''owner'', owner)]"

definition PermissionDeniedException :: "string option \<Rightarrow> exn" where
  "PermissionDeniedException operation =
     Exn CPermissionDenied [(''operation'', opt_str operation)]"

definition ServerNotReadyException :: "string option \<Rightarrow> exn" where
  "ServerNotReadyException reason = Exn CServerNotReady [(''reason'', opt_str reason)]"

definition InvalidStateException :: "string option \<Rightarrow> string option \<Rightarrow> exn" where
  "InvalidStateException operation state =
     Exn CInvalidState [(''operation'', opt_str operation), (''state'', opt_str state)]"

definition OperationConflictException :: "string option \<Rightarrow> string option \<Rightarrow> exn" where
  "OperationConflictException operation active_operation =
     Exn COperationConflict
       [(''operation'', opt_str operation), (''active_operation'', opt_str active_operation)]"

definition OperationBlockedException :: "string option \<Rightarrow> string list \<Rightarrow> exn" where
  "OperationBlockedException operation diagnostic_ids =
     Exn COperationBlocked
       [(''operation'', opt_str operation),
        (''diagnostic_ids'', PList (map PStr diagnostic_ids))]"

definition LimitViolationException :: "string \<Rightarrow> pyval \<Rightarrow> pyval \<Rightarrow> pyval \<Rightarrow> exn" where
  "LimitViolationException field value minimum maximum =
     Exn CLimitViolation
       [(''field'', PStr field), (''value'', value), (''minimum'', minimum),
        (''maximum'', maximum)]"

definition CommunicationException :: "string option \<Rightarrow> exn" where
  "CommunicationException operation = Exn CCommunication [(''operation'', opt_str operation)]"

definition CommunicationTimeoutException :: "string option \<Rightarrow> pyval \<Rightarrow> exn" where
  "CommunicationTimeoutException operation timeout_seconds =
     Exn CCommunicationTimeout
       [(''timeout_seconds'', timeout_seconds), (''operation'', opt_str operation)]"

definition DeviceException :: "string option \<Rightarrow> exn" where
  "DeviceException operation = Exn CDevice [(''operation'', opt_str operation)]"

definition DeviceAccessException :: "string option \<Rightarrow> exn" where
  "DeviceAccessException operation = Exn CDeviceAccess [(''operation'', opt_str operation)]"

definition DeviceRejectedException ::
  "string option \<Rightarrow> pyval \<Rightarrow> pyval \<Rightarrow> pyval \<Rightarrow> pyval \<Rightarrow> pyval \<Rightarrow> exn" where
  "DeviceRejectedException operation device_code isdu_step sdo_index sdo_subindex sdo_value =
     Exn CDeviceRejected
       [(''device_code'', device_code), (''isdu_step'', isdu_step),
        (''sdo_index'', sdo_index), (''sdo_subindex'', sdo_subindex),
        (''sdo_value'', sdo_value), (''operation'', opt_str operation)]"

definition SdoObjectNotFoundException :: "int \<Rightarrow> int \<Rightarrow> exn" where
  "SdoObjectNotFoundException index subindex =
     Exn CSdoObjectNotFound
       [(''index'', PInt index), (''subindex'', PInt subindex),
        (''operation'', PStr ''sdo_access'')]"

definition OperationException :: "string option \<Rightarrow> exn" where
  "OperationException operation = Exn COperation [(''operation'', opt_str operation)]"

definition OperationTimeoutException :: "string option \<Rightarrow> pyval \<Rightarrow> exn" where
  "OperationTimeoutException operation timeout_seconds =
     Exn COperationTimeout
       [(''timeout_seconds'', timeout_seconds), (''operation'', opt_str operation)]"

abbreviation "ValueError \<equiv> Exn CValueError []"
abbreviation "TypeError \<equiv> Exn CTypeError []"
abbreviation "KeyError \<equiv> Exn CKeyError []"
abbreviation "IndexError \<equiv> Exn CIndexError []"
abbreviation "AttributeError \<equiv> Exn CAttributeError []"
abbreviation "RuntimeError \<equiv> Exn CRuntimeError []"
abbreviation "OverflowError \<equiv> Exn COverflowError []"
abbreviation "ZeroDivisionError \<equiv> Exn CZeroDivisionError []"
abbreviation "OSError \<equiv> Exn COSError []"
abbreviation "TimeoutError \<equiv> Exn CTimeoutError []"
abbreviation "struct_error \<equiv> Exn CStructError []"

type_synonym 'a res = "exn + 'a"

text \<open>\<open>int(value)\<close>.\<close>

definition int_of_value :: "pyval \<Rightarrow> int res" where
  "int_of_value v =
     (case v of
        PInt i \<Rightarrow> Inr i
      | PBool b \<Rightarrow> Inr (if b then 1 else 0)
      | PFloat x \<Rightarrow> Inr (py_int x)
      | PInf b \<Rightarrow> Inl OverflowError
      | PNaN \<Rightarrow> Inl ValueError
      | PStr s \<Rightarrow>
          (case py_int_text (unsigned_value 10) s of Some i \<Rightarrow> Inr i | None \<Rightarrow> Inl ValueError)
      | PBytes bs \<Rightarrow>
          (case py_int_text (unsigned_value 10) (map (\<lambda>b. char_of (unat b)) bs) of
             Some i \<Rightarrow> Inr i | None \<Rightarrow> Inl ValueError)
      | _ \<Rightarrow> Inl TypeError)"

text \<open>Indexing a sequence: a negative index counts from the end, an index out of range raises
  \<open>IndexError\<close>.\<close>

definition py_index :: "'a list \<Rightarrow> int \<Rightarrow> nat res" where
  "py_index xs i =
     (if 0 \<le> i \<and> i < int (length xs) then Inr (nat i)
      else if - int (length xs) \<le> i \<and> i < 0 then Inr (nat (i + int (length xs)))
      else Inl (Exn CIndexError []))"

definition py_nth :: "'a list \<Rightarrow> int \<Rightarrow> 'a res" where
  "py_nth xs i = bindE (py_index xs i) (\<lambda>n. Inr (xs ! n))"

lemma py_nth_valid [simp]: "i < length xs \<Longrightarrow> py_nth xs (int i) = Inr (xs ! i)"
  by (simp add: py_nth_def py_index_def)

lemma py_index_range: "py_index xs i = Inr n \<Longrightarrow> n < length xs"
  by (auto simp: py_index_def split: if_splits)

lemma py_nth_Inr: "py_nth xs i = Inr x \<Longrightarrow> \<exists>n < length xs. x = xs ! n"
  using py_index_range [of xs i] by (auto simp: py_nth_def)

text \<open>The method resolution order: the class itself, then its bases up to \<open>Exception\<close>.\<close>

fun base_of :: "exn_class \<Rightarrow> exn_class option" where
  "base_of CException = None"
| "base_of CInvalidRequest = Some CRequest"
| "base_of CUnknownCommand = Some CRequest"
| "base_of CUnsupportedOperation = Some CRequest"
| "base_of CInvalidArgument = Some CRequest"
| "base_of CResourceNotFound = Some CRequest"
| "base_of CAuthorityRequired = Some CAuthority"
| "base_of CAuthorityBusy = Some CAuthority"
| "base_of CPermissionDenied = Some CAuthority"
| "base_of CServerNotReady = Some CState"
| "base_of CInvalidState = Some CState"
| "base_of COperationConflict = Some CState"
| "base_of COperationBlocked = Some CState"
| "base_of CLimitViolation = Some CState"
| "base_of CCommunicationTimeout = Some CCommunication"
| "base_of CDeviceAccess = Some CDevice"
| "base_of CDeviceRejected = Some CDevice"
| "base_of CSdoObjectNotFound = Some CDevice"
| "base_of COperationTimeout = Some COperation"
| "base_of CConfiguration = Some CMotionServer"
| "base_of CRequest = Some CMotionServer"
| "base_of CAuthority = Some CMotionServer"
| "base_of CState = Some CMotionServer"
| "base_of CCommunication = Some CMotionServer"
| "base_of CDevice = Some CMotionServer"
| "base_of COperation = Some CMotionServer"
| "base_of CDeviceLayoutInvalid = Some CDeviceModel"
| "base_of CDeviceIdentityMismatch = Some CDeviceModel"
| "base_of CPdoCatalogMismatch = Some CDeviceModel"
| "base_of CKeyError = Some CLookupError"
| "base_of CIndexError = Some CLookupError"
| "base_of COverflowError = Some CArithmeticError"
| "base_of CZeroDivisionError = Some CArithmeticError"
| "base_of CConnectionError = Some COSError"
| "base_of CTimeoutError = Some COSError"
| "base_of _ = Some CException"

text \<open>No chain of bases in the hierarchy is longer than four classes.\<close>

fun mro_fuel :: "nat \<Rightarrow> exn_class \<Rightarrow> exn_class list" where
  "mro_fuel 0 c = []"
| "mro_fuel (Suc n) c =
     c # (case base_of c of None \<Rightarrow> [] | Some b \<Rightarrow> mro_fuel n b)"

definition mro :: "exn_class \<Rightarrow> exn_class list" where
  "mro c = mro_fuel 4 c"

definition isinstance :: "exn \<Rightarrow> exn_class \<Rightarrow> bool" where
  "isinstance e c \<longleftrightarrow> c \<in> set (mro (class_of e))"

subsection \<open>The public form of an exception\<close>

record failure_mapping =
  fm_code :: FailureCode
  fm_message :: string
  fm_fields :: "(string \<times> string) list"

record Failure =
  f_code :: FailureCode
  f_message :: string
  f_details :: "pydict option"

definition mk_mapping :: "FailureCode \<Rightarrow> string \<Rightarrow> (string \<times> string) list \<Rightarrow> failure_mapping" where
  "mk_mapping c m fs = \<lparr>fm_code = c, fm_message = m, fm_fields = fs\<rparr>"

definition same :: "string list \<Rightarrow> (string \<times> string) list" where
  "same ns = map (\<lambda>n. (n, n)) ns"

fun EXCEPTION_FAILURE_MAPPINGS :: "exn_class \<Rightarrow> failure_mapping option" where
  "EXCEPTION_FAILURE_MAPPINGS CConfiguration =
     Some (mk_mapping SERVER_NOT_READY ''Motion Server configuration is invalid.'' [])"
| "EXCEPTION_FAILURE_MAPPINGS CRequest =
     Some (mk_mapping INVALID_REQUEST ''The request is invalid.'' [])"
| "EXCEPTION_FAILURE_MAPPINGS CInvalidRequest =
     Some (mk_mapping INVALID_REQUEST ''The request is invalid.'' (same [''reason'']))"
| "EXCEPTION_FAILURE_MAPPINGS CUnknownCommand =
     Some (mk_mapping UNKNOWN_COMMAND ''The command is unknown.'' (same [''command'']))"
| "EXCEPTION_FAILURE_MAPPINGS CUnsupportedOperation =
     Some (mk_mapping UNSUPPORTED_OPERATION ''The requested operation is not supported.''
       (same [''operation'', ''reason'']))"
| "EXCEPTION_FAILURE_MAPPINGS CInvalidArgument =
     Some (mk_mapping INVALID_ARGUMENT ''One or more request arguments are invalid.''
       [(''field'', ''field''), (''reason'', ''reason''), (''value'', ''public_value'')])"
| "EXCEPTION_FAILURE_MAPPINGS CResourceNotFound =
     Some (mk_mapping RESOURCE_NOT_FOUND ''The requested resource does not exist.''
       (same [''resource_type'', ''resource_id'']))"
| "EXCEPTION_FAILURE_MAPPINGS CAuthority =
     Some (mk_mapping PERMISSION_DENIED ''The operation is not permitted.'' [])"
| "EXCEPTION_FAILURE_MAPPINGS CAuthorityRequired =
     Some (mk_mapping AUTHORITY_REQUIRED ''Command authority is required.'' [])"
| "EXCEPTION_FAILURE_MAPPINGS CAuthorityBusy =
     Some (mk_mapping AUTHORITY_BUSY ''Command authority is held by another client.''
       (same [''owner'']))"
| "EXCEPTION_FAILURE_MAPPINGS CPermissionDenied =
     Some (mk_mapping PERMISSION_DENIED ''The operation is not permitted.''
       (same [''operation'']))"
| "EXCEPTION_FAILURE_MAPPINGS CState =
     Some (mk_mapping INVALID_STATE ''The operation is not valid in the current state.'' [])"
| "EXCEPTION_FAILURE_MAPPINGS CServerNotReady =
     Some (mk_mapping SERVER_NOT_READY ''Motion Server is not ready.'' [])"
| "EXCEPTION_FAILURE_MAPPINGS CInvalidState =
     Some (mk_mapping INVALID_STATE ''The operation is not valid in the current state.''
       (same [''operation'', ''state'']))"
| "EXCEPTION_FAILURE_MAPPINGS COperationConflict =
     Some (mk_mapping OPERATION_CONFLICT ''The operation conflicts with an active operation.''
       (same [''operation'', ''active_operation'']))"
| "EXCEPTION_FAILURE_MAPPINGS COperationBlocked =
     Some (mk_mapping OPERATION_BLOCKED ''The operation is blocked.''
       (same [''operation'', ''diagnostic_ids'']))"
| "EXCEPTION_FAILURE_MAPPINGS CLimitViolation =
     Some (mk_mapping LIMIT_VIOLATION ''A configured limit would be violated.''
       (same [''field'', ''value'', ''minimum'', ''maximum'']))"
| "EXCEPTION_FAILURE_MAPPINGS CCommunication =
     Some (mk_mapping COMMUNICATION_FAILED ''Communication failed.'' (same [''operation'']))"
| "EXCEPTION_FAILURE_MAPPINGS CCommunicationTimeout =
     Some (mk_mapping TIMEOUT ''Communication timed out.''
       (same [''operation'', ''timeout_seconds'']))"
| "EXCEPTION_FAILURE_MAPPINGS CDevice =
     Some (mk_mapping DEVICE_ACCESS_FAILED ''The device operation failed.''
       (same [''operation'']))"
| "EXCEPTION_FAILURE_MAPPINGS CDeviceAccess =
     Some (mk_mapping DEVICE_ACCESS_FAILED ''Device access failed.'' (same [''operation'']))"
| "EXCEPTION_FAILURE_MAPPINGS CDeviceRejected =
     Some (mk_mapping DEVICE_REJECTED ''The device rejected the request.''
       (same [''operation'', ''device_code'', ''isdu_step'', ''sdo_index'', ''sdo_subindex'',
          ''sdo_value'']))"
| "EXCEPTION_FAILURE_MAPPINGS CSdoObjectNotFound =
     Some (mk_mapping RESOURCE_NOT_FOUND ''The requested SDO object does not exist.''
       (same [''index'', ''subindex'']))"
| "EXCEPTION_FAILURE_MAPPINGS COperation =
     Some (mk_mapping OPERATION_FAILED ''The operation failed.'' (same [''operation'']))"
| "EXCEPTION_FAILURE_MAPPINGS COperationTimeout =
     Some (mk_mapping TIMEOUT ''The operation timed out.''
       (same [''operation'', ''timeout_seconds'']))"
| "EXCEPTION_FAILURE_MAPPINGS _ = None"

definition INTERNAL_FAILURE_MAPPING :: failure_mapping where
  "INTERNAL_FAILURE_MAPPING = mk_mapping INTERNAL_FAILURE ''An internal failure occurred.'' []"

fun first_mapping :: "exn_class list \<Rightarrow> failure_mapping option" where
  "first_mapping [] = None"
| "first_mapping (c # cs) =
     (case EXCEPTION_FAILURE_MAPPINGS c of Some m \<Rightarrow> Some m | None \<Rightarrow> first_mapping cs)"

definition nearest_mapping :: "exn_class \<Rightarrow> failure_mapping option" where
  "nearest_mapping c = first_mapping (mro c)"

definition public_details :: "exn \<Rightarrow> failure_mapping \<Rightarrow> pydict option" where
  "public_details e m =
     (let details = concat (map (\<lambda>(public_name, attribute_name).
            case map_of (attrs e) attribute_name of
              None \<Rightarrow> []
            | Some v \<Rightarrow> if v = PNone then [] else [(public_name, v)]) (fm_fields m))
      in if details = [] then None else Some details)"

definition map_exception :: "exn \<Rightarrow> Failure" where
  "map_exception e =
     (let m = (case nearest_mapping (class_of e) of
                 Some m \<Rightarrow> m | None \<Rightarrow> INTERNAL_FAILURE_MAPPING)
      in \<lparr>f_code = fm_code m, f_message = fm_message m, f_details = public_details e m\<rparr>)"

subsection \<open>Operations on several targets\<close>

datatype 't target_results =
    Succeeded "'t list"
  | PartialFailure "'t list" "('t \<times> exn) list"

fun collect_loop ::
  "'t list \<Rightarrow> ('t \<Rightarrow> ('s, exn, unit) op) \<Rightarrow> 't list \<Rightarrow> ('t \<times> exn) list
   \<Rightarrow> ('s, exn, 't list \<times> ('t \<times> exn) list) op" where
  "collect_loop [] f succeeded failed s = (Inr (succeeded, failed), s)"
| "collect_loop (x # xs) f succeeded failed s =
     (case f x s of
        (Inr _, t) \<Rightarrow> collect_loop xs f (succeeded @ [x]) failed t
      | (Inl e, t) \<Rightarrow>
          if isinstance e CMotionServer
          then collect_loop xs f succeeded (failed @ [(x, e)]) t
          else (Inl e, t))"

definition collect_target_results ::
  "'t list \<Rightarrow> ('t \<Rightarrow> ('s, exn, unit) op) \<Rightarrow> ('s, exn, 't target_results) op" where
  "collect_target_results targets f =
     bindS (collect_loop targets f [] []) (\<lambda>(succeeded, failed).
       if failed = [] then retS (Succeeded succeeded)
       else if succeeded = [] then raiseS (snd (hd failed))
       else retS (PartialFailure succeeded failed))"

subsection \<open>Lemmas\<close>

lemmas exn_defs =
  ConfigurationException_def InvalidRequestException_def UnknownCommandException_def
  UnsupportedOperationException_def InvalidArgumentException_def
  ResourceNotFoundException_def AuthorityRequiredException_def AuthorityBusyException_def
  PermissionDeniedException_def ServerNotReadyException_def InvalidStateException_def
  OperationConflictException_def OperationBlockedException_def LimitViolationException_def
  CommunicationException_def CommunicationTimeoutException_def DeviceException_def
  DeviceAccessException_def DeviceRejectedException_def SdoObjectNotFoundException_def
  OperationException_def OperationTimeoutException_def

text \<open>The fuel of \<open>mro\<close> is enough: the list always ends at \<open>Exception\<close>.\<close>

lemma mro_complete: "last (mro c) = CException"
  by (cases c) (simp_all add: mro_def numeral_eq_Suc)

text \<open>A mapped class is always below \<open>MotionServerException\<close>, so an exception of any other
  hierarchy finds no mapping.\<close>

lemma nearest_mapping_cases:
  "nearest_mapping c = None \<longleftrightarrow> CMotionServer \<notin> set (mro c) \<or> c = CMotionServer"
  by (cases c) (simp_all add: nearest_mapping_def mro_def numeral_eq_Suc)

lemma mapping_never_internal:
  "nearest_mapping c = Some m \<Longrightarrow> fm_code m \<noteq> INTERNAL_FAILURE"
  by (cases c) (auto simp: nearest_mapping_def mro_def numeral_eq_Suc mk_mapping_def)

lemma public_details_sound:
  assumes "public_details e m = Some d" and "(n, v) \<in> set d"
  shows "v \<noteq> PNone \<and> (\<exists>a. (n, a) \<in> set (fm_fields m) \<and> map_of (attrs e) a = Some v)"
  using assms
  by (fastforce simp: public_details_def Let_def split: if_splits option.splits)

lemma collect_loop_split:
  assumes "collect_loop xs f ss fs s = (Inr (ss', fs'), t)"
  shows "\<exists>us vs. ss' = ss @ us \<and> fs' = fs @ vs \<and> xs \<in> shuffles us (map fst vs)
    \<and> (\<forall>(x, e) \<in> set vs. isinstance e CMotionServer)"
  using assms
proof (induction xs f ss fs s rule: collect_loop.induct)
  case (1 f succeeded failed s)
  then show ?case by auto
next
  case (2 x xs f succeeded failed s)
  obtain r u where r: "f x s = (r, u)" by fastforce
  show ?case
  proof (cases r)
    case (Inl e)
    with 2 r have ms: "isinstance e CMotionServer" by (auto split: if_splits)
    with 2 r Inl obtain us vs where "ss' = succeeded @ us" "fs' = (failed @ [(x, e)]) @ vs"
      "xs \<in> shuffles us (map fst vs)" "\<forall>(x, e) \<in> set vs. isinstance e CMotionServer"
      by (auto split: if_splits)
    then show ?thesis
      using ms by (intro exI [of _ us] exI [of _ "(x, e) # vs"])
        (auto intro: Cons_in_shuffles_rightI)
  next
    case (Inr z)
    with 2 r obtain us vs where "ss' = (succeeded @ [x]) @ us" "fs' = failed @ vs"
      "xs \<in> shuffles us (map fst vs)" "\<forall>(x, e) \<in> set vs. isinstance e CMotionServer"
      by auto
    then show ?thesis
      by (intro exI [of _ "x # us"] exI [of _ vs]) (auto intro: Cons_in_shuffles_leftI)
  qed
qed

lemma collect_loop_raises:
  "collect_loop xs f ss fs s = (Inl e, t) \<Longrightarrow> \<exists>x \<in> set xs. \<exists>u. fst (f x u) = Inl e"
proof (induction xs f ss fs s rule: collect_loop.induct)
  case (2 x xs f succeeded failed s)
  obtain r u where r: "f x s = (r, u)" by fastforce
  show ?case
  proof (cases "r = Inl e")
    case True
    then have "fst (f x s) = Inl e" using r by simp
    then show ?thesis by auto
  next
    case False
    with 2 r have "\<exists>y \<in> set xs. \<exists>u. fst (f y u) = Inl e"
      by (cases r) (simp_all split: if_splits)
    then show ?thesis by simp
  qed
qed simp

lemma collect_loop_failures:
  "collect_loop xs f ss fs s = (Inr (ss', fs'), t) \<Longrightarrow> (x, e) \<in> set fs' \<Longrightarrow>
   (x, e) \<in> set fs \<or> (x \<in> set xs \<and> (\<exists>u. fst (f x u) = Inl e))"
proof (induction xs f ss fs s rule: collect_loop.induct)
  case (2 y xs f succeeded failed s)
  obtain r u where r: "f y s = (r, u)" by fastforce
  show ?case
  proof (cases r)
    case (Inl d)
    have "fst (f y s) = Inl d" using r Inl by simp
    moreover have "(x, e) \<in> set (failed @ [(y, d)]) \<or>
        (x \<in> set xs \<and> (\<exists>u. fst (f x u) = Inl e))"
      using 2 r Inl by (simp split: if_splits)
    ultimately show ?thesis by auto
  next
    case (Inr z)
    with 2 r show ?thesis by auto
  qed
qed simp

subsection \<open>Properties\<close>

text \<open>An exception whose class is a proper subclass of \<open>MotionServerException\<close> leaves the
  server under a specific code; every other exception is reported as \<open>INTERNAL_FAILURE\<close> with
  the fixed message and without details, so no text or attribute of an unexpected exception
  reaches a client.\<close>

theorem map_exception_codes:
  "if isinstance e CMotionServer \<and> class_of e \<noteq> CMotionServer
   then f_code (map_exception e) \<noteq> INTERNAL_FAILURE
   else map_exception e = \<lparr>f_code = INTERNAL_FAILURE,
          f_message = ''An internal failure occurred.'', f_details = None\<rparr>"
proof (cases "nearest_mapping (class_of e)")
  case None
  then show ?thesis
    using nearest_mapping_cases [of "class_of e"]
    by (auto simp: map_exception_def isinstance_def INTERNAL_FAILURE_MAPPING_def
        mk_mapping_def public_details_def)
next
  case (Some m)
  then show ?thesis
    using nearest_mapping_cases [of "class_of e"] mapping_never_internal [OF Some]
    by (auto simp: map_exception_def isinstance_def)
qed

text \<open>The details of a reported failure are never an empty object and hold only public
  names of the nearest mapping, each with the value the exception carries under the declared
  attribute; an attribute that is absent or \<open>None\<close> is not reported.\<close>

theorem map_exception_details:
  assumes "f_details (map_exception e) = Some d"
  shows "d \<noteq> [] \<and> (\<exists>m. nearest_mapping (class_of e) = Some m \<and>
    (\<forall>(n, v) \<in> set d. v \<noteq> PNone \<and>
       (\<exists>a. (n, a) \<in> set (fm_fields m) \<and> map_of (attrs e) a = Some v)))"
proof (cases "nearest_mapping (class_of e)")
  case None
  with assms show ?thesis
    by (simp add: map_exception_def INTERNAL_FAILURE_MAPPING_def mk_mapping_def
        public_details_def)
next
  case (Some m)
  with assms have d: "public_details e m = Some d"
    by (simp add: map_exception_def)
  then have "d \<noteq> []" by (auto simp: public_details_def Let_def split: if_splits)
  with Some public_details_sound [OF d] show ?thesis by auto
qed

theorem map_exception_details_witness:
  "f_details (map_exception (AuthorityBusyException (PInt 3))) = Some [(''owner'', PInt 3)] \<and>
   (\<exists>m. nearest_mapping CAuthorityBusy = Some m \<and>
      (\<exists>a. (''owner'', a) \<in> set (fm_fields m)))"
proof -
  have d: "f_details (map_exception (AuthorityBusyException (PInt 3))) =
      Some [(''owner'', PInt 3)]"
    by (simp add: map_exception_def nearest_mapping_def mro_def numeral_eq_Suc
        AuthorityBusyException_def mk_mapping_def same_def public_details_def)
  show ?thesis
    using d map_exception_details [OF d] by (auto simp: AuthorityBusyException_def)
qed

text \<open>\<open>collect_target_results\<close> returns the succeeded and the failed targets as a split of
  the requested ones that keeps both orders; a partial failure has at least one target on each
  side and only expected exceptions, and when every target fails the first failure is raised.\<close>

theorem collect_target_results_split:
  "case collect_target_results targets f s of
     (Inr (Succeeded ss), t) \<Rightarrow> ss = targets
   | (Inr (PartialFailure ss fs), t) \<Rightarrow>
       ss \<noteq> [] \<and> fs \<noteq> [] \<and> targets \<in> shuffles ss (map fst fs) \<and>
       list_all (\<lambda>(x, e). isinstance e CMotionServer) fs
   | (Inl e, t) \<Rightarrow> (\<exists>x \<in> set targets. \<exists>u. fst (f x u) = Inl e)"
proof (cases "collect_loop targets f [] [] s")
  case (Pair r t)
  show ?thesis
  proof (cases r)
    case (Inl e)
    then show ?thesis
      using Pair collect_loop_raises [of targets f "[]" "[]" s e t]
      by (simp add: collect_target_results_def)
  next
    case (Inr p)
    obtain ss fs where p: "p = (ss, fs)" by fastforce
    from collect_loop_split [of targets f "[]" "[]" s ss fs t] Pair Inr p
    have *: "targets \<in> shuffles ss (map fst fs)"
      "\<forall>(x, e) \<in> set fs. isinstance e CMotionServer" by auto
    have first: "fs \<noteq> [] \<Longrightarrow> \<exists>x \<in> set targets. \<exists>u. fst (f x u) = Inl (snd (hd fs))"
      using collect_loop_failures [of targets f "[]" "[]" s ss fs t] Pair Inr p
      by (cases fs) (simp, force)
    show ?thesis
      using Pair Inr p * first
      by (auto simp: collect_target_results_def retS_def raiseS_def list_all_iff)
  qed
qed

end
