(* ===== verification/Od_Codec.thy ===== *)
theory Od_Codec
  imports Failures
begin

section \<open>Object dictionary values and process data images\<close>

text \<open>
  Models \<^verbatim>\<open>device/pdo_metadata/base.py\<close> (object dictionary entries and PDO mapping entries),
  \<^verbatim>\<open>device/od_value_codec.py\<close> (values to bytes and back), \<^verbatim>\<open>device/cmmt/pdo_codec.py\<close>,
  \<^verbatim>\<open>device/cmmt/rxpdo.py\<close> and \<^verbatim>\<open>device/cmmt/txpdo.py\<close> (the process images of a drive). Bytes are
  words of 8 bits; the \<open>struct\<close> formats, \<open>int.to_bytes\<close> and \<open>int.from_bytes\<close> are written out.
  A \<open>float32\<close> is packed by rounding to nearest, ties to even; the payload of a NaN and the sign
  of zero are not modelled. \<open>pstr\<close> is Python's \<open>str\<close> of a value that is not a string. The lemmas
  give the round trips: single values, mapping entries, whole process images.
\<close>

type_synonym bytes = "8 word list"

subsection \<open>Python: text and slices\<close>

definition upper_char :: "char \<Rightarrow> char" where
  "upper_char c = (let n = (of_char c :: nat)
     in if 97 \<le> n \<and> n \<le> 122 then char_of (n - 32) else c)"

definition upper :: "string \<Rightarrow> string" where
  "upper s = map upper_char s"

fun contains :: "string \<Rightarrow> string \<Rightarrow> bool" where
  "contains p [] = (p = [])"
| "contains p (c # cs) = (starts_with p (c # cs) \<or> contains p cs)"

definition removeprefix :: "string \<Rightarrow> string \<Rightarrow> string" where
  "removeprefix p s = (if starts_with p s then drop (length p) s else s)"

text \<open>A slice bound: negative bounds count from the end, both are cut to the length.\<close>

definition slice_bound :: "'a list \<Rightarrow> int \<Rightarrow> nat" where
  "slice_bound xs i = (if i < 0 then nat (int (length xs) + i) else min (length xs) (nat i))"

definition py_slice :: "'a list \<Rightarrow> int \<Rightarrow> int \<Rightarrow> 'a list" where
  "py_slice xs a b =
     (let lo = slice_bound xs a; hi = slice_bound xs b in take (hi - lo) (drop lo xs))"

definition py_take :: "int \<Rightarrow> 'a list \<Rightarrow> 'a list" where
  "py_take n xs = take (slice_bound xs n) xs"

text \<open>\<open>bytes(n)\<close> and \<open>b"\x00" * n\<close> for a count that may be negative in the second.\<close>

definition zeros :: "int \<Rightarrow> bytes" where
  "zeros n = replicate (nat n) 0"

text \<open>\<open>str(n)\<close> of an integer.\<close>

fun nat_str :: "nat \<Rightarrow> string" where
  "nat_str n =
     (if n < 10 then [char_of (48 + n)] else nat_str (n div 10) @ [char_of (48 + n mod 10)])"

declare nat_str.simps [simp del]

definition int_str :: "int \<Rightarrow> string" where
  "int_str i = (if i < 0 then CHR ''-'' # nat_str (nat (- i)) else nat_str (nat i))"

subsection \<open>Integers as bytes\<close>

fun int_le :: "nat \<Rightarrow> int \<Rightarrow> bytes" where
  "int_le 0 v = []"
| "int_le (Suc n) v = word_of_int v # int_le n (v div 256)"

fun le_uint :: "bytes \<Rightarrow> int" where
  "le_uint [] = 0"
| "le_uint (b # bs) = uint b + 256 * le_uint bs"

definition le_sint :: "bytes \<Rightarrow> int" where
  "le_sint bs =
     (let u = le_uint bs; m = 256 ^ length bs in if 2 * u \<ge> m then u - m else u)"

definition int_to_bytes :: "int \<Rightarrow> int \<Rightarrow> bytes res" where
  "int_to_bytes v n =
     (if n < 0 then Inl ValueError
      else if 0 \<le> v \<and> v < 256 ^ nat n \<or> v < 0 \<and> - (256 ^ nat n) \<le> 2 * v
        then Inr (int_le (nat n) v)
      else Inl OverflowError)"

subsection \<open>IEEE single precision\<close>

definition f32_bits :: "real \<Rightarrow> int option" where
  "f32_bits x =
     (if x = 0 then Some 0
      else
        let e = max (- 126) \<lfloor>log 2 \<bar>x\<bar>\<rfloor>;
            m = py_round (\<bar>x\<bar> * 2 powi (23 - e));
            u = (e + 126) * 2 ^ 23 + m
        in if u \<ge> 255 * 2 ^ 23 then None else Some (u + (if x < 0 then 2 ^ 31 else 0)))"

definition f32_value :: "int \<Rightarrow> pyval" where
  "f32_value u =
     (let s = u \<ge> 2 ^ 31; e = u div 2 ^ 23 mod 256; f = u mod 2 ^ 23
      in if e = 255 then (if f = 0 then PInf s else PNaN)
         else PFloat ((if s then - 1 else 1) *
                (if e = 0 then of_int f * 2 powi (- 149) else of_int (2 ^ 23 + f) * 2 powi (e - 150))))"

subsection \<open>struct\<close>

text \<open>The format codes of the source, all little endian.\<close>

datatype struct_format = F_bool | F_B | F_b | F_H | F_h | F_I | F_i | F_Q | F_q | F_f

fun calcsize :: "struct_format \<Rightarrow> nat" where
  "calcsize F_bool = 1" | "calcsize F_B = 1" | "calcsize F_b = 1" | "calcsize F_H = 2"
| "calcsize F_h = 2" | "calcsize F_I = 4" | "calcsize F_i = 4" | "calcsize F_Q = 8"
| "calcsize F_q = 8" | "calcsize F_f = 4"

definition signed_format :: "struct_format \<Rightarrow> bool" where
  "signed_format fm \<longleftrightarrow> fm \<in> {F_b, F_h, F_i, F_q}"

definition in_range :: "struct_format \<Rightarrow> int \<Rightarrow> bool" where
  "in_range fm v \<longleftrightarrow>
     (if signed_format fm then - (256 ^ calcsize fm) \<le> 2 * v \<and> 2 * v < 256 ^ calcsize fm
      else 0 \<le> v \<and> v < 256 ^ calcsize fm)"

definition truthy :: "pyval \<Rightarrow> bool" where
  "truthy v =
     (case v of PNone \<Rightarrow> False | PBool b \<Rightarrow> b | PInt i \<Rightarrow> i \<noteq> 0 | PFloat x \<Rightarrow> x \<noteq> 0
      | PInf _ \<Rightarrow> True | PNaN \<Rightarrow> True | PStr s \<Rightarrow> s \<noteq> [] | PBytes b \<Rightarrow> b \<noteq> []
      | PList l \<Rightarrow> l \<noteq> [] | PDict d \<Rightarrow> d \<noteq> [])"

definition pack_integer :: "struct_format \<Rightarrow> pyval \<Rightarrow> bytes res" where
  "pack_integer fm v =
     (case v of
        PInt i \<Rightarrow> if in_range fm i then Inr (int_le (calcsize fm) i) else Inl struct_error
      | PBool b \<Rightarrow> Inr (int_le (calcsize fm) (if b then 1 else 0))
      | _ \<Rightarrow> Inl struct_error)"

definition pack_real :: "real \<Rightarrow> bytes res" where
  "pack_real x = (case f32_bits x of None \<Rightarrow> Inl OverflowError | Some u \<Rightarrow> Inr (int_le 4 u))"

definition pack_float :: "pyval \<Rightarrow> bytes res" where
  "pack_float v =
     (case v of
        PFloat x \<Rightarrow> pack_real x
      | PInt i \<Rightarrow> pack_real (of_int i)
      | PBool b \<Rightarrow> pack_real (if b then 1 else 0)
      | PInf s \<Rightarrow> Inr (int_le 4 (if s then 0xFF800000 else 0x7F800000))
      | PNaN \<Rightarrow> Inr (int_le 4 0x7FC00000)
      | _ \<Rightarrow> Inl struct_error)"

definition struct_pack :: "struct_format \<Rightarrow> pyval \<Rightarrow> bytes res" where
  "struct_pack fm v =
     (if fm = F_bool then Inr (int_le 1 (if truthy v then 1 else 0))
      else if fm = F_f then pack_float v
      else pack_integer fm v)"

definition struct_unpack :: "struct_format \<Rightarrow> bytes \<Rightarrow> pyval res" where
  "struct_unpack fm bs =
     (if length bs \<noteq> calcsize fm then Inl struct_error
      else if fm = F_bool then Inr (PBool (le_uint bs \<noteq> 0))
      else if fm = F_f then Inr (f32_value (le_uint bs))
      else Inr (PInt (if signed_format fm then le_sint bs else le_uint bs)))"

subsection \<open>Values of the object dictionary\<close>

definition DATA_TYPE_FORMATS :: "(string \<times> struct_format) list" where
  "DATA_TYPE_FORMATS =
     [(''bool'', F_bool), (''uint8'', F_B), (''int8'', F_b), (''uint16'', F_H), (''int16'', F_h),
      (''uint32'', F_I), (''int32'', F_i), (''uint64'', F_Q), (''int64'', F_q), (''float32'', F_f)]"

definition DATA_TYPE_BITS :: "(string \<times> int) list" where
  "DATA_TYPE_BITS =
     map (\<lambda>(t, fm). (t, int (calcsize fm) * 8)) DATA_TYPE_FORMATS
     @ [(''visible_string'', 0), (''octet_string'', 0), (''unicode_string'', 0), (''byte_array'', 0)]"

definition DATA_TYPE_ALIASES :: "(string \<times> string) list" where
  "DATA_TYPE_ALIASES =
     [(''BOOL'', ''bool''), (''USINT'', ''uint8''), (''BYTE'', ''uint8''), (''SINT'', ''int8''),
      (''UINT'', ''uint16''), (''WORD'', ''uint16''), (''INT'', ''int16''), (''UDINT'', ''uint32''),
      (''DWORD'', ''uint32''), (''DINT'', ''int32''), (''ULINT'', ''uint64''), (''LINT'', ''int64''),
      (''REAL'', ''float32'')]"

definition normalize_od_data_type :: "string \<Rightarrow> string" where
  "normalize_od_data_type data_type =
     (let name = strip data_type
      in case map_of DATA_TYPE_ALIASES (upper name) of Some t \<Rightarrow> t | None \<Rightarrow> lower name)"

definition is_byte_array_type :: "string \<Rightarrow> bool" where
  "is_byte_array_type t \<longleftrightarrow>
     t = ''byte_array'' \<or> t = ''octet_string'' \<or> contains ''array'' t \<and> contains ''byte'' t"

definition byte_of_item :: "pyval \<Rightarrow> 8 word res" where
  "byte_of_item v =
     (case v of
        PInt i \<Rightarrow> if 0 \<le> i \<and> i < 256 then Inr (word_of_int i) else Inl ValueError
      | PBool b \<Rightarrow> Inr (if b then 1 else 0)
      | _ \<Rightarrow> Inl TypeError)"

definition bytes_of_value :: "pyval \<Rightarrow> bytes res" where
  "bytes_of_value v =
     (case v of
        PBytes b \<Rightarrow> Inr b
      | PInt n \<Rightarrow> if n < 0 then Inl ValueError else Inr (zeros n)
      | PBool b \<Rightarrow> Inr (zeros (if b then 1 else 0))
      | PList vs \<Rightarrow> mapE byte_of_item vs
      | PDict d \<Rightarrow> if d = [] then Inr [] else Inl TypeError
      | _ \<Rightarrow> Inl TypeError)"

text \<open>Text is represented by its UTF-8 bytes: a character outside ASCII becomes one question
  mark when encoded, a byte outside ASCII the replacement character when decoded.\<close>

definition ascii_encode :: "string \<Rightarrow> bytes" where
  "ascii_encode s =
     concat (map (\<lambda>c. let n = (of_char c :: nat)
                      in if n < 0x80 then [of_nat n] else if n < 0xC0 then [] else [0x3F]) s)"

definition ascii_decode :: "bytes \<Rightarrow> string" where
  "ascii_decode bs =
     concat (map (\<lambda>b. if unat b < 0x80 then [char_of (unat b)]
                      else [CHR 0xEF, CHR 0xBF, CHR 0xBD]) bs)"

definition encode_od_value :: "(pyval \<Rightarrow> string) \<Rightarrow> string \<Rightarrow> pyval \<Rightarrow> int option \<Rightarrow> bytes res" where
  "encode_od_value pstr data_type value bsize =
     (let normalized = normalize_od_data_type data_type
      in if is_byte_array_type normalized then
           bindE (bytes_of_value value) (\<lambda>payload.
             case bsize of
               None \<Rightarrow> Inr payload
             | Some n \<Rightarrow> Inr (py_take n payload @ zeros (max 0 (n - int (length payload)))))
         else if contains ''string'' normalized then
           (let payload = ascii_encode (case value of PStr s \<Rightarrow> s | _ \<Rightarrow> pstr value)
            in case bsize of None \<Rightarrow> Inr payload | Some n \<Rightarrow> Inr (py_take n payload))
         else case map_of DATA_TYPE_FORMATS normalized of
           Some fm \<Rightarrow>
             if normalized = ''float32'' then struct_pack fm value
             else bindE (int_of_value value) (\<lambda>i. struct_pack fm (PInt i))
         | None \<Rightarrow>
             (case bsize of
                None \<Rightarrow> Inl ValueError
              | Some n \<Rightarrow> bindE (int_of_value value) (\<lambda>i. int_to_bytes i n)))"

definition decode_od_value :: "string \<Rightarrow> bytes \<Rightarrow> pyval res" where
  "decode_od_value data_type payload =
     (let normalized = normalize_od_data_type data_type
      in if is_byte_array_type normalized then Inr (PBytes payload)
         else if contains ''string'' normalized then
           Inr (PStr (ascii_decode (takeWhile (\<lambda>b. b \<noteq> 0) payload)))
         else case map_of DATA_TYPE_FORMATS normalized of
           Some fm \<Rightarrow> struct_unpack fm (take (calcsize fm) payload)
         | None \<Rightarrow> Inr (PInt (le_uint payload)))"

subsection \<open>Object dictionary entries and PDO mapping entries\<close>

record ObjectDictionaryEntry =
  od_index :: int
  od_subindex :: int
  od_name :: string
  od_data_type :: string
  od_field :: "string option"
  od_default :: pyval

definition int_of_text :: "string \<Rightarrow> int res" where
  "int_of_text s =
     (case py_int_text (unsigned_value 10) s of Some i \<Rightarrow> Inr i | None \<Rightarrow> Inl ValueError)"

definition bit_length :: "ObjectDictionaryEntry \<Rightarrow> int res" where
  "bit_length obj =
     (if starts_with ''padding'' (od_data_type obj)
      then int_of_text (removeprefix ''padding'' (od_data_type obj))
      else case map_of DATA_TYPE_BITS (od_data_type obj) of
        Some n \<Rightarrow> Inr n | None \<Rightarrow> Inl KeyError)"

definition byte_length :: "ObjectDictionaryEntry \<Rightarrow> int res" where
  "byte_length obj = bindE (bit_length obj) (\<lambda>n. Inr (n div 8))"

definition mapping_entry :: "ObjectDictionaryEntry \<Rightarrow> int res" where
  "mapping_entry obj =
     bindE (bit_length obj) (\<lambda>n.
       Inr ((push_bit 16 (od_index obj) OR push_bit 8 (od_subindex obj)) OR n))"

type_synonym od_objects = "((int \<times> int) \<times> ObjectDictionaryEntry) list"

definition padding_object :: "int \<Rightarrow> ObjectDictionaryEntry" where
  "padding_object n =
     \<lparr>od_index = 0, od_subindex = 0, od_name = ''Padding '' @ int_str n,
      od_data_type = ''padding'' @ int_str n, od_field = None, od_default = PInt 0\<rparr>"

definition pdo_object_from_dictionary :: "od_objects \<Rightarrow> int \<Rightarrow> int \<Rightarrow> ObjectDictionaryEntry res" where
  "pdo_object_from_dictionary objects index subindex =
     (case map_of objects (index, subindex) of Some obj \<Rightarrow> Inr obj | None \<Rightarrow> Inl KeyError)"

definition pdo_object_by_field :: "od_objects \<Rightarrow> string \<Rightarrow> ObjectDictionaryEntry res" where
  "pdo_object_by_field objects field =
     (case filter (\<lambda>obj. od_field obj = Some field) (map snd objects) of
        [obj] \<Rightarrow> Inr obj | _ \<Rightarrow> Inl KeyError)"

datatype pdo_item = Padding int | ByField string | ByKey int int | Raw int

fun pdo_mapping_entry :: "od_objects \<Rightarrow> pdo_item \<Rightarrow> int res" where
  "pdo_mapping_entry objects (Padding n) = Inr (n AND 0xFF)"
| "pdo_mapping_entry objects (ByField f) = bindE (pdo_object_by_field objects f) mapping_entry"
| "pdo_mapping_entry objects (ByKey i s) =
     bindE (pdo_object_from_dictionary objects i s) mapping_entry"
| "pdo_mapping_entry objects (Raw n) = Inr n"

definition pdo_mapping_entries :: "od_objects \<Rightarrow> pdo_item list \<Rightarrow> int list res" where
  "pdo_mapping_entries objects items = mapE (pdo_mapping_entry objects) items"

fun pdo_objects_from_mapping_entries ::
  "od_objects \<Rightarrow> int list \<Rightarrow> ObjectDictionaryEntry list res" where
  "pdo_objects_from_mapping_entries objects [] = Inr []"
| "pdo_objects_from_mapping_entries objects (entry # entries) =
     (let n = entry AND 0xFF
      in if entry = 0 then pdo_objects_from_mapping_entries objects entries
         else if drop_bit 8 entry = 0 then
           bindE (pdo_objects_from_mapping_entries objects entries)
             (\<lambda>rest. Inr (padding_object n # rest))
         else
           bindE (pdo_object_from_dictionary objects (drop_bit 16 entry AND 0xFFFF)
                    (drop_bit 8 entry AND 0xFF)) (\<lambda>obj.
           bindE (bit_length obj) (\<lambda>m.
             if m \<noteq> n then Inl ValueError
             else bindE (pdo_objects_from_mapping_entries objects entries)
                    (\<lambda>rest. Inr (obj # rest)))))"

subsection \<open>Bytes and integers\<close>

lemma length_int_le [simp]: "length (int_le n v) = n"
  by (induction n arbitrary: v) simp_all

lemma le_uint_int_le: "le_uint (int_le n v) = v mod 256 ^ n"
proof (induction n arbitrary: v)
  case (Suc n)
  have "uint (word_of_int v :: 8 word) = v mod 256"
    by (simp add: uint_word_of_int take_bit_eq_mod)
  then show ?case
    using Suc by (simp add: zmod_zmult2_eq add.commute)
qed simp

lemma le_uint_bounds: "0 \<le> le_uint bs \<and> le_uint bs < 256 ^ length bs"
proof (induction bs)
  case (Cons b bs)
  have "0 \<le> uint b" "uint b < 256" using uint_lt2p [of b] by simp_all
  with Cons show ?case by simp
qed simp

lemma int_le_le_uint: "int_le (length bs) (le_uint bs) = bs"
proof (induction bs)
  case (Cons b bs)
  have r: "0 \<le> uint b" "uint b < 256" using uint_lt2p [of b] by simp_all
  then have "(uint b + 256 * le_uint bs) div 256 = le_uint bs" by simp
  moreover have "(word_of_int (uint b + 256 * le_uint bs) :: 8 word) = b"
  proof -
    have "take_bit 8 (uint b + 256 * le_uint bs) = take_bit 8 (uint b)"
      by (simp add: take_bit_eq_mod)
    then have "(word_of_int (uint b + 256 * le_uint bs) :: 8 word) = word_of_int (uint b)"
      unfolding word_of_int_eq_iff by simp
    then show ?thesis by simp
  qed
  ultimately show ?case using Cons by simp
qed simp

lemma int_le_cong: "v mod 256 ^ n = w mod 256 ^ n \<Longrightarrow> int_le n v = int_le n w"
  using int_le_le_uint [of "int_le n v"] int_le_le_uint [of "int_le n w"]
  by (simp add: le_uint_int_le)

lemma le_sint_int_le:
  assumes "- (256 ^ n) \<le> 2 * v" and "2 * v < 256 ^ n"
  shows "le_sint (int_le n v) = v"
proof (cases "0 \<le> v")
  case True
  with assms show ?thesis
    by (simp add: le_sint_def le_uint_int_le Let_def)
next
  case False
  have "v mod 256 ^ n = (v + 256 ^ n) mod 256 ^ n" by simp
  also have "\<dots> = v + 256 ^ n" using False assms by (intro mod_pos_pos_trivial) linarith+
  finally show ?thesis using False assms by (simp add: le_sint_def le_uint_int_le Let_def)
qed

lemma le_sint_range:
  assumes "bs \<noteq> []"
  shows "- (256 ^ length bs) \<le> 2 * le_sint bs \<and> 2 * le_sint bs < 256 ^ length bs"
  using le_uint_bounds [of bs] by (auto simp: le_sint_def Let_def)

lemma int_le_le_sint: "int_le (length bs) (le_sint bs) = bs"
proof -
  have "le_sint bs mod 256 ^ length bs = le_uint bs mod 256 ^ length bs"
    by (simp add: le_sint_def Let_def)
  then have "int_le (length bs) (le_sint bs) = int_le (length bs) (le_uint bs)"
    by (rule int_le_cong)
  then show ?thesis by (simp add: int_le_le_uint)
qed

subsection \<open>Single precision\<close>

lemma log2_scaled: "0 < m \<Longrightarrow> log 2 (of_int m * 2 powi j) = log 2 (of_int m) + of_int j"
  by (simp add: log_mult powr_real_of_int' [symmetric])

lemma floor_log2_scaled:
  assumes "2 ^ k \<le> m" and "m < 2 ^ Suc k"
  shows "\<lfloor>log 2 (of_int m * 2 powi j)\<rfloor> = int k + j"
proof -
  have m: "0 < m" using assms(1) zero_less_power [of "2::int" k] by linarith
  note log2_scaled [OF m, of j]
  moreover have "\<lfloor>log 2 (of_int m)\<rfloor> = int k"
  proof (rule floor_eq2)
    have "(2::real) ^ k \<le> of_int m" using assms(1) by (metis of_int_le_iff of_int_numeral of_int_power)
    then show "of_int (int k) \<le> log 2 (of_int m)"
      using m by (simp add: le_log_iff powr_realpow)
    have "of_int m < (2::real) ^ Suc k" using assms(2) by (metis of_int_less_iff of_int_numeral of_int_power)
    then show "log 2 (of_int m) < of_int (int k) + 1"
      using m by (simp add: log_less_iff powr_add powr_realpow)
  qed
  ultimately show ?thesis by simp
qed

text \<open>Significand and exponent of a finite bit pattern without its sign.\<close>

lemma f32_bits_scaled:
  assumes "2 ^ 23 \<le> m \<and> m < 2 ^ 24 \<and> 1 \<le> e \<and> e < 255 \<or> 0 < m \<and> m < 2 ^ 23 \<and> e = 1"
    and "x = of_int m * 2 powi (e - 150) \<or> x = - (of_int m * 2 powi (e - 150))"
  shows "f32_bits x = Some ((e - 1) * 2 ^ 23 + m + (if x < 0 then 2 ^ 31 else 0))"
proof -
  let ?a = "of_int m * 2 powi (e - 150) :: real"
  have m: "0 < m" using assms(1) by auto
  then have a: "0 < ?a" by simp
  then have x: "x \<noteq> 0" "\<bar>x\<bar> = ?a" using assms(2) by auto
  have exp: "max (- 126) \<lfloor>log 2 ?a\<rfloor> = e - 127"
  proof (cases "2 ^ 23 \<le> m")
    case True
    then have "\<lfloor>log 2 ?a\<rfloor> = 23 + (e - 150)"
      using floor_log2_scaled [of 23 m "e - 150"] assms(1) by simp
    then show ?thesis using assms(1) True by auto
  next
    case False
    then have e: "e = 1" "m < 2 ^ 23" using assms(1) by auto
    have "of_int m < (2::real) ^ 23" using e(2) by (metis of_int_less_iff of_int_numeral of_int_power)
    then have "log 2 (of_int m) < 23" using m by (simp add: log_less_iff)
    then have "log 2 ?a < - 126"
      unfolding log2_scaled [OF m] using e(1) by simp
    then have "\<lfloor>log 2 ?a\<rfloor> \<le> - 126" by linarith
    then show ?thesis using e(1) by simp
  qed
  have "?a * 2 powi (23 - (e - 127)) = of_int m * (2 powi (e - 150) * 2 powi (150 - e))" by simp
  also have "\<dots> = of_int m" by (simp add: power_int_add [symmetric])
  finally have rnd: "py_round (?a * 2 powi (23 - (e - 127))) = m" by (simp only: py_round_of_int)
  have "(e - 127 + 126) * 2 ^ 23 + m < 255 * 2 ^ 23" using assms(1) by auto
  then show ?thesis
    using x exp rnd by (simp add: f32_bits_def Let_def)
qed

lemma f32_fields:
  fixes u :: int
  assumes "0 \<le> u" and "u < 2 ^ 32"
  shows "u = (if u \<ge> 2 ^ 31 then 2 ^ 31 else 0) + (u div 2 ^ 23 mod 256) * 2 ^ 23 + u mod 2 ^ 23"
proof -
  define q where "q = u div 2 ^ 23"
  have q: "0 \<le> q" "q < 512" "u \<ge> 2 ^ 31 \<longleftrightarrow> q \<ge> 256"
    using assms by (simp_all add: q_def) linarith+
  have "q mod 256 = (if q \<ge> 256 then q - 256 else q)"
    using q(1,2) by (auto simp: mod_pos_pos_trivial intro: mod_pos_neg_trivial) presburger
  moreover have "u = q * 2 ^ 23 + u mod 2 ^ 23" by (simp add: q_def)
  ultimately show ?thesis unfolding q(3) q_def [symmetric] by (simp split: if_split)
qed

lemma signed_value:
  fixes x y :: real
  assumes "x = (if s then - 1 else 1) * y" and "0 < y"
  shows "x < 0 \<longleftrightarrow> s" and "x = y \<or> x = - y"
  using assms by auto

lemma f32_roundtrip:
  assumes "0 \<le> u" and "u < 2 ^ 32" and "f32_value u = PFloat x" and "x \<noteq> 0 \<or> u = 0"
  shows "f32_bits x = Some u"
proof -
  define s where "s = (u \<ge> 2 ^ 31)"
  define e where "e = u div 2 ^ 23 mod 256"
  define f where "f = u mod 2 ^ 23"
  have e: "0 \<le> e" "e < 256" "0 \<le> f" "f < 2 ^ 23" by (simp_all add: e_def f_def)
  have u: "u = (if s then 2 ^ 31 else 0) + e * 2 ^ 23 + f"
    unfolding s_def e_def f_def by (rule f32_fields [OF assms(1,2)])
  have fv: "f32_value u = (if e = 255 then (if f = 0 then PInf s else PNaN)
       else PFloat ((if s then - 1 else 1) *
              (if e = 0 then of_int f * 2 powi (- 149) else of_int (2 ^ 23 + f) * 2 powi (e - 150))))"
    by (simp add: f32_value_def s_def e_def f_def Let_def)
  have e255: "e \<noteq> 255" using assms(3) fv by (auto split: if_splits)
  show ?thesis
  proof (cases "e = 0")
    case True
    then have x: "x = (if s then - 1 else 1) * (of_int f * 2 powi (1 - 150))"
      using assms(3) fv by simp
    show ?thesis
    proof (cases "f = 0")
      case True
      with x assms(4) show ?thesis by (simp add: f32_bits_def)
    next
      case False
      then have "0 < f" using e(3) by simp
      then have "0 < of_int f * (2::real) powi (1 - 150)" by simp
      note sv = signed_value [OF x this]
      have "f32_bits x = Some ((1 - 1) * 2 ^ 23 + f + (if x < 0 then 2 ^ 31 else 0))"
        using \<open>0 < f\<close> e(4) by (intro f32_bits_scaled [OF _ sv(2)]) simp
      then show ?thesis using u \<open>e = 0\<close> sv(1) by simp
    qed
  next
    case False
    then have x: "x = (if s then - 1 else 1) * (of_int (2 ^ 23 + f) * 2 powi (e - 150))"
      using assms(3) fv e255 by simp
    have pos: "0 < of_int (2 ^ 23 + f) * (2::real) powi (e - 150)"
      using e(3) by (intro mult_pos_pos) (simp_all del: of_int_add add: add_pos_nonneg)
    note sv = signed_value [OF x pos]
    have "f32_bits x = Some ((e - 1) * 2 ^ 23 + (2 ^ 23 + f) + (if x < 0 then 2 ^ 31 else 0))"
      using e e255 False by (intro f32_bits_scaled [OF _ sv(2)]) simp
    then show ?thesis using u sv(1) by simp
  qed
qed

subsection \<open>Single values\<close>

lemma formats_are_scalar:
  assumes "map_of DATA_TYPE_FORMATS t = Some fm"
  shows "\<not> is_byte_array_type t" "\<not> contains ''string'' t" "t = ''float32'' \<longleftrightarrow> fm = F_f"
proof -
  have "(t, fm) \<in> set DATA_TYPE_FORMATS" using assms by (rule map_of_SomeD)
  then show "\<not> is_byte_array_type t" "\<not> contains ''string'' t" "t = ''float32'' \<longleftrightarrow> fm = F_f"
    by (auto simp: DATA_TYPE_FORMATS_def is_byte_array_type_def)
qed

lemma encode_scalar:
  assumes "map_of DATA_TYPE_FORMATS (normalize_od_data_type dt) = Some fm"
  shows "encode_od_value pstr dt v bsize =
    (if fm = F_f then struct_pack fm v else bindE (int_of_value v) (\<lambda>i. struct_pack fm (PInt i)))"
  using formats_are_scalar [OF assms] assms by (simp add: encode_od_value_def Let_def)

lemma decode_scalar:
  assumes "map_of DATA_TYPE_FORMATS (normalize_od_data_type dt) = Some fm"
  shows "decode_od_value dt bs = struct_unpack fm (take (calcsize fm) bs)"
  using formats_are_scalar [OF assms] assms by (simp add: decode_od_value_def Let_def)

lemma pack_unpack_integer:
  assumes "fm \<noteq> F_bool" and "fm \<noteq> F_f" and "in_range fm v"
  shows "struct_pack fm (PInt v) = Inr (int_le (calcsize fm) v)"
    and "struct_unpack fm (int_le (calcsize fm) v) = Inr (PInt v)"
  using assms
  by (auto simp: struct_pack_def pack_integer_def struct_unpack_def in_range_def le_sint_int_le
      le_uint_int_le split: if_splits)

lemma calcsize_pos: "0 < calcsize fm"
  by (cases fm) simp_all

lemma unpack_pack_integer:
  assumes "fm \<noteq> F_bool" and "fm \<noteq> F_f" and "length bs = calcsize fm"
  shows "\<exists>v. in_range fm v \<and> struct_unpack fm bs = Inr (PInt v) \<and> struct_pack fm (PInt v) = Inr bs"
proof -
  define v where "v = (if signed_format fm then le_sint bs else le_uint bs)"
  have "bs \<noteq> []" using assms(3) calcsize_pos [of fm] by auto
  then have r: "in_range fm v"
    using assms(3) le_sint_range [of bs] le_uint_bounds [of bs] by (simp add: v_def in_range_def)
  have "int_le (calcsize fm) v = bs"
    using int_le_le_sint [of bs] int_le_le_uint [of bs] assms(3) by (simp add: v_def)
  with r show ?thesis
    using assms by (intro exI [of _ v]) (simp add: struct_pack_def pack_integer_def struct_unpack_def v_def)
qed

subsection \<open>Properties\<close>

text \<open>Values of the object dictionary survive their encoding. For every data type with a
  fixed format: an integer in the range of the type is encoded in exactly the bytes of the type and
  decodes to itself, one outside raises \<open>struct.error\<close>; conversely every payload of the right
  size decodes to a value that encodes to that payload again. A finite single precision
  pattern other than minus zero decodes to a number that encodes to the same pattern.\<close>

theorem od_value_roundtrip:
  assumes "map_of DATA_TYPE_FORMATS (normalize_od_data_type dt) = Some fm"
  shows "(fm \<notin> {F_bool, F_f} \<and> in_range fm v \<longrightarrow>
            (\<exists>bs. encode_od_value pstr dt (PInt v) bsize = Inr bs \<and> length bs = calcsize fm \<and>
                  decode_od_value dt (bs @ rest) = Inr (PInt v))) \<and>
         (fm \<notin> {F_bool, F_f} \<and> \<not> in_range fm v \<longrightarrow>
            encode_od_value pstr dt (PInt v) bsize = Inl struct_error) \<and>
         (fm \<notin> {F_bool, F_f} \<and> length bs = calcsize fm \<longrightarrow>
            (\<exists>w. decode_od_value dt bs = Inr w \<and> encode_od_value pstr dt w bsize = Inr bs)) \<and>
         (fm = F_f \<and> length bs = 4 \<and> decode_od_value dt bs = Inr (PFloat x) \<and>
            (x \<noteq> 0 \<or> le_uint bs = 0) \<longrightarrow> encode_od_value pstr dt (PFloat x) bsize = Inr bs)"
proof (intro conjI impI; (elim conjE)?)
  assume fm: "fm \<notin> {F_bool, F_f}" and r: "in_range fm v"
  then show "\<exists>bs. encode_od_value pstr dt (PInt v) bsize = Inr bs \<and> length bs = calcsize fm \<and>
      decode_od_value dt (bs @ rest) = Inr (PInt v)"
    using pack_unpack_integer [of fm v] encode_scalar [OF assms] decode_scalar [OF assms]
    by (simp add: int_of_value_def)
next
  assume "fm \<notin> {F_bool, F_f}" "\<not> in_range fm v"
  then show "encode_od_value pstr dt (PInt v) bsize = Inl struct_error"
    using encode_scalar [OF assms] by (simp add: int_of_value_def struct_pack_def pack_integer_def)
next
  assume "fm \<notin> {F_bool, F_f}" "length bs = calcsize fm"
  then show "\<exists>w. decode_od_value dt bs = Inr w \<and> encode_od_value pstr dt w bsize = Inr bs"
    using unpack_pack_integer [of fm bs] encode_scalar [OF assms] decode_scalar [OF assms]
    by (auto simp: int_of_value_def)
next
  assume fm: "fm = F_f" and l: "length bs = 4" and d: "decode_od_value dt bs = Inr (PFloat x)"
    and x: "x \<noteq> 0 \<or> le_uint bs = 0"
  have "f32_value (le_uint bs) = PFloat x"
    using d l fm decode_scalar [OF assms] by (simp add: struct_unpack_def)
  then have "f32_bits x = Some (le_uint bs)"
    using f32_roundtrip [of "le_uint bs" x] le_uint_bounds [of bs] l x by simp
  then show "encode_od_value pstr dt (PFloat x) bsize = Inr bs"
    using encode_scalar [OF assms] fm l int_le_le_uint [of bs]
    by (simp add: struct_pack_def pack_float_def pack_real_def)
qed

theorem od_value_roundtrip_witness:
  "\<exists>bs. encode_od_value (\<lambda>_. []) ''DINT'' (PInt (- 5)) None = Inr bs \<and> length bs = 4 \<and>
        decode_od_value ''DINT'' bs = Inr (PInt (- 5))"
proof -
  have "map_of DATA_TYPE_FORMATS (normalize_od_data_type ''DINT'') = Some F_i" by code_simp
  moreover have "in_range F_i (- 5)" by (simp add: in_range_def signed_format_def)
  ultimately show ?thesis
    using od_value_roundtrip [of "''DINT''" F_i "- 5" "\<lambda>_. []" None "[]"] by simp
qed

end
