(* ===== verification/Pdo_Image.thy ===== *)
theory Pdo_Image
  imports Od_Codec
begin

section \<open>Process data images of a drive\<close>

text \<open>
  Models \<^verbatim>\<open>device/cmmt/pdo_configuration.py\<close> (the PDO configurations of the CMMT drives),
  \<^verbatim>\<open>device/cmmt/rxpdo.py\<close>, \<^verbatim>\<open>device/cmmt/txpdo.py\<close> (the process images: one attribute per mapped
  field) and \<^verbatim>\<open>device/cmmt/pdo_codec.py\<close>. An image is the list of its mapped objects, the set of
  mapped fields and its attributes. Decoding assigns attribute by attribute, so it is an operation
  on the image that keeps what it assigned before an exception. The lemmas show that mapping
  entries identify their objects and that an encoded image decodes to the same field values.
\<close>

subsection \<open>Configurations\<close>

record PdoOdRole =
  pr_role :: string
  pr_index :: int
  pr_subindex :: int
  pr_name :: string
  pr_data_type :: string
  pr_default :: int

definition object_entry :: "PdoOdRole \<Rightarrow> ObjectDictionaryEntry" where
  "object_entry r =
     \<lparr>od_index = pr_index r, od_subindex = pr_subindex r, od_name = pr_name r,
      od_data_type = pr_data_type r, od_field = Some (pr_role r), od_default = PInt (pr_default r)\<rparr>"

datatype cmmt_item = PdoPadding int | PdoRole PdoOdRole

record CMMTPdoConfiguration =
  conf_name :: string
  rxpdo_items :: "cmmt_item list"
  txpdo_items :: "cmmt_item list"

fun cmmt_mapping_entry :: "cmmt_item \<Rightarrow> int res" where
  "cmmt_mapping_entry (PdoPadding n) = Inr (n AND 0xFF)"
| "cmmt_mapping_entry (PdoRole r) = mapping_entry (object_entry r)"

definition cmmt_mapping_entries :: "cmmt_item list \<Rightarrow> int list res" where
  "cmmt_mapping_entries items = mapE cmmt_mapping_entry items"

fun pdo_object :: "cmmt_item \<Rightarrow> ObjectDictionaryEntry" where
  "pdo_object (PdoPadding n) = padding_object n"
| "pdo_object (PdoRole r) = object_entry r"

definition pdo_objects :: "cmmt_item list \<Rightarrow> ObjectDictionaryEntry list" where
  "pdo_objects items = map pdo_object items"

definition od_roles :: "CMMTPdoConfiguration \<Rightarrow> PdoOdRole list" where
  "od_roles conf =
     List.map_filter (\<lambda>x. case x of PdoRole r \<Rightarrow> Some r | PdoPadding _ \<Rightarrow> None)
       (rxpdo_items conf @ txpdo_items conf)"

definition pdo_item_of :: "string \<Rightarrow> int \<Rightarrow> string \<Rightarrow> string \<Rightarrow> int \<Rightarrow> cmmt_item" where
  "pdo_item_of role index name data_type d =
     PdoRole \<lparr>pr_role = role, pr_index = index, pr_subindex = 0, pr_name = name,
              pr_data_type = data_type, pr_default = d\<rparr>"

definition basic_txpdo_items :: "cmmt_item list" where
  "basic_txpdo_items =
     [pdo_item_of ''statusword'' 0x6041 ''Statusword'' ''uint16'' 0x0040,
      pdo_item_of ''mode_of_operation_display'' 0x6061 ''Modes of operation display'' ''int8'' 8,
      pdo_item_of ''actual_position'' 0x6064 ''Position actual value'' ''int32'' 0,
      pdo_item_of ''actual_velocity'' 0x606C ''Velocity actual value'' ''int32'' 0]"

definition basic_rxpdo_items :: "cmmt_item list" where
  "basic_rxpdo_items =
     [pdo_item_of ''controlword'' 0x6040 ''Controlword'' ''uint16'' 0,
      pdo_item_of ''mode_of_operation'' 0x6060 ''Modes of operation'' ''int8'' 8,
      pdo_item_of ''target_position'' 0x607A ''Target position'' ''int32'' 0]"

definition profile_velocity_item :: cmmt_item where
  "profile_velocity_item =
     pdo_item_of ''profile_velocity'' 0x6081 ''Profile velocity'' ''uint32'' 0"

definition velocity_offset_item :: cmmt_item where
  "velocity_offset_item = pdo_item_of ''velocity_offset'' 0x60B1 ''Velocity offset'' ''int32'' 0"

definition motion_server_default :: CMMTPdoConfiguration where
  "motion_server_default =
     \<lparr>conf_name = ''motion_server_default'',
      rxpdo_items = basic_rxpdo_items @
        [profile_velocity_item,
         pdo_item_of ''target_velocity'' 0x60FF ''Target velocity'' ''int32'' 0,
         pdo_item_of ''target_torque'' 0x6071 ''Target torque'' ''int16'' 0,
         velocity_offset_item,
         pdo_item_of ''torque_offset'' 0x60B2 ''Torque offset'' ''int16'' 0,
         PdoPadding 8],
      txpdo_items = basic_txpdo_items @
        [pdo_item_of ''actual_torque'' 0x6077 ''Torque actual value'' ''int16'' 0,
         PdoPadding 8]\<rparr>"

definition CMMT_PDO_CONFIGURATIONS :: "(string \<times> CMMTPdoConfiguration) list" where
  "CMMT_PDO_CONFIGURATIONS =
     [(''motion_server_default'', motion_server_default),
      (''profile_position_basic'',
       \<lparr>conf_name = ''profile_position_basic'',
        rxpdo_items = basic_rxpdo_items @ [profile_velocity_item],
        txpdo_items = basic_txpdo_items\<rparr>),
      (''csp_basic'',
       \<lparr>conf_name = ''csp_basic'',
        rxpdo_items = basic_rxpdo_items @ [velocity_offset_item],
        txpdo_items = basic_txpdo_items\<rparr>)]"

definition normalize_pdo_configuration_name :: "string \<Rightarrow> string" where
  "normalize_pdo_configuration_name s =
     map (\<lambda>c. if c = CHR ''-'' then CHR ''_'' else c) (lower (strip s))"

definition get_pdo_configuration :: "string option \<Rightarrow> CMMTPdoConfiguration res" where
  "get_pdo_configuration name =
     (let requested = (case name of Some (c # cs) \<Rightarrow> c # cs | _ \<Rightarrow> ''motion_server_default'')
      in case map_of CMMT_PDO_CONFIGURATIONS (normalize_pdo_configuration_name requested) of
           Some conf \<Rightarrow> Inr conf | None \<Rightarrow> Inl ValueError)"

definition pdo_od_role :: "string \<Rightarrow> string option \<Rightarrow> PdoOdRole res" where
  "pdo_od_role role name =
     bindE (get_pdo_configuration name) (\<lambda>conf.
       case filter (\<lambda>r. pr_role r = role) (od_roles conf) of
         [r] \<Rightarrow> Inr r | _ \<Rightarrow> Inl KeyError)"

subsection \<open>Images\<close>

record pdo_image =
  pi_items :: "cmmt_item list"
  pi_mapping :: "ObjectDictionaryEntry list"
  mapped_fields :: "string set"
  pi_values :: "string \<rightharpoonup> pyval"

text \<open>\<open>reset_mapped_values\<close>: the attribute of every mapped field gets its default.\<close>

fun assign_defaults :: "ObjectDictionaryEntry list \<Rightarrow> (string \<rightharpoonup> pyval) \<Rightarrow> (string \<rightharpoonup> pyval)" where
  "assign_defaults [] vs = vs"
| "assign_defaults (obj # objs) vs =
     assign_defaults objs
       (case od_field obj of None \<Rightarrow> vs | Some f \<Rightarrow> vs(f \<mapsto> od_default obj))"

definition reset_mapped_values :: "pdo_image \<Rightarrow> pdo_image" where
  "reset_mapped_values im =
     im\<lparr>pi_values := assign_defaults (pi_mapping im) (pi_values im),
        mapped_fields := mapped_fields im \<union> set (List.map_filter od_field (pi_mapping im))\<rparr>"

definition reset_values :: "pdo_image \<Rightarrow> pdo_image" where
  "reset_values im =
     reset_mapped_values
       (im\<lparr>pi_values := (\<lambda>f. if f \<in> mapped_fields im then None else pi_values im f),
           mapped_fields := {}\<rparr>)"

definition new_image :: "cmmt_item list \<Rightarrow> pdo_image" where
  "new_image items =
     reset_values \<lparr>pi_items = items, pi_mapping = pdo_objects items, mapped_fields = {},
                   pi_values = (\<lambda>_. None)\<rparr>"

definition RxPDO :: "CMMTPdoConfiguration \<Rightarrow> pdo_image" where
  "RxPDO conf = new_image (rxpdo_items conf)"

definition TxPDO :: "CMMTPdoConfiguration \<Rightarrow> pdo_image" where
  "TxPDO conf = new_image (txpdo_items conf)"

definition select_mapping :: "int list \<Rightarrow> (pdo_image, exn, unit) op" where
  "select_mapping entries im =
     (case cmmt_mapping_entries (pi_items im) of
        Inl e \<Rightarrow> (Inl e, im)
      | Inr expected \<Rightarrow>
          if entries = expected
          then (Inr (), reset_values (im\<lparr>pi_mapping := pdo_objects (pi_items im)\<rparr>))
          else (Inl ValueError, im))"

definition mapping_size :: "pdo_image \<Rightarrow> int res" where
  "mapping_size im = bindE (mapE byte_length (pi_mapping im)) (\<lambda>ns. Inr (sum_list ns))"

definition has_field :: "pdo_image \<Rightarrow> string \<Rightarrow> bool" where
  "has_field im f \<longleftrightarrow> f \<in> mapped_fields im"

subsection \<open>Codec\<close>

definition pack_value :: "(pyval \<Rightarrow> string) \<Rightarrow> string \<Rightarrow> pyval \<Rightarrow> bytes res" where
  "pack_value pstr data_type v =
     (if starts_with ''padding'' data_type
      then bindE (int_of_text (removeprefix ''padding'' data_type)) (\<lambda>n. Inr (zeros (n div 8)))
      else encode_od_value pstr data_type v None)"

definition unpack_value :: "string \<Rightarrow> bytes \<Rightarrow> pyval res" where
  "unpack_value data_type payload =
     (if starts_with ''padding'' data_type then Inr (PInt 0) else decode_od_value data_type payload)"

fun encode_mapping ::
  "(pyval \<Rightarrow> string) \<Rightarrow> ObjectDictionaryEntry list \<Rightarrow> (string \<rightharpoonup> pyval) \<Rightarrow> bytes res" where
  "encode_mapping pstr [] vs = Inr []"
| "encode_mapping pstr (obj # objs) vs =
     bindE
       (case od_field obj of
          None \<Rightarrow> bindE (byte_length obj) (\<lambda>n. Inr (zeros n))
        | Some f \<Rightarrow>
            (case vs f of
               None \<Rightarrow> Inl AttributeError
             | Some v \<Rightarrow> pack_value pstr (od_data_type obj) v))
       (\<lambda>bs. bindE (encode_mapping pstr objs vs) (\<lambda>rest. Inr (bs @ rest)))"

fun decode_mapping ::
  "bytes \<Rightarrow> int \<Rightarrow> ObjectDictionaryEntry list \<Rightarrow> ((string \<rightharpoonup> pyval), exn, unit) op" where
  "decode_mapping payload offset [] vs = (Inr (), vs)"
| "decode_mapping payload offset (obj # objs) vs =
     (case byte_length obj of
        Inl e \<Rightarrow> (Inl e, vs)
      | Inr n \<Rightarrow>
          (case od_field obj of
             None \<Rightarrow> decode_mapping payload (offset + n) objs vs
           | Some f \<Rightarrow>
               (case unpack_value (od_data_type obj) (py_slice payload offset (offset + n)) of
                  Inl e \<Rightarrow> (Inl e, vs)
                | Inr v \<Rightarrow> decode_mapping payload (offset + n) objs (vs(f \<mapsto> v)))))"

definition encode_rxpdo :: "(pyval \<Rightarrow> string) \<Rightarrow> pdo_image \<Rightarrow> bytes res" where
  "encode_rxpdo pstr im = encode_mapping pstr (pi_mapping im) (pi_values im)"

definition decode_into :: "bytes \<Rightarrow> (pdo_image, exn, unit) op" where
  "decode_into payload im =
     (case decode_mapping payload 0 (pi_mapping im) (pi_values im) of
        (r, vs) \<Rightarrow> (r, im\<lparr>pi_values := vs\<rparr>))"

definition decode_rxpdo :: "bytes \<Rightarrow> (pdo_image, exn, unit) op" where
  "decode_rxpdo payload im =
     (case mapping_size im of
        Inl e \<Rightarrow> (Inl e, im)
      | Inr n \<Rightarrow> if int (length payload) < n then (Inl ValueError, im) else decode_into payload im)"

definition decode_txpdo :: "bytes \<Rightarrow> (pdo_image, exn, unit) op" where
  "decode_txpdo payload im =
     (case mapping_size im of
        Inl e \<Rightarrow> (Inl e, im)
      | Inr n \<Rightarrow>
          if int (length payload) < n then (Inl ValueError, im)
          else decode_into payload (reset_mapped_values im))"

subsection \<open>Mapping entries\<close>

lemma mapping_entry_fields:
  fixes i s n :: int
  assumes "0 \<le> i" "i < 2 ^ 16" "0 \<le> s" "s < 2 ^ 8" "0 \<le> n" "n < 2 ^ 8"
  defines "entry \<equiv> (push_bit 16 i OR push_bit 8 s) OR n"
  shows "entry AND 0xFF = n" and "drop_bit 8 entry AND 0xFF = s"
    and "drop_bit 16 entry AND 0xFFFF = i"
proof -
  have m: "x AND 0xFF = take_bit 8 x" "x AND 0xFFFF = take_bit 16 x" for x :: int
    by (simp_all add: take_bit_eq_mask mask_eq_exp_minus_1)
  have t: "take_bit 8 n = n" "take_bit 8 s = s" "take_bit 16 i = i"
    using assms by (simp_all add: take_bit_int_eq_self)
  have d: "drop_bit 8 n = 0" "drop_bit 16 n = 0" "drop_bit 8 s = 0"
    using assms by (simp_all add: drop_bit_eq_div div_pos_pos_trivial)
  show "entry AND 0xFF = n"
    by (simp add: m entry_def t take_bit_push_bit)
  show "drop_bit 8 entry AND 0xFF = s"
    by (simp add: m entry_def t d drop_bit_push_bit_int take_bit_push_bit)
  show "drop_bit 16 entry AND 0xFFFF = i"
    by (simp add: m entry_def t d drop_bit_push_bit_int)
qed

definition mappable :: "od_objects \<Rightarrow> ObjectDictionaryEntry \<Rightarrow> bool" where
  "mappable objects obj \<longleftrightarrow>
     map_of objects (od_index obj, od_subindex obj) = Some obj \<and>
     0 < od_index obj \<and> od_index obj < 2 ^ 16 \<and> 0 \<le> od_subindex obj \<and> od_subindex obj < 2 ^ 8 \<and>
     (case bit_length obj of Inl _ \<Rightarrow> False | Inr n \<Rightarrow> 0 \<le> n \<and> n < 2 ^ 8)"

lemma mapping_entry_decodes:
  assumes "mappable objects obj" and "mapping_entry obj = Inr en"
  shows "pdo_objects_from_mapping_entries objects (en # es) =
         bindE (pdo_objects_from_mapping_entries objects es) (\<lambda>rest. Inr (obj # rest))"
proof -
  obtain n where n: "bit_length obj = Inr n" "0 \<le> n" "n < 2 ^ 8"
    using assms(1) by (auto simp: mappable_def split: sum.splits)
  have en: "en = (push_bit 16 (od_index obj) OR push_bit 8 (od_subindex obj)) OR n"
    using assms(2) n(1) by (simp add: mapping_entry_def)
  note f = mapping_entry_fields [of "od_index obj" "od_subindex obj" n, folded en]
  have i: "0 < od_index obj" using assms(1) by (simp add: mappable_def)
  have "drop_bit 16 en AND 0xFFFF = od_index obj"
    using assms(1) n by (intro f(3)) (auto simp: mappable_def)
  moreover have "drop_bit 16 en = drop_bit 8 (drop_bit 8 en)" by simp
  ultimately have "drop_bit 16 en AND 0xFFFF = od_index obj" and "en \<noteq> 0" and "drop_bit 8 en \<noteq> 0"
    using i by (auto simp del: drop_bit_drop_bit)
  then show ?thesis
    using assms(1) n f(1,2) by (auto simp: mappable_def pdo_object_from_dictionary_def Let_def)
qed

subsection \<open>Encoding and decoding an image\<close>

text \<open>An object carries a value when packing it gives the bytes of the object, which unpack to it.\<close>

definition carries :: "(pyval \<Rightarrow> string) \<Rightarrow> ObjectDictionaryEntry \<Rightarrow> pyval \<Rightarrow> bool" where
  "carries pstr obj v \<longleftrightarrow>
     (\<exists>bs. pack_value pstr (od_data_type obj) v = Inr bs \<and> byte_length obj = Inr (int (length bs)) \<and>
           unpack_value (od_data_type obj) bs = Inr v)"

definition carries_field :: "(pyval \<Rightarrow> string) \<Rightarrow> (string \<rightharpoonup> pyval) \<Rightarrow> ObjectDictionaryEntry \<Rightarrow> bool" where
  "carries_field pstr vs obj \<longleftrightarrow>
     (case od_field obj of
        None \<Rightarrow> \<exists>n. byte_length obj = Inr (int n)
      | Some f \<Rightarrow> \<exists>v. vs f = Some v \<and> carries pstr obj v)"

lemma py_slice_middle [simp]:
  "py_slice (pre @ bs @ post) (int (length pre)) (int (length pre) + int (length bs)) = bs"
  by (simp add: py_slice_def slice_bound_def Let_def nat_add_distrib)

lemma encode_decode_mapping:
  assumes "\<forall>obj \<in> set objs. carries_field pstr vs obj"
  shows "\<exists>bs ns. encode_mapping pstr objs vs = Inr bs \<and> mapE byte_length objs = Inr ns \<and>
           sum_list ns = int (length bs) \<and>
           (\<forall>pre post ws. decode_mapping (pre @ bs @ post) (int (length pre)) objs ws =
              (Inr (), \<lambda>f. if Some f \<in> od_field ` set objs then vs f else ws f))"
  using assms
proof (induction objs)
  case (Cons obj objs)
  then obtain bs ns where IH: "encode_mapping pstr objs vs = Inr bs" "mapE byte_length objs = Inr ns"
    "sum_list ns = int (length bs)"
    "\<And>pre post ws. decode_mapping (pre @ bs @ post) (int (length pre)) objs ws =
       (Inr (), \<lambda>f. if Some f \<in> od_field ` set objs then vs f else ws f)" by auto
  show ?case
  proof (cases "od_field obj")
    case None
    then obtain n where n: "byte_length obj = Inr (int n)"
      using Cons.prems by (auto simp: carries_field_def)
    have "decode_mapping (pre @ (replicate n 0 @ bs) @ post) (int (length pre)) (obj # objs) ws =
        (Inr (), \<lambda>f. if Some f \<in> od_field ` set (obj # objs) then vs f else ws f)" for pre post ws
      using IH(4) [of "pre @ replicate n 0" post ws] None n by simp
    then show ?thesis
      using IH(1-3) None n by (intro exI [of _ "replicate n 0 @ bs"] exI [of _ "int n # ns"])
        (simp add: zeros_def)
  next
    case (Some f)
    then obtain v b where v: "vs f = Some v" "pack_value pstr (od_data_type obj) v = Inr b"
      "byte_length obj = Inr (int (length b))" "unpack_value (od_data_type obj) b = Inr v"
      using Cons.prems by (auto simp: carries_field_def carries_def)
    have "decode_mapping (pre @ (b @ bs) @ post) (int (length pre)) (obj # objs) ws =
        (Inr (), \<lambda>g. if Some g \<in> od_field ` set (obj # objs) then vs g else ws g)" for pre post ws
      using IH(4) [of "pre @ b" post "ws(f \<mapsto> v)"] Some v py_slice_middle [of pre b "bs @ post"]
      by (auto simp: fun_eq_iff)
    then show ?thesis
      using IH(1-3) Some v by (intro exI [of _ "b @ bs"] exI [of _ "int (length b) # ns"]) simp
  qed
qed simp

lemma scalar_type_names:
  assumes "map_of DATA_TYPE_FORMATS t = Some fm"
  shows "normalize_od_data_type t = t" "\<not> starts_with ''padding'' t"
    "map_of DATA_TYPE_BITS t = Some (8 * int (calcsize fm))"
proof -
  have all: "list_all (\<lambda>(t, fm). normalize_od_data_type t = t \<and> \<not> starts_with ''padding'' t \<and>
      map_of DATA_TYPE_BITS t = Some (8 * int (calcsize fm))) DATA_TYPE_FORMATS" by code_simp
  have "(t, fm) \<in> set DATA_TYPE_FORMATS" using assms by (rule map_of_SomeD)
  with all show "normalize_od_data_type t = t" "\<not> starts_with ''padding'' t"
    "map_of DATA_TYPE_BITS t = Some (8 * int (calcsize fm))"
    by (auto simp: list_all_iff)
qed

lemma integer_object_carries:
  assumes "map_of DATA_TYPE_FORMATS (od_data_type obj) = Some fm"
    and "fm \<noteq> F_bool" and "fm \<noteq> F_f" and "in_range fm v"
  shows "carries pstr obj (PInt v)"
proof -
  note t = scalar_type_names [OF assms(1)]
  have fm: "map_of DATA_TYPE_FORMATS (normalize_od_data_type (od_data_type obj)) = Some fm"
    using assms(1) t(1) by simp
  show ?thesis
    unfolding carries_def
    using pack_unpack_integer [OF assms(2-4)] t assms(3)
    by (intro exI [of _ "int_le (calcsize fm) v"])
      (simp add: pack_value_def unpack_value_def encode_scalar [OF fm] decode_scalar [OF fm]
        byte_length_def bit_length_def int_of_value_def)
qed

lemma cmmt_items:
  assumes "(name, conf) \<in> set CMMT_PDO_CONFIGURATIONS"
    and "it \<in> set (rxpdo_items conf) \<union> set (txpdo_items conf)"
  shows "case it of PdoPadding n \<Rightarrow> n = 8
    | PdoRole r \<Rightarrow> pr_data_type r \<in> {''uint16'', ''int16'', ''int8'', ''uint32'', ''int32''}"
proof -
  have "list_all (\<lambda>(_, conf). list_all (\<lambda>it. case it of PdoPadding n \<Rightarrow> n = 8
      | PdoRole r \<Rightarrow> pr_data_type r \<in> {''uint16'', ''int16'', ''int8'', ''uint32'', ''int32''})
      (rxpdo_items conf @ txpdo_items conf)) CMMT_PDO_CONFIGURATIONS" by code_simp
  with assms show ?thesis by (auto simp: list_all_iff)
qed

lemma padding_8: "byte_length (padding_object 8) = Inr 1" "od_field (padding_object 8) = None"
  by code_simp+

lemma assign_defaults_elsewhere:
  "Some f \<notin> od_field ` set objs \<Longrightarrow> assign_defaults objs vs f = vs f"
  by (induction objs arbitrary: vs) (auto split: option.splits)

text \<open>The value of a drive's field is an integer in the range of its data type.\<close>

definition in_type_range :: "string \<Rightarrow> pyval option \<Rightarrow> bool" where
  "in_type_range t v \<longleftrightarrow>
     (case (map_of DATA_TYPE_FORMATS t, v) of
        (Some fm, Some (PInt i)) \<Rightarrow> in_range fm i | _ \<Rightarrow> False)"

lemma cmmt_carries_field:
  assumes "(name, conf) \<in> set CMMT_PDO_CONFIGURATIONS"
    and "it \<in> set (rxpdo_items conf) \<union> set (txpdo_items conf)"
    and "\<forall>r. it = PdoRole r \<longrightarrow> in_type_range (pr_data_type r) (vs (pr_role r))"
  shows "carries_field pstr vs (pdo_object it)"
proof (cases it)
  case (PdoPadding n)
  then show ?thesis
    using cmmt_items [OF assms(1,2)] padding_8 by (simp add: carries_field_def)
next
  case (PdoRole r)
  then have t: "pr_data_type r \<in> {''uint16'', ''int16'', ''int8'', ''uint32'', ''int32''}"
    using cmmt_items [OF assms(1,2)] by simp
  have "list_all (\<lambda>t. map_of DATA_TYPE_FORMATS t \<noteq> Some F_bool \<and> map_of DATA_TYPE_FORMATS t \<noteq> Some F_f)
      [''uint16'', ''int16'', ''int8'', ''uint32'', ''int32'']" by code_simp
  with t have nf: "map_of DATA_TYPE_FORMATS (pr_data_type r) \<noteq> Some F_bool"
    "map_of DATA_TYPE_FORMATS (pr_data_type r) \<noteq> Some F_f" by auto
  obtain fm i where "map_of DATA_TYPE_FORMATS (pr_data_type r) = Some fm" "vs (pr_role r) = Some (PInt i)"
    "in_range fm i"
    using assms(3) PdoRole by (auto simp: in_type_range_def split: option.splits pyval.splits)
  with nf show ?thesis
    using PdoRole integer_object_carries [of "object_entry r" fm i pstr]
    by (auto simp: carries_field_def object_entry_def)
qed

subsection \<open>Properties\<close>

text \<open>A PDO mapping determines its objects. When every object is in the dictionary under
  its own index and subindex, with an index and subindex that fit their fields and a length of at
  most 255 bits, reading back the mapping entries of a list of objects gives exactly that list.\<close>

theorem mapping_entries_roundtrip:
  assumes "\<forall>obj \<in> set objs. mappable objects obj" and "mapE mapping_entry objs = Inr es"
  shows "pdo_objects_from_mapping_entries objects es = Inr objs"
  using assms
proof (induction objs arbitrary: es)
  case (Cons obj objs)
  then obtain en es' where "mapping_entry obj = Inr en" "es = en # es'" "mapE mapping_entry objs = Inr es'"
    by auto
  with Cons show ?case
    using mapping_entry_decodes [of objects obj en es'] by (simp del: pdo_objects_from_mapping_entries.simps)
qed simp

definition demo_objects :: od_objects where
  "demo_objects = map (\<lambda>obj. ((od_index obj, od_subindex obj), obj)) (pdo_objects basic_rxpdo_items)"

theorem mapping_entries_roundtrip_witness:
  "pdo_objects_from_mapping_entries demo_objects [0x60400010, 0x60600008, 0x607A0020] =
     Inr (pdo_objects basic_rxpdo_items)"
proof (rule mapping_entries_roundtrip)
  have "list_all (mappable demo_objects) (pdo_objects basic_rxpdo_items)" by code_simp
  then show "\<forall>obj \<in> set (pdo_objects basic_rxpdo_items). mappable demo_objects obj"
    by (simp add: list_all_iff)
  show "mapE mapping_entry (pdo_objects basic_rxpdo_items) = Inr [0x60400010, 0x60600008, 0x607A0020]"
    by code_simp
qed

text \<open>C27: process data survive the transfer. For every PDO configuration of the CMMT drives and
  both directions: an image whose fields hold integers in the range of their data types is
  encoded in exactly \<open>mapping_size\<close> bytes; decoding these bytes, with anything behind them, into another
  image of the same mapping succeeds, gives every mapped field the value it had in the source
  and leaves every other attribute as it was.\<close>

theorem cmmt_image_roundtrip:
  assumes "(name, conf) \<in> set CMMT_PDO_CONFIGURATIONS"
    and "items \<in> {rxpdo_items conf, txpdo_items conf}"
    and "pi_mapping src = pdo_objects items" and "pi_mapping dst = pdo_objects items"
    and "\<forall>r. PdoRole r \<in> set items \<longrightarrow> in_type_range (pr_data_type r) (pi_values src (pr_role r))"
  shows "\<exists>bs. encode_rxpdo pstr src = Inr bs \<and> mapping_size src = Inr (int (length bs)) \<and>
           (\<forall>d \<in> {decode_rxpdo, decode_txpdo}. fst (d (bs @ rest) dst) = Inr () \<and>
              (\<forall>f. pi_values (snd (d (bs @ rest) dst)) f =
                 (if \<exists>r. PdoRole r \<in> set items \<and> pr_role r = f then pi_values src f else pi_values dst f)))"
proof -
  have it: "set items \<subseteq> set (rxpdo_items conf) \<union> set (txpdo_items conf)" using assms(2) by auto
  have "\<forall>obj \<in> set (pdo_objects items). carries_field pstr (pi_values src) obj"
  proof
    fix obj assume "obj \<in> set (pdo_objects items)"
    then obtain x where "x \<in> set items" "obj = pdo_object x" by (auto simp: pdo_objects_def)
    then show "carries_field pstr (pi_values src) obj"
      using cmmt_carries_field [OF assms(1), of x "pi_values src" pstr] it assms(5) by auto
  qed
  from encode_decode_mapping [OF this] obtain bs ns where
    e: "encode_mapping pstr (pdo_objects items) (pi_values src) = Inr bs"
      "mapE byte_length (pdo_objects items) = Inr ns" "sum_list ns = int (length bs)"
    and d: "\<And>pre post ws. decode_mapping (pre @ bs @ post) (int (length pre)) (pdo_objects items) ws =
       (Inr (), \<lambda>f. if Some f \<in> od_field ` set (pdo_objects items) then pi_values src f else ws f)"
    by blast
  have f: "Some f \<in> od_field ` set (pdo_objects items) \<longleftrightarrow> (\<exists>r. PdoRole r \<in> set items \<and> pr_role r = f)" for f
  proof -
    have "od_field (pdo_object x) = Some f \<longleftrightarrow> (\<exists>r. x = PdoRole r \<and> pr_role r = f)" for x
      by (cases x) (auto simp: padding_object_def object_entry_def)
    moreover have "Some f \<in> od_field ` set (pdo_objects items) \<longleftrightarrow>
        (\<exists>x \<in> set items. od_field (pdo_object x) = Some f)" by (force simp: pdo_objects_def)
    ultimately show ?thesis by auto
  qed
  have size: "mapping_size src = Inr (int (length bs))" "mapping_size dst = Inr (int (length bs))"
    using e assms(3,4) by (simp_all add: mapping_size_def)
  have "fst (dec (bs @ rest) dst) = Inr () \<and> (\<forall>f. pi_values (snd (dec (bs @ rest) dst)) f =
      (if \<exists>r. PdoRole r \<in> set items \<and> pr_role r = f then pi_values src f else pi_values dst f))"
    if "dec \<in> {decode_rxpdo, decode_txpdo}" for dec
    using that d [of "[]" rest] size assms(4) f assign_defaults_elsewhere [of _ "pdo_objects items"]
    by (auto simp: decode_rxpdo_def decode_txpdo_def decode_into_def reset_mapped_values_def)
  with e(1) size assms(3) show ?thesis by (auto simp: encode_rxpdo_def)
qed

theorem cmmt_image_roundtrip_witness:
  "\<exists>bs. encode_rxpdo (\<lambda>_. []) (RxPDO motion_server_default) = Inr bs \<and> length bs = 24 \<and>
        fst (decode_rxpdo bs (RxPDO motion_server_default)) = Inr ()"
proof -
  let ?im = "RxPDO motion_server_default"
  have "list_all (\<lambda>x. case x of PdoPadding _ \<Rightarrow> True
      | PdoRole r \<Rightarrow> in_type_range (pr_data_type r) (pi_values ?im (pr_role r)))
      (rxpdo_items motion_server_default)" by code_simp
  then have r: "\<forall>r. PdoRole r \<in> set (rxpdo_items motion_server_default) \<longrightarrow>
      in_type_range (pr_data_type r) (pi_values ?im (pr_role r))"
    by (auto simp: list_all_iff)
  have m: "pi_mapping ?im = pdo_objects (rxpdo_items motion_server_default)"
    by (simp add: RxPDO_def new_image_def reset_values_def reset_mapped_values_def)
  have size: "mapping_size ?im = Inr 24" by code_simp
  have conf: "(''motion_server_default'', motion_server_default) \<in> set CMMT_PDO_CONFIGURATIONS"
    by (simp add: CMMT_PDO_CONFIGURATIONS_def)
  from cmmt_image_roundtrip [OF conf _ m m r, of "\<lambda>_. []" "[]"] size show ?thesis by auto
qed

end
