(* ===== verification/Virtual_Od.thy ===== *)
theory Virtual_Od
  imports Pdo_Image "HOL-Library.AList"
begin

section \<open>Virtual object dictionary and its bus access\<close>

text \<open>
  Models \<^verbatim>\<open>device/virtual_device/od_model.py\<close> (\<open>VirtualOdModel\<close>),
  \<^verbatim>\<open>device/virtual_servo_drive/od_model.py\<close> (how the dictionary of a drive is built from catalogue,
  required objects, configured values and PDO mapping), \<^verbatim>\<open>device/virtual_device/od_bridge.py\<close>
  (SDO and PDO access) and \<^verbatim>\<open>ethercat/mock_slave.py\<close>. An object is stored under its index and
  subindex, subindex 0 standing for the bare index. The ESI catalogue is an argument; the device
  behind a slave is a function on its own state and the dictionary. The lemmas give the laws of
  SDO access, and what a process data exchange moves between the payloads and the dictionary.
\<close>

subsection \<open>The dictionary\<close>

record VirtualOdDefinition =
  vd_index :: int
  vd_subindex :: int
  vd_name :: string
  vd_data_type :: string
  vd_bit_size :: int
  vd_access :: string
  vd_default :: pyval
  vd_role :: "string option"
  vd_rxpdo :: bool
  vd_txpdo :: bool

record VirtualOdEntry =
  ve_definition :: VirtualOdDefinition
  ve_value :: pyval

record VirtualOdModel =
  od_entries :: "((int \<times> int) \<times> VirtualOdEntry) list"
  last_write_key :: "(int \<times> int) option"
  write_generation :: nat

definition empty_od :: VirtualOdModel where
  "empty_od = \<lparr>od_entries = [], last_write_key = None, write_generation = 0\<rparr>"

definition storage_key :: "int \<Rightarrow> int option \<Rightarrow> int \<times> int" where
  "storage_key index subindex = (index, case subindex of None \<Rightarrow> 0 | Some s \<Rightarrow> s)"

text \<open>Keyword arguments of \<open>define\<close> and \<open>overlay\<close>: \<open>None\<close> is an argument not given.\<close>

record od_changes =
  ch_name :: "string option"
  ch_data_type :: "string option"
  ch_bit_size :: "int option"
  ch_access :: "string option"
  ch_default :: "pyval option"
  ch_role :: "string option"
  ch_rxpdo :: bool
  ch_txpdo :: bool

definition put_entry :: "int \<times> int \<Rightarrow> VirtualOdEntry \<Rightarrow> VirtualOdModel \<Rightarrow> VirtualOdModel" where
  "put_entry k en od = od\<lparr>od_entries := AList.update k en (od_entries od)\<rparr>"

definition define_od :: "int \<Rightarrow> int \<Rightarrow> od_changes \<Rightarrow> (VirtualOdModel, exn, VirtualOdDefinition) op" where
  "define_od index subindex ch od =
     (case (ch_name ch, ch_data_type ch, ch_bit_size ch) of
        (Some n, Some t, Some b) \<Rightarrow>
          (let d = \<lparr>vd_index = index, vd_subindex = subindex, vd_name = n, vd_data_type = t,
                    vd_bit_size = b,
                    vd_access = (case ch_access ch of None \<Rightarrow> [] | Some a \<Rightarrow> a),
                    vd_default = (case ch_default ch of None \<Rightarrow> PInt 0 | Some v \<Rightarrow> v),
                    vd_role = ch_role ch, vd_rxpdo = ch_rxpdo ch, vd_txpdo = ch_txpdo ch\<rparr>
           in (Inr d, put_entry (storage_key index (Some subindex))
                        \<lparr>ve_definition = d, ve_value = vd_default d\<rparr> od))
      | _ \<Rightarrow> (Inl TypeError, od))"

definition given_text :: "string option \<Rightarrow> string \<Rightarrow> string" where
  "given_text new old = (case new of None \<Rightarrow> old | Some s \<Rightarrow> if s = [] then old else s)"

definition overlay :: "int \<Rightarrow> int \<Rightarrow> od_changes \<Rightarrow> (VirtualOdModel, exn, VirtualOdDefinition) op" where
  "overlay index subindex ch od =
     (let key = storage_key index (Some subindex)
      in case map_of (od_entries od) key of
           None \<Rightarrow> define_od index subindex ch od
         | Some current \<Rightarrow>
             (let old = ve_definition current;
                  d = old\<lparr>vd_name := given_text (ch_name ch) (vd_name old),
                          vd_data_type := given_text (ch_data_type ch) (vd_data_type old),
                          vd_bit_size := (case ch_bit_size ch of None \<Rightarrow> vd_bit_size old | Some b \<Rightarrow> b),
                          vd_access := given_text (ch_access ch) (vd_access old),
                          vd_default :=
                            (case ch_default ch of None \<Rightarrow> vd_default old
                             | Some v \<Rightarrow> if v = PNone \<or> v = PStr [] then vd_default old else v),
                          vd_role := (case ch_role ch of None \<Rightarrow> vd_role old
                                      | Some r \<Rightarrow> if r = [] then vd_role old else Some r),
                          vd_rxpdo := vd_rxpdo old \<or> ch_rxpdo ch,
                          vd_txpdo := vd_txpdo old \<or> ch_txpdo ch\<rparr>;
                  v = (case ch_default ch of Some v \<Rightarrow> v | None \<Rightarrow> ve_value current)
              in (Inr d, put_entry key \<lparr>ve_definition = d, ve_value = v\<rparr> od)))"

definition od_definition :: "VirtualOdModel \<Rightarrow> int \<Rightarrow> int option \<Rightarrow> VirtualOdDefinition res" where
  "od_definition od index subindex =
     (case map_of (od_entries od) (storage_key index subindex) of
        Some en \<Rightarrow> Inr (ve_definition en) | None \<Rightarrow> Inl KeyError)"

definition definition_by_role :: "VirtualOdModel \<Rightarrow> string \<Rightarrow> VirtualOdDefinition res" where
  "definition_by_role od role =
     (case filter (\<lambda>d. vd_role d = Some role) (map (ve_definition \<circ> snd) (od_entries od)) of
        [d] \<Rightarrow> Inr d | _ \<Rightarrow> Inl KeyError)"

definition read_od :: "VirtualOdModel \<Rightarrow> int \<Rightarrow> int option \<Rightarrow> pyval res" where
  "read_od od index subindex =
     (case map_of (od_entries od) (storage_key index subindex) of
        Some en \<Rightarrow> Inr (ve_value en) | None \<Rightarrow> Inl KeyError)"

definition write_internal :: "int \<Rightarrow> pyval \<Rightarrow> int option \<Rightarrow> (VirtualOdModel, exn, unit) op" where
  "write_internal index v subindex od =
     (let key = storage_key index subindex
      in case map_of (od_entries od) key of
           None \<Rightarrow> (Inl KeyError, od)
         | Some en \<Rightarrow> (Inr (), put_entry key (en\<lparr>ve_value := v\<rparr>) od))"

definition write_od :: "int \<Rightarrow> pyval \<Rightarrow> int option \<Rightarrow> (VirtualOdModel, exn, unit) op" where
  "write_od index v subindex =
     bindS (write_internal index v subindex)
       (\<lambda>_. modifyS (\<lambda>od. od\<lparr>last_write_key := Some (storage_key index subindex),
                             write_generation := write_generation od + 1\<rparr>))"

definition write_role :: "string \<Rightarrow> pyval \<Rightarrow> (VirtualOdModel, exn, unit) op" where
  "write_role role v =
     bindS (liftE (\<lambda>od. definition_by_role od role))
       (\<lambda>d. write_od (vd_index d) v (Some (vd_subindex d)))"

definition read_role :: "VirtualOdModel \<Rightarrow> string \<Rightarrow> pyval res" where
  "read_role od role =
     bindE (definition_by_role od role) (\<lambda>d. read_od od (vd_index d) (Some (vd_subindex d)))"

definition has_entry :: "VirtualOdModel \<Rightarrow> int \<Rightarrow> int option \<Rightarrow> bool" where
  "has_entry od index subindex \<longleftrightarrow> map_of (od_entries od) (storage_key index subindex) \<noteq> None"

definition default_value :: "string \<Rightarrow> int \<Rightarrow> pyval" where
  "default_value data_type bit_size =
     (let normalized = lower (strip data_type)
      in if contains ''array'' normalized \<and> contains ''byte'' normalized
            \<or> normalized = ''byte_array'' \<or> normalized = ''octet_string''
         then PBytes (zeros ((bit_size + 7) div 8))
         else if contains ''string'' normalized then PStr [] else PInt 0)"

subsection \<open>The dictionary of a drive\<close>

record catalog_entry =
  ce_name :: string
  ce_data_type :: string
  ce_bit_size :: int
  ce_access :: string

record required_od =
  ro_role :: string
  ro_index :: int
  ro_subindex :: int
  ro_name :: string
  ro_data_type :: string
  ro_access :: string

definition load_catalog :: "((int \<times> int) \<times> catalog_entry) list \<Rightarrow> (VirtualOdModel, exn, unit) op" where
  "load_catalog entries =
     forS entries (\<lambda>((index, subindex), ce).
       bindS (define_od index subindex
           \<lparr>ch_name = Some (ce_name ce), ch_data_type = Some (ce_data_type ce),
            ch_bit_size = Some (ce_bit_size ce), ch_access = Some (ce_access ce),
            ch_default = Some (default_value (ce_data_type ce) (ce_bit_size ce)), ch_role = None,
            ch_rxpdo = False, ch_txpdo = False\<rparr>) (\<lambda>_. retS ()))"

definition expected_data_type_bits :: "string \<Rightarrow> int res" where
  "expected_data_type_bits data_type =
     bit_length \<lparr>od_index = 0, od_subindex = 0, od_name = [], od_data_type = data_type,
                 od_field = None, od_default = PInt 0\<rparr>"

definition overlay_required_non_pdo_od :: "required_od list \<Rightarrow> (VirtualOdModel, exn, unit) op" where
  "overlay_required_non_pdo_od roles =
     forS roles (\<lambda>r.
       bindS (liftE (\<lambda>_. expected_data_type_bits (ro_data_type r))) (\<lambda>bits.
       bindS (overlay (ro_index r) (ro_subindex r)
           \<lparr>ch_name = Some (ro_name r), ch_data_type = Some (ro_data_type r), ch_bit_size = Some bits,
            ch_access = Some (ro_access r), ch_default = None, ch_role = Some (ro_role r),
            ch_rxpdo = False, ch_txpdo = False\<rparr>) (\<lambda>_. retS ())))"

definition apply_non_pdo_configuration ::
  "((int \<times> int) \<times> pyval) list option \<Rightarrow> (VirtualOdModel, exn, unit) op" where
  "apply_non_pdo_configuration conf =
     (case conf of
        None \<Rightarrow> retS ()
      | Some values \<Rightarrow>
          forS values (\<lambda>((index, subindex), v).
            bindS (liftE (\<lambda>od. if has_entry od index (Some subindex) then Inr () else Inl ValueError))
              (\<lambda>_. write_internal index v (Some subindex))))"

definition overlay_pdo :: "ObjectDictionaryEntry list \<Rightarrow> bool \<Rightarrow> (VirtualOdModel, exn, unit) op" where
  "overlay_pdo entries receive =
     forS entries (\<lambda>en.
       if od_index en = 0 then retS ()
       else
         bindS (liftE (\<lambda>_. bit_length en)) (\<lambda>bits.
         bindS (overlay (od_index en) (od_subindex en)
             \<lparr>ch_name = Some (od_name en), ch_data_type = Some (od_data_type en),
              ch_bit_size = Some bits, ch_access = None, ch_default = Some (od_default en),
              ch_role = od_field en, ch_rxpdo = receive, ch_txpdo = \<not> receive\<rparr>) (\<lambda>_. retS ())))"

definition reset_pdo_values :: "VirtualOdModel \<Rightarrow> VirtualOdModel" where
  "reset_pdo_values od =
     od\<lparr>od_entries :=
        map (\<lambda>(k, en). (k, if vd_rxpdo (ve_definition en) \<or> vd_txpdo (ve_definition en)
                           then en\<lparr>ve_value := vd_default (ve_definition en)\<rparr> else en))
          (od_entries od)\<rparr>"

text \<open>\<open>VirtualObjectDictionary.__init__\<close>; the catalogue is checked by the profile before.\<close>

definition VirtualObjectDictionary ::
  "((int \<times> int) \<times> catalog_entry) list \<Rightarrow> required_od list \<Rightarrow> ((int \<times> int) \<times> pyval) list option
   \<Rightarrow> CMMTPdoConfiguration \<Rightarrow> (VirtualOdModel, exn, unit) op" where
  "VirtualObjectDictionary catalog roles values conf =
     bindS (load_catalog catalog) (\<lambda>_.
     bindS (overlay_required_non_pdo_od roles) (\<lambda>_.
     bindS (apply_non_pdo_configuration values) (\<lambda>_.
     bindS (overlay_pdo (pdo_objects (rxpdo_items conf)) True) (\<lambda>_.
       overlay_pdo (pdo_objects (txpdo_items conf)) False))))"

subsection \<open>SDO and PDO access\<close>

definition bridge_definition :: "int \<Rightarrow> int \<Rightarrow> VirtualOdModel \<Rightarrow> VirtualOdDefinition res" where
  "bridge_definition index subindex od =
     (case od_definition od index (Some subindex) of
        Inl _ \<Rightarrow> Inl (SdoObjectNotFoundException index subindex) | Inr d \<Rightarrow> Inr d)"

definition bridge_read_sdo ::
  "(pyval \<Rightarrow> string) \<Rightarrow> int \<Rightarrow> int \<Rightarrow> int option \<Rightarrow> VirtualOdModel \<Rightarrow> bytes res" where
  "bridge_read_sdo pstr index subindex n od =
     bindE (bridge_definition index subindex od) (\<lambda>d.
     bindE (read_od od index (Some subindex)) (\<lambda>v. encode_od_value pstr (vd_data_type d) v n))"

definition bridge_write_sdo :: "int \<Rightarrow> int \<Rightarrow> bytes \<Rightarrow> (VirtualOdModel, exn, unit) op" where
  "bridge_write_sdo index subindex payload =
     bindS (liftE (bridge_definition index subindex)) (\<lambda>d.
       if lower (vd_access d) = ''ro''
       then raiseS (DeviceRejectedException (Some ''sdo_write'') PNone PNone PNone PNone PNone)
       else bindS (liftE (\<lambda>_. decode_od_value (vd_data_type d) payload))
              (\<lambda>v. write_od index v (Some subindex)))"

fun rxpdo_payload_to_od ::
  "bytes \<Rightarrow> int \<Rightarrow> ObjectDictionaryEntry list \<Rightarrow> (VirtualOdModel, exn, unit) op" where
  "rxpdo_payload_to_od payload offset [] = retS ()"
| "rxpdo_payload_to_od payload offset (obj # objs) =
     bindS (liftE (\<lambda>_. byte_length obj)) (\<lambda>n.
       if offset + n > int (length payload) then raiseS ValueError
       else if od_index obj = 0 \<or> od_field obj = None
         then rxpdo_payload_to_od payload (offset + n) objs
       else
         bindS (liftE (\<lambda>_. decode_od_value (od_data_type obj) (py_slice payload offset (offset + n))))
           (\<lambda>v. bindS (write_od (od_index obj) v (Some (od_subindex obj)))
             (\<lambda>_. rxpdo_payload_to_od payload (offset + n) objs)))"

fun od_to_txpdo_payload ::
  "(pyval \<Rightarrow> string) \<Rightarrow> VirtualOdModel \<Rightarrow> ObjectDictionaryEntry list \<Rightarrow> bytes res" where
  "od_to_txpdo_payload pstr od [] = Inr []"
| "od_to_txpdo_payload pstr od (obj # objs) =
     bindE
       (bindE (byte_length obj) (\<lambda>n.
          if od_index obj = 0 \<or> od_field obj = None then Inr (zeros n)
          else bindE (read_od od (od_index obj) (Some (od_subindex obj)))
                 (\<lambda>v. encode_od_value pstr (od_data_type obj) v (Some n))))
       (\<lambda>bs. bindE (od_to_txpdo_payload pstr od objs) (\<lambda>rest. Inr (bs @ rest)))"

subsection \<open>A virtual slave\<close>

record 'd mock_slave =
  device :: 'd
  device_od :: VirtualOdModel
  slave_conf :: CMMTPdoConfiguration
  slave_product_code :: "int option"

text \<open>\<open>model_update\<close> of the virtual device: it works on its own state and on the dictionary.\<close>

type_synonym 'd device_update = "'d \<Rightarrow> VirtualOdModel \<Rightarrow> exn option \<times> 'd \<times> VirtualOdModel"

definition on_od :: "(VirtualOdModel, exn, 'a) op \<Rightarrow> ('d mock_slave, exn, 'a) op" where
  "on_od m s = (case m (device_od s) of (r, od) \<Rightarrow> (r, s\<lparr>device_od := od\<rparr>))"

definition slave_model_update :: "'d device_update \<Rightarrow> ('d mock_slave, exn, unit) op" where
  "slave_model_update upd s =
     (case upd (device s) (device_od s) of
        (e, d, od) \<Rightarrow>
          ((case e of None \<Rightarrow> Inr () | Some x \<Rightarrow> Inl x), s\<lparr>device := d, device_od := od\<rparr>))"

definition exchange_processdata ::
  "(pyval \<Rightarrow> string) \<Rightarrow> 'd device_update \<Rightarrow> bytes \<Rightarrow> ('d mock_slave, exn, bytes) op" where
  "exchange_processdata pstr upd payload =
     bindS (\<lambda>s. on_od (rxpdo_payload_to_od payload 0 (pdo_objects (rxpdo_items (slave_conf s)))) s) (\<lambda>_.
     bindS (slave_model_update upd) (\<lambda>_.
       liftE (\<lambda>s. od_to_txpdo_payload pstr (device_od s) (pdo_objects (txpdo_items (slave_conf s))))))"

definition slave_read_sdo ::
  "(pyval \<Rightarrow> string) \<Rightarrow> int \<Rightarrow> int \<Rightarrow> int option \<Rightarrow> 'd mock_slave \<Rightarrow> bytes res" where
  "slave_read_sdo pstr index subindex n s = bridge_read_sdo pstr index subindex n (device_od s)"

definition slave_write_sdo ::
  "'d device_update \<Rightarrow> int \<Rightarrow> int \<Rightarrow> bytes \<Rightarrow> ('d mock_slave, exn, unit) op" where
  "slave_write_sdo upd index subindex payload =
     bindS (on_od (bridge_write_sdo index subindex payload)) (\<lambda>_. slave_model_update upd)"

subsection \<open>Reading after writing\<close>

lemma map_of_put_entry [simp]:
  "map_of (od_entries (put_entry k en od)) = (map_of (od_entries od))(k \<mapsto> en)"
  by (simp add: put_entry_def update_conv')

lemma write_od_cases:
  "write_od index v subindex od =
     (case map_of (od_entries od) (storage_key index subindex) of
        None \<Rightarrow> (Inl KeyError, od)
      | Some en \<Rightarrow>
          (Inr (), (put_entry (storage_key index subindex) (en\<lparr>ve_value := v\<rparr>) od)
             \<lparr>last_write_key := Some (storage_key index subindex),
              write_generation := write_generation od + 1\<rparr>))"
  by (auto simp: write_od_def write_internal_def bindS_def modifyS_def put_entry_def Let_def
      split: option.splits)

lemma write_od_ok:
  assumes "has_entry od index subindex"
  obtains od' where "write_od index v subindex od = (Inr (), od')"
    and "\<And>i j. read_od od' i j =
           (if storage_key i j = storage_key index subindex then Inr v else read_od od i j)"
    and "\<And>i j. has_entry od' i j = has_entry od i j"
    and "\<And>i j. od_definition od' i j = od_definition od i j"
    and "write_generation od' = write_generation od + 1"
proof -
  obtain en where en: "map_of (od_entries od) (storage_key index subindex) = Some en"
    using assms by (auto simp: has_entry_def)
  show ?thesis
    by (rule that [of "snd (write_od index v subindex od)"])
      (auto simp: write_od_cases en read_od_def has_entry_def od_definition_def)
qed

subsection \<open>Process data and the dictionary\<close>

abbreviation obj_key :: "ObjectDictionaryEntry \<Rightarrow> int \<times> int" where
  "obj_key obj \<equiv> (od_index obj, od_subindex obj)"

definition on_bus :: "(pyval \<Rightarrow> string) \<Rightarrow> VirtualOdModel \<Rightarrow> (string \<rightharpoonup> pyval) \<Rightarrow> ObjectDictionaryEntry \<Rightarrow> bool" where
  "on_bus pstr od vs obj \<longleftrightarrow>
     carries_field pstr vs obj \<and>
     (od_field obj \<noteq> None \<longrightarrow>
        \<not> starts_with ''padding'' (od_data_type obj) \<and> od_index obj \<noteq> 0 \<and>
        has_entry od (od_index obj) (Some (od_subindex obj)))"

text \<open>The dictionary after the fields of some objects were written to it.\<close>

definition bus_written ::
  "ObjectDictionaryEntry list \<Rightarrow> (string \<rightharpoonup> pyval) \<Rightarrow> VirtualOdModel \<Rightarrow> VirtualOdModel \<Rightarrow> bool" where
  "bus_written objs vs od od' \<longleftrightarrow>
     (\<forall>obj f. obj \<in> set objs \<and> od_field obj = Some f \<longrightarrow>
        read_od od' (od_index obj) (Some (od_subindex obj)) = Inr (the (vs f))) \<and>
     (\<forall>i j. (\<forall>obj \<in> set objs. od_field obj \<noteq> None \<longrightarrow> obj_key obj \<noteq> storage_key i j) \<longrightarrow>
        read_od od' i j = read_od od i j) \<and>
     (\<forall>i j. has_entry od' i j = has_entry od i j)"

lemma bus_written_skip:
  "od_field obj = None \<Longrightarrow> bus_written (obj # objs) vs od od' \<longleftrightarrow> bus_written objs vs od od'"
  by (auto simp: bus_written_def)

lemma bus_written_Cons:
  assumes "od_field obj = Some f" and "vs f = Some v"
    and read: "\<And>i j. read_od od1 i j = (if storage_key i j = obj_key obj then Inr v else read_od od i j)"
    and "\<And>i j. has_entry od1 i j = has_entry od i j"
    and same: "\<forall>b \<in> set objs. obj_key b = obj_key obj \<longrightarrow> od_field b = od_field obj"
    and rest: "bus_written objs vs od1 od'"
  shows "bus_written (obj # objs) vs od od'"
proof -
  have k: "storage_key (od_index x) (Some (od_subindex x)) = obj_key x" for x
    by (simp add: storage_key_def)
  have "read_od od' (od_index obj) (Some (od_subindex obj)) = Inr v"
  proof (cases "\<exists>b \<in> set objs. obj_key b = obj_key obj")
    case True
    then obtain b where b: "b \<in> set objs" "obj_key b = obj_key obj" by blast
    with same assms(1) have "od_field b = Some f" by simp
    with b rest assms(2) show ?thesis unfolding bus_written_def by (metis option.sel prod.inject)
  next
    case False
    then have "\<forall>b \<in> set objs. od_field b \<noteq> None \<longrightarrow>
        obj_key b \<noteq> storage_key (od_index obj) (Some (od_subindex obj))"
      unfolding k by blast
    with rest have "read_od od' (od_index obj) (Some (od_subindex obj)) =
        read_od od1 (od_index obj) (Some (od_subindex obj))"
      unfolding bus_written_def by blast
    then show ?thesis unfolding read k by simp
  qed
  moreover have "read_od od' i j = read_od od i j"
    if "\<forall>b \<in> set (obj # objs). od_field b \<noteq> None \<longrightarrow> obj_key b \<noteq> storage_key i j" for i j
  proof -
    have "read_od od' i j = read_od od1 i j" using rest that unfolding bus_written_def by simp
    moreover have "storage_key i j \<noteq> obj_key obj" using that assms(1) by auto
    ultimately show ?thesis unfolding read by simp
  qed
  moreover have "has_entry od' i j = has_entry od i j" for i j
    using rest assms(4) unfolding bus_written_def by simp
  moreover have "read_od od' (od_index x) (Some (od_subindex x)) = Inr (the (vs g))"
    if "x \<in> set (obj # objs)" "od_field x = Some g" for x g
  proof (cases "x \<in> set objs")
    case True
    with that(2) rest show ?thesis unfolding bus_written_def by blast
  next
    case False
    with that assms(1,2) calculation(1) show ?thesis by simp
  qed
  ultimately show ?thesis unfolding bus_written_def by blast
qed

lemma rxpdo_payload_reaches_od:
  assumes "\<forall>obj \<in> set objs. on_bus pstr od vs obj"
    and "\<forall>a \<in> set objs. \<forall>b \<in> set objs. obj_key a = obj_key b \<longrightarrow> od_field a = od_field b"
    and "encode_mapping pstr objs vs = Inr bs"
  shows "\<exists>od'. rxpdo_payload_to_od (pre @ bs @ post) (int (length pre)) objs od = (Inr (), od') \<and>
           bus_written objs vs od od'"
  using assms
proof (induction objs arbitrary: od bs pre)
  case Nil
  then show ?case by (auto simp: retS_def bus_written_def)
next
  case (Cons obj objs)
  obtain b rest where b: "(case od_field obj of None \<Rightarrow> bindE (byte_length obj) (\<lambda>n. Inr (zeros n))
        | Some f \<Rightarrow> (case vs f of None \<Rightarrow> Inl AttributeError
             | Some v \<Rightarrow> pack_value pstr (od_data_type obj) v)) = Inr b"
    and rest: "encode_mapping pstr objs vs = Inr rest" and bs: "bs = b @ rest"
    using Cons.prems(3) by auto
  have ob: "on_bus pstr od vs obj" using Cons.prems(1) by simp
  have same: "\<forall>a \<in> set objs. \<forall>b \<in> set objs. obj_key a = obj_key b \<longrightarrow> od_field a = od_field b"
    using Cons.prems(2) by (meson list.set_intros(2))
  show ?case
  proof (cases "od_field obj")
    case None
    then obtain n where n: "byte_length obj = Inr (int n)" "length b = n"
      using ob b by (auto simp: on_bus_def carries_field_def zeros_def)
    have "\<forall>ob \<in> set objs. on_bus pstr od vs ob" using Cons.prems(1) by simp
    from Cons.IH [OF this same rest, of "pre @ b"] obtain od' where
      IH: "rxpdo_payload_to_od ((pre @ b) @ rest @ post) (int (length (pre @ b))) objs od = (Inr (), od')"
      "bus_written objs vs od od'" by blast
    have "rxpdo_payload_to_od (pre @ bs @ post) (int (length pre)) (obj # objs) od = (Inr (), od')"
      using IH(1) None n bs by (simp add: bindS_def liftE_def)
    then show ?thesis using IH(2) bus_written_skip [OF None] by blast
  next
    case (Some f)
    then obtain v where v: "vs f = Some v" "pack_value pstr (od_data_type obj) v = Inr b"
      "byte_length obj = Inr (int (length b))" "unpack_value (od_data_type obj) b = Inr v"
      using ob b by (auto simp: on_bus_def carries_field_def carries_def)
    have he: "has_entry od (od_index obj) (Some (od_subindex obj))" and i0: "od_index obj \<noteq> 0"
      and dec: "decode_od_value (od_data_type obj) b = Inr v"
      using ob Some v(4) by (auto simp: on_bus_def unpack_value_def)
    obtain od1 where w: "write_od (od_index obj) v (Some (od_subindex obj)) od = (Inr (), od1)"
      "\<And>i j. read_od od1 i j = (if storage_key i j = obj_key obj then Inr v else read_od od i j)"
      "\<And>i j. has_entry od1 i j = has_entry od i j"
      by (rule write_od_ok [OF he, of v]) (simp add: storage_key_def)
    have "\<forall>ob \<in> set objs. on_bus pstr od1 vs ob" using Cons.prems(1) w(3) by (simp add: on_bus_def)
    from Cons.IH [OF this same rest, of "pre @ b"] obtain od' where
      IH: "rxpdo_payload_to_od ((pre @ b) @ rest @ post) (int (length (pre @ b))) objs od1 = (Inr (), od')"
      "bus_written objs vs od1 od'" by blast
    have step: "rxpdo_payload_to_od (pre @ bs @ post) (int (length pre)) (obj # objs) od = (Inr (), od')"
      using IH(1) Some v(3) i0 dec w(1) bs by (simp add: bindS_def liftE_def)
    have "\<forall>b \<in> set objs. obj_key b = obj_key obj \<longrightarrow> od_field b = od_field obj"
      using Cons.prems(2) by (meson list.set_intros)
    from bus_written_Cons [OF Some v(1) w(2,3) this IH(2)] step show ?thesis by blast
  qed
qed

text \<open>A dictionary from which the transmit objects can be read: every mapped object is there
  with a value whose integer part fits the data type of the object.\<close>

definition sends :: "VirtualOdModel \<Rightarrow> (string \<rightharpoonup> pyval) \<Rightarrow> ObjectDictionaryEntry \<Rightarrow> bool" where
  "sends od vs obj \<longleftrightarrow>
     (case od_field obj of
        None \<Rightarrow> \<exists>n. byte_length obj = Inr (int n)
      | Some f \<Rightarrow>
          od_index obj \<noteq> 0 \<and>
          (\<exists>w i fm. read_od od (od_index obj) (Some (od_subindex obj)) = Inr w \<and>
             int_of_value w = Inr i \<and> map_of DATA_TYPE_FORMATS (od_data_type obj) = Some fm \<and>
             fm \<noteq> F_bool \<and> fm \<noteq> F_f \<and> in_range fm i \<and> vs f = Some (PInt i)))"

lemma sends_carries: "sends od vs obj \<Longrightarrow> carries_field pstr vs obj"
  using integer_object_carries by (fastforce simp: sends_def carries_field_def split: option.splits)

lemma od_to_txpdo_encodes:
  assumes "\<forall>obj \<in> set objs. sends od vs obj"
  shows "od_to_txpdo_payload pstr od objs = encode_mapping pstr objs vs"
  using assms
proof (induction objs)
  case (Cons obj objs)
  have ob: "sends od vs obj" using Cons.prems by simp
  have IH: "od_to_txpdo_payload pstr od objs = encode_mapping pstr objs vs"
    using Cons by simp
  show ?case
  proof (cases "od_field obj")
    case None
    then show ?thesis using IH by simp
  next
    case (Some f)
    then obtain w i fm where w: "od_index obj \<noteq> 0" "read_od od (od_index obj) (Some (od_subindex obj)) = Inr w"
      "int_of_value w = Inr i" "map_of DATA_TYPE_FORMATS (od_data_type obj) = Some fm" "fm \<noteq> F_f"
      "vs f = Some (PInt i)" using ob by (auto simp: sends_def)
    note t = scalar_type_names [OF w(4)]
    have enc: "encode_od_value pstr (od_data_type obj) x bsize = bindE (int_of_value x) (\<lambda>i. struct_pack fm (PInt i))"
      for x bsize using encode_scalar [of "od_data_type obj" fm] t(1) w(4,5) by simp
    have len: "byte_length obj = Inr (int (calcsize fm))"
      using t by (simp add: byte_length_def bit_length_def)
    show ?thesis
      using IH Some w(1-3,6) t(2) len by (simp add: enc pack_value_def int_of_value_def)
  qed
qed simp

subsection \<open>Properties\<close>

text \<open>SDO access to a virtual device. An object that is not in the dictionary is reported
  as such by reading and writing; writing a read-only object is rejected and changes nothing;
  writing a payload of the size of the object's integer type succeeds, reading the object then
  gives that payload back, whatever size is asked for, and no other object changes.\<close>

theorem sdo_access:
  "(\<not> has_entry od i (Some s) \<longrightarrow>
      bridge_read_sdo pstr i s n od = Inl (SdoObjectNotFoundException i s) \<and>
      bridge_write_sdo i s p od = (Inl (SdoObjectNotFoundException i s), od)) \<and>
   (od_definition od i (Some s) = Inr d \<and> lower (vd_access d) = ''ro'' \<longrightarrow>
      bridge_write_sdo i s p od =
        (Inl (DeviceRejectedException (Some ''sdo_write'') PNone PNone PNone PNone PNone), od)) \<and>
   (od_definition od i (Some s) = Inr d \<and> lower (vd_access d) \<noteq> ''ro'' \<and>
    map_of DATA_TYPE_FORMATS (normalize_od_data_type (vd_data_type d)) = Some fm \<and>
    fm \<notin> {F_bool, F_f} \<and> length p = calcsize fm \<longrightarrow>
      (\<exists>od'. bridge_write_sdo i s p od = (Inr (), od') \<and> bridge_read_sdo pstr i s n od' = Inr p \<and>
         (\<forall>j t. (j, t) \<noteq> (i, s) \<longrightarrow> read_od od' j (Some t) = read_od od j (Some t))))"
proof (intro conjI impI; (elim conjE)?)
  assume "\<not> has_entry od i (Some s)"
  then show "bridge_read_sdo pstr i s n od = Inl (SdoObjectNotFoundException i s)"
    "bridge_write_sdo i s p od = (Inl (SdoObjectNotFoundException i s), od)"
    by (simp_all add: bridge_read_sdo_def bridge_write_sdo_def bridge_definition_def od_definition_def
        has_entry_def bindS_def liftE_def)
next
  assume "od_definition od i (Some s) = Inr d" "lower (vd_access d) = ''ro''"
  then show "bridge_write_sdo i s p od =
      (Inl (DeviceRejectedException (Some ''sdo_write'') PNone PNone PNone PNone PNone), od)"
    by (simp add: bridge_write_sdo_def bridge_definition_def bindS_def liftE_def raiseS_def)
next
  assume d: "od_definition od i (Some s) = Inr d" and rw: "lower (vd_access d) \<noteq> ''ro''"
    and fm: "map_of DATA_TYPE_FORMATS (normalize_od_data_type (vd_data_type d)) = Some fm"
    and int: "fm \<notin> {F_bool, F_f}" and p: "length p = calcsize fm"
  obtain v where v: "decode_od_value (vd_data_type d) p = Inr (PInt v)" "struct_pack fm (PInt v) = Inr p"
    using unpack_pack_integer [of fm p] int p decode_scalar [OF fm, of p] by auto
  have "has_entry od i (Some s)"
    using d by (auto simp: od_definition_def has_entry_def split: option.splits)
  then obtain od' where w: "write_od i (PInt v) (Some s) od = (Inr (), od')"
    "\<And>j t. read_od od' j t = (if storage_key j t = storage_key i (Some s) then Inr (PInt v) else read_od od j t)"
    "\<And>j t. od_definition od' j t = od_definition od j t"
    by (rule write_od_ok [of od i "Some s" "PInt v"]) blast
  have "bridge_write_sdo i s p od = (Inr (), od')"
    using d rw v(1) w(1) by (simp add: bridge_write_sdo_def bridge_definition_def bindS_def liftE_def)
  moreover have "bridge_read_sdo pstr i s n od' = Inr p"
    using d v(2) w(2,3) int encode_scalar [OF fm, of pstr "PInt v" n]
    by (simp add: bridge_read_sdo_def bridge_definition_def int_of_value_def)
  ultimately show "\<exists>od'. bridge_write_sdo i s p od = (Inr (), od') \<and> bridge_read_sdo pstr i s n od' = Inr p \<and>
      (\<forall>j t. (j, t) \<noteq> (i, s) \<longrightarrow> read_od od' j (Some t) = read_od od j (Some t))"
    using w(2) by (intro exI [of _ od']) (simp add: storage_key_def)
qed

definition demo_od :: VirtualOdModel where
  "demo_od =
     snd (VirtualObjectDictionary [] [] None motion_server_default empty_od)"

theorem sdo_access_witness:
  "\<exists>od'. bridge_write_sdo 0x607A 0 [1, 2, 3, 4] demo_od = (Inr (), od') \<and>
     bridge_read_sdo (\<lambda>_. []) 0x607A 0 (Some 4) od' = Inr [1, 2, 3, 4]"
proof -
  obtain d where d: "od_definition demo_od 0x607A (Some 0) = Inr d"
    "vd_access d = []" "vd_data_type d = ''int32''"
  proof -
    have "od_definition demo_od 0x607A (Some 0) =
      Inr \<lparr>vd_index = 0x607A, vd_subindex = 0, vd_name = ''Target position'', vd_data_type = ''int32'',
           vd_bit_size = 32, vd_access = [], vd_default = PInt 0, vd_role = Some ''target_position'',
           vd_rxpdo = True, vd_txpdo = False\<rparr>" by code_simp
    then show thesis by (rule that) simp_all
  qed
  have "map_of DATA_TYPE_FORMATS (normalize_od_data_type ''int32'') = Some F_i" by code_simp
  then show ?thesis
    using sdo_access [where od = demo_od and i = "0x607A" and s = 0 and pstr = "\<lambda>_. []" and n = "Some 4"
        and p = "[1, 2, 3, 4]" and d = d and fm = F_i] d
    by (auto simp: lower_def)
qed

text \<open>The values a data type can have in the dictionary, and a dictionary in which every object
  has a value of its type.\<close>

definition value_of_type :: "string \<Rightarrow> pyval \<Rightarrow> bool" where
  "value_of_type data_type v \<longleftrightarrow>
     (let t = normalize_od_data_type data_type
      in if is_byte_array_type t then (case v of PBytes _ \<Rightarrow> True | _ \<Rightarrow> False)
         else if contains ''string'' t then (case v of PStr _ \<Rightarrow> True | _ \<Rightarrow> False)
         else case map_of DATA_TYPE_FORMATS t of
           Some fm \<Rightarrow>
             if fm = F_bool then (case v of PBool _ \<Rightarrow> True | PInt i \<Rightarrow> i \<in> {0, 1} | _ \<Rightarrow> False)
             else if fm = F_f then (case v of PFloat _ \<Rightarrow> True | PInf _ \<Rightarrow> True | PNaN \<Rightarrow> True | _ \<Rightarrow> False)
             else (case v of PInt i \<Rightarrow> in_range fm i | _ \<Rightarrow> False)
         | None \<Rightarrow> (case v of PInt i \<Rightarrow> 0 \<le> i | _ \<Rightarrow> False))"

definition od_typed :: "VirtualOdModel \<Rightarrow> bool" where
  "od_typed od \<longleftrightarrow>
     (\<forall>k en. map_of (od_entries od) k = Some en \<longrightarrow>
        value_of_type (vd_data_type (ve_definition en)) (ve_value en))"

lemma decode_od_value_typed: "decode_od_value t p = Inr v \<Longrightarrow> value_of_type t v"
proof -
  assume d: "decode_od_value t p = Inr v"
  show ?thesis
  proof (cases "map_of DATA_TYPE_FORMATS (normalize_od_data_type t)")
    case None
    with d le_uint_bounds [of p] show ?thesis
      by (auto simp: decode_od_value_def value_of_type_def Let_def split: if_splits)
  next
    case (Some fm)
    note sc = formats_are_scalar(1,2) [OF Some]
    have u: "struct_unpack fm (take (calcsize fm) p) = Inr v" using d decode_scalar [OF Some] by simp
    then have l: "length (take (calcsize fm) p) = calcsize fm"
      by (simp add: struct_unpack_def split: if_splits)
    consider "fm = F_bool" | "fm = F_f" | "fm \<noteq> F_bool" "fm \<noteq> F_f" by blast
    then show ?thesis
    proof cases
      case 1
      with u l sc Some show ?thesis by (auto simp: struct_unpack_def value_of_type_def Let_def)
    next
      case 2
      with u l sc Some show ?thesis
        by (auto simp: struct_unpack_def value_of_type_def f32_value_def Let_def split: if_splits)
    next
      case 3
      with unpack_pack_integer [OF 3 l] u sc Some show ?thesis by (auto simp: value_of_type_def Let_def)
    qed
  qed
qed

text \<open>C28: the dictionary stays well typed. A dictionary in which every object has a value of its
  data type is still one after any SDO write, whatever the payload and whether or not the write
  succeeds; and in such a dictionary reading an object of an integer type always succeeds and
  yields exactly the bytes of the type.\<close>

theorem sdo_keeps_types:
  assumes "od_typed od"
  shows "od_typed (snd (bridge_write_sdo i s p od)) \<and>
         (od_definition od i (Some s) = Inr d \<and>
          map_of DATA_TYPE_FORMATS (normalize_od_data_type (vd_data_type d)) = Some fm \<and>
          fm \<notin> {F_bool, F_f} \<longrightarrow>
            (\<exists>bs. bridge_read_sdo pstr i s n od = Inr bs \<and> length bs = calcsize fm))"
proof (intro conjI impI; (elim conjE)?)
  show "od_typed (snd (bridge_write_sdo i s p od))"
  proof (cases "map_of (od_entries od) (i, s)")
    case None
    with assms show ?thesis
      by (simp add: bridge_write_sdo_def bridge_definition_def od_definition_def storage_key_def bindS_def liftE_def)
  next
    case (Some en)
    show ?thesis
    proof (cases "decode_od_value (vd_data_type (ve_definition en)) p")
      case (Inl e)
      with Some assms show ?thesis
        by (simp add: bridge_write_sdo_def bridge_definition_def od_definition_def storage_key_def bindS_def
            liftE_def raiseS_def)
    next
      case (Inr v)
      with Some assms decode_od_value_typed [OF Inr] show ?thesis
        by (auto simp: bridge_write_sdo_def bridge_definition_def od_definition_def storage_key_def bindS_def
            liftE_def raiseS_def write_od_cases od_typed_def)
    qed
  qed
next
  assume d: "od_definition od i (Some s) = Inr d"
    and fm: "map_of DATA_TYPE_FORMATS (normalize_od_data_type (vd_data_type d)) = Some fm"
    and int: "fm \<notin> {F_bool, F_f}"
  obtain en where en: "map_of (od_entries od) (i, s) = Some en" "ve_definition en = d"
    using d by (auto simp: od_definition_def storage_key_def split: option.splits)
  then have "value_of_type (vd_data_type d) (ve_value en)" using assms by (auto simp: od_typed_def)
  then obtain v where v: "ve_value en = PInt v" "in_range fm v"
    using fm int formats_are_scalar(1,2) [OF fm] by (auto simp: value_of_type_def Let_def split: pyval.splits)
  then show "\<exists>bs. bridge_read_sdo pstr i s n od = Inr bs \<and> length bs = calcsize fm"
    using en d int pack_unpack_integer(1) [of fm v] encode_scalar [OF fm]
    by (simp add: bridge_read_sdo_def bridge_definition_def read_od_def storage_key_def int_of_value_def)
qed

definition demo_small_od :: VirtualOdModel where
  "demo_small_od =
     \<lparr>od_entries = [((0x607A, 0), \<lparr>ve_definition =
        \<lparr>vd_index = 0x607A, vd_subindex = 0, vd_name = ''Target position'', vd_data_type = ''DINT'',
         vd_bit_size = 32, vd_access = ''rw'', vd_default = PInt 0, vd_role = None, vd_rxpdo = True,
         vd_txpdo = False\<rparr>, ve_value = PInt 5\<rparr>)],
      last_write_key = None, write_generation = 0\<rparr>"

theorem sdo_keeps_types_witness:
  "od_typed (snd (bridge_write_sdo 0x607A 0 [1, 2, 3, 4] demo_small_od))"
proof (rule conjunct1 [OF sdo_keeps_types])
  have "value_of_type ''DINT'' (PInt 5)" by code_simp
  then show "od_typed demo_small_od" by (simp add: od_typed_def demo_small_od_def)
qed

end
