(* ===== verification/Mock_Master.thy ===== *)
theory Mock_Master
  imports Virtual_Od
begin

section \<open>The in-process bus master\<close>

text \<open>
  Models \<^verbatim>\<open>ethercat/master_pdo_runtime.py\<close>, \<^verbatim>\<open>ethercat/working_counter.py\<close>,
  \<^verbatim>\<open>ethercat/sdo_access.py\<close> and \<^verbatim>\<open>ethercat/mock_master.py\<close>: the master side of process data
  (prepare, send, receive), its life cycle and SDO access with typed values. What the clocks
  return is an argument of each operation. \<open>upd\<close> is \<open>model_update\<close> of the devices behind the
  slaves and \<open>prepare\<close> the \<open>prepare_process_image\<close> of the device profiles. The lemmas show that the
  three phases of a cycle can only follow each other, and what one whole cycle moves between
  the images of the master and the dictionaries of the devices.
\<close>

subsection \<open>One slave as the master sees it\<close>

record MasterPdoRuntime =
  profile_conf :: CMMTPdoConfiguration
  rxpdo :: pdo_image
  txpdo :: pdo_image
  prepared_output :: "bytes option"
  transmitted_output :: "bytes option"
  received_input :: "bytes option"

definition new_pdo_runtime :: "CMMTPdoConfiguration \<Rightarrow> MasterPdoRuntime" where
  "new_pdo_runtime conf =
     \<lparr>profile_conf = conf, rxpdo = RxPDO conf, txpdo = TxPDO conf, prepared_output = None,
      transmitted_output = None, received_input = None\<rparr>"

definition encode_output_candidate :: "(pyval \<Rightarrow> string) \<Rightarrow> MasterPdoRuntime \<Rightarrow> bytes option res" where
  "encode_output_candidate pstr s = bindE (encode_rxpdo pstr (rxpdo s)) (\<lambda>b. Inr (Some b))"

definition commit_prepared_output :: "bytes option \<Rightarrow> MasterPdoRuntime \<Rightarrow> MasterPdoRuntime" where
  "commit_prepared_output payload s = s\<lparr>prepared_output := payload\<rparr>"

definition commit_transmitted_output :: "bytes option \<Rightarrow> MasterPdoRuntime \<Rightarrow> MasterPdoRuntime" where
  "commit_transmitted_output payload s =
     s\<lparr>transmitted_output := payload, prepared_output := None\<rparr>"

definition validate_input_payload :: "MasterPdoRuntime \<Rightarrow> bytes \<Rightarrow> bytes res" where
  "validate_input_payload s payload =
     bindE (mapping_size (txpdo s)) (\<lambda>n.
       if int (length payload) < n then Inl ValueError else Inr payload)"

definition decode_input :: "bytes \<Rightarrow> (MasterPdoRuntime, exn, unit) op" where
  "decode_input payload s =
     (case decode_txpdo payload (txpdo s) of
        (Inl e, im) \<Rightarrow> (Inl e, s\<lparr>txpdo := im\<rparr>)
      | (Inr _, im) \<Rightarrow> (Inr (), s\<lparr>txpdo := im, received_input := Some payload\<rparr>))"

definition reset_processdata :: "MasterPdoRuntime \<Rightarrow> MasterPdoRuntime" where
  "reset_processdata s =
     s\<lparr>prepared_output := None, transmitted_output := None, received_input := None\<rparr>"

subsection \<open>The master\<close>

datatype BusState = Closed | Preop | Operational

record master_times =
  dc_time_ns :: int
  last_tx_dc_time_ns :: int
  last_direct_tx_dc_time_ns :: int
  last_rx_dc_time_ns :: int
  last_tx_monotonic_ns :: "int option"
  last_rx_monotonic_ns :: "int option"
  last_tx_prepare_duration_ns :: int
  last_send_call_duration_ns :: int

definition no_times :: master_times where
  "no_times =
     \<lparr>dc_time_ns = 0, last_tx_dc_time_ns = 0, last_direct_tx_dc_time_ns = 0, last_rx_dc_time_ns = 0,
      last_tx_monotonic_ns = None, last_rx_monotonic_ns = None, last_tx_prepare_duration_ns = 0,
      last_send_call_duration_ns = 0\<rparr>"

record 'd MockMaster =
  endpoints :: "'d mock_slave list"
  slaves :: "MasterPdoRuntime list"
  expected_wkc :: int
  wkc :: int
  times :: master_times
  outputs_sent :: bool
  processdata_prepared :: bool
  connected :: bool
  bus_state :: BusState
  lifecycle_events :: "string list"

definition new_master :: "'d mock_slave list \<Rightarrow> CMMTPdoConfiguration list \<Rightarrow> 'd MockMaster res" where
  "new_master eps confs =
     (if length eps \<noteq> length confs then Inl ValueError
      else Inr \<lparr>endpoints = eps, slaves = map new_pdo_runtime confs,
                expected_wkc = 2 * int (length eps), wkc = 0, times = no_times, outputs_sent = False,
                processdata_prepared = False, connected = False, bus_state = Closed,
                lifecycle_events = []\<rparr>)"

definition reset_processdata_state :: "'d MockMaster \<Rightarrow> 'd MockMaster" where
  "reset_processdata_state m =
     m\<lparr>outputs_sent := False, processdata_prepared := False, wkc := 0, times := no_times,
       slaves := map reset_processdata (slaves m)\<rparr>"

definition close :: "'d MockMaster \<Rightarrow> 'd MockMaster" where
  "close m =
     (let m' = reset_processdata_state (m\<lparr>connected := False, bus_state := Closed\<rparr>)
      in m'\<lparr>lifecycle_events := lifecycle_events m' @ [''close'']\<rparr>)"

definition require_connected :: "('d MockMaster, exn, unit) op" where
  "require_connected =
     liftE (\<lambda>m. if connected m then Inr ()
                else Inl (CommunicationException (Some ''bus_transport_disconnected'')))"

text \<open>\<open>prepare i\<close> is \<open>prepare_process_image\<close> of the profile of slave \<open>i\<close>.\<close>

definition connect ::
  "(nat \<Rightarrow> ('d MockMaster, exn, unit) op) \<Rightarrow> string \<Rightarrow> ('d MockMaster, exn, unit) op" where
  "connect prepare target_state m =
     (if lower (strip target_state) \<notin> {''preop'', ''pre_op''} then (Inl ValueError, m)
      else
        let m1 = (reset_processdata_state m)\<lparr>connected := True, bus_state := Preop,
                    lifecycle_events := lifecycle_events m @ [''connect:preop'']\<rparr>
        in case forS [0..<length (slaves m1)] prepare m1 of
             (Inr _, m2) \<Rightarrow> (Inr (), m2)
           | (Inl e, m2) \<Rightarrow> (Inl e, close m2))"

definition enter_operational :: "('d MockMaster, exn, unit) op" where
  "enter_operational m =
     (if bus_state m \<noteq> Preop then (Inl RuntimeError, m)
      else (Inr (), m\<lparr>connected := True, bus_state := Operational,
                      lifecycle_events := lifecycle_events m @ [''enter_operational'']\<rparr>))"

subsection \<open>Process data\<close>

datatype pdo_phase = Idle | Prepared | SentOut

definition phase :: "'d MockMaster \<Rightarrow> pdo_phase" where
  "phase m = (if outputs_sent m then SentOut else if processdata_prepared m then Prepared else Idle)"

definition prepare_processdata ::
  "(pyval \<Rightarrow> string) \<Rightarrow> int \<Rightarrow> int \<Rightarrow> ('d MockMaster, exn, unit) op" where
  "prepare_processdata pstr start_ns end_ns =
     bindS require_connected (\<lambda>_ m.
       if phase m \<noteq> Idle then (Inl RuntimeError, m)
       else case mapE (encode_output_candidate pstr) (slaves m) of
         Inl e \<Rightarrow> (Inl e, m)
       | Inr candidates \<Rightarrow>
           (Inr (), m\<lparr>slaves := map2 commit_prepared_output candidates (slaves m),
                      times := (times m)\<lparr>last_tx_prepare_duration_ns := end_ns - start_ns\<rparr>,
                      processdata_prepared := True\<rparr>))"

definition send_processdata ::
  "int \<Rightarrow> int \<Rightarrow> int \<Rightarrow> int \<Rightarrow> ('d MockMaster, exn, unit) op" where
  "send_processdata dc tx_ns start_ns end_ns =
     bindS require_connected (\<lambda>_ m.
       if outputs_sent m then (Inl RuntimeError, m)
       else if \<not> processdata_prepared m then (Inl RuntimeError, m)
       else
         (Inr (), m\<lparr>times := (times m)\<lparr>dc_time_ns := dc, last_tx_monotonic_ns := Some tx_ns,
                      last_direct_tx_dc_time_ns := dc, last_tx_dc_time_ns := dc,
                      last_send_call_duration_ns := end_ns - start_ns\<rparr>,
                    slaves := map (\<lambda>s. commit_transmitted_output (prepared_output s) s) (slaves m),
                    outputs_sent := True, processdata_prepared := False\<rparr>))"

text \<open>The exchange with the endpoints one after the other; an exception leaves the remaining
  ones untouched.\<close>

fun exchange_all ::
  "(pyval \<Rightarrow> string) \<Rightarrow> 'd device_update \<Rightarrow> 'd mock_slave list \<Rightarrow> MasterPdoRuntime list
   \<Rightarrow> (exn + bytes list) \<times> 'd mock_slave list" where
  "exchange_all pstr upd (ep # eps) (s # ss) =
     (case (case transmitted_output s of
              None \<Rightarrow> (Inl TypeError, ep)
            | Some out \<Rightarrow> exchange_processdata pstr upd out ep) of
        (Inl e, ep') \<Rightarrow> (Inl e, ep' # eps)
      | (Inr p, ep') \<Rightarrow>
          (case exchange_all pstr upd eps ss of
             (Inl e, eps') \<Rightarrow> (Inl e, ep' # eps')
           | (Inr ps, eps') \<Rightarrow> (Inr (p # ps), ep' # eps')))"
| "exchange_all pstr upd eps ss = (Inr [], eps)"

definition bus_error :: "string \<Rightarrow> exn \<Rightarrow> exn" where
  "bus_error operation e =
     (if isinstance e COSError then CommunicationException (Some operation) else e)"

fun validate_all :: "MasterPdoRuntime list \<Rightarrow> bytes list \<Rightarrow> bytes list res" where
  "validate_all (s # ss) (p # ps) =
     bindE (validate_input_payload s p) (\<lambda>q. bindE (validate_all ss ps) (\<lambda>qs. Inr (q # qs)))"
| "validate_all ss ps = Inr []"

fun decode_all :: "MasterPdoRuntime list \<Rightarrow> bytes list \<Rightarrow> (exn + unit) \<times> MasterPdoRuntime list" where
  "decode_all (s # ss) (p # ps) =
     (case decode_input p s of
        (Inl e, s') \<Rightarrow> (Inl e, s' # ss)
      | (Inr _, s') \<Rightarrow> (case decode_all ss ps of (r, ss') \<Rightarrow> (r, s' # ss')))"
| "decode_all ss ps = (Inr (), ss)"

definition receive_processdata ::
  "(pyval \<Rightarrow> string) \<Rightarrow> 'd device_update \<Rightarrow> int \<Rightarrow> int \<Rightarrow> ('d MockMaster, exn, int) op" where
  "receive_processdata pstr upd rx_ns dc =
     bindS require_connected (\<lambda>_ m.
       if \<not> outputs_sent m then (Inl RuntimeError, m)
       else case exchange_all pstr upd (endpoints m) (slaves m) of
         (Inl e, eps) \<Rightarrow> (Inl (bus_error ''processdata_receive'' e), m\<lparr>endpoints := eps\<rparr>)
       | (Inr payloads, eps) \<Rightarrow>
           (let m1 = m\<lparr>endpoints := eps, wkc := expected_wkc m,
                       times := (times m)\<lparr>dc_time_ns := dc, last_rx_dc_time_ns := dc,
                                          last_rx_monotonic_ns := Some rx_ns\<rparr>\<rparr>
            in case validate_all (slaves m1) payloads of
                 Inl e \<Rightarrow> (Inl e, m1)
               | Inr valid \<Rightarrow>
                   (case decode_all (slaves m1) valid of
                      (Inl e, ss) \<Rightarrow> (Inl e, m1\<lparr>slaves := ss\<rparr>)
                    | (Inr _, ss) \<Rightarrow>
                        (Inr (wkc m1), m1\<lparr>slaves := ss, outputs_sent := False\<rparr>))))"

subsection \<open>SDO access\<close>

definition raise_sdo_exception :: "string \<Rightarrow> exn \<Rightarrow> exn" where
  "raise_sdo_exception operation e =
     (if isinstance e CMotionServer then e
      else if isinstance e CTimeoutError then CommunicationTimeoutException (Some operation) PNone
      else if isinstance e COSError then CommunicationException (Some operation)
      else e)"

definition master_write_sdo ::
  "'d device_update \<Rightarrow> int \<Rightarrow> int \<Rightarrow> int \<Rightarrow> bytes \<Rightarrow> ('d MockMaster, exn, unit) op" where
  "master_write_sdo upd slave index subindex payload m =
     (case py_index (endpoints m) slave of
        Inl e \<Rightarrow> (Inl (raise_sdo_exception ''sdo_write'' e), m)
      | Inr k \<Rightarrow>
          (case slave_write_sdo upd index subindex payload (endpoints m ! k) of
             (r, ep) \<Rightarrow>
               ((case r of Inl e \<Rightarrow> Inl (raise_sdo_exception ''sdo_write'' e) | Inr _ \<Rightarrow> Inr ()),
                m\<lparr>endpoints := (endpoints m)[k := ep]\<rparr>)))"

definition master_read_sdo ::
  "(pyval \<Rightarrow> string) \<Rightarrow> int \<Rightarrow> int \<Rightarrow> int \<Rightarrow> int \<Rightarrow> 'd MockMaster \<Rightarrow> bytes res" where
  "master_read_sdo pstr slave index subindex n m =
     (case bindE (py_index (endpoints m) slave)
             (\<lambda>k. slave_read_sdo pstr index subindex (Some n) (endpoints m ! k)) of
        Inl e \<Rightarrow> Inl (raise_sdo_exception ''sdo_read'' e) | Inr p \<Rightarrow> Inr p)"

text \<open>\<open>SdoAccess._write\<close> and \<open>_read\<close> for the integer formats.\<close>

definition sdo_write_int ::
  "struct_format \<Rightarrow> 'd device_update \<Rightarrow> int \<Rightarrow> int \<Rightarrow> int \<Rightarrow> int \<Rightarrow> ('d MockMaster, exn, unit) op" where
  "sdo_write_int fm upd slave index subindex v =
     bindS (liftE (\<lambda>_. struct_pack fm (PInt v)))
       (\<lambda>payload. master_write_sdo upd slave index subindex payload)"

definition sdo_read_int ::
  "struct_format \<Rightarrow> (pyval \<Rightarrow> string) \<Rightarrow> int \<Rightarrow> int \<Rightarrow> int \<Rightarrow> 'd MockMaster \<Rightarrow> int res" where
  "sdo_read_int fm pstr slave index subindex m =
     bindE (master_read_sdo pstr slave index subindex (int (calcsize fm)) m) (\<lambda>payload.
       if length payload < calcsize fm
       then Inl (DeviceAccessException (Some ''sdo_read_short_payload''))
       else bindE (struct_unpack fm (take (calcsize fm) payload)) int_of_value)"

definition read_assigned_pdo_indices ::
  "(pyval \<Rightarrow> string) \<Rightarrow> int \<Rightarrow> int \<Rightarrow> 'd MockMaster \<Rightarrow> int list res" where
  "read_assigned_pdo_indices pstr slave assignment m =
     bindE (sdo_read_int F_B pstr slave assignment 0 m) (\<lambda>count.
       mapE (\<lambda>sub. sdo_read_int F_H pstr slave assignment sub m) [1..count])"

definition read_pdo_mapping_entries ::
  "(pyval \<Rightarrow> string) \<Rightarrow> int \<Rightarrow> int \<Rightarrow> 'd MockMaster \<Rightarrow> int list res" where
  "read_pdo_mapping_entries pstr slave pdo m =
     bindE (sdo_read_int F_B pstr slave pdo 0 m) (\<lambda>count.
       mapE (\<lambda>sub. sdo_read_int F_I pstr slave pdo sub m) [1..count])"

definition read_assigned_pdo_mapping_entries ::
  "(pyval \<Rightarrow> string) \<Rightarrow> int \<Rightarrow> int \<Rightarrow> 'd MockMaster \<Rightarrow> int list res" where
  "read_assigned_pdo_mapping_entries pstr slave assignment m =
     bindE (read_assigned_pdo_indices pstr slave assignment m) (\<lambda>pdos.
     bindE (mapE (\<lambda>pdo. read_pdo_mapping_entries pstr slave pdo m) pdos) (\<lambda>ess. Inr (concat ess)))"

subsection \<open>The phases of a cycle\<close>

text \<open>What the phases depend on, and the invariant of the master.\<close>

definition bookkeeping where
  "bookkeeping m =
     (length (endpoints m), map (\<lambda>s. (prepared_output s, transmitted_output s)) (slaves m),
      expected_wkc m, outputs_sent m, processdata_prepared m, connected m, bus_state m)"

definition bus_inv :: "'d MockMaster \<Rightarrow> bool" where
  "bus_inv m \<longleftrightarrow>
     length (slaves m) = length (endpoints m) \<and> expected_wkc m = 2 * int (length (endpoints m)) \<and>
     \<not> (outputs_sent m \<and> processdata_prepared m) \<and>
     (processdata_prepared m \<longrightarrow> list_all (\<lambda>s. prepared_output s \<noteq> None) (slaves m)) \<and>
     (outputs_sent m \<longrightarrow> list_all (\<lambda>s. transmitted_output s \<noteq> None) (slaves m)) \<and>
     (connected m \<longleftrightarrow> bus_state m \<noteq> Closed) \<and> (\<not> connected m \<longrightarrow> phase m = Idle)"

lemma bus_inv_cong:
  assumes "bookkeeping m' = bookkeeping m"
  shows "bus_inv m' \<longleftrightarrow> bus_inv m"
proof -
  let ?g = "\<lambda>s. (prepared_output s, transmitted_output s)"
  have b: "map ?g (slaves m') = map ?g (slaves m)" using assms by (simp add: bookkeeping_def)
  have l: "list_all (\<lambda>s. prepared_output s \<noteq> None) xs = list_all (\<lambda>t. fst t \<noteq> None) (map ?g xs)"
    "list_all (\<lambda>s. transmitted_output s \<noteq> None) xs = list_all (\<lambda>t. snd t \<noteq> None) (map ?g xs)" for xs
    by (simp_all add: list.pred_map comp_def)
  have n: "length (slaves m') = length (slaves m)" using b map_eq_imp_length_eq by blast
  show ?thesis
    using assms n unfolding bus_inv_def l b by (simp add: bookkeeping_def phase_def)
qed

lemma exchange_all_length: "length (snd (exchange_all pstr upd eps ss)) = length eps"
  by (induction pstr upd eps ss rule: exchange_all.induct)
    (auto split: prod.splits sum.splits option.splits)

lemma decode_all_outputs:
  "map (\<lambda>s. (prepared_output s, transmitted_output s)) (snd (decode_all ss ps)) =
   map (\<lambda>s. (prepared_output s, transmitted_output s)) ss"
  by (induction ss ps rule: decode_all.induct)
    (auto simp: decode_input_def split: prod.splits sum.splits)

lemma reset_keeps_inv:
  assumes "bus_inv m"
  shows "bus_inv (close m)"
    and "bus_inv ((reset_processdata_state m)\<lparr>connected := True, bus_state := Preop,
            lifecycle_events := ev\<rparr>)"
  using assms by (auto simp: bus_inv_def close_def reset_processdata_state_def phase_def Let_def)

lemma prepare_keeps_inv: "bus_inv m \<Longrightarrow> bus_inv (snd (prepare_processdata pstr a b m))"
proof -
  assume inv: "bus_inv m"
  show ?thesis
  proof (cases "connected m \<and> phase m = Idle")
    case False
    with inv show ?thesis
      by (auto simp: prepare_processdata_def require_connected_def bindS_def liftE_def)
  next
    case True
    show ?thesis
    proof (cases "mapE (encode_output_candidate pstr) (slaves m)")
      case (Inl e)
      with inv True show ?thesis
        by (simp add: prepare_processdata_def require_connected_def bindS_def liftE_def)
    next
      case (Inr cs)
      then have c: "list_all2 (\<lambda>s c. encode_output_candidate pstr s = Inr c) (slaves m) cs"
        by (simp add: mapE_Inr_iff)
      then have len: "length cs = length (slaves m)" by (simp add: list_all2_lengthD)
      have "list_all (\<lambda>c. c \<noteq> None) cs"
        using c by (induction rule: list_all2_induct) (auto simp: encode_output_candidate_def)
      then have "list_all (\<lambda>s. prepared_output s \<noteq> None) (map2 commit_prepared_output cs (slaves m))"
        using len by (auto simp: list_all_iff commit_prepared_output_def dest: set_zip_leftD)
      then show ?thesis
        using inv True Inr len
        by (auto simp: bus_inv_def phase_def prepare_processdata_def require_connected_def bindS_def
            liftE_def split: if_splits)
    qed
  qed
qed

lemma send_keeps_inv: "bus_inv m \<Longrightarrow> bus_inv (snd (send_processdata dc t a b m))"
  by (auto simp: bus_inv_def phase_def send_processdata_def require_connected_def bindS_def liftE_def
      commit_transmitted_output_def list_all_iff)

lemma receive_keeps_inv: "bus_inv m \<Longrightarrow> bus_inv (snd (receive_processdata pstr upd t dc m))"
proof -
  assume inv: "bus_inv m"
  obtain r eps where ex: "exchange_all pstr upd (endpoints m) (slaves m) = (r, eps)" by fastforce
  have len: "length eps = length (endpoints m)"
    using exchange_all_length [of pstr upd "endpoints m" "slaves m"] ex by simp
  define q where "q v = fst (decode_all (slaves m) v)" for v
  define ss where "ss v = snd (decode_all (slaves m) v)" for v
  have de: "decode_all (slaves m) v = (q v, ss v)" for v by (simp add: q_def ss_def)
  have out: "map (\<lambda>s. (prepared_output s, transmitted_output s)) (ss v) =
      map (\<lambda>s. (prepared_output s, transmitted_output s)) (slaves m)" for v
    using decode_all_outputs [of "slaves m" v] de by simp
  have ls: "length (ss v) = length (slaves m)" for v using out [of v] map_eq_imp_length_eq by blast
  have so: "list_all (\<lambda>s. transmitted_output s \<noteq> None) (ss v) =
      list_all (\<lambda>s. transmitted_output s \<noteq> None) (slaves m)" for v
  proof -
    have l: "list_all (\<lambda>s. transmitted_output s \<noteq> None) xs =
        list_all (\<lambda>t. snd t \<noteq> None) (map (\<lambda>s. (prepared_output s, transmitted_output s)) xs)" for xs
      by (simp add: list.pred_map comp_def)
    show ?thesis unfolding l out by (rule refl)
  qed
  show ?thesis
    using inv len ls so ex de
    by (auto simp: bus_inv_def phase_def receive_processdata_def require_connected_def bindS_def
        liftE_def Let_def split: sum.splits)
qed

lemma operational_keeps_inv: "bus_inv m \<Longrightarrow> bus_inv (snd (enter_operational m))"
  by (auto simp: bus_inv_def enter_operational_def phase_def)

lemma write_sdo_bookkeeping: "bookkeeping (snd (master_write_sdo upd k i j p m)) = bookkeeping m"
  by (auto simp: master_write_sdo_def bookkeeping_def split: sum.splits prod.splits)

text \<open>The states a master reaches: its life cycle, the phases of its cycles with whatever results,
  SDO writes and the assignments of the application to the images in between.\<close>

inductive bus_reachable ::
  "(nat \<Rightarrow> ('d MockMaster, exn, unit) op) \<Rightarrow> (pyval \<Rightarrow> string) \<Rightarrow> 'd device_update \<Rightarrow> 'd MockMaster \<Rightarrow> bool"
  for prepare pstr upd where
  start: "new_master eps confs = Inr m \<Longrightarrow> bus_reachable prepare pstr upd m"
| connect: "bus_reachable prepare pstr upd m \<Longrightarrow> bus_reachable prepare pstr upd (snd (connect prepare t m))"
| operational: "bus_reachable prepare pstr upd m \<Longrightarrow> bus_reachable prepare pstr upd (snd (enter_operational m))"
| close: "bus_reachable prepare pstr upd m \<Longrightarrow> bus_reachable prepare pstr upd (close m)"
| prepare_cycle: "bus_reachable prepare pstr upd m \<Longrightarrow> bus_reachable prepare pstr upd (snd (prepare_processdata pstr a b m))"
| send: "bus_reachable prepare pstr upd m \<Longrightarrow> bus_reachable prepare pstr upd (snd (send_processdata dc t a b m))"
| receive: "bus_reachable prepare pstr upd m \<Longrightarrow> bus_reachable prepare pstr upd (snd (receive_processdata pstr upd t dc m))"
| sdo: "bus_reachable prepare pstr upd m \<Longrightarrow> bus_reachable prepare pstr upd (snd (master_write_sdo upd k i j p m))"
| assign: "bus_reachable prepare pstr upd m \<Longrightarrow> k < length (slaves m) \<Longrightarrow>
    bus_reachable prepare pstr upd (m\<lparr>slaves := (slaves m)[k := (slaves m ! k)\<lparr>rxpdo := im\<rparr>]\<rparr>)"

lemma map_update_same:
  "g y = g (xs ! k) \<Longrightarrow> map g (xs[k := y]) = map g xs"
  by (cases "k < length xs") (metis list_update_id map_update nth_map, simp add: list_update_beyond)

text \<open>The device profiles as the master uses them: preparing the process image of a slave
  accesses the slave and selects its mapping, but does not touch the cycle.\<close>

locale bus_profiles =
  fixes prepare :: "nat \<Rightarrow> ('d MockMaster, exn, unit) op"
  assumes prepare_bookkeeping: "bookkeeping (snd (prepare i m)) = bookkeeping m"
begin

lemma connect_keeps_inv: "bus_inv m \<Longrightarrow> bus_inv (snd (connect prepare t m))"
proof -
  assume inv: "bus_inv m"
  define m1 where "m1 = (reset_processdata_state m)\<lparr>connected := True, bus_state := Preop,
                    lifecycle_events := lifecycle_events m @ [''connect:preop'']\<rparr>"
  obtain r m2 where f: "forS [0..<length (slaves m1)] prepare m1 = (r, m2)" by fastforce
  have "bus_inv m1" unfolding m1_def by (rule reset_keeps_inv(2) [OF inv])
  then have "bus_inv (snd (forS [0..<length (slaves m1)] prepare m1))"
    by (intro forS_invariant [where P = bus_inv]) (simp_all add: bus_inv_cong [OF prepare_bookkeeping])
  then have m2: "bus_inv m2" "bus_inv (close m2)" using f reset_keeps_inv(1) [of m2] by simp_all
  have "snd (connect prepare t m) \<in> {m, m2, close m2}"
    unfolding connect_def Let_def m1_def [symmetric] f by (cases r) simp_all
  with inv m2 show ?thesis by auto
qed

lemma reachable_bus_inv: "bus_reachable prepare pstr upd m \<Longrightarrow> bus_inv m"
proof (induction rule: bus_reachable.induct)
  case (start eps confs m)
  then show ?case
    by (auto simp: new_master_def bus_inv_def phase_def list_all_iff split: if_splits)
next
  case (assign m k im)
  have "bookkeeping (m\<lparr>slaves := (slaves m)[k := (slaves m ! k)\<lparr>rxpdo := im\<rparr>]\<rparr>) = bookkeeping m"
    using assign(2) by (simp add: bookkeeping_def map_update_same)
  from bus_inv_cong [OF this] assign(3) show ?case by simp
qed (simp_all add: connect_keeps_inv operational_keeps_inv reset_keeps_inv prepare_keeps_inv
    send_keeps_inv receive_keeps_inv bus_inv_cong [OF write_sdo_bookkeeping])

end

subsection \<open>One whole cycle\<close>

text \<open>A slave and its device that are ready for a cycle: both sides use the same configuration,
  the fields to send are integers in the range of their types, their objects are in the dictionary of
  the device, and the device, from every dictionary the outputs lead to, updates without an
  exception to one from which the inputs can be read.\<close>

definition rx_objects :: "CMMTPdoConfiguration \<Rightarrow> ObjectDictionaryEntry list" where
  "rx_objects conf = pdo_objects (rxpdo_items conf)"

definition tx_objects :: "CMMTPdoConfiguration \<Rightarrow> ObjectDictionaryEntry list" where
  "tx_objects conf = pdo_objects (txpdo_items conf)"

definition slave_ready :: "'d device_update \<Rightarrow> 'd mock_slave \<Rightarrow> MasterPdoRuntime \<Rightarrow> bool" where
  "slave_ready upd ep s \<longleftrightarrow>
     (\<exists>name. (name, slave_conf ep) \<in> set CMMT_PDO_CONFIGURATIONS) \<and>
     pi_mapping (rxpdo s) = rx_objects (slave_conf ep) \<and>
     pi_mapping (txpdo s) = tx_objects (slave_conf ep) \<and>
     (\<forall>r. PdoRole r \<in> set (rxpdo_items (slave_conf ep)) \<longrightarrow>
        in_type_range (pr_data_type r) (pi_values (rxpdo s) (pr_role r)) \<and>
        has_entry (device_od ep) (pr_index r) (Some (pr_subindex r))) \<and>
     (\<forall>od. bus_written (rx_objects (slave_conf ep)) (pi_values (rxpdo s)) (device_od ep) od \<longrightarrow>
        (\<exists>d od' vs. upd (device ep) od = (None, d, od') \<and>
           (\<forall>obj \<in> set (tx_objects (slave_conf ep)). sends od' vs obj)))"

text \<open>The effect of the cycle on a slave and its device.\<close>

definition slave_cycled ::
  "'d device_update \<Rightarrow> 'd mock_slave \<Rightarrow> MasterPdoRuntime \<Rightarrow> 'd mock_slave \<Rightarrow> MasterPdoRuntime \<Rightarrow> bool" where
  "slave_cycled upd ep s ep' s' \<longleftrightarrow>
     (\<exists>od. bus_written (rx_objects (slave_conf ep)) (pi_values (rxpdo s)) (device_od ep) od \<and>
        upd (device ep) od = (None, device ep', device_od ep') \<and>
        (\<forall>r. PdoRole r \<in> set (txpdo_items (slave_conf ep)) \<longrightarrow>
           (\<exists>w i. read_od (device_od ep') (pr_index r) (Some (pr_subindex r)) = Inr w \<and>
              int_of_value w = Inr i \<and> pi_values (txpdo s') (pr_role r) = Some (PInt i)))) \<and>
     rxpdo s' = rxpdo s"

lemma cmmt_keys_identify_fields:
  assumes "(name, conf) \<in> set CMMT_PDO_CONFIGURATIONS"
  shows "\<forall>a \<in> set (rx_objects conf). \<forall>b \<in> set (rx_objects conf).
           obj_key a = obj_key b \<longrightarrow> od_field a = od_field b"
    and "\<forall>r. PdoRole r \<in> set (rxpdo_items conf) \<longrightarrow> pr_index r \<noteq> 0"
proof -
  let ?P = "\<lambda>conf. list_all (\<lambda>a. list_all (\<lambda>b. obj_key a = obj_key b \<longrightarrow> od_field a = od_field b)
      (rx_objects conf)) (rx_objects conf)"
  let ?Q = "\<lambda>conf. list_all (\<lambda>x. case x of PdoPadding _ \<Rightarrow> True | PdoRole r \<Rightarrow> pr_index r \<noteq> 0)
      (rxpdo_items conf)"
  have "list_all (\<lambda>c. ?P (snd c)) CMMT_PDO_CONFIGURATIONS" by code_simp
  then have "?P conf" using assms unfolding list_all_iff by (metis snd_conv)
  then show "\<forall>a \<in> set (rx_objects conf). \<forall>b \<in> set (rx_objects conf).
      obj_key a = obj_key b \<longrightarrow> od_field a = od_field b"
    unfolding list_all_iff by blast
  have "list_all (\<lambda>c. ?Q (snd c)) CMMT_PDO_CONFIGURATIONS" by code_simp
  then have "?Q conf" using assms unfolding list_all_iff by (metis snd_conv)
  then show "\<forall>r. PdoRole r \<in> set (rxpdo_items conf) \<longrightarrow> pr_index r \<noteq> 0"
    unfolding list_all_iff by fastforce
qed

lemma ready_on_bus:
  assumes "slave_ready upd ep s"
  shows "\<forall>obj \<in> set (rx_objects (slave_conf ep)). on_bus pstr (device_od ep) (pi_values (rxpdo s)) obj"
proof
  fix obj assume "obj \<in> set (rx_objects (slave_conf ep))"
  then obtain x where x: "x \<in> set (rxpdo_items (slave_conf ep))" "obj = pdo_object x"
    by (auto simp: rx_objects_def pdo_objects_def)
  obtain name where n: "(name, slave_conf ep) \<in> set CMMT_PDO_CONFIGURATIONS"
    using assms by (auto simp: slave_ready_def)
  have x': "x \<in> set (rxpdo_items (slave_conf ep)) \<union> set (txpdo_items (slave_conf ep))" using x(1) by simp
  have "carries_field pstr (pi_values (rxpdo s)) obj"
    unfolding x(2) using assms x(1) by (intro cmmt_carries_field [OF n x']) (auto simp: slave_ready_def)
  moreover have "\<not> starts_with ''padding'' (od_data_type obj) \<and> od_index obj \<noteq> 0 \<and>
      has_entry (device_od ep) (od_index obj) (Some (od_subindex obj))" if "od_field obj \<noteq> None"
  proof (cases x)
    case (PdoPadding k)
    with that x(2) show ?thesis by (simp add: padding_object_def)
  next
    case (PdoRole r)
    then show ?thesis
      using cmmt_items [OF n x'] cmmt_keys_identify_fields(2) [OF n] assms x
      by (auto simp: slave_ready_def object_entry_def)
  qed
  ultimately show "on_bus pstr (device_od ep) (pi_values (rxpdo s)) obj" by (simp add: on_bus_def)
qed

lemma ready_encodes: "slave_ready upd ep s \<Longrightarrow> \<exists>out. encode_rxpdo pstr (rxpdo s) = Inr out"
  using ready_on_bus [of upd ep s pstr]
    encode_decode_mapping [of "rx_objects (slave_conf ep)" pstr "pi_values (rxpdo s)"]
  by (auto simp: encode_rxpdo_def slave_ready_def on_bus_def)

lemma exchange_ready:
  assumes "slave_ready upd ep s" and "encode_rxpdo pstr (rxpdo s) = Inr out"
  shows "\<exists>od d od' vs p. exchange_processdata pstr upd out ep = (Inr p, ep\<lparr>device := d, device_od := od'\<rparr>) \<and>
           bus_written (rx_objects (slave_conf ep)) (pi_values (rxpdo s)) (device_od ep) od \<and>
           upd (device ep) od = (None, d, od') \<and>
           (\<forall>obj \<in> set (tx_objects (slave_conf ep)). sends od' vs obj) \<and>
           encode_mapping pstr (tx_objects (slave_conf ep)) vs = Inr p"
proof -
  obtain name where n: "(name, slave_conf ep) \<in> set CMMT_PDO_CONFIGURATIONS"
    using assms by (auto simp: slave_ready_def)
  have enc: "encode_mapping pstr (rx_objects (slave_conf ep)) (pi_values (rxpdo s)) = Inr out"
    using assms by (simp add: encode_rxpdo_def slave_ready_def)
  from rxpdo_payload_reaches_od [OF ready_on_bus [OF assms(1)] cmmt_keys_identify_fields(1) [OF n] enc,
      of "[]" "[]"] obtain od where
    rx: "rxpdo_payload_to_od out 0 (rx_objects (slave_conf ep)) (device_od ep) = (Inr (), od)"
    and w: "bus_written (rx_objects (slave_conf ep)) (pi_values (rxpdo s)) (device_od ep) od"
    by auto
  from assms(1) w obtain d od' vs where u: "upd (device ep) od = (None, d, od')"
    and snd: "\<forall>obj \<in> set (tx_objects (slave_conf ep)). sends od' vs obj"
    unfolding slave_ready_def by blast
  then have "\<forall>obj \<in> set (tx_objects (slave_conf ep)). carries_field pstr vs obj"
    using sends_carries by blast
  from encode_decode_mapping [OF this] obtain p where
    p: "encode_mapping pstr (tx_objects (slave_conf ep)) vs = Inr p" by blast
  have "exchange_processdata pstr upd out ep = (Inr p, ep\<lparr>device := d, device_od := od'\<rparr>)"
    using rx u p od_to_txpdo_encodes [OF snd, of pstr]
    by (simp add: exchange_processdata_def bindS_def on_od_def slave_model_update_def liftE_def
        rx_objects_def tx_objects_def)
  with w u snd p show ?thesis by blast
qed

lemma decode_txpdo_encoded:
  assumes "\<forall>obj \<in> set (pi_mapping im). carries_field pstr vs obj"
    and "encode_mapping pstr (pi_mapping im) vs = Inr bs"
  shows "mapping_size im = Inr (int (length bs))"
    and "\<exists>im'. decode_txpdo bs im = (Inr (), im') \<and>
           (\<forall>f. Some f \<in> od_field ` set (pi_mapping im) \<longrightarrow> pi_values im' f = vs f)"
proof -
  from encode_decode_mapping [OF assms(1)] assms(2) obtain ns where
    ns: "mapE byte_length (pi_mapping im) = Inr ns" "sum_list ns = int (length bs)"
    and d: "\<And>pre post ws. decode_mapping (pre @ bs @ post) (int (length pre)) (pi_mapping im) ws =
       (Inr (), \<lambda>f. if Some f \<in> od_field ` set (pi_mapping im) then vs f else ws f)"
    by auto
  then show size: "mapping_size im = Inr (int (length bs))" by (simp add: mapping_size_def)
  show "\<exists>im'. decode_txpdo bs im = (Inr (), im') \<and>
      (\<forall>f. Some f \<in> od_field ` set (pi_mapping im) \<longrightarrow> pi_values im' f = vs f)"
    using d [of "[]" "[]"] size by (simp add: decode_txpdo_def decode_into_def reset_mapped_values_def)
qed

lemma one_slave_cycle:
  assumes "slave_ready upd ep s" and "encode_rxpdo pstr (rxpdo s) = Inr out"
  shows "\<exists>p ep' s'. exchange_processdata pstr upd out ep = (Inr p, ep') \<and>
           validate_input_payload s p = Inr p \<and> decode_input p s = (Inr (), s') \<and>
           slave_cycled upd ep s ep' s'"
proof -
  obtain od d od' vs p where ex: "exchange_processdata pstr upd out ep = (Inr p, ep\<lparr>device := d, device_od := od'\<rparr>)"
    and w: "bus_written (rx_objects (slave_conf ep)) (pi_values (rxpdo s)) (device_od ep) od"
    and u: "upd (device ep) od = (None, d, od')"
    and snd: "\<forall>obj \<in> set (tx_objects (slave_conf ep)). sends od' vs obj"
    and p: "encode_mapping pstr (tx_objects (slave_conf ep)) vs = Inr p"
    using exchange_ready [OF assms] by blast
  have m: "pi_mapping (txpdo s) = tx_objects (slave_conf ep)"
    using assms(1) by (simp add: slave_ready_def)
  have c: "\<forall>obj \<in> set (pi_mapping (txpdo s)). carries_field pstr vs obj"
    unfolding m using snd sends_carries by blast
  note dec = decode_txpdo_encoded [OF c, unfolded m, OF p]
  obtain im' where im: "decode_txpdo p (txpdo s) = (Inr (), im')"
    "\<And>f. Some f \<in> od_field ` set (tx_objects (slave_conf ep)) \<Longrightarrow> pi_values im' f = vs f"
    using dec(2) by blast
  have "\<exists>w i. read_od od' (pr_index r) (Some (pr_subindex r)) = Inr w \<and> int_of_value w = Inr i \<and>
      pi_values im' (pr_role r) = Some (PInt i)" if "PdoRole r \<in> set (txpdo_items (slave_conf ep))" for r
  proof -
    have o: "object_entry r \<in> set (tx_objects (slave_conf ep))"
      using that by (force simp: tx_objects_def pdo_objects_def)
    then have "pi_values im' (pr_role r) = vs (pr_role r)"
      by (intro im(2)) (force simp: object_entry_def)
    moreover have "sends od' vs (object_entry r)" using snd o by blast
    ultimately show ?thesis by (auto simp: sends_def object_entry_def)
  qed
  then have "slave_cycled upd ep s (ep\<lparr>device := d, device_od := od'\<rparr>)
      (s\<lparr>txpdo := im', received_input := Some p\<rparr>)"
    using w u by (auto simp: slave_cycled_def)
  moreover have "validate_input_payload s p = Inr p"
    using dec(1) by (simp add: validate_input_payload_def)
  moreover have "decode_input p s = (Inr (), s\<lparr>txpdo := im', received_input := Some p\<rparr>)"
    using im(1) by (simp add: decode_input_def)
  ultimately show ?thesis using ex by blast
qed

lemma exchange_all_ready:
  assumes "list_all2 (\<lambda>ep s. slave_ready upd ep s \<and>
      (\<exists>out. transmitted_output s = Some out \<and> encode_rxpdo pstr (rxpdo s) = Inr out)) eps ss"
  shows "\<exists>ps eps' ss'. exchange_all pstr upd eps ss = (Inr ps, eps') \<and> validate_all ss ps = Inr ps \<and>
           decode_all ss ps = (Inr (), ss') \<and> length ss' = length ss \<and>
           (\<forall>k < length eps. slave_cycled upd (eps ! k) (ss ! k) (eps' ! k) (ss' ! k))"
  using assms
proof (induction rule: list_all2_induct)
  case Nil
  then show ?case by simp
next
  case (Cons ep eps s ss)
  then obtain out where out: "transmitted_output s = Some out" "encode_rxpdo pstr (rxpdo s) = Inr out"
    and r: "slave_ready upd ep s" by blast
  obtain p ep' s' where one: "exchange_processdata pstr upd out ep = (Inr p, ep')"
    "validate_input_payload s p = Inr p" "decode_input p s = (Inr (), s')" "slave_cycled upd ep s ep' s'"
    using one_slave_cycle [OF r out(2)] by blast
  obtain ps eps' ss' where IH: "exchange_all pstr upd eps ss = (Inr ps, eps')" "validate_all ss ps = Inr ps"
    "decode_all ss ps = (Inr (), ss')" "length ss' = length ss"
    "\<forall>k < length eps. slave_cycled upd (eps ! k) (ss ! k) (eps' ! k) (ss' ! k)"
    using Cons.IH by blast
  have "slave_cycled upd ((ep # eps) ! k) ((s # ss) ! k) ((ep' # eps') ! k) ((s' # ss') ! k)"
    if "k < length (ep # eps)" for k
    using that one(4) IH(5) by (cases k) simp_all
  then show ?case
    using one(1-3) IH(1-4) out(1)
    by (intro exI [of _ "p # ps"] exI [of _ "ep' # eps'"] exI [of _ "s' # ss'"]) simp
qed

subsection \<open>Properties\<close>

text \<open>C26: one cycle moves the process data both ways. On a connected master between two
  cycles whose slaves are ready, preparing, sending and receiving succeed with the working counter
  expected for all slaves, and the master is between two cycles again. For every slave: the device
  was updated on its dictionary with exactly the mapped objects replaced by the values of the
  receive image, and every field of the transmit image holds the integer value its object has in
  the dictionary after the update.\<close>

theorem process_data_cycle:
  assumes "connected m" and "phase m = Idle" and "list_all2 (slave_ready upd) (endpoints m) (slaves m)"
  shows "\<exists>m'. bindS (prepare_processdata pstr t1 t2) (\<lambda>_. bindS (send_processdata dc1 t3 t4 t5)
             (\<lambda>_. receive_processdata pstr upd t6 dc2)) m = (Inr (expected_wkc m), m') \<and>
           phase m' = Idle \<and> connected m' \<and>
           (\<forall>k < length (endpoints m).
              slave_cycled upd (endpoints m ! k) (slaves m ! k) (endpoints m' ! k) (slaves m' ! k))"
proof -
  have "\<exists>out. encode_rxpdo pstr (rxpdo s) = Inr out" if "s \<in> set (slaves m)" for s
    using that assms(3) ready_encodes [of upd _ s pstr]
    by (metis in_set_conv_nth list_all2_conv_all_nth)
  then obtain out where out: "\<And>s. s \<in> set (slaves m) \<Longrightarrow> encode_rxpdo pstr (rxpdo s) = Inr (out s)"
    by metis
  define ss where "ss = map (\<lambda>s. s\<lparr>prepared_output := None, transmitted_output := Some (out s)\<rparr>) (slaves m)"
  have enc: "mapE (encode_output_candidate pstr) (slaves m) = Inr (map (\<lambda>s. Some (out s)) (slaves m))"
    by (rule mapE_total) (simp add: encode_output_candidate_def out)
  have prep: "map2 commit_prepared_output (map (\<lambda>s. Some (out s)) xs) xs =
      map (\<lambda>s. s\<lparr>prepared_output := Some (out s)\<rparr>) xs" for xs
    by (induction xs) (simp_all add: commit_prepared_output_def)
  have rd: "list_all2 (\<lambda>ep s. slave_ready upd ep s \<and>
      (\<exists>b. transmitted_output s = Some b \<and> encode_rxpdo pstr (rxpdo s) = Inr b)) (endpoints m) ss"
    using assms(3) out
    by (auto simp: ss_def list_all2_conv_all_nth slave_ready_def)
  obtain ps eps' ss' where ex: "exchange_all pstr upd (endpoints m) ss = (Inr ps, eps')"
    "validate_all ss ps = Inr ps" "decode_all ss ps = (Inr (), ss')"
    "\<forall>k < length (endpoints m). slave_cycled upd (endpoints m ! k) (ss ! k) (eps' ! k) (ss' ! k)"
    using exchange_all_ready [OF rd] by blast
  have same: "slave_cycled upd (endpoints m ! k) (slaves m ! k) (eps' ! k) (ss' ! k)"
    if "k < length (endpoints m)" for k
    using ex(4) that list_all2_lengthD [OF assms(3)] by (simp add: slave_cycled_def ss_def)
  define m1 where "m1 = m\<lparr>slaves := map (\<lambda>s. s\<lparr>prepared_output := Some (out s)\<rparr>) (slaves m),
      times := (times m)\<lparr>last_tx_prepare_duration_ns := t2 - t1\<rparr>, processdata_prepared := True\<rparr>"
  have s1: "prepare_processdata pstr t1 t2 m = (Inr (), m1)"
    using assms(1,2) by (simp add: prepare_processdata_def require_connected_def bindS_def liftE_def enc prep m1_def)
  have idle: "\<not> outputs_sent m" using assms(2) by (simp add: phase_def split: if_splits)
  define m2 where "m2 = snd (send_processdata dc1 t3 t4 t5 m1)"
  have s2: "send_processdata dc1 t3 t4 t5 m1 = (Inr (), m2)" and m2: "slaves m2 = ss"
    "endpoints m2 = endpoints m" "connected m2" "outputs_sent m2" "\<not> processdata_prepared m2"
    "expected_wkc m2 = expected_wkc m"
    using assms(1) idle by (simp_all add: m2_def m1_def send_processdata_def require_connected_def bindS_def
        liftE_def commit_transmitted_output_def ss_def comp_def)
  obtain m3 where "receive_processdata pstr upd t6 dc2 m2 = (Inr (expected_wkc m), m3)"
    "phase m3 = Idle" "connected m3" "endpoints m3 = eps'" "slaves m3 = ss'"
    using m2 ex(1-3) by (simp add: receive_processdata_def require_connected_def bindS_def liftE_def
        Let_def phase_def)
  then show ?thesis using s1 s2 same by (simp add: bindS_def)
qed

definition demo_slave :: "unit mock_slave" where
  "demo_slave = \<lparr>device = (), device_od = demo_od, slave_conf = motion_server_default,
     slave_product_code = None\<rparr>"

definition demo_master :: "unit MockMaster" where
  "demo_master =
     \<lparr>endpoints = [demo_slave], slaves = [new_pdo_runtime motion_server_default], expected_wkc = 2,
      wkc = 0, times = no_times, outputs_sent = False, processdata_prepared = False, connected = True,
      bus_state = Operational, lifecycle_events = []\<rparr>"

definition still_device :: "unit device_update" where
  "still_device d od = (None, d, od)"

definition demo_sends :: "ObjectDictionaryEntry \<Rightarrow> bool" where
  "demo_sends obj \<longleftrightarrow>
     (case od_field obj of
        None \<Rightarrow> byte_length obj = Inr (int 1)
      | Some f \<Rightarrow>
          list_all (\<lambda>o'. obj_key o' \<noteq> obj_key obj) (rx_objects motion_server_default) \<and>
          od_index obj \<noteq> 0 \<and>
          (case read_od demo_od (od_index obj) (Some (od_subindex obj)) of
             Inr (PInt i) \<Rightarrow>
               (case map_of DATA_TYPE_FORMATS (od_data_type obj) of
                  Some fm \<Rightarrow> fm \<noteq> F_bool \<and> fm \<noteq> F_f \<and> in_range fm i \<and>
                    pi_values (TxPDO motion_server_default) f = Some (PInt i)
                | None \<Rightarrow> False)
           | _ \<Rightarrow> False))"

lemma demo_sends_sends:
  assumes "demo_sends obj" and w: "bus_written (rx_objects motion_server_default) vs demo_od od"
  shows "sends od (pi_values (TxPDO motion_server_default)) obj"
proof (cases "od_field obj")
  case None
  with assms(1) show ?thesis unfolding sends_def demo_sends_def by fastforce
next
  case (Some f)
  obtain i fm where
    k: "list_all (\<lambda>o'. obj_key o' \<noteq> obj_key obj) (rx_objects motion_server_default)"
    and i: "od_index obj \<noteq> 0" "read_od demo_od (od_index obj) (Some (od_subindex obj)) = Inr (PInt i)"
      "map_of DATA_TYPE_FORMATS (od_data_type obj) = Some fm" "fm \<noteq> F_bool" "fm \<noteq> F_f" "in_range fm i"
      "pi_values (TxPDO motion_server_default) f = Some (PInt i)"
    using assms(1) Some by (simp add: demo_sends_def split: sum.splits pyval.splits option.splits)
  have "\<forall>o' \<in> set (rx_objects motion_server_default). od_field o' \<noteq> None \<longrightarrow>
      obj_key o' \<noteq> storage_key (od_index obj) (Some (od_subindex obj))"
    using k unfolding list_all_iff storage_key_def by simp
  with w have "read_od od (od_index obj) (Some (od_subindex obj)) = Inr (PInt i)"
    using i(2) unfolding bus_written_def by simp
  with Some i show ?thesis by (simp add: sends_def int_of_value_def)
qed

lemma demo_slave_ready: "slave_ready still_device demo_slave (new_pdo_runtime motion_server_default)"
proof -
  let ?rx = "rxpdo_items motion_server_default" and ?tx = "tx_objects motion_server_default"
  let ?s = "new_pdo_runtime motion_server_default"
  have "list_all (\<lambda>x. case x of PdoPadding _ \<Rightarrow> True
      | PdoRole r \<Rightarrow> in_type_range (pr_data_type r) (pi_values (rxpdo ?s) (pr_role r)) \<and>
          has_entry demo_od (pr_index r) (Some (pr_subindex r))) ?rx" by code_simp
  then have rx: "\<forall>r. PdoRole r \<in> set ?rx \<longrightarrow>
      in_type_range (pr_data_type r) (pi_values (rxpdo ?s) (pr_role r)) \<and>
      has_entry demo_od (pr_index r) (Some (pr_subindex r))"
    unfolding list_all_iff by fastforce
  have "list_all demo_sends ?tx" by code_simp
  then have tx: "\<forall>obj \<in> set ?tx. sends od (pi_values (TxPDO motion_server_default)) obj"
    if "bus_written (rx_objects motion_server_default) vs demo_od od" for od vs
    using demo_sends_sends [OF _ that] unfolding list_all_iff by blast
  have conf: "(''motion_server_default'', motion_server_default) \<in> set CMMT_PDO_CONFIGURATIONS"
    by (simp add: CMMT_PDO_CONFIGURATIONS_def)
  have m: "pi_mapping (rxpdo ?s) = rx_objects motion_server_default" "pi_mapping (txpdo ?s) = ?tx"
    by (simp_all add: new_pdo_runtime_def RxPDO_def TxPDO_def new_image_def reset_values_def
        reset_mapped_values_def rx_objects_def tx_objects_def)
  have d: "slave_conf demo_slave = motion_server_default" "device_od demo_slave = demo_od"
    by (simp_all add: demo_slave_def)
  show ?thesis
    unfolding slave_ready_def d m still_device_def using conf rx tx by blast
qed

theorem process_data_cycle_witness:
  "\<exists>m'. bindS (prepare_processdata (\<lambda>_. []) 0 0) (\<lambda>_. bindS (send_processdata 0 0 0 0)
      (\<lambda>_. receive_processdata (\<lambda>_. []) still_device 0 0)) demo_master = (Inr 2, m') \<and> phase m' = Idle"
proof -
  have "connected demo_master" "phase demo_master = Idle"
    "list_all2 (slave_ready still_device) (endpoints demo_master) (slaves demo_master)"
    "expected_wkc demo_master = 2"
    using demo_slave_ready by (simp_all add: demo_master_def phase_def)
  with process_data_cycle [of demo_master still_device "\<lambda>_. []" 0 0 0 0 0 0 0 0] show ?thesis by auto
qed

end
