(* ===== verification/Cmmt_Profile.thy ===== *)
theory Cmmt_Profile
  imports Mock_Master
begin

section \<open>The CMMT device profile\<close>

text \<open>
  Models \<^verbatim>\<open>device/cmmt/required_non_pdo_od.py\<close>, \<^verbatim>\<open>device/cmmt/non_pdo_configuration.py\<close> and the
  operations of \<^verbatim>\<open>device/cmmt/profile.py\<close> on the bus: preparing the process image of a drive
  (identity, catalogue, writing and verifying the PDO mapping), its settings and limits, mode,
  parameter saving and restart. The ESI catalogue is an argument; messages and the texts of
  drive errors are not modelled. The lemmas show that preparing succeeds on a drive that has
  the mapping objects and leaves the master's images mapped as configured, and that settings read back as
  written.
\<close>

subsection \<open>Required objects and configured values\<close>

definition od_role :: "string \<Rightarrow> int \<Rightarrow> int \<Rightarrow> string \<Rightarrow> string \<Rightarrow> string \<Rightarrow> required_od" where
  "od_role role index subindex name data_type access =
     \<lparr>ro_role = role, ro_index = index, ro_subindex = subindex, ro_name = name,
      ro_data_type = data_type, ro_access = access\<rparr>"

definition required_od_units_and_limits :: "required_od list" where
  "required_od_units_and_limits =
     [od_role ''user_position_unit'' 0x216E 1 ''User unit position'' ''uint16'' ''ro'',
      od_role ''converting_unit_position'' 0x2194 1 ''Resolution position'' ''int8'' ''ro'',
      od_role ''converting_unit_velocity'' 0x2194 2 ''Resolution velocity'' ''int8'' ''ro'',
      od_role ''converting_unit_acceleration'' 0x2194 3 ''Resolution acceleration'' ''int8'' ''ro'',
      od_role ''converting_unit_jerk'' 0x2194 4 ''Resolution jerk'' ''int8'' ''ro'',
      od_role ''software_position_limit_negative'' 0x607D 1 ''Minimum position limit'' ''int32'' ''rw'',
      od_role ''software_position_limit_positive'' 0x607D 2 ''Maximum position limit'' ''int32'' ''rw'',
      od_role ''position_window'' 0x6067 0 ''Position window'' ''uint32'' ''rw'',
      od_role ''position_window_time'' 0x6068 0 ''Position window time'' ''uint16'' ''rw'',
      od_role ''max_profile_velocity'' 0x607F 0 ''Max profile velocity'' ''uint32'' ''rw'',
      od_role ''negative_velocity_limit'' 0x2183 12 ''Limit value velocity limit negative direction of movement'' ''float32'' ''rw'',
      od_role ''profile_acceleration'' 0x6083 0 ''Profile acceleration'' ''uint32'' ''rw'',
      od_role ''profile_deceleration'' 0x6084 0 ''Profile deceleration'' ''uint32'' ''rw'',
      od_role ''homing_method'' 0x6098 0 ''Homing method'' ''int8'' ''rw'']"

definition required_od_device :: "required_od list" where
  "required_od_device =
     [od_role ''homing_speed_search_switch'' 0x6099 1 ''Speed during search for switch'' ''uint32'' ''rw'',
      od_role ''homing_speed_search_zero'' 0x6099 2 ''Speed during search for zero'' ''uint32'' ''rw'',
      od_role ''homing_acceleration'' 0x609A 0 ''Homing acceleration'' ''uint32'' ''rw'',
      od_role ''max_acceleration'' 0x60C5 0 ''Max acceleration'' ''uint32'' ''rw'',
      od_role ''max_deceleration'' 0x60C6 0 ''Max deceleration'' ''uint32'' ''rw'',
      od_role ''pp_jerk'' 0x60A4 1 ''Jerk'' ''uint32'' ''rw'',
      od_role ''csp_interpolation_mode'' 0x217B 13 ''CSP interpolation mode'' ''uint32'' ''rw'',
      od_role ''sync_mode'' 0x212E 1 ''Synchronisation mode'' ''uint16'' ''rw'',
      od_role ''sync_cycle_time'' 0x212E 2 ''Cycle time'' ''float32'' ''rw'',
      od_role ''sync_interpolation_time'' 0x212E 9 ''Interpolation time'' ''float32'' ''rw'',
      od_role ''output_sync_manager_synchronization_type'' 0x1C32 1 ''Output sync manager synchronization type'' ''uint16'' ''rw'',
      od_role ''output_sync_manager_cycle_time'' 0x1C32 2 ''Output sync manager cycle time'' ''uint32'' ''rw'',
      od_role ''device_reset_command'' 0x2000 1 ''Reset device control'' ''uint8'' ''rw'',
      od_role ''parameter_save_command'' 0x2005 1 ''Save parameter set control'' ''uint8'' ''rw'',
      od_role ''parameter_save_status'' 0x2005 2 ''Save parameter set status'' ''uint8'' ''ro'',
      od_role ''parameter_save_selection'' 0x2005 3 ''Save parameter set selection'' ''uint16'' ''rw'',
      od_role ''parameter_save_return_code'' 0x2005 4 ''Save parameter set return code'' ''uint16'' ''ro'',
      od_role ''parameter_save_return_value'' 0x2005 5 ''Save parameter set return value'' ''uint16'' ''ro'',
      od_role ''error_code'' 0x2145 12 ''CMMT most serious error'' ''uint32'' ''ro'']"

definition CMMT_REQUIRED_NON_PDO_OD :: "required_od list" where
  "CMMT_REQUIRED_NON_PDO_OD = required_od_units_and_limits @ required_od_device"

definition required_non_pdo_od :: "string \<Rightarrow> required_od res" where
  "required_non_pdo_od role =
     (case find (\<lambda>r. ro_role r = role) CMMT_REQUIRED_NON_PDO_OD of
        Some r \<Rightarrow> Inr r | None \<Rightarrow> Inl KeyError)"

definition linear_mm :: "((int \<times> int) \<times> pyval) list" where
  "linear_mm =
     [((0x216E, 1), PInt 256),
      ((0x2194, 1), PInt 6),
      ((0x2194, 2), PInt 3),
      ((0x2194, 3), PInt 3),
      ((0x2194, 4), PInt 3),
      ((0x607D, 1), PInt (- 1000000)),
      ((0x607D, 2), PInt 1000000),
      ((0x6067, 0), PInt 20),
      ((0x6068, 0), PInt 20),
      ((0x607F, 0), PInt 200),
      ((0x2183, 12), PFloat (- 0.2)),
      ((0x6083, 0), PInt 1000),
      ((0x6084, 0), PInt 1000),
      ((0x6098, 0), PInt 37),
      ((0x6099, 1), PInt 100),
      ((0x6099, 2), PInt 50),
      ((0x609A, 0), PInt 100),
      ((0x60C5, 0), PInt 2000),
      ((0x60C6, 0), PInt 2000),
      ((0x60A4, 1), PInt 100000)]"

definition rotary_deg :: "((int \<times> int) \<times> pyval) list" where
  "rotary_deg =
     [((0x216E, 1), PInt 16640),
      ((0x2194, 1), PInt 6),
      ((0x2194, 2), PInt 3),
      ((0x2194, 3), PInt 3),
      ((0x2194, 4), PInt 3),
      ((0x607D, 1), PInt (- 180000000)),
      ((0x607D, 2), PInt 180000000),
      ((0x6067, 0), PInt 20000),
      ((0x6068, 0), PInt 20),
      ((0x607F, 0), PInt 200000),
      ((0x2183, 12), PFloat (- 200)),
      ((0x6083, 0), PInt 1000000),
      ((0x6084, 0), PInt 1000000),
      ((0x6098, 0), PInt 37),
      ((0x6099, 1), PInt 100000),
      ((0x6099, 2), PInt 50000),
      ((0x609A, 0), PInt 100000),
      ((0x60C5, 0), PInt 2000000),
      ((0x60C6, 0), PInt 2000000),
      ((0x60A4, 1), PInt 100000000)]"

definition CMMT_NON_PDO_CONFIGURATIONS :: "(string \<times> ((int \<times> int) \<times> pyval) list) list" where
  "CMMT_NON_PDO_CONFIGURATIONS = [(''linear_mm'', linear_mm), (''rotary_deg'', rotary_deg)]"

definition get_non_pdo_configuration :: "string \<Rightarrow> ((int \<times> int) \<times> pyval) list res" where
  "get_non_pdo_configuration name =
     (case map_of CMMT_NON_PDO_CONFIGURATIONS (normalize_pdo_configuration_name name) of
        Some c \<Rightarrow> Inr c | None \<Rightarrow> Inl ValueError)"

subsection \<open>Preparing the process image\<close>

record esi_catalog =
  esi_product_code :: int
  esi_objects :: "((int \<times> int) \<times> catalog_entry) list"

definition validate_identity :: "esi_catalog option \<Rightarrow> nat \<Rightarrow> ('d MockMaster, exn, unit) op" where
  "validate_identity cat i =
     (case cat of
        None \<Rightarrow> retS ()
      | Some c \<Rightarrow>
          bindS require_connected (\<lambda>_. liftE (\<lambda>m.
            case slave_product_code (endpoints m ! i) of
              None \<Rightarrow> Inl (Exn CDeviceIdentityMismatch [])
            | Some actual \<Rightarrow>
                if actual \<noteq> esi_product_code c then Inl (Exn CDeviceIdentityMismatch []) else Inr ())))"

definition validate_catalog_od_role :: "esi_catalog \<Rightarrow> int \<Rightarrow> int \<Rightarrow> int \<Rightarrow> unit res" where
  "validate_catalog_od_role c index subindex bits =
     (case map_of (esi_objects c) (index, subindex) of
        None \<Rightarrow> Inl RuntimeError
      | Some ce \<Rightarrow> if ce_bit_size ce \<noteq> bits then Inl RuntimeError else Inr ())"

definition validate_catalog_support :: "esi_catalog option \<Rightarrow> CMMTPdoConfiguration \<Rightarrow> unit res" where
  "validate_catalog_support cat conf =
     (case cat of
        None \<Rightarrow> Inr ()
      | Some c \<Rightarrow>
          bindE (mapE (\<lambda>r. bindE (bit_length (object_entry r))
                    (validate_catalog_od_role c (pr_index r) (pr_subindex r))) (od_roles conf)) (\<lambda>_.
          bindE (mapE (\<lambda>r. bindE (expected_data_type_bits (ro_data_type r))
                    (validate_catalog_od_role c (ro_index r) (ro_subindex r)))
                  CMMT_REQUIRED_NON_PDO_OD) (\<lambda>_. Inr ())))"

definition write_pdo_mapping ::
  "'d device_update \<Rightarrow> int \<Rightarrow> int \<Rightarrow> int \<Rightarrow> int list \<Rightarrow> ('d MockMaster, exn, unit) op" where
  "write_pdo_mapping upd slave assignment pdo entries =
     bindS (sdo_write_int F_B upd slave assignment 0 0) (\<lambda>_.
     bindS (sdo_write_int F_B upd slave pdo 0 0) (\<lambda>_.
     bindS (forS (enumerate 1 entries)
              (\<lambda>(sub, entry). sdo_write_int F_I upd slave pdo (int sub) entry)) (\<lambda>_.
     bindS (sdo_write_int F_B upd slave pdo 0 (int (length entries))) (\<lambda>_.
     bindS (sdo_write_int F_H upd slave assignment 1 pdo) (\<lambda>_.
       sdo_write_int F_B upd slave assignment 0 1)))))"

definition is_pdo_padding_entry :: "int \<Rightarrow> bool" where
  "is_pdo_padding_entry entry \<longleftrightarrow>
     drop_bit 16 entry AND 0xFFFF < 0x0010 \<and> drop_bit 8 entry AND 0xFF = 0 \<and> entry AND 0xFF > 0"

definition normalized_pdo_mapping_entries :: "int list \<Rightarrow> int list" where
  "normalized_pdo_mapping_entries entries =
     map (\<lambda>entry. if is_pdo_padding_entry entry then entry AND 0xFF else entry) entries"

definition validate_pdo_mapping :: "int list \<Rightarrow> int list \<Rightarrow> unit res" where
  "validate_pdo_mapping expected actual =
     (if normalized_pdo_mapping_entries actual = normalized_pdo_mapping_entries expected then Inr ()
      else Inl RuntimeError)"

definition on_rxpdo :: "nat \<Rightarrow> (pdo_image, exn, unit) op \<Rightarrow> ('d MockMaster, exn, unit) op" where
  "on_rxpdo i f m =
     (case f (rxpdo (slaves m ! i)) of
        (r, im) \<Rightarrow> (r, m\<lparr>slaves := (slaves m)[i := (slaves m ! i)\<lparr>rxpdo := im\<rparr>]\<rparr>))"

definition on_txpdo :: "nat \<Rightarrow> (pdo_image, exn, unit) op \<Rightarrow> ('d MockMaster, exn, unit) op" where
  "on_txpdo i f m =
     (case f (txpdo (slaves m ! i)) of
        (r, im) \<Rightarrow> (r, m\<lparr>slaves := (slaves m)[i := (slaves m ! i)\<lparr>txpdo := im\<rparr>]\<rparr>))"

definition prepare_process_image ::
  "(pyval \<Rightarrow> string) \<Rightarrow> 'd device_update \<Rightarrow> (nat \<Rightarrow> esi_catalog option) \<Rightarrow> (nat \<Rightarrow> CMMTPdoConfiguration)
   \<Rightarrow> nat \<Rightarrow> ('d MockMaster, exn, unit) op" where
  "prepare_process_image pstr upd cats confs i =
     bindS (validate_identity (cats i) i) (\<lambda>_.
     bindS (liftE (\<lambda>_. validate_catalog_support (cats i) (confs i))) (\<lambda>_.
     bindS (liftE (\<lambda>_. cmmt_mapping_entries (rxpdo_items (confs i)))) (\<lambda>expected_rxpdo.
     bindS (liftE (\<lambda>_. cmmt_mapping_entries (txpdo_items (confs i)))) (\<lambda>expected_txpdo.
     bindS (write_pdo_mapping upd (int i) 0x1C12 0x1600 expected_rxpdo) (\<lambda>_.
     bindS (write_pdo_mapping upd (int i) 0x1C13 0x1A00 expected_txpdo) (\<lambda>_.
     bindS (liftE (read_assigned_pdo_mapping_entries pstr (int i) 0x1C12)) (\<lambda>actual_rxpdo.
     bindS (liftE (read_assigned_pdo_mapping_entries pstr (int i) 0x1C13)) (\<lambda>actual_txpdo.
     bindS (liftE (\<lambda>_. validate_pdo_mapping expected_rxpdo actual_rxpdo)) (\<lambda>_.
     bindS (liftE (\<lambda>_. validate_pdo_mapping expected_txpdo actual_txpdo)) (\<lambda>_.
     bindS (on_rxpdo i (select_mapping actual_rxpdo)) (\<lambda>_.
       on_txpdo i (select_mapping actual_txpdo))))))))))))"

subsection \<open>Settings of a drive\<close>

definition sdo_write_float ::
  "'d device_update \<Rightarrow> int \<Rightarrow> int \<Rightarrow> int \<Rightarrow> real \<Rightarrow> ('d MockMaster, exn, unit) op" where
  "sdo_write_float upd slave index subindex x =
     bindS (liftE (\<lambda>_. struct_pack F_f (PFloat x)))
       (\<lambda>payload. master_write_sdo upd slave index subindex payload)"

definition sdo_read_float ::
  "(pyval \<Rightarrow> string) \<Rightarrow> int \<Rightarrow> int \<Rightarrow> int \<Rightarrow> 'd MockMaster \<Rightarrow> pyval res" where
  "sdo_read_float pstr slave index subindex m =
     bindE (master_read_sdo pstr slave index subindex 4 m) (\<lambda>payload.
       if length payload < 4 then Inl (DeviceAccessException (Some ''sdo_read_short_payload''))
       else struct_unpack F_f (take 4 payload))"

definition mode_code :: "string \<Rightarrow> int res" where
  "mode_code name =
     (case map_of [(''homing'', 6), (''pp'', 1), (''pv'', 3), (''jog'', - 3), (''csp'', 8)] name of
        Some c \<Rightarrow> Inr c | None \<Rightarrow> Inl KeyError)"

definition configure_mode_code :: "'d device_update \<Rightarrow> nat \<Rightarrow> int \<Rightarrow> ('d MockMaster, exn, unit) op" where
  "configure_mode_code upd i code =
     bindS (sdo_write_int F_b upd (int i) 0x6060 0 code) (\<lambda>_.
       on_rxpdo i (\<lambda>im. (Inr (), im\<lparr>pi_values := (pi_values im)(''mode_of_operation'' \<mapsto> PInt code)\<rparr>)))"

definition write_csp_interpolation_mode ::
  "(pyval \<Rightarrow> string) \<Rightarrow> 'd device_update \<Rightarrow> nat \<Rightarrow> int \<Rightarrow> ('d MockMaster, exn, int) op" where
  "write_csp_interpolation_mode pstr upd i v =
     bindS (sdo_write_int F_I upd (int i) 0x217B 0x0D v)
       (\<lambda>_. liftE (sdo_read_int F_I pstr (int i) 0x217B 0x0D))"

definition write_profile_settings ::
  "'d device_update \<Rightarrow> nat \<Rightarrow> real \<Rightarrow> real \<Rightarrow> real \<Rightarrow> ('d MockMaster, exn, unit) op" where
  "write_profile_settings upd i velocity acceleration deceleration =
     bindS (sdo_write_int F_I upd (int i) 0x6081 0 (max 0 (py_int velocity))) (\<lambda>_.
     bindS (sdo_write_int F_I upd (int i) 0x6083 0 (max 0 (py_int acceleration))) (\<lambda>_.
       sdo_write_int F_I upd (int i) 0x6084 0 (max 0 (py_int deceleration))))"

definition write_profile_jerk :: "'d device_update \<Rightarrow> nat \<Rightarrow> real \<Rightarrow> ('d MockMaster, exn, unit) op" where
  "write_profile_jerk upd i jerk = sdo_write_int F_I upd (int i) 0x60A4 1 (max 0 (py_int jerk))"

definition read_profile_settings ::
  "(pyval \<Rightarrow> string) \<Rightarrow> nat \<Rightarrow> 'd MockMaster \<Rightarrow> real list res" where
  "read_profile_settings pstr i m =
     mapE (\<lambda>(index, sub). bindE (sdo_read_int F_I pstr (int i) index sub m) (\<lambda>v. Inr (of_int v)))
       [(0x6081, 0), (0x6083, 0), (0x6084, 0), (0x60A4, 1)]"

definition write_motion_limits ::
  "'d device_update \<Rightarrow> nat \<Rightarrow> real \<Rightarrow> real \<Rightarrow> real \<Rightarrow> real \<Rightarrow> ('d MockMaster, exn, unit) op" where
  "write_motion_limits upd i positive negative acceleration deceleration =
     bindS (sdo_write_int F_I upd (int i) 0x607F 0 (max 0 (py_int positive))) (\<lambda>_.
     bindS (sdo_write_float upd (int i) 0x2183 0x0C (negative / 1000)) (\<lambda>_.
     bindS (sdo_write_int F_I upd (int i) 0x60C5 0 (max 0 (py_int acceleration))) (\<lambda>_.
       sdo_write_int F_I upd (int i) 0x60C6 0 (max 0 (py_int deceleration)))))"

definition read_motion_limits ::
  "(pyval \<Rightarrow> string) \<Rightarrow> nat \<Rightarrow> 'd MockMaster \<Rightarrow> pyval list res" where
  "read_motion_limits pstr i m =
     bindE (sdo_read_int F_I pstr (int i) 0x607F 0 m) (\<lambda>positive.
     bindE (sdo_read_float pstr (int i) 0x2183 0x0C m) (\<lambda>negative.
     bindE (sdo_read_int F_I pstr (int i) 0x60C5 0 m) (\<lambda>acceleration.
     bindE (sdo_read_int F_I pstr (int i) 0x60C6 0 m) (\<lambda>deceleration.
       Inr [PFloat (of_int positive),
            (case negative of PFloat x \<Rightarrow> PFloat (x * 1000) | other \<Rightarrow> other),
            PFloat (of_int acceleration), PFloat (of_int deceleration)]))))"

definition read_software_position_limits ::
  "(pyval \<Rightarrow> string) \<Rightarrow> nat \<Rightarrow> 'd MockMaster \<Rightarrow> int list res" where
  "read_software_position_limits pstr i m =
     mapE (\<lambda>sub. sdo_read_int F_i pstr (int i) 0x607D sub m) [1, 2]"

definition write_software_position_limits ::
  "'d device_update \<Rightarrow> nat \<Rightarrow> int \<Rightarrow> int \<Rightarrow> ('d MockMaster, exn, unit) op" where
  "write_software_position_limits upd i negative positive =
     bindS (sdo_write_int F_i upd (int i) 0x607D 1 negative) (\<lambda>_.
       sdo_write_int F_i upd (int i) 0x607D 2 positive)"

definition configure_sync_parameters ::
  "'d device_update \<Rightarrow> nat \<Rightarrow> int option \<Rightarrow> real \<Rightarrow> ('d MockMaster, exn, bool) op" where
  "configure_sync_parameters upd i mode cycle_time =
     (case mode of
        None \<Rightarrow> retS False
      | Some v \<Rightarrow>
          bindS (sdo_write_int F_H upd (int i) 0x212E 1 v) (\<lambda>_.
          bindS (sdo_write_float upd (int i) 0x212E 2 cycle_time) (\<lambda>_.
          bindS (sdo_write_float upd (int i) 0x212E 9 cycle_time) (\<lambda>_. retS True))))"

definition read_user_unit_position :: "(pyval \<Rightarrow> string) \<Rightarrow> nat \<Rightarrow> 'd MockMaster \<Rightarrow> int res" where
  "read_user_unit_position pstr i m = sdo_read_int F_H pstr (int i) 0x216E 1 m"

text \<open>A resolution that cannot be read is replaced by its default.\<close>

definition read_converting_unit_exponents ::
  "(pyval \<Rightarrow> string) \<Rightarrow> nat \<Rightarrow> 'd MockMaster \<Rightarrow> int list" where
  "read_converting_unit_exponents pstr i m =
     map (\<lambda>(sub, default_exponent).
        case sdo_read_int F_b pstr (int i) 0x2194 sub m of Inr v \<Rightarrow> v | Inl _ \<Rightarrow> default_exponent)
       [(1, 6), (2, 3), (3, 3), (4, 3)]"

text \<open>\<open>save_parameters\<close>: the command bit is cleared whether or not saving worked; an exception of
  the clearing replaces an earlier one.\<close>

definition save_parameters ::
  "(pyval \<Rightarrow> string) \<Rightarrow> 'd device_update \<Rightarrow> nat \<Rightarrow> ('d MockMaster, exn, int \<times> int \<times> int) op" where
  "save_parameters pstr upd i =
     bindS (sdo_write_int F_H upd (int i) 0x2005 3 1) (\<lambda>_ m.
       case bindS (sdo_write_int F_B upd (int i) 0x2005 1 1) (\<lambda>_.
            bindS (liftE (sdo_read_int F_B pstr (int i) 0x2005 2)) (\<lambda>st.
            bindS (liftE (sdo_read_int F_H pstr (int i) 0x2005 4)) (\<lambda>code.
            bindS (liftE (sdo_read_int F_H pstr (int i) 0x2005 5)) (\<lambda>v. retS (st, code, v))))) m of
         (r, m1) \<Rightarrow>
           (case sdo_write_int F_B upd (int i) 0x2005 1 0 m1 of
              (Inl e, m2) \<Rightarrow> (Inl e, m2) | (Inr _, m2) \<Rightarrow> (r, m2)))"

definition write_axis_restart_command :: "'d device_update \<Rightarrow> nat \<Rightarrow> int \<Rightarrow> ('d MockMaster, exn, int) op" where
  "write_axis_restart_command upd i v =
     bindS (sdo_write_int F_B upd (int i) 0x2000 1 v) (\<lambda>_. retS v)"

definition request_axis_restart :: "'d device_update \<Rightarrow> nat \<Rightarrow> ('d MockMaster, exn, int) op" where
  "request_axis_restart upd i =
     bindS (write_axis_restart_command upd i 0) (\<lambda>_. write_axis_restart_command upd i 1)"

definition clear_axis_restart_request :: "'d device_update \<Rightarrow> nat \<Rightarrow> ('d MockMaster, exn, int) op" where
  "clear_axis_restart_request upd i = write_axis_restart_command upd i 0"

subsection \<open>Preparing does not touch the cycle\<close>

definition keeps_cycle :: "('d MockMaster, exn, 'a) op \<Rightarrow> bool" where
  "keeps_cycle f \<longleftrightarrow> (\<forall>m. bookkeeping (snd (f m)) = bookkeeping m)"

lemma keeps_cycle_bindS: "keeps_cycle f \<Longrightarrow> (\<And>a. keeps_cycle (g a)) \<Longrightarrow> keeps_cycle (bindS f g)"
  unfolding keeps_cycle_def
proof
  fix m assume f: "\<forall>m. bookkeeping (snd (f m)) = bookkeeping m"
    and g: "\<And>a. \<forall>m. bookkeeping (snd (g a m)) = bookkeeping m"
  obtain r t where "f m = (r, t)" by fastforce
  moreover from this f have "bookkeeping t = bookkeeping m" by (metis snd_conv)
  ultimately show "bookkeeping (snd (bindS f g m)) = bookkeeping m"
    using g by (cases r) simp_all
qed

lemma keeps_cycle_prims:
  "keeps_cycle (retS a)" "keeps_cycle (liftE h)" "keeps_cycle require_connected"
  "keeps_cycle (sdo_write_int fm upd k i j v)"
proof -
  show "keeps_cycle (retS a)" "keeps_cycle (liftE h)" "keeps_cycle require_connected"
    by (simp_all add: keeps_cycle_def retS_def liftE_def require_connected_def)
  show "keeps_cycle (sdo_write_int fm upd k i j v)"
    unfolding sdo_write_int_def
    by (rule keeps_cycle_bindS) (simp_all add: keeps_cycle_def liftE_def write_sdo_bookkeeping)
qed

lemma keeps_cycle_forS: "(\<And>x. keeps_cycle (f x)) \<Longrightarrow> keeps_cycle (forS xs f)"
  by (induction xs) (simp_all add: keeps_cycle_bindS keeps_cycle_prims)

lemma keeps_cycle_images: "keeps_cycle (on_rxpdo i f)" "keeps_cycle (on_txpdo i f)"
  by (simp_all add: keeps_cycle_def on_rxpdo_def on_txpdo_def bookkeeping_def map_update_same
      split: prod.split)

lemmas keeps_cycle_rules = keeps_cycle_bindS keeps_cycle_prims keeps_cycle_forS keeps_cycle_images

lemma write_pdo_mapping_keeps: "keeps_cycle (write_pdo_mapping upd k a p es)"
  unfolding write_pdo_mapping_def
  by (intro keeps_cycle_rules) (simp add: keeps_cycle_prims split: prod.split)

lemma validate_identity_keeps: "keeps_cycle (validate_identity cat i)"
  by (cases cat) (simp_all add: validate_identity_def keeps_cycle_rules)

lemma prepare_process_image_keeps: "keeps_cycle (prepare_process_image pstr upd cats confs i)"
  unfolding prepare_process_image_def
  by (intro keeps_cycle_rules write_pdo_mapping_keeps validate_identity_keeps)

interpretation cmmt_bus: bus_profiles "prepare_process_image pstr upd cats confs" for pstr upd cats confs
  by unfold_locales (simp add: prepare_process_image_keeps [unfolded keeps_cycle_def])

subsection \<open>SDO access through the master\<close>

text \<open>A device that, whatever its dictionary, updates without an exception and leaves the objects
  of a set alone.\<close>

definition leaves_alone :: "'d device_update \<Rightarrow> (int \<times> int) set \<Rightarrow> bool" where
  "leaves_alone upd K \<longleftrightarrow>
     (\<forall>d od. fst (upd d od) = None \<and>
        (\<forall>k \<in> K. map_of (od_entries (snd (snd (upd d od)))) k = map_of (od_entries od) k))"

abbreviation object_at :: "'d MockMaster \<Rightarrow> nat \<Rightarrow> int \<times> int \<Rightarrow> VirtualOdEntry option" where
  "object_at m i k \<equiv> map_of (od_entries (device_od (endpoints m ! i))) k"

definition writable :: "struct_format \<Rightarrow> VirtualOdEntry option \<Rightarrow> bool" where
  "writable fm x \<longleftrightarrow>
     (case x of None \<Rightarrow> False
      | Some en \<Rightarrow>
          map_of DATA_TYPE_FORMATS (normalize_od_data_type (vd_data_type (ve_definition en))) = Some fm \<and>
          fm \<noteq> F_bool \<and> fm \<noteq> F_f \<and> lower (vd_access (ve_definition en)) \<noteq> ''ro'')"

definition same_master :: "'d MockMaster \<Rightarrow> 'd MockMaster \<Rightarrow> bool" where
  "same_master m m' \<longleftrightarrow>
     slaves m' = slaves m \<and> connected m' = connected m \<and> bus_state m' = bus_state m \<and>
     length (endpoints m') = length (endpoints m) \<and>
     map slave_product_code (endpoints m') = map slave_product_code (endpoints m)"

lemma same_master_trans: "same_master a b \<Longrightarrow> same_master b c \<Longrightarrow> same_master a c"
  by (simp add: same_master_def)

lemma sdo_write_int_effect:
  assumes "leaves_alone upd K" and "(idx, sub) \<in> K" and "i < length (endpoints m)"
    and "writable fm (object_at m i (idx, sub))" and "in_range fm v"
  shows "\<exists>m'. sdo_write_int fm upd (int i) idx sub v m = (Inr (), m') \<and> same_master m m' \<and>
           (\<forall>k \<in> K. object_at m' i k =
              (if k = (idx, sub) then map_option (ve_value_update (\<lambda>_. PInt v)) (object_at m i k)
               else object_at m i k))"
proof -
  let ?ep = "endpoints m ! i"
  obtain en where en: "object_at m i (idx, sub) = Some en"
    and fm: "map_of DATA_TYPE_FORMATS (normalize_od_data_type (vd_data_type (ve_definition en))) = Some fm"
      "fm \<noteq> F_bool" "fm \<noteq> F_f" and rw: "lower (vd_access (ve_definition en)) \<noteq> ''ro''"
    using assms(4) by (auto simp: writable_def split: option.splits)
  note pu = pack_unpack_integer [OF fm(2,3) assms(5)]
  define od where "od = snd (write_od idx (PInt v) (Some sub) (device_od ?ep))"
  have w: "write_od idx (PInt v) (Some sub) (device_od ?ep) = (Inr (), od)"
    and od: "map_of (od_entries od) = (map_of (od_entries (device_od ?ep)))((idx, sub) \<mapsto> en\<lparr>ve_value := PInt v\<rparr>)"
    using en by (simp_all add: od_def write_od_cases storage_key_def)
  have "bridge_write_sdo idx sub (int_le (calcsize fm) v) (device_od ?ep) = (Inr (), od)"
    using en rw pu(2) w decode_scalar [OF fm(1)]
    by (simp add: bridge_write_sdo_def bridge_definition_def od_definition_def storage_key_def bindS_def liftE_def)
  moreover obtain d od' where u: "upd (device ?ep) od = (None, d, od')"
    "\<forall>k \<in> K. map_of (od_entries od') k = map_of (od_entries od) k"
    using assms(1) unfolding leaves_alone_def by (metis prod.collapse)
  ultimately have "slave_write_sdo upd idx sub (int_le (calcsize fm) v) ?ep =
      (Inr (), ?ep\<lparr>device := d, device_od := od'\<rparr>)"
    by (simp add: slave_write_sdo_def on_od_def slave_model_update_def bindS_def)
  then have "sdo_write_int fm upd (int i) idx sub v m =
      (Inr (), m\<lparr>endpoints := (endpoints m)[i := ?ep\<lparr>device := d, device_od := od'\<rparr>]\<rparr>)"
    using assms(3) pu(1) by (simp add: sdo_write_int_def master_write_sdo_def bindS_def liftE_def py_index_def)
  moreover have "\<forall>k \<in> K. map_of (od_entries od') k =
      (if k = (idx, sub) then map_option (ve_value_update (\<lambda>_. PInt v)) (object_at m i k) else object_at m i k)"
    using u(2) od en by simp
  ultimately show ?thesis
    using assms(3) by (auto simp: same_master_def map_update_same)
qed

lemma sdo_read_int_value:
  assumes "i < length (endpoints m)" and "writable fm (object_at m i (idx, sub))" and "in_range fm v"
    and "map_option ve_value (object_at m i (idx, sub)) = Some (PInt v)"
  shows "sdo_read_int fm pstr (int i) idx sub m = Inr v"
proof -
  obtain en where en: "object_at m i (idx, sub) = Some en" "ve_value en = PInt v"
    and fm: "map_of DATA_TYPE_FORMATS (normalize_od_data_type (vd_data_type (ve_definition en))) = Some fm"
      "fm \<noteq> F_bool" "fm \<noteq> F_f"
    using assms(2,4) by (auto simp: writable_def split: option.splits)
  note pu = pack_unpack_integer [OF fm(2,3) assms(3)]
  show ?thesis
    using en fm(3) pu assms(1)
    by (simp add: sdo_read_int_def master_read_sdo_def slave_read_sdo_def bridge_read_sdo_def py_index_def
        bridge_definition_def od_definition_def read_od_def storage_key_def encode_scalar [OF fm(1)]
        int_of_value_def)
qed

text \<open>A sequence of writes: format, object and value of each.\<close>

type_synonym sdo_write_list = "(struct_format \<times> (int \<times> int) \<times> int) list"

definition sdo_writes :: "'d device_update \<Rightarrow> nat \<Rightarrow> sdo_write_list \<Rightarrow> ('d MockMaster, exn, unit) op" where
  "sdo_writes upd i ws = forS ws (\<lambda>(fm, (idx, sub), v). sdo_write_int fm upd (int i) idx sub v)"

definition last_write :: "sdo_write_list \<Rightarrow> int \<times> int \<Rightarrow> int option" where
  "last_write ws k = map_of (rev (map snd ws)) k"

definition with_writes :: "sdo_write_list \<Rightarrow> int \<times> int \<Rightarrow> VirtualOdEntry option \<Rightarrow> VirtualOdEntry option" where
  "with_writes ws k x =
     (case last_write ws k of None \<Rightarrow> x | Some v \<Rightarrow> map_option (ve_value_update (\<lambda>_. PInt v)) x)"

lemma writable_value_update [simp]:
  "writable fm (map_option (ve_value_update f) x) = writable fm x"
  by (cases x) (simp_all add: writable_def)

lemma with_writes_Cons:
  "with_writes (w # ws) k x =
   with_writes ws k (if k = fst (snd w) then map_option (ve_value_update (\<lambda>_. PInt (snd (snd w)))) x else x)"
  by (cases w) (auto simp: with_writes_def last_write_def map_add_def option.map_comp comp_def
      split: option.splits)

lemma writable_with_writes [simp]: "writable fm (with_writes ws k x) = writable fm x"
  by (simp add: with_writes_def split: option.splits)

lemma sdo_writes_effect:
  assumes "leaves_alone upd K" and "i < length (endpoints m)"
    and "\<forall>(fm, k, v) \<in> set ws. k \<in> K \<and> writable fm (object_at m i k) \<and> in_range fm v"
  shows "\<exists>m'. sdo_writes upd i ws m = (Inr (), m') \<and> same_master m m' \<and>
           (\<forall>k \<in> K. object_at m' i k = with_writes ws k (object_at m i k))"
  using assms(2,3)
proof (induction ws arbitrary: m)
  case Nil
  then show ?case
    by (simp add: sdo_writes_def retS_def same_master_def with_writes_def last_write_def)
next
  case (Cons w ws)
  obtain fm idx sub v where w: "w = (fm, (idx, sub), v)" by (metis prod.collapse)
  have "(idx, sub) \<in> K" "writable fm (object_at m i (idx, sub))" "in_range fm v"
    using Cons.prems(2) w by auto
  from sdo_write_int_effect [OF assms(1) this(1) Cons.prems(1) this(2,3)] obtain m1 where
    m1: "sdo_write_int fm upd (int i) idx sub v m = (Inr (), m1)" "same_master m m1"
    "\<And>k. k \<in> K \<Longrightarrow> object_at m1 i k =
       (if k = (idx, sub) then map_option (ve_value_update (\<lambda>_. PInt v)) (object_at m i k) else object_at m i k)"
    by blast
  have i1: "i < length (endpoints m1)" using m1(2) Cons.prems(1) by (simp add: same_master_def)
  have "\<forall>(fm, k, v) \<in> set ws. k \<in> K \<and> writable fm (object_at m1 i k) \<and> in_range fm v"
    using Cons.prems(2) m1(3) by fastforce
  from Cons.IH [OF i1 this] obtain m2 where m2: "sdo_writes upd i ws m1 = (Inr (), m2)" "same_master m1 m2"
    "\<And>k. k \<in> K \<Longrightarrow> object_at m2 i k = with_writes ws k (object_at m1 i k)" by blast
  have "sdo_writes upd i (w # ws) m = (Inr (), m2)"
    using m1(1) m2(1) w by (simp add: sdo_writes_def)
  moreover have "object_at m2 i k = with_writes (w # ws) k (object_at m i k)" if "k \<in> K" for k
    using m2(3) [OF that] m1(3) [OF that] w by (simp add: with_writes_Cons)
  ultimately show ?case using same_master_trans [OF m1(2) m2(2)] by blast
qed

lemma bindS_assoc: "bindS (bindS f g) h = bindS f (\<lambda>a. bindS (g a) h)"
  by (simp add: bindS_def fun_eq_iff split: prod.split sum.split)

lemma bindS_retS: "bindS f retS = f"
  by (simp add: bindS_def retS_def fun_eq_iff split: prod.split sum.split)

lemma forS_append_fun: "forS (xs @ ys) f = bindS (forS xs f) (\<lambda>_. forS ys f)"
  by (rule ext) (rule forS_append)

lemma forS_map: "forS (map g xs) f = forS xs (\<lambda>x. f (g x))"
  by (induction xs) simp_all

definition mapping_writes :: "int \<Rightarrow> int \<Rightarrow> int list \<Rightarrow> sdo_write_list" where
  "mapping_writes assignment pdo entries =
     [(F_B, (assignment, 0), 0), (F_B, (pdo, 0), 0)]
     @ map (\<lambda>(sub, entry). (F_I, (pdo, int sub), entry)) (enumerate 1 entries)
     @ [(F_B, (pdo, 0), int (length entries)), (F_H, (assignment, 1), pdo), (F_B, (assignment, 0), 1)]"

lemma write_pdo_mapping_writes:
  "write_pdo_mapping upd (int i) a p es = sdo_writes upd i (mapping_writes a p es)"
  by (simp add: write_pdo_mapping_def sdo_writes_def mapping_writes_def forS_append_fun forS_map
      bindS_assoc bindS_retS case_prod_unfold)

lemma map_of_rev_distinct:
  assumes "distinct (map fst xs)"
  shows "map_of (rev xs) = map_of xs"
proof -
  have "distinct (map fst (rev xs))" using assms by (simp add: rev_map [symmetric])
  then have "map_of (rev xs) k = Some v \<longleftrightarrow> map_of xs k = Some v" for k v
    using assms by (simp add: map_of_eq_Some_iff)
  then show ?thesis by (intro ext) (metis not_Some_eq)
qed

lemma last_write_mapping:
  assumes "a \<noteq> p"
  shows "last_write (mapping_writes a p es) (a, 0) = Some 1"
    and "last_write (mapping_writes a p es) (a, 1) = Some p"
    and "last_write (mapping_writes a p es) (p, 0) = Some (int (length es))"
    and "n < length es \<Longrightarrow> last_write (mapping_writes a p es) (p, 1 + int n) = Some (es ! n)"
    and "fst k \<noteq> a \<Longrightarrow> fst k \<noteq> p \<Longrightarrow> last_write (mapping_writes a p es) k = None"
proof -
  define xs where "xs = map (\<lambda>(sub, entry). ((p, int sub), entry)) (enumerate 1 es)"
  have ms: "map snd (mapping_writes a p es) = [((a, 0), 0), ((p, 0), 0)] @ xs
      @ [((p, 0), int (length es)), ((a, 1), p), ((a, 0), 1)]"
    by (simp add: mapping_writes_def xs_def comp_def case_prod_unfold)
  have "distinct (map fst xs)"
    by (simp add: xs_def comp_def case_prod_unfold distinct_map inj_on_def) (auto simp: in_set_enumerate_eq)
  note rx = map_of_rev_distinct [OF this]
  show "last_write (mapping_writes a p es) (a, 0) = Some 1"
    "last_write (mapping_writes a p es) (a, 1) = Some p"
    "last_write (mapping_writes a p es) (p, 0) = Some (int (length es))"
    using assms by (simp_all add: last_write_def ms)
  show "last_write (mapping_writes a p es) (p, 1 + int n) = Some (es ! n)" if "n < length es"
  proof -
    have "((p, 1 + int n), es ! n) \<in> set xs"
      unfolding xs_def set_map using that
      by (intro image_eqI [where x = "(Suc n, es ! n)"]) (simp_all add: in_set_enumerate_eq)
    then have "map_of xs (p, 1 + int n) = Some (es ! n)"
      using \<open>distinct (map fst xs)\<close> by (simp only: map_of_is_SomeI)
    then show ?thesis using assms by (simp add: last_write_def ms rx map_add_Some_iff)
  qed
  show "last_write (mapping_writes a p es) k = None" if "fst k \<noteq> a" "fst k \<noteq> p"
    using that by (auto simp: last_write_def mapping_writes_def map_of_eq_None_iff)
qed

subsection \<open>Writing, reading back and selecting a mapping\<close>

text \<open>A drive whose mapping objects for one direction can be written.\<close>

definition mapping_writable :: "'d MockMaster \<Rightarrow> nat \<Rightarrow> int \<Rightarrow> int \<Rightarrow> nat \<Rightarrow> bool" where
  "mapping_writable m i a p n \<longleftrightarrow>
     writable F_B (object_at m i (a, 0)) \<and> writable F_H (object_at m i (a, 1)) \<and>
     writable F_B (object_at m i (p, 0)) \<and>
     (\<forall>k < n. writable F_I (object_at m i (p, 1 + int k)))"

definition mapping_keys :: "(int \<times> int) set" where
  "mapping_keys = {0x1C12, 0x1C13, 0x1600, 0x1A00} \<times> UNIV"

lemma write_pdo_mapping_effect:
  assumes "leaves_alone upd mapping_keys" and "i < length (endpoints m)"
    and "a \<in> {0x1C12, 0x1C13}" and "p \<in> {0x1600, 0x1A00}"
    and "mapping_writable m i a p (length es)" and "\<forall>e \<in> set es. in_range F_I e" and "length es < 256"
  shows "\<exists>m'. write_pdo_mapping upd (int i) a p es m = (Inr (), m') \<and> same_master m m' \<and>
           (\<forall>k \<in> mapping_keys. object_at m' i k = with_writes (mapping_writes a p es) k (object_at m i k))"
proof -
  have r: "in_range F_B 0" "in_range F_B 1" "in_range F_H p" "in_range F_B (int (length es))"
    using assms(4,7) by (auto simp: in_range_def signed_format_def)
  let ?P = "\<lambda>(fm, k, v). k \<in> mapping_keys \<and> writable fm (object_at m i k) \<and> in_range fm v"
  have k: "(a, j) \<in> mapping_keys" "(p, j) \<in> mapping_keys" for j
    using assms(3,4) by (auto simp: mapping_keys_def)
  have "?P (F_I, (p, int n), e)" if "(n, e) \<in> set (enumerate 1 es)" for n e
  proof -
    have n: "1 \<le> n" "n - 1 < length es" "e \<in> set es" using that by (auto simp: in_set_enumerate_eq)
    then have "writable F_I (object_at m i (p, 1 + int (n - 1)))"
      using assms(5) unfolding mapping_writable_def by blast
    moreover have "1 + int (n - 1) = int n" using n(1) by simp
    ultimately show ?thesis using k assms(6) n(3) by simp
  qed
  then have "\<forall>w \<in> set (mapping_writes a p es). ?P w"
    using r k assms(5) by (auto simp: mapping_writes_def mapping_writable_def)
  from sdo_writes_effect [OF assms(1,2) this] show ?thesis by (simp add: write_pdo_mapping_writes)
qed

definition holds_mapping :: "'d MockMaster \<Rightarrow> nat \<Rightarrow> int \<Rightarrow> int \<Rightarrow> int list \<Rightarrow> bool" where
  "holds_mapping m i a p es \<longleftrightarrow>
     mapping_writable m i a p (length es) \<and>
     map_option ve_value (object_at m i (a, 0)) = Some (PInt 1) \<and>
     map_option ve_value (object_at m i (a, 1)) = Some (PInt p) \<and>
     map_option ve_value (object_at m i (p, 0)) = Some (PInt (int (length es))) \<and>
     (\<forall>n < length es. map_option ve_value (object_at m i (p, 1 + int n)) = Some (PInt (es ! n)))"

lemma writable_value_known:
  "writable fm x \<Longrightarrow> last_write ws k = Some v \<Longrightarrow> map_option ve_value (with_writes ws k x) = Some (PInt v)"
  by (cases x) (simp_all add: with_writes_def writable_def)

lemma written_mapping_held:
  assumes "a \<noteq> p" and "(a, 0) \<in> K" and "(a, 1) \<in> K" and "\<forall>j. (p, j) \<in> K"
    and "mapping_writable m i a p (length es)"
    and obj: "\<forall>k \<in> K. object_at m' i k = with_writes (mapping_writes a p es) k (object_at m i k)"
  shows "holds_mapping m' i a p es"
proof -
  note lw = last_write_mapping [OF assms(1), where es = es]
  have "writable F_I (object_at m i (p, 1 + int n))" if "n < length es" for n
    using assms(5) that by (simp add: mapping_writable_def)
  then have "map_option ve_value (object_at m' i (p, 1 + int n)) = Some (PInt (es ! n))"
    if "n < length es" for n
    using that obj assms(4) lw(4) writable_value_known by metis
  moreover have "map_option ve_value (object_at m' i (a, 0)) = Some (PInt 1)"
    "map_option ve_value (object_at m' i (a, 1)) = Some (PInt p)"
    "map_option ve_value (object_at m' i (p, 0)) = Some (PInt (int (length es)))"
    using assms(2-5) obj lw(1-3) writable_value_known unfolding mapping_writable_def by metis+
  moreover have "mapping_writable m' i a p (length es)"
    using assms(2-5) obj by (simp add: mapping_writable_def)
  ultimately show ?thesis by (simp add: holds_mapping_def)
qed

lemma read_mapping_back:
  assumes "holds_mapping m i a p es" and "i < length (endpoints m)" and "in_range F_H p"
    and "\<forall>e \<in> set es. in_range F_I e" and "length es < 256"
  shows "read_assigned_pdo_mapping_entries pstr (int i) a m = Inr es"
proof -
  note w = assms(1) [unfolded holds_mapping_def mapping_writable_def]
  have "sdo_read_int F_B pstr (int i) a 0 m = Inr 1" "sdo_read_int F_H pstr (int i) a 1 m = Inr p"
    "sdo_read_int F_B pstr (int i) p 0 m = Inr (int (length es))"
    using w assms(2,3,5) by (auto intro!: sdo_read_int_value simp: in_range_def signed_format_def)
  moreover have "sdo_read_int F_I pstr (int i) p j m = Inr (es ! nat (j - 1))" if "j \<in> set [1..int (length es)]" for j
  proof -
    have n: "nat (j - 1) < length es" "1 + int (nat (j - 1)) = j" using that by auto
    then have "writable F_I (object_at m i (p, j))" "map_option ve_value (object_at m i (p, j)) = Some (PInt (es ! nat (j - 1)))"
      using w by metis+
    with n assms(2,4) show ?thesis by (intro sdo_read_int_value) simp_all
  qed
  then have "mapE (\<lambda>j. sdo_read_int F_I pstr (int i) p j m) [1..int (length es)] =
      Inr (map (\<lambda>j. es ! nat (j - 1)) [1..int (length es)])" by (intro mapE_total) blast
  moreover have "map (\<lambda>j. es ! nat (j - 1)) [1..int (length es)] = es"
    by (rule nth_equalityI) simp_all
  ultimately show ?thesis
    by (simp add: read_assigned_pdo_mapping_entries_def read_assigned_pdo_indices_def
        read_pdo_mapping_entries_def upto.simps)
qed

lemma cmmt_mapping_entries_in_range:
  assumes "(name, conf) \<in> set CMMT_PDO_CONFIGURATIONS" and "items \<in> {rxpdo_items conf, txpdo_items conf}"
  obtains es where "cmmt_mapping_entries items = Inr es" "length es = length items" "length es < 256"
    "\<forall>e \<in> set es. in_range F_I e"
proof -
  let ?ok = "\<lambda>items. case cmmt_mapping_entries items of Inl _ \<Rightarrow> False
      | Inr es \<Rightarrow> length es = length items \<and> length es < 256 \<and> list_all (in_range F_I) es"
  have "list_all (\<lambda>c. ?ok (rxpdo_items (snd c)) \<and> ?ok (txpdo_items (snd c))) CMMT_PDO_CONFIGURATIONS"
    by code_simp
  from this [unfolded list_all_iff [where xs = CMMT_PDO_CONFIGURATIONS], THEN bspec, OF assms(1)]
  have "?ok (rxpdo_items conf) \<and> ?ok (txpdo_items conf)" by (simp only: snd_conv)
  then have "?ok items" using assms(2) by (elim insertE emptyE) (simp_all only: simp_thms)
  then show thesis by (cases "cmmt_mapping_entries items") (simp_all add: that list_all_iff)
qed

subsection \<open>Properties\<close>

text \<open>Preparing the process image of a drive. Let the drive have writable mapping objects, its
  device leave them alone, and the catalogue, if there is one, match the drive and the configuration. Then
  \<open>prepare_process_image\<close> succeeds: it writes both mappings, reads them back equal, and leaves the
  images of the master for this slave freshly reset with exactly the configured objects; the
  other slaves and the state of the bus stay as they are.\<close>

theorem prepare_process_image_selects_mapping:
  assumes "(name, confs i) \<in> set CMMT_PDO_CONFIGURATIONS"
    and "i < length (endpoints m)" and "i < length (slaves m)" and "leaves_alone upd mapping_keys"
    and "mapping_writable m i 0x1C12 0x1600 (length (rxpdo_items (confs i)))"
    and "mapping_writable m i 0x1C13 0x1A00 (length (txpdo_items (confs i)))"
    and "pi_items (rxpdo (slaves m ! i)) = rxpdo_items (confs i)"
    and "pi_items (txpdo (slaves m ! i)) = txpdo_items (confs i)"
    and "case cats i of None \<Rightarrow> True
         | Some c \<Rightarrow> connected m \<and> slave_product_code (endpoints m ! i) = Some (esi_product_code c) \<and>
             validate_catalog_support (Some c) (confs i) = Inr ()"
  shows "\<exists>m' rx tx. prepare_process_image pstr upd cats confs i m = (Inr (), m') \<and>
           rx = reset_values ((rxpdo (slaves m ! i))\<lparr>pi_mapping := pdo_objects (rxpdo_items (confs i))\<rparr>) \<and>
           tx = reset_values ((txpdo (slaves m ! i))\<lparr>pi_mapping := pdo_objects (txpdo_items (confs i))\<rparr>) \<and>
           slaves m' = (slaves m)[i := (slaves m ! i)\<lparr>rxpdo := rx, txpdo := tx\<rparr>] \<and>
           connected m' = connected m \<and> bus_state m' = bus_state m"
proof -
  obtain es where es: "cmmt_mapping_entries (rxpdo_items (confs i)) = Inr es"
    "length es = length (rxpdo_items (confs i))" "length es < 256" "\<forall>e \<in> set es. in_range F_I e"
    using cmmt_mapping_entries_in_range [OF assms(1)] by blast
  obtain fs where fs: "cmmt_mapping_entries (txpdo_items (confs i)) = Inr fs"
    "length fs = length (txpdo_items (confs i))" "length fs < 256" "\<forall>e \<in> set fs. in_range F_I e"
    using cmmt_mapping_entries_in_range [OF assms(1)] by blast
  obtain m1 where m1: "write_pdo_mapping upd (int i) 0x1C12 0x1600 es m = (Inr (), m1)" "same_master m m1"
    "\<forall>k \<in> mapping_keys. object_at m1 i k = with_writes (mapping_writes 0x1C12 0x1600 es) k (object_at m i k)"
    using write_pdo_mapping_effect [OF assms(4,2), of "0x1C12" "0x1600" es] assms(5) es by auto
  have i1: "i < length (endpoints m1)" using m1(2) assms(2) by (simp add: same_master_def)
  have "mapping_writable m1 i 0x1C13 0x1A00 (length fs)"
    using assms(6) m1(3) fs(2) by (simp add: mapping_writable_def mapping_keys_def)
  then obtain m2 where m2: "write_pdo_mapping upd (int i) 0x1C13 0x1A00 fs m1 = (Inr (), m2)" "same_master m1 m2"
    "\<forall>k \<in> mapping_keys. object_at m2 i k = with_writes (mapping_writes 0x1C13 0x1A00 fs) k (object_at m1 i k)"
    and wr: "mapping_writable m1 i 0x1C13 0x1A00 (length fs)"
    using write_pdo_mapping_effect [OF assms(4) i1, of "0x1C13" "0x1A00" fs] fs by auto
  have sm: "same_master m m2" by (rule same_master_trans [OF m1(2) m2(2)])
  have h1: "holds_mapping m1 i 0x1C12 0x1600 es"
    by (rule written_mapping_held [OF _ _ _ _ _ m1(3)]) (use assms(5) es(2) in \<open>simp_all add: mapping_keys_def\<close>)
  have keep: "object_at m2 i k = object_at m1 i k" if "fst k \<in> {0x1C12, 0x1600}" for k
    using that m2(3) last_write_mapping(5) [of "0x1C13" "0x1A00" k fs]
    by (cases k) (auto simp: mapping_keys_def with_writes_def)
  have h2: "holds_mapping m2 i 0x1C12 0x1600 es"
    using h1 keep by (simp add: holds_mapping_def mapping_writable_def)
  have h3: "holds_mapping m2 i 0x1C13 0x1A00 fs"
    by (rule written_mapping_held [OF _ _ _ _ wr m2(3)]) (simp_all add: mapping_keys_def)
  have i2: "i < length (endpoints m2)" using sm assms(2) by (simp add: same_master_def)
  have r: "read_assigned_pdo_mapping_entries pstr (int i) 0x1C12 m2 = Inr es"
    "read_assigned_pdo_mapping_entries pstr (int i) 0x1C13 m2 = Inr fs"
    using read_mapping_back [OF h2 i2] read_mapping_back [OF h3 i2] es(3,4) fs(3,4)
    by (simp_all add: in_range_def signed_format_def)
  have id: "validate_identity (cats i) i m = (Inr (), m)" "validate_catalog_support (cats i) (confs i) = Inr ()"
    using assms(9)
    by (auto simp: validate_identity_def validate_catalog_support_def require_connected_def bindS_def liftE_def
        retS_def split: option.splits)
  have sel: "select_mapping es (rxpdo (slaves m ! i)) =
      (Inr (), reset_values ((rxpdo (slaves m ! i))\<lparr>pi_mapping := pdo_objects (rxpdo_items (confs i))\<rparr>))"
    "select_mapping fs (txpdo (slaves m ! i)) =
      (Inr (), reset_values ((txpdo (slaves m ! i))\<lparr>pi_mapping := pdo_objects (txpdo_items (confs i))\<rparr>))"
    using es(1) fs(1) assms(7,8) by (simp_all add: select_mapping_def)
  show ?thesis
    using id es(1) fs(1) m1(1) m2(1) r sel sm assms(3)
    by (simp add: prepare_process_image_def bindS_def liftE_def validate_pdo_mapping_def on_rxpdo_def
        on_txpdo_def same_master_def)
qed

definition demo_object :: "int \<times> int \<Rightarrow> string \<Rightarrow> (int \<times> int) \<times> VirtualOdEntry" where
  "demo_object k t =
     (k, \<lparr>ve_definition = \<lparr>vd_index = fst k, vd_subindex = snd k, vd_name = ''object'', vd_data_type = t,
           vd_bit_size = 0, vd_access = ''rw'', vd_default = PInt 0, vd_role = None, vd_rxpdo = False,
           vd_txpdo = False\<rparr>, ve_value = PInt 0\<rparr>)"

definition demo_drive :: "unit MockMaster" where
  "demo_drive =
     demo_master\<lparr>endpoints := [demo_slave\<lparr>device_od := \<lparr>od_entries =
        [demo_object (0x1C12, 0) ''USINT'', demo_object (0x1C12, 1) ''UINT'',
         demo_object (0x1C13, 0) ''USINT'', demo_object (0x1C13, 1) ''UINT'',
         demo_object (0x1600, 0) ''USINT'', demo_object (0x1A00, 0) ''USINT'']
        @ map (\<lambda>j. demo_object (0x1600, j) ''UDINT'') [1..9] @ map (\<lambda>j. demo_object (0x1A00, j) ''UDINT'') [1..6]
        @ map (\<lambda>k. demo_object k ''UDINT'') [(0x6081, 0), (0x6083, 0), (0x6084, 0), (0x60A4, 1)],
        last_write_key = None, write_generation = 0\<rparr>\<rparr>]\<rparr>"

lemma demo_drive_mapping:
  "mapping_writable demo_drive 0 0x1C12 0x1600 (length (rxpdo_items motion_server_default))"
  "mapping_writable demo_drive 0 0x1C13 0x1A00 (length (txpdo_items motion_server_default))"
  by code_simp+

lemma still_device_leaves_alone: "leaves_alone still_device K"
  by (simp add: leaves_alone_def still_device_def)

theorem prepare_process_image_selects_mapping_witness:
  "fst (prepare_process_image (\<lambda>_. []) still_device (\<lambda>_. None) (\<lambda>_. motion_server_default) 0 demo_drive) = Inr ()"
proof -
  have "(''motion_server_default'', motion_server_default) \<in> set CMMT_PDO_CONFIGURATIONS"
    by (simp add: CMMT_PDO_CONFIGURATIONS_def)
  moreover have "length (endpoints demo_drive) = 1" "slaves demo_drive = [new_pdo_runtime motion_server_default]"
    by (simp_all add: demo_drive_def demo_master_def)
  moreover have "pi_items (rxpdo (new_pdo_runtime motion_server_default)) = rxpdo_items motion_server_default"
    "pi_items (txpdo (new_pdo_runtime motion_server_default)) = txpdo_items motion_server_default"
    by (simp_all add: new_pdo_runtime_def RxPDO_def TxPDO_def new_image_def reset_values_def reset_mapped_values_def)
  ultimately obtain m' where "prepare_process_image (\<lambda>_. []) still_device (\<lambda>_. None)
      (\<lambda>_. motion_server_default) 0 demo_drive = (Inr (), m')"
    using prepare_process_image_selects_mapping [where confs = "\<lambda>_. motion_server_default" and i = 0
        and m = demo_drive and upd = still_device and cats = "\<lambda>_. None" and pstr = "\<lambda>_. []"]
      demo_drive_mapping still_device_leaves_alone by auto
  then show ?thesis by simp
qed

text \<open>The three phases of a cycle only follow each other. In every state the master reaches,
  whatever fails in between: preparing succeeds only on a connected master between two cycles and
  leads to the prepared phase; sending succeeds only in the prepared phase, after which every
  slave has its output; receiving succeeds only after sending, returns two counts per slave and
  leads back between two cycles. A disconnected master is between two cycles and refuses all three.\<close>

theorem cycle_phases_alternate:
  assumes "bus_reachable (prepare_process_image pstr upd cats confs) pstr upd m"
  shows "(prepare_processdata pstr t1 t2 m = (Inr (), m1) \<longrightarrow>
            connected m \<and> phase m = Idle \<and> phase m1 = Prepared) \<and>
         (send_processdata dc t3 t4 t5 m = (Inr (), m2) \<longrightarrow>
            phase m = Prepared \<and> phase m2 = SentOut \<and>
            list_all (\<lambda>s. transmitted_output s \<noteq> None) (slaves m2)) \<and>
         (receive_processdata pstr upd t6 dc' m = (Inr w, m3) \<longrightarrow>
            phase m = SentOut \<and> phase m3 = Idle \<and> w = 2 * int (length (endpoints m))) \<and>
         (\<not> connected m \<longrightarrow>
            phase m = Idle \<and> fst (prepare_processdata pstr t1 t2 m) \<noteq> Inr () \<and>
            fst (send_processdata dc t3 t4 t5 m) \<noteq> Inr () \<and>
            (\<forall>w. fst (receive_processdata pstr upd t6 dc' m) \<noteq> Inr w))"
proof -
  have inv: "bus_inv m" by (rule cmmt_bus.reachable_bus_inv [OF assms])
  have "connected m \<and> phase m = Idle \<and> phase m1 = Prepared"
    if "prepare_processdata pstr t1 t2 m = (Inr (), m1)"
    using that inv by (auto simp: prepare_processdata_def require_connected_def bindS_def liftE_def
        phase_def bus_inv_def split: if_splits sum.splits)
  moreover have "phase m = Prepared \<and> phase m2 = SentOut \<and>
      list_all (\<lambda>s. transmitted_output s \<noteq> None) (slaves m2)"
    if "send_processdata dc t3 t4 t5 m = (Inr (), m2)"
    using that inv by (auto simp: send_processdata_def require_connected_def bindS_def liftE_def
        phase_def bus_inv_def commit_transmitted_output_def list_all_iff split: if_splits)
  moreover have "phase m = SentOut \<and> phase m3 = Idle \<and> w = 2 * int (length (endpoints m))"
    if "receive_processdata pstr upd t6 dc' m = (Inr w, m3)"
  proof -
    have s: "connected m" "outputs_sent m"
      using that by (auto simp: receive_processdata_def require_connected_def bindS_def liftE_def split: if_splits)
    obtain r eps where ex: "exchange_all pstr upd (endpoints m) (slaves m) = (r, eps)" by fastforce
    have "\<not> processdata_prepared m" "expected_wkc m = 2 * int (length (endpoints m))"
      using inv s by (auto simp: bus_inv_def)
    then show ?thesis
      using that s ex by (auto simp: receive_processdata_def require_connected_def bindS_def liftE_def Let_def
          phase_def split: sum.splits prod.splits)
  qed
  moreover have "phase m = Idle" if "\<not> connected m" using inv that by (simp add: bus_inv_def)
  moreover have "fst (prepare_processdata pstr t1 t2 m) \<noteq> Inr ()" "fst (send_processdata dc t3 t4 t5 m) \<noteq> Inr ()"
    "\<forall>w. fst (receive_processdata pstr upd t6 dc' m) \<noteq> Inr w" if "\<not> connected m"
    using that by (simp_all add: prepare_processdata_def send_processdata_def receive_processdata_def
        require_connected_def bindS_def liftE_def)
  ultimately show ?thesis by blast
qed

theorem cycle_phases_alternate_witness:
  "let prepare = prepare_process_image (\<lambda>_. []) still_device (\<lambda>_. None) (\<lambda>_. motion_server_default);
       off = demo_master\<lparr>connected := False, bus_state := Closed\<rparr>;
       on = snd (connect prepare ''preop'' (off\<lparr>endpoints := [], slaves := [], expected_wkc := 0\<rparr>))
   in fst (prepare_processdata (\<lambda>_. []) 0 0 off) \<noteq> Inr () \<and>
      phase (snd (prepare_processdata (\<lambda>_. []) 0 0 on)) = Prepared"
proof -
  define prep :: "nat \<Rightarrow> (unit MockMaster, exn, unit) op" where
    "prep = prepare_process_image (\<lambda>_. []) still_device (\<lambda>_. None) (\<lambda>_. motion_server_default)"
  define off where "off = demo_master\<lparr>connected := False, bus_state := Closed\<rparr>"
  define none where "none = off\<lparr>endpoints := [], slaves := [], expected_wkc := 0\<rparr>"
  define on where "on = snd (connect prep ''preop'' none)"
  note reach = bus_reachable.start [of _ _ _ prep "\<lambda>_. []" still_device]
  have "new_master [demo_slave] [motion_server_default] = Inr off" "new_master [] [] = Inr none"
    by (simp_all add: new_master_def off_def none_def demo_master_def)
  then have off: "bus_reachable prep (\<lambda>_. []) still_device off"
    and on: "bus_reachable prep (\<lambda>_. []) still_device on"
    unfolding on_def by (auto intro: reach bus_reachable.connect)
  have "connected on" "phase on = Idle" "slaves on = []"
    by (simp_all add: on_def none_def off_def demo_master_def connect_def reset_processdata_state_def lower_def
        lower_char_def strip_def is_space_def phase_def retS_def)
  then obtain m1 where m1: "prepare_processdata (\<lambda>_. []) 0 0 on = (Inr (), m1)"
    by (simp add: prepare_processdata_def require_connected_def bindS_def liftE_def)
  have "\<not> connected off" by (simp add: off_def)
  then show ?thesis
    using cycle_phases_alternate [OF off [unfolded prep_def], of 0 0]
      cycle_phases_alternate [OF on [unfolded prep_def], of 0 0 m1] m1
    unfolding Let_def prep_def [symmetric] off_def [symmetric] none_def [symmetric] on_def [symmetric]
    by auto
qed

text \<open>Settings read back as written. On a drive that has the four profile settings as writable
  32 bit objects and whose device leaves them alone, writing velocity, acceleration, deceleration and jerk
  succeeds when their integer parts are below \<open>2 ^ 32\<close>, and reading the settings then gives
  the four integer parts, negative ones as zero.\<close>

theorem profile_settings_read_back:
  assumes "leaves_alone upd {(0x6081, 0), (0x6083, 0), (0x6084, 0), (0x60A4, 1)}"
    and "i < length (endpoints m)"
    and "\<forall>k \<in> {(0x6081, 0), (0x6083, 0), (0x6084, 0), (0x60A4, 1)}. writable F_I (object_at m i k)"
    and "\<forall>x \<in> {velocity, acceleration, deceleration, jerk}. py_int x < 2 ^ 32"
  shows "\<exists>m'. bindS (write_profile_settings upd i velocity acceleration deceleration)
                (\<lambda>_. write_profile_jerk upd i jerk) m = (Inr (), m') \<and>
           read_profile_settings pstr i m' =
             Inr (map (\<lambda>x. of_int (max 0 (py_int x))) [velocity, acceleration, deceleration, jerk])"
proof -
  let ?K = "{(0x6081, 0), (0x6083, 0), (0x6084, 0), (0x60A4, 1)} :: (int \<times> int) set"
  let ?v = "\<lambda>x :: real. max 0 (py_int x)"
  let ?ws = "[(F_I, (0x6081, 0), ?v velocity), (F_I, (0x6083, 0), ?v acceleration),
      (F_I, (0x6084, 0), ?v deceleration), (F_I, (0x60A4, 1), ?v jerk)] :: sdo_write_list"
  have r: "in_range F_I (?v velocity)" "in_range F_I (?v acceleration)" "in_range F_I (?v deceleration)"
    "in_range F_I (?v jerk)" using assms(4) by (simp_all add: in_range_def signed_format_def)
  have eq: "bindS (write_profile_settings upd i velocity acceleration deceleration)
      (\<lambda>_. write_profile_jerk upd i jerk) = sdo_writes upd i ?ws"
    by (simp add: write_profile_settings_def write_profile_jerk_def sdo_writes_def bindS_assoc bindS_retS)
  have "\<forall>(fm, k, v) \<in> set ?ws. k \<in> ?K \<and> writable fm (object_at m i k) \<and> in_range fm v"
    using assms(3) r by simp
  from sdo_writes_effect [OF assms(1,2) this] obtain m' where
    m': "sdo_writes upd i ?ws m = (Inr (), m')" "same_master m m'"
    "\<forall>k \<in> ?K. object_at m' i k = with_writes ?ws k (object_at m i k)" by blast
  have i': "i < length (endpoints m')" using m'(2) assms(2) by (simp add: same_master_def)
  have read: "sdo_read_int F_I pstr (int i) a b m' = Inr v"
    if "(a, b) \<in> ?K" "last_write ?ws (a, b) = Some v" "in_range F_I v" for a b v
  proof (rule sdo_read_int_value [OF i' _ that(3)])
    have "object_at m' i (a, b) = with_writes ?ws (a, b) (object_at m i (a, b))"
      "writable F_I (object_at m i (a, b))" using m'(3) assms(3) that(1) by blast+
    then show "writable F_I (object_at m' i (a, b))"
      "map_option ve_value (object_at m' i (a, b)) = Some (PInt v)"
      using writable_value_known that(2) by simp_all
  qed
  have "read_profile_settings pstr i m' = Inr [of_int (?v velocity), of_int (?v acceleration),
      of_int (?v deceleration), of_int (?v jerk)]"
    using read [of "0x6081" 0 "?v velocity"] read [of "0x6083" 0 "?v acceleration"]
      read [of "0x6084" 0 "?v deceleration"] read [of "0x60A4" 1 "?v jerk"] r
    by (simp add: read_profile_settings_def last_write_def)
  with m'(1) eq show ?thesis by simp
qed

theorem profile_settings_read_back_witness:
  "\<exists>m'. bindS (write_profile_settings still_device 0 100 2000 (- 5)) (\<lambda>_. write_profile_jerk still_device 0 7)
          demo_drive = (Inr (), m') \<and> read_profile_settings (\<lambda>_. []) 0 m' = Inr [100, 2000, 0, 7]"
proof -
  have "list_all (\<lambda>k. writable F_I (object_at demo_drive 0 k))
      [(0x6081, 0), (0x6083, 0), (0x6084, 0), (0x60A4, 1)]" by code_simp
  then have w: "\<forall>k \<in> {(0x6081, 0), (0x6083, 0), (0x6084, 0), (0x60A4, 1)}. writable F_I (object_at demo_drive 0 k)"
    by simp
  have l: "0 < length (endpoints demo_drive)" by (simp add: demo_drive_def)
  have p: "py_int 100 = 100" "py_int 2000 = 2000" "py_int (- 5) = - 5" "py_int 7 = 7"
    by (simp_all add: py_int_def)
  show ?thesis
    using profile_settings_read_back [OF still_device_leaves_alone l w, of 100 2000 "- 5" 7 "\<lambda>_. []"]
    by (simp add: p)
qed

text \<open>The configured values have the types of their objects. Every value of the two
  predefined drive configurations belongs to an object the profile requires, as a number in the range of
  the data type the profile declares for it.\<close>

theorem non_pdo_configurations_well_typed:
  "list_all (\<lambda>(name, conf). list_all (\<lambda>((index, subindex), v).
     list_ex (\<lambda>r. ro_index r = index \<and> ro_subindex r = subindex \<and> value_of_type (ro_data_type r) v)
       CMMT_REQUIRED_NON_PDO_OD) conf) CMMT_NON_PDO_CONFIGURATIONS"
  by code_simp

text \<open>A tolerated padding entry is rejected afterwards. A drive that reports its padding under
  an index below 16 passes the validation of the mapping, which compares the entries with
  their paddings normalized, and then fails in \<open>select_mapping\<close>, which compares them as they are.\<close>

theorem tolerated_padding_rejected:
  assumes "cmmt_mapping_entries (pi_items im) = Inr (es @ [n])" and "0 < n" and "n < 256"
  shows "validate_pdo_mapping (es @ [n]) (es @ [push_bit 16 8 OR n]) = Inr () \<and>
         select_mapping (es @ [push_bit 16 8 OR n]) im = (Inl ValueError, im)"
proof -
  note f = mapping_entry_fields [of 8 0 n]
  have e: "push_bit 16 8 OR n = (push_bit 16 8 OR push_bit 8 0) OR (n :: int)" by simp
  have pad: "is_pdo_padding_entry (push_bit 16 8 OR n)" "(push_bit 16 8 OR n) AND 0xFF = n"
    using f assms(2,3) unfolding is_pdo_padding_entry_def e by simp_all
  have "(0 OR n) AND 0xFF = n" "drop_bit 16 n = 0" "drop_bit 8 n = 0"
    using mapping_entry_fields(1) [of 0 0 n] assms(2,3) by (simp_all add: drop_bit_eq_div)
  then have pad0: "is_pdo_padding_entry n" "n AND 0xFF = n"
    using assms(2) by (simp_all add: is_pdo_padding_entry_def)
  have "push_bit 16 8 OR n \<noteq> n"
  proof
    assume "push_bit 16 8 OR n = n"
    then have "drop_bit 16 (push_bit 16 8 OR n) AND 0xFFFF = 0"
      using \<open>drop_bit 16 n = 0\<close> by simp
    moreover have "drop_bit 16 (push_bit 16 8 OR n) AND 0xFFFF = 8"
      using f(3) assms(2,3) unfolding e by simp
    ultimately show False by simp
  qed
  then show ?thesis
    using assms(1) pad pad0
    by (simp add: validate_pdo_mapping_def normalized_pdo_mapping_entries_def select_mapping_def)
qed

theorem tolerated_padding_rejected_witness:
  "select_mapping [0x60410010, 0x60610008, 0x60640020, 0x606C0020, 0x60770010, 0x00080008]
     (TxPDO motion_server_default) = (Inl ValueError, TxPDO motion_server_default)"
proof -
  have "cmmt_mapping_entries (pi_items (TxPDO motion_server_default)) =
      Inr ([0x60410010, 0x60610008, 0x60640020, 0x606C0020, 0x60770010] @ [8])" by code_simp
  from tolerated_padding_rejected [OF this] show ?thesis by simp
qed

end
