(* ===== verification/Csp_Generator.thy ===== *)
theory Csp_Generator
  imports Prelude Failures
begin

section \<open>The cyclic position set-point generator\<close>

text \<open>
  Models \<^verbatim>\<open>motion_server/control/csp_trajectory_generator.py\<close>: the class \<open>CspTrajectoryGenerator\<close>
  with its point moves (trapezoid and quintic profile) and timed trajectories (point-move, cubic
  and quintic segments). A float is a real number. The generator's \<open>point_move_profile_state\<close> is
  an optional record. The lemmas show the interpolation conditions of the segments (they start and
  end where the way points say and the returned velocity and acceleration are the derivatives of
  the returned position), the velocity and acceleration limits of the quintic profile, that a point
  move arrives at its target and stays there, and that a timed trajectory ends at its last point.
\<close>

subsection \<open>State\<close>

record traj_point =
  tp_position :: real
  tp_velocity :: "real option"
  tp_acceleration :: "real option"
  time_from_start :: real

record point_profile =
  pp_start :: real
  pp_target :: real
  pp_distance :: real
  pp_duration :: real
  pp_elapsed :: real

record generator =
  command_position :: real
  target_position :: real
  command_velocity :: real
  command_acceleration :: real
  timed_points :: "traj_point list"
  timed_elapsed :: real
  timed_segment :: nat
  timed_active :: bool
  trajectory_move_profile :: string
  point_move_profile_state :: "point_profile option"
  csp_profile :: string

definition CSP_PROFILE_TYPES :: "string list" where
  "CSP_PROFILE_TYPES = [''trapezoid'', ''quintic'']"

definition normalize_csp_profile :: "string \<Rightarrow> exn + string" where
  "normalize_csp_profile value =
     (let profile_type = lower (strip value)
      in if profile_type \<notin> set CSP_PROFILE_TYPES then Inl ValueError else Inr profile_type)"

definition new_generator :: "real \<Rightarrow> string \<Rightarrow> exn + generator" where
  "new_generator initial_position profile =
     bindE (normalize_csp_profile profile) (\<lambda>p.
       Inr \<lparr>command_position = initial_position, target_position = initial_position,
            command_velocity = 0, command_acceleration = 0, timed_points = [], timed_elapsed = 0,
            timed_segment = 0, timed_active = False, trajectory_move_profile = ''point_move'',
            point_move_profile_state = None, csp_profile = p\<rparr>)"

definition set_csp_profile :: "string \<Rightarrow> (generator, exn, unit) op" where
  "set_csp_profile profile g =
     (case normalize_csp_profile profile of
        Inl e \<Rightarrow> (Inl e, g)
      | Inr p \<Rightarrow> (Inr (), g\<lparr>csp_profile := p, point_move_profile_state := None\<rparr>))"

definition set_target_position :: "real \<Rightarrow> generator \<Rightarrow> generator" where
  "set_target_position target g =
     g\<lparr>target_position := target, timed_active := False, timed_points := [],
       point_move_profile_state := None\<rparr>"

definition reset :: "real \<Rightarrow> generator \<Rightarrow> generator" where
  "reset position g =
     g\<lparr>command_position := position, target_position := position, command_velocity := 0,
       command_acceleration := 0, timed_points := [], timed_elapsed := 0, timed_segment := 0,
       timed_active := False, trajectory_move_profile := ''point_move'',
       point_move_profile_state := None\<rparr>"

definition is_zero :: "real option \<Rightarrow> bool" where
  "is_zero v = (case v of None \<Rightarrow> False | Some x \<Rightarrow> \<bar>x\<bar> \<le> 1 / 10 ^ 12)"

definition classify_trajectory_move_profile :: "traj_point list \<Rightarrow> string" where
  "classify_trajectory_move_profile points =
     (if list_ex (\<lambda>p. tp_velocity p = None) points \<or> list_all (\<lambda>p. is_zero (tp_velocity p)) points
      then ''point_move''
      else if list_ex (\<lambda>p. tp_acceleration p = None) points
           \<or> list_all (\<lambda>p. is_zero (tp_acceleration p)) points
      then ''cubic''
      else ''quintic'')"

text \<open>\<open>value or 0.0\<close>\<close>

definition or_zero :: "real option \<Rightarrow> real" where
  "or_zero v = (case v of None \<Rightarrow> 0 | Some x \<Rightarrow> x)"

definition set_trajectory_move :: "traj_point list \<Rightarrow> generator \<Rightarrow> generator" where
  "set_trajectory_move points g =
     (let g1 = g\<lparr>timed_points := points,
                 trajectory_move_profile := classify_trajectory_move_profile points,
                 timed_elapsed := 0, timed_segment := 0, timed_active := (length points \<ge> 2),
                 point_move_profile_state := None\<rparr>
      in case points of
           [] \<Rightarrow> g1
         | first # _ \<Rightarrow>
             g1\<lparr>command_position := tp_position first, target_position := tp_position first,
                command_velocity := or_zero (tp_velocity first),
                command_acceleration := or_zero (tp_acceleration first)\<rparr>)"

definition clear_trajectory_move :: "generator \<Rightarrow> generator" where
  "clear_trajectory_move g =
     g\<lparr>timed_points := [], timed_elapsed := 0, timed_segment := 0, timed_active := False,
       trajectory_move_profile := ''point_move'', point_move_profile_state := None\<rparr>"

subsection \<open>Shapes and segments\<close>

text \<open>Each returns position, velocity and acceleration.\<close>

definition trapezoid_shape :: "real \<Rightarrow> real \<times> real \<times> real" where
  "trapezoid_shape s0 =
     (let s = clamp01 s0; peak_velocity = 4 / 3; acceleration = 16 / 3
      in if s < 1 / 4 then (1 / 2 * acceleration * s * s, acceleration * s, acceleration)
         else if s \<le> 3 / 4 then (peak_velocity * s - 1 / 6, peak_velocity, 0)
         else let remaining = 1 - s
              in (1 - 1 / 2 * acceleration * remaining * remaining, acceleration * remaining,
                  - acceleration))"

definition quintic_shape :: "real \<Rightarrow> real \<times> real \<times> real" where
  "quintic_shape s0 =
     (let s = clamp01 s0
      in (10 * s ^ 3 - 15 * s ^ 4 + 6 * s ^ 5,
          30 * s ^ 2 - 60 * s ^ 3 + 30 * s ^ 4,
          60 * s - 180 * s ^ 2 + 120 * s ^ 3))"

definition interpolate_point_move_segment ::
  "string \<Rightarrow> traj_point \<Rightarrow> traj_point \<Rightarrow> real \<Rightarrow> real \<Rightarrow> real \<times> real \<times> real" where
  "interpolate_point_move_segment profile start end_pt local_time duration0 =
     (let duration = max duration0 (1 / 10 ^ 9);
          t = max 0 (min duration local_time);
          s = t / duration;
          p0 = tp_position start;
          distance = tp_position end_pt - p0;
          (position, velocity, acceleration) =
            (if profile = ''trapezoid'' then trapezoid_shape s else quintic_shape s)
      in (p0 + distance * position, distance * velocity / duration,
          distance * acceleration / (duration * duration)))"

definition interpolate_cubic_segment ::
  "traj_point \<Rightarrow> traj_point \<Rightarrow> real \<Rightarrow> real \<Rightarrow> real \<times> real \<times> real" where
  "interpolate_cubic_segment start end_pt local_time duration0 =
     (let duration = max duration0 (1 / 10 ^ 9);
          t = max 0 (min duration local_time);
          p0 = tp_position start; p1 = tp_position end_pt;
          v0 = or_zero (tp_velocity start); v1 = or_zero (tp_velocity end_pt);
          c0 = p0; c1 = v0;
          duration2 = duration * duration; duration3 = duration2 * duration;
          c2 = (3 * (p1 - p0) - (2 * v0 + v1) * duration) / duration2;
          c3 = (2 * (p0 - p1) + (v0 + v1) * duration) / duration3
      in (c0 + c1 * t + c2 * t * t + c3 * t * t * t,
          c1 + 2 * c2 * t + 3 * c3 * t * t,
          2 * c2 + 6 * c3 * t))"

definition interpolate_quintic_segment ::
  "traj_point \<Rightarrow> traj_point \<Rightarrow> real \<Rightarrow> real \<Rightarrow> real \<times> real \<times> real" where
  "interpolate_quintic_segment start end_pt local_time duration0 =
     (let duration = max duration0 (1 / 10 ^ 9);
          t = max 0 (min duration local_time);
          p0 = tp_position start; p1 = tp_position end_pt;
          v0 = or_zero (tp_velocity start); v1 = or_zero (tp_velocity end_pt);
          a0 = or_zero (tp_acceleration start); a1 = or_zero (tp_acceleration end_pt);
          c0 = p0; c1 = v0; c2 = a0 / 2;
          duration2 = duration * duration; duration3 = duration2 * duration;
          duration4 = duration3 * duration; duration5 = duration4 * duration;
          c3 = (20 * (p1 - p0) - (8 * v1 + 12 * v0) * duration - (3 * a0 - a1) * duration2)
                 / (2 * duration3);
          c4 = (30 * (p0 - p1) + (14 * v1 + 16 * v0) * duration + (3 * a0 - 2 * a1) * duration2)
                 / (2 * duration4);
          c5 = (12 * (p1 - p0) - (6 * v1 + 6 * v0) * duration - (a0 - a1) * duration2)
                 / (2 * duration5)
      in (c0 + c1 * t + c2 * t * t + c3 * t * t * t + c4 * t * t * t * t
            + c5 * t * t * t * t * t,
          c1 + 2 * c2 * t + 3 * c3 * t * t + 4 * c4 * t * t * t + 5 * c5 * t * t * t * t,
          2 * c2 + 6 * c3 * t + 12 * c4 * t * t + 20 * c5 * t * t * t))"

definition interpolate_trajectory_move_segment ::
  "generator \<Rightarrow> traj_point \<Rightarrow> traj_point \<Rightarrow> real \<Rightarrow> real \<Rightarrow> real \<times> real \<times> real" where
  "interpolate_trajectory_move_segment g start end_pt local_time duration =
     (if trajectory_move_profile g = ''point_move''
      then interpolate_point_move_segment (csp_profile g) start end_pt local_time duration
      else if trajectory_move_profile g = ''cubic''
      then interpolate_cubic_segment start end_pt local_time duration
      else interpolate_quintic_segment start end_pt local_time duration)"

fun find_timed_segment_from :: "nat \<Rightarrow> traj_point list \<Rightarrow> real \<Rightarrow> nat option" where
  "find_timed_segment_from index (p # q # ps) elapsed =
     (if elapsed \<le> time_from_start q then Some index
      else find_timed_segment_from (index + 1) (q # ps) elapsed)"
| "find_timed_segment_from index ps elapsed = None"

definition find_timed_segment :: "generator \<Rightarrow> real \<Rightarrow> nat" where
  "find_timed_segment g elapsed =
     (case find_timed_segment_from 0 (timed_points g) elapsed of
        Some i \<Rightarrow> i | None \<Rightarrow> length (timed_points g) - 2)"

subsection \<open>The cyclic update\<close>

definition finish_timed_trajectory :: "generator \<Rightarrow> generator" where
  "finish_timed_trajectory g =
     (let final = last (timed_points g)
      in g\<lparr>command_position := tp_position final, target_position := tp_position final,
           command_velocity := (if trajectory_move_profile g \<noteq> ''point_move''
                                then or_zero (tp_velocity final) else 0),
           command_acceleration := (if trajectory_move_profile g = ''quintic''
                                    then or_zero (tp_acceleration final) else 0),
           timed_segment := length (timed_points g) - 2, timed_active := False\<rparr>)"

definition update_timed_trajectory :: "real \<Rightarrow> generator \<Rightarrow> generator" where
  "update_timed_trajectory cycle_time g =
     (let points = timed_points g
      in if points = [] then g\<lparr>timed_active := False\<rparr>
         else if timed_elapsed g \<ge> time_from_start (last points) then finish_timed_trajectory g
         else if time_from_start (last points) - timed_elapsed g \<le> cycle_time * (1 / 2)
           then finish_timed_trajectory g
         else
           let seg = find_timed_segment g (timed_elapsed g);
               start = points ! seg; end_pt = points ! (seg + 1);
               segment_start = time_from_start start;
               duration = time_from_start end_pt - segment_start;
               local_time = timed_elapsed g - segment_start;
               (p, v, a) = interpolate_trajectory_move_segment g start end_pt local_time duration
           in g\<lparr>timed_segment := seg, command_position := p, command_velocity := v,
                command_acceleration := a, target_position := p,
                timed_elapsed := timed_elapsed g + cycle_time\<rparr>)"

definition crossed_target :: "generator \<Rightarrow> real \<Rightarrow> bool" where
  "crossed_target g next_position =
     (if target_position g \<ge> command_position g then next_position \<ge> target_position g
      else next_position \<le> target_position g)"

definition update_trapezoid :: "real \<Rightarrow> real \<Rightarrow> real \<Rightarrow> real \<Rightarrow> generator \<Rightarrow> generator" where
  "update_trapezoid cycle_time max_velocity acceleration deceleration g =
     (let error = target_position g - command_position g
      in if \<bar>error\<bar> \<le> 1 / 10 ^ 9 \<and> \<bar>command_velocity g\<bar> \<le> 1 / 10 ^ 9 then
           g\<lparr>command_position := target_position g, command_velocity := 0,
             command_acceleration := 0\<rparr>
         else
           let direction = (if error \<ge> 0 then 1 else - 1);
               distance_remaining = \<bar>error\<bar>;
               braking_distance =
                 (command_velocity g * command_velocity g) / (2 * max deceleration (1 / 10 ^ 9));
               desired_velocity =
                 (if distance_remaining \<le> braking_distance then 0 else direction * max_velocity);
               velocity_limit =
                 (if \<bar>desired_velocity\<bar> > \<bar>command_velocity g\<bar> then acceleration
                  else deceleration);
               max_delta_v = velocity_limit * cycle_time;
               delta_v = max (min (desired_velocity - command_velocity g) max_delta_v)
                           (- max_delta_v);
               velocity = command_velocity g + delta_v;
               next_position = command_position g + velocity * cycle_time
           in if crossed_target g next_position then
                g\<lparr>command_position := target_position g, command_velocity := 0,
                  command_acceleration := 0\<rparr>
              else
                g\<lparr>command_position := next_position, command_velocity := velocity,
                  command_acceleration := (velocity - command_velocity g) / cycle_time\<rparr>)"

definition create_quintic_point_move ::
  "real \<Rightarrow> real \<Rightarrow> real \<Rightarrow> real \<Rightarrow> real \<Rightarrow> real \<Rightarrow> point_profile" where
  "create_quintic_point_move start target max_velocity acceleration deceleration jerk =
     (let distance = target - start;
          abs_distance = \<bar>distance\<bar>;
          duration =
            (if abs_distance \<le> 1 / 10 ^ 9 then 0
             else
               let velocity_time = 1.875 * abs_distance / max max_velocity (1 / 10 ^ 9);
                   accel_time =
                     sqrt (5.773502691896258 * abs_distance / max acceleration (1 / 10 ^ 9));
                   decel_time =
                     sqrt (5.773502691896258 * abs_distance / max deceleration (1 / 10 ^ 9));
                   jerk_time = (60 * abs_distance / max jerk (1 / 10 ^ 9)) powr (1 / 3)
               in max velocity_time (max accel_time (max decel_time jerk_time)))
      in \<lparr>pp_start = start, pp_target = target, pp_distance = distance, pp_duration = duration,
          pp_elapsed = 0\<rparr>)"

definition arrive :: "generator \<Rightarrow> generator" where
  "arrive g = g\<lparr>command_position := target_position g, command_velocity := 0,
     command_acceleration := 0, point_move_profile_state := None\<rparr>"

definition update_quintic_point_move ::
  "real \<Rightarrow> real \<Rightarrow> real \<Rightarrow> real \<Rightarrow> real \<Rightarrow> generator \<Rightarrow> generator" where
  "update_quintic_point_move cycle_time max_velocity acceleration deceleration jerk g =
     (let fresh = create_quintic_point_move (command_position g) (target_position g)
                    max_velocity acceleration deceleration jerk;
          profile =
            (case point_move_profile_state g of
               None \<Rightarrow> fresh
             | Some p \<Rightarrow> if pp_target p \<noteq> target_position g then fresh else p);
          duration = pp_duration profile;
          elapsed0 = min (pp_elapsed profile + cycle_time) duration;
          elapsed = (if duration - elapsed0 \<le> cycle_time * (1 / 2) then duration else elapsed0)
      in if duration \<le> 0 then arrive g
         else
           let s = clamp01 (elapsed / duration);
               distance = pp_distance profile;
               blend = 10 * s ^ 3 - 15 * s ^ 4 + 6 * s ^ 5;
               blend_velocity = 30 * s ^ 2 - 60 * s ^ 3 + 30 * s ^ 4;
               blend_acceleration = 60 * s - 180 * s ^ 2 + 120 * s ^ 3
           in if elapsed \<ge> duration then arrive g
              else g\<lparr>command_position := pp_start profile + distance * blend,
                     command_velocity := distance * blend_velocity / duration,
                     command_acceleration := distance * blend_acceleration / (duration * duration),
                     point_move_profile_state := Some (profile\<lparr>pp_elapsed := elapsed\<rparr>)\<rparr>)"

definition update ::
  "real \<Rightarrow> real \<Rightarrow> real \<Rightarrow> real \<Rightarrow> real option \<Rightarrow> (generator, exn, real) op" where
  "update cycle_time0 max_velocity0 acceleration0 deceleration0 jerk0 g =
     (let cycle_time = max cycle_time0 (1 / 10 ^ 9);
          max_velocity = max max_velocity0 0;
          acceleration = max acceleration0 (1 / 10 ^ 9);
          deceleration = max deceleration0 (1 / 10 ^ 9);
          jerk = or_zero jerk0;
          done = (\<lambda>g'. (Inr (command_position g'), g'))
      in if timed_active g then done (update_timed_trajectory cycle_time g)
         else if csp_profile g = ''trapezoid'' then
           done (update_trapezoid cycle_time max_velocity acceleration deceleration
                   (g\<lparr>point_move_profile_state := None\<rparr>))
         else if jerk \<le> 0 then (Inl ValueError, g)
         else done (update_quintic_point_move cycle_time max_velocity acceleration deceleration jerk g))"

subsection \<open>The quintic blend\<close>

definition blend :: "real \<Rightarrow> real" where
  "blend s = 10 * s ^ 3 - 15 * s ^ 4 + 6 * s ^ 5"

definition blend_velocity :: "real \<Rightarrow> real" where
  "blend_velocity s = 30 * s ^ 2 - 60 * s ^ 3 + 30 * s ^ 4"

definition blend_acceleration :: "real \<Rightarrow> real" where
  "blend_acceleration s = 60 * s - 180 * s ^ 2 + 120 * s ^ 3"

lemma blend_velocity_bounds:
  assumes "0 \<le> s" "s \<le> 1"
  shows "0 \<le> blend_velocity s" "blend_velocity s \<le> 1.875"
proof -
  have eq: "blend_velocity s = 30 * (s * (1 - s))\<^sup>2"
    by (simp add: blend_velocity_def field_simps power2_eq_square power3_eq_cube power4_eq_xxxx)
  then show "0 \<le> blend_velocity s" by simp
  have "s * (1 - s) \<le> 1 / 4"
    using zero_le_power2 [of "s - 1 / 2"] by (simp add: power2_eq_square field_simps)
  moreover have "0 \<le> s * (1 - s)" using assms by simp
  ultimately have "(s * (1 - s))\<^sup>2 \<le> (1 / 4)\<^sup>2" by (rule power_mono)
  then have "30 * (s * (1 - s))\<^sup>2 \<le> 30 * (1 / 4)\<^sup>2" by linarith
  also have "\<dots> = (1.875 :: real)" by (simp add: power2_eq_square)
  finally show "blend_velocity s \<le> 1.875" by (simp only: eq)
qed

lemma blend_acceleration_bound:
  assumes "0 \<le> s" "s \<le> 1"
  shows "\<bar>blend_acceleration s\<bar> \<le> 5.773502691896258"
proof -
  define u where "u = s * (1 - s)"
  have u: "0 \<le> u" using assms by (simp add: u_def)
  have "(1 - 2 * s)\<^sup>2 = 1 - 4 * u" by (simp add: u_def power2_eq_square field_simps)
  moreover have "blend_acceleration s = 60 * u * (1 - 2 * s)"
    by (simp add: blend_acceleration_def u_def field_simps power2_eq_square power3_eq_cube)
  ultimately have "(blend_acceleration s)\<^sup>2 = 3600 * u\<^sup>2 * (1 - 4 * u)"
    by (simp add: power_mult_distrib)
  also have "\<dots> = 100 / 3 - 3600 * ((u - 1 / 6)\<^sup>2 * (4 * u + 1 / 3))"
    by (simp add: field_simps power2_eq_square)
  also have "\<dots> \<le> 100 / 3" using u by simp
  also have "\<dots> \<le> (5.773502691896258 :: real)\<^sup>2" by (simp add: power2_eq_square)
  finally show ?thesis using abs_le_square_iff [of "blend_acceleration s" "5.773502691896258"] by simp
qed

lemma blend_bounds:
  assumes "0 \<le> s" "s \<le> 1"
  shows "0 \<le> blend s" "blend s \<le> 1"
proof -
  have "blend s = s ^ 3 * (6 * (s - 5 / 4)\<^sup>2 + 5 / 8)"
    by (simp add: blend_def field_simps power2_eq_square power3_eq_cube power4_eq_xxxx
        numeral_eq_Suc)
  with assms show "0 \<le> blend s" by simp
  have "1 - blend s = (1 - s) ^ 3 * (6 * s\<^sup>2 + 3 * s + 1)"
    by (simp add: blend_def field_simps power2_eq_square power3_eq_cube power4_eq_xxxx
        numeral_eq_Suc)
  moreover have "0 \<le> (1 - s) ^ 3 * (6 * s\<^sup>2 + 3 * s + 1)" using assms by simp
  ultimately show "blend s \<le> 1" by linarith
qed

lemma blend_has_derivatives:
  "(blend has_real_derivative blend_velocity s) (at s)"
  "(blend_velocity has_real_derivative blend_acceleration s) (at s)"
  unfolding blend_def blend_velocity_def blend_acceleration_def
  by (auto intro!: derivative_eq_intros simp: field_simps)

lemma quintic_shape_blend:
  "quintic_shape s = (blend (clamp01 s), blend_velocity (clamp01 s), blend_acceleration (clamp01 s))"
  by (simp add: quintic_shape_def Let_def blend_def blend_velocity_def blend_acceleration_def)

subsection \<open>The quintic point move over many cycles\<close>

abbreviation profile_of :: "generator \<Rightarrow> real \<Rightarrow> real \<Rightarrow> real \<Rightarrow> real \<Rightarrow> point_profile" where
  "profile_of g vmax acc dec j \<equiv>
     create_quintic_point_move (command_position g) (target_position g) vmax acc dec j"

definition cycles :: "real \<Rightarrow> real \<Rightarrow> real \<Rightarrow> real \<Rightarrow> real \<Rightarrow> nat \<Rightarrow> generator \<Rightarrow> generator" where
  "cycles ct vmax acc dec j n g = ((\<lambda>g. snd (update ct vmax acc dec (Some j) g)) ^^ n) g"

text \<open>The state \<open>k\<close> cycles into a move with profile \<open>p\<close> that started in \<open>g\<close>.\<close>

definition on_profile :: "real \<Rightarrow> point_profile \<Rightarrow> nat \<Rightarrow> generator \<Rightarrow> generator" where
  "on_profile ct p k g =
     g\<lparr>command_position := pp_start p + pp_distance p * blend (real k * ct / pp_duration p),
       command_velocity := pp_distance p * blend_velocity (real k * ct / pp_duration p) / pp_duration p,
       command_acceleration := pp_distance p * blend_acceleration (real k * ct / pp_duration p)
         / (pp_duration p * pp_duration p),
       point_move_profile_state := Some (p\<lparr>pp_elapsed := real k * ct\<rparr>)\<rparr>"

lemma create_fields [simp]:
  "pp_start (create_quintic_point_move a b v c d j) = a"
  "pp_target (create_quintic_point_move a b v c d j) = b"
  "pp_distance (create_quintic_point_move a b v c d j) = b - a"
  "pp_elapsed (create_quintic_point_move a b v c d j) = 0"
  by (simp_all add: create_quintic_point_move_def Let_def)

lemma duration_bounds:
  fixes j :: real
  assumes "1 / 10 ^ 9 < \<bar>b - a\<bar>" "1 / 10 ^ 9 \<le> v" "1 / 10 ^ 9 \<le> c" "1 / 10 ^ 9 \<le> d"
  defines "D \<equiv> pp_duration (create_quintic_point_move a b v c d j)"
  shows "0 < D" "1.875 * \<bar>b - a\<bar> / v \<le> D"
    "5.773502691896258 * \<bar>b - a\<bar> / c \<le> D\<^sup>2" "5.773502691896258 * \<bar>b - a\<bar> / d \<le> D\<^sup>2"
proof -
  have D: "D = max (1.875 * \<bar>b - a\<bar> / v) (max (sqrt (5.773502691896258 * \<bar>b - a\<bar> / c))
      (max (sqrt (5.773502691896258 * \<bar>b - a\<bar> / d))
        ((60 * \<bar>b - a\<bar> / max j (1 / 10 ^ 9)) powr (1 / 3))))"
    using assms(1-4) by (simp add: D_def create_quintic_point_move_def Let_def max_absorb1)
  show v: "1.875 * \<bar>b - a\<bar> / v \<le> D" unfolding D by simp
  have eps: "(0::real) < 1 / 10 ^ 9" by simp
  then have "0 < \<bar>b - a\<bar>" "0 < v" using assms(1,2) by linarith+
  then have "0 < 1.875 * \<bar>b - a\<bar> / v" by (intro divide_pos_pos mult_pos_pos) simp_all
  with v show "0 < D" by linarith
  have sq: "x \<le> D\<^sup>2" if "sqrt x \<le> D" "0 \<le> x" for x
    using power_mono [OF that(1), of 2] that(2) by simp
  have "sqrt (5.773502691896258 * \<bar>b - a\<bar> / c) \<le> D" "sqrt (5.773502691896258 * \<bar>b - a\<bar> / d) \<le> D"
    unfolding D by (simp_all only: le_max_iff_disj order_refl simp_thms)
  moreover have "0 < c" "0 < d" using assms(3,4) eps by linarith+
  ultimately show "5.773502691896258 * \<bar>b - a\<bar> / c \<le> D\<^sup>2" "5.773502691896258 * \<bar>b - a\<bar> / d \<le> D\<^sup>2"
    by (auto intro!: sq)
qed

lemma quintic_step:
  assumes "0 < ct" "0 < pp_duration p" "pp_target p = target_position g"
    and "point_move_profile_state g = Some (p\<lparr>pp_elapsed := real k * ct\<rparr>)
         \<or> k = 0 \<and> point_move_profile_state g = None \<and> p = profile_of g vmax acc dec j"
  shows "update_quintic_point_move ct vmax acc dec j g =
     (if real (k + 1) * ct < pp_duration p - ct / 2 then on_profile ct p (k + 1) g else arrive g)"
proof -
  define q where "q = (case point_move_profile_state g of None \<Rightarrow> profile_of g vmax acc dec j
    | Some r \<Rightarrow> if pp_target r \<noteq> target_position g then profile_of g vmax acc dec j else r)"
  have q: "q = p\<lparr>pp_elapsed := real k * ct\<rparr>"
    using assms(3,4) by (auto simp: q_def)
  let ?D = "pp_duration p" and ?e = "real (k + 1) * ct"
  have e: "min (real k * ct + ct) ?D = min ?e ?D" by (simp add: field_simps)
  show ?thesis
  proof (cases "?e < ?D - ct / 2")
    case True
    then have "min ?e ?D = ?e" "\<not> ?D - ?e \<le> ct * (1 / 2)" "\<not> ?D \<le> ?e" using assms(1) by auto
    moreover have "clamp01 (?e / ?D) = ?e / ?D" using True assms(1,2) by (simp add: field_simps)
    ultimately show ?thesis
      using True assms(2)
      unfolding update_quintic_point_move_def q_def [symmetric] q Let_def
      by (simp add: e on_profile_def blend_def blend_velocity_def blend_acceleration_def)
  next
    case False
    then have "?D - min ?e ?D \<le> ct * (1 / 2)" using assms(1) by (simp add: min_def)
    with False assms(2) show ?thesis
      unfolding update_quintic_point_move_def q_def [symmetric] q Let_def
      by (simp add: e)
  qed
qed

lemma update_is_quintic:
  assumes "\<not> timed_active g" "csp_profile g = ''quintic''" "1 / 10 ^ 9 \<le> ct" "0 \<le> vmax"
    "1 / 10 ^ 9 \<le> acc" "1 / 10 ^ 9 \<le> dec" "0 < j"
  shows "snd (update ct vmax acc dec (Some j) g) = update_quintic_point_move ct vmax acc dec j g"
  using assms by (simp add: update_def Let_def or_zero_def max_absorb1)

lemma arrive_fixed:
  assumes "command_position g = target_position g" "point_move_profile_state g = None"
  shows "update_quintic_point_move ct vmax acc dec j g = arrive g"
  using assms by (simp add: update_quintic_point_move_def create_quintic_point_move_def Let_def)

lemma arrive_simps [simp]:
  "command_position (arrive g) = target_position g" "target_position (arrive g) = target_position g"
  "command_velocity (arrive g) = 0" "command_acceleration (arrive g) = 0"
  "point_move_profile_state (arrive g) = None" "arrive (arrive g) = arrive g"
  "timed_active (arrive g) = timed_active g" "csp_profile (arrive g) = csp_profile g"
  by (simp_all add: arrive_def)

lemma on_profile_simps [simp]:
  "target_position (on_profile ct p k g) = target_position g"
  "timed_active (on_profile ct p k g) = timed_active g"
  "csp_profile (on_profile ct p k g) = csp_profile g"
  "point_move_profile_state (on_profile ct p k g) = Some (p\<lparr>pp_elapsed := real k * ct\<rparr>)"
  "on_profile ct p k (on_profile ct p k' g) = on_profile ct p k g"
  "arrive (on_profile ct p k g) = arrive g"
  by (simp_all add: on_profile_def arrive_def)

text \<open>The whole move in closed form: \<open>k\<close> cycles after a move is started the generator is on its
  profile at time \<open>k * ct\<close>, until half a cycle before the end of the profile; from then on it stands
  at its target.\<close>

lemma quintic_move_closed_form:
  assumes g: "\<not> timed_active g" "csp_profile g = ''quintic''" "point_move_profile_state g = None"
    and lim: "1 / 10 ^ 9 \<le> ct" "1 / 10 ^ 9 \<le> vmax" "1 / 10 ^ 9 \<le> acc" "1 / 10 ^ 9 \<le> dec" "0 < j"
    and far: "1 / 10 ^ 9 < \<bar>target_position g - command_position g\<bar>"
  defines "p \<equiv> profile_of g vmax acc dec j"
  shows "cycles ct vmax acc dec j (Suc k) g =
    (if real (Suc k) * ct < pp_duration p - ct / 2 then on_profile ct p (Suc k) g else arrive g)"
proof -
  have ct: "0 < ct" using lim(1) by (rule less_le_trans [rotated]) simp
  have D: "0 < pp_duration p" unfolding p_def by (rule duration_bounds(1) [OF far lim(2-4)])
  have v: "0 \<le> vmax" using lim(2) by (rule order_trans [rotated]) simp
  note upd = update_is_quintic [OF _ _ lim(1) v lim(3-5)]
  have tgt: "pp_target p = target_position g" by (simp add: p_def)
  show ?thesis
  proof (induction k)
    case 0
    have "update_quintic_point_move ct vmax acc dec j g =
        (if real (0 + 1) * ct < pp_duration p - ct / 2 then on_profile ct p (0 + 1) g else arrive g)"
      by (rule quintic_step [OF ct D tgt]) (simp add: g(3) p_def)
    then show ?case by (simp add: cycles_def upd g(1,2))
  next
    case (Suc k)
    let ?h = "cycles ct vmax acc dec j (Suc k) g"
    have step: "cycles ct vmax acc dec j (Suc (Suc k)) g = snd (update ct vmax acc dec (Some j) ?h)"
      by (simp add: cycles_def)
    have mono: "real (Suc k) * ct \<le> real (Suc (Suc k)) * ct" using ct by (simp add: field_simps)
    show ?case
    proof (cases "real (Suc k) * ct < pp_duration p - ct / 2")
      case True
      then have h: "?h = on_profile ct p (Suc k) g" using Suc.IH by simp
      have "update_quintic_point_move ct vmax acc dec j ?h =
          (if real (Suc k + 1) * ct < pp_duration p - ct / 2 then on_profile ct p (Suc k + 1) ?h
           else arrive ?h)"
        by (rule quintic_step [OF ct D]) (simp_all add: h tgt)
      then show ?thesis unfolding step by (simp add: h upd g(1,2))
    next
      case False
      then have h: "?h = arrive g" using Suc.IH by simp
      have "update_quintic_point_move ct vmax acc dec j (arrive g) = arrive g"
        using arrive_fixed [of "arrive g" ct vmax acc dec j] by simp
      moreover have "\<not> real (Suc (Suc k)) * ct < pp_duration p - ct / 2" using False mono by linarith
      ultimately show ?thesis unfolding step by (simp add: h upd g(1,2))
    qed
  qed
qed

lemma on_profile_limits:
  assumes "0 \<le> ct" "real k * ct \<le> D" and D: "0 < D" "pp_duration p = D"
    and vel: "1.875 * \<bar>pp_distance p\<bar> / v \<le> D" "0 < v"
  shows "\<bar>command_velocity (on_profile ct p k g)\<bar> \<le> v"
    and "5.773502691896258 * \<bar>pp_distance p\<bar> / a \<le> D\<^sup>2 \<Longrightarrow> 0 < a
      \<Longrightarrow> \<bar>command_acceleration (on_profile ct p k g)\<bar> \<le> a"
    and "\<exists>s. 0 \<le> s \<and> s \<le> 1 \<and>
      command_position (on_profile ct p k g) = pp_start p + pp_distance p * s"
proof -
  let ?s = "real k * ct / D"
  have s: "0 \<le> ?s" "?s \<le> 1" using assms(1-3) by simp_all
  note b = blend_velocity_bounds [OF s] blend_acceleration_bound [OF s] blend_bounds [OF s]
  have "\<bar>command_velocity (on_profile ct p k g)\<bar> = \<bar>pp_distance p\<bar> * blend_velocity ?s / D"
    using b(1) D by (simp add: on_profile_def abs_mult)
  also have "\<dots> \<le> \<bar>pp_distance p\<bar> * 1.875 / D"
    using b(2) D by (intro divide_right_mono mult_left_mono) simp_all
  also have "\<dots> \<le> v" using vel D by (simp add: field_simps)
  finally show "\<bar>command_velocity (on_profile ct p k g)\<bar> \<le> v" .
  show "\<bar>command_acceleration (on_profile ct p k g)\<bar> \<le> a"
    if acc: "5.773502691896258 * \<bar>pp_distance p\<bar> / a \<le> D\<^sup>2" "0 < a"
  proof -
    have "\<bar>command_acceleration (on_profile ct p k g)\<bar> =
        \<bar>pp_distance p\<bar> * \<bar>blend_acceleration ?s\<bar> / D\<^sup>2"
      using D by (simp add: on_profile_def abs_mult power2_eq_square)
    also have "\<dots> \<le> \<bar>pp_distance p\<bar> * 5.773502691896258 / D\<^sup>2"
      using b(3) D by (intro divide_right_mono mult_left_mono) simp_all
    also have "\<dots> \<le> a" using acc D by (simp add: field_simps)
    finally show ?thesis .
  qed
  show "\<exists>s. 0 \<le> s \<and> s \<le> 1 \<and> command_position (on_profile ct p k g) = pp_start p + pp_distance p * s"
    using b(4,5) D(2) by (intro exI [of _ "blend ?s"]) (simp add: on_profile_def)
qed

subsection \<open>Segments\<close>

lemma derivative_inside:
  fixes f h :: "real \<Rightarrow> real"
  assumes "0 < t" "t < T" "(h has_real_derivative d) (at t)" "\<And>x. 0 < x \<Longrightarrow> x < T \<Longrightarrow> f x = h x"
  shows "(f has_real_derivative d) (at t)"
proof -
  have "open {0<..<T}" "t \<in> {0<..<T}" using assms by auto
  then show ?thesis
    by (rule has_field_derivative_transform_within_open [OF assms(3)]) (use assms(4) in auto)
qed

lemma poly_derivatives:
  fixes c0 :: real
  shows "((\<lambda>t. c0 + c1 * t + c2 * t * t + c3 * t * t * t + c4 * t * t * t * t + c5 * t * t * t * t * t)
      has_real_derivative c1 + 2 * c2 * t + 3 * c3 * t * t + 4 * c4 * t * t * t + 5 * c5 * t * t * t * t) (at t)"
    "((\<lambda>t. c1 + 2 * c2 * t + 3 * c3 * t * t + 4 * c4 * t * t * t + 5 * c5 * t * t * t * t)
      has_real_derivative 2 * c2 + 6 * c3 * t + 12 * c4 * t * t + 20 * c5 * t * t * t) (at t)"
  by (auto intro!: derivative_eq_intros simp: algebra_simps)

lemma cubic_coefficients:
  fixes T p0 p1 v0 v1 :: real
  assumes "T \<noteq> 0"
  defines "c2 \<equiv> (3 * (p1 - p0) - (2 * v0 + v1) * T) / (T * T)"
    and "c3 \<equiv> (2 * (p0 - p1) + (v0 + v1) * T) / (T * T * T)"
  shows "p0 + v0 * T + c2 * T * T + c3 * T * T * T = p1"
    "v0 + 2 * c2 * T + 3 * c3 * T * T = v1"
proof -
  have c2: "c2 * T * T = 3 * (p1 - p0) - (2 * v0 + v1) * T" and c3: "c3 * T * T * T = 2 * (p0 - p1) + (v0 + v1) * T"
    using assms(1) by (simp_all add: c2_def c3_def)
  then show "p0 + v0 * T + c2 * T * T + c3 * T * T * T = p1" by (simp add: algebra_simps)
  have "(v0 + 2 * c2 * T + 3 * c3 * T * T) * T = v0 * T + 2 * (c2 * T * T) + 3 * (c3 * T * T * T)"
    by (simp add: algebra_simps)
  also have "\<dots> = v1 * T" unfolding c2 c3 by (simp add: algebra_simps)
  finally show "v0 + 2 * c2 * T + 3 * c3 * T * T = v1" using assms(1) by simp
qed

lemma quintic_coefficients:
  fixes T p0 p1 v0 v1 a0 a1 :: real
  assumes "T \<noteq> 0"
  defines "c3 \<equiv> (20 * (p1 - p0) - (8 * v1 + 12 * v0) * T - (3 * a0 - a1) * (T * T)) / (2 * (T * T * T))"
    and "c4 \<equiv> (30 * (p0 - p1) + (14 * v1 + 16 * v0) * T + (3 * a0 - 2 * a1) * (T * T)) / (2 * (T * T * T * T))"
    and "c5 \<equiv> (12 * (p1 - p0) - (6 * v1 + 6 * v0) * T - (a0 - a1) * (T * T)) / (2 * (T * T * T * T * T))"
  shows "p0 + v0 * T + a0 / 2 * T * T + c3 * T * T * T + c4 * T * T * T * T + c5 * T * T * T * T * T = p1"
    "v0 + 2 * (a0 / 2) * T + 3 * c3 * T * T + 4 * c4 * T * T * T + 5 * c5 * T * T * T * T = v1"
    "2 * (a0 / 2) + 6 * c3 * T + 12 * c4 * T * T + 20 * c5 * T * T * T = a1"
proof -
  have c3: "c3 * T * T * T = (20 * (p1 - p0) - (8 * v1 + 12 * v0) * T - (3 * a0 - a1) * (T * T)) / 2"
    and c4: "c4 * T * T * T * T = (30 * (p0 - p1) + (14 * v1 + 16 * v0) * T + (3 * a0 - 2 * a1) * (T * T)) / 2"
    and c5: "c5 * T * T * T * T * T = (12 * (p1 - p0) - (6 * v1 + 6 * v0) * T - (a0 - a1) * (T * T)) / 2"
    using assms(1) by (simp_all add: c3_def c4_def c5_def)
  show "p0 + v0 * T + a0 / 2 * T * T + c3 * T * T * T + c4 * T * T * T * T + c5 * T * T * T * T * T = p1"
    unfolding c3 c4 c5 by (simp add: field_simps)
  have "(v0 + 2 * (a0 / 2) * T + 3 * c3 * T * T + 4 * c4 * T * T * T + 5 * c5 * T * T * T * T) * T
      = v0 * T + a0 * T * T + 3 * (c3 * T * T * T) + 4 * (c4 * T * T * T * T) + 5 * (c5 * T * T * T * T * T)"
    by (simp add: algebra_simps)
  also have "\<dots> = v1 * T" unfolding c3 c4 c5 by (simp add: field_simps)
  finally show "v0 + 2 * (a0 / 2) * T + 3 * c3 * T * T + 4 * c4 * T * T * T + 5 * c5 * T * T * T * T = v1"
    using assms(1) by simp
  have "(2 * (a0 / 2) + 6 * c3 * T + 12 * c4 * T * T + 20 * c5 * T * T * T) * (T * T)
      = a0 * (T * T) + 6 * (c3 * T * T * T) + 12 * (c4 * T * T * T * T) + 20 * (c5 * T * T * T * T * T)"
    by (simp add: algebra_simps)
  also have "\<dots> = a1 * (T * T)" unfolding c3 c4 c5 by (simp add: field_simps)
  finally show "2 * (a0 / 2) + 6 * c3 * T + 12 * c4 * T * T + 20 * c5 * T * T * T = a1"
    using assms(1) by simp
qed

subsection \<open>Timed trajectories over many cycles\<close>

lemma find_from_valid:
  assumes "find_timed_segment_from i ps e = Some k"
  shows "i \<le> k \<and> k - i + 1 < length ps \<and> e \<le> time_from_start (ps ! (k - i + 1)) \<and>
    (time_from_start (hd ps) \<le> e \<longrightarrow> time_from_start (ps ! (k - i)) \<le> e)"
  using assms
proof (induction i ps e rule: find_timed_segment_from.induct)
  case (1 i p q ps e)
  show ?case
  proof (cases "e \<le> time_from_start q")
    case False
    with 1 have "i + 1 \<le> k \<and> k - (i + 1) + 1 < length (q # ps) \<and>
      e \<le> time_from_start ((q # ps) ! (k - (i + 1) + 1)) \<and> time_from_start ((q # ps) ! (k - (i + 1))) \<le> e"
      by simp
    moreover from this have "k - i = Suc (k - (i + 1))" by linarith
    ultimately show ?thesis by simp
  qed (use 1 in simp)
qed simp_all

lemma find_from_None:
  "find_timed_segment_from i ps e = None \<Longrightarrow> 2 \<le> length ps \<Longrightarrow> time_from_start (last ps) < e"
  by (induction i ps e rule: find_timed_segment_from.induct)
    (auto split: if_splits simp: not_le neq_Nil_conv Suc_le_eq)

text \<open>The segment found for a time inside the trajectory contains this time.\<close>

lemma find_timed_segment_contains:
  assumes "2 \<le> length (timed_points g)" "e \<le> time_from_start (last (timed_points g))"
  shows "find_timed_segment g e + 1 < length (timed_points g)"
    and "e \<le> time_from_start (timed_points g ! (find_timed_segment g e + 1))"
    and "time_from_start (hd (timed_points g)) \<le> e \<Longrightarrow>
      time_from_start (timed_points g ! find_timed_segment g e) \<le> e"
proof -
  obtain k where k: "find_timed_segment_from 0 (timed_points g) e = Some k"
    using assms find_from_None [of 0 "timed_points g" e]
    by (cases "find_timed_segment_from 0 (timed_points g) e") auto
  then show "find_timed_segment g e + 1 < length (timed_points g)"
    "e \<le> time_from_start (timed_points g ! (find_timed_segment g e + 1))"
    "time_from_start (hd (timed_points g)) \<le> e \<Longrightarrow>
      time_from_start (timed_points g ! find_timed_segment g e) \<le> e"
    using find_from_valid [OF k] by (simp_all add: find_timed_segment_def)
qed

lemma update_timed_step:
  fixes vmax acc dec j :: real
  assumes "timed_active g" "timed_points g \<noteq> []" "1 / 10 ^ 9 \<le> ct"
  defines "g' \<equiv> snd (update ct vmax acc dec (Some j) g)"
  shows "time_from_start (last (timed_points g)) - timed_elapsed g \<le> ct / 2 \<Longrightarrow>
      g' = finish_timed_trajectory g"
    and "ct / 2 < time_from_start (last (timed_points g)) - timed_elapsed g \<Longrightarrow>
      timed_active g' \<and> timed_points g' = timed_points g \<and> timed_elapsed g' = timed_elapsed g + ct"
proof -
  have ct: "max ct (1 / 10 ^ 9) = ct" using assms(3) by (rule max_absorb1)
  have g': "g' = update_timed_trajectory ct g"
    unfolding g'_def update_def Let_def ct using assms(1) by simp
  have pos: "0 < ct" using assms(3) less_le_trans [of 0 "1 / 10 ^ 9" ct] by simp
  then show "g' = finish_timed_trajectory g"
    if "time_from_start (last (timed_points g)) - timed_elapsed g \<le> ct / 2"
    using that assms(2) by (simp add: g' update_timed_trajectory_def Let_def)
  show "timed_active g' \<and> timed_points g' = timed_points g \<and> timed_elapsed g' = timed_elapsed g + ct"
    if "ct / 2 < time_from_start (last (timed_points g)) - timed_elapsed g"
    using that assms(1,2) pos
    by (auto simp: g' update_timed_trajectory_def Let_def split: prod.split)
qed

subsection \<open>The trapezoid point move\<close>

text \<open>The generator moves towards its target, within the limits.\<close>

definition approaching :: "real \<Rightarrow> real \<Rightarrow> generator \<Rightarrow> bool" where
  "approaching vmax amax g \<longleftrightarrow>
     0 \<le> (target_position g - command_position g) * command_velocity g \<and>
     (target_position g = command_position g \<longrightarrow> command_velocity g = 0) \<and>
     \<bar>command_velocity g\<bar> \<le> vmax \<and> \<bar>command_acceleration g\<bar> \<le> amax"

lemma approaching_frame [frame]:
  "approaching v a (g\<lparr>point_move_profile_state := x\<rparr>) \<longleftrightarrow> approaching v a g"
  by (simp add: approaching_def)

text \<open>The velocity of the next cycle lies between the old one and the desired one.\<close>

lemma limited_velocity:
  fixes v d m :: real
  assumes "0 \<le> m"
  defines "w \<equiv> v + max (min (d - v) m) (- m)"
  shows "min v d \<le> w" "w \<le> max v d" "\<bar>w - v\<bar> \<le> m"
  using assms by (auto simp: min_def max_def)

text \<open>One cycle either arrives or moves with a velocity between the old and the desired one.\<close>

lemma trapezoid_cases:
  fixes vmax :: real and g :: generator
  assumes pos: "0 < ct" "0 < acc" "0 < dec"
  defines "g' \<equiv> update_trapezoid ct vmax acc dec g"
  obtains "g' = g\<lparr>command_position := target_position g, command_velocity := 0, command_acceleration := 0\<rparr>"
  | w d where "d = 0 \<or> d = (if command_position g \<le> target_position g then vmax else - vmax)"
      "min (command_velocity g) d \<le> w" "w \<le> max (command_velocity g) d"
      "\<bar>w - command_velocity g\<bar> \<le> max acc dec * ct"
      "\<not> crossed_target g (command_position g + w * ct)"
      "g' = g\<lparr>command_position := command_position g + w * ct, command_velocity := w,
             command_acceleration := (w - command_velocity g) / ct\<rparr>"
proof -
  let ?e = "target_position g - command_position g" and ?v = "command_velocity g"
  define d where "d = (if \<bar>?e\<bar> \<le> ?v * ?v / (2 * max dec (1 / 10 ^ 9)) then 0
    else (if ?e \<ge> 0 then 1 else - 1) * vmax)"
  define m where "m = (if \<bar>d\<bar> > \<bar>?v\<bar> then acc else dec) * ct"
  define w where "w = ?v + max (min (d - ?v) m) (- m)"
  have m: "0 \<le> m" "m \<le> max acc dec * ct"
    using pos by (auto simp: m_def intro!: mult_right_mono)
  have w: "min ?v d \<le> w" "w \<le> max ?v d" "\<bar>w - ?v\<bar> \<le> m"
    unfolding w_def by (rule limited_velocity [OF m(1)])+
  have g': "g' = (if \<bar>?e\<bar> \<le> 1 / 10 ^ 9 \<and> \<bar>?v\<bar> \<le> 1 / 10 ^ 9
        \<or> crossed_target g (command_position g + w * ct) then
        g\<lparr>command_position := target_position g, command_velocity := 0, command_acceleration := 0\<rparr>
      else g\<lparr>command_position := command_position g + w * ct, command_velocity := w,
        command_acceleration := (w - ?v) / ct\<rparr>)"
    unfolding g'_def update_trapezoid_def Let_def w_def m_def d_def
    by (simp only: if_distribR if_bool_eq_disj split: if_split) blast
  have d: "d = 0 \<or> d = (if command_position g \<le> target_position g then vmax else - vmax)"
    by (simp add: d_def)
  show ?thesis
  proof (cases "\<bar>?e\<bar> \<le> 1 / 10 ^ 9 \<and> \<bar>?v\<bar> \<le> 1 / 10 ^ 9 \<or> crossed_target g (command_position g + w * ct)")
    case True
    then show ?thesis using that(1) g' by simp
  next
    case False
    have b: "\<bar>w - ?v\<bar> \<le> max acc dec * ct" using w(3) m(2) by linarith
    from False have n: "\<not> crossed_target g (command_position g + w * ct)" by blast
    show ?thesis by (rule that(2) [OF d w(1,2) b n]) (simp only: g' False if_False)
  qed
qed

lemma trapezoid_step:
  assumes pos: "0 < ct" "0 \<le> vmax" "0 < acc" "0 < dec"
    and a: "approaching vmax (max acc dec) g"
  defines "g' \<equiv> update_trapezoid ct vmax acc dec g"
  shows "approaching vmax (max acc dec) g' \<and> target_position g' = target_position g \<and>
    csp_profile g' = csp_profile g \<and> timed_active g' = timed_active g \<and>
    (\<exists>s. 0 \<le> s \<and> s \<le> 1 \<and>
       target_position g - command_position g' = (target_position g - command_position g) * s)"
proof (cases rule: trapezoid_cases [OF pos(1,3,4), of vmax g])
  case 1
  then have g': "g' = g\<lparr>command_position := target_position g, command_velocity := 0,
      command_acceleration := 0\<rparr>" by (simp only: g'_def)
  show ?thesis using pos by (auto simp: g' approaching_def intro!: exI [of _ 0])
next
  case (2 w d)
  let ?v = "command_velocity g" and ?p = "command_position g" and ?t = "target_position g"
  have g': "g' = g\<lparr>command_position := ?p + w * ct, command_velocity := w,
      command_acceleration := (w - ?v) / ct\<rparr>" using 2(6) by (simp only: g'_def)
  have ne: "?p \<noteq> ?t \<or> ?v = 0" using a by (auto simp: approaching_def)
  have acc: "\<bar>(w - ?v) / ct\<bar> \<le> max acc dec" using 2(4) pos by (simp add: field_simps)
  consider "?p \<le> ?t" "0 \<le> w" "w \<le> vmax" "?p + w * ct < ?t"
    | "?t < ?p" "w \<le> 0" "- vmax \<le> w" "?t < ?p + w * ct"
  proof (cases "?p \<le> ?t")
    case True
    have "0 \<le> ?v" "?v \<le> vmax"
      using a True ne by (auto simp: approaching_def zero_le_mult_iff)
    moreover have "0 \<le> d" "d \<le> vmax" using 2(1) True pos by auto
    ultimately have "0 \<le> w" "w \<le> vmax" using 2(2,3) by (auto simp: min_def max_def split: if_splits)
    with True 2(5) that(1) show ?thesis by (simp add: crossed_target_def)
  next
    case False
    then have "?v \<le> 0" "- vmax \<le> ?v"
      using a by (auto simp: approaching_def zero_le_mult_iff)
    moreover have "d \<le> 0" "- vmax \<le> d" using 2(1) False pos by auto
    ultimately have "w \<le> 0" "- vmax \<le> w" using 2(2,3) by (auto simp: min_def max_def split: if_splits)
    with False 2(5) that(2) show ?thesis by (simp add: crossed_target_def)
  qed
  then have "approaching vmax (max acc dec) g' \<and>
      0 \<le> (?t - (?p + w * ct)) / (?t - ?p) \<and> (?t - (?p + w * ct)) / (?t - ?p) \<le> 1 \<and> ?t \<noteq> ?p"
  proof cases
    case 1
    have "0 \<le> w * ct" using 1 pos by simp
    with 1 acc show ?thesis by (auto simp: g' approaching_def)
  next
    case 2
    have "w * ct \<le> 0" using 2 pos by (simp add: mult_nonpos_nonneg)
    moreover have "0 \<le> (?t - (?p + w * ct)) * w"
      using 2 by (intro mult_nonpos_nonpos) simp_all
    ultimately show ?thesis using 2 acc by (auto simp: g' approaching_def divide_nonpos_neg)
  qed
  then show ?thesis
    by (auto simp: g' intro!: exI [of _ "(?t - (?p + w * ct)) / (?t - ?p)"])
qed

lemma cycles_Suc:
  "cycles ct vmax acc dec j (Suc n) g = snd (update ct vmax acc dec (Some j) (cycles ct vmax acc dec j n g))"
  by (simp add: cycles_def)

lemma update_is_trapezoid:
  assumes "\<not> timed_active g" "csp_profile g = ''trapezoid''" "1 / 10 ^ 9 \<le> ct" "0 \<le> vmax"
    "1 / 10 ^ 9 \<le> acc" "1 / 10 ^ 9 \<le> dec"
  shows "snd (update ct vmax acc dec (Some j) g) =
    update_trapezoid ct vmax acc dec (g\<lparr>point_move_profile_state := None\<rparr>)"
  using assms by (simp add: update_def Let_def max_absorb1)

subsection \<open>Properties\<close>

text \<open>C22: a quintic point move respects its limits in every cycle. Started at rest on the quintic
  profile, whatever the number of cycles, the commanded velocity never exceeds the maximum
  velocity, the commanded acceleration never exceeds the acceleration nor the deceleration limit,
  and the commanded position stays between the start and the target.\<close>

theorem quintic_move_within_limits:
  assumes "\<not> timed_active g" and "csp_profile g = ''quintic''" and "point_move_profile_state g = None"
    and "1 / 10 ^ 9 \<le> ct" and "1 / 10 ^ 9 \<le> vmax" and "1 / 10 ^ 9 \<le> acc" and "1 / 10 ^ 9 \<le> dec"
    and "0 < j" and "1 / 10 ^ 9 < \<bar>target_position g - command_position g\<bar>"
  shows "\<bar>command_velocity (cycles ct vmax acc dec j (Suc n) g)\<bar> \<le> vmax \<and>
         \<bar>command_acceleration (cycles ct vmax acc dec j (Suc n) g)\<bar> \<le> min acc dec \<and>
         (\<exists>s. 0 \<le> s \<and> s \<le> 1 \<and> command_position (cycles ct vmax acc dec j (Suc n) g) =
            command_position g + (target_position g - command_position g) * s)"
proof -
  let ?p = "profile_of g vmax acc dec j" and ?h = "cycles ct vmax acc dec j (Suc n) g"
  have eps: "(0::real) < 1 / 10 ^ 9" by simp
  then have pos: "0 < vmax" "0 < acc" "0 < dec" "0 < ct" using assms(4-7) by linarith+
  note D = duration_bounds [OF assms(9,5-7), of j]
  note cf = quintic_move_closed_form [OF assms, of n]
  show ?thesis
  proof (cases "real (Suc n) * ct < pp_duration ?p - ct / 2")
    case True
    then have le: "real (Suc n) * ct \<le> pp_duration ?p" using pos(4) by linarith
    have h: "?h = on_profile ct ?p (Suc n) g" using cf True by simp
    have ct: "0 \<le> ct" using pos(4) by simp
    have vel: "1.875 * \<bar>pp_distance ?p\<bar> / vmax \<le> pp_duration ?p" using D(2) by simp
    note lim = on_profile_limits [OF ct le D(1) refl vel pos(1), where g = g]
    show ?thesis
      using lim(1) lim(2) [of acc] lim(2) [of dec] lim(3) D(3,4) pos unfolding h by simp
  next
    case False
    then have "?h = arrive g" using cf by simp
    with pos show ?thesis by (auto intro!: exI [of _ 1])
  qed
qed

definition demo_generator :: generator where
  "demo_generator = set_target_position 10
     \<lparr>command_position = 0, target_position = 0, command_velocity = 0, command_acceleration = 0,
      timed_points = [], timed_elapsed = 0, timed_segment = 0, timed_active = False,
      trajectory_move_profile = ''point_move'', point_move_profile_state = None,
      csp_profile = ''quintic''\<rparr>"

lemma demo_generator_facts:
  "\<not> timed_active demo_generator" "csp_profile demo_generator = ''quintic''"
  "point_move_profile_state demo_generator = None" "command_position demo_generator = 0"
  "target_position demo_generator = 10"
  by (simp_all add: demo_generator_def set_target_position_def)

theorem quintic_move_within_limits_witness:
  "\<bar>command_velocity (cycles (1 / 100) 5 20 30 100 (Suc 7) demo_generator)\<bar> \<le> 5 \<and>
   \<bar>command_acceleration (cycles (1 / 100) 5 20 30 100 (Suc 7) demo_generator)\<bar> \<le> min 20 30 \<and>
   (\<exists>s. 0 \<le> s \<and> s \<le> 1 \<and> command_position (cycles (1 / 100) 5 20 30 100 (Suc 7) demo_generator) =
      command_position demo_generator
        + (target_position demo_generator - command_position demo_generator) * s)"
  by (rule quintic_move_within_limits) (simp_all add: demo_generator_facts)

text \<open>C23: a quintic point move arrives. After finitely many cycles the commanded position is the
  target exactly, with velocity and acceleration zero and no profile left, and it stays so in every
  later cycle; the number of cycles is at most the profile's duration over the cycle time, plus
  one.\<close>

theorem quintic_move_arrives:
  assumes "\<not> timed_active g" and "csp_profile g = ''quintic''" and "point_move_profile_state g = None"
    and "1 / 10 ^ 9 \<le> ct" and "1 / 10 ^ 9 \<le> vmax" and "1 / 10 ^ 9 \<le> acc" and "1 / 10 ^ 9 \<le> dec"
    and "0 < j" and "1 / 10 ^ 9 < \<bar>target_position g - command_position g\<bar>"
    and "nat \<lceil>pp_duration (profile_of g vmax acc dec j) / ct\<rceil> < n"
  shows "cycles ct vmax acc dec j n g =
     g\<lparr>command_position := target_position g, command_velocity := 0, command_acceleration := 0,
       point_move_profile_state := None\<rparr>"
proof -
  let ?D = "pp_duration (profile_of g vmax acc dec j)"
  obtain k where n: "n = Suc k" using assms(10) by (cases n) simp_all
  have eps: "(0::real) < 1 / 10 ^ 9" by simp
  then have ct: "0 < ct" using assms(4) by linarith
  have "?D / ct \<le> real (Suc k)" using assms(10) n by linarith
  then have "?D \<le> real (Suc k) * ct" using ct by (simp add: field_simps)
  then have "\<not> real (Suc k) * ct < ?D - ct / 2" using ct by linarith
  then show ?thesis
    using quintic_move_closed_form [OF assms(1-9), of k] n by (simp add: arrive_def)
qed

theorem quintic_move_arrives_witness:
  "cycles (1 / 100) 5 20 30 100
     (Suc (nat \<lceil>pp_duration (profile_of demo_generator 5 20 30 100) / (1 / 100)\<rceil>)) demo_generator =
   demo_generator\<lparr>command_position := target_position demo_generator, command_velocity := 0,
     command_acceleration := 0, point_move_profile_state := None\<rparr>"
  by (rule quintic_move_arrives) (simp_all add: demo_generator_facts)

definition demo_point :: traj_point where
  "demo_point = \<lparr>tp_position = 0, tp_velocity = Some 1, tp_acceleration = Some 2, time_from_start = 0\<rparr>"

definition demo_point2 :: traj_point where
  "demo_point2 = \<lparr>tp_position = 3, tp_velocity = Some (- 1), tp_acceleration = None, time_from_start = 2\<rparr>"

text \<open>A quintic trajectory segment interpolates its way points. It starts with the position,
  velocity and acceleration of its start point and ends with those of its end point, and inside the
  segment the velocity it returns is the derivative of its position and the acceleration the
  derivative of its velocity.\<close>

theorem quintic_segment_interpolates:
  assumes "1 / 10 ^ 9 \<le> T"
  shows "interpolate_quintic_segment a b 0 T =
           (tp_position a, or_zero (tp_velocity a), or_zero (tp_acceleration a)) \<and>
         interpolate_quintic_segment a b T T =
           (tp_position b, or_zero (tp_velocity b), or_zero (tp_acceleration b)) \<and>
         (\<forall>t. 0 < t \<and> t < T \<longrightarrow>
            ((\<lambda>t. fst (interpolate_quintic_segment a b t T)) has_real_derivative
               fst (snd (interpolate_quintic_segment a b t T))) (at t) \<and>
            ((\<lambda>t. fst (snd (interpolate_quintic_segment a b t T))) has_real_derivative
               snd (snd (interpolate_quintic_segment a b t T))) (at t))"
proof -
  have T: "max T (1 / 10 ^ 9) = T" "0 < T"
    using assms less_le_trans [of 0 "1 / 10 ^ 9" T] by (simp_all add: max_absorb1)
  note d = interpolate_quintic_segment_def [of a b _ T, unfolded T(1) Let_def]
  show ?thesis
  proof (intro conjI allI impI; (elim conjE)?)
    show "interpolate_quintic_segment a b 0 T =
           (tp_position a, or_zero (tp_velocity a), or_zero (tp_acceleration a))"
      unfolding d using T(2) by simp
    have "max 0 (min T T) = T" using T(2) by simp
    then show "interpolate_quintic_segment a b T T =
           (tp_position b, or_zero (tp_velocity b), or_zero (tp_acceleration b))"
      unfolding d using T(2) by (simp only: quintic_coefficients less_irrefl not_False_eq_True)
  next
    fix t assume t: "0 < t" "t < T"
    then have clamp: "max 0 (min T x) = x" if "0 < x" "x < T" for x using that by simp
    show "((\<lambda>t. fst (interpolate_quintic_segment a b t T)) has_real_derivative
               fst (snd (interpolate_quintic_segment a b t T))) (at t)"
      unfolding d clamp [OF t] fst_conv snd_conv
      by (rule derivative_inside [OF t poly_derivatives(1)]) (simp only: clamp)
    show "((\<lambda>t. fst (snd (interpolate_quintic_segment a b t T))) has_real_derivative
               snd (snd (interpolate_quintic_segment a b t T))) (at t)"
      unfolding d clamp [OF t] fst_conv snd_conv
      by (rule derivative_inside [OF t poly_derivatives(2)]) (simp only: clamp)
  qed
qed


theorem quintic_segment_interpolates_witness:
  "interpolate_quintic_segment demo_point demo_point2 2 2 = (3, - 1, 0) \<and>
   ((\<lambda>t. fst (interpolate_quintic_segment demo_point demo_point2 t 2)) has_real_derivative
      fst (snd (interpolate_quintic_segment demo_point demo_point2 1 2))) (at 1)"
  using quintic_segment_interpolates [of 2 demo_point demo_point2]
  by (simp add: demo_point2_def or_zero_def)

text \<open>A cubic trajectory segment interpolates its way points: it starts with the position and
  velocity of its start point and ends with those of its end point, and inside the segment the
  velocity it returns is the derivative of its position and the acceleration the derivative of its
  velocity.\<close>

theorem cubic_segment_interpolates:
  assumes "1 / 10 ^ 9 \<le> T"
  shows "fst (interpolate_cubic_segment a b 0 T) = tp_position a \<and>
         fst (snd (interpolate_cubic_segment a b 0 T)) = or_zero (tp_velocity a) \<and>
         fst (interpolate_cubic_segment a b T T) = tp_position b \<and>
         fst (snd (interpolate_cubic_segment a b T T)) = or_zero (tp_velocity b) \<and>
         (\<forall>t. 0 < t \<and> t < T \<longrightarrow>
            ((\<lambda>t. fst (interpolate_cubic_segment a b t T)) has_real_derivative
               fst (snd (interpolate_cubic_segment a b t T))) (at t) \<and>
            ((\<lambda>t. fst (snd (interpolate_cubic_segment a b t T))) has_real_derivative
               snd (snd (interpolate_cubic_segment a b t T))) (at t))"
proof -
  have T: "max T (1 / 10 ^ 9) = T" "0 < T"
    using assms less_le_trans [of 0 "1 / 10 ^ 9" T] by (simp_all add: max_absorb1)
  note d = interpolate_cubic_segment_def [of a b _ T, unfolded T(1) Let_def]
  have e: "T \<noteq> 0" "max 0 (min T T) = T" using T(2) by simp_all
  have clamp: "max 0 (min T x) = x" if "0 < x" "x < T" for x using that by simp
  have "((\<lambda>t. fst (interpolate_cubic_segment a b t T)) has_real_derivative
           fst (snd (interpolate_cubic_segment a b t T))) (at t) \<and>
        ((\<lambda>t. fst (snd (interpolate_cubic_segment a b t T))) has_real_derivative
           snd (snd (interpolate_cubic_segment a b t T))) (at t)" if t: "0 < t" "t < T" for t
    unfolding d clamp [OF t] fst_conv snd_conv
    by (intro conjI derivative_inside [OF t poly_derivatives(1) [of _ _ _ _ 0 0, simplified]]
        derivative_inside [OF t poly_derivatives(2) [of _ _ _ 0 0, simplified]]) (simp_all only: clamp)
  then show ?thesis
    unfolding d fst_conv snd_conv e(2) cubic_coefficients [OF e(1)] using T(2) by simp
qed

text \<open>C29: a timed trajectory ends at its last way point. Loading at least two points and running
  the generator, the trajectory stays active with its clock advancing by one cycle time per cycle,
  and after at most \<open>T / ct + 1\<close> cycles it is inactive, with the commanded and the target position
  equal to the position of the last point.\<close>

theorem timed_trajectory_ends:
  assumes "2 \<le> length points" and "1 / 10 ^ 9 \<le> ct"
  shows "\<exists>n \<le> nat \<lceil>time_from_start (last points) / ct\<rceil>.
     (\<forall>m \<le> n. timed_active (cycles ct vmax acc dec j m (set_trajectory_move points g)) \<and>
        timed_elapsed (cycles ct vmax acc dec j m (set_trajectory_move points g)) = real m * ct) \<and>
     \<not> timed_active (cycles ct vmax acc dec j (Suc n) (set_trajectory_move points g)) \<and>
     command_position (cycles ct vmax acc dec j (Suc n) (set_trajectory_move points g))
       = tp_position (last points) \<and>
     target_position (cycles ct vmax acc dec j (Suc n) (set_trajectory_move points g))
       = tp_position (last points)"
proof -
  let ?g = "set_trajectory_move points g" and ?T = "time_from_start (last points)"
  let ?c = "\<lambda>m. cycles ct vmax acc dec j m ?g"
  have ct: "0 < ct" using assms(2) less_le_trans [of 0 "1 / 10 ^ 9" ct] by simp
  have ne: "points \<noteq> []" using assms(1) by auto
  have stepc: "?c (Suc m) = snd (update ct vmax acc dec (Some j) (?c m))" for m
    by (simp add: cycles_def)
  define n where "n = (LEAST n. ?T - real n * ct \<le> ct / 2)"
  have "?T / ct \<le> real (nat \<lceil>?T / ct\<rceil>)" by linarith
  then have "?T - real (nat \<lceil>?T / ct\<rceil>) * ct \<le> ct / 2" using ct by (simp add: field_simps)
  then have n: "?T - real n * ct \<le> ct / 2" "n \<le> nat \<lceil>?T / ct\<rceil>"
    unfolding n_def by (rule LeastI, rule Least_le)
  have least: "ct / 2 < ?T - real m * ct" if "m < n" for m
    using not_less_Least [of m "\<lambda>n. ?T - real n * ct \<le> ct / 2"] that by (simp add: n_def)
  have run: "timed_active (?c m) \<and> timed_points (?c m) = points \<and> timed_elapsed (?c m) = real m * ct"
    if "m \<le> n" for m
    using that
  proof (induction m)
    case 0
    show ?case using assms(1)
      by (cases points) (simp_all add: cycles_def set_trajectory_move_def Let_def)
  next
    case (Suc m)
    then show ?case
      using update_timed_step(2) [of "?c m" ct vmax acc dec j] ne assms least [of m]
      unfolding stepc by (auto simp: algebra_simps)
  qed
  have "?c (Suc n) = finish_timed_trajectory (?c n)"
    unfolding stepc using run [of n] n(1) ne assms by (intro update_timed_step(1)) auto
  then show ?thesis
    using run n(2) by (intro exI [of _ n]) (simp add: finish_timed_trajectory_def Let_def)
qed

theorem timed_trajectory_ends_witness:
  "\<exists>n \<le> nat \<lceil>time_from_start (last [demo_point, demo_point2]) / (1 / 100)\<rceil>.
     \<not> timed_active (cycles (1 / 100) 5 20 30 100 (Suc n)
        (set_trajectory_move [demo_point, demo_point2] demo_generator)) \<and>
     command_position (cycles (1 / 100) 5 20 30 100 (Suc n)
        (set_trajectory_move [demo_point, demo_point2] demo_generator)) = 3"
  using timed_trajectory_ends [of "[demo_point, demo_point2]" "1 / 100" 5 20 30 100 demo_generator]
  by (auto simp: demo_point2_def)

text \<open>C30: a trapezoid point move never overshoots and respects its limits in every cycle. Started
  at rest, whatever the number of cycles, the commanded position stays between the start and the
  target, the commanded velocity is directed at the target and at most the maximum velocity, and
  the commanded acceleration at most the larger of the acceleration and deceleration limits.\<close>

theorem trapezoid_move_no_overshoot:
  assumes "\<not> timed_active g" and "csp_profile g = ''trapezoid''"
    and "command_velocity g = 0" and "command_acceleration g = 0"
    and "1 / 10 ^ 9 \<le> ct" and "0 \<le> vmax" and "1 / 10 ^ 9 \<le> acc" and "1 / 10 ^ 9 \<le> dec"
  shows "\<bar>command_velocity (cycles ct vmax acc dec j n g)\<bar> \<le> vmax \<and>
         \<bar>command_acceleration (cycles ct vmax acc dec j n g)\<bar> \<le> max acc dec \<and>
         0 \<le> (target_position g - command_position (cycles ct vmax acc dec j n g))
               * command_velocity (cycles ct vmax acc dec j n g) \<and>
         (\<exists>s. 0 \<le> s \<and> s \<le> 1 \<and>
            target_position g - command_position (cycles ct vmax acc dec j n g) =
              (target_position g - command_position g) * s)"
proof -
  have eps: "(0::real) < 1 / 10 ^ 9" by simp
  then have pos: "0 < ct" "0 < acc" "0 < dec" using assms by linarith+
  let ?c = "\<lambda>n. cycles ct vmax acc dec j n g"
  have "approaching vmax (max acc dec) (?c n) \<and> target_position (?c n) = target_position g \<and>
      csp_profile (?c n) = ''trapezoid'' \<and> \<not> timed_active (?c n) \<and>
      (\<exists>s. 0 \<le> s \<and> s \<le> 1 \<and>
         target_position g - command_position (?c n) = (target_position g - command_position g) * s)"
  proof (induction n)
    case 0
    show ?case using assms pos by (auto simp: cycles_def approaching_def intro!: exI [of _ 1])
  next
    case (Suc n)
    define h where "h = (?c n)\<lparr>point_move_profile_state := None\<rparr>"
    have c: "?c (Suc n) = update_trapezoid ct vmax acc dec h"
      using update_is_trapezoid [of "?c n" ct vmax acc dec j] Suc.IH assms(5-8)
      by (simp add: cycles_Suc h_def)
    have "approaching vmax (max acc dec) h" using Suc.IH by (simp add: h_def approaching_frame)
    note step = trapezoid_step [OF pos(1) assms(6) pos(2,3) this]
    obtain s where s: "0 \<le> s" "s \<le> 1"
      "target_position g - command_position (?c n) = (target_position g - command_position g) * s"
      using Suc.IH by blast
    obtain r where r: "0 \<le> r" "r \<le> 1" "target_position h - command_position (?c (Suc n)) =
        (target_position h - command_position h) * r"
      using step unfolding c by blast
    have "target_position g - command_position (?c (Suc n)) =
        (target_position g - command_position g) * (s * r)"
      using r(3) s(3) Suc.IH by (simp add: h_def)
    moreover have "0 \<le> s * r" "s * r \<le> 1" using s r by (simp_all add: mult_le_one)
    ultimately have "\<exists>s. 0 \<le> s \<and> s \<le> 1 \<and> target_position g - command_position (?c (Suc n)) =
        (target_position g - command_position g) * s" by blast
    then show ?case using step Suc.IH unfolding c by (simp add: h_def)
  qed
  then have "approaching vmax (max acc dec) (?c n)" "target_position (?c n) = target_position g"
    "\<exists>s. 0 \<le> s \<and> s \<le> 1 \<and>
       target_position g - command_position (?c n) = (target_position g - command_position g) * s"
    by blast+
  then show ?thesis unfolding approaching_def by metis
qed

theorem trapezoid_move_no_overshoot_witness:
  "\<bar>command_velocity (cycles (1 / 100) 5 20 30 100 40 (demo_generator\<lparr>csp_profile := ''trapezoid''\<rparr>))\<bar> \<le> 5 \<and>
   \<bar>command_acceleration (cycles (1 / 100) 5 20 30 100 40 (demo_generator\<lparr>csp_profile := ''trapezoid''\<rparr>))\<bar>
     \<le> max 20 30 \<and>
   0 \<le> (target_position (demo_generator\<lparr>csp_profile := ''trapezoid''\<rparr>)
          - command_position (cycles (1 / 100) 5 20 30 100 40 (demo_generator\<lparr>csp_profile := ''trapezoid''\<rparr>)))
        * command_velocity (cycles (1 / 100) 5 20 30 100 40 (demo_generator\<lparr>csp_profile := ''trapezoid''\<rparr>)) \<and>
   (\<exists>s. 0 \<le> s \<and> s \<le> 1 \<and>
      target_position (demo_generator\<lparr>csp_profile := ''trapezoid''\<rparr>)
        - command_position (cycles (1 / 100) 5 20 30 100 40 (demo_generator\<lparr>csp_profile := ''trapezoid''\<rparr>)) =
      (target_position (demo_generator\<lparr>csp_profile := ''trapezoid''\<rparr>)
        - command_position (demo_generator\<lparr>csp_profile := ''trapezoid''\<rparr>)) * s)"
  by (rule trapezoid_move_no_overshoot) (simp_all add: demo_generator_def set_target_position_def)

end
