(* ===== verification/Motion_Controller.thy ===== *)
theory Motion_Controller
  imports Csp_Generator "HOL-Library.AList"
begin

section \<open>The motion controller\<close>

text \<open>
  Models \<^verbatim>\<open>motion_server/control/motion_controller.py\<close>: one trajectory generator per axis, their limits
  and scales, and the cyclic computation of the position commands. An index out of range raises
  \<open>IndexError\<close>; when an operation raises halfway, the axes before have been changed. The lemmas show
  the invariant (one entry per axis in every list) and what a cycle commands.
\<close>

record AxisMotionLimits =
  max_velocity :: real
  acceleration :: real
  deceleration :: real
  jerk :: real

record axis_command =
  ac_target_position :: int
  ac_velocity_offset :: int

record command_step =
  cs_axis :: nat
  cs_previous_command_position :: real
  cs_command_position :: real
  cs_command_step :: real
  cs_previous_sent_position :: int
  cs_sent_position :: int
  cs_sent_step :: int
  cs_expected_step :: real
  cs_step_error :: real
  cs_command_velocity :: real
  cs_target_position :: real

record output_step =
  os_axis :: nat
  os_previous_output_target :: int
  os_output_target :: int
  os_output_step :: int
  os_command_target :: int
  os_expected_step :: real
  os_step_error :: real
  os_command_position :: real
  os_command_velocity :: real
  os_target_position :: real

record motion_controller =
  axis_count :: nat
  cycle_time :: real
  csp_velocity_offset_by_axis :: "bool list"
  csp_velocity_offset_enabled :: bool
  csp_command_step_threshold :: real
  csp_command_step_error_threshold :: real
  mc_csp_profile :: string
  axis_position_counts_per_api_unit :: "real list"
  motion_limits :: "AxisMotionLimits list"
  trajectory_generators :: "generator list"
  last_csp_command_steps :: "command_step list"
  last_csp_output_steps :: "output_step list"
  last_output_target_positions :: "int option list"

subsection \<open>Construction\<close>

definition motion_limits_for_index :: "AxisMotionLimits list option \<Rightarrow> nat \<Rightarrow> AxisMotionLimits res" where
  "motion_limits_for_index limits i =
     (case limits of
        None \<Rightarrow> Inr \<lparr>max_velocity = 1000, acceleration = 1000, deceleration = 1000, jerk = 0\<rparr>
      | Some ls \<Rightarrow> py_nth ls (int i))"

text \<open>The argument \<open>csp_velocity_offset_enabled\<close> is a flag or a list of flags.\<close>

definition new_controller ::
  "int \<Rightarrow> real \<Rightarrow> AxisMotionLimits list option \<Rightarrow> bool + bool list \<Rightarrow> real \<Rightarrow> real \<Rightarrow> string
   \<Rightarrow> motion_controller res" where
  "new_controller n ct limits offsets step_threshold error_threshold profile =
     (if n < 1 then Inl ValueError
      else
        bindE (case offsets of
                 Inr bs \<Rightarrow> if int (length bs) \<noteq> n then Inl ValueError else Inr bs
               | Inl b \<Rightarrow> Inr (replicate (nat n) b)) (\<lambda>by_axis.
        bindE (mapE (motion_limits_for_index limits) [0..<nat n]) (\<lambda>ls.
        bindE (mapE (\<lambda>_. new_generator 0 (lower (strip profile))) [0..<nat n]) (\<lambda>gs.
          Inr \<lparr>axis_count = nat n, cycle_time = ct, csp_velocity_offset_by_axis = by_axis,
               csp_velocity_offset_enabled = list_ex id by_axis,
               csp_command_step_threshold = step_threshold,
               csp_command_step_error_threshold = error_threshold,
               mc_csp_profile = lower (strip profile),
               axis_position_counts_per_api_unit = replicate (nat n) 1, motion_limits = ls,
               trajectory_generators = gs, last_csp_command_steps = [],
               last_csp_output_steps = [],
               last_output_target_positions = replicate (nat n) None\<rparr>))))"

subsection \<open>Operations\<close>

text \<open>\<open>for generator, value in zip(generators, values)\<close>\<close>

fun zip_update :: "('b \<Rightarrow> 'a \<Rightarrow> 'a) \<Rightarrow> 'a list \<Rightarrow> 'b list \<Rightarrow> 'a list" where
  "zip_update f (x # xs) (y # ys) = f y x # zip_update f xs ys"
| "zip_update f xs ys = xs"

definition set_target_positions :: "real list \<Rightarrow> motion_controller \<Rightarrow> motion_controller" where
  "set_target_positions targets mc =
     mc\<lparr>trajectory_generators := zip_update set_target_position (trajectory_generators mc) targets\<rparr>"

definition sync_trajectory_to_actual_positions ::
  "real list \<Rightarrow> motion_controller \<Rightarrow> motion_controller" where
  "sync_trajectory_to_actual_positions actual mc =
     mc\<lparr>trajectory_generators := zip_update reset (trajectory_generators mc) actual\<rparr>"

definition on_generator :: "int \<Rightarrow> (generator \<Rightarrow> generator) \<Rightarrow> (motion_controller, exn, unit) op" where
  "on_generator i f mc =
     (case py_index (trajectory_generators mc) i of
        Inl e \<Rightarrow> (Inl e, mc)
      | Inr k \<Rightarrow> (Inr (), mc\<lparr>trajectory_generators :=
                     (trajectory_generators mc)[k := f (trajectory_generators mc ! k)]\<rparr>))"

definition sync_trajectory_to_actual_position ::
  "int \<Rightarrow> real \<Rightarrow> (motion_controller, exn, unit) op" where
  "sync_trajectory_to_actual_position i actual = on_generator i (reset actual)"

definition set_axis_motion_limits ::
  "int \<Rightarrow> AxisMotionLimits \<Rightarrow> (motion_controller, exn, unit) op" where
  "set_axis_motion_limits i limits mc =
     (case py_index (motion_limits mc) i of
        Inl e \<Rightarrow> (Inl e, mc)
      | Inr k \<Rightarrow> (Inr (), mc\<lparr>motion_limits := (motion_limits mc)[k := limits]\<rparr>))"

definition set_axis_position_counts_per_api_unit ::
  "int \<Rightarrow> real \<Rightarrow> (motion_controller, exn, unit) op" where
  "set_axis_position_counts_per_api_unit i counts mc =
     (case py_index (axis_position_counts_per_api_unit mc) i of
        Inl e \<Rightarrow> (Inl e, mc)
      | Inr k \<Rightarrow> (Inr (), mc\<lparr>axis_position_counts_per_api_unit :=
                     (axis_position_counts_per_api_unit mc)[k := counts]\<rparr>))"

fun hold_axes ::
  "real list \<Rightarrow> real list \<Rightarrow> int list \<Rightarrow> (motion_controller, exn, real list) op" where
  "hold_axes positions actual [] mc = (Inr positions, mc)"
| "hold_axes positions actual (i # axes) mc =
     (case py_nth actual i of
        Inl e \<Rightarrow> (Inl e, mc)
      | Inr p \<Rightarrow>
          (case py_index positions i of
             Inl e \<Rightarrow> (Inl e, mc)
           | Inr k \<Rightarrow>
               (case on_generator i (reset p) mc of
                  (Inl e, mc') \<Rightarrow> (Inl e, mc')
                | (Inr _, mc') \<Rightarrow> hold_axes (positions[k := p]) actual axes mc')))"

fun relative_target_positions :: "real list \<Rightarrow> int list \<Rightarrow> real list \<Rightarrow> real list res" where
  "relative_target_positions positions (i # axes) (d # distances) =
     bindE (py_index positions i) (\<lambda>k.
       relative_target_positions (positions[k := positions ! k + d]) axes distances)"
| "relative_target_positions positions axes distances = Inr positions"

record progress =
  pr_positions :: "(int \<times> real) list"
  pr_elapsed :: real
  pr_segment :: nat
  pr_active :: bool

fun trajectory_progress_from ::
  "motion_controller \<Rightarrow> progress \<Rightarrow> int list \<Rightarrow> progress res" where
  "trajectory_progress_from mc pr [] = Inr pr"
| "trajectory_progress_from mc pr (i # axes) =
     bindE (py_nth (trajectory_generators mc) i) (\<lambda>g.
       trajectory_progress_from mc
         \<lparr>pr_positions = AList.update i (command_position g) (pr_positions pr),
          pr_elapsed = max (pr_elapsed pr) (timed_elapsed g),
          pr_segment = max (pr_segment pr) (timed_segment g),
          pr_active = (pr_active pr \<or> timed_active g)\<rparr> axes)"

definition trajectory_progress :: "motion_controller \<Rightarrow> int list \<Rightarrow> progress res" where
  "trajectory_progress mc axes =
     trajectory_progress_from mc
       \<lparr>pr_positions = [], pr_elapsed = 0, pr_segment = 0, pr_active = False\<rparr> axes"

definition command_positions :: "motion_controller \<Rightarrow> int list \<Rightarrow> real list res" where
  "command_positions mc axes =
     mapE (\<lambda>i. bindE (py_nth (trajectory_generators mc) i) (\<lambda>g. Inr (command_position g))) axes"

definition set_axis_trajectories ::
  "int list \<Rightarrow> traj_point list list \<Rightarrow> (motion_controller, exn, unit) op" where
  "set_axis_trajectories axes points_by_axis =
     forS (zip axes points_by_axis) (\<lambda>(i, points). on_generator i (set_trajectory_move points))"

definition sync_velocity_command :: "int \<Rightarrow> real \<Rightarrow> real \<Rightarrow> (motion_controller, exn, unit) op" where
  "sync_velocity_command i velocity actual =
     on_generator i (\<lambda>g. g\<lparr>command_velocity := velocity, target_position := actual,
                            command_position := actual\<rparr>)"

definition complete_trajectory ::
  "int list \<Rightarrow> real list \<Rightarrow> (motion_controller, exn, (int \<times> real) list) op" where
  "complete_trajectory axes finals =
     bindS (forS (zip axes finals) (\<lambda>(i, p). on_generator i (\<lambda>g.
       clear_trajectory_move (g\<lparr>command_position := p, target_position := p,
         command_velocity := 0, command_acceleration := 0\<rparr>))))
       (\<lambda>_. retS (fold (\<lambda>(i, p). AList.update i p) (zip axes finals) []))"

subsection \<open>The cyclic commands\<close>

definition step_is_reportable :: "motion_controller \<Rightarrow> real \<Rightarrow> real \<Rightarrow> bool" where
  "step_is_reportable mc step error \<longleftrightarrow>
     csp_command_step_threshold mc > 0 \<and> \<bar>step\<bar> \<ge> csp_command_step_threshold mc \<or>
     csp_command_step_error_threshold mc > 0 \<and> \<bar>error\<bar> \<ge> csp_command_step_error_threshold mc"

text \<open>The body of the loop for one axis, on the controller and the list of commands built so far.\<close>

definition update_axis ::
  "nat \<times> int \<times> int \<Rightarrow> (motion_controller \<times> axis_command option list, exn, unit) op" where
  "update_axis x s =
     (let (i, mode, previous_target) = x; (mc, commands) = s
      in if mode \<noteq> 8 then (Inr (), s)
         else
           let limits = motion_limits mc ! i;
               scale = axis_position_counts_per_api_unit mc ! i;
               g = trajectory_generators mc ! i
           in case update (cycle_time mc) (max_velocity limits * scale) (acceleration limits * scale)
                     (deceleration limits * scale) (Some (jerk limits * scale)) g of
                (Inl e, g') \<Rightarrow>
                  (Inl e, (mc\<lparr>trajectory_generators := (trajectory_generators mc)[i := g']\<rparr>, commands))
              | (Inr p, g') \<Rightarrow>
                  let sent_position = py_round p;
                      velocity_offset =
                        (if csp_velocity_offset_by_axis mc ! i
                         then py_round (command_velocity g' / max scale (1 / 10 ^ 9)) else 0);
                      sent_step = sent_position - previous_target;
                      expected_step = command_velocity g' * cycle_time mc;
                      step_error = of_int sent_step - expected_step;
                      report =
                        \<lparr>cs_axis = i, cs_previous_command_position = command_position g,
                         cs_command_position = p, cs_command_step = p - command_position g,
                         cs_previous_sent_position = previous_target,
                         cs_sent_position = sent_position, cs_sent_step = sent_step,
                         cs_expected_step = expected_step, cs_step_error = step_error,
                         cs_command_velocity = command_velocity g',
                         cs_target_position = target_position g'\<rparr>
                  in (Inr (),
                      (mc\<lparr>trajectory_generators := (trajectory_generators mc)[i := g'],
                          last_csp_command_steps := last_csp_command_steps mc
                            @ (if step_is_reportable mc (of_int sent_step) step_error
                               then [report] else [])\<rparr>,
                       commands[i := Some \<lparr>ac_target_position = sent_position,
                                           ac_velocity_offset = velocity_offset\<rparr>])))"

definition track_axis ::
  "axis_command option list \<Rightarrow> int list \<Rightarrow> nat \<Rightarrow> motion_controller \<Rightarrow> motion_controller" where
  "track_axis commands modes i mc =
     (case commands ! i of
        None \<Rightarrow> mc
      | Some c \<Rightarrow>
          let output_target = ac_target_position c;
              previous = last_output_target_positions mc ! i;
              mc1 = mc\<lparr>last_output_target_positions :=
                        (last_output_target_positions mc)[i := Some output_target]\<rparr>
          in case previous of
               None \<Rightarrow> mc1
             | Some prev \<Rightarrow>
                 if modes ! i \<noteq> 8 then mc1
                 else
                   let g = trajectory_generators mc ! i;
                       step = output_target - prev;
                       expected_step = command_velocity g * cycle_time mc;
                       step_error = of_int step - expected_step
                   in if step_is_reportable mc (of_int step) step_error then
                        mc1\<lparr>last_csp_output_steps := last_csp_output_steps mc1 @
                          [\<lparr>os_axis = i, os_previous_output_target = prev,
                            os_output_target = output_target, os_output_step = step,
                            os_command_target = output_target, os_expected_step = expected_step,
                            os_step_error = step_error, os_command_position = command_position g,
                            os_command_velocity = command_velocity g,
                            os_target_position = target_position g\<rparr>]\<rparr>
                      else mc1)"

definition track_output_target_steps ::
  "axis_command option list \<Rightarrow> int list \<Rightarrow> motion_controller \<Rightarrow> motion_controller" where
  "track_output_target_steps commands modes mc =
     fold (track_axis commands modes)
       [0..<min (length commands) (min (length modes) (length (trajectory_generators mc)))]
       (mc\<lparr>last_csp_output_steps := []\<rparr>)"

definition update_commands ::
  "int list \<Rightarrow> int list \<Rightarrow> (motion_controller, exn, axis_command option list) op" where
  "update_commands modes previous mc =
     (let n = min (length modes) (min (length previous) (length (trajectory_generators mc)));
          mc0 = mc\<lparr>last_csp_command_steps := []\<rparr>
      in case forS (map (\<lambda>i. (i, modes ! i, previous ! i)) [0..<n]) update_axis
                (mc0, replicate (axis_count mc) None) of
           (Inl e, (mc1, _)) \<Rightarrow> (Inl e, mc1)
         | (Inr _, (mc1, commands)) \<Rightarrow>
             (Inr commands, track_output_target_steps commands modes mc1))"

subsection \<open>The invariant\<close>

definition controller_inv :: "motion_controller \<Rightarrow> bool" where
  "controller_inv mc \<longleftrightarrow>
     1 \<le> axis_count mc \<and>
     length (csp_velocity_offset_by_axis mc) = axis_count mc \<and>
     length (axis_position_counts_per_api_unit mc) = axis_count mc \<and>
     length (motion_limits mc) = axis_count mc \<and>
     length (trajectory_generators mc) = axis_count mc \<and>
     length (last_output_target_positions mc) = axis_count mc"

lemma length_zip_update [simp]: "length (zip_update f xs ys) = length xs"
  by (induction f xs ys rule: zip_update.induct) simp_all

lemma nth_zip_update:
  "i < length xs \<Longrightarrow> zip_update f xs ys ! i = (if i < length ys then f (ys ! i) (xs ! i) else xs ! i)"
  by (induction f xs ys arbitrary: i rule: zip_update.induct) (auto simp: nth_Cons split: nat.split)

lemma mapE_length: "mapE f xs = Inr ys \<Longrightarrow> length ys = length xs"
  by (simp add: mapE_Inr_iff list_all2_lengthD)

lemma new_controller_inv:
  "new_controller n ct limits offsets st et profile = Inr mc \<Longrightarrow> controller_inv mc"
  by (auto simp: new_controller_def controller_inv_def Suc_le_eq dest!: mapE_length
      split: if_splits sum.splits)

lemma on_generator_inv: "controller_inv mc \<Longrightarrow> controller_inv (snd (on_generator i f mc))"
  by (simp add: on_generator_def controller_inv_def split: sum.split)

lemma hold_axes_inv: "controller_inv mc \<Longrightarrow> controller_inv (snd (hold_axes ps actual axes mc))"
proof (induction axes arbitrary: ps mc)
  case (Cons i axes)
  have "controller_inv mc'" if "on_generator i (reset p) mc = (r, mc')" for p r mc'
    using on_generator_inv [OF Cons.prems, of i "reset p"] that by simp
  with Cons show ?case by (auto split: sum.splits prod.splits)
qed simp

lemma update_axis_frame:
  assumes "update_axis x (mc, cmds) = (r, (mc', cmds'))"
  shows "axis_count mc' = axis_count mc" "cycle_time mc' = cycle_time mc"
    "csp_velocity_offset_by_axis mc' = csp_velocity_offset_by_axis mc"
    "axis_position_counts_per_api_unit mc' = axis_position_counts_per_api_unit mc"
    "motion_limits mc' = motion_limits mc"
    "last_output_target_positions mc' = last_output_target_positions mc"
    "length (trajectory_generators mc') = length (trajectory_generators mc)"
    "length cmds' = length cmds"
  using assms by (auto simp: update_axis_def Let_def split: if_splits prod.splits sum.splits)

lemma track_axis_frame:
  "axis_count (track_axis cmds modes i mc) = axis_count mc \<and>
   csp_velocity_offset_by_axis (track_axis cmds modes i mc) = csp_velocity_offset_by_axis mc \<and>
   axis_position_counts_per_api_unit (track_axis cmds modes i mc) = axis_position_counts_per_api_unit mc \<and>
   motion_limits (track_axis cmds modes i mc) = motion_limits mc \<and>
   trajectory_generators (track_axis cmds modes i mc) = trajectory_generators mc \<and>
   length (last_output_target_positions (track_axis cmds modes i mc)) = length (last_output_target_positions mc)"
  by (simp add: track_axis_def Let_def split: option.split)

lemma track_output_frame:
  defines "t \<equiv> track_output_target_steps"
  shows "axis_count (t cmds modes mc) = axis_count mc \<and>
   csp_velocity_offset_by_axis (t cmds modes mc) = csp_velocity_offset_by_axis mc \<and>
   axis_position_counts_per_api_unit (t cmds modes mc) = axis_position_counts_per_api_unit mc \<and>
   motion_limits (t cmds modes mc) = motion_limits mc \<and>
   trajectory_generators (t cmds modes mc) = trajectory_generators mc \<and>
   length (last_output_target_positions (t cmds modes mc)) = length (last_output_target_positions mc)"
proof -
  have "axis_count (fold (track_axis cmds modes) xs m) = axis_count m \<and>
   csp_velocity_offset_by_axis (fold (track_axis cmds modes) xs m) = csp_velocity_offset_by_axis m \<and>
   axis_position_counts_per_api_unit (fold (track_axis cmds modes) xs m) = axis_position_counts_per_api_unit m \<and>
   motion_limits (fold (track_axis cmds modes) xs m) = motion_limits m \<and>
   trajectory_generators (fold (track_axis cmds modes) xs m) = trajectory_generators m \<and>
   length (last_output_target_positions (fold (track_axis cmds modes) xs m))
     = length (last_output_target_positions m)" for xs m
    by (induction xs arbitrary: m) (simp_all add: track_axis_frame)
  then show ?thesis by (simp add: t_def track_output_target_steps_def)
qed

lemma track_output_inv: "controller_inv (track_output_target_steps cmds modes mc) \<longleftrightarrow> controller_inv mc"
  using track_output_frame [of cmds modes mc] by (simp add: controller_inv_def)

lemma update_loop_inv:
  "controller_inv (fst s) \<Longrightarrow> controller_inv (fst (snd (forS xs update_axis s)))"
proof (rule forS_invariant [where P = "\<lambda>s. controller_inv (fst s)"])
  fix x and s :: "motion_controller \<times> axis_command option list"
  assume inv: "controller_inv (fst s)"
  obtain r mc' cmds' where u: "update_axis x s = (r, (mc', cmds'))" by (metis prod.exhaust)
  obtain mc cmds where s: "s = (mc, cmds)" by fastforce
  have "controller_inv mc'"
    using inv update_axis_frame [OF u [unfolded s]] by (simp add: s controller_inv_def)
  then show "controller_inv (fst (snd (update_axis x s)))" by (simp add: u)
qed

lemma update_commands_cases:
  fixes mc :: motion_controller and modes previous :: "int list"
  defines "xs \<equiv> map (\<lambda>i. (i, modes ! i, previous ! i))
      [0..<min (length modes) (min (length previous) (length (trajectory_generators mc)))]"
    and "s \<equiv> (mc\<lparr>last_csp_command_steps := []\<rparr>, replicate (axis_count mc) None)"
  obtains e mc1 cmds where "forS xs update_axis s = (Inl e, (mc1, cmds))"
      "update_commands modes previous mc = (Inl e, mc1)"
  | mc1 cmds where "forS xs update_axis s = (Inr (), (mc1, cmds))"
      "update_commands modes previous mc = (Inr cmds, track_output_target_steps cmds modes mc1)"
proof -
  have u: "update_commands modes previous mc =
      (case forS xs update_axis s of
         (Inl e, (mc1, _)) \<Rightarrow> (Inl e, mc1)
       | (Inr _, (mc1, commands)) \<Rightarrow> (Inr commands, track_output_target_steps commands modes mc1))"
    by (simp only: update_commands_def Let_def xs_def s_def)
  obtain r t where f: "forS xs update_axis s = (r, t)" by (rule prod.exhaust)
  obtain mc1 cmds where t: "t = (mc1, cmds)" by (rule prod.exhaust)
  show ?thesis
    using that(1) [of _ mc1 cmds] that(2) [of mc1 cmds] f t u by (cases r) simp_all
qed

lemma update_commands_inv:
  assumes "controller_inv mc"
  shows "controller_inv (snd (update_commands modes previous mc))"
proof -
  let ?s = "(mc\<lparr>last_csp_command_steps := []\<rparr>, replicate (axis_count mc) None)"
  have "controller_inv (fst ?s)" using assms by (simp add: controller_inv_def)
  note inv = update_loop_inv [OF this]
  show ?thesis
  proof (cases rule: update_commands_cases [where mc = mc and modes = modes and previous = previous])
    case (1 e mc1 cmds)
    have "controller_inv (fst (snd (Inl e :: exn + unit, mc1, cmds)))"
      unfolding 1(1) [symmetric] by (rule inv)
    then have "controller_inv mc1" by simp
    then show ?thesis unfolding 1(2) by simp
  next
    case (2 mc1 cmds)
    have "controller_inv (fst (snd (Inr () :: exn + unit, mc1, cmds)))"
      unfolding 2(1) [symmetric] by (rule inv)
    then have "controller_inv mc1" by simp
    then show ?thesis unfolding 2(2) by (simp add: track_output_inv)
  qed
qed

subsection \<open>What a cycle commands\<close>

text \<open>The generator of axis \<open>i\<close> after one update with the axis' limits.\<close>

abbreviation axis_update :: "motion_controller \<Rightarrow> nat \<Rightarrow> (exn + real) \<times> generator" where
  "axis_update mc i \<equiv>
     update (cycle_time mc)
       (max_velocity (motion_limits mc ! i) * axis_position_counts_per_api_unit mc ! i)
       (acceleration (motion_limits mc ! i) * axis_position_counts_per_api_unit mc ! i)
       (deceleration (motion_limits mc ! i) * axis_position_counts_per_api_unit mc ! i)
       (Some (jerk (motion_limits mc ! i) * axis_position_counts_per_api_unit mc ! i))
       (trajectory_generators mc ! i)"

lemma update_returns_position: "update ct v a d j g = (Inr p, g') \<Longrightarrow> p = command_position g'"
  by (auto simp: update_def Let_def split: if_splits)

definition axis_done ::
  "motion_controller \<Rightarrow> int list \<Rightarrow> nat \<Rightarrow> motion_controller \<Rightarrow> axis_command option list \<Rightarrow> bool" where
  "axis_done mc modes i mc' cmds \<longleftrightarrow>
     (if modes ! i = 8 then
        trajectory_generators mc' ! i = snd (axis_update mc i) \<and>
        (\<exists>c. cmds ! i = Some c \<and>
           ac_target_position c = py_round (command_position (trajectory_generators mc' ! i)))
      else trajectory_generators mc' ! i = trajectory_generators mc ! i \<and> cmds ! i = None)"

definition axis_untouched ::
  "motion_controller \<Rightarrow> nat \<Rightarrow> motion_controller \<Rightarrow> axis_command option list \<Rightarrow> bool" where
  "axis_untouched mc i mc' cmds \<longleftrightarrow>
     trajectory_generators mc' ! i = trajectory_generators mc ! i \<and> cmds ! i = None"

definition same_limits :: "motion_controller \<Rightarrow> motion_controller \<Rightarrow> bool" where
  "same_limits mc mc' \<longleftrightarrow>
     cycle_time mc' = cycle_time mc \<and> motion_limits mc' = motion_limits mc \<and>
     axis_position_counts_per_api_unit mc' = axis_position_counts_per_api_unit mc \<and>
     length (trajectory_generators mc') = length (trajectory_generators mc)"

lemma update_axis_done:
  assumes "update_axis (n, modes ! n, prev) (mc1, cmds1) = (Inr (), (mc2, cmds2))"
    and "n < length (trajectory_generators mc)" "length cmds1 = length (trajectory_generators mc)"
    and "same_limits mc mc1" "axis_untouched mc n mc1 cmds1"
  shows "axis_done mc modes n mc2 cmds2" "same_limits mc mc2" "length cmds2 = length cmds1"
    and "i \<noteq> n \<Longrightarrow> trajectory_generators mc2 ! i = trajectory_generators mc1 ! i \<and> cmds2 ! i = cmds1 ! i"
proof -
  show "same_limits mc mc2" "length cmds2 = length cmds1"
    using update_axis_frame [OF assms(1)] assms(4) by (simp_all add: same_limits_def)
  obtain r g' where u: "axis_update mc n = (r, g')" by fastforce
  then have u1: "axis_update mc1 n = (r, g')"
    using assms(4,5) by (simp add: same_limits_def axis_untouched_def)
  have n: "n < length (trajectory_generators mc1)" "n < length cmds1"
    using assms(2-4) by (simp_all add: same_limits_def)
  show "axis_done mc modes n mc2 cmds2"
  proof (cases "modes ! n = 8")
    case True
    then obtain p where "r = Inr p"
      using assms(1) u1 by (cases r) (simp_all add: update_axis_def Let_def)
    with True u u1 n assms(1) update_returns_position [OF u [unfolded \<open>r = Inr p\<close>]] show ?thesis
      by (auto simp: update_axis_def Let_def axis_done_def)
  next
    case False
    with assms(1,5) show ?thesis by (simp add: update_axis_def axis_done_def axis_untouched_def)
  qed
  show "trajectory_generators mc2 ! i = trajectory_generators mc1 ! i \<and> cmds2 ! i = cmds1 ! i"
    if "i \<noteq> n"
    using assms(1) u1 that by (cases r) (auto simp: update_axis_def Let_def split: if_splits)
qed

lemma forS_singleton: "forS [x] f s = f x s"
  by (cases "f x s") (auto simp: bindS_def retS_def split: sum.split)

lemma update_loop_done:
  assumes "forS (map (\<lambda>i. (i, modes ! i, previous ! i)) [0..<n]) update_axis (mc0, cmds0) = (Inr (), (mc1, cmds1))"
    and "n \<le> length (trajectory_generators mc)" "length cmds0 = length (trajectory_generators mc)"
    and "same_limits mc mc0" "\<And>i. i < length (trajectory_generators mc) \<Longrightarrow> axis_untouched mc i mc0 cmds0"
  shows "same_limits mc mc1 \<and> length cmds1 = length cmds0 \<and>
    (\<forall>i < n. axis_done mc modes i mc1 cmds1) \<and>
    (\<forall>i. n \<le> i \<and> i < length (trajectory_generators mc) \<longrightarrow> axis_untouched mc i mc1 cmds1)"
  using assms(1,2)
proof (induction n arbitrary: mc1 cmds1)
  case 0
  with assms(3-5) show ?case by (simp add: retS_def)
next
  case (Suc n)
  let ?l = "forS (map (\<lambda>i. (i, modes ! i, previous ! i)) [0..<n]) update_axis (mc0, cmds0)"
  obtain r t where l0: "?l = (r, t)" by (rule prod.exhaust)
  obtain mc2 cmds2 where t: "t = (mc2, cmds2)" by (rule prod.exhaust)
  note l = l0 [unfolded t]
  have upt: "map (\<lambda>i. (i, modes ! i, previous ! i)) [0..<Suc n] =
      map (\<lambda>i. (i, modes ! i, previous ! i)) [0..<n] @ [(n, modes ! n, previous ! n)]" by simp
  have r: "r = Inr ()"
    using Suc.prems(1) unfolding upt forS_append bindS_def l by (cases r) simp_all
  have u: "update_axis (n, modes ! n, previous ! n) (mc2, cmds2) = (Inr (), (mc1, cmds1))"
    using Suc.prems(1) unfolding upt forS_append bindS_def l r by (simp only: sum.case prod.case forS_singleton)
  have IH: "same_limits mc mc2 \<and> length cmds2 = length cmds0 \<and>
    (\<forall>i < n. axis_done mc modes i mc2 cmds2) \<and>
    (\<forall>i. n \<le> i \<and> i < length (trajectory_generators mc) \<longrightarrow> axis_untouched mc i mc2 cmds2)"
    using Suc.IH [OF l [unfolded r]] Suc.prems(2) by simp
  have n: "n < length (trajectory_generators mc)" using Suc.prems(2) by simp
  have c: "length cmds2 = length (trajectory_generators mc)" "same_limits mc mc2"
    "axis_untouched mc n mc2 cmds2" using IH n assms(3) by simp_all
  note d = update_axis_done [OF u n c]
  have "axis_done mc modes i mc1 cmds1" if "i < n" for i
  proof -
    have "axis_done mc modes i mc2 cmds2" using IH that by blast
    with d(4) [of i] that show ?thesis unfolding axis_done_def by auto
  qed
  moreover have "axis_untouched mc i mc1 cmds1"
    if "Suc n \<le> i" "i < length (trajectory_generators mc)" for i
    using IH that d(4) [of i] by (simp add: axis_untouched_def)
  ultimately show ?case using d(1-3) IH by (simp add: less_Suc_eq)
qed

lemma same_limits_refl: "same_limits mc (mc\<lparr>last_csp_command_steps := []\<rparr>)"
  by (simp add: same_limits_def)

subsection \<open>Properties\<close>

text \<open>C31: every operation of the motion controller, also when it raises, keeps one entry per axis in
  each of its lists, so that no later index is out of range; a controller that could be constructed
  satisfies this from the start.\<close>

theorem controller_operations_keep_invariant:
  assumes "new_controller n ct limits offsets st et profile = Inr mc0" and "controller_inv mc"
  shows "controller_inv mc0 \<and> controller_inv (set_target_positions ps mc) \<and>
    controller_inv (sync_trajectory_to_actual_positions ps mc) \<and>
    controller_inv (snd (sync_trajectory_to_actual_position i p mc)) \<and>
    controller_inv (snd (set_axis_motion_limits i l mc)) \<and>
    controller_inv (snd (set_axis_position_counts_per_api_unit i p mc)) \<and>
    controller_inv (snd (hold_axes ps qs axes mc)) \<and>
    controller_inv (snd (set_axis_trajectories axes pts mc)) \<and>
    controller_inv (snd (sync_velocity_command i v p mc)) \<and>
    controller_inv (snd (complete_trajectory axes qs mc)) \<and>
    controller_inv (snd (update_commands modes previous mc))"
proof -
  have loop2: "controller_inv (snd (bindS (forS xs (\<lambda>(i, x). on_generator i (f x))) (\<lambda>_. retS r) mc))"
    for xs :: "(int \<times> real) list" and f and r :: "(int \<times> real) list"
  proof -
    have "controller_inv (snd (forS xs (\<lambda>(i, x). on_generator i (f x)) mc))"
      by (rule forS_invariant [where P = controller_inv]) (auto simp: on_generator_inv assms(2))
    then show ?thesis by (auto simp: bindS_def retS_def split: sum.split prod.split)
  qed
  have loop3: "controller_inv (snd (set_axis_trajectories axes pts mc))"
    unfolding set_axis_trajectories_def
    by (rule forS_invariant [where P = controller_inv]) (auto simp: on_generator_inv assms(2))
  show ?thesis
    using assms(2) new_controller_inv [OF assms(1)] hold_axes_inv [OF assms(2)]
      update_commands_inv [OF assms(2)] loop3
    unfolding complete_trajectory_def sync_velocity_command_def sync_trajectory_to_actual_position_def
    by (auto simp: loop2 on_generator_inv)
      (auto simp: controller_inv_def set_target_positions_def sync_trajectory_to_actual_positions_def
        set_axis_motion_limits_def set_axis_position_counts_per_api_unit_def split: sum.split)
qed

definition demo_controller :: motion_controller where
  "demo_controller =
     \<lparr>axis_count = 2, cycle_time = 1 / 100, csp_velocity_offset_by_axis = [True, False],
      csp_velocity_offset_enabled = True, csp_command_step_threshold = 0,
      csp_command_step_error_threshold = 0, mc_csp_profile = ''trapezoid'',
      axis_position_counts_per_api_unit = [1, 1],
      motion_limits = replicate 2 \<lparr>max_velocity = 1000, acceleration = 1000, deceleration = 1000, jerk = 0\<rparr>,
      trajectory_generators = replicate 2
        \<lparr>command_position = 0, target_position = 0, command_velocity = 0, command_acceleration = 0,
         timed_points = [], timed_elapsed = 0, timed_segment = 0, timed_active = False,
         trajectory_move_profile = ''point_move'', point_move_profile_state = None,
         csp_profile = ''trapezoid''\<rparr>,
      last_csp_command_steps = [], last_csp_output_steps = [],
      last_output_target_positions = [None, None]\<rparr>"

lemma demo_controller_new:
  "new_controller 2 (1 / 100) None (Inr [True, False]) 0 0 '' Trapezoid'' = Inr demo_controller"
proof -
  have "lower (strip '' Trapezoid'') = ''trapezoid''"
    "normalize_csp_profile ''trapezoid'' = Inr ''trapezoid''" by code_simp+
  then show ?thesis
    by (simp add: new_controller_def demo_controller_def motion_limits_for_index_def
        new_generator_def numeral_2_eq_2 upt_rec)
qed

lemma demo_controller_inv: "controller_inv demo_controller"
  by (simp add: controller_inv_def demo_controller_def)

theorem controller_operations_keep_invariant_witness:
  "controller_inv demo_controller \<and> controller_inv (set_target_positions [1, 2] demo_controller) \<and>
    controller_inv (sync_trajectory_to_actual_positions [1, 2] demo_controller) \<and>
    controller_inv (snd (sync_trajectory_to_actual_position 1 5 demo_controller)) \<and>
    controller_inv (snd (set_axis_motion_limits 1
      \<lparr>max_velocity = 1, acceleration = 1, deceleration = 1, jerk = 0\<rparr> demo_controller)) \<and>
    controller_inv (snd (set_axis_position_counts_per_api_unit 1 5 demo_controller)) \<and>
    controller_inv (snd (hold_axes [1, 2] [3, 4] [0, 1] demo_controller)) \<and>
    controller_inv (snd (set_axis_trajectories [0, 1] [[], []] demo_controller)) \<and>
    controller_inv (snd (sync_velocity_command 1 9 5 demo_controller)) \<and>
    controller_inv (snd (complete_trajectory [0, 1] [3, 4] demo_controller)) \<and>
    controller_inv (snd (update_commands [8, 1] [0, 0] demo_controller))"
  by (rule controller_operations_keep_invariant [OF demo_controller_new demo_controller_inv])

text \<open>What a cycle commands. When the cyclic update returns, every axis in cyclic synchronous
  position mode (8) has had its generator advanced by one cycle with the limits of that axis and is
  commanded the generator's position rounded to counts (off by at most half a count); every other
  axis gets no command and its generator is untouched.\<close>

theorem cycle_commands:
  assumes "controller_inv mc" and "length modes = axis_count mc" and "length previous = axis_count mc"
    and "update_commands modes previous mc = (Inr cmds, mc')" and "i < axis_count mc"
  shows "if modes ! i = 8 then
       trajectory_generators mc' ! i = snd (axis_update mc i) \<and>
       (\<exists>c. cmds ! i = Some c \<and>
          ac_target_position c = py_round (command_position (trajectory_generators mc' ! i)) \<and>
          \<bar>of_int (ac_target_position c) - command_position (trajectory_generators mc' ! i)\<bar> \<le> 1 / 2)
     else trajectory_generators mc' ! i = trajectory_generators mc ! i \<and> cmds ! i = None"
proof -
  let ?n = "axis_count mc"
  have n: "min (length modes) (min (length previous) (length (trajectory_generators mc))) = ?n"
    and l: "length (trajectory_generators mc) = ?n"
    using assms(1-3) by (simp_all add: controller_inv_def)
  obtain mc1 where f: "forS (map (\<lambda>i. (i, modes ! i, previous ! i)) [0..<?n]) update_axis
        (mc\<lparr>last_csp_command_steps := []\<rparr>, replicate ?n None) = (Inr (), (mc1, cmds))"
    and mc': "mc' = track_output_target_steps cmds modes mc1"
    by (rule update_commands_cases [where mc = mc and modes = modes and previous = previous, unfolded n])
      (use assms(4) in auto)
  have "axis_done mc modes i mc1 cmds"
    using update_loop_done [OF f, of mc] same_limits_refl assms(5) l
    by (simp add: axis_untouched_def)
  then have "axis_done mc modes i mc' cmds"
    using track_output_frame [of cmds modes mc1] unfolding axis_done_def mc' by auto
  then show ?thesis using py_round_close by (auto simp: axis_done_def)
qed

lemma demo_cycle:
  "update_commands [8, 1] [0, 0] demo_controller =
     (Inr [Some \<lparr>ac_target_position = 0, ac_velocity_offset = 0\<rparr>, None],
      snd (update_commands [8, 1] [0, 0] demo_controller))"
  by (simp add: update_commands_def demo_controller_def update_axis_def update_def
      update_trapezoid_def numeral_2_eq_2 upt_rec bindS_def retS_def Let_def py_round_def)

theorem cycle_commands_witness:
  "let mc' = snd (update_commands [8, 1] [0, 0] demo_controller)
   in if [8, 1] ! 0 = (8::int) then
       trajectory_generators mc' ! 0 = snd (axis_update demo_controller 0) \<and>
       (\<exists>c. [Some \<lparr>ac_target_position = 0, ac_velocity_offset = 0\<rparr>, None] ! 0 = Some c \<and>
          ac_target_position c = py_round (command_position (trajectory_generators mc' ! 0)) \<and>
          \<bar>of_int (ac_target_position c) - command_position (trajectory_generators mc' ! 0)\<bar> \<le> 1 / 2)
     else trajectory_generators mc' ! 0 = trajectory_generators demo_controller ! 0 \<and>
       [Some \<lparr>ac_target_position = 0, ac_velocity_offset = 0\<rparr>, None] ! 0 = None"
  unfolding Let_def
  by (rule cycle_commands [OF demo_controller_inv _ _ demo_cycle]) (simp_all add: demo_controller_def)

text \<open>The cyclic update does not raise as long as every axis in position mode follows a timed
  trajectory, uses the trapezoid profile or has a positive jerk limit.\<close>

theorem cycle_returns:
  assumes "controller_inv mc" and "length modes = axis_count mc" and "length previous = axis_count mc"
    and "\<forall>i < axis_count mc. modes ! i = 8 \<longrightarrow>
       timed_active (trajectory_generators mc ! i)
       \<or> csp_profile (trajectory_generators mc ! i) = ''trapezoid''
       \<or> 0 < jerk (motion_limits mc ! i) * axis_position_counts_per_api_unit mc ! i"
  shows "\<exists>cmds mc'. update_commands modes previous mc = (Inr cmds, mc')"
proof -
  let ?n = "axis_count mc"
  let ?l = "\<lambda>k. forS (map (\<lambda>i. (i, modes ! i, previous ! i)) [0..<k]) update_axis
        (mc\<lparr>last_csp_command_steps := []\<rparr>, replicate ?n None)"
  have n: "min (length modes) (min (length previous) (length (trajectory_generators mc))) = ?n"
    and len: "length (trajectory_generators mc) = ?n"
    using assms(1-3) by (simp_all add: controller_inv_def)
  have ok: "\<exists>p g'. axis_update mc i = (Inr p, g')" if "i < ?n" "modes ! i = 8" for i
    using assms(4) that by (auto simp: update_def Let_def or_zero_def)
  have "\<exists>s. ?l k = (Inr (), s)" if "k \<le> ?n" for k
    using that
  proof (induction k)
    case (Suc k)
    then obtain mc1 cmds1 where l: "?l k = (Inr (), (mc1, cmds1))" by fastforce
    have st: "same_limits mc mc1" "axis_untouched mc k mc1 cmds1"
      using update_loop_done [OF l, of mc] same_limits_refl Suc.prems len by (simp_all add: axis_untouched_def)
    have "axis_update mc1 k = axis_update mc k"
      using st by (simp add: same_limits_def axis_untouched_def)
    then have "\<exists>s. update_axis (k, modes ! k, previous ! k) (mc1, cmds1) = (Inr (), s)"
      using ok [of k] Suc.prems by (auto simp: update_axis_def Let_def)
    moreover have "map (\<lambda>i. (i, modes ! i, previous ! i)) [0..<Suc k] =
      map (\<lambda>i. (i, modes ! i, previous ! i)) [0..<k] @ [(k, modes ! k, previous ! k)]" by simp
    ultimately show ?case
      using l by (simp only: forS_append bindS_def sum.case prod.case forS_singleton)
  qed (simp add: retS_def)
  then obtain s where "?l ?n = (Inr (), s)" by blast
  then show ?thesis
    by (cases rule: update_commands_cases [where mc = mc and modes = modes and previous = previous, unfolded n])
      auto
qed

theorem cycle_returns_witness:
  "\<exists>cmds mc'. update_commands [8, 1] [0, 0] demo_controller = (Inr cmds, mc')"
  by (rule cycle_returns [OF demo_controller_inv])
    (simp_all add: demo_controller_def less_Suc_eq numeral_2_eq_2)

end
