(* ===== verification/Op_Logic.thy ===== *)
theory Op_Logic
  imports Prelude
begin

section \<open>Reasoning about stateful operations\<close>

text \<open>
  Triples for the operations of \<^verbatim>\<open>Prelude\<close>, with one postcondition for a normal return and one for
  an exception, and the frame statement \<open>keeps g f\<close>: whatever \<open>f\<close> does, returns or raises, the part
  \<open>g\<close> of the state is the one before. The rules follow the combinators, so that a statement
  about a handler reduces to statements about the primitive operations it is composed of. The
  collection \<open>keeps_intros\<close> holds the frame rules.
\<close>

named_theorems keeps_intros \<open>frame rules, one per combinator and primitive operation\<close>

subsection \<open>Triples\<close>

definition triple ::
  "('s \<Rightarrow> bool) \<Rightarrow> ('s, 'e, 'a) op \<Rightarrow> ('a \<Rightarrow> 's \<Rightarrow> bool) \<Rightarrow> ('e \<Rightarrow> 's \<Rightarrow> bool) \<Rightarrow> bool" where
  "triple P f Q E \<longleftrightarrow>
     (\<forall>s. P s \<longrightarrow> (case f s of (Inr a, t) \<Rightarrow> Q a t | (Inl e, t) \<Rightarrow> E e t))"

lemma tripleI:
  assumes "\<And>s a t. P s \<Longrightarrow> f s = (Inr a, t) \<Longrightarrow> Q a t"
    and "\<And>s e t. P s \<Longrightarrow> f s = (Inl e, t) \<Longrightarrow> E e t"
  shows "triple P f Q E"
  unfolding triple_def using assms by (auto split: prod.split sum.split)

lemma tripleD:
  assumes "triple P f Q E" and "P s"
  shows "f s = (Inr a, t) \<Longrightarrow> Q a t" "f s = (Inl e, t) \<Longrightarrow> E e t"
  using assms unfolding triple_def by (auto split: prod.splits sum.splits)

lemma triple_conseq:
  assumes "triple P' f Q' E'" and "\<And>s. P s \<Longrightarrow> P' s"
    and "\<And>a s. Q' a s \<Longrightarrow> Q a s" and "\<And>e s. E' e s \<Longrightarrow> E e s"
  shows "triple P f Q E"
  using assms unfolding triple_def by (fastforce split: prod.splits sum.splits)

lemma triple_bindS:
  assumes "triple P f R E" and "\<And>a. triple (R a) (g a) Q E"
  shows "triple P (bindS f g) Q E"
proof (rule tripleI)
  fix s b t assume "P s" and eq: "bindS f g s = (Inr b, t)"
  obtain x u where f: "f s = (x, u)" by fastforce
  show "Q b t"
    using eq f tripleD [OF assms(1) \<open>P s\<close>] tripleD [OF assms(2)] by (cases x) auto
next
  fix s e t assume "P s" and eq: "bindS f g s = (Inl e, t)"
  obtain x u where f: "f s = (x, u)" by fastforce
  show "E e t"
    using eq f tripleD [OF assms(1) \<open>P s\<close>] tripleD [OF assms(2)] by (cases x) auto
qed

lemma triple_prims:
  "(\<And>s. P s \<Longrightarrow> Q a s) \<Longrightarrow> triple P (retS a) Q E"
  "(\<And>s. P s \<Longrightarrow> E e s) \<Longrightarrow> triple P (raiseS e) Q E"
  "(\<And>s. P s \<Longrightarrow> Q () (h s)) \<Longrightarrow> triple P (modifyS h) Q E"
  "(\<And>s a. P s \<Longrightarrow> k s = Inr a \<Longrightarrow> Q' a s) \<Longrightarrow> (\<And>s e. P s \<Longrightarrow> k s = Inl e \<Longrightarrow> E e s)
     \<Longrightarrow> triple P (liftE k) Q' E"
  by (auto simp: triple_def opsimps split: sum.split)

lemma triple_catchS:
  assumes "triple P f Q R" and "\<And>e. triple (R e) (h e) Q E"
  shows "triple P (catchS f h) Q E"
proof (rule tripleI)
  fix s b t assume "P s" and eq: "catchS f h s = (Inr b, t)"
  obtain x u where f: "f s = (x, u)" by fastforce
  show "Q b t"
    using eq f tripleD [OF assms(1) \<open>P s\<close>] tripleD [OF assms(2)]
    by (cases x) (auto simp: catchS_def)
next
  fix s e t assume "P s" and eq: "catchS f h s = (Inl e, t)"
  obtain x u where f: "f s = (x, u)" by fastforce
  show "E e t"
    using eq f tripleD [OF assms(1) \<open>P s\<close>] tripleD [OF assms(2)]
    by (cases x) (auto simp: catchS_def)
qed

lemma triple_forS:
  assumes "\<And>x. x \<in> set xs \<Longrightarrow> triple P (f x) (\<lambda>_. P) E"
  shows "triple P (forS xs f) (\<lambda>_. P) E"
  using assms
  by (induction xs) (auto intro: triple_prims(1) triple_bindS)

lemma triple_if:
  "(b \<Longrightarrow> triple P f Q E) \<Longrightarrow> (\<not> b \<Longrightarrow> triple P g Q E) \<Longrightarrow> triple P (if b then f else g) Q E"
  by simp

subsection \<open>Frames\<close>

definition keeps :: "('s \<Rightarrow> 'b) \<Rightarrow> ('s, 'e, 'a) op \<Rightarrow> bool" where
  "keeps g f \<longleftrightarrow> (\<forall>s. g (snd (f s)) = g s)"

lemma keepsD: "keeps g f \<Longrightarrow> g (snd (f s)) = g s"
  by (simp add: keeps_def)

lemma keeps_eqD: "keeps g f \<Longrightarrow> f s = (x, t) \<Longrightarrow> g t = g s"
  unfolding keeps_def by (metis snd_conv)

lemma triple_keeps: "keeps g f \<Longrightarrow> triple (\<lambda>s. R (g s)) f (\<lambda>_ s. R (g s)) (\<lambda>_ s. R (g s))"
  unfolding keeps_def by (rule tripleI) (metis snd_conv)+

lemma keeps_prims [keeps_intros]:
  "keeps g (retS a)" "keeps g (raiseS e)" "keeps g (liftE h)"
  by (simp_all add: keeps_def opsimps)

lemma keeps_modifyS [keeps_intros]: "(\<And>s. g (h s) = g s) \<Longrightarrow> keeps g (modifyS h)"
  by (simp add: keeps_def opsimps)

lemma keeps_bindS [keeps_intros]:
  assumes "keeps g f" and "\<And>a. keeps g (k a)"
  shows "keeps g (bindS f k)"
  unfolding keeps_def
proof
  fix s
  obtain x t where f: "f s = (x, t)" by fastforce
  show "g (snd (bindS f k s)) = g s"
    using f keeps_eqD [OF assms(1) f] keepsD [OF assms(2)] by (cases x) auto
qed

lemma keeps_catchS [keeps_intros]:
  assumes "keeps g f" and "\<And>e. keeps g (h e)"
  shows "keeps g (catchS f h)"
  unfolding keeps_def
proof
  fix s
  obtain x t where f: "f s = (x, t)" by fastforce
  show "g (snd (catchS f h s)) = g s"
    using f keeps_eqD [OF assms(1) f] keepsD [OF assms(2)] by (cases x) (auto simp: catchS_def)
qed

lemma keeps_forS [keeps_intros]: "(\<And>x. keeps g (f x)) \<Longrightarrow> keeps g (forS xs f)"
  by (induction xs) (auto intro!: keeps_intros)

lemma keeps_branches [keeps_intros]:
  "keeps g f \<Longrightarrow> keeps g h \<Longrightarrow> keeps g (if b then f else h)"
  "keeps g n \<Longrightarrow> (\<And>x. keeps g (c x)) \<Longrightarrow> keeps g (case m of None \<Rightarrow> n | Some x \<Rightarrow> c x)"
  "(\<And>x y. keeps g (d x y)) \<Longrightarrow> keeps g (case p of (x, y) \<Rightarrow> d x y)"
  by (auto split: option.split prod.split)

text \<open>An operation that first looks at the state it runs in.\<close>

lemma keeps_read:
  assumes "\<And>u. keeps g (f u)"
  shows "keeps g (\<lambda>s. f s s)"
  using assms by (simp add: keeps_def)

lemma keeps_when [keeps_intros]:
  "keeps g f \<Longrightarrow> keeps g h \<Longrightarrow> keeps g (\<lambda>s. if b s then f s else h s)"
  by (simp add: keeps_def)

lemma keeps_Pair [keeps_intros]: "keeps g (Pair x)"
  by (simp add: keeps_def)

lemma keeps_read_bind [keeps_intros]:
  "(\<And>u. keeps g (f u)) \<Longrightarrow> (\<And>u a. keeps g (k u a)) \<Longrightarrow> keeps g (\<lambda>s. bindS (f s) (k s) s)"
  by (rule keeps_read [of g "\<lambda>s. bindS (f s) (k s)"]) (rule keeps_bindS)

lemma keeps_unfold: "(\<And>s. h s = f s) \<Longrightarrow> keeps g f \<Longrightarrow> keeps g h"
  by (simp add: keeps_def)

lemma keeps_case_list [keeps_intros]:
  "keeps g n \<Longrightarrow> (\<And>x xs. keeps g (c x xs)) \<Longrightarrow> keeps g (case l of [] \<Rightarrow> n | x # xs \<Rightarrow> c x xs)"
  by (cases l) simp_all

lemma keeps_Let [keeps_intros]: "(\<And>x. keeps g (f x)) \<Longrightarrow> keeps g (Let a f)"
  by (simp add: Let_def)

end
