(* ===== verification/Parameter_Cache.thy ===== *)
theory Parameter_Cache
  imports Units Op_Logic "HOL-Library.AList"
begin

section \<open>The runtime parameter cache\<close>

text \<open>
  Models \<^verbatim>\<open>motion_server/app/runtime_parameters.py\<close> (addresses, definitions, values and the cache)
  and \<^verbatim>\<open>motion_server/app/axis_parameters.py\<close> (the cache of the parameters of the axes). A Python
  \<open>dict\<close> whose order is observable is an association list in insertion order; \<open>now\<close> is what the
  cache's clock returns and a timestamp is an integer. Values of the cache are \<open>pyval\<close>s. The lemmas
  show the invariant of the cache and what reading it returns after an update or an invalidation.
\<close>

subsection \<open>Addresses and definitions\<close>

definition SOURCE_TYPES :: "string list" where
  "SOURCE_TYPES = [''server'', ''bus'', ''axis'', ''io'']"

definition PARAMETER_DOMAINS :: "string list" where
  "PARAMETER_DOMAINS = [''ethercat_od'', ''ethercat_od_group'', ''axis_projection'', ''ap_parameter'', ''iol_isdu'']"

definition ACCESS_TYPES :: "string list" where
  "ACCESS_TYPES = [''ro'', ''wo'', ''rw'']"

record parameter_address =
  pa_source_type :: string
  pa_source_index :: int
  pa_domain :: string
  pa_index :: "int option"
  pa_subindex :: "int option"
  pa_module :: "int option"
  pa_port :: "int option"
  pa_parameter_id :: "int option"
  pa_instance :: "int option"
  pa_role :: "string option"

definition optional_field_ok :: "int option \<Rightarrow> bool" where
  "optional_field_ok v = (case v of None \<Rightarrow> True | Some i \<Rightarrow> 0 \<le> i)"

text \<open>\<open>RuntimeParameterAddress.__post_init__\<close> on fields of the declared types.\<close>

definition mk_address :: "parameter_address \<Rightarrow> parameter_address res" where
  "mk_address a =
     (if pa_source_type a \<notin> set SOURCE_TYPES then Inl ValueError
      else if pa_domain a \<notin> set PARAMETER_DOMAINS then Inl ValueError
      else if pa_source_index a < 0 then Inl ValueError
      else if list_all optional_field_ok
          [pa_index a, pa_subindex a, pa_module a, pa_port a, pa_parameter_id a, pa_instance a]
      then Inr a else Inl ValueError)"

record parameter_definition =
  pd_key :: string
  pd_address :: parameter_address
  pd_name :: string
  pd_data_type :: string
  pd_required :: bool
  pd_access :: string
  pd_refresh_on_startup :: bool
  pd_refresh_on_recovery :: bool
  pd_used_by :: "string list"

definition mk_parameter_definition :: "parameter_definition \<Rightarrow> parameter_definition res" where
  "mk_parameter_definition d =
     (if strip (pd_key d) = [] then Inl ValueError
      else if strip (pd_name d) = [] then Inl ValueError
      else if strip (pd_data_type d) = [] then Inl ValueError
      else if pd_access d \<notin> set ACCESS_TYPES then Inl ValueError
      else Inr d)"

record parameter_value =
  pv_definition :: parameter_definition
  pv_value :: pyval
  pv_raw_value :: pyval
  pv_valid :: bool
  pv_updated_at :: "int option"
  pv_source :: string
  pv_last_error :: "string option"

subsection \<open>Keys and names\<close>

fun decimal_digits :: "nat \<Rightarrow> string" where
  "decimal_digits n =
     (if n < 10 then [hex_digit n] else decimal_digits (n div 10) @ [hex_digit (n mod 10)])"

declare decimal_digits.simps [simp del]

text \<open>\<open>str(i)\<close> and \<open>f"{i:0wX}"\<close> of a non-negative integer.\<close>

definition int_text :: "int \<Rightarrow> string" where
  "int_text i = (if i < 0 then CHR ''-'' # decimal_digits (nat (- i)) else decimal_digits (nat i))"

definition hex_text :: "nat \<Rightarrow> int \<Rightarrow> string" where
  "hex_text w i = (let ds = hex_digits (nat i) in replicate (w - length ds) (CHR ''0'') @ ds)"

definition key_part :: "(int \<Rightarrow> string) \<Rightarrow> int option \<Rightarrow> string list" where
  "key_part f v = (case v of None \<Rightarrow> [] | Some i \<Rightarrow> [f i])"

definition role_part :: "string option \<Rightarrow> string list" where
  "role_part r = (case r of None \<Rightarrow> [] | Some s \<Rightarrow> if s = [] then [] else [s])"

definition join_dots :: "string list \<Rightarrow> string" where
  "join_dots parts =
     (case parts of [] \<Rightarrow> [] | p # ps \<Rightarrow> p @ concat (map (\<lambda>q. CHR ''.'' # q) ps))"

definition runtime_parameter_key :: "parameter_address \<Rightarrow> string" where
  "runtime_parameter_key a =
     join_dots ([pa_source_type a, int_text (pa_source_index a), pa_domain a] @
       (if pa_domain a = ''iol_isdu'' then
          key_part (\<lambda>i. ''module'' @ int_text i) (pa_module a)
          @ key_part (\<lambda>i. ''port'' @ int_text i) (pa_port a)
          @ key_part (\<lambda>i. ''parameter0x'' @ hex_text 4 i) (pa_parameter_id a)
          @ key_part (\<lambda>i. ''subindex0x'' @ hex_text 2 i) (pa_subindex a)
        else if pa_domain a = ''ap_parameter'' then
          key_part (\<lambda>i. ''module'' @ int_text i) (pa_module a)
          @ key_part (\<lambda>i. ''parameter0x'' @ hex_text 8 i) (pa_parameter_id a)
          @ key_part (\<lambda>i. ''instance'' @ int_text i) (pa_instance a)
        else
          key_part (\<lambda>i. ''0x'' @ hex_text 4 i) (pa_index a)
          @ key_part (\<lambda>i. ''0x'' @ hex_text 2 i) (pa_subindex a)
          @ key_part (\<lambda>i. ''module'' @ int_text i) (pa_module a)
          @ key_part (\<lambda>i. ''port'' @ int_text i) (pa_port a)
          @ key_part (\<lambda>i. ''parameter0x'' @ hex_text 8 i) (pa_parameter_id a)
          @ key_part (\<lambda>i. ''instance'' @ int_text i) (pa_instance a))
       @ role_part (pa_role a))"

definition role_or_domain :: "parameter_address \<Rightarrow> string" where
  "role_or_domain a =
     (case pa_role a of None \<Rightarrow> pa_domain a | Some r \<Rightarrow> if r = [] then pa_domain a else r)"

text \<open>\<open>f"{None}"\<close> is the text \<open>None\<close>; formatting \<open>None\<close> as a number raises \<open>TypeError\<close>.\<close>

definition optional_int_text :: "int option \<Rightarrow> string" where
  "optional_int_text v = (case v of None \<Rightarrow> ''None'' | Some i \<Rightarrow> int_text i)"

definition runtime_parameter_name :: "parameter_address \<Rightarrow> string res" where
  "runtime_parameter_name a =
     (if pa_domain a = ''ethercat_od'' \<or> pa_domain a = ''ethercat_od_group'' then
        (case (pa_index a, pa_subindex a) of
           (None, _) \<Rightarrow> Inr (role_or_domain a)
         | (Some i, None) \<Rightarrow> Inr (''EtherCAT OD 0x'' @ hex_text 4 i)
         | (Some i, Some j) \<Rightarrow> Inr (''EtherCAT OD 0x'' @ hex_text 4 i @ '':0x'' @ hex_text 2 j))
      else if pa_domain a = ''ap_parameter'' then
        (case pa_parameter_id a of
           None \<Rightarrow> Inl TypeError
         | Some p \<Rightarrow> Inr (''AP parameter module '' @ optional_int_text (pa_module a) @ '' id 0x''
             @ hex_text 8 p @ '' instance '' @ optional_int_text (pa_instance a)))
      else if pa_domain a = ''iol_isdu'' then
        (case pa_parameter_id a of
           None \<Rightarrow> Inl TypeError
         | Some p \<Rightarrow> Inr (''IO-Link ISDU module '' @ optional_int_text (pa_module a) @ '' port ''
             @ optional_int_text (pa_port a) @ '' index 0x'' @ hex_text 4 p @ '':0x''
             @ hex_text 2 (case pa_subindex a of None \<Rightarrow> 0 | Some s \<Rightarrow> s)))
      else Inr (role_or_domain a))"

definition runtime_parameter_definition ::
  "parameter_address \<Rightarrow> string \<Rightarrow> string \<Rightarrow> parameter_definition res" where
  "runtime_parameter_definition a data_type access =
     bindE (runtime_parameter_name a) (\<lambda>name.
       mk_parameter_definition
         \<lparr>pd_key = runtime_parameter_key a, pd_address = a, pd_name = name, pd_data_type = data_type,
          pd_required = False, pd_access = access, pd_refresh_on_startup = False,
          pd_refresh_on_recovery = False, pd_used_by = []\<rparr>)"

subsection \<open>The cache\<close>

record parameter_cache =
  pc_definitions :: "(string \<times> parameter_definition) list"
  pc_values :: "(string \<times> parameter_value) list"

definition empty_cache :: parameter_cache where
  "empty_cache = \<lparr>pc_definitions = [], pc_values = []\<rparr>"

definition register :: "parameter_definition \<Rightarrow> (parameter_cache, exn, unit) op" where
  "register d c =
     (case map_of (pc_definitions c) (pd_key d) of
        Some e \<Rightarrow>
          if e \<noteq> d then (Inl ValueError, c)
          else (Inr (), c\<lparr>pc_definitions := AList.update (pd_key d) d (pc_definitions c)\<rparr>)
      | None \<Rightarrow> (Inr (), c\<lparr>pc_definitions := AList.update (pd_key d) d (pc_definitions c)\<rparr>))"

definition cache_definition :: "parameter_cache \<Rightarrow> string \<Rightarrow> parameter_definition res" where
  "cache_definition c key =
     (case map_of (pc_definitions c) key of None \<Rightarrow> Inl KeyError | Some d \<Rightarrow> Inr d)"

definition from_source :: "string option \<Rightarrow> int option \<Rightarrow> parameter_definition \<Rightarrow> bool" where
  "from_source ty i d \<longleftrightarrow>
     (ty = None \<or> ty = Some (pa_source_type (pd_address d))) \<and>
     (i = None \<or> i = Some (pa_source_index (pd_address d)))"

definition cache_definitions ::
  "parameter_cache \<Rightarrow> string option \<Rightarrow> int option \<Rightarrow> parameter_definition list" where
  "cache_definitions c ty i = filter (from_source ty i) (map snd (pc_definitions c))"

definition put_value :: "parameter_value \<Rightarrow> parameter_cache \<Rightarrow> parameter_cache" where
  "put_value v c = c\<lparr>pc_values := AList.update (pd_key (pv_definition v)) v (pc_values c)\<rparr>"

definition cache_update ::
  "string \<Rightarrow> pyval \<Rightarrow> pyval \<Rightarrow> string \<Rightarrow> int \<Rightarrow> (parameter_cache, exn, parameter_value) op" where
  "cache_update key v raw src now c =
     (case cache_definition c key of
        Inl e \<Rightarrow> (Inl e, c)
      | Inr d \<Rightarrow>
          let cached = \<lparr>pv_definition = d, pv_value = v, pv_raw_value = raw, pv_valid = True,
                        pv_updated_at = Some now, pv_source = src, pv_last_error = None\<rparr>
          in (Inr cached, put_value cached c))"

definition cache_invalidate ::
  "string \<Rightarrow> string \<Rightarrow> pyval \<Rightarrow> string \<Rightarrow> int \<Rightarrow> (parameter_cache, exn, parameter_value) op" where
  "cache_invalidate key err v src now c =
     (case cache_definition c key of
        Inl e \<Rightarrow> (Inl e, c)
      | Inr d \<Rightarrow>
          let previous = map_of (pc_values c) (pd_key d);
              cached = \<lparr>pv_definition = d,
                pv_value = (case previous of None \<Rightarrow> v | Some p \<Rightarrow> if v = PNone then pv_value p else v),
                pv_raw_value = (case previous of None \<Rightarrow> PNone | Some p \<Rightarrow> pv_raw_value p),
                pv_valid = False, pv_updated_at = Some now, pv_source = src, pv_last_error = Some err\<rparr>
          in (Inr cached, put_value cached c))"

definition cache_get :: "parameter_cache \<Rightarrow> string \<Rightarrow> parameter_value option" where
  "cache_get c key = map_of (pc_values c) key"

definition cache_values ::
  "parameter_cache \<Rightarrow> string option \<Rightarrow> int option \<Rightarrow> bool option \<Rightarrow> parameter_value list" where
  "cache_values c ty i valid =
     filter (\<lambda>v. from_source ty i (pv_definition v) \<and> (valid = None \<or> valid = Some (pv_valid v)))
       (map snd (pc_values c))"

definition update_runtime_parameter_cache ::
  "parameter_address \<Rightarrow> pyval \<Rightarrow> string \<Rightarrow> string \<Rightarrow> pyval \<Rightarrow> string \<Rightarrow> int
   \<Rightarrow> (parameter_cache, exn, parameter_value) op" where
  "update_runtime_parameter_cache a v data_type access raw src now =
     bindS (liftE (\<lambda>_. runtime_parameter_definition a data_type access)) (\<lambda>d.
     bindS (register d) (\<lambda>_. cache_update (pd_key d) v raw src now))"

subsection \<open>The parameters of the axes\<close>

record AxisParameterValues =
  ap_user_position_unit :: "int option"
  ap_converting_unit_exponents :: exponents
  ap_software_position_limits :: "real list"
  ap_profile_settings :: "real list"
  ap_motion_limits :: "real list"
  ap_axis_metadata :: "axis_meta option"

record axis_parameter_cache =
  ap_cache :: parameter_cache
  ap_axes :: "AxisParameterValues list"

definition AXIS_PARAMETER_FIELDS :: "string list" where
  "AXIS_PARAMETER_FIELDS =
     [''user_position_unit'', ''converting_unit_exponents'', ''software_position_limits'',
      ''profile_settings'', ''motion_limits'', ''axis_metadata'']"

definition axis_parameter_key :: "nat \<Rightarrow> string \<Rightarrow> string" where
  "axis_parameter_key i f = ''axis.'' @ decimal_digits i @ ''.'' @ f"

definition axis_definition ::
  "nat \<Rightarrow> string \<Rightarrow> string \<Rightarrow> int option \<Rightarrow> int option \<Rightarrow> string \<Rightarrow> string \<Rightarrow> bool \<Rightarrow> string list
   \<Rightarrow> parameter_definition" where
  "axis_definition i f domain idx sub name data_type required used_by =
     \<lparr>pd_key = axis_parameter_key i f,
      pd_address = \<lparr>pa_source_type = ''axis'', pa_source_index = int i, pa_domain = domain, pa_index = idx,
        pa_subindex = sub, pa_module = None, pa_port = None, pa_parameter_id = None, pa_instance = None,
        pa_role = Some f\<rparr>,
      pd_name = name, pd_data_type = data_type, pd_required = required, pd_access = ''rw'',
      pd_refresh_on_startup = True, pd_refresh_on_recovery = True, pd_used_by = used_by\<rparr>"

definition axis_parameter_definitions :: "nat \<Rightarrow> parameter_definition list" where
  "axis_parameter_definitions i =
     [axis_definition i ''user_position_unit'' ''ethercat_od'' (Some 0x216E) (Some 1)
        ''User position unit'' ''uint16'' True [''unit_conversion'', ''status''],
      axis_definition i ''converting_unit_exponents'' ''ethercat_od_group'' (Some 0x2194) None
        ''Converting unit exponents'' ''int8[]'' True [''unit_conversion'', ''status''],
      axis_definition i ''software_position_limits'' ''ethercat_od_group'' (Some 0x607D) None
        ''Software position limits'' ''int32[]'' False [''software_limit'', ''status''],
      axis_definition i ''profile_settings'' ''ethercat_od_group'' None None
        ''Profile settings'' ''float[]'' False [''command_default'', ''status'', ''rxpdo_projection''],
      axis_definition i ''motion_limits'' ''ethercat_od_group'' None None
        ''Motion limits'' ''float[]'' False [''motion_controller'', ''status''],
      axis_definition i ''axis_metadata'' ''axis_projection'' None None
        ''Axis unit metadata'' ''object'' False [''unit_conversion'', ''status'']]"

definition blank_axis :: AxisParameterValues where
  "blank_axis = \<lparr>ap_user_position_unit = None, ap_converting_unit_exponents = None,
     ap_software_position_limits = [0, 0], ap_profile_settings = [0, 0, 0, 0],
     ap_motion_limits = [0, 0, 0, 0], ap_axis_metadata = None\<rparr>"

definition new_axis_cache :: "nat \<Rightarrow> axis_parameter_cache res" where
  "new_axis_cache n =
     (case forS (concat (map axis_parameter_definitions [0..<n])) register empty_cache of
        (Inl e, c) \<Rightarrow> Inl e
      | (Inr _, c) \<Rightarrow> Inr \<lparr>ap_cache = c, ap_axes = replicate n blank_axis\<rparr>)"

text \<open>The keyword arguments of \<open>update_axis\<close> that are given.\<close>

datatype axis_field_value =
    UserPositionUnit int
  | ConvertingUnitExponents "int option list"
  | SoftwarePositionLimits "int list"
  | ProfileSettings "real list"
  | MotionLimits "real list"
  | AxisMetadata axis_meta

fun field_name :: "axis_field_value \<Rightarrow> string" where
  "field_name (UserPositionUnit _) = ''user_position_unit''"
| "field_name (ConvertingUnitExponents _) = ''converting_unit_exponents''"
| "field_name (SoftwarePositionLimits _) = ''software_position_limits''"
| "field_name (ProfileSettings _) = ''profile_settings''"
| "field_name (MotionLimits _) = ''motion_limits''"
| "field_name (AxisMetadata _) = ''axis_metadata''"

definition optional_int_value :: "int option \<Rightarrow> pyval" where
  "optional_int_value v = (case v of None \<Rightarrow> PNone | Some i \<Rightarrow> PInt i)"

definition metadata_value :: "axis_meta \<Rightarrow> pyval" where
  "metadata_value m =
     PDict [(''axis'', PInt (am_axis m)), (''user_position_unit'', optional_int_value (am_user_position_unit m)),
       (''user_position_unit_name'', PStr (am_user_position_unit_name m)),
       (''motion_kind'', PStr (am_motion_kind m)), (''pv_allowed'', PBool (am_pv_allowed m)),
       (''converting_unit_exponents'', PList (map optional_int_value (am_exponents m))),
       (''position_unit'', PStr (am_position_unit m)), (''velocity_unit'', PStr (am_velocity_unit m)),
       (''acceleration_unit'', PStr (am_acceleration_unit m)),
       (''deceleration_unit'', PStr (am_acceleration_unit m)), (''jerk_unit'', PStr (am_jerk_unit m)),
       (''position_scale'', PFloat (am_position_scale m)), (''velocity_scale'', PFloat (am_velocity_scale m)),
       (''acceleration_scale'', PFloat (am_acceleration_scale m)),
       (''deceleration_scale'', PFloat (am_acceleration_scale m)), (''jerk_scale'', PFloat (am_jerk_scale m))]"

fun field_pyval :: "axis_field_value \<Rightarrow> pyval" where
  "field_pyval (UserPositionUnit u) = PInt u"
| "field_pyval (ConvertingUnitExponents es) = PList (map optional_int_value es)"
| "field_pyval (SoftwarePositionLimits xs) = PList (map PInt xs)"
| "field_pyval (ProfileSettings xs) = PList (map PFloat xs)"
| "field_pyval (MotionLimits xs) = PList (map PFloat xs)"
| "field_pyval (AxisMetadata m) = metadata_value m"

fun set_field :: "axis_field_value \<Rightarrow> AxisParameterValues \<Rightarrow> AxisParameterValues" where
  "set_field (UserPositionUnit u) v = v\<lparr>ap_user_position_unit := Some u\<rparr>"
| "set_field (ConvertingUnitExponents es) v = v\<lparr>ap_converting_unit_exponents := Some es\<rparr>"
| "set_field (SoftwarePositionLimits xs) v = v\<lparr>ap_software_position_limits := map of_int xs\<rparr>"
| "set_field (ProfileSettings xs) v = v\<lparr>ap_profile_settings := xs\<rparr>"
| "set_field (MotionLimits xs) v = v\<lparr>ap_motion_limits := xs\<rparr>"
| "set_field (AxisMetadata m) v = v\<lparr>ap_axis_metadata := Some m\<rparr>"

definition field_source :: "axis_field_value \<Rightarrow> string" where
  "field_source f = (case f of AxisMetadata _ \<Rightarrow> ''runtime_projection'' | _ \<Rightarrow> ''device_readback'')"

definition on_cache :: "(parameter_cache, exn, 'a) op \<Rightarrow> (axis_parameter_cache, exn, 'a) op" where
  "on_cache f ac = (case f (ap_cache ac) of (x, c) \<Rightarrow> (x, ac\<lparr>ap_cache := c\<rparr>))"

definition update_field :: "nat \<Rightarrow> int \<Rightarrow> axis_field_value \<Rightarrow> (axis_parameter_cache, exn, unit) op" where
  "update_field i now f =
     bindS (modifyS (\<lambda>ac. ac\<lparr>ap_axes := (ap_axes ac)[i := set_field f (ap_axes ac ! i)]\<rparr>)) (\<lambda>_.
     bindS (on_cache (cache_update (axis_parameter_key i (field_name f)) (field_pyval f) PNone (field_source f) now))
       (\<lambda>_. retS ()))"

text \<open>\<open>update_axis\<close> with the given fields, in the order of the parameters.\<close>

definition update_axis_parameters :: "nat \<Rightarrow> int \<Rightarrow> axis_field_value list \<Rightarrow> (axis_parameter_cache, exn, unit) op" where
  "update_axis_parameters i now fs ac =
     (if i < length (ap_axes ac) then forS fs (update_field i now) ac else (Inl IndexError, ac))"

definition invalidate_axis :: "nat \<Rightarrow> string \<Rightarrow> int \<Rightarrow> string list \<Rightarrow> (axis_parameter_cache, exn, unit) op" where
  "invalidate_axis i err now fs =
     forS (if fs = [] then AXIS_PARAMETER_FIELDS else fs)
       (\<lambda>f. bindS (on_cache (cache_invalidate (axis_parameter_key i f) err PNone ''readback_failed'' now))
              (\<lambda>_. retS ()))"

definition parameter_values :: "axis_parameter_cache \<Rightarrow> nat option \<Rightarrow> bool option \<Rightarrow> parameter_value list" where
  "parameter_values ac i valid = cache_values (ap_cache ac) (Some ''axis'') (map_option int i) valid"

subsection \<open>The invariant\<close>

text \<open>Every definition stands under its own key, and every value belongs to the definition that is
  registered under its key.\<close>

definition defs_ok :: "(string \<rightharpoonup> parameter_definition) \<Rightarrow> bool" where
  "defs_ok D \<longleftrightarrow> (\<forall>k d. D k = Some d \<longrightarrow> pd_key d = k)"

definition values_ok :: "(string \<rightharpoonup> parameter_definition) \<Rightarrow> (string \<rightharpoonup> parameter_value) \<Rightarrow> bool" where
  "values_ok D V \<longleftrightarrow> (\<forall>k v. V k = Some v \<longrightarrow> D k = Some (pv_definition v))"

definition cache_inv :: "parameter_cache \<Rightarrow> bool" where
  "cache_inv c \<longleftrightarrow>
     distinct (map fst (pc_definitions c)) \<and> distinct (map fst (pc_values c)) \<and>
     defs_ok (map_of (pc_definitions c)) \<and> values_ok (map_of (pc_definitions c)) (map_of (pc_values c))"

lemma defs_ok_upd: "defs_ok D \<Longrightarrow> defs_ok (D(pd_key d \<mapsto> d))"
  by (simp add: defs_ok_def)

lemma values_ok_define:
  "values_ok D V \<Longrightarrow> D (pd_key d) = None \<or> D (pd_key d) = Some d \<Longrightarrow> values_ok (D(pd_key d \<mapsto> d)) V"
  unfolding values_ok_def by (metis fun_upd_apply option.distinct(1))

lemma values_ok_upd:
  "values_ok D V \<Longrightarrow> D k = Some (pv_definition v) \<Longrightarrow> values_ok D (V(k \<mapsto> v))"
  by (simp add: values_ok_def)

lemma cache_inv_empty: "cache_inv empty_cache"
  by (simp add: cache_inv_def empty_cache_def defs_ok_def values_ok_def)

lemma register_cases:
  "register d c = (Inl ValueError, c) \<and> (\<exists>e. map_of (pc_definitions c) (pd_key d) = Some e \<and> e \<noteq> d) \<or>
   register d c = (Inr (), c\<lparr>pc_definitions := AList.update (pd_key d) d (pc_definitions c)\<rparr>) \<and>
     (map_of (pc_definitions c) (pd_key d) = None \<or> map_of (pc_definitions c) (pd_key d) = Some d)"
  by (simp add: register_def split: option.split)

lemma register_inv:
  assumes "cache_inv c"
  shows "cache_inv (snd (register d c))"
  using register_cases [of d c]
proof
  assume "register d c = (Inl ValueError, c) \<and> (\<exists>e. map_of (pc_definitions c) (pd_key d) = Some e \<and> e \<noteq> d)"
  with assms show ?thesis by simp
next
  assume r: "register d c = (Inr (), c\<lparr>pc_definitions := AList.update (pd_key d) d (pc_definitions c)\<rparr>) \<and>
     (map_of (pc_definitions c) (pd_key d) = None \<or> map_of (pc_definitions c) (pd_key d) = Some d)"
  then show ?thesis
    using assms defs_ok_upd [of "map_of (pc_definitions c)" d]
      values_ok_define [of "map_of (pc_definitions c)" "map_of (pc_values c)" d]
    by (simp add: cache_inv_def distinct_update update_conv')
qed

lemma put_value_inv:
  assumes "cache_inv c" and "map_of (pc_definitions c) (pd_key (pv_definition v)) = Some (pv_definition v)"
  shows "cache_inv (put_value v c)"
  using assms values_ok_upd [of "map_of (pc_definitions c)" "map_of (pc_values c)" "pd_key (pv_definition v)" v]
  by (simp add: cache_inv_def put_value_def distinct_update update_conv')

lemma cache_definition_key:
  "cache_inv c \<Longrightarrow> cache_definition c k = Inr d \<Longrightarrow> pd_key d = k \<and> map_of (pc_definitions c) k = Some d"
  by (simp add: cache_inv_def cache_definition_def defs_ok_def split: option.splits)

lemma put_value_get [simp]:
  "cache_get (put_value v c) k = (if k = pd_key (pv_definition v) then Some v else cache_get c k)"
  "pc_definitions (put_value v c) = pc_definitions c"
  by (auto simp: cache_get_def put_value_def update_conv')

lemma update_invalidate_effect:
  assumes "cache_inv c" and "cache_definition c k = Inr d"
  shows "\<exists>v. cache_update k x raw src now c = (Inr v, put_value v c) \<and> pv_definition v = d \<and>
      pv_value v = x \<and> pv_raw_value v = raw \<and> pv_valid v \<and> pv_last_error v = None"
    "\<exists>v. cache_invalidate k err PNone src now c = (Inr v, put_value v c) \<and> pv_definition v = d \<and>
      pv_value v = (case cache_get c k of None \<Rightarrow> PNone | Some p \<Rightarrow> pv_value p) \<and>
      \<not> pv_valid v \<and> pv_last_error v = Some err"
  using assms(2) cache_definition_key [OF assms]
  by (auto simp: cache_update_def cache_invalidate_def cache_get_def Let_def split: option.splits)

lemma cache_ops_inv:
  assumes "cache_inv c"
  shows "cache_inv (snd (cache_update k x raw src now c))" "cache_inv (snd (cache_invalidate k err x src now c))"
  using cache_definition_key [OF assms, of k]
  by (auto simp: cache_update_def cache_invalidate_def Let_def assms split: sum.split intro!: put_value_inv)

subsection \<open>Keys of the axes\<close>

lemma hex_digit_no_dot: "k < 10 \<Longrightarrow> CHR ''.'' \<noteq> hex_digit k"
proof
  assume "k < 10" and "CHR ''.'' = hex_digit k"
  then have "(of_char (CHR ''.'') :: nat) = k + 48" by (simp add: hex_digit_def)
  then show False by simp
qed

lemma decimal_digits_no_dot: "CHR ''.'' \<notin> set (decimal_digits n)"
proof (induction n rule: decimal_digits.induct)
  case (1 n)
  then show ?case
    by (subst decimal_digits.simps) (simp add: hex_digit_no_dot)
qed

lemma hex_digit_inj: "i < 10 \<Longrightarrow> j < 10 \<Longrightarrow> hex_digit i = hex_digit j \<Longrightarrow> i = j"
proof -
  assume a: "i < 10" "j < 10" and "hex_digit i = hex_digit j"
  then have "(of_char (char_of (i + 48)) :: nat) = of_char (char_of (j + 48))" by (simp add: hex_digit_def)
  with a show "i = j" by simp
qed

lemma decimal_digits_inj: "decimal_digits m = decimal_digits n \<Longrightarrow> m = n"
proof (induction m arbitrary: n rule: decimal_digits.induct)
  case (1 m)
  have ne: "decimal_digits k \<noteq> []" for k by (subst decimal_digits.simps) simp
  have small: "decimal_digits k = [hex_digit k]" if "k < 10" for k
    using that by (subst decimal_digits.simps) simp
  have big: "decimal_digits k = decimal_digits (k div 10) @ [hex_digit (k mod 10)]" if "\<not> k < 10" for k
    using that by (subst decimal_digits.simps) simp
  consider "m < 10" "n < 10" | "m < 10" "\<not> n < 10" | "\<not> m < 10" "n < 10" | "\<not> m < 10" "\<not> n < 10" by blast
  then show ?case
  proof cases
    case 1
    then show ?thesis using "1.prems" small [of m] small [of n] hex_digit_inj by simp
  next
    case 2
    then show ?thesis using "1.prems" small [of m] big [of n] ne [of "n div 10"] by (cases "decimal_digits (n div 10)") simp_all
  next
    case 3
    then show ?thesis using "1.prems" small [of n] big [of m] ne [of "m div 10"] by (cases "decimal_digits (m div 10)") simp_all
  next
    case 4
    then have "decimal_digits (m div 10) = decimal_digits (n div 10)" "hex_digit (m mod 10) = hex_digit (n mod 10)"
      using "1.prems" big [of m] big [of n] by auto
    then have "m div 10 = n div 10" "m mod 10 = n mod 10"
      using "1.IH" [OF 4(1)] hex_digit_inj [of "m mod 10" "n mod 10"] by auto
    then show ?thesis by (metis div_mult_mod_eq)
  qed
qed

lemma split_at_dot:
  assumes "CHR ''.'' \<notin> set xs" "CHR ''.'' \<notin> set ys" "xs @ CHR ''.'' # f = ys @ CHR ''.'' # g"
  shows "xs = ys \<and> f = g"
  using assms
proof (induction xs arbitrary: ys)
  case Nil
  then show ?case by (cases ys) auto
next
  case (Cons x xs)
  then show ?case by (cases ys) auto
qed

lemma axis_parameter_key_inj: "axis_parameter_key i f = axis_parameter_key j g \<Longrightarrow> i = j \<and> f = g"
  using split_at_dot [OF decimal_digits_no_dot decimal_digits_no_dot, of i f j g] decimal_digits_inj [of i j]
  by (simp add: axis_parameter_key_def)

subsection \<open>Updating and invalidating an axis\<close>

lemma on_cache_simps [simp]:
  "f (ap_cache ac) = (x, c) \<Longrightarrow> on_cache f ac = (x, ac\<lparr>ap_cache := c\<rparr>)"
  by (simp add: on_cache_def)

text \<open>The keys of an axis that are registered.\<close>

definition axis_registered :: "nat \<Rightarrow> parameter_cache \<Rightarrow> bool" where
  "axis_registered i c \<longleftrightarrow>
     list_all (\<lambda>f. \<not> isl (cache_definition c (axis_parameter_key i f))) AXIS_PARAMETER_FIELDS"

lemma axis_registeredD:
  "axis_registered i c \<Longrightarrow> \<forall>f \<in> set AXIS_PARAMETER_FIELDS. \<exists>d. cache_definition c (axis_parameter_key i f) = Inr d"
  unfolding axis_registered_def list_all_iff by (metis isl_def obj_sumE)

lemma invalidate_loop:
  assumes "cache_inv c" and "\<forall>f \<in> set fs. \<exists>d. cache_definition c (axis_parameter_key i f) = Inr d"
  shows "\<exists>c'. forS fs (\<lambda>f. bindS (on_cache (cache_invalidate (axis_parameter_key i f) err PNone ''readback_failed'' now))
              (\<lambda>_. retS ())) (ac\<lparr>ap_cache := c\<rparr>) = (Inr (), ac\<lparr>ap_cache := c'\<rparr>) \<and> cache_inv c' \<and>
    pc_definitions c' = pc_definitions c \<and>
    (\<forall>k. k \<notin> axis_parameter_key i ` set fs \<longrightarrow> cache_get c' k = cache_get c k) \<and>
    (\<forall>f \<in> set fs. \<exists>v. cache_get c' (axis_parameter_key i f) = Some v \<and> \<not> pv_valid v \<and>
       pv_last_error v = Some err \<and>
       pv_value v = (case cache_get c (axis_parameter_key i f) of None \<Rightarrow> PNone | Some p \<Rightarrow> pv_value p))"
  using assms
proof (induction fs arbitrary: c)
  case Nil
  then show ?case by (auto simp: retS_def)
next
  case (Cons f fs)
  let ?k = "axis_parameter_key i f"
  obtain d where d: "cache_definition c ?k = Inr d" using Cons.prems(2) by auto
  obtain v where v: "cache_invalidate ?k err PNone ''readback_failed'' now c = (Inr v, put_value v c)"
    "pv_definition v = d" "\<not> pv_valid v" "pv_last_error v = Some err"
    "pv_value v = (case cache_get c ?k of None \<Rightarrow> PNone | Some p \<Rightarrow> pv_value p)"
    using update_invalidate_effect(2) [OF Cons.prems(1) d, of err "''readback_failed''" now] by blast
  have key: "pd_key d = ?k" "map_of (pc_definitions c) ?k = Some d"
    using cache_definition_key [OF Cons.prems(1) d] by auto
  let ?c = "put_value v c"
  have inv: "cache_inv ?c" using put_value_inv [OF Cons.prems(1), of v] key v(2) by simp
  have reg: "\<forall>g \<in> set fs. \<exists>d. cache_definition ?c (axis_parameter_key i g) = Inr d"
    using Cons.prems(2) by (auto simp: cache_definition_def)
  obtain c' where c': "forS fs (\<lambda>f. bindS (on_cache (cache_invalidate (axis_parameter_key i f) err PNone ''readback_failed'' now))
              (\<lambda>_. retS ())) (ac\<lparr>ap_cache := ?c\<rparr>) = (Inr (), ac\<lparr>ap_cache := c'\<rparr>)" "cache_inv c'"
      "pc_definitions c' = pc_definitions ?c"
      and frame: "\<And>k. k \<notin> axis_parameter_key i ` set fs \<Longrightarrow> cache_get c' k = cache_get ?c k"
      and effect: "\<And>g. g \<in> set fs \<Longrightarrow> \<exists>w. cache_get c' (axis_parameter_key i g) = Some w \<and> \<not> pv_valid w \<and>
       pv_last_error w = Some err \<and>
       pv_value w = (case cache_get ?c (axis_parameter_key i g) of None \<Rightarrow> PNone | Some p \<Rightarrow> pv_value p)"
    using Cons.IH [OF inv reg] by blast
  have get: "cache_get ?c k = (if k = ?k then Some v else cache_get c k)" for k
    using v(2) key(1) by simp
  have step: "forS (f # fs) (\<lambda>f. bindS (on_cache (cache_invalidate (axis_parameter_key i f) err PNone ''readback_failed'' now))
              (\<lambda>_. retS ())) (ac\<lparr>ap_cache := c\<rparr>) = (Inr (), ac\<lparr>ap_cache := c'\<rparr>)"
    using v(1) c'(1) by (simp add: bindS_def retS_def)
  have "\<exists>w. cache_get c' (axis_parameter_key i g) = Some w \<and> \<not> pv_valid w \<and> pv_last_error w = Some err \<and>
       pv_value w = (case cache_get c (axis_parameter_key i g) of None \<Rightarrow> PNone | Some p \<Rightarrow> pv_value p)"
    if g: "g \<in> set (f # fs)" for g
  proof (cases "g \<in> set fs")
    case True
    from effect [OF this] show ?thesis
      by (cases "axis_parameter_key i g = ?k") (simp_all add: v(2,5) key(1))
  next
    case False
    with g have "g = f" by simp
    moreover have "?k \<notin> axis_parameter_key i ` set fs"
      using False \<open>g = f\<close> axis_parameter_key_inj by blast
    ultimately show ?thesis using frame [of ?k] get [of ?k] v(3-5) by simp
  qed
  then show ?case
    using step c'(2,3) frame get by auto
qed

subsection \<open>Properties\<close>

text \<open>C32: the parameter cache keeps its invariant. Registering, updating and invalidating, whether
  they succeed or raise, leave every definition under its own key and every value with the definition
  registered under its key; a definition that conflicts with a registered one is refused and
  changes nothing.\<close>

theorem parameter_cache_keeps_invariant:
  assumes "cache_inv c"
  shows "cache_inv (snd (register d c)) \<and> cache_inv (snd (cache_update k x raw src now c)) \<and>
    cache_inv (snd (cache_invalidate k err x src now c)) \<and>
    cache_inv (snd (update_runtime_parameter_cache a x ty acc raw src now c)) \<and>
    (fst (register d c) = Inl ValueError \<longleftrightarrow>
       (\<exists>e. map_of (pc_definitions c) (pd_key d) = Some e \<and> e \<noteq> d)) \<and>
    (fst (register d c) = Inl ValueError \<longrightarrow> snd (register d c) = c)"
proof -
  have "cache_inv (snd (update_runtime_parameter_cache a x ty acc raw src now c))"
  proof (cases "runtime_parameter_definition a ty acc")
    case (Inl e)
    with assms show ?thesis by (simp add: update_runtime_parameter_cache_def liftE_def bindS_def)
  next
    case (Inr d')
    show ?thesis
      using register_cases [of d' c] register_inv [OF assms, of d'] cache_ops_inv(1) Inr
      by (auto simp: update_runtime_parameter_cache_def liftE_def bindS_def)
  qed
  with register_inv [OF assms] cache_ops_inv [OF assms] register_cases [of d c] show ?thesis by auto
qed

theorem parameter_cache_keeps_invariant_witness:
  "cache_inv (snd (register (hd (axis_parameter_definitions 0)) empty_cache))"
  using parameter_cache_keeps_invariant [OF cache_inv_empty] by blast

text \<open>A failed refresh of an axis does not lose the last values. Invalidating an axis marks
  each of its parameters invalid with the error, keeps the value read last, and leaves the
  parameters of every other axis, and the values the axis works with, as they are.\<close>

theorem invalidate_axis_keeps_values:
  assumes "cache_inv (ap_cache ac)" and "axis_registered i (ap_cache ac)"
  shows "\<exists>c'. invalidate_axis i err now [] ac = (Inr (), ac\<lparr>ap_cache := c'\<rparr>) \<and> cache_inv c' \<and>
    (\<forall>f \<in> set AXIS_PARAMETER_FIELDS. \<exists>v. cache_get c' (axis_parameter_key i f) = Some v \<and>
       \<not> pv_valid v \<and> pv_last_error v = Some err \<and>
       pv_value v = (case cache_get (ap_cache ac) (axis_parameter_key i f) of
                       None \<Rightarrow> PNone | Some p \<Rightarrow> pv_value p)) \<and>
    (\<forall>j f. j \<noteq> i \<longrightarrow> cache_get c' (axis_parameter_key j f) = cache_get (ap_cache ac) (axis_parameter_key j f))"
proof -
  have "axis_parameter_key j f \<notin> axis_parameter_key i ` set AXIS_PARAMETER_FIELDS" if "j \<noteq> i" for j f
    using that axis_parameter_key_inj by blast
  then show ?thesis
    using invalidate_loop [OF assms(1) axis_registeredD [OF assms(2)], of err now ac]
    unfolding invalidate_axis_def by auto
qed

definition demo_axis_cache :: axis_parameter_cache where
  "demo_axis_cache = \<lparr>ap_cache = snd (forS (axis_parameter_definitions 0) register empty_cache), ap_axes = [blank_axis]\<rparr>"

lemma demo_axis_cache_ok: "cache_inv (ap_cache demo_axis_cache)" "axis_registered 0 (ap_cache demo_axis_cache)"
proof -
  have "cache_inv (snd (forS xs register empty_cache))" for xs
    by (rule forS_invariant) (auto intro: register_inv cache_inv_empty)
  then show "cache_inv (ap_cache demo_axis_cache)" by (simp add: demo_axis_cache_def)
  show "axis_registered 0 (ap_cache demo_axis_cache)"
    by code_simp
qed

theorem invalidate_axis_keeps_values_witness:
  "\<exists>c'. invalidate_axis 0 ''timeout'' 5 [] demo_axis_cache = (Inr (), demo_axis_cache\<lparr>ap_cache := c'\<rparr>) \<and> cache_inv c'"
  using invalidate_axis_keeps_values [OF demo_axis_cache_ok, of "''timeout''" 5] by blast

end
