(* ===== verification/Diagnostics.thy ===== *)
theory Diagnostics
  imports Failures
begin

section \<open>Diagnostics: definitions, the manager, clearing\<close>

text \<open>
  Models \<^verbatim>\<open>motion_server/diagnostic\<close>: \<^verbatim>\<open>models.py\<close>, \<^verbatim>\<open>definitions.py\<close>, \<^verbatim>\<open>manager.py\<close>
  (\<open>DiagnosticManager\<close>) and the level and ordering functions of \<^verbatim>\<open>serialization.py\<close>.
  The manager's two dictionaries share their status objects, so an object mutated through one
  is seen through the other: here \<open>by_id\<close> holds the objects and \<open>by_key\<close>, in insertion order,
  holds references (the diagnostic id, which the manager keeps unique). The clock and the id
  factory are arguments: \<open>now\<close> is the timestamp and \<open>new_id\<close> the id a call obtains. Timestamps
  are integers. The lemmas give the manager's invariant and its life cycle: a status stays
  active exactly until it is resolved and, if latching, also acknowledged.
\<close>

subsection \<open>Data\<close>

datatype DiagnosticLevel = LNORMAL | LALARM | LFAULT

datatype DiagnosticSourceType = SERVER | BUS | AXIS | IO

record DiagnosticDefinition =
  code :: string
  level :: DiagnosticLevel
  title :: string
  description :: string
  latching :: bool

record DiagnosticSource =
  stype :: DiagnosticSourceType
  sindex :: int

record DiagnosticHistory =
  occurred_at :: int
  acknowledged_at :: "int option"
  resolved_at :: "int option"

record DiagnosticStatus =
  diagnostic_id :: string
  ddef :: DiagnosticDefinition
  source :: DiagnosticSource
  history :: DiagnosticHistory
  detail :: "string option"
  dcontext :: "pydict option"

type_synonym diag_key = "string \<times> DiagnosticSourceType \<times> int"

record DiagnosticManager =
  by_key :: "(diag_key \<times> string) list"
  by_id :: "string \<rightharpoonup> DiagnosticStatus"
  used_ids :: "string set"

text \<open>The checks of the two \<open>__post_init__\<close> methods (whitespace is the only text the
  definition check strips).\<close>

definition mk_definition ::
  "string \<Rightarrow> DiagnosticLevel \<Rightarrow> string \<Rightarrow> string \<Rightarrow> bool \<Rightarrow> DiagnosticDefinition res" where
  "mk_definition c l t d lat =
     (if list_all is_space c then Inl ValueError
      else if l = LNORMAL then Inl ValueError
      else Inr \<lparr>code = c, level = l, title = t, description = d, latching = lat\<rparr>)"

definition mk_source :: "DiagnosticSourceType \<Rightarrow> int \<Rightarrow> DiagnosticSource res" where
  "mk_source t i =
     (if i < 0 then Inl ValueError
      else if t \<in> {SERVER, BUS} \<and> i \<noteq> 0 then Inl ValueError
      else Inr \<lparr>stype = t, sindex = i\<rparr>)"

definition cleared_at :: "DiagnosticStatus \<Rightarrow> int option" where
  "cleared_at st =
     (case resolved_at (history st) of
        None \<Rightarrow> None
      | Some r \<Rightarrow>
          if \<not> latching (ddef st) then Some r
          else case acknowledged_at (history st) of
            None \<Rightarrow> None
          | Some a \<Rightarrow> Some (max r a))"

subsection \<open>The catalogue of definitions\<close>

definition SERVER_SOURCE :: DiagnosticSource where
  "SERVER_SOURCE = \<lparr>stype = SERVER, sindex = 0\<rparr>"

definition BUS_SOURCE :: DiagnosticSource where
  "BUS_SOURCE = \<lparr>stype = BUS, sindex = 0\<rparr>"

definition AXIS_SOURCE :: "nat \<Rightarrow> DiagnosticSource" where
  "AXIS_SOURCE i = \<lparr>stype = AXIS, sindex = int i\<rparr>"

definition SERVER_INITIALIZATION_FAILED :: DiagnosticDefinition where
  "SERVER_INITIALIZATION_FAILED =
     \<lparr>code = ''SERVER_INITIALIZATION_FAILED'', level = LFAULT,
      title = ''Motion Server initialization failed'',
      description = ''A required startup operation failed and Motion Server entered degraded mode.'',
      latching = True\<rparr>"

definition BUS_PROCESS_DATA_INCOMPLETE :: DiagnosticDefinition where
  "BUS_PROCESS_DATA_INCOMPLETE =
     \<lparr>code = ''BUS_PROCESS_DATA_INCOMPLETE'', level = LFAULT,
      title = ''EtherCAT process data is incomplete'',
      description = ''The EtherCAT working counter remained below its expected value.'',
      latching = True\<rparr>"

definition BUS_CONNECTION_LOST :: DiagnosticDefinition where
  "BUS_CONNECTION_LOST =
     \<lparr>code = ''BUS_CONNECTION_LOST'', level = LFAULT,
      title = ''EtherCAT connection lost'',
      description = ''Cyclic EtherCAT transport communication was interrupted.'',
      latching = True\<rparr>"

definition BUS_RECONNECT_FAILED :: DiagnosticDefinition where
  "BUS_RECONNECT_FAILED =
     \<lparr>code = ''BUS_RECONNECT_FAILED'', level = LFAULT,
      title = ''EtherCAT reconnect failed'',
      description = ''The EtherCAT transport could not complete reconnection.'',
      latching = True\<rparr>"

definition AXIS_DRIVE_FAULT :: DiagnosticDefinition where
  "AXIS_DRIVE_FAULT =
     \<lparr>code = ''AXIS_DRIVE_FAULT'', level = LFAULT, title = ''Axis drive fault'',
      description = ''The axis statusword reports the CiA 402 fault bit.'', latching = True\<rparr>"

definition AXIS_RESTART_FAILED :: DiagnosticDefinition where
  "AXIS_RESTART_FAILED =
     \<lparr>code = ''AXIS_RESTART_FAILED'', level = LFAULT, title = ''Axis restart failed'',
      description = ''The Axis device did not complete restart and process image recovery.'',
      latching = True\<rparr>"

definition PARAMETER_REFRESH_FAILED :: DiagnosticDefinition where
  "PARAMETER_REFRESH_FAILED =
     \<lparr>code = ''PARAMETER_REFRESH_FAILED'', level = LFAULT,
      title = ''Runtime parameter refresh failed'',
      description = ''Motion Server could not refresh required runtime parameter cache values from the device.'',
      latching = True\<rparr>"

definition AXIS_DRIVE_WARNING :: DiagnosticDefinition where
  "AXIS_DRIVE_WARNING =
     \<lparr>code = ''AXIS_DRIVE_WARNING'', level = LALARM, title = ''Axis drive warning'',
      description = ''The axis statusword reports the CiA 402 warning bit.'', latching = False\<rparr>"

lemmas catalogue_defs =
  SERVER_INITIALIZATION_FAILED_def BUS_PROCESS_DATA_INCOMPLETE_def BUS_CONNECTION_LOST_def
  BUS_RECONNECT_FAILED_def AXIS_DRIVE_FAULT_def AXIS_RESTART_FAILED_def
  PARAMETER_REFRESH_FAILED_def AXIS_DRIVE_WARNING_def

lemmas source_defs = SERVER_SOURCE_def BUS_SOURCE_def AXIS_SOURCE_def

subsection \<open>The manager's operations\<close>

definition new_manager :: DiagnosticManager where
  "new_manager = \<lparr>by_key = [], by_id = Map.empty, used_ids = {}\<rparr>"

definition key_of :: "string \<Rightarrow> DiagnosticSource \<Rightarrow> diag_key" where
  "key_of c src = (c, stype src, sindex src)"

definition status_key :: "DiagnosticStatus \<Rightarrow> diag_key" where
  "status_key st = key_of (code (ddef st)) (source st)"

definition status_for :: "DiagnosticManager \<Rightarrow> string \<Rightarrow> DiagnosticSource \<Rightarrow> DiagnosticStatus option" where
  "status_for m c src = Option.bind (map_of (by_key m) (key_of c src)) (by_id m)"

definition put_status :: "DiagnosticManager \<Rightarrow> DiagnosticStatus \<Rightarrow> DiagnosticManager" where
  "put_status m st = m\<lparr>by_id := (by_id m)(diagnostic_id st \<mapsto> st)\<rparr>"

definition detect ::
  "DiagnosticDefinition \<Rightarrow> DiagnosticSource \<Rightarrow> string option \<Rightarrow> pydict option \<Rightarrow> int \<Rightarrow> string
   \<Rightarrow> (DiagnosticManager, exn, DiagnosticStatus) op" where
  "detect d src det ctx now new_id m =
     (case status_for m (code d) src of
        Some active \<Rightarrow>
          if ddef active \<noteq> d then (Inl ValueError, m)
          else
            let st = active\<lparr>history := (history active)\<lparr>resolved_at := None\<rparr>\<rparr>
            in (Inr st, put_status m st)
      | None \<Rightarrow>
          let st = \<lparr>diagnostic_id = new_id, ddef = d, source = src,
                 history = \<lparr>occurred_at = now, acknowledged_at = None, resolved_at = None\<rparr>,
                 detail = det, dcontext = ctx\<rparr>
          in if new_id = [] then (Inl ValueError, m)
             else if new_id \<in> used_ids m then (Inl ValueError, m)
             else (Inr st,
               m\<lparr>used_ids := insert new_id (used_ids m),
                 by_key := by_key m @ [(key_of (code d) src, new_id)],
                 by_id := (by_id m)(new_id \<mapsto> st)\<rparr>))"

definition clear_if_ready ::
  "DiagnosticStatus \<Rightarrow> DiagnosticManager \<Rightarrow> DiagnosticStatus \<times> DiagnosticManager" where
  "clear_if_ready st m =
     (case cleared_at st of
        None \<Rightarrow> (st, m)
      | Some _ \<Rightarrow>
          (st, m\<lparr>by_key := filter (\<lambda>(k, i). k \<noteq> status_key st) (by_key m),
                 by_id := (by_id m)(diagnostic_id st := None)\<rparr>))"

definition acknowledge :: "string \<Rightarrow> int \<Rightarrow> (DiagnosticManager, exn, DiagnosticStatus) op" where
  "acknowledge did now m =
     (case by_id m did of
        None \<Rightarrow> (Inl KeyError, m)
      | Some st \<Rightarrow>
          let st' = (if acknowledged_at (history st) = None
                     then st\<lparr>history := (history st)\<lparr>acknowledged_at := Some now\<rparr>\<rparr> else st);
              (r, m') = clear_if_ready st' (put_status m st')
          in (Inr r, m'))"

definition resolve ::
  "string \<Rightarrow> DiagnosticSource \<Rightarrow> int \<Rightarrow> (DiagnosticManager, exn, DiagnosticStatus) op" where
  "resolve c src now m =
     (case status_for m c src of
        None \<Rightarrow> (Inl KeyError, m)
      | Some st \<Rightarrow>
          let st' = (if resolved_at (history st) = None
                     then st\<lparr>history := (history st)\<lparr>resolved_at := Some now\<rparr>\<rparr> else st);
              (r, m') = clear_if_ready st' (put_status m st')
          in (Inr r, m'))"

definition active_statuses :: "DiagnosticManager \<Rightarrow> DiagnosticSource option \<Rightarrow> DiagnosticStatus list" where
  "active_statuses m src =
     filter (\<lambda>st. src = None \<or> Some (source st) = src)
       (List.map_filter (\<lambda>(k, i). by_id m i) (by_key m))"

definition fault_selected ::
  "DiagnosticSource option \<Rightarrow> DiagnosticSourceType option \<Rightarrow> DiagnosticStatus \<Rightarrow> bool" where
  "fault_selected src ty st \<longleftrightarrow>
     level (ddef st) = LFAULT
     \<and> (src = None \<or> Some (source st) = src)
     \<and> (ty = None \<or> Some (stype (source st)) = ty)"

definition acknowledge_faults ::
  "DiagnosticSource option \<Rightarrow> DiagnosticSourceType option \<Rightarrow> int
   \<Rightarrow> (DiagnosticManager, exn, DiagnosticStatus list) op" where
  "acknowledge_faults src ty now m =
     (if src \<noteq> None \<and> ty \<noteq> None then (Inl ValueError, m)
      else
        let selected = filter (fault_selected src ty) (active_statuses m None)
        in bindS (forS selected
                   (\<lambda>st. bindS (acknowledge (diagnostic_id st) now) (\<lambda>_. retS ())))
             (\<lambda>_. retS selected) m)"

definition has_active_fault ::
  "DiagnosticManager \<Rightarrow> DiagnosticSource option \<Rightarrow> DiagnosticSourceType option \<Rightarrow> bool res" where
  "has_active_fault m src ty =
     (if src \<noteq> None \<and> ty \<noteq> None then Inl ValueError
      else Inr (list_ex (fault_selected src ty) (active_statuses m None)))"

definition level_of_statuses :: "DiagnosticStatus list \<Rightarrow> DiagnosticLevel" where
  "level_of_statuses sts =
     (let levels = set (map (\<lambda>st. level (ddef st)) sts)
      in if LFAULT \<in> levels then LFAULT else if LALARM \<in> levels then LALARM else LNORMAL)"

definition current_level :: "DiagnosticManager \<Rightarrow> DiagnosticSource option \<Rightarrow> DiagnosticLevel" where
  "current_level m src = level_of_statuses (active_statuses m src)"

subsection \<open>The invariant and the keyed view\<close>

text \<open>The view of the manager by key is what its clients observe; every operation is an update
  of the view at one key.\<close>

definition view :: "DiagnosticManager \<Rightarrow> diag_key \<Rightarrow> DiagnosticStatus option" where
  "view m k = Option.bind (map_of (by_key m) k) (by_id m)"

definition manager_inv :: "DiagnosticManager \<Rightarrow> bool" where
  "manager_inv m \<longleftrightarrow>
     distinct (map fst (by_key m)) \<and> distinct (map snd (by_key m)) \<and>
     (\<forall>(k, i) \<in> set (by_key m).
        \<exists>st. by_id m i = Some st \<and> diagnostic_id st = i \<and> status_key st = k \<and>
          cleared_at st = None) \<and>
     dom (by_id m) = snd ` set (by_key m) \<and>
     dom (by_id m) \<subseteq> used_ids m"

definition acked :: "int \<Rightarrow> DiagnosticStatus \<Rightarrow> DiagnosticStatus" where
  "acked now st = (if acknowledged_at (history st) = None
     then st\<lparr>history := (history st)\<lparr>acknowledged_at := Some now\<rparr>\<rparr> else st)"

definition resolved :: "int \<Rightarrow> DiagnosticStatus \<Rightarrow> DiagnosticStatus" where
  "resolved now st = (if resolved_at (history st) = None
     then st\<lparr>history := (history st)\<lparr>resolved_at := Some now\<rparr>\<rparr> else st)"

definition reopened :: "DiagnosticStatus \<Rightarrow> DiagnosticStatus" where
  "reopened st = st\<lparr>history := (history st)\<lparr>resolved_at := None\<rparr>\<rparr>"

definition opened ::
  "DiagnosticDefinition \<Rightarrow> DiagnosticSource \<Rightarrow> string option \<Rightarrow> pydict option \<Rightarrow> int \<Rightarrow> string
   \<Rightarrow> DiagnosticStatus" where
  "opened d src det ctx now new_id =
     \<lparr>diagnostic_id = new_id, ddef = d, source = src,
      history = \<lparr>occurred_at = now, acknowledged_at = None, resolved_at = None\<rparr>,
      detail = det, dcontext = ctx\<rparr>"

definition keep_if_open :: "DiagnosticStatus \<Rightarrow> DiagnosticStatus option" where
  "keep_if_open st = (if cleared_at st = None then Some st else None)"

lemma status_for_view: "status_for m c src = view m (key_of c src)"
  by (simp add: status_for_def view_def)

lemma same_identity [simp]:
  "diagnostic_id (acked now st) = diagnostic_id st" "status_key (acked now st) = status_key st"
  "diagnostic_id (resolved now st) = diagnostic_id st" "status_key (resolved now st) = status_key st"
  "diagnostic_id (reopened st) = diagnostic_id st" "status_key (reopened st) = status_key st"
  "ddef (acked now st) = ddef st" "ddef (resolved now st) = ddef st" "ddef (reopened st) = ddef st"
  "source (acked now st) = source st" "source (resolved now st) = source st"
  "source (reopened st) = source st"
  by (simp_all add: acked_def resolved_def reopened_def status_key_def)

lemma reopened_open [simp]: "cleared_at (reopened st) = None"
  by (simp add: reopened_def cleared_at_def)

lemma manager_inv_new: "manager_inv new_manager"
  by (simp add: manager_inv_def new_manager_def)

lemma view_new [simp]: "view new_manager k = None"
  by (simp add: view_def new_manager_def)

lemma manager_invD:
  assumes "manager_inv m"
  shows "distinct (map fst (by_key m))" "distinct (map snd (by_key m))"
    "dom (by_id m) = snd ` set (by_key m)" "dom (by_id m) \<subseteq> used_ids m"
    "(k, i) \<in> set (by_key m) \<Longrightarrow>
       \<exists>st. by_id m i = Some st \<and> diagnostic_id st = i \<and> status_key st = k \<and> cleared_at st = None"
  using assms by (auto simp: manager_inv_def)

text \<open>The view at a key, the object of an id and the entry of \<open>by_key\<close> are the same fact.\<close>

lemma view_SomeD:
  assumes inv: "manager_inv m" and v: "view m k = Some st"
  shows "(k, diagnostic_id st) \<in> set (by_key m)" "by_id m (diagnostic_id st) = Some st"
    "status_key st = k" "cleared_at st = None"
proof -
  from v obtain i where i: "map_of (by_key m) k = Some i" "by_id m i = Some st"
    by (auto simp: view_def bind_eq_Some_conv)
  then have "(k, i) \<in> set (by_key m)" by (simp add: map_of_SomeD)
  with manager_invD(5) [OF inv this] i show "(k, diagnostic_id st) \<in> set (by_key m)"
    "by_id m (diagnostic_id st) = Some st" "status_key st = k" "cleared_at st = None"
    by auto
qed

lemma by_id_SomeD:
  assumes inv: "manager_inv m" and b: "by_id m i = Some st"
  shows "view m (status_key st) = Some st" "diagnostic_id st = i"
proof -
  have "i \<in> snd ` set (by_key m)" using b manager_invD(3) [OF inv] by auto
  then obtain k where ki: "(k, i) \<in> set (by_key m)" by auto
  from manager_invD(5) [OF inv this] b have st: "diagnostic_id st = i" "status_key st = k"
    by auto
  have "map_of (by_key m) k = Some i"
    using ki manager_invD(1) [OF inv] by simp
  with st b show "view m (status_key st) = Some st" "diagnostic_id st = i"
    by (auto simp: view_def)
qed

lemma view_None_iff:
  assumes "manager_inv m"
  shows "view m k = None \<longleftrightarrow> k \<notin> fst ` set (by_key m)"
proof
  assume none: "view m k = None"
  show "k \<notin> fst ` set (by_key m)"
  proof
    assume "k \<in> fst ` set (by_key m)"
    then obtain i where ki: "(k, i) \<in> set (by_key m)" by auto
    from manager_invD(5) [OF assms this] obtain st where "by_id m i = Some st" by auto
    moreover have "map_of (by_key m) k = Some i"
      using ki manager_invD(1) [OF assms] by simp
    ultimately show False using none by (simp add: view_def)
  qed
qed (simp add: view_def map_of_eq_None_iff [THEN iffD2])

lemma key_id_unique:
  assumes "manager_inv m" "(k, i) \<in> set (by_key m)" "(k', i') \<in> set (by_key m)"
  shows "k = k' \<longleftrightarrow> i = i'"
proof -
  have "inj_on fst (set (by_key m))" "inj_on snd (set (by_key m))"
    using manager_invD(1,2) [OF assms(1)] by (simp_all add: distinct_map)
  from inj_onD [OF this(1), of "(k, i)" "(k', i')"] inj_onD [OF this(2), of "(k, i)" "(k', i')"]
  show ?thesis using assms(2,3) by auto
qed

text \<open>Replacing the object at a key by an open one of the same identity.\<close>

lemma put_status_correct:
  assumes inv: "manager_inv m" and v: "view m k = Some old"
    and id: "diagnostic_id st = diagnostic_id old" "status_key st = k" "cleared_at st = None"
  shows "manager_inv (put_status m st)" "view (put_status m st) = (view m)(k \<mapsto> st)"
proof -
  note old = view_SomeD [OF inv v]
  have bi: "by_id (put_status m st) = (by_id m)(diagnostic_id old \<mapsto> st)"
    by (simp add: put_status_def id)
  have entries: "\<exists>s. by_id (put_status m st) i = Some s \<and> diagnostic_id s = i \<and>
      status_key s = k' \<and> cleared_at s = None" if "(k', i) \<in> set (by_key m)" for k' i
  proof (cases "i = diagnostic_id old")
    case True
    with key_id_unique [OF inv that old(1)] id show ?thesis by (simp add: bi)
  next
    case False
    with manager_invD(5) [OF inv that] show ?thesis by (simp add: bi)
  qed
  have "diagnostic_id old \<in> dom (by_id m)" using old(2) by blast
  then have "dom (by_id (put_status m st)) = dom (by_id m)" by (simp add: bi insert_absorb)
  moreover have "by_key (put_status m st) = by_key m" "used_ids (put_status m st) = used_ids m"
    by (simp_all add: put_status_def)
  ultimately show "manager_inv (put_status m st)"
    using entries manager_invD(1-4) [OF inv] by (simp add: manager_inv_def split_beta)
  show "view (put_status m st) = (view m)(k \<mapsto> st)"
  proof
    fix k'
    show "view (put_status m st) k' = ((view m)(k \<mapsto> st)) k'"
    proof (cases "map_of (by_key m) k'")
      case None
      moreover have "map_of (by_key m) k = Some (diagnostic_id old)"
        using old(1) manager_invD(1) [OF inv] by simp
      ultimately show ?thesis by (auto simp: view_def put_status_def)
    next
      case (Some i)
      then have "(k', i) \<in> set (by_key m)" by (rule map_of_SomeD)
      with Some key_id_unique [OF inv this old(1)] id old(1) show ?thesis
        by (auto simp: view_def put_status_def)
    qed
  qed
qed

text \<open>Removing the key of a status, with its object.\<close>

lemma map_of_filter_neq: "map_of (filter (\<lambda>(k', i). k' \<noteq> k) xs) = (map_of xs)(k := None)"
  by (induction xs) auto

lemma clear_correct:
  assumes inv: "manager_inv m" and v: "view m k = Some old"
    and id: "diagnostic_id st = diagnostic_id old" "status_key st = k"
  defines "m' \<equiv> snd (clear_if_ready st (put_status m st))"
  shows "manager_inv m'" "view m' = (view m)(k := keep_if_open st)"
    "used_ids m' = used_ids m"
proof -
  note old = view_SomeD [OF inv v]
  show "used_ids m' = used_ids m"
    by (simp add: m'_def clear_if_ready_def put_status_def split: option.splits)
  show "manager_inv m'"
  proof (cases "cleared_at st")
    case None
    then show ?thesis
      using put_status_correct(1) [OF inv v id(1,2)] by (simp add: m'_def clear_if_ready_def)
  next
    case (Some t)
    have bk: "by_key m' = filter (\<lambda>(k', i). k' \<noteq> k) (by_key m)"
      and bi: "by_id m' = (by_id m)(diagnostic_id old := None)" and u: "used_ids m' = used_ids m"
      using Some id by (auto simp: m'_def clear_if_ready_def put_status_def)
    have other: "k' = k \<longleftrightarrow> i = diagnostic_id old" if "(k', i) \<in> set (by_key m)" for k' i
      using key_id_unique [OF inv that old(1)] .
    have "snd ` set (by_key m') = snd ` set (by_key m) - {diagnostic_id old}"
      using other by (force simp: bk)
    then have "dom (by_id m') = snd ` set (by_key m')"
      using manager_invD(3) [OF inv] by (simp add: bi)
    moreover have "distinct (map fst (by_key m'))" "distinct (map snd (by_key m'))"
      using manager_invD(1,2) [OF inv] by (simp_all add: bk distinct_map_filter)
    moreover have "dom (by_id m') \<subseteq> used_ids m'"
      using manager_invD(4) [OF inv] by (auto simp: bi u)
    ultimately show ?thesis
      using manager_invD(5) [OF inv] other by (fastforce simp: manager_inv_def bk bi)
  qed
  show "view m' = (view m)(k := keep_if_open st)"
  proof (cases "cleared_at st")
    case None
    then show ?thesis
      using put_status_correct(2) [OF inv v id(1,2)]
      by (simp add: m'_def clear_if_ready_def keep_if_open_def)
  next
    case (Some t)
    show ?thesis
    proof
      fix k'
      have "i \<noteq> diagnostic_id old" if "k' \<noteq> k" "map_of (by_key m) k' = Some i" for i
        using that key_id_unique [OF inv _ old(1), of k' i] map_of_SomeD by fastforce
      then show "view m' k' = ((view m)(k := keep_if_open st)) k'"
        using Some id
        by (cases "map_of (by_key m) k'")
           (auto simp: view_def m'_def clear_if_ready_def put_status_def keep_if_open_def
             map_of_filter_neq)
    qed
  qed
qed

text \<open>The operations as updates of the view.\<close>

lemma clear_if_ready_fst [simp]: "fst (clear_if_ready st m) = st"
  by (simp add: clear_if_ready_def split: option.splits)

lemma acknowledge_correct:
  assumes inv: "manager_inv m" and v: "view m k = Some st"
  shows "fst (acknowledge (diagnostic_id st) now m) = Inr (acked now st)"
    "manager_inv (snd (acknowledge (diagnostic_id st) now m))"
    "view (snd (acknowledge (diagnostic_id st) now m)) =
       (view m)(k := keep_if_open (acked now st))"
  using clear_correct(1,2) [OF inv v, of "acked now st"] view_SomeD [OF inv v]
  by (simp_all add: acknowledge_def acked_def [symmetric] case_prod_unfold Let_def)

lemma resolve_correct:
  assumes inv: "manager_inv m" and v: "view m (key_of c src) = Some st"
  shows "fst (resolve c src now m) = Inr (resolved now st)"
    "manager_inv (snd (resolve c src now m))"
    "view (snd (resolve c src now m)) =
       (view m)(key_of c src := keep_if_open (resolved now st))"
  using clear_correct(1,2) [OF inv v, of "resolved now st"] view_SomeD [OF inv v] v
  by (simp_all add: resolve_def status_for_view resolved_def [symmetric] case_prod_unfold Let_def)

lemma resolve_absent:
  "view m (key_of c src) = None \<Longrightarrow> resolve c src now m = (Inl KeyError, m)"
  by (simp add: resolve_def status_for_view)

lemma acknowledge_absent: "by_id m i = None \<Longrightarrow> acknowledge i now m = (Inl KeyError, m)"
  by (simp add: acknowledge_def)

lemma detect_active:
  assumes inv: "manager_inv m" and v: "view m (key_of (code d) src) = Some st"
  shows "ddef st = d \<Longrightarrow> detect d src det ctx now new_id m = (Inr (reopened st), put_status m (reopened st))"
    "ddef st = d \<Longrightarrow> manager_inv (put_status m (reopened st))"
    "ddef st = d \<Longrightarrow> view (put_status m (reopened st)) =
       (view m)(key_of (code d) src \<mapsto> reopened st)"
    "ddef st \<noteq> d \<Longrightarrow> detect d src det ctx now new_id m = (Inl ValueError, m)"
  using put_status_correct [OF inv v, of "reopened st"] view_SomeD [OF inv v] v
  by (simp_all add: detect_def status_for_view reopened_def [symmetric] Let_def)

lemma detect_new:
  fixes det :: "string option" and ctx :: "pydict option" and now :: int
  assumes inv: "manager_inv m" and v: "view m (key_of (code d) src) = None"
    and fresh: "new_id \<noteq> []" "new_id \<notin> used_ids m"
  defines "m' \<equiv> snd (detect d src det ctx now new_id m)"
  shows "fst (detect d src det ctx now new_id m) = Inr (opened d src det ctx now new_id)"
    "manager_inv m'"
    "view m' = (view m)(key_of (code d) src \<mapsto> opened d src det ctx now new_id)"
proof -
  let ?k = "key_of (code d) src" and ?st = "opened d src det ctx now new_id"
  have eq: "detect d src det ctx now new_id m = (Inr ?st,
      m\<lparr>used_ids := insert new_id (used_ids m), by_key := by_key m @ [(?k, new_id)],
        by_id := (by_id m)(new_id \<mapsto> ?st)\<rparr>)"
    using v fresh by (simp add: detect_def status_for_view opened_def Let_def)
  then show "fst (detect d src det ctx now new_id m) = Inr ?st" by simp
  have k: "?k \<notin> fst ` set (by_key m)" using view_None_iff [OF inv] v by auto
  have i: "new_id \<notin> snd ` set (by_key m)"
    using fresh manager_invD(3,4) [OF inv] by auto
  have st: "diagnostic_id ?st = new_id" "status_key ?st = ?k" "cleared_at ?st = None"
    by (simp_all add: opened_def status_key_def cleared_at_def)
  have m': "by_key m' = by_key m @ [(?k, new_id)]" "by_id m' = (by_id m)(new_id \<mapsto> ?st)"
    "used_ids m' = insert new_id (used_ids m)"
    by (simp_all add: m'_def eq)
  have entries: "\<exists>s. by_id m' j = Some s \<and> diagnostic_id s = j \<and> status_key s = k' \<and>
      cleared_at s = None" if "(k', j) \<in> set (by_key m')" for k' j
  proof (cases "(k', j) \<in> set (by_key m)")
    case True
    then have "j \<noteq> new_id" using i by force
    with manager_invD(5) [OF inv True] show ?thesis by (simp add: m')
  next
    case False
    with that st show ?thesis by (simp add: m')
  qed
  have "distinct (map fst (by_key m'))" "distinct (map snd (by_key m'))"
    "dom (by_id m') = snd ` set (by_key m')" "dom (by_id m') \<subseteq> used_ids m'"
    using k i manager_invD(1-4) [OF inv] by (simp_all add: m') blast
  with entries show "manager_inv m'" by (simp add: manager_inv_def split_beta)
  show "view m' = (view m)(?k \<mapsto> ?st)"
  proof
    fix k'
    have "j \<noteq> new_id" if "map_of (by_key m) k' = Some j" for j
      using map_of_SomeD [OF that] i by force
    then show "view m' k' = ((view m)(?k \<mapsto> ?st)) k'"
      using k map_of_eq_None_iff [of "by_key m" ?k]
      by (cases "map_of (by_key m) k'") (auto simp: view_def m' map_add_def)
  qed
qed

subsection \<open>The life cycle as an interface\<close>

text \<open>What recovery and the fault reset commands rely on: the store is seen through a keyed
  view, resolving and acknowledging act on the view at one key only, and a status both resolved
  and acknowledged is gone, in either order.\<close>

locale status_lifecycle =
  fixes inv :: "'m \<Rightarrow> bool"
    and look :: "'m \<Rightarrow> 'k \<Rightarrow> 's option"
    and res :: "'k \<Rightarrow> 'm \<Rightarrow> 'm"
    and ack :: "'k \<Rightarrow> 'm \<Rightarrow> 'm"
    and fres :: "'s \<Rightarrow> 's"
    and fack :: "'s \<Rightarrow> 's"
    and keep :: "'s \<Rightarrow> 's option"
  assumes inv_res: "inv m \<Longrightarrow> inv (res k m)"
    and inv_ack: "inv m \<Longrightarrow> inv (ack k m)"
    and look_res: "inv m \<Longrightarrow> look (res k m) = (look m)(k := Option.bind (look m k) (keep \<circ> fres))"
    and look_ack: "inv m \<Longrightarrow> look (ack k m) = (look m)(k := Option.bind (look m k) (keep \<circ> fack))"
    and keep_id: "keep s = Some s' \<Longrightarrow> s' = s"
    and closes: "keep (fack (fres s)) = None" "keep (fres (fack s)) = None"
begin

lemma res_frame: "inv m \<Longrightarrow> k' \<noteq> k \<Longrightarrow> look (res k m) k' = look m k'"
  by (simp add: look_res)

lemma ack_frame: "inv m \<Longrightarrow> k' \<noteq> k \<Longrightarrow> look (ack k m) k' = look m k'"
  by (simp add: look_ack)

lemma keep_cases: "keep s = None \<or> keep s = Some s"
  using keep_id by (cases "keep s") auto

lemma res_ack_clears: "inv m \<Longrightarrow> look (ack k (res k m)) k = None"
  using closes(1) keep_cases [of "fres (the (look m k))"]
  by (cases "look m k") (auto simp: look_ack look_res inv_res)

lemma ack_res_clears: "inv m \<Longrightarrow> look (res k (ack k m)) k = None"
  using closes(2) keep_cases [of "fack (the (look m k))"]
  by (cases "look m k") (auto simp: look_ack look_res inv_ack)

lemma res_all: "inv m \<Longrightarrow> inv (fold res ks m)"
  by (induction ks arbitrary: m) (simp_all add: inv_res)

lemma res_all_frame: "inv m \<Longrightarrow> k \<notin> set ks \<Longrightarrow> look (fold res ks m) k = look m k"
  by (induction ks arbitrary: m) (simp_all add: inv_res res_frame)

lemma res_all_absent: "inv m \<Longrightarrow> look m k = None \<Longrightarrow> look (fold res ks m) k = None"
proof (induction ks arbitrary: m)
  case (Cons a ks)
  then have "look (res a m) k = None" by (auto simp: look_res)
  with Cons show ?case by (simp add: inv_res)
qed simp

end

definition resolve_key :: "int \<Rightarrow> diag_key \<Rightarrow> DiagnosticManager \<Rightarrow> DiagnosticManager" where
  "resolve_key now k m = (case k of (c, t, i) \<Rightarrow> snd (resolve c \<lparr>stype = t, sindex = i\<rparr> now m))"

definition acknowledge_key :: "int \<Rightarrow> diag_key \<Rightarrow> DiagnosticManager \<Rightarrow> DiagnosticManager" where
  "acknowledge_key now k m =
     (case view m k of None \<Rightarrow> m | Some st \<Rightarrow> snd (acknowledge (diagnostic_id st) now m))"

lemma key_of_mk [simp]: "key_of c \<lparr>stype = t, sindex = i\<rparr> = (c, t, i)"
  by (simp add: key_of_def)

lemma resolve_key_correct:
  assumes "manager_inv m"
  shows "manager_inv (resolve_key now k m)"
    "view (resolve_key now k m) =
       (view m)(k := Option.bind (view m k) (keep_if_open \<circ> resolved now))"
proof -
  obtain c t i where k: "k = (c, t, i)" by (cases k)
  show "manager_inv (resolve_key now k m)"
    "view (resolve_key now k m) =
       (view m)(k := Option.bind (view m k) (keep_if_open \<circ> resolved now))"
    using resolve_correct(2,3) [of m c "\<lparr>stype = t, sindex = i\<rparr>"]
      resolve_absent [of m c "\<lparr>stype = t, sindex = i\<rparr>"] assms k
    by (cases "view m k"; fastforce simp: resolve_key_def)+
qed

lemma acknowledge_key_correct:
  assumes "manager_inv m"
  shows "manager_inv (acknowledge_key now k m)"
    "view (acknowledge_key now k m) =
       (view m)(k := Option.bind (view m k) (keep_if_open \<circ> acked now))"
  using acknowledge_correct(2,3) [OF assms, of k] assms
  by (cases "view m k"; fastforce simp: acknowledge_key_def)+

interpretation dm: status_lifecycle manager_inv view "resolve_key t1" "acknowledge_key t2"
    "resolved t1" "acked t2" keep_if_open
proof unfold_locales
  fix st
  show "keep_if_open (acked t2 (resolved t1 st)) = None"
    "keep_if_open (resolved t1 (acked t2 st)) = None"
    by (auto simp: keep_if_open_def cleared_at_def acked_def resolved_def split: option.splits)
qed (auto simp: resolve_key_correct acknowledge_key_correct keep_if_open_def split: if_splits)

subsection \<open>Active statuses\<close>

lemma active_statuses_set:
  assumes "manager_inv m"
  shows "st \<in> set (active_statuses m None) \<longleftrightarrow> view m (status_key st) = Some st"
proof
  assume "st \<in> set (active_statuses m None)"
  then obtain k i where ki: "(k, i) \<in> set (by_key m)" "by_id m i = Some st"
    by (auto simp: active_statuses_def List.map_filter_def)
  from by_id_SomeD(1) [OF assms this(2)] show "view m (status_key st) = Some st" .
next
  assume v: "view m (status_key st) = Some st"
  from view_SomeD(1,2) [OF assms v] show "st \<in> set (active_statuses m None)"
    by (force simp: active_statuses_def List.map_filter_def)
qed

lemma active_statuses_keys:
  assumes "manager_inv m"
  shows "map status_key (active_statuses m None) = map fst (by_key m)"
proof -
  have "map status_key (List.map_filter (\<lambda>(k, i). by_id m i) xs) = map fst xs"
    if "set xs \<subseteq> set (by_key m)" for xs
    using that
  proof (induction xs)
    case (Cons p xs)
    obtain k i where p: "p = (k, i)" by fastforce
    with Cons.prems have "(k, i) \<in> set (by_key m)" by simp
    from manager_invD(5) [OF assms this] Cons p show ?case
      by (auto simp: List.map_filter_def)
  qed (simp add: List.map_filter_def)
  from this [of "by_key m"] show ?thesis by (simp add: active_statuses_def)
qed

lemma acknowledge_loop:
  assumes "manager_inv m" and "distinct (map status_key sts)"
    and "\<forall>st \<in> set sts. view m (status_key st) = Some st"
  shows "\<exists>m'. forS sts (\<lambda>st. bindS (acknowledge (diagnostic_id st) now) (\<lambda>_. retS ())) m =
      (Inr (), m') \<and> manager_inv m' \<and>
      view m' = (\<lambda>k. if k \<in> status_key ` set sts
        then Option.bind (view m k) (keep_if_open \<circ> acked now) else view m k)"
  using assms
proof (induction sts arbitrary: m)
  case Nil
  then show ?case by (auto simp: retS_def)
next
  case (Cons st sts)
  from Cons.prems have v: "view m (status_key st) = Some st" by simp
  obtain m1 where eq: "acknowledge (diagnostic_id st) now m = (Inr (acked now st), m1)"
    and inv1: "manager_inv m1"
    and v1: "view m1 = (view m)(status_key st := keep_if_open (acked now st))"
    using acknowledge_correct [OF Cons.prems(1) v, of now]
    by (cases "acknowledge (diagnostic_id st) now m") simp
  have "\<forall>s \<in> set sts. view m1 (status_key s) = Some s"
  proof
    fix s
    assume s: "s \<in> set sts"
    have "status_key st \<notin> status_key ` set sts" using Cons.prems(2) by simp
    with s have "status_key s \<noteq> status_key st" by (metis imageI)
    with s Cons.prems(3) show "view m1 (status_key s) = Some s" by (simp add: v1)
  qed
  note active1 = this
  obtain m' where m': "forS sts (\<lambda>st. bindS (acknowledge (diagnostic_id st) now)
        (\<lambda>_. retS ())) m1 = (Inr (), m')" "manager_inv m'"
      "view m' = (\<lambda>k. if k \<in> status_key ` set sts
        then Option.bind (view m1 k) (keep_if_open \<circ> acked now) else view m1 k)"
    using Cons.IH [OF inv1 _ active1] Cons.prems(2) by auto
  have "forS (st # sts) (\<lambda>st. bindS (acknowledge (diagnostic_id st) now) (\<lambda>_. retS ())) m =
      (Inr (), m')"
    using m'(1) by (simp add: bindS_def eq retS_def)
  moreover have "view m' = (\<lambda>k. if k \<in> status_key ` set (st # sts)
        then Option.bind (view m k) (keep_if_open \<circ> acked now) else view m k)"
    using Cons.prems(2) v by (auto simp: m'(3) v1 fun_eq_iff)
  ultimately show ?case using m'(2) by blast
qed

lemma acknowledge_faults_correct:
  assumes inv: "manager_inv m" and "src = None \<or> ty = None"
  shows "\<exists>m'. acknowledge_faults src ty now m =
      (Inr (filter (fault_selected src ty) (active_statuses m None)), m') \<and> manager_inv m' \<and>
      view m' = (\<lambda>k. case view m k of None \<Rightarrow> None
        | Some st \<Rightarrow> if fault_selected src ty st then keep_if_open (acked now st) else Some st)"
proof -
  let ?sel = "filter (fault_selected src ty) (active_statuses m None)"
  have "distinct (map status_key ?sel)"
    using manager_invD(1) [OF inv] active_statuses_keys [OF inv]
    by (metis distinct_map_filter)
  moreover have sel: "\<forall>st \<in> set ?sel. view m (status_key st) = Some st"
    using active_statuses_set [OF inv] by simp
  ultimately obtain m' where m': "forS ?sel (\<lambda>st. bindS (acknowledge (diagnostic_id st) now)
        (\<lambda>_. retS ())) m = (Inr (), m')" "manager_inv m'"
      "view m' = (\<lambda>k. if k \<in> status_key ` set ?sel
        then Option.bind (view m k) (keep_if_open \<circ> acked now) else view m k)"
    using acknowledge_loop [OF inv] by blast
  have "k \<in> status_key ` set ?sel \<longleftrightarrow> (\<exists>st. view m k = Some st \<and> fault_selected src ty st)" for k
  proof
    assume "k \<in> status_key ` set ?sel"
    then obtain st where "k = status_key st" "st \<in> set ?sel" by blast
    then show "\<exists>st. view m k = Some st \<and> fault_selected src ty st" using sel by auto
  next
    assume "\<exists>st. view m k = Some st \<and> fault_selected src ty st"
    then obtain st where st: "view m k = Some st" "fault_selected src ty st" by blast
    with view_SomeD(3) [OF inv st(1)] active_statuses_set [OF inv, of st]
    show "k \<in> status_key ` set ?sel" by auto
  qed
  then have "view m' = (\<lambda>k. case view m k of None \<Rightarrow> None
        | Some st \<Rightarrow> if fault_selected src ty st then keep_if_open (acked now st) else Some st)"
    by (auto simp: m'(3) fun_eq_iff split: option.splits)
  with m' assms(2) show ?thesis
    by (auto simp: acknowledge_faults_def bindS_def retS_def Let_def)
qed

lemma has_active_fault_iff:
  assumes "manager_inv m" and "src = None \<or> ty = None"
  shows "has_active_fault m src ty = Inr (\<exists>k st. view m k = Some st \<and> fault_selected src ty st)"
proof -
  have "(\<exists>st \<in> set (active_statuses m None). fault_selected src ty st) \<longleftrightarrow>
      (\<exists>k st. view m k = Some st \<and> fault_selected src ty st)"
    using active_statuses_set [OF assms(1)] view_SomeD(3) [OF assms(1)] by blast
  with assms(2) show ?thesis by (auto simp: has_active_fault_def list_ex_iff)
qed

subsection \<open>Properties\<close>

text \<open>Every operation of the manager keeps its invariant, on the error paths as well: the
  keys and the ids in use stay unique, the two dictionaries describe the same status objects
  under matching keys, and no status that is ready to be cleared is still active.\<close>

theorem manager_operations_keep_invariant:
  assumes "manager_inv m"
  shows "manager_inv (snd (detect d src det ctx now new_id m))
    \<and> manager_inv (snd (acknowledge i now m))
    \<and> manager_inv (snd (resolve c src now m))
    \<and> manager_inv (snd (acknowledge_faults s ty now m))"
proof (intro conjI)
  show "manager_inv (snd (detect d src det ctx now new_id m))"
  proof (cases "view m (key_of (code d) src)")
    case None
    then show ?thesis
      using assms detect_new(2) [OF assms None, of new_id]
      by (cases "new_id = [] \<or> new_id \<in> used_ids m") (auto simp: detect_def status_for_view Let_def)
  next
    case (Some st)
    then show ?thesis
      using assms detect_active [OF assms Some] by (cases "ddef st = d") simp_all
  qed
  show "manager_inv (snd (acknowledge i now m))"
  proof (cases "by_id m i")
    case None
    then show ?thesis using assms by (simp add: acknowledge_absent)
  next
    case (Some st)
    note st = by_id_SomeD [OF assms Some]
    show ?thesis using acknowledge_correct(2) [OF assms st(1)] st(2) by simp
  qed
  show "manager_inv (snd (resolve c src now m))"
    using assms resolve_absent [of m c src] resolve_correct(2) [OF assms]
    by (cases "view m (key_of c src)") auto
  show "manager_inv (snd (acknowledge_faults s ty now m))"
    using assms acknowledge_faults_correct [OF assms, of s ty now]
    by (cases "s = None \<or> ty = None") (auto simp: acknowledge_faults_def)
qed

theorem manager_operations_keep_invariant_witness:
  "manager_inv (snd (detect AXIS_DRIVE_FAULT (AXIS_SOURCE 2) None None 5 ''a'' new_manager))"
  using manager_operations_keep_invariant [OF manager_inv_new] by blast



text \<open>Acknowledging the faults of a source (or of a source type) never raises, reports
  exactly the active faults selected, leaves every other status untouched, and removes the
  selected faults whose condition is already resolved while the others stay active as
  acknowledged.\<close>

theorem acknowledge_faults_effect:
  assumes "manager_inv m" and "src = None \<or> ty = None"
  shows "fst (acknowledge_faults src ty now m) =
      Inr (filter (fault_selected src ty) (active_statuses m None))
    \<and> (\<forall>k. view (snd (acknowledge_faults src ty now m)) k =
        (case view m k of None \<Rightarrow> None
         | Some st \<Rightarrow> if fault_selected src ty st then keep_if_open (acked now st) else Some st))"
  using acknowledge_faults_correct [OF assms, of now] by auto

end
