(* ===== verification/Init_Session.thy ===== *)
theory Init_Session
  imports Diagnostics
begin

section \<open>Initialization status and server session\<close>

text \<open>
  Models \<^verbatim>\<open>motion_server/app/initialization.py\<close> (stages, causes and their catalogue, the failure
  and status records with the checks of their \<open>__post_init__\<close>, the recovery scopes, the
  classification of a startup exception) and \<^verbatim>\<open>motion_server/app/session.py\<close> (\<open>ServerSession\<close>),
  with \<^verbatim>\<open>diagnostic/startup.py\<close>. The runtime object a session may hold is opaque here: only its
  presence and identity (a number) matter. Log output is left out.
\<close>

subsection \<open>Initialization failures\<close>

record cause_definition =
  cd_stage :: InitializationStage
  cd_message :: string

fun INITIALIZATION_CAUSE_DEFINITIONS :: "InitializationCause \<Rightarrow> cause_definition" where
  "INITIALIZATION_CAUSE_DEFINITIONS CONFIGURATION_INVALID =
     \<lparr>cd_stage = CONFIGURATION, cd_message = ''Motion Server configuration is invalid.''\<rparr>"
| "INITIALIZATION_CAUSE_DEFINITIONS CONFIGURATION_FAILED =
     \<lparr>cd_stage = CONFIGURATION, cd_message = ''Failed to build Motion Server configuration.''\<rparr>"
| "INITIALIZATION_CAUSE_DEFINITIONS DEVICE_PROFILE_INVALID =
     \<lparr>cd_stage = DEVICE_MODEL_BUILD, cd_message = ''A configured device profile is invalid.''\<rparr>"
| "INITIALIZATION_CAUSE_DEFINITIONS DEVICE_LAYOUT_INVALID =
     \<lparr>cd_stage = DEVICE_MODEL_BUILD, cd_message = ''The configured device layout is invalid.''\<rparr>"
| "INITIALIZATION_CAUSE_DEFINITIONS DEVICE_IDENTITY_MISMATCH =
     \<lparr>cd_stage = BUS_CONNECTION,
      cd_message = ''Configured device profile does not match the connected EtherCAT slave.''\<rparr>"
| "INITIALIZATION_CAUSE_DEFINITIONS PDO_CATALOG_MISMATCH =
     \<lparr>cd_stage = DEVICE_MODEL_BUILD,
      cd_message = ''Configured device layout does not match the device PDO catalog.''\<rparr>"
| "INITIALIZATION_CAUSE_DEFINITIONS DEVICE_MODEL_BUILD_FAILED =
     \<lparr>cd_stage = DEVICE_MODEL_BUILD,
      cd_message = ''Failed to build the configured device model.''\<rparr>"
| "INITIALIZATION_CAUSE_DEFINITIONS RUNTIME_CREATION_FAILED =
     \<lparr>cd_stage = RUNTIME_CREATION, cd_message = ''Failed to create the Motion Server runtime.''\<rparr>"
| "INITIALIZATION_CAUSE_DEFINITIONS BUS_CONNECTION_FAILED =
     \<lparr>cd_stage = BUS_CONNECTION, cd_message = ''Failed to connect to the configured EtherCAT bus.''\<rparr>"
| "INITIALIZATION_CAUSE_DEFINITIONS REQUIRED_PARAMETER_READ_FAILED =
     \<lparr>cd_stage = DEVICE_INITIALIZATION,
      cd_message = ''Failed to read a required device parameter.''\<rparr>"
| "INITIALIZATION_CAUSE_DEFINITIONS DEVICE_INITIALIZATION_FAILED =
     \<lparr>cd_stage = DEVICE_INITIALIZATION,
      cd_message = ''Failed to initialize the configured devices.''\<rparr>"

record InitializationFailure =
  if_stage :: InitializationStage
  if_cause :: InitializationCause
  if_message :: string
  if_occurred_at :: int

definition mk_failure ::
  "InitializationStage \<Rightarrow> InitializationCause \<Rightarrow> string \<Rightarrow> int \<Rightarrow> InitializationFailure res" where
  "mk_failure stage cause message t =
     (if list_all is_space message then Inl ValueError
      else if cd_stage (INITIALIZATION_CAUSE_DEFINITIONS cause) \<noteq> stage then Inl ValueError
      else if message \<noteq> cd_message (INITIALIZATION_CAUSE_DEFINITIONS cause) then Inl ValueError
      else Inr \<lparr>if_stage = stage, if_cause = cause, if_message = message, if_occurred_at = t\<rparr>)"

record InitializationStatus =
  initialized :: bool
  failure :: "InitializationFailure option"

definition mk_status :: "bool \<Rightarrow> InitializationFailure option \<Rightarrow> InitializationStatus res" where
  "mk_status b f =
     (if b \<and> f \<noteq> None then Inl ValueError
      else if \<not> b \<and> f = None then Inl ValueError
      else Inr \<lparr>initialized = b, failure = f\<rparr>)"

definition ready :: InitializationStatus where
  "ready = \<lparr>initialized = True, failure = None\<rparr>"

definition failed :: "InitializationFailure \<Rightarrow> InitializationStatus" where
  "failed f = \<lparr>initialized = False, failure = Some f\<rparr>"

datatype InitializationRecoveryScope = BUS_RECONNECT | SERVER_RESTART

fun scope_value :: "InitializationRecoveryScope \<Rightarrow> int" where
  "scope_value BUS_RECONNECT = 1"
| "scope_value SERVER_RESTART = 2"

fun INITIALIZATION_RECOVERY_SCOPE :: "InitializationStage \<Rightarrow> InitializationRecoveryScope" where
  "INITIALIZATION_RECOVERY_SCOPE CONFIGURATION = SERVER_RESTART"
| "INITIALIZATION_RECOVERY_SCOPE DEVICE_MODEL_BUILD = SERVER_RESTART"
| "INITIALIZATION_RECOVERY_SCOPE RUNTIME_CREATION = SERVER_RESTART"
| "INITIALIZATION_RECOVERY_SCOPE BUS_CONNECTION = BUS_RECONNECT"
| "INITIALIZATION_RECOVERY_SCOPE DEVICE_INITIALIZATION = BUS_RECONNECT"

definition recovery_action_allowed :: "InitializationStage \<Rightarrow> InitializationRecoveryScope \<Rightarrow> bool" where
  "recovery_action_allowed stage requested \<longleftrightarrow>
     scope_value requested \<ge> scope_value (INITIALIZATION_RECOVERY_SCOPE stage)"

definition initialization_cause_from_exception ::
  "InitializationStage \<Rightarrow> exn \<Rightarrow> InitializationCause res" where
  "initialization_cause_from_exception stage e =
     (case e of
        InitExn cause \<Rightarrow>
          if cd_stage (INITIALIZATION_CAUSE_DEFINITIONS cause) \<noteq> stage then Inl RuntimeError
          else Inr cause
      | _ \<Rightarrow>
          if isinstance e CDeviceIdentityMismatch then Inr DEVICE_IDENTITY_MISMATCH
          else if stage = CONFIGURATION then
            (if isinstance e CConfiguration \<or> isinstance e CValueError
                \<or> isinstance e CTypeError \<or> isinstance e COverflowError
             then Inr CONFIGURATION_INVALID else Inr CONFIGURATION_FAILED)
          else if stage = DEVICE_MODEL_BUILD then
            (if isinstance e CValueError \<or> isinstance e CTypeError \<or> isinstance e COverflowError
             then Inr DEVICE_PROFILE_INVALID else Inr DEVICE_MODEL_BUILD_FAILED)
          else if stage = RUNTIME_CREATION then Inr RUNTIME_CREATION_FAILED
          else if stage = BUS_CONNECTION then Inr BUS_CONNECTION_FAILED
          else Inr DEVICE_INITIALIZATION_FAILED)"

definition initialization_failure_from_exception ::
  "InitializationStage \<Rightarrow> exn \<Rightarrow> int \<Rightarrow> InitializationFailure res" where
  "initialization_failure_from_exception stage e t =
     bindE (initialization_cause_from_exception stage e) (\<lambda>cause.
       mk_failure stage cause (cd_message (INITIALIZATION_CAUSE_DEFINITIONS cause)) t)"

definition should_log_initialization_traceback :: "exn \<Rightarrow> bool" where
  "should_log_initialization_traceback e \<longleftrightarrow>
     \<not> (isinstance e CInitialization \<or> isinstance e CConfiguration \<or> isinstance e CDeviceModel
        \<or> isinstance e CValueError \<or> isinstance e CTypeError \<or> isinstance e COverflowError)"

subsection \<open>The server session\<close>

datatype ServerRuntimeState = RNORMAL | RINITIALIZATION_ERROR | RBUS_DISCONNECTED | RFAULT

fun runtime_state_value :: "ServerRuntimeState \<Rightarrow> string" where
  "runtime_state_value RNORMAL = ''normal''"
| "runtime_state_value RINITIALIZATION_ERROR = ''initialization_error''"
| "runtime_state_value RBUS_DISCONNECTED = ''bus_disconnected''"
| "runtime_state_value RFAULT = ''fault''"

record ServerSession =
  initialization_status :: InitializationStatus
  runtime_state :: ServerRuntimeState
  diagnostic_manager :: DiagnosticManager
  runtime :: "nat option"

definition new_session :: "InitializationStatus \<Rightarrow> DiagnosticManager \<Rightarrow> nat option \<Rightarrow> ServerSession" where
  "new_session st dm rt =
     \<lparr>initialization_status = st,
      runtime_state = (if initialized st then RNORMAL else RINITIALIZATION_ERROR),
      diagnostic_manager = dm, runtime = rt\<rparr>"

definition attach_runtime :: "nat option \<Rightarrow> (ServerSession, exn, nat) op" where
  "attach_runtime rt s =
     (case rt of None \<Rightarrow> (Inl TypeError, s) | Some r \<Rightarrow> (Inr r, s\<lparr>runtime := Some r\<rparr>))"

definition detach_runtime :: "ServerSession \<Rightarrow> nat option \<times> ServerSession" where
  "detach_runtime s = (runtime s, s\<lparr>runtime := None\<rparr>)"

definition mark_ready :: "ServerSession \<Rightarrow> ServerSession" where
  "mark_ready s = s\<lparr>initialization_status := ready, runtime_state := RNORMAL\<rparr>"

definition mark_failed :: "InitializationFailure \<Rightarrow> ServerSession \<Rightarrow> ServerSession" where
  "mark_failed f s =
     s\<lparr>initialization_status := failed f, runtime_state := RINITIALIZATION_ERROR\<rparr>"

definition set_runtime_state :: "ServerRuntimeState \<Rightarrow> (ServerSession, exn, unit) op" where
  "set_runtime_state rs s =
     (if rs \<noteq> RINITIALIZATION_ERROR \<and> runtime s = None then (Inl RuntimeError, s)
      else (Inr (), s\<lparr>runtime_state := rs\<rparr>))"

definition detect_initialization_fault :: "int \<Rightarrow> string \<Rightarrow> (DiagnosticManager, exn, DiagnosticStatus) op" where
  "detect_initialization_fault now new_id =
     detect SERVER_INITIALIZATION_FAILED SERVER_SOURCE None None now new_id"

definition resolve_initialization_fault :: "int \<Rightarrow> (DiagnosticManager, exn, DiagnosticStatus option) op" where
  "resolve_initialization_fault now m =
     (case resolve (code SERVER_INITIALIZATION_FAILED) SERVER_SOURCE now m of
        (Inl e, m') \<Rightarrow> (if isinstance e CKeyError then (Inr None, m') else (Inl e, m'))
      | (Inr st, m') \<Rightarrow> (Inr (Some st), m'))"

subsection \<open>Lemmas\<close>

lemma cause_messages_nonblank:
  "\<not> list_all is_space (cd_message (INITIALIZATION_CAUSE_DEFINITIONS c))"
  by (cases c) (simp_all add: is_space_def)

lemma cause_of_stage:
  assumes "initialization_cause_from_exception stage e = Inr c"
    and "\<not> isinstance e CDeviceIdentityMismatch"
  shows "cd_stage (INITIALIZATION_CAUSE_DEFINITIONS c) = stage"
  using assms
  by (cases e; cases stage)
     (auto simp: initialization_cause_from_exception_def split: if_splits)

subsection \<open>Properties\<close>

text \<open>Classifying a startup exception yields a failure record whose stage, cause and
  message agree with the catalogue, for every stage and every exception other than a device
  identity mismatch or an \<open>InitializationException\<close> whose cause belongs to another stage.\<close>

theorem startup_failure_consistent:
  assumes "\<not> isinstance e CDeviceIdentityMismatch"
    and "\<And>c. e = InitExn c \<Longrightarrow> cd_stage (INITIALIZATION_CAUSE_DEFINITIONS c) = stage"
  shows "\<exists>f. initialization_failure_from_exception stage e t = Inr f \<and> if_stage f = stage \<and>
    cd_stage (INITIALIZATION_CAUSE_DEFINITIONS (if_cause f)) = stage \<and>
    if_message f = cd_message (INITIALIZATION_CAUSE_DEFINITIONS (if_cause f))"
proof -
  have "\<exists>c. initialization_cause_from_exception stage e = Inr c"
    using assms by (cases e) (simp_all add: initialization_cause_from_exception_def)
  then obtain c where c: "initialization_cause_from_exception stage e = Inr c" ..
  from cause_of_stage [OF c assms(1)] c cause_messages_nonblank [of c] show ?thesis
    by (simp add: initialization_failure_from_exception_def mk_failure_def)
qed

theorem startup_failure_consistent_witness:
  "\<exists>f. initialization_failure_from_exception CONFIGURATION (ConfigurationException ''a'' ''b'') 0
     = Inr f \<and> if_stage f = CONFIGURATION"
proof -
  have "\<not> isinstance (ConfigurationException ''a'' ''b'') CDeviceIdentityMismatch"
    by (simp add: isinstance_def ConfigurationException_def mro_def numeral_eq_Suc)
  from startup_failure_consistent [OF this, of CONFIGURATION 0] show ?thesis
    by (auto simp: ConfigurationException_def)
qed

text \<open>A device identity mismatch is accepted only during bus connection: at any other
  stage the classification names a cause of another stage and building the failure record
  raises \<open>ValueError\<close> instead of returning it.\<close>

theorem identity_mismatch_outside_bus_connection:
  "initialization_failure_from_exception stage (Exn CDeviceIdentityMismatch a) t =
     (if stage = BUS_CONNECTION
      then Inr \<lparr>if_stage = BUS_CONNECTION, if_cause = DEVICE_IDENTITY_MISMATCH,
        if_message = cd_message (INITIALIZATION_CAUSE_DEFINITIONS DEVICE_IDENTITY_MISMATCH),
        if_occurred_at = t\<rparr>
      else Inl ValueError)"
  using cause_messages_nonblank [of DEVICE_IDENTITY_MISMATCH]
  by (auto simp: initialization_failure_from_exception_def mk_failure_def isinstance_def
      initialization_cause_from_exception_def mro_def numeral_eq_Suc)

end
