(* ===== verification/Api.thy ===== *)
theory Api
  imports Init_Session
begin

section \<open>The command interface: specification, validation, authority, routing\<close>

text \<open>
  Models \<^verbatim>\<open>motion_server/api\<close> (\<^verbatim>\<open>specification.py\<close>, \<^verbatim>\<open>decoder.py\<close>, \<^verbatim>\<open>validator.py\<close>, the response
  functions of \<^verbatim>\<open>encoder.py\<close>, \<^verbatim>\<open>router.py\<close>) and \<^verbatim>\<open>motion_server/handlers/authority\<close>. A request is a
  decoded JSON object. The server state is an extensible record: the part the router reads is
  here, the handler theories extend it. The command and status handlers are arguments of the
  router (\<open>handle_command\<close>, \<open>handle_status\<close>), and so is \<open>pstr\<close>, Python's \<open>str\<close> of a JSON value
  that is not a string, which only ever labels an answer to a malformed request. Logging is left
  out. The lemmas show when a request reaches a handler and when it does not.
\<close>

subsection \<open>Command specifications\<close>

record CommandSpec =
  cmd_name :: string
  cmd_kind :: string
  authority_required :: bool
  advanced_only :: bool
  degraded_allowed :: bool
  transport_required :: bool

definition is_command :: "CommandSpec \<Rightarrow> bool" where
  "is_command sp \<longleftrightarrow> cmd_kind sp = ''command''"

definition is_status :: "CommandSpec \<Rightarrow> bool" where
  "is_status sp \<longleftrightarrow> cmd_kind sp = ''status''"

definition is_authority :: "CommandSpec \<Rightarrow> bool" where
  "is_authority sp \<longleftrightarrow> cmd_kind sp = ''authority''"

definition command :: "string \<Rightarrow> bool \<Rightarrow> bool \<Rightarrow> bool \<Rightarrow> bool \<Rightarrow> CommandSpec" where
  "command n a adv deg tr =
     \<lparr>cmd_name = n, cmd_kind = ''command'', authority_required = a, advanced_only = adv,
      degraded_allowed = deg, transport_required = tr\<rparr>"

definition status :: "string \<Rightarrow> bool \<Rightarrow> bool \<Rightarrow> bool \<Rightarrow> CommandSpec" where
  "status n adv deg tr =
     \<lparr>cmd_name = n, cmd_kind = ''status'', authority_required = False, advanced_only = adv,
      degraded_allowed = deg, transport_required = tr\<rparr>"

definition authority :: "string \<Rightarrow> CommandSpec" where
  "authority n =
     \<lparr>cmd_name = n, cmd_kind = ''authority'', authority_required = False, advanced_only = False,
      degraded_allowed = True, transport_required = False\<rparr>"

definition COMMAND_SPECS :: "CommandSpec list" where
  "COMMAND_SPECS =
     [authority ''system/authority/request'',
      authority ''system/authority/release'',
      authority ''system/authority/status'',
      status ''system/server/status'' False True False,
      status ''system/bus/status'' False True False,
      status ''system/axis/status'' False False False,
      status ''system/axes/status'' False False False,
      status ''system/io/status'' False False False,
      status ''system/io/input_read'' False False False,
      status ''system/simulation/io/input_read'' False False False,
      status ''system/axis/param_read'' False False True,
      status ''system/axis/param_catalog'' False False False,
      status ''system/io/param_read'' False False True,
      status ''system/io/ethercat/param_catalog'' False False False,
      status ''system/io/ap/param_catalog'' False False False,
      status ''system/io/iol/param_catalog'' False False False,
      status ''system/io/ap/param_read'' False False True,
      status ''system/io/iol/param_read'' False False True,
      command ''system/server/fault_reset'' True False True False,
      command ''system/server/restart'' True False True False,
      command ''system/bus/fault_reset'' True False True False,
      command ''system/bus/reconnect'' True False True False,
      command ''system/bus/rescan'' True False False False,
      command ''system/axis/enable'' True False False False,
      command ''system/axis/disable'' True False False False,
      command ''system/axis/fault_reset'' True False False False,
      command ''system/axis/restart'' True False False False,
      command ''system/axis/home'' True False False False,
      command ''system/axis/stop'' True False False False,
      command ''system/axis/move_abs'' True False False False,
      command ''system/axis/move_rel'' True False False False,
      command ''system/axis/move_vel'' True False False False,
      command ''system/axis/jog_start'' True False False False,
      command ''system/axis/jog_stop'' True False False False,
      command ''system/axis/profile'' True False False False,
      command ''system/axis/motion_limits'' True False False False,
      command ''system/axis/software_position_limits'' True False False False,
      command ''system/axis/mode'' True False False False,
      command ''system/axis/manualCW'' True True False False,
      command ''system/axis/param_write'' True False False True,
      command ''system/axis/param_save'' True False False False,
      command ''system/axes/enable'' True False False False,
      command ''system/axes/disable'' True False False False,
      command ''system/axes/fault_reset'' True False False False,
      command ''system/axes/stop'' True False False False,
      command ''system/axes/move_abs'' True False False False,
      command ''system/axes/move_rel'' True False False False,
      command ''system/axes/move_vel'' True False False False,
      command ''system/axes/trajectory'' True True False False,
      command ''system/axes/trajectory_stop'' True True False False,
      command ''system/io/output_write'' True False False False,
      command ''system/simulation/io/input_write'' False False False False,
      command ''system/simulation/io/input_reset'' False False False False,
      command ''system/io/reset'' True False False False,
      command ''system/io/restart'' True False False False,
      command ''system/io/param_write'' True False False True,
      command ''system/io/param_save'' True False False False,
      command ''system/io/ap/param_write'' True False False True,
      command ''system/io/iol/param_write'' True False False True]"

definition command_spec :: "string \<Rightarrow> CommandSpec option" where
  "command_spec n = find (\<lambda>sp. cmd_name sp = strip n) COMMAND_SPECS"

definition names_where :: "(CommandSpec \<Rightarrow> bool) \<Rightarrow> string list" where
  "names_where P = map cmd_name (filter P COMMAND_SPECS)"

definition command_names :: "string list" where
  "command_names = names_where (\<lambda>sp. True)"

definition command_message_types :: "string list" where
  "command_message_types = names_where (\<lambda>sp. is_command sp \<and> authority_required sp)"

definition authority_message_types :: "string list" where
  "authority_message_types = names_where is_authority"

definition status_message_types :: "string list" where
  "status_message_types = names_where is_status"

definition degraded_allowed_message_types :: "string list" where
  "degraded_allowed_message_types = names_where degraded_allowed"

text \<open>The keys of the dispatch table of \<^verbatim>\<open>handlers/command/registry.py\<close> and its import-time check.\<close>

definition COMMAND_HANDLERS :: "string list" where
  "COMMAND_HANDLERS =
     [''system/axes/trajectory'',
      ''system/axes/trajectory_stop'',
      ''system/axes/stop'',
      ''system/axis/enable'',
      ''system/axis/disable'',
      ''system/axis/fault_reset'',
      ''system/axis/restart'',
      ''system/axis/home'',
      ''system/axis/stop'',
      ''system/axis/move_abs'',
      ''system/axis/move_rel'',
      ''system/axis/move_vel'',
      ''system/axis/jog_start'',
      ''system/axis/jog_stop'',
      ''system/axis/profile'',
      ''system/axis/motion_limits'',
      ''system/axis/software_position_limits'',
      ''system/axis/mode'',
      ''system/axis/manualCW'',
      ''system/axis/param_write'',
      ''system/axis/param_save'',
      ''system/axes/enable'',
      ''system/axes/disable'',
      ''system/axes/fault_reset'',
      ''system/axes/move_abs'',
      ''system/axes/move_rel'',
      ''system/axes/move_vel'',
      ''system/server/fault_reset'',
      ''system/server/restart'',
      ''system/bus/fault_reset'',
      ''system/bus/reconnect'',
      ''system/bus/rescan'',
      ''system/io/output_write'',
      ''system/simulation/io/input_write'',
      ''system/simulation/io/input_reset'',
      ''system/io/reset'',
      ''system/io/restart'',
      ''system/io/param_write'',
      ''system/io/param_save'',
      ''system/io/ap/param_write'',
      ''system/io/iol/param_write'']"

definition validate_command_registry :: "unit res" where
  "validate_command_registry =
     (let expected = filter (\<lambda>n. n \<notin> set status_message_types \<and>
            n \<notin> {''system/authority/request'', ''system/authority/release'',
                  ''system/authority/status''}) command_names;
          missing = filter (\<lambda>n. n \<notin> set COMMAND_HANDLERS) expected;
          unknown = filter (\<lambda>n. n \<notin> set command_names) COMMAND_HANDLERS
      in if missing \<noteq> [] \<or> unknown \<noteq> [] then Inl RuntimeError else Inr ())"

subsection \<open>Server state\<close>

record server_state =
  server_mode :: string
  init_status :: InitializationStatus
  server_session :: "ServerSession option"
  command_authority_owner :: "int option"

subsection \<open>Decoding\<close>

definition py_str :: "(pyval \<Rightarrow> string) \<Rightarrow> pyval \<Rightarrow> string" where
  "py_str pstr v = (case v of PStr s \<Rightarrow> s | _ \<Rightarrow> pstr v)"

definition command_name :: "(pyval \<Rightarrow> string) \<Rightarrow> pydict \<Rightarrow> string" where
  "command_name pstr message =
     strip (py_str pstr
       (case map_of message ''cmd'' of Some v \<Rightarrow> v
        | None \<Rightarrow> (case map_of message ''type'' of Some v \<Rightarrow> v | None \<Rightarrow> PStr [])))"

definition parse_int :: "pyval \<Rightarrow> int res" where
  "parse_int v =
     (case v of
        PInt i \<Rightarrow> Inr i
      | PBool b \<Rightarrow> Inr (if b then 1 else 0)
      | PStr s \<Rightarrow> (case py_int_text base0_value s of Some i \<Rightarrow> Inr i | None \<Rightarrow> Inl ValueError)
      | _ \<Rightarrow> Inl ValueError)"

text \<open>Iterating a value in a comprehension: a list yields its items, a string its characters,
  a dictionary its keys; anything else raises \<open>TypeError\<close>.\<close>

definition iter_value :: "pyval \<Rightarrow> pyval list res" where
  "iter_value v =
     (case v of
        PList vs \<Rightarrow> Inr vs
      | PStr s \<Rightarrow> Inr (map (\<lambda>c. PStr [c]) s)
      | PDict d \<Rightarrow> Inr (map (\<lambda>(k, _). PStr k) d)
      | _ \<Rightarrow> Inl TypeError)"

definition parse_axis_indices :: "nat \<Rightarrow> pydict \<Rightarrow> int list res" where
  "parse_axis_indices axis_count message =
     (let raw =
        (case map_of message ''axes'' of
           Some v \<Rightarrow> bindE (iter_value v) (mapE parse_int)
         | None \<Rightarrow>
             (case map_of message ''axis'' of
                Some v \<Rightarrow> bindE (parse_int v) (\<lambda>i. Inr [i])
              | None \<Rightarrow> Inr (map int [0..<axis_count])))
      in case raw of
           Inl e \<Rightarrow>
             Inl (InvalidArgumentException ''axes'' ''must contain integer indices'' None)
         | Inr axes \<Rightarrow>
             if axes = [] then
               Inl (InvalidArgumentException ''axes'' ''requires at least one axis'' None)
             else case filter (\<lambda>i. i < 0 \<or> i \<ge> int axis_count) axes of
               i # _ \<Rightarrow> Inl (ResourceNotFoundException ''axis'' (PInt i))
             | [] \<Rightarrow> Inr axes)"

definition selected_single_axis :: "nat \<Rightarrow> pydict \<Rightarrow> int res" where
  "selected_single_axis axis_count message =
     bindE (parse_axis_indices axis_count message) (\<lambda>axes.
       case axes of
         [i] \<Rightarrow> Inr i
       | _ \<Rightarrow> Inl (InvalidArgumentException ''axis'' ''requires exactly one axis'' None))"

definition require_int32 :: "real \<Rightarrow> int res" where
  "require_int32 v =
     (let result = py_round v
      in if result < - (2 ^ 31) \<or> result > 2 ^ 31 - 1 then Inl ValueError else Inr result)"

definition require_uint32 :: "real \<Rightarrow> int res" where
  "require_uint32 v =
     (let result = py_round v
      in if result < 0 \<or> result > 2 ^ 32 - 1 then Inl ValueError else Inr result)"

subsection \<open>Validation\<close>

datatype validation_error =
    V_unknown | V_advanced_only | V_not_initialized | V_invalid_recovery_scope
  | V_authority_required | V_runtime_fault

definition RECOVERY_COMMAND_SCOPES :: "string \<Rightarrow> InitializationRecoveryScope option" where
  "RECOVERY_COMMAND_SCOPES n =
     map_of [(''system/bus/reconnect'', BUS_RECONNECT),
             (''system/server/restart'', SERVER_RESTART)] n"

definition command_allowed_by_mode :: "CommandSpec \<Rightarrow> 'a server_state_scheme \<Rightarrow> bool" where
  "command_allowed_by_mode sp st \<longleftrightarrow> \<not> advanced_only sp \<or> server_mode st = ''advanced''"

definition command_allowed_during_degraded_state :: "CommandSpec \<Rightarrow> 'a server_state_scheme \<Rightarrow> bool" where
  "command_allowed_during_degraded_state sp st \<longleftrightarrow>
     initialized (init_status st) \<or> degraded_allowed sp"

definition recovery_scope_allowed :: "CommandSpec \<Rightarrow> 'a server_state_scheme \<Rightarrow> bool res" where
  "recovery_scope_allowed sp st =
     (if initialized (init_status st) then Inr True
      else case RECOVERY_COMMAND_SCOPES (cmd_name sp) of
        None \<Rightarrow> Inr True
      | Some scope \<Rightarrow>
          (case failure (init_status st) of
             None \<Rightarrow> Inl AttributeError
           | Some f \<Rightarrow> Inr (recovery_action_allowed (if_stage f) scope)))"

definition command_requires_authority :: "CommandSpec \<Rightarrow> bool" where
  "command_requires_authority sp \<longleftrightarrow> is_command sp \<and> authority_required sp"

definition GLOBAL_FAULT_ALLOWED_COMMANDS :: "string list" where
  "GLOBAL_FAULT_ALLOWED_COMMANDS =
     [''system/server/fault_reset'', ''system/server/restart'', ''system/bus/fault_reset'',
      ''system/bus/reconnect'', ''system/axis/disable'', ''system/axis/fault_reset'',
      ''system/axis/stop'', ''system/axes/disable'', ''system/axes/fault_reset'',
      ''system/axes/stop'']"

definition AXIS_FAULT_ALLOWED_COMMANDS :: "string list" where
  "AXIS_FAULT_ALLOWED_COMMANDS =
     [''system/axis/disable'', ''system/axis/fault_reset'', ''system/axis/restart'',
      ''system/axis/stop'', ''system/axes/disable'', ''system/axes/fault_reset'',
      ''system/axes/stop'']"

definition selected_axis_indices :: "pydict \<Rightarrow> int list res" where
  "selected_axis_indices message =
     (let values =
        (case map_of message ''axes'' of
           Some v \<Rightarrow> if v = PNone then
               (case map_of message ''axis'' of Some a \<Rightarrow> PList [a] | None \<Rightarrow> PNone) else v
         | None \<Rightarrow> (case map_of message ''axis'' of Some a \<Rightarrow> PList [a] | None \<Rightarrow> PNone))
      in case values of
           PNone \<Rightarrow> Inr []
         | _ \<Rightarrow>
             (case mapE int_of_value (case values of PList vs \<Rightarrow> vs | v \<Rightarrow> [v]) of
                Inr is \<Rightarrow> Inr is
              | Inl e \<Rightarrow> if isinstance e CTypeError \<or> isinstance e CValueError then Inr []
                         else Inl e))"

definition command_allowed_by_runtime_state ::
  "CommandSpec \<Rightarrow> 'a server_state_scheme \<Rightarrow> pydict \<Rightarrow> bool res" where
  "command_allowed_by_runtime_state sp st message =
     (case server_session st of
        None \<Rightarrow> Inr True
      | Some session \<Rightarrow>
          if transport_required sp \<and> runtime_state session = RBUS_DISCONNECTED then Inr False
          else if \<not> is_command sp then Inr True
          else if cmd_name sp = ''system/bus/reconnect'' \<and> runtime_state session = RNORMAL
            then Inr False
          else if runtime_state session \<in> {RFAULT, RBUS_DISCONNECTED}
              \<and> cmd_name sp \<notin> set GLOBAL_FAULT_ALLOWED_COMMANDS then Inr False
          else if \<not> (starts_with ''system/axis/'' (cmd_name sp)
              \<or> starts_with ''system/axes/'' (cmd_name sp)) then Inr True
          else if cmd_name sp \<in> set AXIS_FAULT_ALLOWED_COMMANDS then Inr True
          else bindE (selected_axis_indices message) (\<lambda>axes.
            bindE (mapE (\<lambda>i. has_active_fault (diagnostic_manager session)
                     (Some \<lparr>stype = AXIS, sindex = i\<rparr>) None) (filter (\<lambda>i. i \<ge> 0) axes))
              (\<lambda>faults. Inr (\<not> list_ex id faults))))"

definition validate_command ::
  "CommandSpec option \<Rightarrow> 'a server_state_scheme \<Rightarrow> bool \<Rightarrow> pydict \<Rightarrow> validation_error option res" where
  "validate_command spec st has_authority message =
     (case spec of
        None \<Rightarrow> Inr (Some V_unknown)
      | Some sp \<Rightarrow>
          if \<not> command_allowed_by_mode sp st then Inr (Some V_advanced_only)
          else if \<not> command_allowed_during_degraded_state sp st then Inr (Some V_not_initialized)
          else bindE (recovery_scope_allowed sp st) (\<lambda>scope_ok.
            if \<not> scope_ok then Inr (Some V_invalid_recovery_scope)
            else if command_requires_authority sp \<and> \<not> has_authority
              then Inr (Some V_authority_required)
            else bindE (command_allowed_by_runtime_state sp st message) (\<lambda>ok.
              Inr (if ok then None else Some V_runtime_fault))))"

subsection \<open>Command authority\<close>

definition opt_int :: "int option \<Rightarrow> pyval" where
  "opt_int x = (case x of None \<Rightarrow> PNone | Some i \<Rightarrow> PInt i)"

definition client_has_command_authority :: "int \<Rightarrow> 'a server_state_scheme \<Rightarrow> bool" where
  "client_has_command_authority client st \<longleftrightarrow> command_authority_owner st = Some client"

definition authority_status_payload :: "int \<Rightarrow> 'a server_state_scheme \<Rightarrow> string \<Rightarrow> pydict" where
  "authority_status_payload client st message_type =
     (let owner = command_authority_owner st
      in [(''type'', PStr message_type), (''ok'', PBool True), (''owner'', opt_int owner),
          (''owned_by_this_client'', PBool (owner \<noteq> None \<and> owner = Some client)),
          (''available'', PBool (owner = None)), (''reason'', PNone)])"

definition authority_data :: "pydict \<Rightarrow> pydict" where
  "authority_data payload =
     (let data = dict_del (dict_del payload ''type'') ''ok''
      in case map_of data ''reason'' of
           None \<Rightarrow> dict_del data ''reason''
         | Some v \<Rightarrow> if v = PNone then dict_del data ''reason'' else data)"

definition acquire_authority :: "int \<Rightarrow> ('a server_state_scheme, exn, pydict) op" where
  "acquire_authority client st =
     (let owner = command_authority_owner st
      in case owner of
           Some o' \<Rightarrow>
             if o' = client then
               (Inr (authority_data (dict_set (dict_set
                  (authority_status_payload client (st\<lparr>command_authority_owner := Some client\<rparr>)
                     ''system/authority/request'')
                  ''granted'' (PBool True))
                  ''message'' (PStr ''This connection already owns command authority.''))),
                st\<lparr>command_authority_owner := Some client\<rparr>)
             else (Inl (AuthorityBusyException (PInt o')), st)
         | None \<Rightarrow>
             (Inr (authority_data (dict_set (dict_set
                (authority_status_payload client (st\<lparr>command_authority_owner := Some client\<rparr>)
                   ''system/authority/request'')
                ''granted'' (PBool True))
                ''message'' (PStr ''Command authority granted.''))),
              st\<lparr>command_authority_owner := Some client\<rparr>))"

definition release_authority :: "int \<Rightarrow> ('a server_state_scheme, exn, pydict) op" where
  "release_authority client st =
     (case command_authority_owner st of
        Some o' \<Rightarrow>
          if o' = client then
            (Inr [(''granted'', PBool False), (''owner'', PNone),
                  (''owned_by_this_client'', PBool False), (''available'', PBool True),
                  (''message'', PStr ''Command authority released.'')],
             st\<lparr>command_authority_owner := None\<rparr>)
          else (Inl (AuthorityBusyException (PInt o')), st)
      | None \<Rightarrow> (Inl AuthorityRequiredException, st))"

definition handle_authority :: "string \<Rightarrow> int \<Rightarrow> ('a server_state_scheme, exn, pydict) op" where
  "handle_authority message_type client st =
     (if message_type = ''system/authority/request'' then acquire_authority client st
      else if message_type = ''system/authority/release'' then release_authority client st
      else if message_type = ''system/authority/status'' then
        (Inr (authority_data
           (authority_status_payload client st ''system/authority/status'')), st)
      else (Inl (UnknownCommandException message_type), st))"

subsection \<open>Responses\<close>

fun code_value :: "FailureCode \<Rightarrow> string" where
  "code_value INVALID_REQUEST = ''INVALID_REQUEST''"
| "code_value UNKNOWN_COMMAND = ''UNKNOWN_COMMAND''"
| "code_value UNSUPPORTED_OPERATION = ''UNSUPPORTED_OPERATION''"
| "code_value INVALID_ARGUMENT = ''INVALID_ARGUMENT''"
| "code_value RESOURCE_NOT_FOUND = ''RESOURCE_NOT_FOUND''"
| "code_value AUTHORITY_REQUIRED = ''AUTHORITY_REQUIRED''"
| "code_value AUTHORITY_BUSY = ''AUTHORITY_BUSY''"
| "code_value PERMISSION_DENIED = ''PERMISSION_DENIED''"
| "code_value SERVER_NOT_READY = ''SERVER_NOT_READY''"
| "code_value INVALID_STATE = ''INVALID_STATE''"
| "code_value OPERATION_CONFLICT = ''OPERATION_CONFLICT''"
| "code_value OPERATION_BLOCKED = ''OPERATION_BLOCKED''"
| "code_value LIMIT_VIOLATION = ''LIMIT_VIOLATION''"
| "code_value TIMEOUT = ''TIMEOUT''"
| "code_value COMMUNICATION_FAILED = ''COMMUNICATION_FAILED''"
| "code_value DEVICE_ACCESS_FAILED = ''DEVICE_ACCESS_FAILED''"
| "code_value DEVICE_REJECTED = ''DEVICE_REJECTED''"
| "code_value PARTIAL_FAILURE = ''PARTIAL_FAILURE''"
| "code_value OPERATION_FAILED = ''OPERATION_FAILED''"
| "code_value INTERNAL_FAILURE = ''INTERNAL_FAILURE''"

record ResponseContext =
  response_type :: string
  request_id :: "pyval option"

definition context_from_request :: "(pyval \<Rightarrow> string) \<Rightarrow> pydict \<Rightarrow> ResponseContext res" where
  "context_from_request pstr request =
     (let t = command_name pstr request
      in if t = [] then Inl ValueError
         else Inr \<lparr>response_type = t, request_id = map_of request ''request_id''\<rparr>)"

definition failure_value :: "Failure \<Rightarrow> pyval" where
  "failure_value f =
     PDict ([(''code'', PStr (code_value (f_code f))), (''message'', PStr (f_message f))]
       @ (case f_details f of None \<Rightarrow> [] | Some d \<Rightarrow> [(''details'', PDict d)]))"

definition with_request_id :: "pydict \<Rightarrow> ResponseContext \<Rightarrow> pydict" where
  "with_request_id response ctx =
     (case request_id ctx of None \<Rightarrow> response | Some v \<Rightarrow> dict_set response ''request_id'' v)"

definition success_response :: "ResponseContext \<Rightarrow> pyval option \<Rightarrow> pydict" where
  "success_response ctx data =
     with_request_id [(''type'', PStr (response_type ctx)), (''result'', PStr ''success''),
       (''data'', (case data of None \<Rightarrow> PDict [] | Some d \<Rightarrow> d))] ctx"

definition fail_response :: "ResponseContext \<Rightarrow> Failure \<Rightarrow> pydict" where
  "fail_response ctx f =
     with_request_id [(''type'', PStr (response_type ctx)), (''result'', PStr ''fail''),
       (''failure'', failure_value f)] ctx"

definition partial_fail_response ::
  "ResponseContext \<Rightarrow> pyval list \<Rightarrow> (pyval \<times> exn) list \<Rightarrow> pydict" where
  "partial_fail_response ctx succeeded fs =
     fail_response ctx
       \<lparr>f_code = PARTIAL_FAILURE,
        f_message = ''The operation completed for only some targets.'',
        f_details = Some [(''succeeded'', PList succeeded),
          (''failed'', PList (map (\<lambda>(target, e).
             PDict [(''target'', target), (''failure'', failure_value (map_exception e))]) fs))]\<rparr>"

subsection \<open>Routing\<close>

text \<open>What a handler returns: nothing, data, or a partial failure.\<close>

datatype handled = HNone | HData pyval | HPartial "pyval list" "(pyval \<times> exn) list"

fun stage_value :: "InitializationStage \<Rightarrow> string" where
  "stage_value CONFIGURATION = ''configuration''"
| "stage_value DEVICE_MODEL_BUILD = ''device_model_build''"
| "stage_value RUNTIME_CREATION = ''runtime_creation''"
| "stage_value BUS_CONNECTION = ''bus_connection''"
| "stage_value DEVICE_INITIALIZATION = ''device_initialization''"

type_synonym 's handler = "string \<Rightarrow> pydict \<Rightarrow> int \<Rightarrow> ('s, exn, handled) op"

definition rejection_of ::
  "validation_error \<Rightarrow> string \<Rightarrow> 'a server_state_scheme \<Rightarrow> exn" where
  "rejection_of v message_type st =
     (case v of
        V_unknown \<Rightarrow> UnknownCommandException message_type
      | V_advanced_only \<Rightarrow> UnsupportedOperationException message_type (Some ''advanced_only'')
      | V_authority_required \<Rightarrow>
          (case command_authority_owner st of
             None \<Rightarrow> AuthorityRequiredException
           | Some o' \<Rightarrow> AuthorityBusyException (PInt o'))
      | V_not_initialized \<Rightarrow>
          (case failure (init_status st) of
             None \<Rightarrow> AttributeError
           | Some f \<Rightarrow> ServerNotReadyException (Some (if_message f)))
      | V_invalid_recovery_scope \<Rightarrow>
          (case failure (init_status st) of
             None \<Rightarrow> AttributeError
           | Some f \<Rightarrow> InvalidStateException (Some message_type) (Some (stage_value (if_stage f))))
      | V_runtime_fault \<Rightarrow>
          (case server_session st of
             None \<Rightarrow> AttributeError
           | Some s \<Rightarrow> InvalidStateException (Some message_type)
               (Some (runtime_state_value (runtime_state s)))))"

definition route_message_to_handler ::
  "(pyval \<Rightarrow> string) \<Rightarrow> 'a server_state_scheme handler \<Rightarrow> 'a server_state_scheme handler
   \<Rightarrow> pydict \<Rightarrow> int \<Rightarrow> ('a server_state_scheme, exn, handled) op" where
  "route_message_to_handler pstr handle_status handle_command message client st =
     (let message_type = command_name pstr message;
          spec = command_spec message_type
      in case validate_command spec st (client_has_command_authority client st) message of
           Inl e \<Rightarrow> (Inl e, st)
         | Inr (Some v) \<Rightarrow> (Inl (rejection_of v message_type st), st)
         | Inr None \<Rightarrow>
             (case spec of
                None \<Rightarrow> (Inl AttributeError, st)
              | Some sp \<Rightarrow>
                  if is_authority sp then
                    bindS (handle_authority message_type client) (\<lambda>d. retS (HData (PDict d))) st
                  else if is_status sp then handle_status message_type message client st
                  else handle_command message_type message client st))"

definition request_response ::
  "(pyval \<Rightarrow> string) \<Rightarrow> pydict \<Rightarrow> ('s, exn, handled) op \<Rightarrow> ('s, exn, pydict) op" where
  "request_response pstr request operation st =
     (case context_from_request pstr request of
        Inl e \<Rightarrow> (Inl e, st)
      | Inr ctx \<Rightarrow>
          (case operation st of
             (Inl e, st') \<Rightarrow> (Inr (fail_response ctx (map_exception e)), st')
           | (Inr HNone, st') \<Rightarrow> (Inr (success_response ctx None), st')
           | (Inr (HData d), st') \<Rightarrow> (Inr (success_response ctx (Some d)), st')
           | (Inr (HPartial ss fs), st') \<Rightarrow> (Inr (partial_fail_response ctx ss fs), st')))"

definition route_message ::
  "(pyval \<Rightarrow> string) \<Rightarrow> 'a server_state_scheme handler \<Rightarrow> 'a server_state_scheme handler
   \<Rightarrow> pydict \<Rightarrow> int \<Rightarrow> ('a server_state_scheme, exn, pydict) op" where
  "route_message pstr handle_status handle_command message client =
     request_response pstr message
       (route_message_to_handler pstr handle_status handle_command message client)"

subsection \<open>The gate in front of the handlers\<close>

lemma strip_nonempty_name: "command_spec t = Some sp \<Longrightarrow> strip t = cmd_name sp \<and> sp \<in> set COMMAND_SPECS"
  by (auto simp: command_spec_def find_Some_iff)

lemma COMMAND_SPECS_named: "\<forall>sp \<in> set COMMAND_SPECS. cmd_name sp \<noteq> []"
  unfolding COMMAND_SPECS_def by (simp add: command_def status_def authority_def)

lemma command_spec_nonempty: "command_spec t = Some sp \<Longrightarrow> t \<noteq> []"
  using strip_nonempty_name [of t sp] COMMAND_SPECS_named by (auto simp: strip_def)

lemma map_of_with_request_id:
  "k \<noteq> ''request_id'' \<Longrightarrow> map_of (with_request_id r ctx) k = map_of r k"
  by (simp add: with_request_id_def map_of_dict_set split: option.splits)

lemma fail_response_result [simp]:
  "map_of (fail_response ctx f) ''result'' = Some (PStr ''fail'')"
  "map_of (fail_response ctx f) ''failure'' = Some (failure_value f)"
  "map_of (fail_response ctx f) ''type'' = Some (PStr (response_type ctx))"
  by (simp_all add: fail_response_def map_of_with_request_id)

lemma success_response_result [simp]:
  "map_of (success_response ctx d) ''result'' = Some (PStr ''success'')"
  "map_of (success_response ctx d) ''type'' = Some (PStr (response_type ctx))"
  by (simp_all add: success_response_def map_of_with_request_id)

lemma response_request_id [simp]:
  "map_of (fail_response ctx f) ''request_id'' = request_id ctx"
  "map_of (success_response ctx d) ''request_id'' = request_id ctx"
  by (simp_all add: fail_response_def success_response_def with_request_id_def map_of_dict_set
      split: option.splits)

text \<open>A request whose validation does not come out clean is answered with a failure and the
  state is the one before the request.\<close>

lemma rejected_leaves_state:
  assumes name: "command_name pstr msg \<noteq> []"
    and v: "validate_command (command_spec (command_name pstr msg)) st
              (client_has_command_authority client st) msg \<noteq> Inr None"
  shows "\<exists>r. route_message pstr hs hc msg client st = (Inr r, st) \<and>
           map_of r ''result'' = Some (PStr ''fail'')"
proof -
  let ?v = "validate_command (command_spec (command_name pstr msg)) st
    (client_has_command_authority client st) msg"
  consider e where "?v = Inl e" | x where "?v = Inr (Some x)"
    using v by (cases ?v) auto
  then obtain e where "route_message_to_handler pstr hs hc msg client st = (Inl e, st)"
    by cases (simp_all add: route_message_to_handler_def Let_def)
  with name show ?thesis
    by (simp add: route_message_def request_response_def context_from_request_def Let_def)
qed

lemma authority_gate:
  assumes "is_command sp" "authority_required sp" "\<not> b"
  shows "validate_command (Some sp) st b msg \<noteq> Inr None"
  using assms by (auto simp: validate_command_def command_requires_authority_def bindE_def
      split: sum.splits)

lemma runtime_gate:
  assumes "command_allowed_by_runtime_state sp st msg = Inr False"
  shows "validate_command (Some sp) st b msg \<noteq> Inr None"
  using assms by (auto simp: validate_command_def bindE_def split: sum.splits)

lemma mode_gate:
  assumes "advanced_only sp" "server_mode st \<noteq> ''advanced''"
  shows "validate_command (Some sp) st b msg \<noteq> Inr None"
  using assms by (simp add: validate_command_def command_allowed_by_mode_def)

lemma degraded_gate:
  assumes "\<not> initialized (init_status st)" "\<not> degraded_allowed sp"
  shows "validate_command (Some sp) st b msg \<noteq> Inr None"
  using assms by (simp add: validate_command_def command_allowed_during_degraded_state_def)

lemma selected_axis_single:
  assumes "map_of msg ''axes'' = None" "map_of msg ''axis'' = Some (PInt i)"
  shows "selected_axis_indices msg = Inr [i]"
  using assms by (simp add: selected_axis_indices_def int_of_value_def)

lemma selected_axis_list:
  assumes "map_of msg ''axes'' = Some (PList (map PInt is))"
  shows "selected_axis_indices msg = Inr is"
proof -
  have "mapE int_of_value (map PInt is) = Inr is"
    by (induction "is") (simp_all add: int_of_value_def)
  with assms show ?thesis by (simp add: selected_axis_indices_def)
qed

lemma axis_fault_gate:
  assumes "server_session st = Some s" "manager_inv (diagnostic_manager s)" "is_command sp"
    and "starts_with ''system/axis/'' (cmd_name sp) \<or> starts_with ''system/axes/'' (cmd_name sp)"
    and "cmd_name sp \<notin> set AXIS_FAULT_ALLOWED_COMMANDS"
    and sel: "selected_axis_indices msg = Inr is" "i \<in> set is" "0 \<le> i"
    and fault: "view (diagnostic_manager s) k = Some d" "source d = \<lparr>stype = AXIS, sindex = i\<rparr>"
      "level (ddef d) = LFAULT"
  shows "command_allowed_by_runtime_state sp st msg = Inr False"
proof -
  let ?m = "diagnostic_manager s"
  define f where "f j \<longleftrightarrow> (\<exists>k d. view ?m k = Some d \<and>
    fault_selected (Some \<lparr>stype = AXIS, sindex = j\<rparr>) None d)" for j
  have "mapE (\<lambda>j. has_active_fault ?m (Some \<lparr>stype = AXIS, sindex = j\<rparr>) None) js = Inr (map f js)"
    for js by (rule mapE_total) (simp add: has_active_fault_iff [OF assms(2)] f_def)
  moreover have "f i" unfolding f_def
    by (intro exI [of _ k] exI [of _ d]) (simp add: fault fault_selected_def)
  ultimately show ?thesis
    using assms(1,3-5) sel by (auto simp: command_allowed_by_runtime_state_def list_ex_iff)
qed

lemma globally_locked:
  assumes "server_session st = Some s" "runtime_state s \<in> {RFAULT, RBUS_DISCONNECTED}"
    "is_command sp" "cmd_name sp \<notin> set GLOBAL_FAULT_ALLOWED_COMMANDS"
  shows "command_allowed_by_runtime_state sp st msg = Inr False"
  using assms by (auto simp: command_allowed_by_runtime_state_def)

lemma find_distinct_name:
  "distinct (map cmd_name sps) \<Longrightarrow> sp \<in> set sps \<Longrightarrow> find (\<lambda>s. cmd_name s = cmd_name sp) sps = Some sp"
  by (induction sps) auto

lemma command_names_distinct: "distinct command_names"
  by (simp add: command_names_def names_where_def COMMAND_SPECS_def command_def authority_def
      status_def)

lemma handler_names_distinct: "distinct COMMAND_HANDLERS"
  by (simp add: COMMAND_HANDLERS_def)

lemma registry_check_passes: "validate_command_registry = Inr ()"
  by code_simp

lemma commands_without_authority:
  "\<forall>sp \<in> set COMMAND_SPECS. is_command sp \<and> \<not> authority_required sp \<longleftrightarrow>
      cmd_name sp \<in> {''system/simulation/io/input_write'', ''system/simulation/io/input_reset''}"
  by (simp add: COMMAND_SPECS_def command_def authority_def status_def is_command_def)

subsection \<open>Properties\<close>

text \<open>C2: no command without authority. A command that requires authority, sent by a connection
  that is not the owner, is answered with a failure and leaves the whole server state as it was,
  whatever the handlers would have done.\<close>

theorem no_command_without_authority:
  assumes "command_spec (command_name pstr msg) = Some sp"
    and "is_command sp" and "authority_required sp"
    and "command_authority_owner st \<noteq> Some client"
  shows "\<exists>r. route_message pstr hs hc msg client st = (Inr r, st) \<and>
           map_of r ''result'' = Some (PStr ''fail'')"
  using rejected_leaves_state [of pstr msg st client hs hc] authority_gate [of sp False st msg]
    command_spec_nonempty [OF assms(1)] assms
  by (simp add: client_has_command_authority_def)

definition demo_message :: pydict where
  "demo_message = [(''cmd'', PStr ''system/axis/move_abs''), (''axis'', PInt 1)]"

definition demo_state :: server_state where
  "demo_state = \<lparr>server_mode = ''basic'', init_status = ready,
     server_session = Some (new_session ready new_manager (Some 0)),
     command_authority_owner = Some 2\<rparr>"

lemma demo_spec:
  "command_spec (command_name (\<lambda>_. []) demo_message)
     = Some (command ''system/axis/move_abs'' True False False False)"
  by code_simp

theorem no_command_without_authority_witness:
  "\<exists>r. route_message (\<lambda>_. []) (\<lambda>_ _ _. raiseS RuntimeError) (\<lambda>_ _ _ s. (Inr HNone, s\<lparr>server_mode := []\<rparr>))
      demo_message 5 demo_state = (Inr r, demo_state) \<and> map_of r ''result'' = Some (PStr ''fail'')"
  by (rule no_command_without_authority [OF demo_spec])
    (simp_all add: command_def is_command_def demo_state_def)

text \<open>C3: the fault lockdown. While the session is in the fault or the bus-disconnected state,
  every command outside the list of recovery, stop and disable commands is answered with a failure
  and leaves the server state as it was, even for the owner of the authority.\<close>

theorem fault_lockdown:
  assumes "command_spec (command_name pstr msg) = Some sp" and "is_command sp"
    and "server_session st = Some s" and "runtime_state s = RFAULT \<or> runtime_state s = RBUS_DISCONNECTED"
    and "cmd_name sp \<notin> set GLOBAL_FAULT_ALLOWED_COMMANDS"
  shows "\<exists>r. route_message pstr hs hc msg client st = (Inr r, st) \<and>
           map_of r ''result'' = Some (PStr ''fail'')"
  using rejected_leaves_state [of pstr msg st client hs hc] runtime_gate [OF globally_locked]
    command_spec_nonempty [OF assms(1)] assms
  by (metis insertCI)

definition demo_fault_state :: server_state where
  "demo_fault_state = demo_state\<lparr>server_session :=
     Some ((new_session ready new_manager (Some 0))\<lparr>runtime_state := RFAULT\<rparr>)\<rparr>"

theorem fault_lockdown_witness:
  "\<exists>r. route_message (\<lambda>_. []) (\<lambda>_ _ _. raiseS RuntimeError) (\<lambda>_ _ _ s. (Inr HNone, s\<lparr>server_mode := []\<rparr>))
      demo_message 2 demo_fault_state = (Inr r, demo_fault_state) \<and>
    map_of r ''result'' = Some (PStr ''fail'')"
  by (rule fault_lockdown [OF demo_spec, where s = "(new_session ready new_manager (Some 0))\<lparr>runtime_state := RFAULT\<rparr>"])
    (simp_all add: command_def is_command_def demo_fault_state_def demo_state_def
      GLOBAL_FAULT_ALLOWED_COMMANDS_def)

text \<open>C4: the axis lockdown. While an axis has an active fault diagnostic, a command of the axis
  families outside the stop, disable, reset and restart commands that names this axis by an
  integer in \<open>axis\<close> or in the list \<open>axes\<close> is answered with a failure and leaves the server state
  as it was.\<close>

theorem axis_fault_lockdown:
  assumes "command_spec (command_name pstr msg) = Some sp" and "is_command sp"
    and "starts_with ''system/axis/'' (cmd_name sp) \<or> starts_with ''system/axes/'' (cmd_name sp)"
    and "cmd_name sp \<notin> set AXIS_FAULT_ALLOWED_COMMANDS"
    and "server_session st = Some s" and "manager_inv (diagnostic_manager s)"
    and "view (diagnostic_manager s) k = Some d" and "source d = \<lparr>stype = AXIS, sindex = i\<rparr>"
    and "level (ddef d) = LFAULT" and "0 \<le> i"
    and "map_of msg ''axes'' = Some (PList (map PInt js)) \<and> i \<in> set js
         \<or> map_of msg ''axes'' = None \<and> map_of msg ''axis'' = Some (PInt i)"
  shows "\<exists>r. route_message pstr hs hc msg client st = (Inr r, st) \<and>
           map_of r ''result'' = Some (PStr ''fail'')"
proof -
  obtain ks where "selected_axis_indices msg = Inr ks" "i \<in> set ks"
    using assms(11) selected_axis_single [of msg i] selected_axis_list [of msg js] by fastforce
  then have "command_allowed_by_runtime_state sp st msg = Inr False"
    using axis_fault_gate [OF assms(5,6,2,3,4) _ _ assms(10) assms(7-9)] by blast
  then show ?thesis
    using rejected_leaves_state [of pstr msg st client hs hc] runtime_gate [of sp st msg]
      command_spec_nonempty [OF assms(1)] assms(1) by simp
qed

definition demo_axis_fault_manager :: DiagnosticManager where
  "demo_axis_fault_manager =
     snd (detect AXIS_DRIVE_FAULT (AXIS_SOURCE 1) None None 7 ''d0'' new_manager)"

definition demo_axis_fault_state :: server_state where
  "demo_axis_fault_state = demo_state\<lparr>server_session :=
     Some (new_session ready demo_axis_fault_manager (Some 0))\<rparr>"

lemma demo_axis_fault_manager_facts:
  "manager_inv demo_axis_fault_manager"
  "view demo_axis_fault_manager (key_of (code AXIS_DRIVE_FAULT) (AXIS_SOURCE 1))
     = Some (opened AXIS_DRIVE_FAULT (AXIS_SOURCE 1) None None 7 ''d0'')"
proof -
  have "used_ids new_manager = {}" by (simp add: new_manager_def)
  then show "manager_inv demo_axis_fault_manager"
    "view demo_axis_fault_manager (key_of (code AXIS_DRIVE_FAULT) (AXIS_SOURCE 1))
     = Some (opened AXIS_DRIVE_FAULT (AXIS_SOURCE 1) None None 7 ''d0'')"
    using detect_new [OF manager_inv_new, of AXIS_DRIVE_FAULT "AXIS_SOURCE 1" "''d0''" None None 7]
    by (simp_all add: demo_axis_fault_manager_def)
qed

lemma diagnostic_manager_new: "diagnostic_manager (new_session i m r) = m"
  by (simp add: new_session_def)

theorem axis_fault_lockdown_witness:
  "\<exists>r. route_message (\<lambda>_. []) (\<lambda>_ _ _. raiseS RuntimeError) (\<lambda>_ _ _ s. (Inr HNone, s\<lparr>server_mode := []\<rparr>))
      demo_message 2 demo_axis_fault_state = (Inr r, demo_axis_fault_state) \<and>
    map_of r ''result'' = Some (PStr ''fail'')"
  by (rule axis_fault_lockdown [OF demo_spec, where i = 1 and js = "[]"
        and s = "new_session ready demo_axis_fault_manager (Some 0)"
        and k = "key_of (code AXIS_DRIVE_FAULT) (AXIS_SOURCE 1)"
        and d = "opened AXIS_DRIVE_FAULT (AXIS_SOURCE 1) None None 7 ''d0''"])
    (simp_all only: demo_axis_fault_manager_facts diagnostic_manager_new, simp_all add: command_def is_command_def
      demo_axis_fault_state_def demo_state_def AXIS_FAULT_ALLOWED_COMMANDS_def opened_def
      AXIS_SOURCE_def AXIS_DRIVE_FAULT_def demo_message_def)

text \<open>C40: the axis lockdown can be bypassed. The check reads the index of the axis with \<open>int(value)\<close>
  and takes a request it cannot read as one that names no axis, while the handlers read it with
  \<open>int(str(value), 0)\<close>: an index written as a prefixed literal such as \<open>"0x1"\<close> passes the check whatever
  faults are active on that axis, and the handler accepts it.\<close>

theorem axis_lockdown_misses_prefixed_index:
  assumes "map_of msg ''axes'' = None" and "map_of msg ''axis'' = Some (PStr t)"
    and "py_int_text (unsigned_value 10) t = None" and "py_int_text base0_value t = Some i"
    and "0 \<le> i" and "i < int n"
    and "server_session st = Some s" and "runtime_state s = RNORMAL"
    and "starts_with ''system/axis/'' (cmd_name sp)"
  shows "command_allowed_by_runtime_state sp st msg = Inr True \<and> parse_axis_indices n msg = Inr [i]"
proof -
  have "cmd_name sp \<noteq> ''system/bus/reconnect''" using assms(9) by auto
  moreover have "isinstance ValueError CValueError" by code_simp
  then have "selected_axis_indices msg = Inr []"
    using assms(1-3) by (simp add: selected_axis_indices_def int_of_value_def)
  ultimately show ?thesis
    using assms
    by (simp add: command_allowed_by_runtime_state_def parse_axis_indices_def parse_int_def Let_def)
qed

theorem axis_lockdown_misses_prefixed_index_witness:
  "command_allowed_by_runtime_state (command ''system/axis/enable'' True False False False)
     demo_axis_fault_state [(''cmd'', PStr ''system/axis/enable''), (''axis'', PStr ''0x1'')] = Inr True \<and>
   parse_axis_indices 2 [(''cmd'', PStr ''system/axis/enable''), (''axis'', PStr ''0x1'')] = Inr [1]"
proof -
  have "py_int_text (unsigned_value 10) ''0x1'' = None" "py_int_text base0_value ''0x1'' = Some 1"
    by code_simp+
  then show ?thesis
    by (intro axis_lockdown_misses_prefixed_index
        [where t = "''0x1''" and s = "new_session ready demo_axis_fault_manager (Some 0)"])
      (simp_all add: demo_axis_fault_state_def demo_state_def new_session_def ready_def command_def)
qed

text \<open>Every request with a command name is answered, whatever the handlers raise: the answer
  carries the request's command name as its type and the request's \<open>request_id\<close> when it has one.
  A request without a command name is not answered: the \<open>ValueError\<close> leaves \<open>route_message\<close> with
  the state unchanged.\<close>

theorem every_request_answered:
  "case fst (route_message pstr hs hc msg client st) of
     Inr r \<Rightarrow> command_name pstr msg \<noteq> [] \<and>
       map_of r ''type'' = Some (PStr (command_name pstr msg)) \<and>
       map_of r ''request_id'' = map_of msg ''request_id'' \<and>
       (map_of r ''result'' = Some (PStr ''success'') \<or> map_of r ''result'' = Some (PStr ''fail''))
   | Inl e \<Rightarrow> command_name pstr msg = [] \<and> e = ValueError \<and>
       snd (route_message pstr hs hc msg client st) = st"
proof (cases "command_name pstr msg = []")
  case True
  then show ?thesis
    by (simp add: route_message_def request_response_def context_from_request_def)
next
  case False
  obtain r st' where "route_message_to_handler pstr hs hc msg client st = (r, st')"
    by fastforce
  with False show ?thesis
    by (cases r)
      (auto simp: route_message_def request_response_def context_from_request_def Let_def
        partial_fail_response_def split: handled.split)
qed

text \<open>The axes a request selects are valid indices. When decoding succeeds the list is not
  empty and every index is at least zero and below the number of axes.\<close>

theorem parse_axis_indices_in_range:
  assumes "parse_axis_indices n msg = Inr axes"
  shows "axes \<noteq> [] \<and> (\<forall>i \<in> set axes. 0 \<le> i \<and> i < int n)"
proof -
  have "filter (\<lambda>i. i < 0 \<or> i \<ge> int n) axes = []" "axes \<noteq> []"
    using assms by (auto simp: parse_axis_indices_def Let_def split: sum.splits if_splits list.splits)
  then show ?thesis by (auto simp: filter_empty_conv)
qed

text \<open>The registry is complete. The import-time check passes: every command that is neither a
  status nor an authority request has a handler and every handler has a specification; names are
  unique; and exactly the commands that write the simulated inputs work without authority.\<close>

theorem command_registry_complete:
  "validate_command_registry = Inr () \<and> distinct command_names \<and> distinct COMMAND_HANDLERS \<and>
   list_all (\<lambda>sp. is_command sp \<and> \<not> authority_required sp \<longleftrightarrow>
      cmd_name sp \<in> {''system/simulation/io/input_write'', ''system/simulation/io/input_reset''}) COMMAND_SPECS"
  unfolding list_all_iff
  by (intro conjI registry_check_passes command_names_distinct handler_names_distinct
      commands_without_authority)

end
