(* ===== verification/Axis_Runtime.thy ===== *)
theory Axis_Runtime
  imports Cmmt_Profile Motion_Controller Parameter_Cache Api
begin

section \<open>The axes at runtime\<close>

text \<open>
  Models \<^verbatim>\<open>motion_server/app/runtime.py\<close> (\<open>AxisRuntime\<close>: the motion controller in front of the bus),
  \<^verbatim>\<open>motion_server/device_manager/axis_device_group.py\<close> (the axes as slaves of the bus),
  \<^verbatim>\<open>motion_server/app/cycle.py\<close> (\<open>exchange\<close>), \<^verbatim>\<open>motion_server/control/pdo_contract.py\<close>,
  \<^verbatim>\<open>motion_server/control/axis_operations.py\<close>, \<^verbatim>\<open>motion_server/control/setpoint_output.py\<close> and
  the state dictionary of \<^verbatim>\<open>motion_server/app/state.py\<close>. An axis is bound to a slave of the modelled
  master; the attributes of its process images are read and written there. One process data
  cycle is the argument \<open>exch\<close> of the operations that run cycles (\<open>axis_cycle\<close> is the cycle of the modelled
  bus); sleeping is not modelled. Every drive has the CMMT profile.
\<close>

subsection \<open>Axes on the bus\<close>

record 'd axis_runtime =
  bus :: "'d MockMaster"
  axis_bindings :: "nat list"
  controller :: motion_controller
  converter :: unit_converter
  axis_parameters :: axis_parameter_cache

abbreviation axis_total :: "'d axis_runtime \<Rightarrow> nat" where
  "axis_total r \<equiv> length (axis_bindings r)"

definition valid_bindings :: "'d MockMaster \<Rightarrow> int list \<Rightarrow> int list \<Rightarrow> unit res" where
  "valid_bindings m axis_indices slave_indices =
     (if axis_indices \<noteq> map int [0..<length axis_indices] then Inl ValueError
      else if \<not> distinct slave_indices then Inl ValueError
      else if list_ex (\<lambda>k. k < 0 \<or> k \<ge> int (length (slaves m))) slave_indices then Inl ValueError
      else Inr ())"

definition axis_slave :: "'d axis_runtime \<Rightarrow> int \<Rightarrow> MasterPdoRuntime res" where
  "axis_slave r i = bindE (py_nth (axis_bindings r) i) (\<lambda>k. py_nth (slaves (bus r)) (int k))"

definition attribute :: "pdo_image \<Rightarrow> string \<Rightarrow> pyval res" where
  "attribute im f = (case pi_values im f of Some v \<Rightarrow> Inr v | None \<Rightarrow> Inl AttributeError)"

definition rx_int :: "'d axis_runtime \<Rightarrow> int \<Rightarrow> string \<Rightarrow> int res" where
  "rx_int r i f = bindE (axis_slave r i) (\<lambda>s. bindE (attribute (rxpdo s) f) int_of_value)"

definition tx_int :: "'d axis_runtime \<Rightarrow> int \<Rightarrow> string \<Rightarrow> int res" where
  "tx_int r i f = bindE (axis_slave r i) (\<lambda>s. bindE (attribute (txpdo s) f) int_of_value)"

definition real_of_value :: "pyval \<Rightarrow> real res" where
  "real_of_value v =
     (case v of PInt i \<Rightarrow> Inr (of_int i) | PBool b \<Rightarrow> Inr (if b then 1 else 0) | PFloat x \<Rightarrow> Inr x
      | _ \<Rightarrow> Inl TypeError)"

definition tx_real :: "'d axis_runtime \<Rightarrow> int \<Rightarrow> string \<Rightarrow> real res" where
  "tx_real r i f = bindE (axis_slave r i) (\<lambda>s. bindE (attribute (txpdo s) f) real_of_value)"

definition set_rx :: "int \<Rightarrow> string \<Rightarrow> int \<Rightarrow> ('d axis_runtime, exn, unit) op" where
  "set_rx i f v r =
     (case bindE (py_nth (axis_bindings r) i) (\<lambda>k. py_index (slaves (bus r)) (int k)) of
        Inl e \<Rightarrow> (Inl e, r)
      | Inr k \<Rightarrow>
          (let s = slaves (bus r) ! k; im = rxpdo s
           in (Inr (), r\<lparr>bus := (bus r)\<lparr>slaves := (slaves (bus r))[k :=
                 s\<lparr>rxpdo := im\<lparr>pi_values := (pi_values im)(f \<mapsto> PInt v)\<rparr>\<rparr>]\<rparr>\<rparr>)))"

definition rx_has_field :: "'d axis_runtime \<Rightarrow> int \<Rightarrow> string \<Rightarrow> bool res" where
  "rx_has_field r i f = bindE (axis_slave r i) (\<lambda>s. Inr (has_field (rxpdo s) f))"

abbreviation all_axes :: "'d axis_runtime \<Rightarrow> int list" where
  "all_axes r \<equiv> map int [0..<axis_total r]"

definition actual_positions :: "'d axis_runtime \<Rightarrow> real list res" where
  "actual_positions r = mapE (\<lambda>i. tx_real r i ''actual_position'') (all_axes r)"

definition modes_of_operation :: "'d axis_runtime \<Rightarrow> int list res" where
  "modes_of_operation r = mapE (\<lambda>i. rx_int r i ''mode_of_operation'') (all_axes r)"

definition rx_target_positions :: "'d axis_runtime \<Rightarrow> int list res" where
  "rx_target_positions r = mapE (\<lambda>i. rx_int r i ''target_position'') (all_axes r)"

definition group_set_target_position :: "int \<Rightarrow> real \<Rightarrow> ('d axis_runtime, exn, unit) op" where
  "group_set_target_position i x = set_rx i ''target_position'' (py_round x)"

definition set_if_mapped :: "int \<Rightarrow> string \<Rightarrow> int \<Rightarrow> ('d axis_runtime, exn, unit) op" where
  "set_if_mapped i f v =
     bindS (liftE (\<lambda>r. rx_has_field r i f)) (\<lambda>b. if b then set_rx i f v else retS ())"

definition apply_commands :: "axis_command option list \<Rightarrow> ('d axis_runtime, exn, unit) op" where
  "apply_commands commands r =
     forS (zip (all_axes r) commands)
       (\<lambda>(i, c). case c of
          None \<Rightarrow> retS ()
        | Some cmd \<Rightarrow>
            bindS (set_if_mapped i ''target_position'' (ac_target_position cmd)) (\<lambda>_.
              set_if_mapped i ''velocity_offset'' (ac_velocity_offset cmd))) r"

definition set_controlword_all :: "int \<Rightarrow> ('d axis_runtime, exn, unit) op" where
  "set_controlword_all cw r = forS (all_axes r) (\<lambda>i. set_rx i ''controlword'' cw) r"

subsection \<open>The motion controller in front of the bus\<close>

definition on_controller :: "(motion_controller, exn, 'a) op \<Rightarrow> ('d axis_runtime, exn, 'a) op" where
  "on_controller f r = (case f (controller r) of (x, mc) \<Rightarrow> (x, r\<lparr>controller := mc\<rparr>))"

definition on_bus_op :: "('d MockMaster, exn, 'a) op \<Rightarrow> ('d axis_runtime, exn, 'a) op" where
  "on_bus_op f r = (case f (bus r) of (x, m) \<Rightarrow> (x, r\<lparr>bus := m\<rparr>))"

definition rt_prepare_processdata ::
  "(pyval \<Rightarrow> string) \<Rightarrow> int \<Rightarrow> int \<Rightarrow> ('d axis_runtime, exn, unit) op" where
  "rt_prepare_processdata pstr t1 t2 =
     bindS (liftE modes_of_operation) (\<lambda>modes.
     bindS (liftE rx_target_positions) (\<lambda>previous.
     bindS (on_controller (update_commands modes previous)) (\<lambda>commands.
     bindS (apply_commands commands) (\<lambda>_.
       on_bus_op (prepare_processdata pstr t1 t2)))))"

definition axis_cycle ::
  "(pyval \<Rightarrow> string) \<Rightarrow> 'd device_update \<Rightarrow> (nat \<Rightarrow> int) \<Rightarrow> ('d axis_runtime, exn, unit) op" where
  "axis_cycle pstr upd clock =
     bindS (rt_prepare_processdata pstr (clock 0) (clock 1)) (\<lambda>_.
     bindS (on_bus_op (send_processdata (clock 2) (clock 3) (clock 4) (clock 5))) (\<lambda>_.
     bindS (on_bus_op (receive_processdata pstr upd (clock 6) (clock 7))) (\<lambda>_. retS ())))"

fun exchange :: "('d axis_runtime, exn, unit) op \<Rightarrow> nat \<Rightarrow> ('d axis_runtime, exn, unit) op" where
  "exchange exch 0 = retS ()"
| "exchange exch (Suc n) = bindS exch (\<lambda>_. exchange exch n)"

definition rt_set_target_positions :: "real list \<Rightarrow> ('d axis_runtime, exn, unit) op" where
  "rt_set_target_positions xs =
     modifyS (\<lambda>r. r\<lparr>controller := set_target_positions xs (controller r)\<rparr>)"

definition rt_sync_to_actual :: "('d axis_runtime, exn, unit) op" where
  "rt_sync_to_actual =
     bindS (liftE actual_positions) (\<lambda>actual.
       modifyS (\<lambda>r. r\<lparr>controller := sync_trajectory_to_actual_positions actual (controller r)\<rparr>))"

definition rt_hold_axes :: "real list \<Rightarrow> int list \<Rightarrow> ('d axis_runtime, exn, real list) op" where
  "rt_hold_axes targets axes =
     bindS (liftE actual_positions) (\<lambda>actual.
     bindS (on_controller (hold_axes targets actual axes)) (\<lambda>positions.
     bindS (forS axes (\<lambda>i. bindS (liftE (\<lambda>_. py_nth positions i)) (group_set_target_position i)))
       (\<lambda>_. retS positions)))"

definition rt_relative_target_positions ::
  "int list \<Rightarrow> real list \<Rightarrow> 'd axis_runtime \<Rightarrow> real list res" where
  "rt_relative_target_positions axes distances r =
     bindE (actual_positions r) (\<lambda>actual. relative_target_positions actual axes distances)"

definition rt_sync_velocity_command :: "int \<Rightarrow> real \<Rightarrow> ('d axis_runtime, exn, unit) op" where
  "rt_sync_velocity_command i velocity =
     bindS (liftE (\<lambda>r. bindE (actual_positions r) (\<lambda>actual. py_nth actual i)))
       (\<lambda>actual. on_controller (sync_velocity_command i velocity actual))"

definition rt_complete_trajectory ::
  "int list \<Rightarrow> real list \<Rightarrow> ('d axis_runtime, exn, (int \<times> real) list) op" where
  "rt_complete_trajectory axes finals =
     bindS (on_controller (complete_trajectory axes finals)) (\<lambda>completed.
     bindS (forS completed (\<lambda>(i, x). group_set_target_position i x)) (\<lambda>_. retS completed))"

subsection \<open>Required PDO fields\<close>

definition MODE_RXPDO_FIELDS :: "(string \<times> string list) list" where
  "MODE_RXPDO_FIELDS =
     [(''pp'', [''target_position'', ''profile_velocity'']), (''pv'', [''target_velocity'']),
      (''csp'', [''target_position'']), (''homing'', []), (''jog'', [])]"

definition require_pdo_fields_for_mode :: "'d axis_runtime \<Rightarrow> string \<Rightarrow> int \<Rightarrow> unit res" where
  "require_pdo_fields_for_mode r mode i =
     (let fields = [''controlword'', ''mode_of_operation'']
            @ (case map_of MODE_RXPDO_FIELDS mode of None \<Rightarrow> [] | Some fs \<Rightarrow> fs)
      in bindE
           (if mode = ''csp'' then
              bindE (py_nth (csp_velocity_offset_by_axis (controller r)) i)
                (\<lambda>b. Inr (if b then fields @ [''velocity_offset''] else fields))
            else Inr fields)
           (\<lambda>fs. bindE (axis_slave r i) (\<lambda>s.
              if list_all (has_field (rxpdo s)) fs then Inr () else Inl RuntimeError)))"

subsection \<open>The state of the server\<close>

record homing_state =
  hm_active :: bool
  hm_state :: string
  hm_axes :: "int list"
  hm_start_time :: "real option"
  hm_message :: string
  hm_original_modes :: "int \<rightharpoonup> string"
  hm_initial_referenced :: "int \<rightharpoonup> bool"
  hm_referenced_seen_low :: "int \<rightharpoonup> bool"

definition inactive_homing_state :: "string \<Rightarrow> homing_state" where
  "inactive_homing_state result =
     \<lparr>hm_active = False, hm_state = result, hm_axes = [], hm_start_time = None, hm_message = [],
      hm_original_modes = Map.empty, hm_initial_referenced = Map.empty,
      hm_referenced_seen_low = Map.empty\<rparr>"

record way_point =
  wp_positions :: "real list"
  wp_time_from_start :: real
  wp_velocities :: "real list option"
  wp_accelerations :: "real list option"

record trajectory_state =
  tj_active :: bool
  tj_state :: string
  tj_axes :: "int list"
  tj_segment :: int
  tj_time_from_start :: real
  tj_points :: "way_point list"
  tj_start_time :: "real option"
  tj_message :: string

definition inactive_trajectory_state :: "string \<Rightarrow> trajectory_state" where
  "inactive_trajectory_state result =
     \<lparr>tj_active = False, tj_state = result, tj_axes = [], tj_segment = 0, tj_time_from_start = 0,
      tj_points = [], tj_start_time = None, tj_message = []\<rparr>"

record 'd motion_state = server_state +
  rt :: "'d axis_runtime"
  target_positions :: "real list"
  motion_modes :: "string list"
  motion_mode :: string
  jog_previous_modes :: "string option list"
  homing :: homing_state
  trajectory :: trajectory_state
  trajectory_sequence :: int
  last_trajectory_complete_time :: "real option"
  server_restart_requested :: bool
  csp_interpolation_modes :: "int list"
  recovery_in_progress :: "string option"
  bus_reconnect_timeout :: real
  axis_restart_timeout :: real
  axis_restart_disable_settle_time :: real

definition finallyS :: "('s, 'e, 'a) op \<Rightarrow> ('s \<Rightarrow> 's) \<Rightarrow> ('s, 'e, 'a) op" where
  "finallyS m f s = (case m s of (x, t) \<Rightarrow> (x, f t))"

definition on_rt :: "('d axis_runtime, exn, 'a) op \<Rightarrow> ('d motion_state, exn, 'a) op" where
  "on_rt f st = (case f (rt st) of (x, r) \<Rightarrow> (x, st\<lparr>rt := r\<rparr>))"

definition ask :: "('d axis_runtime \<Rightarrow> 'a res) \<Rightarrow> ('d motion_state, exn, 'a) op" where
  "ask f = liftE (\<lambda>st. f (rt st))"

subsection \<open>Operations on axes\<close>

definition status_has :: "'d axis_runtime \<Rightarrow> nat \<Rightarrow> int \<Rightarrow> bool res" where
  "status_has r k i = bindE (tx_int r i ''statusword'') (\<lambda>w. Inr (has_bit w k))"

definition filterE :: "('a \<Rightarrow> bool res) \<Rightarrow> 'a list \<Rightarrow> 'a list res" where
  "filterE p xs = bindE (mapE p xs) (\<lambda>bs. Inr (map fst (filter snd (zip xs bs))))"

definition faulted_axes :: "'d axis_runtime \<Rightarrow> int list res" where
  "faulted_axes r = filterE (status_has r 3) (all_axes r)"

definition operation_enabled_axes :: "'d axis_runtime \<Rightarrow> int list \<Rightarrow> int list res" where
  "operation_enabled_axes r axes = filterE (status_has r 2) axes"

definition disabled_operation_axes :: "'d axis_runtime \<Rightarrow> int list \<Rightarrow> int list res" where
  "disabled_operation_axes r axes =
     bindE (operation_enabled_axes r axes) (\<lambda>enabled. Inr (filter (\<lambda>i. i \<notin> set enabled) axes))"

definition hold_axis_at_actual_position :: "int \<Rightarrow> ('d motion_state, exn, unit) op" where
  "hold_axis_at_actual_position i st =
     bindS (on_rt (rt_hold_axes (target_positions st) [i]))
       (\<lambda>positions. modifyS (\<lambda>s. s\<lparr>target_positions := positions\<rparr>)) st"

definition set_controller_targets :: "('d motion_state, exn, unit) op" where
  "set_controller_targets st = on_rt (rt_set_target_positions (target_positions st)) st"

definition hold_faulted_axes :: "('d motion_state, exn, unit) op" where
  "hold_faulted_axes =
     bindS (ask faulted_axes) (\<lambda>axes st.
       if axes = [] then (Inr (), st)
       else bindS (on_rt (rt_hold_axes (target_positions st) axes)) (\<lambda>positions.
            bindS (modifyS (\<lambda>s. s\<lparr>target_positions := positions\<rparr>)) (\<lambda>_. set_controller_targets)) st)"

definition reject_if_any_axis_disabled :: "int list \<Rightarrow> string \<Rightarrow> ('d motion_state, exn, unit) op" where
  "reject_if_any_axis_disabled axes cmd =
     bindS (ask (\<lambda>r. disabled_operation_axes r axes)) (\<lambda>disabled.
       if disabled = [] then retS () else raiseS (OperationException (Some cmd)))"

definition reject_if_pv_not_allowed :: "int list \<Rightarrow> string \<Rightarrow> ('d motion_state, exn, unit) op" where
  "reject_if_pv_not_allowed axes cmd =
     bindS (ask (\<lambda>r. filterE (\<lambda>i. bindE (py_nth (user_position_units (converter r)) i)
                        (\<lambda>u. Inr (\<not> pv_allowed u))) axes)) (\<lambda>blocked.
       if blocked = [] then retS () else raiseS (OperationException (Some cmd)))"

definition profile_configure_mode_code ::
  "'d device_update \<Rightarrow> int \<Rightarrow> int \<Rightarrow> ('d axis_runtime, exn, unit) op" where
  "profile_configure_mode_code upd i c r =
     (case py_nth (axis_bindings r) i of
        Inl e \<Rightarrow> (Inl e, r)
      | Inr k \<Rightarrow> on_bus_op (configure_mode_code upd k c) r)"

definition op_configure_mode_code ::
  "('d axis_runtime, exn, unit) op \<Rightarrow> 'd device_update \<Rightarrow> string \<Rightarrow> int \<Rightarrow> ('d motion_state, exn, unit) op" where
  "op_configure_mode_code exch upd mode i =
     bindS (ask (\<lambda>_. mode_code mode)) (\<lambda>c.
     bindS (on_rt (set_rx i ''mode_of_operation'' c)) (\<lambda>_.
     bindS (on_rt (profile_configure_mode_code upd i c)) (\<lambda>_. on_rt (exchange exch 5))))"

definition configure_motion_mode ::
  "('d axis_runtime, exn, unit) op \<Rightarrow> 'd device_update \<Rightarrow> string \<Rightarrow> int \<Rightarrow> ('d motion_state, exn, unit) op" where
  "configure_motion_mode exch upd mode i =
     bindS (ask (\<lambda>r. require_pdo_fields_for_mode r mode i))
       (\<lambda>_. op_configure_mode_code exch upd mode i)"

definition set_motion_mode :: "int \<Rightarrow> string \<Rightarrow> ('d motion_state, exn, unit) op" where
  "set_motion_mode i mode st =
     (case py_index (motion_modes st) i of
        Inl e \<Rightarrow> (Inl e, st)
      | Inr k \<Rightarrow> (Inr (), st\<lparr>motion_modes := (motion_modes st)[k := mode]\<rparr>))"

definition update_motion_mode_summary :: "('d motion_state, exn, unit) op" where
  "update_motion_mode_summary st =
     (case motion_modes st of
        [] \<Rightarrow> (Inr (), st\<lparr>motion_mode := ''mixed''\<rparr>)
      | m # ms \<Rightarrow> (Inr (), st\<lparr>motion_mode := if list_all (\<lambda>x. x = m) ms then m else ''mixed''\<rparr>))"

definition CSP_MODE :: int where "CSP_MODE = 8"
definition PROFILE_POSITION_MODE :: int where "PROFILE_POSITION_MODE = 1"
definition PROFILE_VELOCITY_MODE :: int where "PROFILE_VELOCITY_MODE = 3"
definition JOG_MODE :: int where "JOG_MODE = - 3"

fun ensure_csp_axes :: "int list \<Rightarrow> ('d motion_state, exn, bool) op" where
  "ensure_csp_axes [] = retS False"
| "ensure_csp_axes (i # axes) =
     bindS (liftE (\<lambda>st. py_nth (motion_modes st) i)) (\<lambda>mode.
       if mode = ''csp'' then ensure_csp_axes axes
       else
         bindS (hold_axis_at_actual_position i) (\<lambda>_.
         bindS (on_rt (set_rx i ''mode_of_operation'' CSP_MODE)) (\<lambda>_.
         bindS (on_rt (set_rx i ''controlword'' 0x000F)) (\<lambda>_.
         bindS (set_motion_mode i ''csp'') (\<lambda>_.
         bindS (ensure_csp_axes axes) (\<lambda>_. retS True))))))"

definition ensure_csp_mode :: "int list \<Rightarrow> ('d motion_state, exn, unit) op" where
  "ensure_csp_mode axes =
     bindS (ensure_csp_axes axes) (\<lambda>changed.
       if changed then bindS update_motion_mode_summary (\<lambda>_. set_controller_targets) else retS ())"

subsection \<open>Set-points\<close>

definition PP_HANDSHAKE_MAX_CYCLES :: nat where "PP_HANDSHAKE_MAX_CYCLES = 100"

fun wait_pp_setpoint_ack ::
  "('d axis_runtime, exn, unit) op \<Rightarrow> int list \<Rightarrow> bool \<Rightarrow> nat \<Rightarrow> ('d axis_runtime, exn, bool) op" where
  "wait_pp_setpoint_ack exch axes expected 0 = retS False"
| "wait_pp_setpoint_ack exch axes expected (Suc n) =
     bindS exch (\<lambda>_.
     bindS (liftE (\<lambda>r. mapE (status_has r 12) axes)) (\<lambda>acks.
       if list_all (\<lambda>a. a = expected) acks then retS True
       else wait_pp_setpoint_ack exch axes expected n))"

definition set_controlwords :: "int list \<Rightarrow> int \<Rightarrow> ('d axis_runtime, exn, unit) op" where
  "set_controlwords axes cw = forS axes (\<lambda>i. set_rx i ''controlword'' cw)"

definition pp_setpoint_handshake ::
  "('d axis_runtime, exn, unit) op \<Rightarrow> int list \<Rightarrow> ('d axis_runtime, exn, unit) op" where
  "pp_setpoint_handshake exch axes =
     bindS (set_controlwords axes 0x000F) (\<lambda>_.
     bindS (wait_pp_setpoint_ack exch axes False PP_HANDSHAKE_MAX_CYCLES) (\<lambda>cleared_before.
     bindS (set_controlwords axes 0x003F) (\<lambda>_.
     bindS (wait_pp_setpoint_ack exch axes True PP_HANDSHAKE_MAX_CYCLES) (\<lambda>ack_set.
     bindS (set_controlwords axes 0x000F) (\<lambda>_.
     bindS (wait_pp_setpoint_ack exch axes False PP_HANDSHAKE_MAX_CYCLES) (\<lambda>cleared_after.
       if cleared_before \<and> ack_set \<and> cleared_after then retS () else raiseS RuntimeError))))))"

definition command_profile_positions ::
  "('d axis_runtime, exn, unit) op \<Rightarrow> real list \<Rightarrow> int list \<Rightarrow> ('d axis_runtime, exn, unit) op" where
  "command_profile_positions exch targets axes =
     bindS (forS axes (\<lambda>i.
       bindS (liftE (\<lambda>r. require_pdo_fields_for_mode r ''pp'' i)) (\<lambda>_.
       bindS (liftE (\<lambda>_. py_nth targets i)) (\<lambda>x.
       bindS (set_rx i ''mode_of_operation'' PROFILE_POSITION_MODE) (\<lambda>_.
       bindS (liftE (\<lambda>_. require_int32 x)) (set_rx i ''target_position''))))))
     (\<lambda>_. pp_setpoint_handshake exch axes)"

definition checked_positions :: "real list \<Rightarrow> int list \<Rightarrow> real list res" where
  "checked_positions targets axes =
     fold (\<lambda>i acc. bindE acc (\<lambda>xs. bindE (py_index xs i) (\<lambda>k.
         bindE (require_int32 (xs ! k)) (\<lambda>v. Inr (xs[k := of_int v]))))) axes (Inr targets)"

definition command_csp_positions :: "real list \<Rightarrow> int list \<Rightarrow> ('d axis_runtime, exn, unit) op" where
  "command_csp_positions targets axes =
     bindS (liftE (\<lambda>_. checked_positions targets axes)) (\<lambda>checked.
     bindS (forS axes (\<lambda>i. bindS (set_rx i ''mode_of_operation'' CSP_MODE)
                              (\<lambda>_. set_rx i ''controlword'' 0x000F))) (\<lambda>_.
       rt_set_target_positions checked))"

definition reject_faulted :: "string \<Rightarrow> ('d motion_state, exn, unit) op" where
  "reject_faulted cmd =
     bindS (ask faulted_axes) (\<lambda>faults.
       if faults = [] then retS ()
       else bindS hold_faulted_axes (\<lambda>_. bindS (on_rt rt_sync_to_actual)
              (\<lambda>_. raiseS (InvalidStateException (Some cmd) (Some ''axis_fault'')))))"

definition command_profile_velocity ::
  "('d axis_runtime, exn, unit) op \<Rightarrow> 'd device_update \<Rightarrow> int \<Rightarrow> real \<Rightarrow> ('d motion_state, exn, unit) op" where
  "command_profile_velocity exch upd i velocity =
     bindS (ask (\<lambda>r. require_pdo_fields_for_mode r ''pv'' i)) (\<lambda>_.
     bindS (ask (\<lambda>_. require_int32 velocity)) (\<lambda>v.
     bindS (on_rt (set_rx i ''target_velocity'' v)) (\<lambda>_.
     bindS (liftE (\<lambda>st. py_nth (motion_modes st) i)) (\<lambda>mode.
     bindS (if mode \<noteq> ''pv'' then
              bindS (hold_axis_at_actual_position i) (\<lambda>_.
              bindS (configure_motion_mode exch upd ''pv'' i) (\<lambda>_. set_motion_mode i ''pv''))
            else retS ()) (\<lambda>_.
     bindS (on_rt (set_rx i ''mode_of_operation'' PROFILE_VELOCITY_MODE)) (\<lambda>_.
     bindS (on_rt (set_rx i ''target_velocity'' v)) (\<lambda>_.
     bindS (on_rt (set_rx i ''controlword'' 0x000F)) (\<lambda>_.
       on_rt (rt_sync_velocity_command i velocity)))))))))"

definition command_profile_velocities ::
  "('d axis_runtime, exn, unit) op \<Rightarrow> 'd device_update \<Rightarrow> int list \<Rightarrow> real list \<Rightarrow> string
   \<Rightarrow> ('d motion_state, exn, unit) op" where
  "command_profile_velocities exch upd axes velocities cmd =
     bindS (reject_faulted cmd) (\<lambda>_.
     bindS (reject_if_any_axis_disabled axes cmd) (\<lambda>_.
     bindS (reject_if_pv_not_allowed axes cmd) (\<lambda>_.
     bindS (forS (zip axes velocities) (\<lambda>(i, v). command_profile_velocity exch upd i v)) (\<lambda>_.
     bindS update_motion_mode_summary (\<lambda>_. on_rt (exchange exch 2))))))"

subsection \<open>Two axes for examples\<close>

definition demo_image :: "(string \<times> int) list \<Rightarrow> pdo_image" where
  "demo_image vs = \<lparr>pi_items = [], pi_mapping = [], mapped_fields = set (map fst vs),
     pi_values = map_of (map (\<lambda>(f, v). (f, PInt v)) vs)\<rparr>"

definition demo_drive :: "int \<Rightarrow> MasterPdoRuntime" where
  "demo_drive w =
     \<lparr>profile_conf = motion_server_default,
      rxpdo = demo_image [(''controlword'', 15), (''mode_of_operation'', 1), (''target_position'', 0),
        (''profile_velocity'', 0), (''target_velocity'', 0)],
      txpdo = demo_image [(''statusword'', w), (''actual_position'', 40), (''mode_of_operation_display'', 1)],
      prepared_output = None, transmitted_output = None, received_input = None\<rparr>"

definition demo_runtime :: "int \<Rightarrow> int \<Rightarrow> unit axis_runtime" where
  "demo_runtime w0 w1 =
     \<lparr>bus = demo_master\<lparr>slaves := [demo_drive w0, demo_drive w1], wkc := 2\<rparr>, axis_bindings = [0, 1],
      controller = demo_controller, converter = new_converter 2,
      axis_parameters = \<lparr>ap_cache = empty_cache, ap_axes = [blank_axis, blank_axis]\<rparr>\<rparr>"

definition demo_motion_state :: "unit axis_runtime \<Rightarrow> unit motion_state" where
  "demo_motion_state r =
     \<lparr>server_mode = ''advanced'', init_status = ready,
      server_session = Some (new_session ready new_manager (Some 0)), command_authority_owner = Some 2,
      rt = r, target_positions = [0, 0], motion_modes = [''pp'', ''pp''], motion_mode = ''pp'',
      jog_previous_modes = [None, None], homing = inactive_homing_state ''idle'',
      trajectory = inactive_trajectory_state ''idle'', trajectory_sequence = 0,
      last_trajectory_complete_time = None, server_restart_requested = False,
      csp_interpolation_modes = [0, 0], recovery_in_progress = None, bus_reconnect_timeout = 30,
      axis_restart_timeout = 30, axis_restart_disable_settle_time = 1\<rparr>"

lemma demo_runtime_simps [simp]:
  "axis_bindings (demo_runtime w0 w1) = [0, 1]" "wkc (bus (demo_runtime w0 w1)) = 2"
  "expected_wkc (bus (demo_runtime w0 w1)) = 2" "slaves (bus (demo_runtime w0 w1)) = [demo_drive w0, demo_drive w1]"
  "controller (demo_runtime w0 w1) = demo_controller"
  by (simp_all add: demo_runtime_def demo_master_def)

lemma demo_motion_state_simps [simp]:
  "rt (demo_motion_state r) = r" "target_positions (demo_motion_state r) = [0, 0]"
  "motion_modes (demo_motion_state r) = [''pp'', ''pp'']"
  "trajectory (demo_motion_state r) = inactive_trajectory_state ''idle''"
  "homing (demo_motion_state r) = inactive_homing_state ''idle''"
  by (simp_all add: demo_motion_state_def)

lemma demo_statusword:
  "tx_int (demo_runtime w0 w1) 0 ''statusword'' = Inr w0" "tx_int (demo_runtime w0 w1) 1 ''statusword'' = Inr w1"
  by (simp_all add: tx_int_def axis_slave_def py_nth_def py_index_def demo_drive_def demo_image_def
      attribute_def int_of_value_def)

end
