(* ===== verification/Motion_Handlers.thy ===== *)
theory Motion_Handlers
  imports Axis_Runtime
begin

section \<open>Command handlers: motion, jog, homing, axis state\<close>

text \<open>
  Models \<^verbatim>\<open>motion_server/handlers/command/motion.py\<close>, \<^verbatim>\<open>jog.py\<close>, \<^verbatim>\<open>homing.py\<close>,
  \<^verbatim>\<open>axis_state.py\<close> (restarting an axis apart), \<^verbatim>\<open>server.py\<close> and \<open>set_mode\<close> of
  \<^verbatim>\<open>axis_settings.py\<close>, over the state and the operations of \<^verbatim>\<open>Axis_Runtime\<close>. A handler gets the
  request and returns \<open>None\<close> or the data of the response; the texts of rejections and log lines are
  not modelled, nor is the status view some handlers return, which is the argument \<open>status_data\<close>
  where a handler is modelled with it and \<open>HNone\<close> otherwise. Numbers of a request are finite. \<open>now\<close> is what \<open>time.monotonic()\<close> returns.
\<close>

subsection \<open>Numbers of a request\<close>

fun fraction_value :: "real \<Rightarrow> real \<Rightarrow> string \<Rightarrow> real option" where
  "fraction_value unit acc [] = Some acc"
| "fraction_value unit acc (c # cs) =
     (case digit_value c of
        None \<Rightarrow> None
      | Some d \<Rightarrow> if d < 10 then fraction_value (unit / 10) (acc + of_nat d * unit / 10) cs else None)"

definition mantissa_value :: "string \<Rightarrow> real option" where
  "mantissa_value s =
     (let whole = takeWhile (\<lambda>c. c \<noteq> CHR ''.'') s; rest = drop 1 (dropWhile (\<lambda>c. c \<noteq> CHR ''.'') s)
      in if whole = [] \<and> rest = [] then None
         else case (if whole = [] then Some 0 else unsigned_value 10 whole) of
           None \<Rightarrow> None
         | Some n \<Rightarrow> fraction_value 1 (of_nat n) rest)"

definition is_exponent_mark :: "char \<Rightarrow> bool" where
  "is_exponent_mark c \<longleftrightarrow> c = CHR ''e'' \<or> c = CHR ''E''"

definition unsigned_float :: "string \<Rightarrow> real option" where
  "unsigned_float s =
     (let m = takeWhile (\<lambda>c. \<not> is_exponent_mark c) s; rest = dropWhile (\<lambda>c. \<not> is_exponent_mark c) s
      in case mantissa_value m of
           None \<Rightarrow> None
         | Some x \<Rightarrow>
             if rest = [] then Some x
             else map_option (\<lambda>k. x * 10 powi k) (py_int_text (unsigned_value 10) (tl rest)))"

text \<open>\<open>float(value)\<close> of a decoded request value.\<close>

definition float_of_value :: "pyval \<Rightarrow> real res" where
  "float_of_value v =
     (case v of
        PInt i \<Rightarrow> Inr (of_int i)
      | PBool b \<Rightarrow> Inr (if b then 1 else 0)
      | PFloat x \<Rightarrow> Inr x
      | PInf _ \<Rightarrow> Inl OverflowError
      | PNaN \<Rightarrow> Inl ValueError
      | PStr s \<Rightarrow>
          (case strip s of
             [] \<Rightarrow> Inl ValueError
           | c # cs \<Rightarrow>
               (case (if c = CHR ''-'' then map_option uminus (unsigned_float cs)
                      else if c = CHR ''+'' then unsigned_float cs else unsigned_float (c # cs)) of
                  None \<Rightarrow> Inl ValueError | Some x \<Rightarrow> Inr x))
      | _ \<Rightarrow> Inl TypeError)"

definition floats_of :: "pyval \<Rightarrow> real list res" where
  "floats_of v = bindE (iter_value v) (mapE float_of_value)"

text \<open>The values of a request: a list under one key or a single value under another.\<close>

definition message_values :: "string \<Rightarrow> string \<Rightarrow> pydict \<Rightarrow> real list res" where
  "message_values many one message =
     (case map_of message many of
        Some v \<Rightarrow> floats_of v
      | None \<Rightarrow>
          (case map_of message one of
             Some v \<Rightarrow> bindE (float_of_value v) (\<lambda>x. Inr [x])
           | None \<Rightarrow> Inl ValueError))"

definition selected_axes :: "'d axis_runtime \<Rightarrow> pydict \<Rightarrow> int list res" where
  "selected_axes r message = parse_axis_indices (axis_total r) message"

definition drive_position :: "'d axis_runtime \<Rightarrow> int \<Rightarrow> real \<Rightarrow> real res" where
  "drive_position r i x =
     bindE (position_api_to_drive (converter r) i x) (\<lambda>y.
     bindE (require_int32 y) (\<lambda>v. Inr (of_int v)))"

definition axis_positions_from_message ::
  "pydict \<Rightarrow> 'd axis_runtime \<Rightarrow> real list \<Rightarrow> real list res" where
  "axis_positions_from_message message r targets =
     bindE (selected_axes r message) (\<lambda>axes.
     bindE (message_values ''positions'' ''position'' message) (\<lambda>values.
       if length values = axis_total r \<and> length axes = axis_total r then
         mapE (\<lambda>(i, x). drive_position r (int i) x) (enumerate 0 values)
       else if length values \<noteq> length axes then Inl ValueError
       else
         fold (\<lambda>(i, x) acc. bindE acc (\<lambda>xs. bindE (drive_position r i x) (\<lambda>y.
              bindE (py_index xs i) (\<lambda>k. Inr (xs[k := y]))))) (zip axes values) (Inr targets)))"

definition axis_velocities_from_message ::
  "pydict \<Rightarrow> 'd axis_runtime \<Rightarrow> (int list \<times> real list) res" where
  "axis_velocities_from_message message r =
     bindE (selected_axes r message) (\<lambda>axes.
     bindE (message_values ''velocities'' ''velocity'' message) (\<lambda>values.
       if length values \<noteq> length axes then Inl ValueError
       else bindE (mapE (\<lambda>(i, x). motion_api_to_drive (converter r) i x ''velocity'') (zip axes values))
              (\<lambda>vs. Inr (axes, vs))))"

definition axis_distances_from_message ::
  "pydict \<Rightarrow> 'd axis_runtime \<Rightarrow> (int list \<times> real list) res" where
  "axis_distances_from_message message r =
     bindE (selected_axes r message) (\<lambda>axes.
     bindE (message_values ''distances'' ''distance'' message) (\<lambda>values.
       if length values \<noteq> length axes then Inl ValueError
       else bindE (mapE (\<lambda>(i, x). drive_position r i x) (zip axes values)) (\<lambda>ds. Inr (axes, ds))))"

subsection \<open>Moves\<close>

text \<open>\<open>except Exception: raise_operation_rejected\<close>.\<close>

definition rejecting :: "string \<Rightarrow> ('s, exn, 'a) op \<Rightarrow> ('s, exn, 'a) op" where
  "rejecting cmd m = catchS m (\<lambda>_. raiseS (OperationException (Some cmd)))"

definition unreferenced_axes :: "'d axis_runtime \<Rightarrow> int list \<Rightarrow> int list res" where
  "unreferenced_axes r axes = filterE (\<lambda>i. bindE (status_has r 15 i) (\<lambda>b. Inr (\<not> b))) axes"

definition set_profile_velocity :: "int \<Rightarrow> real \<Rightarrow> ('d axis_runtime, exn, unit) op" where
  "set_profile_velocity i x r =
     (case bindE (py_index (ap_axes (axis_parameters r)) i) (\<lambda>k.
             if ap_profile_settings (ap_axes (axis_parameters r) ! k) = [] then Inl IndexError else Inr k) of
        Inl e \<Rightarrow> (Inl e, r)
      | Inr k \<Rightarrow>
          let ac = axis_parameters r; v = ap_axes ac ! k
          in (Inr (), r\<lparr>axis_parameters := ac\<lparr>ap_axes :=
                (ap_axes ac)[k := v\<lparr>ap_profile_settings := (ap_profile_settings v)[0 := x]\<rparr>]\<rparr>\<rparr>))"

definition apply_move_profile_velocity :: "pydict \<Rightarrow> int list \<Rightarrow> ('d axis_runtime, exn, unit) op" where
  "apply_move_profile_velocity message axes =
     (if map_of message ''profile_velocity'' = None \<and> map_of message ''profile_velocities'' = None then retS ()
      else
        bindS (liftE (\<lambda>_.
          case map_of message ''profile_velocities'' of
            Some v \<Rightarrow> bindE (floats_of v)
                        (\<lambda>xs. if length xs \<noteq> length axes then Inl ValueError else Inr xs)
          | None \<Rightarrow>
              (case map_of message ''profile_velocity'' of
                 Some v \<Rightarrow> mapE (\<lambda>_. float_of_value v) axes | None \<Rightarrow> Inl TypeError))) (\<lambda>values.
        forS (zip axes values) (\<lambda>(i, x).
          bindS (liftE (\<lambda>r. motion_api_to_drive (converter r) i x ''velocity'')) (\<lambda>y.
          bindS (set_profile_velocity i y) (\<lambda>_.
          bindS (liftE (\<lambda>r. rx_has_field r i ''profile_velocity'')) (\<lambda>mapped.
            if mapped then bindS (liftE (\<lambda>_. require_uint32 y)) (set_rx i ''profile_velocity'')
            else retS ()))))))"

definition axes_in_modes :: "string list \<Rightarrow> int list \<Rightarrow> 'd motion_state \<Rightarrow> int list res" where
  "axes_in_modes modes axes st =
     filterE (\<lambda>i. bindE (py_nth (motion_modes st) i) (\<lambda>m. Inr (m \<in> set modes))) axes"

definition assign_positions :: "int list \<Rightarrow> real list \<Rightarrow> real list \<Rightarrow> real list res" where
  "assign_positions axes positions targets =
     fold (\<lambda>i acc. bindE acc (\<lambda>xs. bindE (py_nth positions i) (\<lambda>y.
         bindE (py_index xs i) (\<lambda>k. Inr (xs[k := y]))))) axes (Inr targets)"

definition send_positions ::
  "('d axis_runtime, exn, unit) op \<Rightarrow> int list \<Rightarrow> int list \<Rightarrow> ('d motion_state, exn, unit) op" where
  "send_positions exch pp_axes csp_axes st =
     bindS (if pp_axes = [] then retS ()
            else on_rt (command_profile_positions exch (target_positions st) pp_axes)) (\<lambda>_ st'.
       if csp_axes = [] then (Inr (), st')
       else on_rt (command_csp_positions (target_positions st') csp_axes) st') st"

text \<open>What the \<open>except\<close> branch of \<open>command_position_axes\<close> does before it rejects: every selected
  axis is held at its actual position.\<close>

definition hold_selected :: "int list \<Rightarrow> ('d motion_state, exn, unit) op" where
  "hold_selected axes =
     bindS (ask actual_positions) (\<lambda>actual.
     bindS (forS axes (\<lambda>i.
       bindS (liftE (\<lambda>st. assign_positions [i] actual (target_positions st))) (\<lambda>xs.
       bindS (modifyS (\<lambda>st. st\<lparr>target_positions := xs\<rparr>)) (\<lambda>_. hold_axis_at_actual_position i))))
       (\<lambda>_. set_controller_targets))"

definition command_position_axes ::
  "('d axis_runtime, exn, unit) op \<Rightarrow> int list \<Rightarrow> real list \<Rightarrow> string \<Rightarrow> ('d motion_state, exn, unit) op" where
  "command_position_axes exch axes positions cmd =
     bindS (reject_faulted cmd) (\<lambda>_.
     bindS (reject_if_any_axis_disabled axes cmd) (\<lambda>_.
     bindS (liftE (\<lambda>st. assign_positions axes positions (target_positions st))) (\<lambda>targets.
     bindS (modifyS (\<lambda>st. st\<lparr>target_positions := targets\<rparr>)) (\<lambda>_.
     bindS (liftE (axes_in_modes [''pp''] axes)) (\<lambda>pp_axes.
     bindS (liftE (axes_in_modes [''csp''] axes)) (\<lambda>csp_axes.
       catchS (send_positions exch pp_axes csp_axes)
         (\<lambda>_. bindS (hold_selected axes) (\<lambda>_. raiseS (OperationException (Some cmd))))))))))"

definition move_absolute ::
  "('d axis_runtime, exn, unit) op \<Rightarrow> string \<Rightarrow> pydict \<Rightarrow> ('d motion_state, exn, unit) op" where
  "move_absolute exch cmd message =
     bindS (rejecting cmd
       (bindS (ask (\<lambda>r. selected_axes r message)) (\<lambda>axes.
        bindS (liftE (\<lambda>st. axis_positions_from_message message (rt st) (target_positions st))) (\<lambda>positions.
        bindS (on_rt (apply_move_profile_velocity message axes)) (\<lambda>_. retS (axes, positions))))))
     (\<lambda>(axes, positions).
       bindS (ask (\<lambda>r. unreferenced_axes r axes)) (\<lambda>unref.
         if unref \<noteq> [] then raiseS (OperationException (Some cmd))
         else command_position_axes exch axes positions cmd))"

definition move_relative ::
  "('d axis_runtime, exn, unit) op \<Rightarrow> string \<Rightarrow> pydict \<Rightarrow> ('d motion_state, exn, unit) op" where
  "move_relative exch cmd message =
     bindS (rejecting cmd
       (bindS (ask (axis_distances_from_message message)) (\<lambda>(axes, distances).
        bindS (on_rt (apply_move_profile_velocity message axes)) (\<lambda>_. retS (axes, distances)))))
     (\<lambda>(axes, distances).
       bindS (ask (rt_relative_target_positions axes distances)) (\<lambda>positions.
       bindS (liftE (\<lambda>_. checked_positions positions axes)) (\<lambda>checked.
         command_position_axes exch axes checked cmd)))"

definition move_velocity ::
  "('d axis_runtime, exn, unit) op \<Rightarrow> 'd device_update \<Rightarrow> string \<Rightarrow> pydict \<Rightarrow> ('d motion_state, exn, unit) op" where
  "move_velocity exch upd cmd message =
     bindS (rejecting cmd (ask (axis_velocities_from_message message)))
       (\<lambda>(axes, velocities). command_profile_velocities exch upd axes velocities cmd)"

subsection \<open>Jog\<close>

definition request_text :: "(pyval \<Rightarrow> string) \<Rightarrow> pydict \<Rightarrow> string \<Rightarrow> string \<Rightarrow> string" where
  "request_text pstr message key d =
     lower (strip (py_str pstr (case map_of message key of Some v \<Rightarrow> v | None \<Rightarrow> PStr d)))"

definition request_axis :: "pydict \<Rightarrow> 'd axis_runtime \<Rightarrow> int res" where
  "request_axis message r = selected_single_axis (axis_total r) message"

definition jog_request :: "(pyval \<Rightarrow> string) \<Rightarrow> pydict \<Rightarrow> 'd axis_runtime \<Rightarrow> (int \<times> string \<times> string) res" where
  "jog_request pstr message r =
     bindE (request_axis message r) (\<lambda>i.
       let direction = request_text pstr message ''direction'' [];
           speed = request_text pstr message ''speed'' ''slow''
       in if direction \<notin> {''positive'', ''negative'', ''+'', ''-''} then Inl ValueError
          else if speed \<notin> {''slow'', ''fast'', ''two_phase''} then Inl ValueError
          else Inr (i, direction, speed))"

definition jog_controlword :: "string \<Rightarrow> string \<Rightarrow> int" where
  "jog_controlword direction speed =
     (let cw = with_bit 0x000F (if direction \<in> {''positive'', ''+''} then 4 else 5)
      in if speed = ''slow'' then with_bit cw 11
         else if speed = ''fast'' then with_bit cw 12 else cw)"

definition set_jog_previous :: "int \<Rightarrow> string option \<Rightarrow> ('d motion_state, exn, unit) op" where
  "set_jog_previous i mode st =
     (case py_index (jog_previous_modes st) i of
        Inl e \<Rightarrow> (Inl e, st)
      | Inr k \<Rightarrow> (Inr (), st\<lparr>jog_previous_modes := (jog_previous_modes st)[k := mode]\<rparr>))"

definition enter_jog_mode ::
  "('d axis_runtime, exn, unit) op \<Rightarrow> 'd device_update \<Rightarrow> int \<Rightarrow> ('d motion_state, exn, unit) op" where
  "enter_jog_mode exch upd i =
     bindS (ask (\<lambda>r. require_pdo_fields_for_mode r ''jog'' i)) (\<lambda>_.
     bindS (liftE (\<lambda>st. py_nth (motion_modes st) i)) (\<lambda>mode.
       if mode = ''jog'' then retS ()
       else
         bindS (set_jog_previous i (Some mode)) (\<lambda>_.
         bindS (hold_axis_at_actual_position i) (\<lambda>_.
         bindS (configure_motion_mode exch upd ''jog'' i) (\<lambda>_.
         bindS (set_motion_mode i ''jog'') (\<lambda>_. update_motion_mode_summary))))))"

definition start_jog ::
  "(pyval \<Rightarrow> string) \<Rightarrow> ('d axis_runtime, exn, unit) op \<Rightarrow> 'd device_update \<Rightarrow> string \<Rightarrow> pydict
   \<Rightarrow> ('d motion_state, exn, unit) op" where
  "start_jog pstr exch upd cmd message =
     bindS (rejecting cmd (ask (jog_request pstr message))) (\<lambda>(i, direction, speed).
     bindS (reject_if_any_axis_disabled [i] cmd) (\<lambda>_.
     bindS (rejecting cmd (enter_jog_mode exch upd i)) (\<lambda>_.
     bindS (on_rt (set_rx i ''mode_of_operation'' JOG_MODE)) (\<lambda>_.
       on_rt (set_rx i ''controlword'' (jog_controlword direction speed))))))"

definition leave_jog_mode ::
  "('d axis_runtime, exn, unit) op \<Rightarrow> 'd device_update \<Rightarrow> int \<Rightarrow> string \<Rightarrow> ('d motion_state, exn, unit) op" where
  "leave_jog_mode exch upd i mode =
     bindS (hold_axis_at_actual_position i) (\<lambda>_.
     bindS (configure_motion_mode exch upd mode i) (\<lambda>_.
     bindS (set_motion_mode i mode) (\<lambda>_. update_motion_mode_summary)))"

definition forget_jog_previous :: "int \<Rightarrow> 'd motion_state \<Rightarrow> 'd motion_state" where
  "forget_jog_previous i st = snd (set_jog_previous i None st)"

definition stop_jog ::
  "('d axis_runtime, exn, unit) op \<Rightarrow> 'd device_update \<Rightarrow> string \<Rightarrow> pydict \<Rightarrow> ('d motion_state, exn, unit) op" where
  "stop_jog exch upd cmd message =
     bindS (rejecting cmd (ask (request_axis message))) (\<lambda>i.
     bindS (ask (\<lambda>r. disabled_operation_axes r [i])) (\<lambda>disabled.
     bindS (on_rt (set_rx i ''controlword'' (if disabled \<noteq> [] then 0x0007 else 0x000F))) (\<lambda>_.
     bindS (on_rt (exchange exch 5)) (\<lambda>_.
     bindS (liftE (\<lambda>st. py_nth (jog_previous_modes st) i)) (\<lambda>previous.
       let mode = (case previous of None \<Rightarrow> ''pp'' | Some m \<Rightarrow> if m = [] then ''pp'' else m)
       in finallyS (rejecting cmd (leave_jog_mode exch upd i mode)) (forget_jog_previous i))))))"

subsection \<open>Homing\<close>

record homing_axis_state =
  ha_axis :: int
  ha_statusword :: int
  ha_operation_enabled :: bool
  ha_target_reached :: bool
  ha_referenced :: bool
  ha_homing_error :: bool
  ha_fault :: bool
  ha_warning :: bool
  ha_actual_position :: real
  ha_mode_display :: int

definition homing_axis_status :: "'d axis_runtime \<Rightarrow> int \<Rightarrow> homing_axis_state res" where
  "homing_axis_status r i =
     bindE (tx_int r i ''statusword'') (\<lambda>w.
     bindE (tx_real r i ''actual_position'') (\<lambda>x.
     bindE (tx_int r i ''mode_of_operation_display'') (\<lambda>md.
       Inr \<lparr>ha_axis = i, ha_statusword = w, ha_operation_enabled = (w AND 0x006F = 0x0027),
            ha_target_reached = has_bit w 10, ha_referenced = has_bit w 15,
            ha_homing_error = has_bit w 13, ha_fault = has_bit w 3, ha_warning = has_bit w 7,
            ha_actual_position = x, ha_mode_display = md\<rparr>)))"

definition set_homing_start_bit :: "int list \<Rightarrow> bool \<Rightarrow> ('d axis_runtime, exn, unit) op" where
  "set_homing_start_bit axes enabled =
     forS axes (\<lambda>i. bindS (liftE (\<lambda>r. rx_int r i ''controlword'')) (\<lambda>cw.
       set_rx i ''controlword'' (if enabled then cw OR 0x10 else cw AND NOT 0x10)))"

definition MOTION_MODES :: "string list" where
  "MOTION_MODES = [''pp'', ''pv'', ''jog'', ''csp'']"

definition restore_mode ::
  "('d axis_runtime, exn, unit) op \<Rightarrow> 'd device_update \<Rightarrow> (int \<rightharpoonup> string) \<Rightarrow> int
   \<Rightarrow> ('d motion_state, exn, unit) op" where
  "restore_mode exch upd original i =
     (case original i of
        Some mode \<Rightarrow>
          if mode \<in> set MOTION_MODES then
            bindS (configure_motion_mode exch upd mode i) (\<lambda>_. set_motion_mode i mode)
          else retS ()
      | None \<Rightarrow> retS ())"

definition finish_homing ::
  "('d axis_runtime, exn, unit) op \<Rightarrow> 'd device_update \<Rightarrow> string \<Rightarrow> string \<Rightarrow> ('d motion_state, exn, unit) op" where
  "finish_homing exch upd result message st =
     (let axes = hm_axes (homing st); original = hm_original_modes (homing st)
      in if axes = [] then (Inr (), st)
         else
           bindS (on_rt (set_homing_start_bit axes False)) (\<lambda>_.
           bindS (on_rt (exchange exch 2)) (\<lambda>_.
           bindS (forS axes (restore_mode exch upd original)) (\<lambda>_.
           bindS update_motion_mode_summary (\<lambda>_.
             modifyS (\<lambda>s. s\<lparr>homing := (homing s)\<lparr>hm_active := False, hm_state := result,
                                           hm_message := message\<rparr>\<rparr>))))) st)"

definition stop_active_homing ::
  "('d axis_runtime, exn, unit) op \<Rightarrow> 'd device_update \<Rightarrow> string \<Rightarrow> ('d motion_state, exn, unit) op" where
  "stop_active_homing exch upd message st =
     (if hm_active (homing st) then finish_homing exch upd ''stopped'' message st else (Inr (), st))"

definition reject_homing :: "string \<Rightarrow> exn \<Rightarrow> ('d motion_state, exn, 'a) op" where
  "reject_homing message e =
     bindS (modifyS (\<lambda>s. s\<lparr>homing := (inactive_homing_state ''rejected'')\<lparr>hm_message := message\<rparr>\<rparr>))
       (\<lambda>_. raiseS e)"

text \<open>\<open>etext e\<close> is \<open>str(e)\<close> of an exception and \<open>disabled_text axes\<close> the text of the rejection.\<close>

definition homing_axes ::
  "(exn \<Rightarrow> string) \<Rightarrow> pydict \<Rightarrow> ('d motion_state, exn, int list) op" where
  "homing_axes etext message =
     catchS (ask (\<lambda>r. selected_axes r message))
       (\<lambda>e. if isinstance e CTypeError \<or> isinstance e CValueError
             then reject_homing (etext e) (InvalidArgumentException ''axis'' ''is invalid'' None)
             else raiseS e)"

definition enter_homing_mode ::
  "('d axis_runtime, exn, unit) op \<Rightarrow> 'd device_update \<Rightarrow> int \<Rightarrow> ('d motion_state, exn, unit) op" where
  "enter_homing_mode exch upd i =
     bindS (op_configure_mode_code exch upd ''homing'' i) (\<lambda>_. set_motion_mode i ''homing'')"

definition referenced_map :: "int list \<Rightarrow> 'd axis_runtime \<Rightarrow> (int \<rightharpoonup> bool) res" where
  "referenced_map axes r =
     bindE (mapE (status_has r 15) axes) (\<lambda>bs. Inr (map_of (zip axes bs)))"

definition original_modes :: "int list \<Rightarrow> 'd motion_state \<Rightarrow> (int \<rightharpoonup> string) res" where
  "original_modes axes st =
     bindE (mapE (py_nth (motion_modes st)) axes) (\<lambda>ms. Inr (map_of (zip axes ms)))"

definition begin_homing ::
  "real \<Rightarrow> int list \<Rightarrow> (int \<rightharpoonup> string) \<Rightarrow> (int \<rightharpoonup> bool) \<Rightarrow> ('d motion_state, exn, unit) op" where
  "begin_homing now axes modes referenced =
     modifyS (\<lambda>s. s\<lparr>homing := \<lparr>hm_active = True, hm_state = ''running'', hm_axes = axes,
        hm_start_time = Some now, hm_message = [], hm_original_modes = modes,
        hm_initial_referenced = referenced,
        hm_referenced_seen_low = (\<lambda>i. map_option Not (referenced i))\<rparr>\<rparr>)"

definition start_homing ::
  "(exn \<Rightarrow> string) \<Rightarrow> (int list \<Rightarrow> string) \<Rightarrow> ('d axis_runtime, exn, unit) op \<Rightarrow> 'd device_update \<Rightarrow> real
   \<Rightarrow> string \<Rightarrow> pydict \<Rightarrow> ('d motion_state, exn, unit) op" where
  "start_homing etext disabled_text exch upd now cmd message =
     bindS (homing_axes etext message) (\<lambda>axes.
     bindS (ask (\<lambda>r. disabled_operation_axes r axes)) (\<lambda>disabled.
       if disabled \<noteq> [] then
         reject_homing (disabled_text disabled) (InvalidStateException (Some cmd) (Some ''axis_disabled''))
       else
         bindS (liftE (original_modes axes)) (\<lambda>modes.
         bindS (forS axes (enter_homing_mode exch upd)) (\<lambda>_.
         bindS update_motion_mode_summary (\<lambda>_.
         bindS (on_rt (set_homing_start_bit axes False)) (\<lambda>_.
         bindS (on_rt (exchange exch 2)) (\<lambda>_.
         bindS (ask (referenced_map axes)) (\<lambda>referenced.
         bindS (on_rt (set_homing_start_bit axes True)) (\<lambda>_.
         bindS (on_rt (exchange exch 2)) (\<lambda>_.
           begin_homing now axes modes referenced))))))))))"

definition homing_complete :: "real \<Rightarrow> homing_axis_state list \<Rightarrow> homing_state \<Rightarrow> bool" where
  "homing_complete now statuses h \<longleftrightarrow>
     (let started = (case hm_start_time h of None \<Rightarrow> now | Some t \<Rightarrow> if t = 0 then now else t)
      in statuses \<noteq> [] \<and> 5 / 100 \<le> now - started \<and>
         list_all (\<lambda>s. ha_referenced s \<and> hm_referenced_seen_low h (ha_axis s) = Some True) statuses)"

definition mark_seen_low :: "homing_axis_state list \<Rightarrow> homing_state \<Rightarrow> homing_state" where
  "mark_seen_low statuses h =
     h\<lparr>hm_referenced_seen_low :=
         (\<lambda>i. if list_ex (\<lambda>s. ha_axis s = i \<and> \<not> ha_referenced s) statuses then Some True
              else hm_referenced_seen_low h i)\<rparr>"

definition update_homing_state ::
  "('d axis_runtime, exn, unit) op \<Rightarrow> 'd device_update \<Rightarrow> real \<Rightarrow> ('d motion_state, exn, unit) op" where
  "update_homing_state exch upd now st =
     (if \<not> hm_active (homing st) then (Inr (), st)
      else
        bindS (ask (\<lambda>r. mapE (homing_axis_status r) (hm_axes (homing st)))) (\<lambda>statuses.
        bindS (modifyS (\<lambda>s. s\<lparr>homing := mark_seen_low statuses (homing s)\<rparr>)) (\<lambda>_ s.
          if list_ex ha_homing_error statuses
          then finish_homing exch upd ''error'' ''Homing error bit is set.'' s
          else if homing_complete now statuses (homing s)
          then finish_homing exch upd ''complete'' ''Axis referenced.'' s
          else (Inr (), s))) st)"

subsection \<open>Stopping, enabling, disabling\<close>

definition request_axis_halt :: "int \<Rightarrow> ('d axis_runtime, exn, unit) op" where
  "request_axis_halt i =
     bindS (liftE (\<lambda>r. rx_int r i ''controlword'')) (\<lambda>cw. set_rx i ''controlword'' (cw OR 0x0100))"

definition set_trajectory_inactive :: "string \<Rightarrow> ('d motion_state, exn, unit) op" where
  "set_trajectory_inactive result = modifyS (\<lambda>s. s\<lparr>trajectory := inactive_trajectory_state result\<rparr>)"

fun hold_each :: "int list \<Rightarrow> real list \<Rightarrow> real list \<Rightarrow> ('d motion_state, exn, real list) op" where
  "hold_each [] actual positions = retS positions"
| "hold_each (i # rest) actual positions =
     bindS (liftE (\<lambda>_. assign_positions [i] actual positions)) (\<lambda>positions'.
     bindS (hold_axis_at_actual_position i) (\<lambda>_. hold_each rest actual positions'))"

definition hold_positions :: "real list \<Rightarrow> ('d motion_state, exn, unit) op" where
  "hold_positions positions =
     bindS (modifyS (\<lambda>s. s\<lparr>target_positions := positions\<rparr>)) (\<lambda>_.
     bindS (on_rt (rt_set_target_positions positions)) (\<lambda>_. on_rt rt_sync_to_actual))"

definition stop_axis_motion ::
  "('d axis_runtime, exn, unit) op \<Rightarrow> 'd device_update \<Rightarrow> string \<Rightarrow> int list \<Rightarrow> int
   \<Rightarrow> ('d motion_state, exn, unit) op" where
  "stop_axis_motion exch upd cmd enabled i =
     (if i \<notin> set enabled then retS ()
      else
        bindS (liftE (\<lambda>st. py_nth (motion_modes st) i)) (\<lambda>mode.
          if mode = ''pp'' then on_rt (request_axis_halt i)
          else if mode = ''pv'' then command_profile_velocities exch upd [i] [0] cmd
          else if mode = ''csp'' then on_rt (request_axis_halt i)
          else if mode = ''jog'' then on_rt (set_rx i ''controlword'' 0x000F)
          else retS ()))"

definition stop_axes ::
  "('d axis_runtime, exn, unit) op \<Rightarrow> 'd device_update \<Rightarrow> string \<Rightarrow> pydict \<Rightarrow> ('d motion_state, exn, unit) op" where
  "stop_axes exch upd cmd message =
     bindS (rejecting cmd (ask (\<lambda>r. selected_axes r message))) (\<lambda>axes.
     bindS (reject_if_any_axis_disabled axes cmd) (\<lambda>_.
     bindS (stop_active_homing exch upd ''Homing stopped by axis/stop.'') (\<lambda>_.
     bindS (set_trajectory_inactive ''axis_stop'') (\<lambda>_.
     bindS (liftE (\<lambda>st. Inr (target_positions st))) (\<lambda>positions.
     bindS (ask actual_positions) (\<lambda>actual.
     bindS (hold_each axes actual positions) (\<lambda>held.
     bindS (hold_positions held) (\<lambda>_.
     bindS (ask (\<lambda>r. operation_enabled_axes r axes)) (\<lambda>enabled.
       forS axes (stop_axis_motion exch upd cmd enabled))))))))))"

definition write_controlwords :: "(int \<times> int) list \<Rightarrow> (int \<Rightarrow> int) \<Rightarrow> ('d axis_runtime, exn, unit) op" where
  "write_controlwords originals f = forS originals (\<lambda>(i, cw). set_rx i ''controlword'' (f cw))"

definition reset_faults ::
  "('d axis_runtime, exn, unit) op \<Rightarrow> int list \<Rightarrow> ('d axis_runtime, exn, unit) op" where
  "reset_faults exch axes =
     bindS (liftE (\<lambda>r. mapE (\<lambda>i. rx_int r i ''controlword'') axes)) (\<lambda>cws.
     let originals = zip axes cws in
     bindS (write_controlwords originals (\<lambda>cw. cw AND NOT 0x0080)) (\<lambda>_.
     bindS (exchange exch 2) (\<lambda>_.
     bindS (write_controlwords originals (\<lambda>cw. cw OR 0x0080)) (\<lambda>_.
     bindS (exchange exch 2) (\<lambda>_.
     bindS (write_controlwords originals (\<lambda>cw. cw AND NOT 0x0080)) (\<lambda>_.
     bindS (exchange exch 2) (\<lambda>_.
     bindS (set_controlwords axes 0x0006) (\<lambda>_.
     bindS (exchange exch 5) (\<lambda>_.
     bindS (set_controlwords axes 0x0007) (\<lambda>_. exchange exch 5))))))))))"

definition on_session :: "(ServerSession, exn, 'a) op \<Rightarrow> ('s server_state_scheme, exn, 'a) op" where
  "on_session f st =
     (case server_session st of
        None \<Rightarrow> (Inl RuntimeError, st)
      | Some s \<Rightarrow> (case f s of (x, s') \<Rightarrow> (x, st\<lparr>server_session := Some s'\<rparr>)))"

definition on_manager :: "(DiagnosticManager, exn, 'a) op \<Rightarrow> (ServerSession, exn, 'a) op" where
  "on_manager f s =
     (case f (diagnostic_manager s) of (x, m) \<Rightarrow> (x, s\<lparr>diagnostic_manager := m\<rparr>))"

fun acknowledge_axis_faults :: "int \<Rightarrow> int list \<Rightarrow> (ServerSession, exn, nat) op" where
  "acknowledge_axis_faults now [] = retS 0"
| "acknowledge_axis_faults now (i # axes) =
     bindS (liftE (\<lambda>_. mk_source AXIS i)) (\<lambda>src.
     bindS (on_manager (acknowledge_faults (Some src) None now)) (\<lambda>acked.
     bindS (acknowledge_axis_faults now axes) (\<lambda>n. retS (length acked + n))))"

definition fault_reset_axes ::
  "('d axis_runtime, exn, unit) op \<Rightarrow> int \<Rightarrow> string \<Rightarrow> pydict \<Rightarrow> ('d motion_state, exn, handled) op" where
  "fault_reset_axes exch now cmd message =
     bindS (rejecting cmd (ask (\<lambda>r. selected_axes r message))) (\<lambda>axes.
     bindS (on_rt (reset_faults exch axes)) (\<lambda>_.
     bindS (on_session (acknowledge_axis_faults now axes)) (\<lambda>n.
       retS (HData (PDict [(''axes'', PList (map PInt axes)), (''fault_count'', PInt (int n)),
                           (''message'', PStr ''Axis Fault Reset completed.'')])))))"

definition set_axis_controlword :: "int \<Rightarrow> int \<Rightarrow> ('d axis_runtime, exn, unit) op" where
  "set_axis_controlword i cw =
     catchS (set_rx i ''controlword'' cw)
       (\<lambda>e. if isinstance e COSError \<or> isinstance e CAttributeError \<or> isinstance e CTypeError
                \<or> isinstance e CValueError
             then raiseS (DeviceAccessException (Some ''axis_controlword_write'')) else raiseS e)"

definition set_axes_controlword ::
  "int list \<Rightarrow> int \<Rightarrow> ('d axis_runtime, exn, int target_results) op" where
  "set_axes_controlword axes cw = collect_target_results axes (\<lambda>i. set_axis_controlword i cw)"

text \<open>\<open>except MotionServerException: raise_operation_rejected\<close>, then the rejection of a partial
  result.\<close>

definition rejecting_partial :: "string \<Rightarrow> ('s, exn, 't target_results) op \<Rightarrow> ('s, exn, unit) op" where
  "rejecting_partial cmd m =
     bindS (catchS m (\<lambda>e. raiseS (if isinstance e CMotionServer then OperationException (Some cmd) else e)))
       (\<lambda>res. case res of Succeeded _ \<Rightarrow> retS ()
              | PartialFailure _ _ \<Rightarrow> raiseS (OperationException (Some cmd)))"

definition enable ::
  "('d axis_runtime, exn, unit) op \<Rightarrow> ('d motion_state \<Rightarrow> pyval res) \<Rightarrow> string \<Rightarrow> pydict
   \<Rightarrow> ('d motion_state, exn, handled) op" where
  "enable exch status_data cmd message =
     bindS (rejecting cmd (ask (\<lambda>r. selected_axes r message))) (\<lambda>axes.
     bindS (rejecting_partial cmd (on_rt (set_axes_controlword axes 0x000F))) (\<lambda>_.
     bindS (on_rt (exchange exch 3)) (\<lambda>_.
     bindS (liftE status_data) (\<lambda>v. retS (HData v)))))"

definition disable_axis :: "int \<Rightarrow> ('d motion_state, exn, unit) op" where
  "disable_axis i =
     bindS (hold_axis_at_actual_position i) (\<lambda>_. on_rt (set_axis_controlword i 0x0007))"

definition stop_trajectory_on :: "int list \<Rightarrow> ('d motion_state, exn, unit) op" where
  "stop_trajectory_on axes st =
     (if tj_active (trajectory st) \<and> list_ex (\<lambda>i. i \<in> set (tj_axes (trajectory st))) axes
      then set_trajectory_inactive ''axis_disable'' st else (Inr (), st))"

definition stop_homing_on ::
  "('d axis_runtime, exn, unit) op \<Rightarrow> 'd device_update \<Rightarrow> int list \<Rightarrow> ('d motion_state, exn, unit) op" where
  "stop_homing_on exch upd axes st =
     (if hm_active (homing st) \<and> list_ex (\<lambda>i. i \<in> set (hm_axes (homing st))) axes
      then finish_homing exch upd ''stopped'' ''Homing stopped by axis/disable.'' st else (Inr (), st))"

definition disable ::
  "('d axis_runtime, exn, unit) op \<Rightarrow> 'd device_update \<Rightarrow> ('d motion_state \<Rightarrow> pyval res) \<Rightarrow> string \<Rightarrow> pydict
   \<Rightarrow> ('d motion_state, exn, handled) op" where
  "disable exch upd status_data cmd message =
     bindS (rejecting cmd (ask (\<lambda>r. selected_axes r message))) (\<lambda>axes.
     bindS (stop_trajectory_on axes) (\<lambda>_.
     bindS (stop_homing_on exch upd axes) (\<lambda>_.
     bindS (rejecting_partial cmd (collect_target_results axes disable_axis)) (\<lambda>_.
     bindS set_controller_targets (\<lambda>_.
     bindS (on_rt (exchange exch 3)) (\<lambda>_.
     bindS (liftE status_data) (\<lambda>v. retS (HData v))))))))"

subsection \<open>Manual control word and mode\<close>

definition is_operation_enabled_controlword :: "int \<Rightarrow> bool" where
  "is_operation_enabled_controlword cw \<longleftrightarrow> cw AND 0x008F \<in> {0x000F, 0x001F}"

text \<open>\<open>int(str(value), 0)\<close> of a decoded value; \<open>None\<close> is the \<open>ValueError\<close>.\<close>

definition controlword_value :: "pyval option \<Rightarrow> int option" where
  "controlword_value v =
     (case v of
        Some (PInt i) \<Rightarrow> Some i
      | Some (PStr s) \<Rightarrow> py_int_text base0_value s
      | _ \<Rightarrow> None)"

text \<open>The axes a request with an optional \<open>axis\<close> names; \<open>None\<close> is an axis that the handlers
  refuse.\<close>

definition optional_axis :: "pydict \<Rightarrow> 'd axis_runtime \<Rightarrow> int list option res" where
  "optional_axis message r =
     (let v = (case map_of message ''axis'' of Some a \<Rightarrow> a | None \<Rightarrow> PNone)
      in if v = PNone then Inr (Some (all_axes r))
         else case int_of_value v of
           Inl e \<Rightarrow> if isinstance e CTypeError \<or> isinstance e CValueError then Inr None else Inl e
         | Inr i \<Rightarrow> if i < 0 \<or> i \<ge> int (axis_total r) then Inr None else Inr (Some [i]))"

definition set_controlword :: "pydict \<Rightarrow> ('d motion_state, exn, unit) op" where
  "set_controlword message =
     (case controlword_value (map_of message ''controlword'') of
        None \<Rightarrow> retS ()
      | Some cw \<Rightarrow>
          bindS (ask (optional_axis message)) (\<lambda>selected.
            case selected of
              None \<Rightarrow> retS ()
            | Some axes \<Rightarrow>
                bindS (on_rt (set_controlwords axes cw)) (\<lambda>_.
                  if is_operation_enabled_controlword cw then retS ()
                  else bindS (forS axes hold_axis_at_actual_position) (\<lambda>_. set_controller_targets))))"

text \<open>One axis of \<open>set_mode\<close>: whether the mode was changed. A failed change puts the previous mode
  back into the process image.\<close>

definition change_mode ::
  "('d axis_runtime, exn, unit) op \<Rightarrow> 'd device_update \<Rightarrow> string \<Rightarrow> int \<Rightarrow> ('d motion_state, exn, bool) op" where
  "change_mode exch upd mode i =
     bindS (liftE (\<lambda>st. py_nth (motion_modes st) i)) (\<lambda>previous st.
       case configure_motion_mode exch upd mode i st of
         (Inr _, st1) \<Rightarrow> bindS (set_motion_mode i mode) (\<lambda>_. retS True) st1
       | (Inl e, st1) \<Rightarrow>
           bindS (liftE (\<lambda>_. mode_code previous)) (\<lambda>c.
           bindS (on_rt (set_rx i ''mode_of_operation'' c)) (\<lambda>_. retS False)) st1)"

fun change_modes ::
  "('d axis_runtime, exn, unit) op \<Rightarrow> 'd device_update \<Rightarrow> string \<Rightarrow> int list \<Rightarrow> ('d motion_state, exn, bool) op" where
  "change_modes exch upd mode [] = retS True"
| "change_modes exch upd mode (i # axes) =
     bindS (change_mode exch upd mode i) (\<lambda>ok.
     bindS (change_modes exch upd mode axes) (\<lambda>rest. retS (ok \<and> rest)))"

definition apply_mode ::
  "('d axis_runtime, exn, unit) op \<Rightarrow> 'd device_update \<Rightarrow> string \<Rightarrow> string \<Rightarrow> int list
   \<Rightarrow> ('d motion_state, exn, unit) op" where
  "apply_mode exch upd cmd mode axes =
     bindS (if mode = ''pv'' then reject_if_pv_not_allowed axes cmd else retS ()) (\<lambda>_.
     bindS (rejecting cmd (ask (\<lambda>r. mapE (require_pdo_fields_for_mode r mode) axes))) (\<lambda>_.
     bindS (forS axes hold_axis_at_actual_position) (\<lambda>_.
     bindS set_controller_targets (\<lambda>_.
     bindS (change_modes exch upd mode axes) (\<lambda>ok.
       if ok then update_motion_mode_summary else raiseS (OperationException (Some cmd)))))))"

definition set_mode ::
  "(pyval \<Rightarrow> string) \<Rightarrow> ('d axis_runtime, exn, unit) op \<Rightarrow> 'd device_update \<Rightarrow> string \<Rightarrow> pydict
   \<Rightarrow> ('d motion_state, exn, unit) op" where
  "set_mode pstr exch upd cmd message =
     (let mode = request_text pstr message ''mode'' []
      in if mode \<notin> set MOTION_MODES then raiseS (OperationException (Some cmd))
         else
           bindS (ask (optional_axis message)) (\<lambda>selected.
             case selected of
               None \<Rightarrow> raiseS (OperationException (Some cmd))
             | Some axes \<Rightarrow>
                 bindS (liftE (\<lambda>st. mapE (py_nth (motion_modes st)) axes)) (\<lambda>modes.
                   if list_all (\<lambda>m. m = mode) modes then retS ()
                   else apply_mode exch upd cmd mode axes)))"

subsection \<open>Fault resets of the server and the bus, restart request\<close>

definition global_fault :: "DiagnosticManager \<Rightarrow> bool res" where
  "global_fault m =
     bindE (has_active_fault m None (Some SERVER)) (\<lambda>a.
       if a then Inr True else has_active_fault m None (Some BUS))"

definition refresh_global_fault_state :: "(ServerSession, exn, unit) op" where
  "refresh_global_fault_state =
     bindS (liftE (\<lambda>s. global_fault (diagnostic_manager s))) (\<lambda>faulted s.
       if \<not> faulted \<and> runtime s \<noteq> None \<and> runtime_state s = RFAULT
       then set_runtime_state RNORMAL s else (Inr (), s))"

fun source_value :: "DiagnosticSourceType \<Rightarrow> string" where
  "source_value SERVER = ''server''"
| "source_value BUS = ''bus''"
| "source_value AXIS = ''axis''"
| "source_value IO = ''io''"

fun source_title :: "DiagnosticSourceType \<Rightarrow> string" where
  "source_title SERVER = ''Server''"
| "source_title BUS = ''Bus''"
| "source_title AXIS = ''Axis''"
| "source_title IO = ''Io''"

definition fault_reset_source ::
  "int \<Rightarrow> DiagnosticSourceType \<Rightarrow> ('s server_state_scheme, exn, handled) op" where
  "fault_reset_source now ty =
     bindS (on_session
       (bindS (liftE (\<lambda>_. mk_source ty 0)) (\<lambda>src.
        bindS (on_manager (acknowledge_faults (Some src) None now)) (\<lambda>acked.
        bindS refresh_global_fault_state (\<lambda>_. retS (length acked)))))) (\<lambda>n.
       retS (HData (PDict [(''source'', PStr (source_value ty)), (''fault_count'', PInt (int n)),
         (''message'', PStr (source_title ty @ '' Fault Reset completed.''))])))"

definition request_server_restart :: "('d motion_state, exn, handled) op" where
  "request_server_restart =
     bindS (modifyS (\<lambda>s. s\<lparr>server_restart_requested := True\<rparr>)) (\<lambda>_.
       retS (HData (PDict [(''message'', PStr ''Motion Server restart accepted. Process will restart.'')])))"

end
