(* ===== verification/Axis_Settings.thy ===== *)
theory Axis_Settings
  imports Motion_Handlers
begin

section \<open>Settings of the axes\<close>

text \<open>
  Models the commands of \<^verbatim>\<open>motion_server/handlers/command/axis_settings.py\<close> that write settings to a
  drive (motion limits, profile, software position limits); \<open>set_mode\<close> is in \<^verbatim>\<open>Motion_Handlers\<close>.
  A setting is written, read back, and the values read are stored in the parameter cache, also
  when the write failed; the failure is raised afterwards. The attribute
  \<open>motion_server_motion_limits\<close> of a slave, which nothing reads, is left out. A drive that
  reports an infinite or undefined velocity limit is not modelled (\<open>finite_value\<close> refuses it).
\<close>

subsection \<open>Writing and reading back\<close>

definition PROFILE_ACCESS_ERRORS :: "exn_class list" where
  "PROFILE_ACCESS_ERRORS =
     [CMotionServer, COSError, CAttributeError, CTypeError, CValueError, COverflowError, CRuntimeError]"

definition profile_access_error :: "exn \<Rightarrow> bool" where
  "profile_access_error e \<longleftrightarrow> list_ex (isinstance e) PROFILE_ACCESS_ERRORS"

text \<open>The result is what was read and the error of the write, if there was one. An error of the
  reading is raised unless the write had failed before.\<close>

definition write_and_read_back ::
  "('s, exn, unit) op \<Rightarrow> ('s, exn, 'a) op \<Rightarrow> ('s, exn, 'a \<times> exn option) op" where
  "write_and_read_back wr rd s =
     (case wr s of
        (Inr _, s1) \<Rightarrow> bindS rd (\<lambda>a. retS (a, None)) s1
      | (Inl e, s1) \<Rightarrow>
          if profile_access_error e then
            catchS (bindS rd (\<lambda>a. retS (a, Some e)))
              (\<lambda>e'. raiseS (if profile_access_error e' then e else e')) s1
          else (Inl e, s1))"

definition raise_if :: "exn option \<Rightarrow> ('s, exn, unit) op" where
  "raise_if err = (case err of None \<Rightarrow> retS () | Some e \<Rightarrow> raiseS e)"

definition on_drive :: "int \<Rightarrow> (nat \<Rightarrow> ('d MockMaster, exn, 'a) op) \<Rightarrow> ('d axis_runtime, exn, 'a) op" where
  "on_drive i f r =
     (case py_nth (axis_bindings r) i of Inl e \<Rightarrow> (Inl e, r) | Inr k \<Rightarrow> on_bus_op (f k) r)"

definition store_axis_parameters :: "int \<Rightarrow> int \<Rightarrow> axis_field_value list \<Rightarrow> ('d axis_runtime, exn, unit) op" where
  "store_axis_parameters i now fs r =
     (case update_axis_parameters (nat i) now fs (axis_parameters r) of
        (x, ac) \<Rightarrow> (x, r\<lparr>axis_parameters := ac\<rparr>))"

definition axis_parameter_values :: "'d axis_runtime \<Rightarrow> int \<Rightarrow> AxisParameterValues res" where
  "axis_parameter_values r i = py_nth (ap_axes (axis_parameters r)) i"

text \<open>\<open>message.get(a, message.get(b, ... default))\<close>: the value of the first key the request has.\<close>

fun first_given :: "pydict \<Rightarrow> string list \<Rightarrow> real \<Rightarrow> real res" where
  "first_given message [] d = Inr d"
| "first_given message (k # ks) d =
     (case map_of message k of Some v \<Rightarrow> float_of_value v | None \<Rightarrow> first_given message ks d)"

subsection \<open>Motion limits\<close>

definition finite_value :: "pyval \<Rightarrow> real res" where
  "finite_value v = (case v of PFloat x \<Rightarrow> Inr x | _ \<Rightarrow> Inl ValueError)"

definition drive_motion_limits ::
  "(pyval \<Rightarrow> string) \<Rightarrow> nat \<Rightarrow> 'd MockMaster \<Rightarrow> real list res" where
  "drive_motion_limits pstr k m = bindE (read_motion_limits pstr k m) (mapE finite_value)"

definition values_drive_to_api ::
  "unit_converter \<Rightarrow> int \<Rightarrow> string list \<Rightarrow> real list \<Rightarrow> real list res" where
  "values_drive_to_api c i kinds values =
     mapE (\<lambda>(x, kind). motion_drive_to_api c i x kind) (zip values kinds)"

definition motion_limits_drive_to_api :: "unit_converter \<Rightarrow> int \<Rightarrow> real list \<Rightarrow> real list res" where
  "motion_limits_drive_to_api c i values =
     values_drive_to_api c i [''velocity'', ''velocity'', ''acceleration'', ''deceleration''] values"

definition profile_settings_drive_to_api :: "unit_converter \<Rightarrow> int \<Rightarrow> real list \<Rightarrow> real list res" where
  "profile_settings_drive_to_api c i values =
     values_drive_to_api c i [''velocity'', ''acceleration'', ''deceleration'', ''jerk''] values"

text \<open>The motion controller plans with the limits the drive reported.\<close>

definition apply_motion_limits :: "int \<Rightarrow> real list \<Rightarrow> ('d axis_runtime, exn, unit) op" where
  "apply_motion_limits i readback =
     bindS (liftE (\<lambda>r. motion_limits_drive_to_api (converter r) i readback)) (\<lambda>api.
     bindS (liftE (\<lambda>r. py_nth (motion_limits (controller r)) i)) (\<lambda>l.
     bindS (liftE (\<lambda>_. mapE (py_nth api) [0, 1, 2, 3])) (\<lambda>xs.
       on_controller (set_axis_motion_limits i
         \<lparr>max_velocity = max \<bar>xs ! 0\<bar> \<bar>xs ! 1\<bar>, acceleration = xs ! 2, deceleration = xs ! 3,
          jerk = jerk l\<rparr>))))"

definition update_axis_motion_limits ::
  "(pyval \<Rightarrow> string) \<Rightarrow> 'd device_update \<Rightarrow> int \<Rightarrow> int \<Rightarrow> real \<Rightarrow> real \<Rightarrow> real \<Rightarrow> real
   \<Rightarrow> ('d axis_runtime, exn, unit) op" where
  "update_axis_motion_limits pstr upd now i positive negative acc dec =
     bindS (write_and_read_back
       (on_drive i (\<lambda>k. write_motion_limits upd k positive negative acc dec))
       (on_drive i (\<lambda>k. liftE (drive_motion_limits pstr k)))) (\<lambda>(readback, write_error).
     bindS (store_axis_parameters i now [MotionLimits readback]) (\<lambda>_.
     bindS (apply_motion_limits i readback) (\<lambda>_. raise_if write_error)))"

definition requested_motion_limits ::
  "pydict \<Rightarrow> int \<Rightarrow> 'd axis_runtime \<Rightarrow> (real \<times> real \<times> real \<times> real) res" where
  "requested_motion_limits message i r =
     (let requested = (\<lambda>keys current kind.
            bindE (motion_drive_to_api (converter r) i current kind) (\<lambda>d.
            bindE (first_given message keys d) (\<lambda>x. motion_api_to_drive (converter r) i x kind)))
      in bindE (axis_parameter_values r i) (\<lambda>v.
         bindE (mapE (py_nth (ap_motion_limits v)) [0, 1, 2, 3]) (\<lambda>current.
         bindE (requested [''positive_velocity_limit'', ''max_profile_velocity_positive'',
                  ''max_profile_velocity''] (current ! 0) ''velocity'') (\<lambda>positive.
         bindE (requested [''negative_velocity_limit'', ''max_profile_velocity_negative'']
                  (current ! 1) ''velocity'') (\<lambda>negative.
         bindE (requested [''max_acceleration'', ''acceleration''] (current ! 2) ''acceleration'') (\<lambda>acc.
         bindE (requested [''max_deceleration'', ''deceleration''] (current ! 3) ''deceleration'') (\<lambda>dec.
           Inr (positive, negative, acc, dec))))))))"

definition set_motion_limits ::
  "(pyval \<Rightarrow> string) \<Rightarrow> 'd device_update \<Rightarrow> int \<Rightarrow> string \<Rightarrow> pydict \<Rightarrow> ('d axis_runtime, exn, unit) op" where
  "set_motion_limits pstr upd now cmd message =
     rejecting cmd
       (bindS (liftE (\<lambda>r. selected_axes r message)) (\<lambda>axes.
        forS axes (\<lambda>i.
          bindS (liftE (requested_motion_limits message i)) (\<lambda>(positive, negative, acc, dec).
            update_axis_motion_limits pstr upd now i positive negative acc dec))))"

subsection \<open>Profile settings\<close>

text \<open>\<open>profile_velocity_is_pdo_mapped\<close> is \<open>rx_has_field\<close>.\<close>

definition synchronize_profile_velocity_command :: "int \<Rightarrow> real \<Rightarrow> ('d axis_runtime, exn, unit) op" where
  "synchronize_profile_velocity_command i velocity =
     bindS (liftE (\<lambda>r. rx_has_field r i ''profile_velocity'')) (\<lambda>mapped.
       if mapped then bindS (liftE (\<lambda>_. require_uint32 velocity)) (set_rx i ''profile_velocity'')
       else retS ())"

definition write_drive_uint32 ::
  "'d device_update \<Rightarrow> int \<Rightarrow> int \<Rightarrow> real \<Rightarrow> ('d axis_runtime, exn, unit) op" where
  "write_drive_uint32 upd i index x =
     on_drive i (\<lambda>k. sdo_write_int F_I upd (int k) index 0 (max 0 (py_int x)))"

definition write_profile_settings_with_pdo_velocity ::
  "'d device_update \<Rightarrow> int \<Rightarrow> real \<Rightarrow> real \<Rightarrow> real \<Rightarrow> ('d axis_runtime, exn, unit) op" where
  "write_profile_settings_with_pdo_velocity upd i velocity acc dec =
     bindS (write_drive_uint32 upd i 0x6081 velocity) (\<lambda>_.
     bindS (synchronize_profile_velocity_command i velocity) (\<lambda>_.
     bindS (write_drive_uint32 upd i 0x6083 acc) (\<lambda>_. write_drive_uint32 upd i 0x6084 dec)))"

definition write_profile ::
  "'d device_update \<Rightarrow> bool \<Rightarrow> bool \<Rightarrow> int \<Rightarrow> real \<Rightarrow> real \<Rightarrow> real \<Rightarrow> real option
   \<Rightarrow> ('d axis_runtime, exn, unit) op" where
  "write_profile upd is_pv mapped i velocity acc dec jerk_value =
     bindS (if is_pv then
              bindS (write_drive_uint32 upd i 0x6083 acc) (\<lambda>_. write_drive_uint32 upd i 0x6084 dec)
            else if mapped then write_profile_settings_with_pdo_velocity upd i velocity acc dec
            else on_drive i (\<lambda>k. write_profile_settings upd k velocity acc dec)) (\<lambda>_.
       case jerk_value of None \<Rightarrow> retS ()
       | Some j \<Rightarrow> on_drive i (\<lambda>k. write_profile_jerk upd k j))"

definition update_axis_profile_settings ::
  "(pyval \<Rightarrow> string) \<Rightarrow> 'd device_update \<Rightarrow> int \<Rightarrow> bool \<Rightarrow> int \<Rightarrow> real \<Rightarrow> real \<Rightarrow> real \<Rightarrow> real option
   \<Rightarrow> ('d axis_runtime, exn, unit) op" where
  "update_axis_profile_settings pstr upd now is_pv i velocity acc dec jerk_value =
     bindS (liftE (\<lambda>r. bindE (axis_parameter_values r i) (\<lambda>v. py_nth (ap_profile_settings v) 3))) (\<lambda>_.
     bindS (if is_pv then retS False else liftE (\<lambda>r. rx_has_field r i ''profile_velocity'')) (\<lambda>mapped.
     bindS (write_and_read_back
       (write_profile upd is_pv mapped i velocity acc dec jerk_value)
       (on_drive i (\<lambda>k. liftE (read_profile_settings pstr k)))) (\<lambda>(values, write_error).
     let readback = (if mapped then values[0 := velocity] else values) in
     bindS (store_axis_parameters i now [ProfileSettings readback]) (\<lambda>_.
     bindS (if is_pv then retS () else synchronize_profile_velocity_command i (readback ! 0)) (\<lambda>_.
       raise_if write_error)))))"

definition requested_profile ::
  "pydict \<Rightarrow> bool \<Rightarrow> int \<Rightarrow> 'd axis_runtime \<Rightarrow> (real \<times> real \<times> real \<times> real option) res" where
  "requested_profile message is_pv i r =
     (let to_api = motion_drive_to_api (converter r) i; to_drive = motion_api_to_drive (converter r) i
      in bindE (axis_parameter_values r i) (\<lambda>v.
         bindE (mapE (py_nth (ap_profile_settings v)) [0, 1, 2]) (\<lambda>current.
         bindE (to_api (current ! 0) ''velocity'') (\<lambda>v0.
         bindE (first_given message [''profile_velocity'', ''velocity''] v0) (\<lambda>v1.
         let velocity = (if is_pv then v0 else v1) in
         bindE (to_api (current ! 1) ''acceleration'') (\<lambda>a0.
         bindE (first_given message [''profile_acceleration'', ''acceleration''] a0) (\<lambda>acc.
         bindE (to_api (current ! 2) ''deceleration'') (\<lambda>d0.
         bindE (first_given message [''profile_deceleration'', ''deceleration''] d0) (\<lambda>dec.
         bindE (if \<not> is_pv \<and> (map_of message ''profile_jerk'' \<noteq> None \<or> map_of message ''jerk'' \<noteq> None)
                then bindE (first_given message [''profile_jerk'', ''jerk''] 0) (\<lambda>j. Inr (Some j))
                else Inr None) (\<lambda>jerk_value.
         bindE (to_drive velocity ''velocity'') (\<lambda>velocity'.
         bindE (to_drive acc ''acceleration'') (\<lambda>acc'.
         bindE (to_drive dec ''deceleration'') (\<lambda>dec'.
         bindE (case jerk_value of None \<Rightarrow> Inr None
                | Some j \<Rightarrow> bindE (to_drive j ''jerk'') (\<lambda>x. Inr (Some x))) (\<lambda>jerk'.
           Inr (velocity', acc', dec', jerk')))))))))))))))"

definition set_profile ::
  "(pyval \<Rightarrow> string) \<Rightarrow> 'd device_update \<Rightarrow> int \<Rightarrow> string \<Rightarrow> pydict \<Rightarrow> ('d motion_state, exn, unit) op" where
  "set_profile pstr upd now cmd message =
     rejecting cmd
       (bindS (ask (\<lambda>r. selected_axes r message)) (\<lambda>axes.
        forS axes (\<lambda>i.
          bindS (liftE (\<lambda>st. py_nth (motion_modes st) i)) (\<lambda>mode.
          let is_pv = (mode = ''pv'') in
          bindS (ask (requested_profile message is_pv i)) (\<lambda>(velocity, acc, dec, jerk_value).
            on_rt (update_axis_profile_settings pstr upd now is_pv i velocity acc dec jerk_value))))))"

subsection \<open>Software position limits\<close>

definition requested_position_limits :: "pydict \<Rightarrow> int \<Rightarrow> 'd axis_runtime \<Rightarrow> (int \<times> int) res" where
  "requested_position_limits message i r =
     (let requested = (\<lambda>keys current.
            bindE (position_drive_to_api (converter r) i current) (first_given message keys))
      in bindE (axis_parameter_values r i) (\<lambda>v.
         bindE (mapE (py_nth (ap_software_position_limits v)) [0, 1]) (\<lambda>current.
         bindE (requested [''negative_limit'', ''negative_software_position_limit''] (current ! 0)) (\<lambda>n.
         bindE (requested [''positive_limit'', ''positive_software_position_limit''] (current ! 1)) (\<lambda>p.
         bindE (position_api_to_drive (converter r) i n) (\<lambda>n'.
         bindE (position_api_to_drive (converter r) i p) (\<lambda>p'.
           if py_round n' > py_round p' then Inl ValueError
           else Inr (py_round n', py_round p'))))))))"

definition update_position_limits ::
  "(pyval \<Rightarrow> string) \<Rightarrow> 'd device_update \<Rightarrow> int \<Rightarrow> int \<Rightarrow> int \<Rightarrow> int \<Rightarrow> ('d axis_runtime, exn, unit) op" where
  "update_position_limits pstr upd now i negative positive =
     bindS (write_and_read_back
       (on_drive i (\<lambda>k. write_software_position_limits upd k negative positive))
       (on_drive i (\<lambda>k. liftE (read_software_position_limits pstr k)))) (\<lambda>(readback, write_error).
     bindS (store_axis_parameters i now [SoftwarePositionLimits readback]) (\<lambda>_. raise_if write_error))"

definition set_software_position_limits ::
  "(pyval \<Rightarrow> string) \<Rightarrow> 'd device_update \<Rightarrow> int \<Rightarrow> string \<Rightarrow> pydict \<Rightarrow> ('d axis_runtime, exn, unit) op" where
  "set_software_position_limits pstr upd now cmd message =
     rejecting cmd
       (bindS (liftE (\<lambda>r. selected_axes r message)) (\<lambda>axes.
        forS axes (\<lambda>i.
          bindS (liftE (requested_position_limits message i)) (\<lambda>(negative, positive).
            update_position_limits pstr upd now i negative positive))))"

end
