(* ===== verification/Startup.thy ===== *)
theory Startup
  imports Axis_Settings
begin

section \<open>Startup of the drives\<close>

text \<open>
  Models \<^verbatim>\<open>motion_server/app/startup.py\<close> (reading the settings of the drives, filling the parameter
  cache, preparing and enabling the drives) and \<open>build_initialized_server_state\<close>,
  \<open>initialize_runtime_session\<close> and \<open>fail_runtime_initialization\<close> of \<^verbatim>\<open>motion_server/server.py\<close>.
  Building the device models and creating the runtime is an argument (it constructs objects from
  the configuration files); printing is left out. The functions of a transport are the record
  \<open>bus_link\<close>: the real transport is a library outside the repository, \<open>mock_link\<close> is the modelled
  master. A loop that ends at a deadline gets the number of rounds the deadline leaves.
\<close>

subsection \<open>The transport\<close>

record 'd bus_link =
  link_connect :: "('d axis_runtime, exn, unit) op"
  link_enter_operational :: "('d axis_runtime, exn, unit) op"
  link_close :: "('d axis_runtime, exn, unit) op"
  link_cycle :: "('d axis_runtime, exn, unit) op"

definition mock_link ::
  "(nat \<Rightarrow> ('d MockMaster, exn, unit) op) \<Rightarrow> (pyval \<Rightarrow> string) \<Rightarrow> 'd device_update \<Rightarrow> (nat \<Rightarrow> int)
   \<Rightarrow> 'd bus_link" where
  "mock_link prepare pstr upd clock =
     \<lparr>link_connect = on_bus_op (connect prepare ''preop''),
      link_enter_operational = on_bus_op enter_operational,
      link_close = on_bus_op (modifyS close),
      link_cycle = axis_cycle pstr upd clock\<rparr>"

text \<open>\<open>except Exception\<close> with a log line only.\<close>

definition ignoring :: "('s, exn, unit) op \<Rightarrow> ('s, exn, unit) op" where
  "ignoring m = catchS m (\<lambda>_. retS ())"

definition dropping :: "('s, exn, 'a) op \<Rightarrow> ('s, exn, unit) op" where
  "dropping m = bindS m (\<lambda>_. retS ())"

subsection \<open>Reading the settings of the drives\<close>

definition read_or_none :: "'a res \<Rightarrow> 'a option" where
  "read_or_none x = (case x of Inl _ \<Rightarrow> None | Inr a \<Rightarrow> Some a)"

definition read_axis_user_position_units :: "(pyval \<Rightarrow> string) \<Rightarrow> 'd axis_runtime \<Rightarrow> int option list" where
  "read_axis_user_position_units pstr r =
     map (\<lambda>k. read_or_none (read_user_unit_position pstr k (bus r))) (axis_bindings r)"

definition read_axis_converting_unit_exponents :: "(pyval \<Rightarrow> string) \<Rightarrow> 'd axis_runtime \<Rightarrow> int list list" where
  "read_axis_converting_unit_exponents pstr r =
     map (\<lambda>k. read_converting_unit_exponents pstr k (bus r)) (axis_bindings r)"

definition read_axis_software_position_limits :: "(pyval \<Rightarrow> string) \<Rightarrow> 'd axis_runtime \<Rightarrow> int list list" where
  "read_axis_software_position_limits pstr r =
     map (\<lambda>k. case read_software_position_limits pstr k (bus r) of
                Inl _ \<Rightarrow> [- 1000000, 1000000] | Inr l \<Rightarrow> l) (axis_bindings r)"

definition read_axis_profile_settings :: "(pyval \<Rightarrow> string) \<Rightarrow> 'd axis_runtime \<Rightarrow> real list option list" where
  "read_axis_profile_settings pstr r =
     map (\<lambda>k. read_or_none (read_profile_settings pstr k (bus r))) (axis_bindings r)"

definition read_axis_motion_limits :: "(pyval \<Rightarrow> string) \<Rightarrow> 'd axis_runtime \<Rightarrow> real list option list" where
  "read_axis_motion_limits pstr r =
     map (\<lambda>k. read_or_none (drive_motion_limits pstr k (bus r))) (axis_bindings r)"

record startup_sdo =
  su_user_position_units :: "int list"
  su_converting_unit_exponents :: "int list list"
  su_software_position_limits :: "int list list"
  su_profile_settings :: "real list list"
  su_motion_limits :: "real list list"

definition zeros_if_missing :: "real list option \<Rightarrow> real list" where
  "zeros_if_missing v = (case v of None \<Rightarrow> [0, 0, 0, 0] | Some xs \<Rightarrow> xs)"

definition read_startup_axis_sdo :: "(pyval \<Rightarrow> string) \<Rightarrow> 'd axis_runtime \<Rightarrow> startup_sdo res" where
  "read_startup_axis_sdo pstr r =
     (let units = read_axis_user_position_units pstr r
      in if list_ex (\<lambda>u. u = None) units then Inl (InitExn REQUIRED_PARAMETER_READ_FAILED)
         else Inr
           \<lparr>su_user_position_units = map the units,
            su_converting_unit_exponents = read_axis_converting_unit_exponents pstr r,
            su_software_position_limits = read_axis_software_position_limits pstr r,
            su_profile_settings = map zeros_if_missing (read_axis_profile_settings pstr r),
            su_motion_limits = map zeros_if_missing (read_axis_motion_limits pstr r)\<rparr>)"

subsection \<open>Refreshing the cache of an axis\<close>

definition read_axis_parameters ::
  "(pyval \<Rightarrow> string) \<Rightarrow> int \<Rightarrow> 'd axis_runtime
   \<Rightarrow> (int \<times> int list \<times> int list \<times> real list \<times> real list) res" where
  "read_axis_parameters pstr i r =
     bindE (py_nth (axis_bindings r) i) (\<lambda>k.
     bindE (read_user_unit_position pstr k (bus r)) (\<lambda>u.
     let exps = read_converting_unit_exponents pstr k (bus r) in
     bindE (read_software_position_limits pstr k (bus r)) (\<lambda>software.
     bindE (read_profile_settings pstr k (bus r)) (\<lambda>settings.
     bindE (drive_motion_limits pstr k (bus r)) (\<lambda>limits.
       Inr (u, exps, software, settings, limits))))))"

definition on_converter :: "(unit_converter, exn, 'a) op \<Rightarrow> ('d axis_runtime, exn, 'a) op" where
  "on_converter f r = (case f (converter r) of (x, c) \<Rightarrow> (x, r\<lparr>converter := c\<rparr>))"

definition cached_units :: "'d axis_runtime \<Rightarrow> int option list" where
  "cached_units r = map ap_user_position_unit (ap_axes (axis_parameters r))"

definition cached_exponents :: "'d axis_runtime \<Rightarrow> exponents list" where
  "cached_exponents r = map ap_converting_unit_exponents (ap_axes (axis_parameters r))"

definition reconfigure_units :: "int \<Rightarrow> int \<Rightarrow> int list \<Rightarrow> ('d axis_runtime, exn, unit) op" where
  "reconfigure_units i u exps =
     bindS (liftE (\<lambda>r. py_index (cached_units r) i)) (\<lambda>k.
     bindS (liftE (\<lambda>r. Inr (cached_units r, cached_exponents r))) (\<lambda>(us, es).
       on_converter (configure (Some (us[k := Some u])) (Some (es[k := Some (map Some exps)])))))"

definition refresh_axis_parameter_cache ::
  "(pyval \<Rightarrow> string) \<Rightarrow> int \<Rightarrow> int \<Rightarrow> ('d axis_runtime, exn, unit) op" where
  "refresh_axis_parameter_cache pstr now i =
     bindS (liftE (read_axis_parameters pstr i)) (\<lambda>(u, exps, software, settings, limits).
     bindS (reconfigure_units i u exps) (\<lambda>_.
     bindS (liftE (\<lambda>r. bindE (metadata (converter r)) (\<lambda>ms. py_nth ms i))) (\<lambda>md.
     bindS (store_axis_parameters i now [UserPositionUnit u, ConvertingUnitExponents (map Some exps),
              SoftwarePositionLimits software, ProfileSettings settings, MotionLimits limits,
              AxisMetadata md]) (\<lambda>_.
     bindS (liftE (\<lambda>r. position_counts_per_api_unit (converter r) i)) (\<lambda>scale.
     bindS (on_controller (set_axis_position_counts_per_api_unit i scale)) (\<lambda>_.
     bindS (apply_motion_limits i limits) (\<lambda>_.
     bindS (liftE (\<lambda>_. py_nth settings 0)) (synchronize_profile_velocity_command i))))))))"

subsection \<open>Preparing and enabling the drives\<close>

definition COMMON_TXPDO_FIELDS :: "string list" where
  "COMMON_TXPDO_FIELDS = [''statusword'', ''mode_of_operation_display'', ''actual_position'', ''actual_velocity'']"

definition require_txpdo_fields :: "'d axis_runtime \<Rightarrow> unit res" where
  "require_txpdo_fields r =
     bindE (mapE (\<lambda>i. bindE (axis_slave r i) (\<lambda>s.
       if list_all (has_field (txpdo s)) COMMON_TXPDO_FIELDS then Inr () else Inl RuntimeError)) (all_axes r))
       (\<lambda>_. Inr ())"

definition clear_axis_restart_commands :: "'d device_update \<Rightarrow> ('d axis_runtime, exn, unit) op" where
  "clear_axis_restart_commands upd r =
     forS (all_axes r) (\<lambda>i. ignoring (dropping (on_drive i (clear_axis_restart_request upd)))) r"

definition write_csp_interpolation_modes ::
  "(pyval \<Rightarrow> string) \<Rightarrow> 'd device_update \<Rightarrow> int list \<Rightarrow> ('d axis_runtime, exn, unit) op" where
  "write_csp_interpolation_modes pstr upd values r =
     (if length values \<noteq> axis_total r then (Inl ValueError, r)
      else forS (zip (all_axes r) values) (\<lambda>(i, v).
        if v \<le> 0 then retS ()
        else ignoring (dropping (on_drive i (\<lambda>k. write_csp_interpolation_mode pstr upd k v)))) r)"

definition set_axis_mode :: "'d device_update \<Rightarrow> string \<Rightarrow> int \<Rightarrow> ('d axis_runtime, exn, unit) op" where
  "set_axis_mode upd mode i =
     bindS (liftE (\<lambda>_. mode_code mode)) (\<lambda>c.
     bindS (set_rx i ''mode_of_operation'' c) (\<lambda>_. on_drive i (\<lambda>k. configure_mode_code upd k c)))"

definition configure_motion_mode_without_exchange ::
  "'d device_update \<Rightarrow> string \<Rightarrow> ('d axis_runtime, exn, unit) op" where
  "configure_motion_mode_without_exchange upd mode r =
     bindS (liftE (\<lambda>r. mapE (require_pdo_fields_for_mode r mode) (all_axes r)))
       (\<lambda>_. forS (all_axes r) (set_axis_mode upd mode)) r"

definition all_have_status :: "int \<Rightarrow> 'd axis_runtime \<Rightarrow> bool res" where
  "all_have_status expected r =
     bindE (mapE (\<lambda>i. tx_int r i ''statusword'') (all_axes r))
       (\<lambda>ws. Inr (list_all (\<lambda>w. w AND 0x006F = expected) ws))"

text \<open>\<open>wait_status_all\<close> with a timeout that leaves \<open>n\<close> cycles after the first one.\<close>

fun wait_status_all ::
  "('d axis_runtime, exn, unit) op \<Rightarrow> int \<Rightarrow> nat \<Rightarrow> ('d axis_runtime, exn, bool) op" where
  "wait_status_all exch expected n =
     bindS exch (\<lambda>_.
     bindS (liftE (all_have_status expected)) (\<lambda>reached.
       if reached then retS True
       else case n of 0 \<Rightarrow> retS False | Suc m \<Rightarrow> wait_status_all exch expected m))"

declare wait_status_all.simps [simp del]

text \<open>The CiA 402 part of \<open>initialize_drive\<close>: a fault is reset, then every drive is led to
  operation enabled; a state that is not reached in time does not stop the sequence.\<close>

definition ENABLE_SEQUENCE :: "(int \<times> int) list" where
  "ENABLE_SEQUENCE = [(0x0006, 0x0021), (0x0007, 0x0023), (0x000F, 0x0027)]"

definition enable_drives ::
  "('d axis_runtime, exn, unit) op \<Rightarrow> (nat \<Rightarrow> nat) \<Rightarrow> ('d axis_runtime, exn, unit) op" where
  "enable_drives exch patience =
     bindS (liftE faulted_axes) (\<lambda>faults.
     bindS (if faults = [] then retS ()
            else
              bindS (set_controlword_all 0x0080) (\<lambda>_.
              bindS (wait_status_all exch 0x0040 (patience 0)) (\<lambda>_.
              bindS (set_controlword_all 0x0000) (\<lambda>_. exchange exch 10)))) (\<lambda>_.
       forS (zip [1..<4] ENABLE_SEQUENCE) (\<lambda>(k, cw, expected).
         bindS (set_controlword_all cw) (\<lambda>_. dropping (wait_status_all exch expected (patience k))))))"

definition blocked_pv_axes :: "startup_sdo \<Rightarrow> 'd axis_runtime \<Rightarrow> nat list res" where
  "blocked_pv_axes sdo r =
     filterE (\<lambda>i. bindE (py_nth (user_position_units (converter r)) (int i)) (\<lambda>u. Inr (\<not> pv_allowed u)))
       [0..<length (su_user_position_units sdo)]"

definition initialize_drive ::
  "(pyval \<Rightarrow> string) \<Rightarrow> 'd device_update \<Rightarrow> 'd bus_link \<Rightarrow> (nat \<Rightarrow> nat) \<Rightarrow> string \<Rightarrow> int list
   \<Rightarrow> ('d axis_runtime, exn, startup_sdo) op" where
  "initialize_drive pstr upd link patience mode interpolation =
     bindS (liftE require_txpdo_fields) (\<lambda>_.
     bindS (clear_axis_restart_commands upd) (\<lambda>_.
     bindS (liftE (read_startup_axis_sdo pstr)) (\<lambda>sdo.
     bindS (forS (enumerate 0 (su_profile_settings sdo)) (\<lambda>(i, settings).
              bindS (liftE (\<lambda>_. py_nth settings 0)) (synchronize_profile_velocity_command (int i)))) (\<lambda>_.
     bindS (write_csp_interpolation_modes pstr upd interpolation) (\<lambda>_.
     bindS (if mode = ''pv'' then
              bindS (liftE (blocked_pv_axes sdo)) (\<lambda>blocked.
                if blocked = [] then retS () else raiseS ValueError)
            else retS ()) (\<lambda>_.
     bindS (configure_motion_mode_without_exchange upd mode) (\<lambda>_.
     bindS (link_enter_operational link) (\<lambda>_.
     bindS (exchange (link_cycle link) 10) (\<lambda>_.
     bindS rt_sync_to_actual (\<lambda>_.
     bindS (enable_drives (link_cycle link) patience) (\<lambda>_. retS sdo)))))))))))"

subsection \<open>The state of the running server\<close>

record server_settings =
  cf_server_mode :: string
  cf_initial_motion_mode :: string
  cf_csp_interpolation_mode :: int
  cf_csp_jerk :: real
  cf_bus_reconnect_timeout :: real
  cf_axis_restart_timeout :: real
  cf_axis_restart_disable_settle_time :: real

definition store_startup_parameters :: "int \<Rightarrow> startup_sdo \<Rightarrow> axis_meta list \<Rightarrow> nat \<Rightarrow> ('d axis_runtime, exn, unit) op" where
  "store_startup_parameters now sdo ms i =
     bindS (liftE (\<lambda>_.
       bindE (py_nth (su_user_position_units sdo) (int i)) (\<lambda>u.
       bindE (py_nth (su_converting_unit_exponents sdo) (int i)) (\<lambda>exps.
       bindE (py_nth (su_software_position_limits sdo) (int i)) (\<lambda>software.
       bindE (py_nth (su_profile_settings sdo) (int i)) (\<lambda>settings.
       bindE (py_nth (su_motion_limits sdo) (int i)) (\<lambda>limits.
       bindE (py_nth ms (int i)) (\<lambda>md.
         Inr [UserPositionUnit u, ConvertingUnitExponents (map Some exps), SoftwarePositionLimits software,
              ProfileSettings settings, MotionLimits limits, AxisMetadata md])))))))) (\<lambda>fs.
       store_axis_parameters (int i) now fs)"

definition startup_motion_limits :: "real \<Rightarrow> int \<Rightarrow> real list \<Rightarrow> ('d axis_runtime, exn, unit) op" where
  "startup_motion_limits csp_jerk i limits =
     bindS (liftE (\<lambda>r. motion_limits_drive_to_api (converter r) i limits)) (\<lambda>api.
     bindS (liftE (\<lambda>_. mapE (py_nth api) [0, 1, 2, 3])) (\<lambda>xs.
       on_controller (set_axis_motion_limits i
         \<lparr>max_velocity = max \<bar>xs ! 0\<bar> \<bar>xs ! 1\<bar>, acceleration = xs ! 2, deceleration = xs ! 3,
          jerk = csp_jerk\<rparr>)))"

definition install_startup_values ::
  "server_settings \<Rightarrow> int \<Rightarrow> startup_sdo \<Rightarrow> ('d axis_runtime, exn, real list) op" where
  "install_startup_values cf now sdo r =
     bindS (on_converter (configure (Some (map Some (su_user_position_units sdo)))
              (Some (map (\<lambda>es. Some (map Some es)) (su_converting_unit_exponents sdo))))) (\<lambda>_.
     bindS (liftE (\<lambda>r. metadata (converter r))) (\<lambda>ms.
     bindS (forS [0..<axis_total r] (store_startup_parameters now sdo ms)) (\<lambda>_.
     bindS (liftE (\<lambda>r. mapE (position_counts_per_api_unit (converter r)) (all_axes r))) (\<lambda>scales.
     bindS (forS (enumerate 0 scales) (\<lambda>(i, scale).
              on_controller (set_axis_position_counts_per_api_unit (int i) scale))) (\<lambda>_.
     bindS (forS (enumerate 0 (su_motion_limits sdo)) (\<lambda>(i, limits).
              startup_motion_limits (cf_csp_jerk cf) (int i) limits)) (\<lambda>_.
       liftE actual_positions)))))) r"

definition initial_server_state ::
  "server_settings \<Rightarrow> ServerSession \<Rightarrow> 'd axis_runtime \<Rightarrow> real list \<Rightarrow> 'd motion_state" where
  "initial_server_state cf session r positions =
     \<lparr>server_mode = cf_server_mode cf, init_status = initialization_status session,
      server_session = Some session, command_authority_owner = None,
      rt = r, target_positions = positions,
      motion_modes = replicate (axis_total r) (cf_initial_motion_mode cf),
      motion_mode = cf_initial_motion_mode cf,
      jog_previous_modes = replicate (axis_total r) None,
      homing = inactive_homing_state ''idle'', trajectory = inactive_trajectory_state ''idle'',
      trajectory_sequence = 0, last_trajectory_complete_time = None, server_restart_requested = False,
      csp_interpolation_modes = replicate (axis_total r) (cf_csp_interpolation_mode cf),
      recovery_in_progress = None, bus_reconnect_timeout = cf_bus_reconnect_timeout cf,
      axis_restart_timeout = cf_axis_restart_timeout cf,
      axis_restart_disable_settle_time = cf_axis_restart_disable_settle_time cf\<rparr>"

definition build_initialized_server_state ::
  "server_settings \<Rightarrow> int \<Rightarrow> ServerSession \<Rightarrow> startup_sdo \<Rightarrow> ('d axis_runtime, exn, 'd motion_state) op" where
  "build_initialized_server_state cf now session sdo r =
     (case install_startup_values cf now sdo r of
        (Inl e, r') \<Rightarrow> (Inl e, r')
      | (Inr positions, r') \<Rightarrow> (Inr (initial_server_state cf session r' positions), r'))"

end
