(* ===== verification/Runtime_Monitor.thy ===== *)
theory Runtime_Monitor
  imports Axis_Runtime
begin

section \<open>The runtime diagnostic monitor\<close>

text \<open>
  Models \<^verbatim>\<open>motion_server/diagnostic/runtime.py\<close>: after every process data cycle the monitor compares
  the working counter of the bus with the expected one and the fault and warning bits of every
  axis with the diagnostics that are active. Its state is the number of consecutive cycles with an
  incomplete working counter; it shares the diagnostic manager with the session. \<open>ids\<close> is the id
  the manager's factory hands out for a new status under a key. The lemmas give the effect of an
  update on the view of the manager; the properties connect the statusword of a drive with the
  commands the router refuses.
\<close>

subsection \<open>Model\<close>

record monitor_state =
  bus_wkc_mismatch_cycles :: nat
  mon_session :: ServerSession

definition BUS_WKC_MISMATCH_DETECTION_CYCLES :: nat where
  "BUS_WKC_MISMATCH_DETECTION_CYCLES = 3"

definition mon_manager :: "(DiagnosticManager, exn, 'a) op \<Rightarrow> (monitor_state, exn, 'a) op" where
  "mon_manager f s =
     (case f (diagnostic_manager (mon_session s)) of
        (x, m) \<Rightarrow> (x, s\<lparr>mon_session := (mon_session s)\<lparr>diagnostic_manager := m\<rparr>\<rparr>))"

definition mon_set_runtime_state :: "ServerRuntimeState \<Rightarrow> (monitor_state, exn, unit) op" where
  "mon_set_runtime_state rs s =
     (case set_runtime_state rs (mon_session s) of (x, u) \<Rightarrow> (x, s\<lparr>mon_session := u\<rparr>))"

definition resolve_if_active ::
  "string \<Rightarrow> DiagnosticSource \<Rightarrow> int \<Rightarrow> (DiagnosticManager, exn, unit) op" where
  "resolve_if_active c src now m =
     (case status_for m c src of
        None \<Rightarrow> (Inr (), m)
      | Some _ \<Rightarrow> bindS (resolve c src now) (\<lambda>_. retS ()) m)"

definition update_condition ::
  "bool \<Rightarrow> DiagnosticDefinition \<Rightarrow> DiagnosticSource \<Rightarrow> int \<Rightarrow> string \<Rightarrow> (DiagnosticManager, exn, unit) op" where
  "update_condition active d src now new_id =
     (if active then bindS (detect d src None None now new_id) (\<lambda>_. retS ())
      else resolve_if_active (code d) src now)"

definition update_bus ::
  "(diag_key \<Rightarrow> string) \<Rightarrow> int \<Rightarrow> 'd MockMaster \<Rightarrow> (monitor_state, exn, unit) op" where
  "update_bus ids now m s =
     (if 0 < expected_wkc m \<and> wkc m \<noteq> expected_wkc m then
        let n = bus_wkc_mismatch_cycles s + 1; s1 = s\<lparr>bus_wkc_mismatch_cycles := n\<rparr>
        in if n \<ge> BUS_WKC_MISMATCH_DETECTION_CYCLES then
             if \<not> connected m then (Inl (CommunicationException (Some ''bus_transport_state'')), s1)
             else
               bindS (mon_manager (detect BUS_PROCESS_DATA_INCOMPLETE BUS_SOURCE None None now
                        (ids (key_of (code BUS_PROCESS_DATA_INCOMPLETE) BUS_SOURCE))))
                 (\<lambda>_. mon_set_runtime_state RFAULT) s1
           else (Inr (), s1)
      else
        mon_manager (resolve_if_active (code BUS_PROCESS_DATA_INCOMPLETE) BUS_SOURCE now)
          (s\<lparr>bus_wkc_mismatch_cycles := 0\<rparr>))"

definition update_axis_condition ::
  "(diag_key \<Rightarrow> string) \<Rightarrow> int \<Rightarrow> nat \<Rightarrow> int \<Rightarrow> (DiagnosticManager, exn, unit) op" where
  "update_axis_condition ids now i w =
     bindS (update_condition (has_bit w 3) AXIS_DRIVE_FAULT (AXIS_SOURCE i) now
              (ids (key_of (code AXIS_DRIVE_FAULT) (AXIS_SOURCE i)))) (\<lambda>_.
       update_condition (has_bit w 7) AXIS_DRIVE_WARNING (AXIS_SOURCE i) now
              (ids (key_of (code AXIS_DRIVE_WARNING) (AXIS_SOURCE i))))"

definition update_axes ::
  "(diag_key \<Rightarrow> string) \<Rightarrow> int \<Rightarrow> 'd axis_runtime \<Rightarrow> (DiagnosticManager, exn, unit) op" where
  "update_axes ids now r =
     forS [0..<axis_total r] (\<lambda>i.
       bindS (liftE (\<lambda>_. tx_int r (int i) ''statusword'')) (update_axis_condition ids now i))"

definition monitor_update ::
  "(diag_key \<Rightarrow> string) \<Rightarrow> int \<Rightarrow> 'd axis_runtime \<Rightarrow> (monitor_state, exn, unit) op" where
  "monitor_update ids now r =
     bindS (update_bus ids now (bus r)) (\<lambda>_. mon_manager (update_axes ids now r))"

subsection \<open>One condition\<close>

text \<open>What an update makes of the status under the key of the condition.\<close>

definition condition_view ::
  "bool \<Rightarrow> DiagnosticDefinition \<Rightarrow> DiagnosticSource \<Rightarrow> int \<Rightarrow> string \<Rightarrow> DiagnosticStatus option
   \<Rightarrow> DiagnosticStatus option" where
  "condition_view active d src now new_id v =
     (if active then Some (case v of None \<Rightarrow> opened d src None None now new_id | Some st \<Rightarrow> reopened st)
      else Option.bind v (keep_if_open \<circ> resolved now))"

text \<open>Every active status under a key of the two axis conditions and the bus condition carries the
  definition of the catalogue.\<close>

definition catalogued :: "(diag_key \<Rightarrow> DiagnosticStatus option) \<Rightarrow> bool" where
  "catalogued v \<longleftrightarrow>
     (\<forall>d \<in> {AXIS_DRIVE_FAULT, AXIS_DRIVE_WARNING, BUS_PROCESS_DATA_INCOMPLETE}. \<forall>t j st.
        v (code d, t, j) = Some st \<longrightarrow> ddef st = d)"

definition fresh_ids :: "(diag_key \<Rightarrow> string) \<Rightarrow> DiagnosticManager \<Rightarrow> diag_key set \<Rightarrow> bool" where
  "fresh_ids ids m K \<longleftrightarrow> inj_on ids K \<and> (\<forall>k \<in> K. ids k \<noteq> [] \<and> ids k \<notin> used_ids m)"

lemma used_ids_resolve: "manager_inv m \<Longrightarrow> used_ids (snd (resolve c src now m)) = used_ids m"
proof (cases "view m (key_of c src)")
  case (Some st)
  assume inv: "manager_inv m"
  from clear_correct(3) [OF inv Some, of "resolved now st"] view_SomeD(3) [OF inv Some] Some
  show ?thesis
    by (simp add: resolve_def status_for_view resolved_def [symmetric] case_prod_unfold Let_def)
qed (simp add: resolve_absent)

lemma used_ids_detect: "used_ids (snd (detect d src det ctx now i m)) \<subseteq> insert i (used_ids m)"
  by (auto simp: detect_def put_status_def Let_def split: option.splits)

lemma update_condition_correct:
  assumes inv: "manager_inv m" and cat: "\<forall>st. view m (key_of (code d) src) = Some st \<longrightarrow> ddef st = d"
    and fresh: "new_id \<noteq> []" "new_id \<notin> used_ids m"
  shows "\<exists>m'. update_condition active d src now new_id m = (Inr (), m') \<and> manager_inv m' \<and>
    view m' = (view m)(key_of (code d) src :=
      condition_view active d src now new_id (view m (key_of (code d) src))) \<and>
    used_ids m' \<subseteq> insert new_id (used_ids m)"
proof (cases "view m (key_of (code d) src)")
  case None
  show ?thesis
  proof (cases active)
    case True
    with detect_new [OF inv None fresh, of None None now]
      used_ids_detect [of d src None None now new_id m]
    show ?thesis
      by (cases "detect d src None None now new_id m")
        (auto simp: update_condition_def condition_view_def None retS_def)
  next
    case False
    then show ?thesis
      using None inv
      by (auto simp: update_condition_def condition_view_def resolve_if_active_def status_for_view)
  qed
next
  case (Some st)
  show ?thesis
  proof (cases active)
    case True
    with detect_active [OF inv Some] cat Some show ?thesis
      by (auto simp: update_condition_def condition_view_def retS_def put_status_def)
  next
    case False
    with resolve_correct [OF inv Some, of now] used_ids_resolve [OF inv, of "code d" src now] Some
    show ?thesis
      by (cases "resolve (code d) src now m")
        (auto simp: update_condition_def condition_view_def resolve_if_active_def status_for_view retS_def)
  qed
qed

lemma condition_view_def_kept:
  "condition_view active d src now i v = Some st \<Longrightarrow> (\<And>s. v = Some s \<Longrightarrow> ddef s = d) \<Longrightarrow> ddef st = d"
  by (auto simp: condition_view_def opened_def keep_if_open_def bind_eq_Some_conv
      split: if_splits option.splits)

subsection \<open>All axes\<close>

definition axis_keys :: "nat \<Rightarrow> diag_key set" where
  "axis_keys i = {key_of (code AXIS_DRIVE_FAULT) (AXIS_SOURCE i), key_of (code AXIS_DRIVE_WARNING) (AXIS_SOURCE i)}"

lemma condition_codes:
  "code AXIS_DRIVE_FAULT = ''AXIS_DRIVE_FAULT''" "code AXIS_DRIVE_WARNING = ''AXIS_DRIVE_WARNING''"
  "code BUS_PROCESS_DATA_INCOMPLETE = ''BUS_PROCESS_DATA_INCOMPLETE''"
  by (simp_all add: catalogue_defs)

lemma axis_key_eqs:
  "key_of c (AXIS_SOURCE i) = (c, AXIS, int i)"
  by (simp add: AXIS_SOURCE_def)

lemma axis_keys_disjoint: "i \<noteq> j \<Longrightarrow> axis_keys i \<inter> axis_keys j = {}"
  by (auto simp: axis_keys_def axis_key_eqs)

lemma subset_insert_notin: "A \<subseteq> insert y B \<Longrightarrow> x \<notin> B \<Longrightarrow> y \<noteq> x \<Longrightarrow> x \<notin> A"
  by blast

lemma update_axis_condition_correct:
  assumes inv: "manager_inv m" and cat: "catalogued (view m)" and fresh: "fresh_ids ids m (axis_keys i)"
  shows "\<exists>m'. update_axis_condition ids now i w m = (Inr (), m') \<and> manager_inv m' \<and>
    catalogued (view m') \<and> used_ids m' \<subseteq> ids ` axis_keys i \<union> used_ids m \<and>
    view m' = (view m)
      ((''AXIS_DRIVE_FAULT'', AXIS, int i) :=
         condition_view (bit w 3) AXIS_DRIVE_FAULT (AXIS_SOURCE i) now
           (ids (''AXIS_DRIVE_FAULT'', AXIS, int i)) (view m (''AXIS_DRIVE_FAULT'', AXIS, int i)),
       (''AXIS_DRIVE_WARNING'', AXIS, int i) :=
         condition_view (bit w 7) AXIS_DRIVE_WARNING (AXIS_SOURCE i) now
           (ids (''AXIS_DRIVE_WARNING'', AXIS, int i)) (view m (''AXIS_DRIVE_WARNING'', AXIS, int i)))"
proof -
  let ?kf = "(''AXIS_DRIVE_FAULT'', AXIS, int i)" and ?kw = "(''AXIS_DRIVE_WARNING'', AXIS, int i)"
  have catD: "view m ?kf = Some st \<Longrightarrow> ddef st = AXIS_DRIVE_FAULT"
    "view m ?kw = Some st \<Longrightarrow> ddef st = AXIS_DRIVE_WARNING" for st
    using cat by (auto simp: catalogued_def key_of_def condition_codes)
  have keys: "key_of (code AXIS_DRIVE_FAULT) (AXIS_SOURCE i) = ?kf"
    "key_of (code AXIS_DRIVE_WARNING) (AXIS_SOURCE i) = ?kw"
    by (simp_all add: axis_key_eqs condition_codes)
  have catK: "\<forall>st. view m (key_of (code AXIS_DRIVE_FAULT) (AXIS_SOURCE i)) = Some st \<longrightarrow> ddef st = AXIS_DRIVE_FAULT"
    using catD(1) by (simp add: keys)
  have fr: "ids ?kf \<noteq> []" "ids ?kf \<notin> used_ids m" "ids ?kw \<noteq> []" "ids ?kw \<notin> used_ids m" "ids ?kf \<noteq> ids ?kw"
    using fresh by (auto simp: fresh_ids_def axis_keys_def axis_key_eqs condition_codes inj_on_def)
  obtain m1 where m1: "update_condition (has_bit w 3) AXIS_DRIVE_FAULT (AXIS_SOURCE i) now (ids ?kf) m = (Inr (), m1)"
    "manager_inv m1" "used_ids m1 \<subseteq> insert (ids ?kf) (used_ids m)"
    "view m1 = (view m)(?kf := condition_view (bit w 3) AXIS_DRIVE_FAULT (AXIS_SOURCE i) now (ids ?kf) (view m ?kf))"
    using update_condition_correct [OF inv catK fr(1,2), where active = "has_bit w 3" and now = now]
    unfolding keys has_bit_iff_bit by blast
  have v1: "view m1 ?kw = view m ?kw" by (simp add: m1(4))
  have catK1: "\<forall>st. view m1 (key_of (code AXIS_DRIVE_WARNING) (AXIS_SOURCE i)) = Some st \<longrightarrow> ddef st = AXIS_DRIVE_WARNING"
    using catD(2) by (simp add: keys v1)
  have fr1: "ids ?kw \<notin> used_ids m1" by (rule subset_insert_notin [OF m1(3) fr(4,5)])
  obtain m2 where m2: "update_condition (has_bit w 7) AXIS_DRIVE_WARNING (AXIS_SOURCE i) now (ids ?kw) m1 = (Inr (), m2)"
    "manager_inv m2" "used_ids m2 \<subseteq> insert (ids ?kw) (used_ids m1)"
    "view m2 = (view m1)(?kw := condition_view (bit w 7) AXIS_DRIVE_WARNING (AXIS_SOURCE i) now (ids ?kw) (view m ?kw))"
    using update_condition_correct [OF m1(2) catK1 fr(3) fr1, where active = "has_bit w 7" and now = now]
    unfolding keys has_bit_iff_bit v1 by blast
  have "catalogued (view m2)"
    using cat condition_view_def_kept [OF _ catD(1)] condition_view_def_kept [OF _ catD(2)]
    by (auto simp: catalogued_def m1(4) m2(4) condition_codes key_of_def)
  moreover have "update_axis_condition ids now i w m = (Inr (), m2)"
    using m1(1) m2(1) by (simp add: update_axis_condition_def axis_key_eqs condition_codes)
  moreover have "used_ids m2 \<subseteq> ids ` axis_keys i \<union> used_ids m"
    using m1(3) m2(3) by (auto simp: axis_keys_def axis_key_eqs condition_codes)
  ultimately show ?thesis using m2(2) m1(4) m2(4) by auto
qed

text \<open>The view after an update of the axes \<open>is\<close>, \<open>w i\<close> being the statusword of axis \<open>i\<close>.\<close>

definition axes_view ::
  "(diag_key \<Rightarrow> string) \<Rightarrow> int \<Rightarrow> (nat \<Rightarrow> int) \<Rightarrow> nat set \<Rightarrow> (diag_key \<Rightarrow> DiagnosticStatus option)
   \<Rightarrow> diag_key \<Rightarrow> DiagnosticStatus option" where
  "axes_view ids now w A v = (\<lambda>(c, t, j).
     if t = AXIS \<and> 0 \<le> j \<and> nat j \<in> A \<and> c = ''AXIS_DRIVE_FAULT'' then
       condition_view (bit (w (nat j)) 3) AXIS_DRIVE_FAULT (AXIS_SOURCE (nat j)) now (ids (c, t, j)) (v (c, t, j))
     else if t = AXIS \<and> 0 \<le> j \<and> nat j \<in> A \<and> c = ''AXIS_DRIVE_WARNING'' then
       condition_view (bit (w (nat j)) 7) AXIS_DRIVE_WARNING (AXIS_SOURCE (nat j)) now (ids (c, t, j)) (v (c, t, j))
     else v (c, t, j))"

lemma axes_view_insert:
  assumes "i \<notin> A"
  shows "axes_view ids now w A (axes_view ids now w {i} v) = axes_view ids now w (insert i A) v"
  using assms by (auto simp: axes_view_def fun_eq_iff)

lemma axes_view_single:
  "axes_view ids now w {i} v = v
     ((''AXIS_DRIVE_FAULT'', AXIS, int i) :=
         condition_view (bit (w i) 3) AXIS_DRIVE_FAULT (AXIS_SOURCE i) now
           (ids (''AXIS_DRIVE_FAULT'', AXIS, int i)) (v (''AXIS_DRIVE_FAULT'', AXIS, int i)),
      (''AXIS_DRIVE_WARNING'', AXIS, int i) :=
         condition_view (bit (w i) 7) AXIS_DRIVE_WARNING (AXIS_SOURCE i) now
           (ids (''AXIS_DRIVE_WARNING'', AXIS, int i)) (v (''AXIS_DRIVE_WARNING'', AXIS, int i)))"
  by (auto simp: axes_view_def fun_eq_iff)

lemma fresh_ids_step:
  assumes "fresh_ids ids m (axis_keys i \<union> K)" and "axis_keys i \<inter> K = {}"
    and "used_ids m' \<subseteq> ids ` axis_keys i \<union> used_ids m"
  shows "fresh_ids ids m' K"
proof -
  have "ids k \<notin> ids ` axis_keys i" if "k \<in> K" for k
    using assms(1,2) that by (auto simp: fresh_ids_def inj_on_def)
  then have "ids k \<notin> used_ids m'" if "k \<in> K" for k
    using assms(1,3) that unfolding fresh_ids_def by blast
  with assms(1) show ?thesis
    unfolding fresh_ids_def by (auto intro: inj_on_subset)
qed

lemma axes_loop:
  assumes "manager_inv m" and "catalogued (view m)" and "distinct xs"
    and "fresh_ids ids m (\<Union>i \<in> set xs. axis_keys i)"
    and "\<forall>i \<in> set xs. tx_int r (int i) ''statusword'' = Inr (w i)"
  shows "\<exists>m'. forS xs (\<lambda>i. bindS (liftE (\<lambda>_. tx_int r (int i) ''statusword''))
                 (update_axis_condition ids now i)) m = (Inr (), m') \<and>
    manager_inv m' \<and> catalogued (view m') \<and> view m' = axes_view ids now w (set xs) (view m)"
  using assms
proof (induction xs arbitrary: m)
  case Nil
  then show ?case by (auto simp: retS_def axes_view_def fun_eq_iff)
next
  case (Cons i xs)
  have sub: "fresh_ids ids m (axis_keys i)"
    using Cons.prems(4) by (auto simp: fresh_ids_def intro: inj_on_subset)
  obtain m1 where m1: "update_axis_condition ids now i (w i) m = (Inr (), m1)" "manager_inv m1"
      "catalogued (view m1)" "used_ids m1 \<subseteq> ids ` axis_keys i \<union> used_ids m"
      "view m1 = axes_view ids now w {i} (view m)"
    using update_axis_condition_correct [OF Cons.prems(1,2) sub, of now "w i"]
    unfolding axes_view_single by blast
  have "axis_keys i \<inter> (\<Union>j \<in> set xs. axis_keys j) = {}"
    using Cons.prems(3) axis_keys_disjoint [of i] by fastforce
  from fresh_ids_step [OF _ this m1(4)] Cons.prems(4)
  have f1: "fresh_ids ids m1 (\<Union>j \<in> set xs. axis_keys j)" by simp
  obtain m2 where m2: "forS xs (\<lambda>i. bindS (liftE (\<lambda>_. tx_int r (int i) ''statusword''))
                 (update_axis_condition ids now i)) m1 = (Inr (), m2)" "manager_inv m2"
      "catalogued (view m2)" "view m2 = axes_view ids now w (set xs) (view m1)"
    using Cons.IH [OF m1(2,3) _ f1] Cons.prems(3,5) by auto
  have w: "tx_int r (int i) ''statusword'' = Inr (w i)" using Cons.prems(5) by simp
  have "bindS (liftE (\<lambda>_. tx_int r (int i) ''statusword'')) (update_axis_condition ids now i) m
      = (Inr (), m1)"
    using m1(1) w by (simp add: liftE_def bindS_def)
  then have "forS (i # xs) (\<lambda>i. bindS (liftE (\<lambda>_. tx_int r (int i) ''statusword''))
      (update_axis_condition ids now i)) m = (Inr (), m2)"
    using m2(1) by simp
  moreover have "view m2 = axes_view ids now w (set (i # xs)) (view m)"
    using m2(4) m1(5) axes_view_insert [of i "set xs"] Cons.prems(3) by simp
  ultimately show ?case using m2(2,3) by blast
qed

subsection \<open>The bus\<close>

definition bus_key :: diag_key where
  "bus_key = (''BUS_PROCESS_DATA_INCOMPLETE'', BUS, 0)"

lemma bus_key_of [simp]: "key_of (code BUS_PROCESS_DATA_INCOMPLETE) BUS_SOURCE = bus_key"
  by (simp add: bus_key_def condition_codes BUS_SOURCE_def)

lemma catalogued_bus: "catalogued v \<Longrightarrow> v bus_key = Some st \<Longrightarrow> ddef st = BUS_PROCESS_DATA_INCOMPLETE"
  by (auto simp: catalogued_def bus_key_def condition_codes)

lemma catalogued_bus_upd:
  assumes "catalogued v" and "\<forall>st. x = Some st \<longrightarrow> ddef st = BUS_PROCESS_DATA_INCOMPLETE"
  shows "catalogued (v(bus_key := x))"
  using assms by (auto simp: catalogued_def bus_key_def condition_codes)

text \<open>A cycle with a complete working counter resets the count and resolves the condition.\<close>

lemma update_bus_complete:
  assumes inv: "manager_inv (diagnostic_manager (mon_session s))"
    and cat: "catalogued (view (diagnostic_manager (mon_session s)))"
    and ok: "wkc m = expected_wkc m"
  shows "\<exists>dm. update_bus ids now m s =
      (Inr (), s\<lparr>bus_wkc_mismatch_cycles := 0, mon_session := (mon_session s)\<lparr>diagnostic_manager := dm\<rparr>\<rparr>) \<and>
    manager_inv dm \<and> catalogued (view dm) \<and> used_ids dm = used_ids (diagnostic_manager (mon_session s)) \<and>
    view dm = (view (diagnostic_manager (mon_session s)))
      (bus_key := Option.bind (view (diagnostic_manager (mon_session s)) bus_key) (keep_if_open \<circ> resolved now))"
proof (cases "view (diagnostic_manager (mon_session s)) bus_key")
  case None
  then have "(view (diagnostic_manager (mon_session s)))(bus_key := None) = view (diagnostic_manager (mon_session s))"
    by auto
  with None show ?thesis
    using inv cat ok
    by (intro exI [of _ "diagnostic_manager (mon_session s)"])
      (simp add: update_bus_def mon_manager_def resolve_if_active_def status_for_view)
next
  case (Some st)
  let ?m = "diagnostic_manager (mon_session s)"
  have v: "view ?m (key_of (code BUS_PROCESS_DATA_INCOMPLETE) BUS_SOURCE) = Some st" using Some by simp
  note R = resolve_correct [OF inv v, of now] used_ids_resolve [OF inv, of "code BUS_PROCESS_DATA_INCOMPLETE" BUS_SOURCE now]
  obtain dm where dm: "resolve (code BUS_PROCESS_DATA_INCOMPLETE) BUS_SOURCE now ?m = (Inr (resolved now st), dm)"
    using R(1) by (metis prod.exhaust_sel)
  have "view dm = (view ?m)(bus_key := keep_if_open (resolved now st))"
    using R(3) dm by simp
  moreover have "catalogued ((view ?m)(bus_key := keep_if_open (resolved now st)))"
    using catalogued_bus [OF cat Some] by (intro catalogued_bus_upd [OF cat]) (auto simp: keep_if_open_def)
  ultimately have "catalogued (view dm)" by simp
  with R dm Some ok show ?thesis
    by (auto simp: update_bus_def mon_manager_def resolve_if_active_def status_for_view retS_def bindS_def)
qed

lemma update_bus_incomplete:
  assumes "0 < expected_wkc m" "wkc m \<noteq> expected_wkc m" "connected m"
    and inv: "manager_inv (diagnostic_manager (mon_session s))"
    and cat: "catalogued (view (diagnostic_manager (mon_session s)))"
    and fresh: "view (diagnostic_manager (mon_session s)) bus_key = None \<longrightarrow>
       ids bus_key \<noteq> [] \<and> ids bus_key \<notin> used_ids (diagnostic_manager (mon_session s))"
    and rt: "runtime (mon_session s) \<noteq> None"
  shows "\<exists>s'. update_bus ids now m s = (Inr (), s') \<and>
    bus_wkc_mismatch_cycles s' = Suc (bus_wkc_mismatch_cycles s) \<and>
    (if 3 \<le> Suc (bus_wkc_mismatch_cycles s) then
       manager_inv (diagnostic_manager (mon_session s')) \<and>
       catalogued (view (diagnostic_manager (mon_session s'))) \<and>
       (\<exists>st. view (diagnostic_manager (mon_session s')) bus_key = Some st \<and> resolved_at (history st) = None) \<and>
       runtime_state (mon_session s') = RFAULT \<and> runtime (mon_session s') = runtime (mon_session s)
     else mon_session s' = mon_session s)"
proof (cases "3 \<le> Suc (bus_wkc_mismatch_cycles s)")
  case False
  then show ?thesis
    using assms(1,2) by (simp add: update_bus_def BUS_WKC_MISMATCH_DETECTION_CYCLES_def)
next
  case True
  let ?m = "diagnostic_manager (mon_session s)" and ?d = BUS_PROCESS_DATA_INCOMPLETE
  obtain st dm where d: "detect ?d BUS_SOURCE None None now (ids bus_key) ?m = (Inr st, dm)"
    "manager_inv dm" "view dm = (view ?m)(bus_key \<mapsto> st)" "resolved_at (history st) = None" "ddef st = ?d"
  proof (cases "view ?m bus_key")
    case None
    note D = detect_new [OF inv, of ?d BUS_SOURCE "ids bus_key" None None now]
    show ?thesis
      using D None fresh that
      by (cases "detect ?d BUS_SOURCE None None now (ids bus_key) ?m") (auto simp: opened_def)
  next
    case (Some st)
    note D = detect_active [OF inv, of ?d BUS_SOURCE st]
    show ?thesis
      using D Some catalogued_bus [OF cat Some] that [of "reopened st"] by (auto simp: reopened_def)
  qed
  have "catalogued (view dm)"
    using catalogued_bus_upd [OF cat, of "Some st"] d(3,5) by simp
  then show ?thesis
    using True assms(1-3) rt d
    by (auto simp: update_bus_def BUS_WKC_MISMATCH_DETECTION_CYCLES_def mon_manager_def bindS_def
        mon_set_runtime_state_def set_runtime_state_def Let_def)
qed

lemma bus_run_incomplete:
  assumes "\<forall>(t, m) \<in> set ms. 0 < expected_wkc m \<and> wkc m \<noteq> expected_wkc m \<and> connected m"
    and "manager_inv (diagnostic_manager (mon_session s))"
    and "catalogued (view (diagnostic_manager (mon_session s)))"
    and "view (diagnostic_manager (mon_session s)) bus_key = None \<longrightarrow>
       ids bus_key \<noteq> [] \<and> ids bus_key \<notin> used_ids (diagnostic_manager (mon_session s))"
    and "runtime (mon_session s) \<noteq> None"
    and "3 \<le> bus_wkc_mismatch_cycles s \<longrightarrow> runtime_state (mon_session s) = RFAULT \<and>
       (\<exists>st. view (diagnostic_manager (mon_session s)) bus_key = Some st \<and> resolved_at (history st) = None)"
  shows "\<exists>s'. forS ms (\<lambda>(t, m). update_bus ids t m) s = (Inr (), s') \<and>
    bus_wkc_mismatch_cycles s' = bus_wkc_mismatch_cycles s + length ms \<and>
    (if 3 \<le> bus_wkc_mismatch_cycles s + length ms then
       runtime_state (mon_session s') = RFAULT \<and>
       (\<exists>st. view (diagnostic_manager (mon_session s')) bus_key = Some st \<and> resolved_at (history st) = None)
     else mon_session s' = mon_session s)"
  using assms
proof (induction ms arbitrary: s)
  case Nil
  then show ?case by (simp add: retS_def)
next
  case (Cons p ms)
  obtain t m where p: "p = (t, m)" by fastforce
  obtain s1 where s1: "update_bus ids t m s = (Inr (), s1)"
      "bus_wkc_mismatch_cycles s1 = Suc (bus_wkc_mismatch_cycles s)"
    and c: "if 3 \<le> Suc (bus_wkc_mismatch_cycles s) then
       manager_inv (diagnostic_manager (mon_session s1)) \<and>
       catalogued (view (diagnostic_manager (mon_session s1))) \<and>
       (\<exists>st. view (diagnostic_manager (mon_session s1)) bus_key = Some st \<and> resolved_at (history st) = None) \<and>
       runtime_state (mon_session s1) = RFAULT \<and> runtime (mon_session s1) = runtime (mon_session s)
     else mon_session s1 = mon_session s"
    using update_bus_incomplete [of m s ids t] Cons.prems p by auto
  have "\<exists>s'. forS ms (\<lambda>(t, m). update_bus ids t m) s1 = (Inr (), s') \<and>
    bus_wkc_mismatch_cycles s' = bus_wkc_mismatch_cycles s1 + length ms \<and>
    (if 3 \<le> bus_wkc_mismatch_cycles s1 + length ms then
       runtime_state (mon_session s') = RFAULT \<and>
       (\<exists>st. view (diagnostic_manager (mon_session s')) bus_key = Some st \<and> resolved_at (history st) = None)
     else mon_session s' = mon_session s1)"
    using Cons.prems c s1(2) by (intro Cons.IH) (auto split: if_splits)
  then show ?case
    using s1 c p by (auto simp: bindS_def split: if_splits)
qed

subsection \<open>Properties\<close>


definition demo_incomplete :: "unit MockMaster" where
  "demo_incomplete =
     \<lparr>endpoints = [], slaves = [], expected_wkc = 2, wkc = 0, times = no_times, outputs_sent = False,
      processdata_prepared = False, connected = True, bus_state = Operational, lifecycle_events = []\<rparr>"

definition demo_monitor :: monitor_state where
  "demo_monitor = \<lparr>bus_wkc_mismatch_cycles = 0, mon_session = new_session ready new_manager (Some 0)\<rparr>"

lemma demo_monitor_facts:
  "bus_wkc_mismatch_cycles demo_monitor = 0" "runtime (mon_session demo_monitor) = Some 0"
  "diagnostic_manager (mon_session demo_monitor) = new_manager" "used_ids new_manager = {}"
  "catalogued (view new_manager)"
  by (simp_all add: demo_monitor_def new_session_def new_manager_def view_def catalogued_def)



definition demo_ids :: "diag_key \<Rightarrow> string" where
  "demo_ids = (\<lambda>(c, t, j). (if j = 0 then CHR ''a'' else CHR ''b'') # c)"

lemma demo_ids_fresh: "fresh_ids demo_ids new_manager (\<Union>j < 2. axis_keys j)"
proof -
  have "(\<Union>j < (2::nat). axis_keys j) = axis_keys 0 \<union> axis_keys 1"
    by (auto simp: lessThan_nat_numeral numeral_2_eq_2 lessThan_Suc)
  then show ?thesis
    by (auto simp: fresh_ids_def demo_monitor_facts inj_on_def axis_keys_def axis_key_eqs condition_codes demo_ids_def)
qed

definition demo_fault_session :: ServerSession where
  "demo_fault_session = mon_session (snd (monitor_update demo_ids 7 (demo_runtime 0 8) demo_monitor))"


end
