(* ===== verification/Recovery.thy ===== *)
theory Recovery
  imports Startup Runtime_Monitor
begin

section \<open>Initialization, recovery and restart\<close>

text \<open>
  Models \<^verbatim>\<open>motion_server/app/recovery.py\<close>, \<^verbatim>\<open>motion_server/app/recovery_refresh.py\<close>, the restart of an
  axis in \<^verbatim>\<open>motion_server/handlers/command/axis_state.py\<close>, the reconnect command in
  \<^verbatim>\<open>handlers/command/bus.py\<close> and the initialization of a session in \<^verbatim>\<open>motion_server/server.py\<close>. What the
  readings of the clock decide is given by \<open>recovery_times\<close>; \<open>ids\<close> are the ids of new
  diagnostics and \<open>etext\<close> is \<open>str(exception)\<close>. The running server owns its runtime: the session's
  \<open>runtime\<close> is the \<open>rt\<close> of the state unless it is \<open>None\<close>. Resetting simulated inputs after a
  reconnect is not modelled.
\<close>

subsection \<open>Diagnostics of a recovery\<close>

definition session_manager :: "(DiagnosticManager, exn, 'a) op \<Rightarrow> ('s server_state_scheme, exn, 'a) op" where
  "session_manager f = on_session (on_manager f)"

abbreviation state_runtime_state :: "ServerRuntimeState \<Rightarrow> ('s server_state_scheme, exn, unit) op" where
  "state_runtime_state rs \<equiv> on_session (set_runtime_state rs)"

definition record_bus_reconnect_failure ::
  "(diag_key \<Rightarrow> string) \<Rightarrow> (exn \<Rightarrow> string) \<Rightarrow> int \<Rightarrow> exn \<Rightarrow> (DiagnosticManager, exn, unit) op" where
  "record_bus_reconnect_failure ids etext now e =
     dropping (detect BUS_RECONNECT_FAILED BUS_SOURCE (Some (etext e)) None now
       (ids (key_of (code BUS_RECONNECT_FAILED) BUS_SOURCE)))"

definition restart_failures :: "DiagnosticManager \<Rightarrow> DiagnosticStatus list" where
  "restart_failures m =
     filter (\<lambda>st. code (ddef st) = code AXIS_RESTART_FAILED) (active_statuses m None)"

definition complete_bus_reconnect_diagnostics :: "int \<Rightarrow> (DiagnosticManager, exn, unit) op" where
  "complete_bus_reconnect_diagnostics now =
     bindS (resolve_if_active (code BUS_CONNECTION_LOST) BUS_SOURCE now) (\<lambda>_.
     bindS (resolve_if_active (code BUS_RECONNECT_FAILED) BUS_SOURCE now) (\<lambda>_.
     bindS (resolve_if_active (code BUS_PROCESS_DATA_INCOMPLETE) BUS_SOURCE now) (\<lambda>_.
     bindS (liftE (\<lambda>m. Inr (restart_failures m))) (\<lambda>sts.
     bindS (forS sts (\<lambda>st. dropping (resolve (code AXIS_RESTART_FAILED) (source st) now))) (\<lambda>_.
       dropping (acknowledge_faults (Some BUS_SOURCE) None now))))))"

subsection \<open>Losing the bus\<close>

definition mark_bus_disconnected ::
  "(diag_key \<Rightarrow> string) \<Rightarrow> (exn \<Rightarrow> string) \<Rightarrow> 'd bus_link \<Rightarrow> int \<Rightarrow> exn \<Rightarrow> ('d motion_state, exn, unit) op" where
  "mark_bus_disconnected ids etext link now e =
     bindS (on_session (liftE (\<lambda>s. if runtime s = None then Inl RuntimeError else Inr ()))) (\<lambda>_.
     bindS (on_rt (ignoring (link_close link))) (\<lambda>_.
     bindS (session_manager (dropping (detect BUS_CONNECTION_LOST BUS_SOURCE (Some (etext e)) None now
              (ids (key_of (code BUS_CONNECTION_LOST) BUS_SOURCE))))) (\<lambda>_.
       state_runtime_state RBUS_DISCONNECTED)))"

subsection \<open>Refreshing the caches\<close>

datatype RecoveryType = BUS_RECONNECT | AXIS_RESTART

fun recovery_value :: "RecoveryType \<Rightarrow> string" where
  "recovery_value BUS_RECONNECT = ''bus_reconnect''"
| "recovery_value AXIS_RESTART = ''axis_restart''"

text \<open>\<open>PARAMETER_REFRESH_ERRORS\<close> names the classes of \<open>PROFILE_ACCESS_ERRORS\<close>.\<close>

definition invalidate_runtime_axis :: "int \<Rightarrow> string \<Rightarrow> int \<Rightarrow> ('d axis_runtime, exn, unit) op" where
  "invalidate_runtime_axis i err now r =
     (case invalidate_axis (nat i) err now [] (axis_parameters r) of
        (x, ac) \<Rightarrow> (x, r\<lparr>axis_parameters := ac\<rparr>))"

definition refresh_failed ::
  "(diag_key \<Rightarrow> string) \<Rightarrow> (exn \<Rightarrow> string) \<Rightarrow> int \<Rightarrow> RecoveryType \<Rightarrow> int \<Rightarrow> exn
   \<Rightarrow> ('d motion_state, exn, unit) op" where
  "refresh_failed ids etext now ty i e =
     bindS (on_rt (invalidate_runtime_axis i (etext e) now)) (\<lambda>_.
     bindS (session_manager (dropping (detect PARAMETER_REFRESH_FAILED (AXIS_SOURCE (nat i)) (Some (etext e))
              (Some [(''recovery_type'', PStr (recovery_value ty)), (''axis'', PInt i)]) now
              (ids (key_of (code PARAMETER_REFRESH_FAILED) (AXIS_SOURCE (nat i))))))) (\<lambda>_. raiseS e))"

definition refresh_axis ::
  "(pyval \<Rightarrow> string) \<Rightarrow> (diag_key \<Rightarrow> string) \<Rightarrow> (exn \<Rightarrow> string) \<Rightarrow> int \<Rightarrow> RecoveryType \<Rightarrow> int
   \<Rightarrow> ('d motion_state, exn, unit) op" where
  "refresh_axis pstr ids etext now ty i =
     bindS (catchS (on_rt (refresh_axis_parameter_cache pstr now i))
              (\<lambda>e. if profile_access_error e then refresh_failed ids etext now ty i e else raiseS e)) (\<lambda>_.
       session_manager (resolve_if_active (code PARAMETER_REFRESH_FAILED) (AXIS_SOURCE (nat i)) now))"

definition refresh_request_valid :: "nat \<Rightarrow> RecoveryType \<Rightarrow> int list \<Rightarrow> bool" where
  "refresh_request_valid n ty axes \<longleftrightarrow>
     axes \<noteq> [] \<and> distinct axes \<and> list_all (\<lambda>i. 0 \<le> i \<and> i < int n) axes \<and>
     (ty = BUS_RECONNECT \<longrightarrow> set axes = set (map int [0..<n])) \<and> (ty = AXIS_RESTART \<longrightarrow> length axes = 1)"

definition refresh_after_recovery ::
  "(pyval \<Rightarrow> string) \<Rightarrow> (diag_key \<Rightarrow> string) \<Rightarrow> (exn \<Rightarrow> string) \<Rightarrow> int \<Rightarrow> RecoveryType \<Rightarrow> int list
   \<Rightarrow> ('d motion_state, exn, unit) op" where
  "refresh_after_recovery pstr ids etext now ty axes st =
     (if refresh_request_valid (axis_total (rt st)) ty axes
      then forS axes (refresh_axis pstr ids etext now ty) st else (Inl ValueError, st))"

subsection \<open>Restoring the process image\<close>

record recovery_times =
  tm_attempts :: nat
  tm_operational_in_time :: bool
  tm_stable_cycles :: nat
  tm_late :: bool
  tm_elapsed :: real

text \<open>\<open>_connect_until\<close> with a deadline that leaves \<open>n\<close> attempts. The transport is closed after a
  failed attempt.\<close>

fun connect_until :: "'d bus_link \<Rightarrow> nat \<Rightarrow> ('d axis_runtime, exn, unit) op" where
  "connect_until link 0 = bindS (ignoring (link_close link)) (\<lambda>_. raiseS TimeoutError)"
| "connect_until link (Suc n) =
     catchS (link_connect link)
       (\<lambda>_. bindS (ignoring (link_close link)) (\<lambda>_. connect_until link n))"

definition RECOVERY_WKC_STABLE_CYCLES :: nat where
  "RECOVERY_WKC_STABLE_CYCLES = 3"

text \<open>\<open>_wait_for_stable_processdata\<close> with a deadline that leaves \<open>n\<close> cycles.\<close>

fun wait_stable :: "('d axis_runtime, exn, unit) op \<Rightarrow> nat \<Rightarrow> nat \<Rightarrow> ('d axis_runtime, exn, unit) op" where
  "wait_stable exch consecutive 0 = raiseS TimeoutError"
| "wait_stable exch consecutive (Suc n) =
     bindS exch (\<lambda>_ r.
       if 0 < expected_wkc (bus r) \<and> wkc (bus r) = expected_wkc (bus r) then
         if consecutive + 1 \<ge> RECOVERY_WKC_STABLE_CYCLES then (Inr (), r)
         else wait_stable exch (consecutive + 1) n r
       else wait_stable exch 0 n r)"

text \<open>\<open>RecoveryRefreshException\<close> is a plain exception.\<close>

abbreviation RecoveryRefreshException :: exn where
  "RecoveryRefreshException \<equiv> Exn CException []"

definition restore_modes :: "'d device_update \<Rightarrow> ('d motion_state, exn, unit) op" where
  "restore_modes upd st =
     forS (enumerate 0 (motion_modes st)) (\<lambda>(i, mode). on_rt (set_axis_mode upd mode (int i))) st"

definition restore_process_image ::
  "(pyval \<Rightarrow> string) \<Rightarrow> (diag_key \<Rightarrow> string) \<Rightarrow> (exn \<Rightarrow> string) \<Rightarrow> 'd device_update \<Rightarrow> 'd bus_link
   \<Rightarrow> recovery_times \<Rightarrow> int \<Rightarrow> RecoveryType \<Rightarrow> int list \<Rightarrow> ('d motion_state, exn, unit) op" where
  "restore_process_image pstr ids etext upd link tm now ty axes =
     bindS (on_rt (clear_axis_restart_commands upd)) (\<lambda>_.
     bindS (\<lambda>st. on_rt (write_csp_interpolation_modes pstr upd (csp_interpolation_modes st)) st) (\<lambda>_.
     bindS (restore_modes upd) (\<lambda>_.
     bindS (catchS (refresh_after_recovery pstr ids etext now ty axes)
              (\<lambda>_. raiseS RecoveryRefreshException)) (\<lambda>_.
     bindS (if tm_operational_in_time tm then retS () else raiseS TimeoutError) (\<lambda>_.
     bindS (on_rt (link_enter_operational link)) (\<lambda>_.
     bindS (on_rt (wait_stable (link_cycle link) 0 (tm_stable_cycles tm))) (\<lambda>_.
       on_rt rt_sync_to_actual)))))))"

subsection \<open>Reconnecting the bus\<close>

definition recover_ready :: "string \<Rightarrow> string \<Rightarrow> ('d motion_state, exn, unit) op" where
  "recover_ready no_runtime busy =
     bindS (on_session (liftE (\<lambda>s. if runtime s = None then Inl (CommunicationException (Some no_runtime))
                                   else Inr ()))) (\<lambda>_.
       liftE (\<lambda>st. if recovery_in_progress st = None then Inr ()
                   else Inl (CommunicationException (Some busy))))"

definition end_recovery :: "'d motion_state \<Rightarrow> 'd motion_state" where
  "end_recovery st = st\<lparr>recovery_in_progress := None\<rparr>"

definition begin_recovery :: "string \<Rightarrow> ('d motion_state, exn, unit) op" where
  "begin_recovery what = modifyS (\<lambda>st. st\<lparr>recovery_in_progress := Some what\<rparr>)"

definition reconnect_failed ::
  "(diag_key \<Rightarrow> string) \<Rightarrow> (exn \<Rightarrow> string) \<Rightarrow> 'd bus_link \<Rightarrow> int \<Rightarrow> exn \<Rightarrow> ('d motion_state, exn, unit) op" where
  "reconnect_failed ids etext link now e =
     bindS (on_rt (ignoring (link_close link))) (\<lambda>_.
     bindS (session_manager (record_bus_reconnect_failure ids etext now e)) (\<lambda>_.
     bindS (state_runtime_state RBUS_DISCONNECTED) (\<lambda>_.
       raiseS (CommunicationException (Some ''bus_reconnect'')))))"

definition reconnect_attempt ::
  "(pyval \<Rightarrow> string) \<Rightarrow> (diag_key \<Rightarrow> string) \<Rightarrow> (exn \<Rightarrow> string) \<Rightarrow> 'd device_update \<Rightarrow> 'd bus_link
   \<Rightarrow> recovery_times \<Rightarrow> int \<Rightarrow> RecoveryType \<Rightarrow> int list \<Rightarrow> ('d motion_state, exn, unit) op" where
  "reconnect_attempt pstr ids etext upd link tm now ty axes =
     bindS (on_rt (link_close link)) (\<lambda>_.
     bindS (on_rt (connect_until link (tm_attempts tm))) (\<lambda>_.
       restore_process_image pstr ids etext upd link tm now ty axes))"

definition complete_reconnect :: "int \<Rightarrow> (ServerSession, exn, unit) op" where
  "complete_reconnect now =
     bindS (on_manager (complete_bus_reconnect_diagnostics now)) (\<lambda>_.
     bindS (liftE (\<lambda>s. global_fault (diagnostic_manager s))) (\<lambda>faulted.
       set_runtime_state (if faulted then RFAULT else RNORMAL)))"

definition reconnect_runtime ::
  "(pyval \<Rightarrow> string) \<Rightarrow> (diag_key \<Rightarrow> string) \<Rightarrow> (exn \<Rightarrow> string) \<Rightarrow> 'd device_update \<Rightarrow> 'd bus_link
   \<Rightarrow> recovery_times \<Rightarrow> int \<Rightarrow> ('d motion_state, exn, handled) op" where
  "reconnect_runtime pstr ids etext upd link tm now st =
     bindS (recover_ready ''bus_reconnect'' ''bus_reconnect_in_progress'') (\<lambda>_.
     bindS (begin_recovery ''bus_reconnect'') (\<lambda>_.
     bindS (finallyS
       (catchS
         (bindS (reconnect_attempt pstr ids etext upd link tm now BUS_RECONNECT (all_axes (rt st))) (\<lambda>_.
            if tm_late tm then raiseS TimeoutError else retS ()))
         (reconnect_failed ids etext link now)) end_recovery) (\<lambda>_.
     bindS (on_session (complete_reconnect now)) (\<lambda>_.
       retS (HData (PDict [(''connected'', PBool True), (''elapsed'', PFloat (tm_elapsed tm)),
         (''message'', PStr ''EtherCAT Bus reconnect completed.'')])))))) st"

subsection \<open>Restarting an axis\<close>

definition axis_restart_failed ::
  "(diag_key \<Rightarrow> string) \<Rightarrow> (exn \<Rightarrow> string) \<Rightarrow> 'd bus_link \<Rightarrow> int \<Rightarrow> int \<Rightarrow> bool \<Rightarrow> exn
   \<Rightarrow> ('d motion_state, exn, unit) op" where
  "axis_restart_failed ids etext link now i operational e =
     bindS (if operational then retS () else on_rt (ignoring (link_close link))) (\<lambda>_.
     bindS (session_manager (dropping (detect AXIS_RESTART_FAILED (AXIS_SOURCE (nat i)) (Some (etext e)) None now
              (ids (key_of (code AXIS_RESTART_FAILED) (AXIS_SOURCE (nat i))))))) (\<lambda>_.
     bindS (state_runtime_state (if operational then RFAULT else RBUS_DISCONNECTED)) (\<lambda>_.
       raiseS (CommunicationException (Some ''axis_restart'')))))"

definition resolve_restart_failure :: "int \<Rightarrow> int \<Rightarrow> (DiagnosticManager, exn, unit) op" where
  "resolve_restart_failure now i m =
     (case status_for m (code AXIS_RESTART_FAILED) (AXIS_SOURCE (nat i)) of
        None \<Rightarrow> (Inr (), m)
      | Some _ \<Rightarrow>
          bindS (resolve (code AXIS_RESTART_FAILED) (AXIS_SOURCE (nat i)) now)
            (\<lambda>st. dropping (acknowledge (diagnostic_id st) now)) m)"

definition restart_axis_runtime ::
  "(pyval \<Rightarrow> string) \<Rightarrow> (diag_key \<Rightarrow> string) \<Rightarrow> (exn \<Rightarrow> string) \<Rightarrow> 'd device_update \<Rightarrow> 'd bus_link
   \<Rightarrow> recovery_times \<Rightarrow> int \<Rightarrow> int \<Rightarrow> ('d motion_state, exn, pyval) op" where
  "restart_axis_runtime pstr ids etext upd link tm now i =
     bindS (recover_ready ''axis_restart'' ''recovery_in_progress'') (\<lambda>_.
     bindS (begin_recovery ''axis_restart'') (\<lambda>_.
     bindS (state_runtime_state RFAULT) (\<lambda>_.
     bindS (finallyS
       (\<lambda>st. case reconnect_attempt pstr ids etext upd link tm now AXIS_RESTART [i] st of
          (Inl e, st1) \<Rightarrow> axis_restart_failed ids etext link now i False e st1
        | (Inr _, st1) \<Rightarrow>
            if tm_late tm then axis_restart_failed ids etext link now i True TimeoutError st1
            else (Inr (), st1)) end_recovery) (\<lambda>_.
     bindS (session_manager (resolve_restart_failure now i)) (\<lambda>_.
     bindS (state_runtime_state RNORMAL) (\<lambda>_.
       retS (PDict [(''axis'', PInt i), (''elapsed'', PFloat (max 0 (tm_elapsed tm))),
         (''message'', PStr ''Axis restart completed.'')])))))))"

fun wait_axis_not_operation_enabled ::
  "('d axis_runtime, exn, unit) op \<Rightarrow> int \<Rightarrow> nat \<Rightarrow> ('d axis_runtime, exn, bool) op" where
  "wait_axis_not_operation_enabled exch i 0 = retS False"
| "wait_axis_not_operation_enabled exch i (Suc n) =
     bindS exch (\<lambda>_.
     bindS (liftE (\<lambda>r. tx_int r i ''statusword'')) (\<lambda>w.
       if w AND 0x006F \<noteq> 0x0027 then retS True else wait_axis_not_operation_enabled exch i n))"

fun axes_not_disabled ::
  "('d axis_runtime, exn, unit) op \<Rightarrow> int list \<Rightarrow> ('d axis_runtime, exn, int list) op" where
  "axes_not_disabled exch [] = retS []"
| "axes_not_disabled exch (i # axes) =
     bindS (wait_axis_not_operation_enabled exch i 50) (\<lambda>ok.
     bindS (axes_not_disabled exch axes) (\<lambda>rest. retS (if ok then rest else i # rest)))"

text \<open>Every axis is held and disabled before one of them is restarted; \<open>settle\<close> is the number of
  cycles \<open>keep_pdo_alive_for_seconds\<close> runs.\<close>

definition disable_all_axes ::
  "'d bus_link \<Rightarrow> nat \<Rightarrow> ('d motion_state, exn, unit) op" where
  "disable_all_axes link settle st =
     bindS (forS (all_axes (rt st)) hold_axis_at_actual_position) (\<lambda>_.
     bindS set_controller_targets (\<lambda>_.
     bindS (on_rt rt_sync_to_actual) (\<lambda>_.
     bindS (on_rt (set_controlword_all 0x0007)) (\<lambda>_.
     bindS (on_rt (axes_not_disabled (link_cycle link) (all_axes (rt st)))) (\<lambda>enabled.
       if enabled \<noteq> [] then raiseS RuntimeError
       else on_rt (exchange (link_cycle link) settle)))))) st"

definition restart_preparation ::
  "'d device_update \<Rightarrow> 'd bus_link \<Rightarrow> nat \<Rightarrow> ('d motion_state, exn, unit) op" where
  "restart_preparation upd link settle =
     bindS (stop_active_homing (link_cycle link) upd ''All homing stopped by axis/restart recovery.'') (\<lambda>_.
     bindS (\<lambda>st. if tj_active (trajectory st) then set_trajectory_inactive ''axis_restart'' st
                 else (Inr (), st)) (\<lambda>_. disable_all_axes link settle))"

definition hex_words :: "int list \<Rightarrow> pyval" where
  "hex_words ws = PList (map (\<lambda>w. PStr (''0x'' @ hex04 w)) ws)"

definition restart_result ::
  "real \<Rightarrow> int list \<Rightarrow> int list \<Rightarrow> int \<Rightarrow> pyval \<Rightarrow> pydict" where
  "restart_result settle_time cws sws command_value recovery =
     [(''object'', PStr ''0x2000:01''), (''command'', PInt command_value), (''disabled_controlwords'', hex_words cws),
      (''disabled_statuswords'', hex_words sws), (''disable_settle_time'', PFloat settle_time),
      (''recovery'', recovery)]"

definition restart_axis ::
  "(pyval \<Rightarrow> string) \<Rightarrow> (diag_key \<Rightarrow> string) \<Rightarrow> (exn \<Rightarrow> string) \<Rightarrow> 'd device_update \<Rightarrow> 'd bus_link
   \<Rightarrow> recovery_times \<Rightarrow> nat \<Rightarrow> int \<Rightarrow> string \<Rightarrow> pydict \<Rightarrow> ('d motion_state, exn, handled) op" where
  "restart_axis pstr ids etext upd link tm settle now cmd message =
     bindS (rejecting cmd (ask (\<lambda>r. selected_axes r message))) (\<lambda>axes.
       case axes of
         [i] \<Rightarrow>
           catchS
             (bindS (restart_preparation upd link settle) (\<lambda>_.
              bindS (ask (\<lambda>r. mapE (\<lambda>j. rx_int r j ''controlword'') (all_axes r))) (\<lambda>cws.
              bindS (ask (\<lambda>r. mapE (\<lambda>j. tx_int r j ''statusword'') (all_axes r))) (\<lambda>sws.
              bindS (on_rt (on_drive i (request_axis_restart upd))) (\<lambda>v.
              bindS (restart_axis_runtime pstr ids etext upd link tm now i) (\<lambda>recovery.
              bindS (liftE (\<lambda>st. Inr (max 0 (axis_restart_disable_settle_time st)))) (\<lambda>settle_time.
                retS (HData (PDict [(''axis'', PInt i),
                  (''result'', PDict (restart_result settle_time cws sws v recovery)),
                  (''message'', PStr ''Axis restart completed.'')])))))))))
             (\<lambda>_. raiseS (DeviceAccessException (Some ''axis_restart'')))
       | _ \<Rightarrow> raiseS (OperationException (Some cmd)))"

subsection \<open>Initialization of a session\<close>

definition fail_runtime_initialization ::
  "(diag_key \<Rightarrow> string) \<Rightarrow> int \<Rightarrow> bool \<Rightarrow> InitializationStage \<Rightarrow> exn \<Rightarrow> (ServerSession, exn, unit) op" where
  "fail_runtime_initialization ids now attached stage e =
     bindS (liftE (\<lambda>_. initialization_failure_from_exception stage e now)) (\<lambda>f.
     bindS (modifyS (mark_failed f)) (\<lambda>_.
     bindS (on_manager (dropping (detect_initialization_fault now
              (ids (key_of (code SERVER_INITIALIZATION_FAILED) SERVER_SOURCE))))) (\<lambda>_.
       modifyS (\<lambda>s. if attached then snd (detach_runtime s) else s))))"

text \<open>\<open>create\<close> is the result of building the device models and the runtime: the runtime or the
  stage that failed with its exception.\<close>

definition initialize_runtime_session ::
  "(pyval \<Rightarrow> string) \<Rightarrow> (diag_key \<Rightarrow> string) \<Rightarrow> 'd device_update \<Rightarrow> 'd bus_link \<Rightarrow> (nat \<Rightarrow> nat)
   \<Rightarrow> server_settings \<Rightarrow> int \<Rightarrow> (InitializationStage \<times> exn) + 'd axis_runtime
   \<Rightarrow> (ServerSession, exn, ('d axis_runtime \<times> startup_sdo) option) op" where
  "initialize_runtime_session pstr ids upd link patience cf now create =
     (case create of
        Inl (stage, e) \<Rightarrow> bindS (fail_runtime_initialization ids now False stage e) (\<lambda>_. retS None)
      | Inr r \<Rightarrow>
          bindS (dropping (attach_runtime (Some 0))) (\<lambda>_.
            case link_connect link r of
              (Inl e, r1) \<Rightarrow>
                bindS (fail_runtime_initialization ids now True BUS_CONNECTION e) (\<lambda>_. retS None)
            | (Inr _, r1) \<Rightarrow>
                (case initialize_drive pstr upd link patience (cf_initial_motion_mode cf)
                        (replicate (axis_total r) (cf_csp_interpolation_mode cf)) r1 of
                   (Inl e, r2) \<Rightarrow>
                     bindS (fail_runtime_initialization ids now True DEVICE_INITIALIZATION e) (\<lambda>_. retS None)
                 | (Inr sdo, r2) \<Rightarrow> retS (Some (r2, sdo)))))"

text \<open>The reconnect operation of a server whose initialization failed: on success the degraded
  state is replaced by a full one that keeps the owner of the command authority.\<close>

definition acknowledge_initialization_fault :: "int \<Rightarrow> (DiagnosticManager, exn, unit) op" where
  "acknowledge_initialization_fault now =
     bindS (resolve_initialization_fault now) (\<lambda>fault.
       case fault of None \<Rightarrow> retS () | Some st \<Rightarrow> dropping (acknowledge (diagnostic_id st) now))"

definition abandon_initialization ::
  "(diag_key \<Rightarrow> string) \<Rightarrow> (exn \<Rightarrow> string) \<Rightarrow> int \<Rightarrow> InitializationStage \<Rightarrow> exn
   \<Rightarrow> (ServerSession, exn, 'a) op" where
  "abandon_initialization ids etext now stage e =
     bindS (fail_runtime_initialization ids now True stage e) (\<lambda>_.
     bindS (on_manager (record_bus_reconnect_failure ids etext now e)) (\<lambda>_.
       raiseS (CommunicationException (Some ''bus_reconnect''))))"

definition recover_initialization ::
  "(pyval \<Rightarrow> string) \<Rightarrow> (diag_key \<Rightarrow> string) \<Rightarrow> (exn \<Rightarrow> string) \<Rightarrow> 'd device_update \<Rightarrow> 'd bus_link
   \<Rightarrow> (nat \<Rightarrow> nat) \<Rightarrow> bool \<Rightarrow> server_settings \<Rightarrow> int \<Rightarrow> (InitializationStage \<times> exn) + 'd axis_runtime
   \<Rightarrow> (ServerSession, exn, 'd motion_state) op" where
  "recover_initialization pstr ids etext upd link patience late cf now create =
     bindS (initialize_runtime_session pstr ids upd link patience cf now create) (\<lambda>started.
       case started of
         None \<Rightarrow>
           let e = CommunicationException (Some ''bus_reconnect'')
           in bindS (on_manager (record_bus_reconnect_failure ids etext now e)) (\<lambda>_. raiseS e)
       | Some (r, sdo) \<Rightarrow>
           if late then abandon_initialization ids etext now BUS_CONNECTION TimeoutError
           else (\<lambda>s. case build_initialized_server_state cf now s sdo r of
              (Inl e, r') \<Rightarrow> abandon_initialization ids etext now DEVICE_INITIALIZATION e s
            | (Inr ms, r') \<Rightarrow>
                bindS (modifyS mark_ready) (\<lambda>_.
                bindS (on_manager (acknowledge_initialization_fault now)) (\<lambda>_.
                bindS (on_manager (complete_bus_reconnect_diagnostics now)) (\<lambda>_.
                  retS ms))) s))"

definition reconnect_failed_initialization ::
  "(pyval \<Rightarrow> string) \<Rightarrow> (diag_key \<Rightarrow> string) \<Rightarrow> (exn \<Rightarrow> string) \<Rightarrow> 'd device_update \<Rightarrow> 'd bus_link
   \<Rightarrow> (nat \<Rightarrow> nat) \<Rightarrow> bool \<Rightarrow> server_settings \<Rightarrow> int \<Rightarrow> (InitializationStage \<times> exn) + 'd axis_runtime
   \<Rightarrow> server_state \<Rightarrow> (exn + 'd motion_state) \<times> server_state" where
  "reconnect_failed_initialization pstr ids etext upd link patience late cf now create st =
     (case server_session st of
        None \<Rightarrow> (Inl RuntimeError, st)
      | Some s \<Rightarrow>
          (case recover_initialization pstr ids etext upd link patience late cf now create s of
             (Inl e, s') \<Rightarrow> (Inl e, st\<lparr>server_session := Some s'\<rparr>)
           | (Inr ms, s') \<Rightarrow>
               (Inr (ms\<lparr>init_status := initialization_status s', server_session := Some s',
                        command_authority_owner := command_authority_owner st\<rparr>),
                st\<lparr>server_session := Some s'\<rparr>)))"

end
