(* ===== verification/Trajectory.thy ===== *)
theory Trajectory
  imports Motion_Handlers
begin

section \<open>Trajectories over several axes\<close>

text \<open>
  Models \<^verbatim>\<open>motion_server/control/trajectory_verifier.py\<close>, the conversion of a trajectory request in
  \<^verbatim>\<open>motion_server/control/axis_units.py\<close> and the handlers and the cyclic update of
  \<^verbatim>\<open>motion_server/handlers/command/trajectory.py\<close>. The reason a trajectory is refused is a value of
  \<open>trajectory_error\<close> (the source formats it into a text); the log output of
  \<^verbatim>\<open>trajectory_logging.py\<close> is not modelled. A point of a request that is not an object raises
  \<open>TypeError\<close> here; the source raises one of \<open>TypeError\<close>, \<open>ValueError\<close> and \<open>AttributeError\<close> depending
  on what it is, all of them outside the handler's \<open>try\<close>.
\<close>

subsection \<open>Points\<close>

definition point_value :: "real list option \<Rightarrow> nat \<Rightarrow> real option res" where
  "point_value vs k =
     (case vs of None \<Rightarrow> Inr None | Some xs \<Rightarrow> bindE (py_nth xs (int k)) (\<lambda>x. Inr (Some x)))"

definition axis_timed_point :: "nat \<Rightarrow> way_point \<Rightarrow> traj_point res" where
  "axis_timed_point k p =
     bindE (py_nth (wp_positions p) (int k)) (\<lambda>x.
     bindE (point_value (wp_velocities p) k) (\<lambda>v.
     bindE (point_value (wp_accelerations p) k) (\<lambda>a.
       Inr \<lparr>tp_position = x, tp_velocity = v, tp_acceleration = a,
            time_from_start = wp_time_from_start p\<rparr>)))"

definition axis_timed_points :: "way_point list \<Rightarrow> nat \<Rightarrow> traj_point list res" where
  "axis_timed_points points k = mapE (axis_timed_point k) points"

text \<open>The first \<open>n\<close> numbers of a list of a request; fewer are a \<open>ValueError\<close>.\<close>

definition first_floats :: "nat \<Rightarrow> pyval \<Rightarrow> real list res" where
  "first_floats n v =
     (case v of
        PList vs \<Rightarrow> if length vs < n then Inl ValueError else mapE float_of_value (take n vs)
      | PStr s \<Rightarrow> if length s < n then Inl ValueError
                  else mapE (\<lambda>c. float_of_value (PStr [c])) (take n s)
      | _ \<Rightarrow> Inl TypeError)"

definition optional_floats :: "nat \<Rightarrow> pyval option \<Rightarrow> real list option res" where
  "optional_floats n v =
     (case v of
        None \<Rightarrow> Inr None
      | Some w \<Rightarrow> if w = PNone then Inr None else bindE (first_floats n w) (\<lambda>xs. Inr (Some xs)))"

definition normalize_point :: "nat \<Rightarrow> pydict \<Rightarrow> way_point res" where
  "normalize_point n raw =
     bindE (case map_of raw ''positions'' of None \<Rightarrow> Inr [] | Some v \<Rightarrow> floats_of v) (\<lambda>positions.
       if length positions < n then Inl ValueError
       else
         bindE (case map_of raw ''time_from_start'' of None \<Rightarrow> Inr 0 | Some v \<Rightarrow> float_of_value v) (\<lambda>t.
         bindE (optional_floats n (map_of raw ''velocities'')) (\<lambda>vs.
         bindE (optional_floats n (map_of raw ''accelerations'')) (\<lambda>as.
           Inr \<lparr>wp_positions = take n positions, wp_time_from_start = t, wp_velocities = vs,
                wp_accelerations = as\<rparr>))))"

fun times_monotonic :: "real \<Rightarrow> way_point list \<Rightarrow> bool" where
  "times_monotonic t [] = True"
| "times_monotonic t (p # ps) = (t \<le> wp_time_from_start p \<and> times_monotonic (wp_time_from_start p) ps)"

definition normalize_trajectory_points :: "pydict list \<Rightarrow> int list \<Rightarrow> way_point list res" where
  "normalize_trajectory_points raw axes =
     bindE (mapE (normalize_point (length axes)) raw) (\<lambda>points.
       if times_monotonic (- 1 / 10 ^ 9) points then Inr points else Inl ValueError)"

subsection \<open>Limits\<close>

record axis_limits =
  al_velocity :: real
  al_acceleration :: real
  al_deceleration :: real

definition scaled_limits :: "motion_controller \<Rightarrow> int \<Rightarrow> axis_limits res" where
  "scaled_limits mc i =
     bindE (py_nth (axis_position_counts_per_api_unit mc) i) (\<lambda>scale.
     bindE (py_nth (motion_limits mc) i) (\<lambda>l.
       Inr \<lparr>al_velocity = max_velocity l * scale, al_acceleration = acceleration l * scale,
            al_deceleration = deceleration l * scale\<rparr>))"

definition guarded_limits :: "axis_limits \<Rightarrow> real \<times> real" where
  "guarded_limits l =
     (max (al_velocity l) (1 / 10 ^ 9),
      min (max (al_acceleration l) (1 / 10 ^ 9)) (max (al_deceleration l) (1 / 10 ^ 9)))"

definition rest_duration :: "axis_limits \<Rightarrow> real \<Rightarrow> real" where
  "rest_duration l distance =
     (let (vl, al) = guarded_limits l
      in max (1.875 * distance / vl) (sqrt (5.773502691896258 * distance / al)))"

fun estimate_loop :: "motion_controller \<Rightarrow> real \<Rightarrow> (int \<times> real \<times> real) list \<Rightarrow> real res" where
  "estimate_loop mc duration [] = Inr duration"
| "estimate_loop mc duration ((i, x, y) # rest) =
     bindE (scaled_limits mc i) (\<lambda>l.
       estimate_loop mc (max duration (rest_duration l \<bar>y - x\<bar>)) rest)"

definition estimate_trajectory_duration ::
  "motion_controller \<Rightarrow> int list \<Rightarrow> real list \<Rightarrow> real list \<Rightarrow> real res" where
  "estimate_trajectory_duration mc axes current target =
     bindE (estimate_loop mc 0 (zip axes (zip current target)))
       (\<lambda>duration. Inr (max duration (cycle_time mc)))"

definition trajectory_point_value :: "real list option \<Rightarrow> nat \<Rightarrow> real res" where
  "trajectory_point_value vs k = (case vs of None \<Rightarrow> Inr 0 | Some xs \<Rightarrow> py_nth xs (int k))"

record segment_ends =
  se_p0 :: real
  se_p1 :: real
  se_v0 :: real
  se_v1 :: real
  se_a0 :: real
  se_a1 :: real

definition segment_ends_of :: "way_point \<Rightarrow> way_point \<Rightarrow> nat \<Rightarrow> segment_ends res" where
  "segment_ends_of p q k =
     bindE (py_nth (wp_positions p) (int k)) (\<lambda>p0.
     bindE (py_nth (wp_positions q) (int k)) (\<lambda>p1.
     bindE (trajectory_point_value (wp_velocities p) k) (\<lambda>v0.
     bindE (trajectory_point_value (wp_velocities q) k) (\<lambda>v1.
     bindE (trajectory_point_value (wp_accelerations p) k) (\<lambda>a0.
     bindE (trajectory_point_value (wp_accelerations q) k) (\<lambda>a1.
       Inr \<lparr>se_p0 = p0, se_p1 = p1, se_v0 = v0, se_v1 = v1, se_a0 = a0, se_a1 = a1\<rparr>))))))"

definition sample_segment_peaks :: "segment_ends \<Rightarrow> real \<Rightarrow> real \<times> real" where
  "sample_segment_peaks s duration0 =
     (let duration = max duration0 (1 / 10 ^ 9);
          p0 = se_p0 s; p1 = se_p1 s; v0 = se_v0 s; v1 = se_v1 s; a0 = se_a0 s; a1 = se_a1 s;
          duration2 = duration * duration; duration3 = duration2 * duration;
          duration4 = duration3 * duration; duration5 = duration4 * duration;
          c1 = v0; c2 = a0 / 2;
          c3 = (20 * (p1 - p0) - (8 * v1 + 12 * v0) * duration - (3 * a0 - a1) * duration2)
                 / (2 * duration3);
          c4 = (30 * (p0 - p1) + (14 * v1 + 16 * v0) * duration + (3 * a0 - 2 * a1) * duration2)
                 / (2 * duration4);
          c5 = (12 * (p1 - p0) - (6 * v1 + 6 * v0) * duration - (a0 - a1) * duration2)
                 / (2 * duration5);
          velocity = (\<lambda>t. c1 + 2 * c2 * t + 3 * c3 * t * t + 4 * c4 * t * t * t
                           + 5 * c5 * t * t * t * t);
          acc = (\<lambda>t. 2 * c2 + 6 * c3 * t + 12 * c4 * t * t + 20 * c5 * t * t * t);
          ts = map (\<lambda>i. duration * real i / 64) [0..<65]
      in (fold (\<lambda>t m. max m \<bar>velocity t\<bar>) ts 0, fold (\<lambda>t m. max m \<bar>acc t\<bar>) ts 0))"

fun stretch_duration :: "nat \<Rightarrow> segment_ends \<Rightarrow> real \<Rightarrow> real \<Rightarrow> real \<Rightarrow> real" where
  "stretch_duration 0 s vl al duration = duration"
| "stretch_duration (Suc n) s vl al duration =
     (let (peak_velocity, peak_acceleration) = sample_segment_peaks s duration;
          ratio = max (max (peak_velocity / vl) (sqrt (peak_acceleration / al))) 1
      in if ratio \<le> 1.0001 then duration
         else stretch_duration n s vl al (duration * min (max ratio 1.02) 2))"

definition required_segment_duration_for_axis ::
  "motion_controller \<Rightarrow> int \<Rightarrow> way_point \<Rightarrow> way_point \<Rightarrow> nat \<Rightarrow> real \<Rightarrow> real res" where
  "required_segment_duration_for_axis mc i p q k initial_dt =
     bindE (py_nth (wp_positions q) (int k)) (\<lambda>p1.
     bindE (py_nth (wp_positions p) (int k)) (\<lambda>p0.
     let distance = \<bar>p1 - p0\<bar> in
       if distance \<le> 1 / 10 ^ 9 then Inr (max initial_dt (cycle_time mc))
       else
         bindE (scaled_limits mc i) (\<lambda>l.
         let (vl, al) = guarded_limits l;
             duration = max initial_dt (max (rest_duration l distance) (cycle_time mc))
         in if wp_velocities p = None \<and> wp_velocities q = None then Inr duration
            else bindE (segment_ends_of p q k) (\<lambda>s. Inr (stretch_duration 24 s vl al duration)))))"

datatype trajectory_error =
    Segment_time nat
  | Segment_too_short nat int
  | Waypoint_velocity int
  | Waypoint_acceleration int
  | Segment_acceleration int

definition acceleration_exceeds :: "axis_limits \<Rightarrow> real \<Rightarrow> bool" where
  "acceleration_exceeds l a \<longleftrightarrow>
     \<bar>a\<bar> > (if a \<ge> 0 then al_acceleration l else al_deceleration l) + 1 / 10 ^ 9"

definition check_waypoint :: "int \<Rightarrow> axis_limits \<Rightarrow> nat \<Rightarrow> way_point \<Rightarrow> trajectory_error option res" where
  "check_waypoint i l k p =
     bindE (point_value (wp_velocities p) k) (\<lambda>v.
       if (case v of None \<Rightarrow> False | Some x \<Rightarrow> \<bar>x\<bar> > al_velocity l + 1 / 10 ^ 9)
       then Inr (Some (Waypoint_velocity i))
       else bindE (point_value (wp_accelerations p) k) (\<lambda>a.
         if (case a of None \<Rightarrow> False | Some x \<Rightarrow> acceleration_exceeds l x)
         then Inr (Some (Waypoint_acceleration i)) else Inr None))"

definition check_cubic_ends ::
  "int \<Rightarrow> axis_limits \<Rightarrow> nat \<Rightarrow> real \<Rightarrow> way_point \<Rightarrow> way_point \<Rightarrow> trajectory_error option res" where
  "check_cubic_ends i l k dt p q =
     (if wp_velocities p = None \<and> wp_velocities q = None then Inr None
      else bindE (segment_ends_of p q k) (\<lambda>s.
        let a2 = (3 * (se_p1 s - se_p0 s) / dt - 2 * se_v0 s - se_v1 s) / dt;
            a3 = (2 * (se_p0 s - se_p1 s) / dt + se_v0 s + se_v1 s) / (dt * dt)
        in Inr (if acceleration_exceeds l (2 * a2) \<or> acceleration_exceeds l (2 * a2 + 6 * a3 * dt)
                then Some (Segment_acceleration i) else None)))"

definition first_error :: "trajectory_error option res \<Rightarrow> trajectory_error option res \<Rightarrow> trajectory_error option res" where
  "first_error a b = bindE a (\<lambda>x. case x of None \<Rightarrow> b | Some e \<Rightarrow> Inr (Some e))"

definition check_axis_segment ::
  "motion_controller \<Rightarrow> nat \<Rightarrow> real \<Rightarrow> way_point \<Rightarrow> way_point \<Rightarrow> nat \<Rightarrow> int \<Rightarrow> trajectory_error option res" where
  "check_axis_segment mc n dt p q k i =
     bindE (scaled_limits mc i) (\<lambda>l.
     bindE (required_segment_duration_for_axis mc i p q k (cycle_time mc)) (\<lambda>required.
       if required > dt + 1 / 10 ^ 9 then Inr (Some (Segment_too_short n i))
       else first_error (check_waypoint i l k p)
              (first_error (check_waypoint i l k q) (check_cubic_ends i l k dt p q))))"

fun check_axes ::
  "motion_controller \<Rightarrow> nat \<Rightarrow> real \<Rightarrow> way_point \<Rightarrow> way_point \<Rightarrow> nat \<Rightarrow> int list \<Rightarrow> trajectory_error option res" where
  "check_axes mc n dt p q k [] = Inr None"
| "check_axes mc n dt p q k (i # axes) =
     first_error (check_axis_segment mc n dt p q k i) (check_axes mc n dt p q (Suc k) axes)"

fun check_segments :: "motion_controller \<Rightarrow> int list \<Rightarrow> nat \<Rightarrow> way_point list \<Rightarrow> trajectory_error option res" where
  "check_segments mc axes n (p # q # rest) =
     (let dt = wp_time_from_start q - wp_time_from_start p
      in if dt \<le> 0 then Inr (Some (Segment_time n))
         else first_error (check_axes mc n dt p q 0 axes) (check_segments mc axes (Suc n) (q # rest)))"
| "check_segments mc axes n points = Inr None"

definition validate_trajectory_limits ::
  "motion_controller \<Rightarrow> int list \<Rightarrow> way_point list \<Rightarrow> trajectory_error option res" where
  "validate_trajectory_limits mc axes points = check_segments mc axes 1 points"

subsection \<open>Requests\<close>

definition request_axes :: "pydict \<Rightarrow> nat \<Rightarrow> int list res" where
  "request_axes message n =
     bindE (case map_of message ''axes'' of None \<Rightarrow> Inr [] | Some v \<Rightarrow> iter_value v) (\<lambda>vs.
       if vs = [] then Inr (map int [0..<n]) else mapE int_of_value vs)"

definition convert_point :: "unit_converter \<Rightarrow> int list \<Rightarrow> pyval \<Rightarrow> pydict res" where
  "convert_point c axes point =
     (case point of
        PDict d \<Rightarrow>
          bindE (case map_of d ''positions'' of None \<Rightarrow> Inr [] | Some v \<Rightarrow> iter_value v) (\<lambda>vs.
          bindE (mapE (\<lambda>(i, v). bindE (float_of_value v) (\<lambda>x.
                   bindE (position_api_to_drive c i x) require_int32)) (zip axes vs)) (\<lambda>xs.
            Inr (dict_set d ''positions'' (PList (map PInt xs)))))
      | _ \<Rightarrow> Inl TypeError)"

text \<open>The points of \<open>trajectory_message_api_to_drive\<close>; the rest of the message is copied.\<close>

definition trajectory_message_api_to_drive ::
  "unit_converter \<Rightarrow> nat \<Rightarrow> pydict \<Rightarrow> pydict list res" where
  "trajectory_message_api_to_drive c n message =
     bindE (request_axes message n) (\<lambda>axes.
     bindE (case map_of message ''points'' of None \<Rightarrow> Inr [] | Some v \<Rightarrow> iter_value v)
       (mapE (convert_point c axes)))"

definition end_trajectory :: "string \<Rightarrow> string \<Rightarrow> ('d motion_state, exn, 'a) op" where
  "end_trajectory result message =
     bindS (modifyS (\<lambda>s. s\<lparr>trajectory := (inactive_trajectory_state result)\<lparr>tj_message := message\<rparr>\<rparr>))
       (\<lambda>_. raiseS (OperationException (Some ''system/axes/trajectory'')))"

abbreviation reject_trajectory :: "string \<Rightarrow> ('d motion_state, exn, 'a) op" where
  "reject_trajectory message \<equiv> end_trajectory ''rejected'' message"

abbreviation fault_trajectory :: "string \<Rightarrow> ('d motion_state, exn, 'a) op" where
  "fault_trajectory message \<equiv> end_trajectory ''fault'' message"

definition same_trajectory_target :: "trajectory_state \<Rightarrow> int list \<Rightarrow> way_point list \<Rightarrow> bool" where
  "same_trajectory_target tj axes points \<longleftrightarrow>
     tj_active tj \<and> tj_axes tj = axes \<and> tj_points tj \<noteq> [] \<and> points \<noteq> [] \<and>
     (let old = wp_positions (last (tj_points tj)); new = wp_positions (last points)
      in length old = length new \<and> list_all (\<lambda>(x, y). \<bar>x - y\<bar> \<le> 1 / 10 ^ 6) (zip old new))"

text \<open>A single target is turned into a move from the commanded positions.\<close>

definition expand_single_point ::
  "int list \<Rightarrow> way_point list \<Rightarrow> motion_controller \<Rightarrow> way_point list res" where
  "expand_single_point axes points mc =
     (case points of
        [p] \<Rightarrow>
          bindE (command_positions mc axes) (\<lambda>current.
          bindE (estimate_trajectory_duration mc axes current (wp_positions p)) (\<lambda>duration.
            Inr [\<lparr>wp_positions = current, wp_time_from_start = 0, wp_velocities = None,
                  wp_accelerations = None\<rparr>,
                 \<lparr>wp_positions = wp_positions p, wp_time_from_start = duration, wp_velocities = None,
                  wp_accelerations = None\<rparr>]))
      | _ \<Rightarrow> Inr points)"

definition reject_faulted_trajectory :: "(int list \<Rightarrow> string) \<Rightarrow> ('d motion_state, exn, unit) op" where
  "reject_faulted_trajectory fault_text =
     bindS (ask faulted_axes) (\<lambda>faults.
       if faults = [] then retS ()
       else bindS hold_faulted_axes (\<lambda>_. bindS (on_rt rt_sync_to_actual)
              (\<lambda>_. reject_trajectory (fault_text faults))))"

definition activate_trajectory :: "real \<Rightarrow> int list \<Rightarrow> way_point list \<Rightarrow> ('d motion_state, exn, unit) op" where
  "activate_trajectory now axes points =
     bindS (liftE (\<lambda>_. mapE (axis_timed_points points) [0..<length axes])) (\<lambda>by_axis.
     bindS (on_rt (on_controller (set_axis_trajectories axes by_axis))) (\<lambda>_.
     bindS (on_rt (forS axes (\<lambda>i. bindS (set_rx i ''mode_of_operation'' CSP_MODE)
                                    (\<lambda>_. set_rx i ''controlword'' 0x000F)))) (\<lambda>_.
       modifyS (\<lambda>s. s\<lparr>trajectory := \<lparr>tj_active = True, tj_state = ''running'', tj_axes = axes,
           tj_segment = 0, tj_time_from_start = 0, tj_points = points, tj_start_time = Some now,
           tj_message = []\<rparr>,
         trajectory_sequence := trajectory_sequence s + 1\<rparr>))))"

text \<open>The texts a refused trajectory carries.\<close>

record trajectory_texts =
  exception_text :: "exn \<Rightarrow> string"
  invalid_axes_text :: "int list \<Rightarrow> string"
  faulted_text :: "int list \<Rightarrow> string"
  disabled_axes_text :: "int list \<Rightarrow> string"
  limit_text :: "trajectory_error \<Rightarrow> string"

definition start_trajectory ::
  "trajectory_texts \<Rightarrow> real \<Rightarrow> int list \<Rightarrow> way_point list \<Rightarrow> ('d motion_state, exn, unit) op" where
  "start_trajectory tx now axes points0 =
     bindS (ensure_csp_mode axes) (\<lambda>_.
     bindS (ask (\<lambda>r. expand_single_point axes points0 (controller r))) (\<lambda>points.
     bindS (liftE (\<lambda>st. Inr (same_trajectory_target (trajectory st) axes points))) (\<lambda>same.
       if same then retS ()
       else
         bindS (ask (\<lambda>r. validate_trajectory_limits (controller r) axes points)) (\<lambda>err.
           case err of
             Some e \<Rightarrow> fault_trajectory (limit_text tx e)
           | None \<Rightarrow> activate_trajectory now axes points))))"

definition move ::
  "trajectory_texts \<Rightarrow> real \<Rightarrow> int list \<Rightarrow> pydict list \<Rightarrow> ('d motion_state, exn, unit) op" where
  "move tx now axes raw =
     bindS (catchS (liftE (\<lambda>_. normalize_trajectory_points raw axes))
              (\<lambda>e. if isinstance e CTypeError \<or> isinstance e CValueError
                    then reject_trajectory (exception_text tx e) else raiseS e)) (\<lambda>points.
     bindS (ask (\<lambda>r. Inr (list_ex (\<lambda>i. i < 0 \<or> i \<ge> int (axis_total r)) axes))) (\<lambda>invalid.
       if invalid then reject_trajectory (invalid_axes_text tx axes)
       else if points = [] then reject_trajectory ''system/axes/trajectory requires at least one point''
       else
         bindS (reject_faulted_trajectory (faulted_text tx)) (\<lambda>_.
         bindS (ask (\<lambda>r. disabled_operation_axes r axes)) (\<lambda>disabled.
           if disabled \<noteq> [] then reject_trajectory (disabled_axes_text tx disabled)
           else start_trajectory tx now axes points))))"

definition point_pyval :: "way_point \<Rightarrow> pyval" where
  "point_pyval p =
     PDict ([(''positions'', PList (map PFloat (wp_positions p))),
             (''time_from_start'', PFloat (wp_time_from_start p))]
       @ (case wp_velocities p of None \<Rightarrow> [] | Some vs \<Rightarrow> [(''velocities'', PList (map PFloat vs))])
       @ (case wp_accelerations p of None \<Rightarrow> [] | Some vs \<Rightarrow> [(''accelerations'', PList (map PFloat vs))]))"

definition trajectory_pyval :: "trajectory_state \<Rightarrow> pyval" where
  "trajectory_pyval tj =
     PDict [(''active'', PBool (tj_active tj)), (''state'', PStr (tj_state tj)),
            (''axes'', PList (map PInt (tj_axes tj))), (''segment'', PInt (tj_segment tj)),
            (''time_from_start'', PFloat (tj_time_from_start tj)),
            (''points'', PList (map point_pyval (tj_points tj))),
            (''start_time'', case tj_start_time tj of None \<Rightarrow> PNone | Some t \<Rightarrow> PFloat t),
            (''message'', PStr (tj_message tj))]"

definition move_api ::
  "trajectory_texts \<Rightarrow> real \<Rightarrow> pydict \<Rightarrow> ('d motion_state, exn, handled) op" where
  "move_api tx now message =
     bindS (liftE (\<lambda>st. trajectory_message_api_to_drive (converter (rt st)) (length (target_positions st)) message))
       (\<lambda>raw.
     bindS (ask (\<lambda>r. request_axes message (axis_total r))) (\<lambda>axes.
     bindS (move tx now axes raw) (\<lambda>_.
     bindS (liftE (\<lambda>st. Inr (trajectory_pyval (trajectory st)))) (\<lambda>v.
       retS (HData (PDict [(''trajectory'', v)]))))))"

definition stop_mode_text :: "string \<Rightarrow> string" where
  "stop_mode_text mode = ''Unsupported stop mode: '' @ mode"

definition stop_trajectory ::
  "(pyval \<Rightarrow> string) \<Rightarrow> (exn \<Rightarrow> string) \<Rightarrow> string \<Rightarrow> pydict \<Rightarrow> ('d motion_state, exn, unit) op" where
  "stop_trajectory pstr etext cmd message =
     (let mode = request_text pstr message ''mode'' ''controlled'';
          refuse = (\<lambda>text. modifyS (\<lambda>s. s\<lparr>trajectory :=
                      (inactive_trajectory_state ''stop_rejected'')\<lparr>tj_message := text\<rparr>\<rparr>))
      in if mode \<noteq> ''controlled'' then
           bindS (refuse (stop_mode_text mode))
             (\<lambda>_. raiseS (UnsupportedOperationException cmd (Some (''stop_mode:'' @ mode))))
         else
           bindS (set_trajectory_inactive ''stopped'') (\<lambda>_.
           bindS (catchS (ask (\<lambda>r. selected_axes r message))
                    (\<lambda>e. bindS (refuse (etext e)) (\<lambda>_. raiseS e))) (\<lambda>axes.
           bindS (reject_if_any_axis_disabled axes cmd) (\<lambda>_.
           bindS (ensure_csp_mode axes) (\<lambda>_.
           bindS (ask actual_positions) (\<lambda>positions.
           bindS (hold_positions positions) (\<lambda>_.
             on_rt (command_csp_positions positions axes))))))))"

subsection \<open>The cyclic update of an active trajectory\<close>

definition assign_all :: "(int \<times> real) list \<Rightarrow> real list \<Rightarrow> real list res" where
  "assign_all updates targets =
     fold (\<lambda>(i, x) acc. bindE acc (\<lambda>xs. bindE (py_index xs i) (\<lambda>k. Inr (xs[k := x])))) updates (Inr targets)"

definition finish_trajectory :: "real \<Rightarrow> int list \<Rightarrow> way_point list \<Rightarrow> real list \<Rightarrow> ('d motion_state, exn, unit) op" where
  "finish_trajectory now axes points positions =
     bindS (on_rt (rt_complete_trajectory axes (wp_positions (last points)))) (\<lambda>completed.
     bindS (liftE (\<lambda>_. assign_all completed positions)) (\<lambda>final.
       modifyS (\<lambda>s. s\<lparr>target_positions := final,
         trajectory := (trajectory s)\<lparr>tj_active := False, tj_state := ''complete'',
           tj_segment := max 0 (int (length points) - 2)\<rparr>,
         last_trajectory_complete_time := Some now\<rparr>)))"

definition update_active :: "real \<Rightarrow> ('d motion_state, exn, unit) op" where
  "update_active now st =
     (let tj = trajectory st; axes = tj_axes tj; points = tj_points tj
      in if \<not> tj_active tj then (Inr (), st)
         else
           bindS (ask (\<lambda>r. trajectory_progress (controller r) axes)) (\<lambda>pr.
           bindS (liftE (\<lambda>s. assign_all (pr_positions pr) (target_positions s))) (\<lambda>positions.
           bindS (modifyS (\<lambda>s. s\<lparr>target_positions := positions,
                    trajectory := (trajectory s)\<lparr>tj_time_from_start := pr_elapsed pr,
                      tj_segment := int (pr_segment pr)\<rparr>\<rparr>)) (\<lambda>_.
             if points = [] then raiseS IndexError
             else if \<not> pr_active pr \<or> pr_elapsed pr \<ge> wp_time_from_start (last points)
             then finish_trajectory now axes points positions
             else retS ()))) st)"

end
