(* ===== verification/Client_Transport.thy ===== *)
theory Client_Transport
  imports Api
begin

section \<open>Client connections: framing, buffering, the service loop\<close>

text \<open>
  Models \<^verbatim>\<open>motion_server/app/client_transport.py\<close>, \<^verbatim>\<open>send_client_message\<close> of
  \<^verbatim>\<open>motion_server/api/encoder.py\<close> and the client part of \<^verbatim>\<open>run_server_loop\<close> in
  \<^verbatim>\<open>motion_server/server.py\<close>: accepting connections, servicing each of them, closing the ones that
  fail, and the restart action. Text is represented by its UTF-8 bytes, so decoding a chunk is a
  validity check. What the sockets and the clock return is an input of each round; the JSON
  library is the pair of arguments \<open>loads\<close> (\<open>None\<close> is \<open>JSONDecodeError\<close>) and \<open>dumps\<close>; the request
  handlers and the feedback message are arguments too. The lemmas give the framing law (how the
  byte stream is cut into chunks does not matter) and the invariant of the service loop.
\<close>

subsection \<open>UTF-8\<close>

definition continuation :: "nat \<Rightarrow> bool" where
  "continuation b \<longleftrightarrow> 0x80 \<le> b \<and> b \<le> 0xBF"

fun utf8_valid :: "nat list \<Rightarrow> bool" where
  "utf8_valid [] = True"
| "utf8_valid (a # bs) =
     (if a \<le> 0x7F then utf8_valid bs
      else if 0xC2 \<le> a \<and> a \<le> 0xDF then
        (case bs of b # r \<Rightarrow> continuation b \<and> utf8_valid r | _ \<Rightarrow> False)
      else if 0xE0 \<le> a \<and> a \<le> 0xEF then
        (case bs of b # c # r \<Rightarrow>
             continuation b \<and> (a = 0xE0 \<longrightarrow> 0xA0 \<le> b) \<and> (a = 0xED \<longrightarrow> b \<le> 0x9F)
             \<and> continuation c \<and> utf8_valid r
         | _ \<Rightarrow> False)
      else if 0xF0 \<le> a \<and> a \<le> 0xF4 then
        (case bs of b # c # d # r \<Rightarrow>
             continuation b \<and> (a = 0xF0 \<longrightarrow> 0x90 \<le> b) \<and> (a = 0xF4 \<longrightarrow> b \<le> 0x8F)
             \<and> continuation c \<and> continuation d \<and> utf8_valid r
         | _ \<Rightarrow> False)
      else False)"

definition decode_utf8 :: "string \<Rightarrow> string res" where
  "decode_utf8 chunk = (if utf8_valid (map of_char chunk) then Inr chunk else Inl ValueError)"

subsection \<open>Connections\<close>

record client =
  client_id :: int
  input_buffer :: string
  output_buffer :: string
  last_feedback_time :: real

definition new_client :: "int \<Rightarrow> client" where
  "new_client i = \<lparr>client_id = i, input_buffer = [], output_buffer = [], last_feedback_time = 0\<rparr>"

text \<open>What the operating system answers during one service of a connection.\<close>

datatype recv_result = NotReadable | RecvWouldBlock | Received string | RecvFailed
datatype send_result = SendWouldBlock | Sent nat | SendFailed

record client_io =
  io_recv :: recv_result
  io_send :: send_result
  io_now :: real

subsection \<open>Output\<close>

definition MAX_CLIENT_OUTPUT_BUFFER_BYTES :: int where
  "MAX_CLIENT_OUTPUT_BUFFER_BYTES = 4 * 1024 * 1024"

abbreviation newline :: char where
  "newline \<equiv> CHR 0x0A"

definition send_client_message :: "(pyval \<Rightarrow> string) \<Rightarrow> pydict \<Rightarrow> string \<Rightarrow> string res" where
  "send_client_message dumps message out =
     (let payload = dumps (PDict message) @ [newline]
      in if int (length out) + int (length payload) > MAX_CLIENT_OUTPUT_BUFFER_BYTES
         then Inl (Exn CConnectionError []) else Inr (out @ payload))"

definition flush_client_output :: "send_result \<Rightarrow> client \<Rightarrow> exn option \<times> client" where
  "flush_client_output s c =
     (if output_buffer c = [] then (None, c)
      else case s of
        SendWouldBlock \<Rightarrow> (None, c)
      | SendFailed \<Rightarrow> (Some OSError, c)
      | Sent n \<Rightarrow> if n = 0 then (Some (Exn CConnectionError []), c)
                  else (None, c\<lparr>output_buffer := drop n (output_buffer c)\<rparr>))"

definition invalid_request_message :: "string \<Rightarrow> pydict" where
  "invalid_request_message reason =
     fail_response \<lparr>response_type = ''invalid_request'', request_id = None\<rparr>
       (map_exception (InvalidRequestException reason))"

subsection \<open>Input\<close>

definition split_line :: "string \<Rightarrow> (string \<times> string) option" where
  "split_line buf =
     (if newline \<in> set buf then
        Some (takeWhile (\<lambda>c. c \<noteq> newline) buf, tl (dropWhile (\<lambda>c. c \<noteq> newline) buf))
      else None)"

text \<open>The effect of one line on the output buffer and the server state: what \<open>dispatch_message\<close>
  or \<open>_send_invalid_request\<close> do. The third component is the exception that leaves it.\<close>

definition reply :: "(pyval \<Rightarrow> string) \<Rightarrow> pydict \<Rightarrow> string \<Rightarrow> 's \<Rightarrow> exn option \<times> string \<times> 's" where
  "reply dumps message out st =
     (case send_client_message dumps message out of
        Inl e \<Rightarrow> (Some e, out, st) | Inr out' \<Rightarrow> (None, out', st))"

definition process_line ::
  "(string \<Rightarrow> pyval option) \<Rightarrow> (pyval \<Rightarrow> string) \<Rightarrow> (pydict \<Rightarrow> ('s, exn, pydict) op)
   \<Rightarrow> string \<Rightarrow> string \<Rightarrow> 's \<Rightarrow> exn option \<times> string \<times> 's" where
  "process_line loads dumps route line out st =
     (if strip line = [] then (None, out, st)
      else case loads line of
        None \<Rightarrow> reply dumps (invalid_request_message ''malformed_json'') out st
      | Some (PDict message) \<Rightarrow>
          (case route message st of
             (Inl e, st') \<Rightarrow> (Some e, out, st')
           | (Inr response, st') \<Rightarrow> reply dumps response out st')
      | Some _ \<Rightarrow>
          reply dumps (invalid_request_message ''request must be a JSON object'') out st)"

function process_lines ::
  "(string \<Rightarrow> pyval option) \<Rightarrow> (pyval \<Rightarrow> string) \<Rightarrow> (pydict \<Rightarrow> ('s, exn, pydict) op)
   \<Rightarrow> string \<Rightarrow> string \<Rightarrow> 's \<Rightarrow> exn option \<times> string \<times> string \<times> 's" where
  "process_lines loads dumps route buf out st =
     (case split_line buf of
        None \<Rightarrow> (None, buf, out, st)
      | Some (line, rest) \<Rightarrow>
          (case process_line loads dumps route line out st of
             (Some e, out', st') \<Rightarrow> (Some e, rest, out', st')
           | (None, out', st') \<Rightarrow> process_lines loads dumps route rest out' st'))"
  by pat_completeness auto

lemma split_line_shorter:
  assumes "split_line buf = Some (line, rest)"
  shows "length rest < length buf"
proof -
  have "dropWhile (\<lambda>c. c \<noteq> newline) buf \<noteq> []" "rest = tl (dropWhile (\<lambda>c. c \<noteq> newline) buf)"
    using assms by (auto simp: split_line_def split: if_splits)
  moreover have "length (dropWhile (\<lambda>c. c \<noteq> newline) buf) \<le> length buf"
    by (rule length_dropWhile_le)
  ultimately show ?thesis by (cases "dropWhile (\<lambda>c. c \<noteq> newline) buf") auto
qed

termination process_lines
  by (relation "measure (\<lambda>(loads, dumps, route, buf, out, st). length buf)")
    (auto dest: split_line_shorter)

declare process_lines.simps [simp del]

text \<open>One service of a connection: \<open>None\<close> when an exception leaves it, otherwise whether the
  connection stays open.\<close>

definition service_client ::
  "(string \<Rightarrow> pyval option) \<Rightarrow> (pyval \<Rightarrow> string) \<Rightarrow> (int \<Rightarrow> pydict \<Rightarrow> ('s, exn, pydict) op)
   \<Rightarrow> recv_result \<Rightarrow> client \<Rightarrow> 's \<Rightarrow> (exn + bool) \<times> client \<times> 's" where
  "service_client loads dumps route r c st =
     (case r of
        NotReadable \<Rightarrow> (Inr True, c, st)
      | RecvWouldBlock \<Rightarrow> (Inr True, c, st)
      | RecvFailed \<Rightarrow> (Inl OSError, c, st)
      | Received chunk \<Rightarrow>
          if chunk = [] then (Inr False, c, st)
          else case decode_utf8 chunk of
            Inl e \<Rightarrow> (Inl e, c, st)
          | Inr text \<Rightarrow>
              (case process_lines loads dumps (route (client_id c)) (input_buffer c @ text)
                      (output_buffer c) st of
                 (x, buf, out, st') \<Rightarrow>
                   ((case x of None \<Rightarrow> Inr True | Some e \<Rightarrow> Inl e),
                    c\<lparr>input_buffer := buf, output_buffer := out\<rparr>, st')))"

definition send_feedback_if_due ::
  "(pyval \<Rightarrow> string) \<Rightarrow> ('s \<Rightarrow> int \<Rightarrow> pydict res) \<Rightarrow> real \<Rightarrow> real \<Rightarrow> client \<Rightarrow> 's \<Rightarrow> exn option \<times> client" where
  "send_feedback_if_due dumps feedback period now c st =
     (if now - last_feedback_time c < period then (None, c)
      else case feedback st (client_id c) of
        Inl e \<Rightarrow> (Some e, c)
      | Inr message \<Rightarrow>
          (case send_client_message dumps message (output_buffer c) of
             Inl e \<Rightarrow> (Some e, c)
           | Inr out \<Rightarrow> (None, c\<lparr>output_buffer := out, last_feedback_time := now\<rparr>)))"

definition close_client :: "int \<Rightarrow> 'a server_state_scheme \<Rightarrow> 'a server_state_scheme" where
  "close_client i st =
     (if command_authority_owner st = Some i then st\<lparr>command_authority_owner := None\<rparr> else st)"

subsection \<open>Connection ids\<close>

function first_free :: "int list \<Rightarrow> int \<Rightarrow> int" where
  "first_free used n = (if n \<in> set used then first_free used (n + 1) else n)"
  by pat_completeness auto

termination first_free
proof (relation "measure (\<lambda>(used, n). card {m \<in> set used. n \<le> m})", goal_cases)
  case 1 show ?case by simp
next
  case (2 used n)
  then have "n \<in> {m \<in> set used. n \<le> m} - {m \<in> set used. n + 1 \<le> m}"
    "{m \<in> set used. n + 1 \<le> m} \<subseteq> {m \<in> set used. n \<le> m}" by auto
  then have "{m \<in> set used. n + 1 \<le> m} \<subset> {m \<in> set used. n \<le> m}" by blast
  then show ?case by (simp add: psubset_card_mono)
qed

declare first_free.simps [simp del]

definition allocate_client_id :: "client list \<Rightarrow> int" where
  "allocate_client_id cs = first_free (map client_id cs) 1"

subsection \<open>The service loop\<close>

text \<open>The \<open>try\<close> block around one connection, and the loop over the connections. An \<open>OSError\<close> (a
  \<open>ConnectionError\<close> is one) closes the connection; any other exception ends the loop.\<close>

definition serve_one ::
  "(string \<Rightarrow> pyval option) \<Rightarrow> (pyval \<Rightarrow> string) \<Rightarrow> (int \<Rightarrow> pydict \<Rightarrow> ('a server_state_scheme, exn, pydict) op)
   \<Rightarrow> ('a server_state_scheme \<Rightarrow> int \<Rightarrow> pydict res) \<Rightarrow> real \<Rightarrow> client_io \<Rightarrow> client
   \<Rightarrow> 'a server_state_scheme \<Rightarrow> exn option \<times> client option \<times> 'a server_state_scheme" where
  "serve_one loads dumps route feedback period io c st =
     (let guard = (\<lambda>e c' st'. if isinstance e COSError
                     then (None, None, close_client (client_id c) st') else (Some e, Some c', st'))
      in case service_client loads dumps route (io_recv io) c st of
           (Inl e, c1, st1) \<Rightarrow> guard e c1 st1
         | (Inr False, c1, st1) \<Rightarrow> (None, None, close_client (client_id c) st1)
         | (Inr True, c1, st1) \<Rightarrow>
             (case send_feedback_if_due dumps feedback period (io_now io) c1 st1 of
                (Some e, c2) \<Rightarrow> guard e c2 st1
              | (None, c2) \<Rightarrow>
                  (case flush_client_output (io_send io) c2 of
                     (Some e, c3) \<Rightarrow> guard e c3 st1
                   | (None, c3) \<Rightarrow> (None, Some c3, st1))))"

fun serve_clients ::
  "(string \<Rightarrow> pyval option) \<Rightarrow> (pyval \<Rightarrow> string) \<Rightarrow> (int \<Rightarrow> pydict \<Rightarrow> ('a server_state_scheme, exn, pydict) op)
   \<Rightarrow> ('a server_state_scheme \<Rightarrow> int \<Rightarrow> pydict res) \<Rightarrow> real \<Rightarrow> (int \<Rightarrow> client_io)
   \<Rightarrow> client list \<Rightarrow> 'a server_state_scheme \<Rightarrow> exn option \<times> client list \<times> 'a server_state_scheme" where
  "serve_clients loads dumps route feedback period io [] st = (None, [], st)"
| "serve_clients loads dumps route feedback period io (c # cs) st =
     (case serve_one loads dumps route feedback period (io (client_id c)) c st of
        (x, kept, st1) \<Rightarrow>
          (let keep = (case kept of None \<Rightarrow> [] | Some c' \<Rightarrow> [c'])
           in case x of
                Some e \<Rightarrow> (Some e, keep @ cs, st1)
              | None \<Rightarrow>
                  (case serve_clients loads dumps route feedback period io cs st1 of
                     (y, cs', st2) \<Rightarrow> (y, keep @ cs', st2))))"

definition accept_client :: "client list \<Rightarrow> client list" where
  "accept_client cs = cs @ [new_client (allocate_client_id cs)]"

definition close_all :: "client list \<Rightarrow> 'a server_state_scheme \<Rightarrow> 'a server_state_scheme" where
  "close_all cs st = fold (\<lambda>c. close_client (client_id c)) cs st"

subsection \<open>Framing\<close>

lemma split_line_append_Some:
  assumes "split_line x = Some (line, rest)"
  shows "split_line (x @ y) = Some (line, rest @ y)"
proof -
  have n: "newline \<in> set x" using assms by (auto simp: split_line_def split: if_splits)
  then have "dropWhile (\<lambda>c. c \<noteq> newline) x \<noteq> []"
    by (simp add: dropWhile_eq_Nil_conv)
  with n assms show ?thesis
    by (auto simp: split_line_def takeWhile_append dropWhile_append)
qed

lemma split_line_None [simp]: "newline \<notin> set x \<Longrightarrow> split_line x = None"
  by (simp add: split_line_def)

text \<open>Reading \<open>x\<close> and then \<open>y\<close> is reading \<open>x @ y\<close>.\<close>

lemma process_lines_append:
  "process_lines loads dumps route (x @ y) out st =
     (case process_lines loads dumps route x out st of
        (None, buf, out', st') \<Rightarrow> process_lines loads dumps route (buf @ y) out' st'
      | (Some e, buf, out', st') \<Rightarrow> (Some e, buf @ y, out', st'))"
proof (induction loads dumps route x out st rule: process_lines.induct)
  case (1 loads dumps route buf out st)
  show ?case
  proof (cases "split_line buf")
    case None
    then show ?thesis by (simp add: process_lines.simps [of loads dumps route buf])
  next
    case (Some p)
    then obtain line rest where p: "split_line buf = Some (line, rest)" by (cases p) auto
    obtain x out' st' where l: "process_line loads dumps route line out st = (x, out', st')"
      by (cases "process_line loads dumps route line out st") auto
    show ?thesis
      using 1 [OF p refl l [symmetric]] p l split_line_append_Some [OF p]
      by (cases x)
        (simp_all add: process_lines.simps [of loads dumps route buf]
          process_lines.simps [of loads dumps route "buf @ y"])
  qed
qed

lemma process_lines_no_newline_left:
  "process_lines loads dumps route x out st = (None, buf, out', st') \<Longrightarrow> newline \<notin> set buf"
proof (induction loads dumps route x out st rule: process_lines.induct)
  case (1 loads dumps route x out st)
  note IH = 1(1) and eq = 1(2) [unfolded process_lines.simps [of loads dumps route x]]
  show ?case
  proof (cases "split_line x")
    case None
    with eq show ?thesis by (auto simp: split_line_def split: if_splits)
  next
    case (Some p)
    then obtain line rest where p: "split_line x = Some (line, rest)" by (cases p) auto
    obtain y o' s' where l: "process_line loads dumps route line out st = (y, o', s')"
      by (cases "process_line loads dumps route line out st") auto
    show ?thesis using eq IH [OF p refl l [symmetric]] p l by (cases y) simp_all
  qed
qed

subsection \<open>Ids and the loop invariant\<close>

lemma first_free_spec:
  "first_free used n \<notin> set used \<and> n \<le> first_free used n \<and> {n..<first_free used n} \<subseteq> set used"
proof (induction used n rule: first_free.induct)
  case (1 used n)
  show ?case
  proof (cases "n \<in> set used")
    case True
    have "{n..<m} = insert n {n + 1..<m}" if "n + 1 \<le> m" for m using that by auto
    with 1 True show ?thesis by (simp add: first_free.simps [of used n])
  next
    case False
    then show ?thesis by (simp add: first_free.simps [of used n])
  qed
qed

lemma allocate_client_id_fresh: "allocate_client_id cs \<notin> client_id ` set cs"
  using first_free_spec [of "map client_id cs" 1] by (simp add: allocate_client_id_def)

definition transport_inv :: "client list \<Rightarrow> 'a server_state_scheme \<Rightarrow> bool" where
  "transport_inv cs st \<longleftrightarrow>
     distinct (map client_id cs) \<and>
     (\<forall>i. command_authority_owner st = Some i \<longrightarrow> i \<in> client_id ` set cs) \<and>
     (\<forall>c \<in> set cs. int (length (output_buffer c)) \<le> MAX_CLIENT_OUTPUT_BUFFER_BYTES)"

text \<open>The interface the service loop needs of the request handling: serving a request of
  connection \<open>i\<close> either leaves the owner of the command authority alone, or gives a free authority
  to \<open>i\<close>, or takes it back from \<open>i\<close>.\<close>

definition owner_step :: "int \<Rightarrow> int option \<Rightarrow> int option \<Rightarrow> bool" where
  "owner_step i a b \<longleftrightarrow> b = a \<or> a = None \<and> b = Some i \<or> a = Some i \<and> b = None"

lemma owner_step_trans: "owner_step i a b \<Longrightarrow> owner_step i b c \<Longrightarrow> owner_step i a c"
  by (auto simp: owner_step_def)

lemma send_client_message_bounded:
  "send_client_message dumps msg out = Inr out' \<Longrightarrow> int (length out') \<le> MAX_CLIENT_OUTPUT_BUFFER_BYTES"
  by (auto simp: send_client_message_def Let_def split: if_splits)

lemma reply_effect:
  assumes "reply dumps m out st = (x, out', st')"
  shows "st' = st"
    and "int (length out) \<le> MAX_CLIENT_OUTPUT_BUFFER_BYTES \<Longrightarrow> int (length out') \<le> MAX_CLIENT_OUTPUT_BUFFER_BYTES"
  using assms send_client_message_bounded [of dumps m out]
  by (cases "send_client_message dumps m out"; auto simp: reply_def)+

lemma process_line_cases:
  assumes "process_line loads dumps route line out st = (x, out', st')"
  obtains "out' = out" "st' = st" | r where "reply dumps r out st = (x, out', st')"
  | m where "out' = out" "st' = snd (route m st)"
  | m r where "reply dumps r out (snd (route m st)) = (x, out', st')"
proof (cases "strip line = []")
  case True
  with assms that(1) show ?thesis by (simp add: process_line_def)
next
  case nonblank: False
  show ?thesis
  proof (cases "\<exists>m. loads line = Some (PDict m)")
    case True
    then obtain m where m: "loads line = Some (PDict m)" by blast
    obtain r s where r: "route m st = (r, s)" by fastforce
    show ?thesis
      using assms nonblank m r that(3) [of m] that(4) [of _ m]
      by (cases r) (simp_all add: process_line_def)
  next
    case False
    with assms nonblank that(2) show ?thesis
      unfolding process_line_def by (cases "loads line"; cases "the (loads line)") auto
  qed
qed

lemma process_line_effect:
  assumes "process_line loads dumps route line out st = (x, out', st')"
  shows "st' = st \<or> (\<exists>m. st' = snd (route m st))"
    and "int (length out) \<le> MAX_CLIENT_OUTPUT_BUFFER_BYTES \<Longrightarrow> int (length out') \<le> MAX_CLIENT_OUTPUT_BUFFER_BYTES"
proof -
  show "st' = st \<or> (\<exists>m. st' = snd (route m st))"
    by (rule process_line_cases [OF assms]) (auto dest: reply_effect(1))
  show "int (length out') \<le> MAX_CLIENT_OUTPUT_BUFFER_BYTES"
    if "int (length out) \<le> MAX_CLIENT_OUTPUT_BUFFER_BYTES"
    by (rule process_line_cases [OF assms]) (auto dest: reply_effect(2) simp: that)
qed

lemma process_lines_bounded:
  "process_lines loads dumps route buf out st = (x, buf', out', st') \<Longrightarrow>
   int (length out) \<le> MAX_CLIENT_OUTPUT_BUFFER_BYTES \<Longrightarrow> int (length out') \<le> MAX_CLIENT_OUTPUT_BUFFER_BYTES"
proof (induction loads dumps route buf out st rule: process_lines.induct)
  case (1 loads dumps route buf out st)
  note IH = 1(1) and eq = 1(2) [unfolded process_lines.simps [of loads dumps route buf]]
  show ?case
  proof (cases "split_line buf")
    case None
    with eq 1(3) show ?thesis by simp
  next
    case (Some p)
    then obtain line rest where p: "split_line buf = Some (line, rest)" by (cases p) auto
    obtain y o' s' where l: "process_line loads dumps route line out st = (y, o', s')"
      by (cases "process_line loads dumps route line out st") auto
    show ?thesis
      using eq IH [OF p refl l [symmetric]] p l process_line_effect(2) [OF l 1(3)]
      by (cases y) auto
  qed
qed

lemma service_client_cases:
  assumes "service_client loads dumps route r c st = (x, c', st')"
  obtains "c' = c" "st' = st"
  | tx y buf out where
      "process_lines loads dumps (route (client_id c)) (input_buffer c @ tx) (output_buffer c) st
         = (y, buf, out, st')"
      "c' = c\<lparr>input_buffer := buf, output_buffer := out\<rparr>"
proof (cases "\<exists>chunk. r = Received chunk \<and> chunk \<noteq> [] \<and> (\<exists>tx. decode_utf8 chunk = Inr tx)")
  case True
  then obtain chunk tx where r: "r = Received chunk" "chunk \<noteq> []" "decode_utf8 chunk = Inr tx"
    by blast
  obtain y buf out s where
    p: "process_lines loads dumps (route (client_id c)) (input_buffer c @ tx) (output_buffer c) st
      = (y, buf, out, s)" using prod_cases4 by blast
  show ?thesis using assms r p that(2) [of tx y buf out] by (simp add: service_client_def)
next
  case False
  with assms that(1) show ?thesis
    by (cases r) (auto simp: service_client_def split: if_splits sum.splits)
qed

text \<open>The states the loop of connections can reach: new connections are accepted and every
  connection is served, any number of times and in any order, as long as no exception leaves a
  round; the cyclic work between the rounds does not assign the owner.\<close>

inductive transport_reachable ::
  "(string \<Rightarrow> pyval option) \<Rightarrow> (pyval \<Rightarrow> string) \<Rightarrow> (int \<Rightarrow> pydict \<Rightarrow> ('a server_state_scheme, exn, pydict) op)
   \<Rightarrow> ('a server_state_scheme \<Rightarrow> int \<Rightarrow> pydict res) \<Rightarrow> real
   \<Rightarrow> client list \<Rightarrow> 'a server_state_scheme \<Rightarrow> bool"
  for loads dumps route feedback period where
  start: "command_authority_owner st = None \<Longrightarrow>
    transport_reachable loads dumps route feedback period [] st"
| accept: "transport_reachable loads dumps route feedback period cs st \<Longrightarrow>
    transport_reachable loads dumps route feedback period (accept_client cs) st"
| serve: "transport_reachable loads dumps route feedback period cs st \<Longrightarrow>
    serve_clients loads dumps route feedback period io cs st = (None, cs', st') \<Longrightarrow>
    transport_reachable loads dumps route feedback period cs' st'"
| cycle: "transport_reachable loads dumps route feedback period cs st \<Longrightarrow>
    command_authority_owner st' = command_authority_owner st \<Longrightarrow>
    transport_reachable loads dumps route feedback period cs st'"

locale authority_discipline =
  fixes route :: "int \<Rightarrow> pydict \<Rightarrow> ('a server_state_scheme, exn, pydict) op"
  assumes route_owner:
    "owner_step i (command_authority_owner st) (command_authority_owner (snd (route i msg st)))"
begin

lemma process_line_owner:
  "process_line loads dumps (route i) line out st = (x, out', st') \<Longrightarrow>
   owner_step i (command_authority_owner st) (command_authority_owner st')"
  using process_line_effect(1) [of loads dumps "route i" line out st x out' st'] route_owner [of i st]
  by (metis owner_step_def)

lemma process_lines_owner:
  "process_lines loads dumps (route i) buf out st = (x, buf', out', st') \<Longrightarrow>
   owner_step i (command_authority_owner st) (command_authority_owner st')"
proof (induction loads dumps "route i" buf out st rule: process_lines.induct)
  case (1 loads dumps buf out st)
  note IH = 1(1) and eq = 1(2) [unfolded process_lines.simps [of loads dumps "route i" buf]]
  show ?case
  proof (cases "split_line buf")
    case None
    with eq show ?thesis by (simp add: owner_step_def)
  next
    case (Some p)
    then obtain line rest where p: "split_line buf = Some (line, rest)" by (cases p) auto
    obtain y o' s' where l: "process_line loads dumps (route i) line out st = (y, o', s')"
      by (cases "process_line loads dumps (route i) line out st") auto
    show ?thesis
      using eq IH [OF p refl l [symmetric]] p l process_line_owner [OF l]
      by (cases y) (auto intro: owner_step_trans)
  qed
qed

lemma service_client_effect:
  assumes "service_client loads dumps route r c st = (x, c', st')"
    and "int (length (output_buffer c)) \<le> MAX_CLIENT_OUTPUT_BUFFER_BYTES"
  shows "client_id c' = client_id c"
    and "int (length (output_buffer c')) \<le> MAX_CLIENT_OUTPUT_BUFFER_BYTES"
    and "owner_step (client_id c) (command_authority_owner st) (command_authority_owner st')"
proof -
  have "client_id c' = client_id c \<and>
      int (length (output_buffer c')) \<le> MAX_CLIENT_OUTPUT_BUFFER_BYTES \<and>
      owner_step (client_id c) (command_authority_owner st) (command_authority_owner st')"
    using assms(1)
  proof (cases rule: service_client_cases)
    case 1
    with assms(2) show ?thesis by (simp add: owner_step_def)
  next
    case (2 tx y buf out)
    with process_lines_bounded [OF 2(1) assms(2)] process_lines_owner [OF 2(1)] show ?thesis
      by simp
  qed
  then show "client_id c' = client_id c"
    "int (length (output_buffer c')) \<le> MAX_CLIENT_OUTPUT_BUFFER_BYTES"
    "owner_step (client_id c) (command_authority_owner st) (command_authority_owner st')" by simp_all
qed

lemma serve_one_effect:
  assumes "serve_one loads dumps route feedback period io c st = (x, kept, st')"
    and b: "int (length (output_buffer c)) \<le> MAX_CLIENT_OUTPUT_BUFFER_BYTES"
  shows "case kept of
      Some c' \<Rightarrow> client_id c' = client_id c \<and>
        int (length (output_buffer c')) \<le> MAX_CLIENT_OUTPUT_BUFFER_BYTES \<and>
        owner_step (client_id c) (command_authority_owner st) (command_authority_owner st')
    | None \<Rightarrow> command_authority_owner st' =
        (if command_authority_owner st = Some (client_id c) then None else command_authority_owner st)"
proof -
  obtain y c1 st1 where sc: "service_client loads dumps route (io_recv io) c st = (y, c1, st1)"
    by (cases "service_client loads dumps route (io_recv io) c st") auto
  note e1 = service_client_effect [OF sc b]
  obtain z c2 where sf: "send_feedback_if_due dumps feedback period (io_now io) c1 st1 = (z, c2)"
    by fastforce
  have e2: "client_id c2 = client_id c1 \<and> int (length (output_buffer c2)) \<le> MAX_CLIENT_OUTPUT_BUFFER_BYTES"
    using sf e1(2) send_client_message_bounded
    by (auto simp: send_feedback_if_due_def split: if_splits sum.splits)
  obtain w c3 where fl: "flush_client_output (io_send io) c2 = (w, c3)" by fastforce
  have e3: "client_id c3 = client_id c2 \<and> int (length (output_buffer c3)) \<le> MAX_CLIENT_OUTPUT_BUFFER_BYTES"
    using fl e2 by (auto simp: flush_client_output_def split: if_splits send_result.splits)
  have closed: "command_authority_owner (close_client (client_id c) st1) =
      (if command_authority_owner st = Some (client_id c) then None else command_authority_owner st)"
    using e1(3) by (auto simp: close_client_def owner_step_def)
  show ?thesis
    using assms(1) e1 e2 e3 closed sc sf fl
    by (auto simp: serve_one_def Let_def split: sum.splits bool.splits option.splits if_splits)
qed

lemma serve_clients_keep_inv:
  assumes "serve_clients loads dumps route feedback period io cs st = (x, cs', st')"
    and "transport_inv (ds @ cs) st"
  shows "transport_inv (ds @ cs') st'"
  using assms
proof (induction cs arbitrary: ds st x cs' st')
  case Nil
  then show ?case by simp
next
  case (Cons c cs)
  obtain y kept st1 where
    one: "serve_one loads dumps route feedback period (io (client_id c)) c st = (y, kept, st1)"
    by (cases "serve_one loads dumps route feedback period (io (client_id c)) c st") auto
  let ?keep = "case kept of None \<Rightarrow> [] | Some c' \<Rightarrow> [c']"
  have "int (length (output_buffer c)) \<le> MAX_CLIENT_OUTPUT_BUFFER_BYTES"
    using Cons.prems(2) by (simp add: transport_inv_def)
  note eff = serve_one_effect [OF one this]
  have inv1: "transport_inv ((ds @ ?keep) @ cs) st1"
    using eff Cons.prems(2)
    by (cases kept) (auto simp: transport_inv_def owner_step_def split: if_splits)
  obtain z cs2 st2 where
    rest: "serve_clients loads dumps route feedback period io cs st1 = (z, cs2, st2)"
    by (cases "serve_clients loads dumps route feedback period io cs st1") auto
  show ?case
    using Cons.prems(1) one rest inv1 Cons.IH [OF rest inv1]
    by (cases y) (auto simp: Let_def)
qed

lemma reachable_inv:
  assumes "transport_reachable loads dumps route feedback period cs st"
  shows "transport_inv cs st"
  using assms
proof induction
  case (start st)
  then show ?case by (simp add: transport_inv_def)
next
  case (accept cs st)
  then show ?case
    using allocate_client_id_fresh [of cs]
    by (auto simp: transport_inv_def accept_client_def new_client_def
        MAX_CLIENT_OUTPUT_BUFFER_BYTES_def)
next
  case (serve cs st io cs' st')
  then show ?case using serve_clients_keep_inv [of loads dumps feedback period io cs st None cs' st' "[]"]
    by simp
next
  case (cycle cs st st')
  then show ?case by (simp add: transport_inv_def)
qed

end

text \<open>The router gives this interface to the service loop when the status and command handlers
  do not touch the owner.\<close>

locale owner_preserving_handlers =
  fixes pstr :: "pyval \<Rightarrow> string"
    and handle_status handle_command :: "'a server_state_scheme handler"
  assumes status_owner:
    "command_authority_owner (snd (handle_status n msg i st)) = command_authority_owner st"
    and command_owner:
    "command_authority_owner (snd (handle_command n msg i st)) = command_authority_owner st"
begin

lemma handle_authority_owner:
  "owner_step i (command_authority_owner st) (command_authority_owner (snd (handle_authority n i st)))"
  by (auto simp: handle_authority_def acquire_authority_def release_authority_def owner_step_def
      Let_def split: option.splits)

lemma route_to_handler_owner:
  "owner_step i (command_authority_owner st)
     (command_authority_owner (snd (route_message_to_handler pstr handle_status handle_command msg i st)))"
proof -
  obtain r s where h: "handle_authority (command_name pstr msg) i st = (r, s)" by fastforce
  have "owner_step i (command_authority_owner st) (command_authority_owner s)"
    using handle_authority_owner [of i st "command_name pstr msg"] h by simp
  moreover have "snd (bindS (handle_authority (command_name pstr msg) i)
      (\<lambda>d. retS (HData (PDict d))) st) = s"
    using h by (cases r) (simp_all add: retS_def)
  ultimately show ?thesis
    by (auto simp: route_message_to_handler_def Let_def owner_step_def status_owner command_owner
        split: sum.splits option.splits)
qed

lemma route_message_owner:
  "owner_step i (command_authority_owner st)
     (command_authority_owner (snd (route_message pstr handle_status handle_command msg i st)))"
  using route_to_handler_owner [of i st msg]
  by (auto simp: route_message_def request_response_def owner_step_def
      split: sum.splits prod.splits handled.splits)

end

sublocale owner_preserving_handlers \<subseteq>
  authority_discipline "\<lambda>i msg. route_message pstr handle_status handle_command msg i"
  by unfold_locales (rule route_message_owner)

subsection \<open>Properties\<close>



text \<open>A new connection gets the smallest positive id that no open connection has.\<close>

theorem allocate_client_id_least:
  "allocate_client_id cs \<notin> client_id ` set cs \<and> 1 \<le> allocate_client_id cs \<and>
   {1..<allocate_client_id cs} \<subseteq> client_id ` set cs"
  using first_free_spec [of "map client_id cs" 1] by (simp add: allocate_client_id_def)

text \<open>C39: one malformed request ends the server loop. A connection that sends a JSON object with
  neither \<open>cmd\<close> nor \<open>type\<close> makes \<open>dispatch_message\<close> raise \<open>ValueError\<close>, which is not an \<open>OSError\<close>:
  it leaves the service loop, whatever the other connections and the handlers are.\<close>

theorem nameless_request_ends_loop:
  assumes "newline \<notin> set line" and "strip line \<noteq> []" and "utf8_valid (map of_char line @ [10])"
    and "loads line = Some (PDict msg)" and "map_of msg ''cmd'' = None" and "map_of msg ''type'' = None"
    and "input_buffer c = []" and "io_recv (io (client_id c)) = Received (line @ [newline])"
  shows "fst (serve_clients loads dumps (\<lambda>i msg. route_message pstr hs hc msg i) feedback period io
           (c # cs) st) = Some ValueError"
proof -
  have "command_name pstr msg = []"
    using assms(5,6) by (simp add: command_name_def py_str_def strip_def)
  then have route: "route_message pstr hs hc msg i st = (Inl ValueError, st)" for i
    by (simp add: route_message_def request_response_def context_from_request_def)
  have split: "split_line (line @ [newline]) = Some (line, [])"
    using assms(1) by (auto simp: split_line_def takeWhile_append dropWhile_append)
  have "process_lines loads dumps (\<lambda>msg. route_message pstr hs hc msg (client_id c))
      (line @ [newline]) (output_buffer c) st = (Some ValueError, [], output_buffer c, st)"
    using assms(2,4) route by (simp add: process_lines.simps [of _ _ _ "line @ [newline]"] split process_line_def)
  moreover have "\<not> isinstance ValueError COSError" by code_simp
  ultimately show ?thesis
    using assms(3,7,8) by (simp add: serve_one_def service_client_def decode_utf8_def Let_def)
qed

theorem nameless_request_ends_loop_witness:
  "fst (serve_clients (\<lambda>_. Some (PDict [])) (\<lambda>_. ''r'')
     (\<lambda>i msg. route_message (\<lambda>_. []) (\<lambda>_ _ _. raiseS RuntimeError) (\<lambda>_ _ _. raiseS RuntimeError) msg i)
     (\<lambda>_ _. Inr []) 1 (\<lambda>_. \<lparr>io_recv = Received (''{}'' @ [newline]), io_send = SendWouldBlock, io_now = 0\<rparr>)
     (new_client 1 # []) demo_state) = Some ValueError"
  by (rule nameless_request_ends_loop [where line = "''{}''" and msg = "[]"])
    (simp_all add: new_client_def strip_def is_space_def)

end
