(* ===== verification/Command_Registry.thy ===== *)
theory Command_Registry
  imports Recovery Trajectory Client_Transport
begin

section \<open>The command registry\<close>

text \<open>
  Models \<^verbatim>\<open>motion_server/handlers/command/registry.py\<close>: the wrappers that check the axis arguments, the
  table of the command handlers and the dispatch. What the handlers take from their surroundings
  (clock, ids, transport, texts) is the record \<open>environment\<close>. The handlers of parameter access,
  outputs and simulated inputs are its argument \<open>en_other\<close>, operations on the runtime; the status
  handlers only read the state and are the argument \<open>en_status\<close>. The lemmas show that no handler
  assigns the owner of the command authority, which is the interface the service loop of the
  connections asks for.
\<close>

subsection \<open>The table\<close>

record 'd environment =
  en_str :: "pyval \<Rightarrow> string"
  en_exception_text :: "exn \<Rightarrow> string"
  en_disabled_text :: "int list \<Rightarrow> string"
  en_trajectory_texts :: trajectory_texts
  en_ids :: "diag_key \<Rightarrow> string"
  en_update :: "'d device_update"
  en_link :: "'d bus_link"
  en_monotonic :: real
  en_wall_clock :: int
  en_recovery :: recovery_times
  en_settle_cycles :: nat
  en_axes_status :: "'d motion_state \<Rightarrow> pyval res"
  en_status :: "string \<Rightarrow> pydict \<Rightarrow> int \<Rightarrow> 'd motion_state \<Rightarrow> handled res"
  en_other :: "string \<Rightarrow> pydict \<Rightarrow> ('d axis_runtime, exn, handled) op"

type_synonym 'd command_handler = "string \<Rightarrow> pydict \<Rightarrow> ('d motion_state, exn, handled) op"

definition returning_none :: "('s, exn, unit) op \<Rightarrow> ('s, exn, handled) op" where
  "returning_none m = bindS m (\<lambda>_. retS HNone)"

definition axis_request_reason :: "string \<Rightarrow> string" where
  "axis_request_reason cmd = cmd @ '' requires axis and does not accept axes.''"

definition axes_request_reason :: "string \<Rightarrow> string" where
  "axes_request_reason cmd = cmd @ '' requires axes and does not accept axis.''"

definition require_single_axis :: "'d command_handler \<Rightarrow> 'd command_handler" where
  "require_single_axis handler cmd message =
     (if map_of message ''axes'' \<noteq> None \<or> map_of message ''axis'' = None
      then raiseS (InvalidRequestException (axis_request_reason cmd)) else handler cmd message)"

definition require_axes :: "'d command_handler \<Rightarrow> 'd command_handler" where
  "require_axes handler cmd message =
     (if map_of message ''axis'' \<noteq> None \<or> map_of message ''axes'' = None
      then raiseS (InvalidRequestException (axes_request_reason cmd)) else handler cmd message)"

definition reject_not_implemented :: "'d command_handler" where
  "reject_not_implemented cmd message = raiseS (UnsupportedOperationException cmd (Some ''not_implemented''))"

definition other_handler :: "'d environment \<Rightarrow> 'd command_handler" where
  "other_handler en cmd message = on_rt (en_other en cmd message)"

text \<open>The handlers with the parts of the environment they use.\<close>

definition h_trajectory :: "'d environment \<Rightarrow> 'd command_handler" where
  "h_trajectory en cmd message = move_api (en_trajectory_texts en) (en_monotonic en) message"

definition h_trajectory_stop :: "'d environment \<Rightarrow> 'd command_handler" where
  "h_trajectory_stop en cmd message =
     returning_none (stop_trajectory (en_str en) (en_exception_text en) cmd message)"

definition h_stop :: "'d environment \<Rightarrow> 'd command_handler" where
  "h_stop en cmd message = returning_none (stop_axes (link_cycle (en_link en)) (en_update en) cmd message)"

definition h_enable :: "'d environment \<Rightarrow> 'd command_handler" where
  "h_enable en cmd message = enable (link_cycle (en_link en)) (en_axes_status en) cmd message"

definition h_disable :: "'d environment \<Rightarrow> 'd command_handler" where
  "h_disable en cmd message = disable (link_cycle (en_link en)) (en_update en) (en_axes_status en) cmd message"

definition h_fault_reset :: "'d environment \<Rightarrow> 'd command_handler" where
  "h_fault_reset en cmd message = fault_reset_axes (link_cycle (en_link en)) (en_wall_clock en) cmd message"

definition h_restart_axis :: "'d environment \<Rightarrow> 'd command_handler" where
  "h_restart_axis en cmd message =
     restart_axis (en_str en) (en_ids en) (en_exception_text en) (en_update en) (en_link en) (en_recovery en)
       (en_settle_cycles en) (en_wall_clock en) cmd message"

definition h_home :: "'d environment \<Rightarrow> 'd command_handler" where
  "h_home en cmd message =
     returning_none (start_homing (en_exception_text en) (en_disabled_text en) (link_cycle (en_link en))
       (en_update en) (en_monotonic en) cmd message)"

definition h_move_abs :: "'d environment \<Rightarrow> 'd command_handler" where
  "h_move_abs en cmd message = returning_none (move_absolute (link_cycle (en_link en)) cmd message)"

definition h_move_rel :: "'d environment \<Rightarrow> 'd command_handler" where
  "h_move_rel en cmd message = returning_none (move_relative (link_cycle (en_link en)) cmd message)"

definition h_move_vel :: "'d environment \<Rightarrow> 'd command_handler" where
  "h_move_vel en cmd message =
     returning_none (move_velocity (link_cycle (en_link en)) (en_update en) cmd message)"

definition h_jog_start :: "'d environment \<Rightarrow> 'd command_handler" where
  "h_jog_start en cmd message =
     returning_none (start_jog (en_str en) (link_cycle (en_link en)) (en_update en) cmd message)"

definition h_jog_stop :: "'d environment \<Rightarrow> 'd command_handler" where
  "h_jog_stop en cmd message = returning_none (stop_jog (link_cycle (en_link en)) (en_update en) cmd message)"

definition h_profile :: "'d environment \<Rightarrow> 'd command_handler" where
  "h_profile en cmd message =
     returning_none (set_profile (en_str en) (en_update en) (en_wall_clock en) cmd message)"

definition h_motion_limits :: "'d environment \<Rightarrow> 'd command_handler" where
  "h_motion_limits en cmd message =
     returning_none (on_rt (set_motion_limits (en_str en) (en_update en) (en_wall_clock en) cmd message))"

definition h_position_limits :: "'d environment \<Rightarrow> 'd command_handler" where
  "h_position_limits en cmd message =
     returning_none (on_rt (set_software_position_limits (en_str en) (en_update en) (en_wall_clock en)
       cmd message))"

definition h_mode :: "'d environment \<Rightarrow> 'd command_handler" where
  "h_mode en cmd message =
     returning_none (set_mode (en_str en) (link_cycle (en_link en)) (en_update en) cmd message)"

definition h_manual_controlword :: "'d command_handler" where
  "h_manual_controlword cmd message = returning_none (set_controlword message)"

definition h_server_fault_reset :: "'d environment \<Rightarrow> 'd command_handler" where
  "h_server_fault_reset en cmd message = fault_reset_source (en_wall_clock en) SERVER"

definition h_bus_fault_reset :: "'d environment \<Rightarrow> 'd command_handler" where
  "h_bus_fault_reset en cmd message = fault_reset_source (en_wall_clock en) BUS"

definition h_server_restart :: "'d command_handler" where
  "h_server_restart cmd message = request_server_restart"

definition h_bus_reconnect :: "'d environment \<Rightarrow> 'd command_handler" where
  "h_bus_reconnect en cmd message =
     reconnect_runtime (en_str en) (en_ids en) (en_exception_text en) (en_update en) (en_link en)
       (en_recovery en) (en_wall_clock en)"

definition COMMAND_TABLE :: "'d environment \<Rightarrow> (string \<times> 'd command_handler) list" where
  "COMMAND_TABLE en =
     [(''system/axes/trajectory'', require_axes (h_trajectory en)),
      (''system/axes/trajectory_stop'', require_axes (h_trajectory_stop en)),
      (''system/axes/stop'', require_axes (h_stop en)),
      (''system/axis/enable'', require_single_axis (h_enable en)),
      (''system/axis/disable'', require_single_axis (h_disable en)),
      (''system/axis/fault_reset'', require_single_axis (h_fault_reset en)),
      (''system/axis/restart'', require_single_axis (h_restart_axis en)),
      (''system/axis/home'', require_single_axis (h_home en)),
      (''system/axis/stop'', require_single_axis (h_stop en)),
      (''system/axis/move_abs'', require_single_axis (h_move_abs en)),
      (''system/axis/move_rel'', require_single_axis (h_move_rel en)),
      (''system/axis/move_vel'', require_single_axis (h_move_vel en)),
      (''system/axis/jog_start'', require_single_axis (h_jog_start en)),
      (''system/axis/jog_stop'', require_single_axis (h_jog_stop en)),
      (''system/axis/profile'', require_single_axis (h_profile en)),
      (''system/axis/motion_limits'', require_single_axis (h_motion_limits en)),
      (''system/axis/software_position_limits'', require_single_axis (h_position_limits en)),
      (''system/axis/mode'', require_single_axis (h_mode en)),
      (''system/axis/manualCW'', require_single_axis h_manual_controlword),
      (''system/axis/param_write'', other_handler en),
      (''system/axis/param_save'', other_handler en),
      (''system/axes/enable'', require_axes (h_enable en)),
      (''system/axes/disable'', require_axes (h_disable en)),
      (''system/axes/fault_reset'', require_axes (h_fault_reset en)),
      (''system/axes/move_abs'', require_axes (h_move_abs en)),
      (''system/axes/move_rel'', require_axes (h_move_rel en)),
      (''system/axes/move_vel'', require_axes (h_move_vel en)),
      (''system/server/fault_reset'', h_server_fault_reset en),
      (''system/server/restart'', h_server_restart),
      (''system/bus/fault_reset'', h_bus_fault_reset en),
      (''system/bus/reconnect'', h_bus_reconnect en),
      (''system/bus/rescan'', reject_not_implemented),
      (''system/io/output_write'', other_handler en),
      (''system/simulation/io/input_write'', other_handler en),
      (''system/simulation/io/input_reset'', other_handler en),
      (''system/io/reset'', reject_not_implemented),
      (''system/io/restart'', reject_not_implemented),
      (''system/io/param_write'', other_handler en),
      (''system/io/param_save'', reject_not_implemented),
      (''system/io/ap/param_write'', other_handler en),
      (''system/io/iol/param_write'', other_handler en)]"

definition handle_command :: "'d environment \<Rightarrow> string \<Rightarrow> pydict \<Rightarrow> int \<Rightarrow> ('d motion_state, exn, handled) op" where
  "handle_command en name message client =
     (case map_of (COMMAND_TABLE en) name of
        None \<Rightarrow> raiseS (UnknownCommandException name)
      | Some handler \<Rightarrow> handler name message)"

definition handle_status :: "'d environment \<Rightarrow> string \<Rightarrow> pydict \<Rightarrow> int \<Rightarrow> ('d motion_state, exn, handled) op" where
  "handle_status en name message client = liftE (en_status en name message client)"

definition server_route :: "'d environment \<Rightarrow> int \<Rightarrow> pydict \<Rightarrow> ('d motion_state, exn, pydict) op" where
  "server_route en client message =
     route_message (en_str en) (handle_status en) (handle_command en) message client"

lemma table_names: "map fst (COMMAND_TABLE en) = COMMAND_HANDLERS"
  by (simp add: COMMAND_TABLE_def COMMAND_HANDLERS_def)

subsection \<open>No handler assigns the owner of the authority\<close>

abbreviation keeps_owner :: "('d motion_state, exn, 'a) op \<Rightarrow> bool" where
  "keeps_owner \<equiv> keeps command_authority_owner"

lemma keeps_owner_on_rt [keeps_intros]: "keeps_owner (on_rt f)"
  by (simp add: keeps_def on_rt_def split: prod.split)

lemma keeps_owner_ask [keeps_intros]: "keeps_owner (ask f)"
  by (simp add: ask_def keeps_prims)

lemma keeps_owner_on_session [keeps_intros]: "keeps_owner (on_session f)"
  by (simp add: keeps_def on_session_def split: option.split prod.split)

lemma keeps_finallyS [keeps_intros]:
  "keeps g m \<Longrightarrow> (\<And>s. g (h s) = g s) \<Longrightarrow> keeps g (finallyS m h)"
  unfolding keeps_def finallyS_def by (auto split: prod.split) (metis snd_conv)

text \<open>Operations whose definition names the state they run in.\<close>

lemma keeps_owner_read_rt [keeps_intros]: "keeps_owner (\<lambda>s. on_rt (f s) s)"
  by (rule keeps_read [of _ "\<lambda>s. on_rt (f s)"]) (rule keeps_owner_on_rt)

lemma keeps_owner_hold [keeps_intros]:
  "keeps_owner (hold_axis_at_actual_position i)" "keeps_owner set_controller_targets"
  "keeps_owner hold_faulted_axes"
proof -
  show "keeps_owner (hold_axis_at_actual_position i)"
    by (rule keeps_unfold [OF hold_axis_at_actual_position_def]) (intro keeps_intros, simp)
  show [keeps_intros]: "keeps_owner set_controller_targets"
    by (rule keeps_unfold [OF set_controller_targets_def]) (intro keeps_intros)
  show "keeps_owner hold_faulted_axes"
    unfolding hold_faulted_axes_def by (intro keeps_intros) simp
qed

lemma keeps_owner_setters [keeps_intros]:
  "keeps_owner (set_motion_mode i mode)" "keeps_owner update_motion_mode_summary"
  "keeps_owner (set_jog_previous i m)"
  by (simp_all add: keeps_def set_motion_mode_def update_motion_mode_summary_def set_jog_previous_def
      split: sum.split list.split)

lemma keeps_owner_rejections [keeps_intros]:
  "keeps_owner (reject_if_any_axis_disabled axes cmd)" "keeps_owner (reject_if_pv_not_allowed axes cmd)"
  "keeps_owner (reject_faulted cmd)" "keeps g m \<Longrightarrow> keeps g (rejecting cmd m)"
  unfolding reject_if_any_axis_disabled_def reject_if_pv_not_allowed_def reject_faulted_def rejecting_def
  by (intro keeps_intros | assumption)+

lemma keeps_owner_modes [keeps_intros]:
  "keeps_owner (op_configure_mode_code exch upd mode i)" "keeps_owner (configure_motion_mode exch upd mode i)"
  unfolding op_configure_mode_code_def configure_motion_mode_def by (intro keeps_intros)+

lemma keeps_owner_ensure_csp [keeps_intros]: "keeps_owner (ensure_csp_mode axes)"
proof -
  have "keeps_owner (ensure_csp_axes axes)"
    by (induction axes) (auto intro!: keeps_intros)
  then show ?thesis unfolding ensure_csp_mode_def by (intro keeps_intros)
qed

lemma keeps_owner_velocities [keeps_intros]:
  "keeps_owner (command_profile_velocities exch upd axes velocities cmd)"
  unfolding command_profile_velocities_def command_profile_velocity_def by (intro keeps_intros)

lemma keeps_owner_positions [keeps_intros]:
  "keeps_owner (command_position_axes exch axes positions cmd)"
proof -
  have "keeps_owner (send_positions exch pp csp)" for pp csp
    by (rule keeps_unfold [OF send_positions_def]) (intro keeps_intros)
  moreover have "keeps_owner (hold_selected axes)"
    unfolding hold_selected_def by (intro keeps_intros) simp
  ultimately show ?thesis
    unfolding command_position_axes_def by (intro keeps_intros) auto
qed

lemma keeps_owner_homing [keeps_intros]:
  "keeps_owner (finish_homing exch upd result message)" "keeps_owner (stop_active_homing exch upd message)"
  "keeps_owner (reject_homing message e)"
proof -
  have restore: "keeps_owner (restore_mode exch upd original i)" for original i
    unfolding restore_mode_def by (intro keeps_intros)
  show finish: "keeps_owner (finish_homing exch upd result message)" for result message
    by (rule keeps_unfold [OF finish_homing_def [unfolded Let_def]])
      (intro keeps_intros keeps_read [of _ "\<lambda>st. forS (hm_axes (homing st))
         (restore_mode exch upd (hm_original_modes (homing st)))"] restore, simp)
  show "keeps_owner (stop_active_homing exch upd message)"
    using finish by (simp add: keeps_def stop_active_homing_def)
  show "keeps_owner (reject_homing message e)"
    unfolding reject_homing_def by (intro keeps_intros) simp
qed

lemma keeps_owner_collect [keeps_intros]:
  assumes "\<And>x. keeps g (f x)"
  shows "keeps g (collect_target_results xs f)"
proof -
  have "g (snd (collect_loop xs f us vs s)) = g s" for us vs s
    by (induction xs arbitrary: us vs s) (auto split: prod.split sum.split dest: keeps_eqD [OF assms])
  then have "keeps g (collect_loop xs f us vs)" for us vs by (simp add: keeps_def)
  then show ?thesis unfolding collect_target_results_def by (intro keeps_intros)
qed

lemma keeps_owner_moves [keeps_intros]:
  "keeps_owner (move_absolute exch cmd message)" "keeps_owner (move_relative exch cmd message)"
  "keeps_owner (move_velocity exch upd cmd message)"
  unfolding move_absolute_def move_relative_def move_velocity_def by (intro keeps_intros)+

lemma keeps_owner_jog [keeps_intros]:
  "keeps_owner (start_jog pstr exch upd cmd message)" "keeps_owner (stop_jog exch upd cmd message)"
proof -
  have [simp]: "command_authority_owner (forget_jog_previous i st) = command_authority_owner st"
    for i and st :: "'d motion_state"
    unfolding forget_jog_previous_def by (rule keepsD) (rule keeps_owner_setters)
  show "keeps_owner (start_jog pstr exch upd cmd message)" "keeps_owner (stop_jog exch upd cmd message)"
    unfolding start_jog_def enter_jog_mode_def stop_jog_def leave_jog_mode_def
    by (intro keeps_intros, simp?)+
qed

lemma keeps_owner_start_homing [keeps_intros]:
  "keeps_owner (start_homing etext dtext exch upd now cmd message)"
  unfolding start_homing_def homing_axes_def enter_homing_mode_def begin_homing_def
  by (intro keeps_intros) simp

lemma keeps_owner_update_homing [keeps_intros]: "keeps_owner (update_homing_state exch upd now)"
  by (rule keeps_unfold [OF update_homing_state_def]) (intro keeps_intros, simp)

lemma keeps_owner_stop [keeps_intros]: "keeps_owner (stop_axes exch upd cmd message)"
proof -
  have "keeps_owner (hold_each axes actual positions)" for axes actual positions
    by (induction axes actual positions rule: hold_each.induct) (auto intro!: keeps_intros)
  then show ?thesis
    unfolding stop_axes_def stop_axis_motion_def hold_positions_def set_trajectory_inactive_def
    by (intro keeps_intros) simp_all
qed

lemma keeps_owner_enable [keeps_intros]:
  "keeps_owner (enable exch sd cmd message)" "keeps_owner (disable exch upd sd cmd message)"
  "keeps_owner (fault_reset_axes exch now cmd message)"
proof -
  have partial: "keeps_owner m \<Longrightarrow> keeps_owner (rejecting_partial cmd m)"
    for m :: "('d motion_state, exn, int target_results) op"
    unfolding rejecting_partial_def by (intro keeps_intros) (auto simp: keeps_prims split: target_results.split)
  have stop: "keeps_owner (stop_trajectory_on axes)" "keeps_owner (stop_homing_on exch upd axes)" for axes
    by (simp_all add: keeps_def stop_trajectory_on_def stop_homing_on_def set_trajectory_inactive_def modifyS_def
        keepsD [OF keeps_owner_homing(1)])
  show "keeps_owner (enable exch sd cmd message)" "keeps_owner (disable exch upd sd cmd message)"
    "keeps_owner (fault_reset_axes exch now cmd message)"
    unfolding enable_def disable_def disable_axis_def fault_reset_axes_def
    by (intro keeps_intros partial stop)+
qed

lemma keeps_owner_mode [keeps_intros]:
  "keeps_owner (set_controlword message)" "keeps_owner (set_mode pstr exch upd cmd message)"
proof -
  have change: "keeps_owner (change_mode exch upd mode i)" for mode i
  proof -
    have "keeps_owner (\<lambda>st. case configure_motion_mode exch upd mode i st of
         (Inr _, st1) \<Rightarrow> bindS (set_motion_mode i mode) (\<lambda>_. retS True) st1
       | (Inl e, st1) \<Rightarrow>
           bindS (liftE (\<lambda>_. mode_code previous)) (\<lambda>c.
           bindS (on_rt (set_rx i ''mode_of_operation'' c)) (\<lambda>_. retS False)) st1)" for previous
      unfolding keeps_def
      by (auto split: prod.split sum.split dest!: keeps_eqD [OF keeps_owner_modes(2)]
          simp: keepsD [OF keeps_bindS] keeps_intros)
    then show ?thesis unfolding change_mode_def by (intro keeps_intros)
  qed
  have "keeps_owner (change_modes exch upd mode axes)" for mode axes
    by (induction axes) (auto intro!: keeps_intros change)
  then show "keeps_owner (set_mode pstr exch upd cmd message)"
    unfolding set_mode_def apply_mode_def by (intro keeps_intros)
  show "keeps_owner (set_controlword message)"
    unfolding set_controlword_def by (intro keeps_intros)
qed

lemma keeps_owner_trajectory [keeps_intros]:
  "keeps_owner (move_api tx now message)" "keeps_owner (stop_trajectory pstr etext cmd message)"
  "keeps_owner (update_active now)"
proof -
  have [keeps_intros]: "keeps_owner (end_trajectory result t)" for result t
    unfolding end_trajectory_def by (intro keeps_intros) simp
  show "keeps_owner (move_api tx now message)"
    unfolding move_api_def move_def start_trajectory_def activate_trajectory_def reject_faulted_trajectory_def
    by (intro keeps_intros) simp_all
  show "keeps_owner (stop_trajectory pstr etext cmd message)"
    unfolding stop_trajectory_def set_trajectory_inactive_def hold_positions_def Let_def
    by (intro keeps_intros) simp_all
  show "keeps_owner (update_active now)"
    by (rule keeps_unfold [OF update_active_def [unfolded Let_def finish_trajectory_def]])
      (intro keeps_intros, simp_all)
qed

lemma keeps_owner_session_manager [keeps_intros]: "keeps_owner (session_manager f)"
  unfolding session_manager_def by (intro keeps_intros)

lemma keeps_owner_recovery [keeps_intros]:
  "keeps_owner (mark_bus_disconnected ids etext link now e)"
  "keeps_owner (reconnect_runtime pstr ids etext upd link tm now)"
  "keeps_owner (restart_axis pstr ids etext upd link tm settle now cmd message)"
proof -
  have [keeps_intros]: "keeps_owner (refresh_after_recovery pstr ids etext now ty axes)" for ty axes
    by (rule keeps_unfold [OF refresh_after_recovery_def])
      (unfold refresh_axis_def refresh_failed_def, intro keeps_intros)
  have [keeps_intros]: "keeps_owner (restore_modes upd)"
    by (rule keeps_unfold [OF restore_modes_def], rule keeps_read) (intro keeps_intros)
  have [keeps_intros]: "keeps_owner (reconnect_attempt pstr ids etext upd link tm now ty axes)" for ty axes
    unfolding reconnect_attempt_def restore_process_image_def by (intro keeps_intros)
  have [keeps_intros]: "keeps_owner (recover_ready a b)" "keeps_owner (begin_recovery a)" for a b
    unfolding recover_ready_def begin_recovery_def by (intro keeps_intros, simp?)+
  have [simp]: "command_authority_owner (end_recovery st) = command_authority_owner st"
    for st :: "'d motion_state" by (simp add: end_recovery_def)
  show "keeps_owner (mark_bus_disconnected ids etext link now e)"
    unfolding mark_bus_disconnected_def by (intro keeps_intros)
  show "keeps_owner (reconnect_runtime pstr ids etext upd link tm now)"
    by (rule keeps_unfold [OF reconnect_runtime_def [unfolded reconnect_failed_def]])
      (intro keeps_intros, simp)
  have fail: "keeps_owner (axis_restart_failed ids etext link now i operational e)" for i operational e
    unfolding axis_restart_failed_def by (intro keeps_intros)
  have "keeps_owner (\<lambda>st. case reconnect_attempt pstr ids etext upd link tm now AXIS_RESTART [i] st of
          (Inl e, st1) \<Rightarrow> axis_restart_failed ids etext link now i False e st1
        | (Inr _, st1) \<Rightarrow>
            if tm_late tm then axis_restart_failed ids etext link now i True TimeoutError st1
            else (Inr (), st1))" for i
    unfolding keeps_def
    by (auto split: prod.split sum.split simp: keepsD [OF fail]
        dest!: keeps_eqD [OF \<open>keeps_owner (reconnect_attempt pstr ids etext upd link tm now AXIS_RESTART [i])\<close>])
  then have [keeps_intros]: "keeps_owner (restart_axis_runtime pstr ids etext upd link tm now i)" for i
    unfolding restart_axis_runtime_def by (intro keeps_intros) simp_all
  have [keeps_intros]: "keeps_owner (disable_all_axes link settle)"
    by (rule keeps_unfold [OF disable_all_axes_def]) (intro keeps_intros keeps_read)
  show "keeps_owner (restart_axis pstr ids etext upd link tm settle now cmd message)"
    unfolding restart_axis_def restart_preparation_def set_trajectory_inactive_def
    by (intro keeps_intros) simp_all
qed

lemmas handler_defs =
  h_trajectory_def h_trajectory_stop_def h_stop_def h_enable_def h_disable_def h_fault_reset_def
  h_restart_axis_def h_home_def h_move_abs_def h_move_rel_def h_move_vel_def h_jog_start_def h_jog_stop_def
  h_profile_def h_motion_limits_def h_position_limits_def h_mode_def h_manual_controlword_def
  h_server_fault_reset_def h_bus_fault_reset_def h_server_restart_def h_bus_reconnect_def
  other_handler_def reject_not_implemented_def returning_none_def

lemma keeps_owner_settings [keeps_intros]:
  "keeps_owner (set_profile pstr upd now cmd message)" "keeps_owner (fault_reset_source now ty)"
  "keeps_owner request_server_restart"
  unfolding set_profile_def fault_reset_source_def request_server_restart_def
  by (intro keeps_intros, simp?)+

lemma keeps_owner_wrappers:
  "(\<And>cmd message. keeps_owner (h cmd message)) \<Longrightarrow> keeps_owner (require_single_axis h cmd message)"
  "(\<And>cmd message. keeps_owner (h cmd message)) \<Longrightarrow> keeps_owner (require_axes h cmd message)"
  unfolding require_single_axis_def require_axes_def by (intro keeps_intros; assumption)+

lemma keeps_owner_handlers:
  "keeps_owner (h_trajectory en cmd message)" "keeps_owner (h_trajectory_stop en cmd message)"
  "keeps_owner (h_stop en cmd message)" "keeps_owner (h_enable en cmd message)"
  "keeps_owner (h_disable en cmd message)" "keeps_owner (h_fault_reset en cmd message)"
  "keeps_owner (h_restart_axis en cmd message)" "keeps_owner (h_home en cmd message)"
  "keeps_owner (h_move_abs en cmd message)" "keeps_owner (h_move_rel en cmd message)"
  "keeps_owner (h_move_vel en cmd message)" "keeps_owner (h_jog_start en cmd message)"
  "keeps_owner (h_jog_stop en cmd message)" "keeps_owner (h_profile en cmd message)"
  "keeps_owner (h_motion_limits en cmd message)" "keeps_owner (h_position_limits en cmd message)"
  "keeps_owner (h_mode en cmd message)" "keeps_owner (h_manual_controlword cmd message)"
  "keeps_owner (h_server_fault_reset en cmd message)" "keeps_owner (h_bus_fault_reset en cmd message)"
  "keeps_owner (h_server_restart cmd message)" "keeps_owner (h_bus_reconnect en cmd message)"
  "keeps_owner (other_handler en cmd message)" "keeps_owner (reject_not_implemented cmd message)"
  unfolding handler_defs by (intro keeps_intros)+

lemma handle_command_keeps_owner: "keeps_owner (handle_command en name message client)"
proof (cases "map_of (COMMAND_TABLE en) name")
  case (Some h)
  have "list_all (\<lambda>(n, h). \<forall>cmd message. keeps_owner (h cmd message)) (COMMAND_TABLE en)"
    unfolding COMMAND_TABLE_def by (simp add: keeps_owner_handlers keeps_owner_wrappers)
  with map_of_SomeD [OF Some] Some show ?thesis
    by (auto simp: handle_command_def list_all_iff)
qed (simp add: handle_command_def keeps_intros)

text \<open>The handlers give the service loop of the connections its interface.\<close>

interpretation server: owner_preserving_handlers "en_str en" "handle_status en" "handle_command en" for en
  by unfold_locales
    (simp_all add: handle_status_def liftE_def keepsD [OF handle_command_keeps_owner])

end
