(* ===== verification/Server_Loop.thy ===== *)
theory Server_Loop
  imports Command_Registry
begin

section \<open>The server loop\<close>

text \<open>
  Models \<open>run_server_loop\<close> and \<open>run_bus_disconnected_loop\<close> of \<^verbatim>\<open>motion_server/server.py\<close> as a step
  relation: one process data cycle with the cyclic work around it, then accepting and serving the
  connections, and the loop that serves them while the bus is lost. Every step has its own
  environment. Waiting for the next cycle, the distributed clock, cycle statistics and log output
  are not modelled; with an absolute distributed-clock shift the source prepares the process data
  before it waits, in the same order otherwise.
\<close>

subsection \<open>One cycle\<close>

definition cyclic_work :: "'d environment \<Rightarrow> ('d motion_state, exn, unit) op" where
  "cyclic_work en =
     bindS hold_faulted_axes (\<lambda>_.
     bindS (update_active (en_monotonic en)) (\<lambda>_. on_rt (link_cycle (en_link en))))"

text \<open>The diagnostic monitor keeps the number of incomplete cycles between its updates.\<close>

definition monitor_work :: "'d environment \<Rightarrow> nat \<Rightarrow> 'd motion_state \<Rightarrow> (exn + unit) \<times> nat \<times> 'd motion_state" where
  "monitor_work en n st =
     (case server_session st of
        None \<Rightarrow> (Inl KeyError, n, st)
      | Some s \<Rightarrow>
          (case monitor_update (en_ids en) (en_wall_clock en) (rt st)
                  \<lparr>bus_wkc_mismatch_cycles = n, mon_session = s\<rparr> of
             (x, ms) \<Rightarrow>
               (x, bus_wkc_mismatch_cycles ms, st\<lparr>server_session := Some (mon_session ms)\<rparr>)))"

datatype cycle_result = CycleDone | BusLost | CycleRaised exn

definition bus_failed :: "'d environment \<Rightarrow> exn \<Rightarrow> nat \<Rightarrow> 'd motion_state \<Rightarrow> cycle_result \<times> nat \<times> 'd motion_state" where
  "bus_failed en e n st =
     (if isinstance e CCommunication then
        (case mark_bus_disconnected (en_ids en) (en_exception_text en) (en_link en) (en_wall_clock en) e st of
           (Inl e', st') \<Rightarrow> (CycleRaised e', n, st')
         | (Inr _, st') \<Rightarrow> (BusLost, n, st'))
      else (CycleRaised e, n, st))"

definition server_cycle :: "'d environment \<Rightarrow> nat \<Rightarrow> 'd motion_state \<Rightarrow> cycle_result \<times> nat \<times> 'd motion_state" where
  "server_cycle en n st =
     (case cyclic_work en st of
        (Inl e, st1) \<Rightarrow> bus_failed en e n st1
      | (Inr _, st1) \<Rightarrow>
          (case monitor_work en n st1 of
             (Inl e, n1, st2) \<Rightarrow> bus_failed en e n1 st2
           | (Inr _, n1, st2) \<Rightarrow>
               (case update_homing_state (link_cycle (en_link en)) (en_update en) (en_monotonic en) st2 of
                  (Inl e, st3) \<Rightarrow> (CycleRaised e, n1, st3)
                | (Inr _, st3) \<Rightarrow> (CycleDone, n1, st3))))"

subsection \<open>The loop\<close>

datatype loop_mode = Cycling | Serving | BusDown | Restarting | Crashed exn

record 'd loop_state =
  lp_mode :: loop_mode
  lp_mismatch :: nat
  lp_clients :: "client list"
  lp_state :: "'d motion_state"

definition bus_disconnected :: "'d motion_state \<Rightarrow> bool" where
  "bus_disconnected st \<longleftrightarrow>
     (case server_session st of None \<Rightarrow> False | Some s \<Rightarrow> runtime_state s = RBUS_DISCONNECTED)"

definition after_cycle :: "'d environment \<Rightarrow> 'd loop_state \<Rightarrow> 'd loop_state" where
  "after_cycle en l =
     (case server_cycle en (lp_mismatch l) (lp_state l) of
        (res, n, st) \<Rightarrow>
          l\<lparr>lp_mode := (case res of CycleDone \<Rightarrow> Serving | BusLost \<Rightarrow> BusDown | CycleRaised e \<Rightarrow> Crashed e),
            lp_mismatch := n, lp_state := st\<rparr>)"

text \<open>What the round of the connections leads to: a requested restart closes every connection
  and leaves the loop, from the disconnected loop without closing them.\<close>

definition after_serving ::
  "'d environment \<Rightarrow> (string \<Rightarrow> pyval option) \<Rightarrow> (pyval \<Rightarrow> string) \<Rightarrow> ('d motion_state \<Rightarrow> int \<Rightarrow> pydict res)
   \<Rightarrow> real \<Rightarrow> (int \<Rightarrow> client_io) \<Rightarrow> 'd loop_state \<Rightarrow> 'd loop_state" where
  "after_serving en loads dumps feedback period io l =
     (case serve_clients loads dumps (server_route en) feedback period io (lp_clients l) (lp_state l) of
        (Some e, cs, st) \<Rightarrow> l\<lparr>lp_mode := Crashed e, lp_clients := cs, lp_state := st\<rparr>
      | (None, cs, st) \<Rightarrow>
          if server_restart_requested st then
            if lp_mode l = BusDown then l\<lparr>lp_mode := Restarting, lp_clients := cs, lp_state := st\<rparr>
            else l\<lparr>lp_mode := Restarting, lp_clients := [], lp_state := close_all cs st\<rparr>
          else l\<lparr>lp_mode := (if lp_mode l = BusDown then BusDown else Cycling),
                 lp_clients := cs, lp_state := st\<rparr>)"

inductive loop_step :: "'d loop_state \<Rightarrow> 'd loop_state \<Rightarrow> bool" where
  cycle: "lp_mode l = Cycling \<Longrightarrow> loop_step l (after_cycle en l)"
| accept: "lp_mode l = Serving \<or> lp_mode l = BusDown \<and> bus_disconnected (lp_state l) \<Longrightarrow>
    loop_step l (l\<lparr>lp_clients := accept_client (lp_clients l)\<rparr>)"
| serve: "lp_mode l = Serving \<or> lp_mode l = BusDown \<and> bus_disconnected (lp_state l) \<Longrightarrow>
    loop_step l (after_serving en loads dumps feedback period io l)"
| resume: "lp_mode l = BusDown \<Longrightarrow> \<not> bus_disconnected (lp_state l) \<Longrightarrow>
    loop_step l (l\<lparr>lp_mode := Cycling\<rparr>)"

inductive loop_reachable :: "'d loop_state \<Rightarrow> bool" where
  start: "lp_mode l = Cycling \<Longrightarrow> lp_mismatch l = 0 \<Longrightarrow> lp_clients l = [] \<Longrightarrow>
    command_authority_owner (lp_state l) = None \<Longrightarrow> loop_reachable l"
| step: "loop_reachable l \<Longrightarrow> loop_step l l' \<Longrightarrow> loop_reachable l'"

subsection \<open>The owner and the connections\<close>

lemma cyclic_work_keeps_owner: "keeps_owner (cyclic_work en)"
  unfolding cyclic_work_def by (intro keeps_intros)

lemma bus_failed_keeps_owner:
  "bus_failed en e n st = (res, n', st') \<Longrightarrow> command_authority_owner st' = command_authority_owner st"
  by (auto simp: bus_failed_def split: if_splits prod.splits sum.splits
      dest: keeps_eqD [OF keeps_owner_recovery(1)])

lemma monitor_work_keeps_owner:
  "monitor_work en n st = (x, n', st') \<Longrightarrow> command_authority_owner st' = command_authority_owner st"
  by (auto simp: monitor_work_def split: option.splits prod.splits)

lemma server_cycle_keeps_owner:
  assumes "server_cycle en n st = (res, n', st')"
  shows "command_authority_owner st' = command_authority_owner st"
proof -
  obtain x st1 where w: "cyclic_work en st = (x, st1)" by fastforce
  obtain y n1 st2 where m: "monitor_work en n st1 = (y, n1, st2)" by (cases "monitor_work en n st1") auto
  note owner = keeps_eqD [OF cyclic_work_keeps_owner w] monitor_work_keeps_owner [OF m]
  show ?thesis
    using assms w m owner
    by (auto simp: server_cycle_def split: sum.splits prod.splits
        dest: bus_failed_keeps_owner keeps_eqD [OF keeps_owner_update_homing])
qed

lemma server_route_discipline:
  "server_route en = (\<lambda>i msg. route_message (en_str en) (handle_status en) (handle_command en) msg i)"
  by (rule ext)+ (simp add: server_route_def)

lemma close_all_owner:
  "command_authority_owner (close_all cs st) =
     (case command_authority_owner st of None \<Rightarrow> None
      | Some i \<Rightarrow> if i \<in> client_id ` set cs then None else Some i)"
  by (induction cs arbitrary: st) (auto simp: close_all_def close_client_def split: option.splits)

lemma after_serving_keeps_inv:
  assumes "transport_inv (lp_clients l) (lp_state l)"
  shows "transport_inv (lp_clients (after_serving en loads dumps feedback period io l))
           (lp_state (after_serving en loads dumps feedback period io l))"
proof -
  obtain x cs st where
    s: "serve_clients loads dumps (server_route en) feedback period io (lp_clients l) (lp_state l) = (x, cs, st)"
    using prod_cases3 by blast
  have inv: "transport_inv cs st"
    using server.serve_clients_keep_inv [of loads dumps en feedback period io "lp_clients l" "lp_state l" x cs st "[]"]
      s assms by (simp add: server_route_discipline)
  then show ?thesis
    using s by (auto simp: after_serving_def transport_inv_def close_all_owner split: option.splits)
qed

lemma loop_reachable_inv:
  "loop_reachable l \<Longrightarrow> transport_inv (lp_clients l) (lp_state l)"
proof (induction rule: loop_reachable.induct)
  case (start l)
  then show ?case by (simp add: transport_inv_def)
next
  case (step l l')
  from step.hyps(2) show ?case
  proof (cases rule: loop_step.cases)
    case (cycle en)
    with step.IH show ?thesis
      by (auto simp: after_cycle_def transport_inv_def split: prod.splits dest: server_cycle_keeps_owner)
  next
    case accept
    with step.IH allocate_client_id_fresh [of "lp_clients l"] show ?thesis
      by (auto simp: transport_inv_def accept_client_def new_client_def MAX_CLIENT_OUTPUT_BUFFER_BYTES_def)
  next
    case serve
    with after_serving_keeps_inv [OF step.IH] show ?thesis by simp
  next
    case resume
    with step.IH show ?thesis by simp
  qed
qed

subsection \<open>Properties\<close>

text \<open>C1: the owner of the command authority is always a connected client. In every state the server
  loop reaches, however connections come, go, fail and send, through lost and recovered buses and
  whatever the handlers do: connection ids are unique, the owner, if any, is one of the open
  connections, and no output buffer exceeds its limit of 4 MiB.\<close>

theorem owner_is_connected:
  assumes "loop_reachable l"
  shows "distinct (map client_id (lp_clients l)) \<and>
         (\<forall>i. command_authority_owner (lp_state l) = Some i \<longrightarrow> i \<in> client_id ` set (lp_clients l)) \<and>
         (\<forall>c \<in> set (lp_clients l). length (output_buffer c) \<le> 4 * 1024 * 1024)"
  using loop_reachable_inv [OF assms] by (simp add: transport_inv_def MAX_CLIENT_OUTPUT_BUFFER_BYTES_def)

definition still_link :: "unit bus_link" where
  "still_link =
     \<lparr>link_connect = retS (), link_enter_operational = retS (), link_close = retS (), link_cycle = retS ()\<rparr>"

definition demo_texts :: trajectory_texts where
  "demo_texts = \<lparr>exception_text = (\<lambda>_. []), invalid_axes_text = (\<lambda>_. []), faulted_text = (\<lambda>_. []),
     disabled_axes_text = (\<lambda>_. []), limit_text = (\<lambda>_. [])\<rparr>"

definition demo_environment :: "unit environment" where
  "demo_environment =
     \<lparr>en_str = (\<lambda>_. []), en_exception_text = (\<lambda>_. []), en_disabled_text = (\<lambda>_. []), en_trajectory_texts = demo_texts,
      en_ids = (\<lambda>_. ''d''), en_update = still_device, en_link = still_link, en_monotonic = 0, en_wall_clock = 0,
      en_recovery = \<lparr>tm_attempts = 1, tm_operational_in_time = True, tm_stable_cycles = 3, tm_late = False,
        tm_elapsed = 0\<rparr>,
      en_settle_cycles = 0, en_axes_status = (\<lambda>_. Inr PNone), en_status = (\<lambda>_ _ _ _. Inr HNone),
      en_other = (\<lambda>_ _. retS HNone)\<rparr>"

definition demo_loop :: "unit loop_state" where
  "demo_loop = \<lparr>lp_mode = Cycling, lp_mismatch = 0, lp_clients = [],
     lp_state = (demo_motion_state (demo_runtime 0x27 0x27))\<lparr>command_authority_owner := None\<rparr>\<rparr>"

lemma demo_no_fault: "faulted_axes (demo_runtime 0x27 0x27) = Inr []"
  by (simp add: faulted_axes_def filterE_def status_has_def demo_statusword bit_numeral_rec upt_rec)

lemma demo_session: "server_session (demo_motion_state r) = Some (new_session ready new_manager (Some 0))"
  by (simp add: demo_motion_state_def)

lemma demo_monitor_update:
  "monitor_update ids now (demo_runtime 0x27 0x27) \<lparr>bus_wkc_mismatch_cycles = 0, mon_session = new_session ready new_manager (Some 0)\<rparr>
    = (Inr (), \<lparr>bus_wkc_mismatch_cycles = 0, mon_session = new_session ready new_manager (Some 0)\<rparr>)"
  by (simp add: monitor_update_def update_bus_def update_axes_def update_axis_condition_def update_condition_def
     resolve_if_active_def mon_manager_def new_session_def status_for_def new_manager_def demo_statusword bit_numeral_rec
     upt_rec bindS_def liftE_def retS_def)

lemma demo_loop_cycle:
  "after_cycle demo_environment demo_loop = demo_loop\<lparr>lp_mode := Serving\<rparr>"
  by (simp add: after_cycle_def demo_loop_def server_cycle_def cyclic_work_def hold_faulted_axes_def ask_def demo_no_fault
     bindS_def liftE_def update_active_def inactive_trajectory_state_def demo_environment_def still_link_def on_rt_def retS_def
     monitor_work_def demo_session demo_monitor_update update_homing_state_def inactive_homing_state_def)

definition demo_served :: "unit loop_state" where
  "demo_served = after_serving demo_environment (\<lambda>_. Some (PDict [(''cmd'', PStr ''system/authority/request'')])) (\<lambda>_. ''r'')
     (\<lambda>_ _. Inr []) 1 (\<lambda>_. \<lparr>io_recv = Received (''q'' @ [newline]), io_send = SendWouldBlock, io_now = 0\<rparr>) 
     (demo_loop\<lparr>lp_mode := Serving, lp_clients := accept_client []\<rparr>)"

abbreviation authority_request :: pydict where
  "authority_request \<equiv> [(''cmd'', PStr ''system/authority/request'')]"

lemma authority_request_spec:
  "command_name pstr authority_request = ''system/authority/request''"
  "command_spec ''system/authority/request'' = Some (authority ''system/authority/request'')"
proof -
  show "command_spec ''system/authority/request'' = Some (authority ''system/authority/request'')" by code_simp
  have "strip ''system/authority/request'' = ''system/authority/request''" by code_simp
  then show "command_name pstr authority_request = ''system/authority/request''"
    by (simp add: command_name_def py_str_def)
qed

lemma authority_granted:
  fixes st :: "'a server_state_scheme"
  assumes "command_authority_owner st = None" "init_status st = ready"
    "server_session st = Some (new_session ready dm (Some 0))"
  shows "\<exists>r. route_message pstr hs hc authority_request i st = (Inr r, st\<lparr>command_authority_owner := Some i\<rparr>)"
  using assms
  by (simp add: route_message_def request_response_def route_message_to_handler_def authority_request_spec
      validate_command_def context_from_request_def Let_def authority_def command_allowed_by_mode_def
      command_allowed_during_degraded_state_def recovery_scope_allowed_def command_requires_authority_def
      command_allowed_by_runtime_state_def is_command_def is_authority_def is_status_def new_session_def ready_def
      handle_authority_def acquire_authority_def RECOVERY_COMMAND_SCOPES_def bindS_def retS_def)

lemma demo_loop_facts:
  "command_authority_owner (lp_state demo_loop) = None" "init_status (lp_state demo_loop) = ready"
  "server_session (lp_state demo_loop) = Some (new_session ready new_manager (Some 0))"
  "lp_clients demo_loop = []" "lp_mismatch demo_loop = 0" "lp_mode demo_loop = Cycling"
  "server_restart_requested (lp_state demo_loop) = False"
  by (simp_all add: demo_loop_def demo_motion_state_def)

lemma demo_owner: "command_authority_owner (lp_state demo_served) = Some 1"
proof -
  obtain r where "server_route demo_environment 1 authority_request (lp_state demo_loop)
    = (Inr r, (lp_state demo_loop)\<lparr>command_authority_owner := Some 1\<rparr>)"
    unfolding server_route_def
    using authority_granted [OF demo_loop_facts(1-3), of "en_str demo_environment" "handle_status demo_environment"
        "handle_command demo_environment" 1] by blast
  moreover have "allocate_client_id [] = 1" by code_simp
  ultimately show ?thesis
    by (simp add: demo_served_def after_serving_def accept_client_def new_client_def serve_one_def service_client_def
      decode_utf8_def process_lines.simps split_line_def process_line_def strip_def is_space_def reply_def
      send_client_message_def MAX_CLIENT_OUTPUT_BUFFER_BYTES_def send_feedback_if_due_def flush_client_output_def
      demo_loop_facts)
qed

theorem owner_is_connected_witness:
  "command_authority_owner (lp_state demo_served) = Some 1 \<and> 1 \<in> client_id ` set (lp_clients demo_served)"
proof -
  let ?l = "demo_loop\<lparr>lp_mode := Serving\<rparr>"
  have "loop_reachable ?l"
    using loop_reachable.step [OF loop_reachable.start loop_step.cycle, of demo_loop demo_environment]
    by (simp add: demo_loop_facts demo_loop_cycle)
  then have "loop_reachable (?l\<lparr>lp_clients := accept_client (lp_clients ?l)\<rparr>)"
    by (rule loop_reachable.step) (rule loop_step.accept, simp)
  then have "loop_reachable (demo_loop\<lparr>lp_mode := Serving, lp_clients := accept_client []\<rparr>)"
    by (simp add: demo_loop_facts)
  then have "loop_reachable demo_served"
    unfolding demo_served_def by (rule loop_reachable.step) (rule loop_step.serve, simp)
  from owner_is_connected [OF this] demo_owner show ?thesis by simp
qed

end
