(* ===== verification/Axis_Laws.thy ===== *)
theory Axis_Laws
  imports Motion_Handlers
begin

section \<open>Laws of the axis process images\<close>

text \<open>
  The interface the command handlers use of the axes: writing a field of an outgoing process image
  and reading it back. The locale states the laws of such a store and derives the effect of the
  loops over axes; it is interpreted on the process images of the runtime. Then the frame of a
  process data cycle: a cycle of the modelled bus leaves every outgoing field alone except the
  target position and the velocity offset. The properties give the control words the enable,
  disable and stop commands leave behind.
\<close>

subsection \<open>The interface\<close>

locale field_store =
  fixes valid :: "'s \<Rightarrow> nat \<Rightarrow> bool"
    and field :: "'s \<Rightarrow> nat \<Rightarrow> string \<Rightarrow> 'v option"
    and put :: "nat \<Rightarrow> string \<Rightarrow> 'w \<Rightarrow> ('s, 'e, unit) op"
    and stored :: "'w \<Rightarrow> 'v"
  assumes put_succeeds: "valid s n \<Longrightarrow> fst (put n f v s) = Inr ()"
    and put_keeps_valid: "valid (snd (put n f v s)) m = valid s m"
    and put_field: "valid s n \<Longrightarrow> valid s m \<Longrightarrow>
      field (snd (put n f v s)) m g = (if m = n \<and> g = f then Some (stored v) else field s m g)"
begin

lemma put_each:
  assumes "\<forall>n \<in> set ns. valid s n"
  shows "\<exists>t. forS ns (\<lambda>n. put n f (v n)) s = (Inr (), t) \<and> (\<forall>m. valid t m = valid s m) \<and>
    (\<forall>m g. valid s m \<longrightarrow>
       field t m g = (if m \<in> set ns \<and> g = f then Some (stored (v m)) else field s m g))"
  using assms
proof (induction ns arbitrary: s)
  case Nil
  then show ?case by (simp add: retS_def)
next
  case (Cons n ns)
  obtain x s1 where p: "put n f (v n) s = (x, s1)" by fastforce
  have n: "valid s n" using Cons.prems by simp
  have x: "x = Inr ()" and same: "\<And>m. valid s1 m = valid s m"
    and get: "\<And>m g. valid s m \<Longrightarrow> field s1 m g = (if m = n \<and> g = f then Some (stored (v n)) else field s m g)"
    using put_succeeds [OF n, of f "v n"] put_keeps_valid [of n f "v n" s] put_field [OF n, of _ f "v n"] p
    by simp_all
  have "\<forall>m \<in> set ns. valid s1 m" using Cons.prems same by simp
  from Cons.IH [OF this] obtain t where
    t: "forS ns (\<lambda>n. put n f (v n)) s1 = (Inr (), t)" "\<forall>m. valid t m = valid s1 m"
      "\<forall>m g. valid s1 m \<longrightarrow> field t m g = (if m \<in> set ns \<and> g = f then Some (stored (v m)) else field s1 m g)"
    by blast
  show ?case
  proof (intro exI [of _ t] conjI allI impI)
    show "forS (n # ns) (\<lambda>n. put n f (v n)) s = (Inr (), t)" using p x t(1) by simp
    show "valid t m = valid s m" for m using t(2) same by simp
    show "field t m g = (if m \<in> set (n # ns) \<and> g = f then Some (stored (v m)) else field s m g)"
      if "valid s m" for m g
      using that t(3) same get [OF that] by auto
  qed
qed

end

subsection \<open>The outgoing process images\<close>

definition runtime_ok :: "'d axis_runtime \<Rightarrow> bool" where
  "runtime_ok r \<longleftrightarrow>
     distinct (axis_bindings r) \<and> (\<forall>k \<in> set (axis_bindings r). k < length (slaves (bus r)))"

definition axis_valid :: "'d axis_runtime \<Rightarrow> nat \<Rightarrow> bool" where
  "axis_valid r n \<longleftrightarrow> runtime_ok r \<and> n < axis_total r"

definition rx_field :: "'d axis_runtime \<Rightarrow> nat \<Rightarrow> string \<Rightarrow> pyval option" where
  "rx_field r n f = pi_values (rxpdo (slaves (bus r) ! (axis_bindings r ! n))) f"

text \<open>The check of the bindings in \<open>AxisDeviceGroup\<close> gives the well-formed runtimes.\<close>

lemma valid_bindings_runtime_ok:
  assumes "valid_bindings (bus r) (map int [0..<axis_total r]) (map int (axis_bindings r)) = Inr ()"
  shows "runtime_ok r"
  using assms
  by (auto simp: valid_bindings_def runtime_ok_def list_ex_iff distinct_map split: if_splits)

lemma axis_slave_valid:
  assumes "axis_valid r n"
  shows "axis_slave r (int n) = Inr (slaves (bus r) ! (axis_bindings r ! n))"
  using assms by (simp add: axis_slave_def axis_valid_def runtime_ok_def)

lemma rx_int_valid:
  assumes "axis_valid r n"
  shows "rx_int r (int n) f = (case rx_field r n f of None \<Rightarrow> Inl AttributeError | Some v \<Rightarrow> int_of_value v)"
  using axis_slave_valid [OF assms]
  by (simp add: rx_int_def rx_field_def attribute_def split: option.split)

lemma py_index_valid [simp]: "n < length xs \<Longrightarrow> py_index xs (int n) = Inr n"
  by (simp add: py_index_def)

lemma set_rx_valid:
  assumes "axis_valid r n"
  shows "set_rx (int n) f v r =
    (let k = axis_bindings r ! n; s = slaves (bus r) ! k; im = rxpdo s
     in (Inr (), r\<lparr>bus := (bus r)\<lparr>slaves := (slaves (bus r))[k :=
           s\<lparr>rxpdo := im\<lparr>pi_values := (pi_values im)(f \<mapsto> PInt v)\<rparr>\<rparr>]\<rparr>\<rparr>))"
  using assms by (simp add: set_rx_def axis_valid_def runtime_ok_def Let_def)

lemma set_rx_frame [simp]:
  "axis_bindings (snd (set_rx i f v r)) = axis_bindings r"
  "controller (snd (set_rx i f v r)) = controller r" "converter (snd (set_rx i f v r)) = converter r"
  "axis_parameters (snd (set_rx i f v r)) = axis_parameters r"
  "length (slaves (bus (snd (set_rx i f v r)))) = length (slaves (bus r))"
  "map txpdo (slaves (bus (snd (set_rx i f v r)))) = map txpdo (slaves (bus r))"
  by (auto simp: set_rx_def Let_def map_update list_update_same_conv dest!: py_index_range split: sum.split)

lemma runtime_ok_cong:
  "axis_bindings r' = axis_bindings r \<Longrightarrow> length (slaves (bus r')) = length (slaves (bus r)) \<Longrightarrow>
   runtime_ok r' = runtime_ok r"
  by (simp add: runtime_ok_def)

interpretation rx: field_store axis_valid rx_field "\<lambda>n. set_rx (int n)" PInt
proof
  fix r :: "'d axis_runtime" and n m :: nat and f g :: string and v :: int
  show "axis_valid (snd (set_rx (int n) f v r)) m = axis_valid r m"
    by (simp add: axis_valid_def runtime_ok_def)
  assume n: "axis_valid r n"
  show "fst (set_rx (int n) f v r) = Inr ()" using set_rx_valid [OF n] by (simp add: Let_def)
  assume m: "axis_valid r m"
  have "axis_bindings r ! n < length (slaves (bus r))" using n by (simp add: axis_valid_def runtime_ok_def)
  moreover have "axis_bindings r ! m = axis_bindings r ! n \<longleftrightarrow> m = n"
    using n m by (auto simp: axis_valid_def runtime_ok_def nth_eq_iff_index_eq)
  ultimately show "rx_field (snd (set_rx (int n) f v r)) m g = (if m = n \<and> g = f then Some (PInt v) else rx_field r m g)"
    using set_rx_valid [OF n, of f v] by (auto simp: rx_field_def Let_def nth_list_update)
qed

text \<open>Writing a control word to a list of axes.\<close>

lemma set_controlwords_effect:
  fixes r :: "'d axis_runtime"
  assumes "runtime_ok r" and "\<forall>n \<in> set ns. n < axis_total r"
  shows "\<exists>t. set_controlwords (map int ns) cw r = (Inr (), t) \<and> runtime_ok t \<and>
    axis_bindings t = axis_bindings r \<and>
    (\<forall>m g. m < axis_total r \<longrightarrow>
       rx_field t m g = (if m \<in> set ns \<and> g = ''controlword'' then Some (PInt cw) else rx_field r m g))"
proof -
  have valid: "\<forall>n \<in> set ns. axis_valid r n" using assms by (simp add: axis_valid_def)
  obtain t where t: "forS ns (\<lambda>n. set_rx (int n) ''controlword'' cw) r = (Inr (), t)"
    "\<forall>m. axis_valid t m = axis_valid r m"
    "\<forall>m g. axis_valid r m \<longrightarrow>
       rx_field t m g = (if m \<in> set ns \<and> g = ''controlword'' then Some (PInt cw) else rx_field r m g)"
    using rx.put_each [OF valid, of "''controlword''" "\<lambda>_. cw"] by blast
  have "forS (map int ns) (\<lambda>i. set_rx i ''controlword'' cw) s = forS ns (\<lambda>n. set_rx (int n) ''controlword'' cw) s"
    for s :: "'d axis_runtime"
    by (induction ns arbitrary: s) (simp_all add: bindS_def split: prod.split sum.split)
  moreover have "axis_bindings t = axis_bindings r \<and> length (slaves (bus t)) = length (slaves (bus r))"
    using forS_invariant [of ns "\<lambda>s. axis_bindings s = axis_bindings r \<and> length (slaves (bus s)) = length (slaves (bus r))"
        "\<lambda>n. set_rx (int n) ''controlword'' cw" r] t(1) by simp
  ultimately show ?thesis
    using t assms(1) runtime_ok_cong [of t r]
    by (intro exI [of _ t]) (simp add: set_controlwords_def axis_valid_def)
qed

subsection \<open>The frame of a cycle\<close>

text \<open>What a cycle leaves alone: the bindings and every outgoing field but the two the motion
  controller writes.\<close>

definition held_fields :: "'d axis_runtime \<Rightarrow> nat list \<times> (string \<Rightarrow> pyval option) list" where
  "held_fields r =
     (axis_bindings r,
      map (\<lambda>s. (pi_values (rxpdo s))(''target_position'' := None, ''velocity_offset'' := None)) (slaves (bus r)))"

lemma held_fieldsD:
  assumes "held_fields r' = held_fields r"
  shows "axis_bindings r' = axis_bindings r" "length (slaves (bus r')) = length (slaves (bus r))"
    "runtime_ok r' = runtime_ok r"
    "axis_valid r n \<Longrightarrow> f \<noteq> ''target_position'' \<Longrightarrow> f \<noteq> ''velocity_offset'' \<Longrightarrow> rx_field r' n f = rx_field r n f"
proof -
  show b: "axis_bindings r' = axis_bindings r" using assms by (simp add: held_fields_def)
  show l: "length (slaves (bus r')) = length (slaves (bus r))"
    using arg_cong [OF assms, of "\<lambda>x. length (snd x)"] by (simp add: held_fields_def)
  show "runtime_ok r' = runtime_ok r" by (rule runtime_ok_cong [OF b l])
  assume "axis_valid r n" and f: "f \<noteq> ''target_position''" "f \<noteq> ''velocity_offset''"
  then have k: "axis_bindings r ! n < length (slaves (bus r))" by (simp add: axis_valid_def runtime_ok_def)
  have "(snd (held_fields r') ! (axis_bindings r ! n)) f = (snd (held_fields r) ! (axis_bindings r ! n)) f"
    using assms by simp
  then show "rx_field r' n f = rx_field r n f"
    using k l b f by (simp add: held_fields_def rx_field_def)
qed

lemma keeps_held_set_rx:
  assumes "f = ''target_position'' \<or> f = ''velocity_offset''"
  shows "keeps held_fields (set_rx i f v)"
  unfolding keeps_def
proof
  fix r :: "'d axis_runtime"
  have "map (\<lambda>s. (pi_values (rxpdo s))(''target_position'' := None, ''velocity_offset'' := None))
      ((slaves (bus r))[k := s\<lparr>rxpdo := (rxpdo s)\<lparr>pi_values := (pi_values (rxpdo s))(f \<mapsto> PInt v)\<rparr>\<rparr>])
    = map (\<lambda>s. (pi_values (rxpdo s))(''target_position'' := None, ''velocity_offset'' := None)) (slaves (bus r))"
    if "s = slaves (bus r) ! k" for k s
    using assms that
    by (cases "k < length (slaves (bus r))") (auto simp: map_update list_update_same_conv fun_upd_twist list_update_beyond)
  then show "held_fields (snd (set_rx i f v r)) = held_fields r"
    by (simp add: set_rx_def held_fields_def Let_def split: sum.split)
qed

lemma keeps_held_controller [keeps_intros]: "keeps held_fields (on_controller f)"
  by (simp add: keeps_def on_controller_def held_fields_def split: prod.split)

lemma keeps_held_bus:
  fixes f :: "('d MockMaster, exn, 'a) op"
  assumes "keeps (\<lambda>m. map rxpdo (slaves m)) f"
  shows "keeps held_fields (on_bus_op f)"
  unfolding keeps_def
proof
  fix r :: "'d axis_runtime"
  define g where "g im = (pi_values im)(''target_position'' := None, ''velocity_offset'' := None)"
    for im :: pdo_image
  have held: "held_fields u = (axis_bindings u, map g (map rxpdo (slaves (bus u))))" for u :: "'d axis_runtime"
    by (simp add: held_fields_def g_def)
  have "map rxpdo (slaves (snd (f (bus r)))) = map rxpdo (slaves (bus r))" by (rule keepsD [OF assms])
  then show "held_fields (snd (on_bus_op f r)) = held_fields r"
    unfolding held by (cases "f (bus r)") (simp add: on_bus_op_def)
qed

lemma keeps_rxpdo_phases:
  "keeps (\<lambda>m. map rxpdo (slaves m)) (prepare_processdata pstr t1 t2)"
  "keeps (\<lambda>m. map rxpdo (slaves m)) (send_processdata dc tx a b)"
  "keeps (\<lambda>m. map rxpdo (slaves m)) (receive_processdata pstr upd rx dc')"
proof -
  have req: "keeps g require_connected" for g :: "'d MockMaster \<Rightarrow> pdo_image list"
    unfolding require_connected_def by (intro keeps_intros)
  have "map rxpdo (map2 commit_prepared_output cs ss) = map rxpdo ss" if "length cs = length ss" for cs ss
    using that by (induction cs ss rule: list_induct2) (simp_all add: commit_prepared_output_def)
  then show "keeps (\<lambda>m. map rxpdo (slaves m)) (prepare_processdata pstr t1 t2)"
    unfolding prepare_processdata_def
    by (intro keeps_bindS req) (auto simp: keeps_def dest: mapE_length split: sum.split)
  show "keeps (\<lambda>m. map rxpdo (slaves m)) (send_processdata dc tx a b)"
    unfolding send_processdata_def
    by (intro keeps_bindS req) (simp add: keeps_def commit_transmitted_output_def comp_def)
  have decode: "map rxpdo (snd (decode_all ss ps)) = map rxpdo ss" for ss ps
    by (induction ss ps rule: decode_all.induct)
      (auto simp: decode_input_def split: prod.splits sum.splits)
  have "map rxpdo ss' = map rxpdo ss" if "decode_all ss ps = (x, ss')" for ss ps x ss'
    using decode [of ss ps] that by simp
  then show "keeps (\<lambda>m. map rxpdo (slaves m)) (receive_processdata pstr upd rx dc')"
    unfolding receive_processdata_def
    by (intro keeps_bindS req) (auto simp: keeps_def Let_def split: prod.split sum.split)
qed

lemma keeps_held_cycle [keeps_intros]: "keeps held_fields (axis_cycle pstr upd clock)"
proof -
  have set: "keeps held_fields (set_if_mapped i f v)" if "f = ''target_position'' \<or> f = ''velocity_offset''" for i f v
    unfolding set_if_mapped_def using keeps_held_set_rx [OF that] by (intro keeps_intros)
  have "keeps held_fields (apply_commands commands)" for commands
    by (rule keeps_unfold [OF apply_commands_def], rule keeps_read) (intro keeps_intros set; simp)
  then show ?thesis
    unfolding axis_cycle_def rt_prepare_processdata_def
    by (intro keeps_intros keeps_held_bus keeps_rxpdo_phases)
qed

lemma keeps_held_exchange [keeps_intros]:
  "keeps held_fields exch \<Longrightarrow> keeps held_fields (exchange exch n)"
  by (induction n) (auto intro!: keeps_intros)

subsection \<open>Partial results without failures\<close>

lemma collect_loop_fails_grow:
  "collect_loop xs f us vs s = (Inr (us', vs'), t) \<Longrightarrow> \<exists>ws. vs' = vs @ ws"
  by (induction xs arbitrary: us vs s) (fastforce split: prod.splits sum.splits if_splits)+

lemma collect_loop_success:
  "collect_loop xs f us [] s = (Inr (us', []), t) \<Longrightarrow> forS xs f s = (Inr (), t)"
proof (induction xs arbitrary: us s)
  case Nil
  then show ?case by (simp add: retS_def)
next
  case (Cons x xs)
  obtain r u where r: "f x s = (r, u)" by fastforce
  show ?case
  proof (cases r)
    case (Inl e)
    with Cons.prems r show ?thesis
      by (auto split: if_splits dest!: collect_loop_fails_grow)
  next
    case (Inr a)
    with Cons r show ?thesis by simp
  qed
qed

text \<open>A command over several targets that is not rejected has run on every target.\<close>

lemma rejecting_partial_success:
  assumes "rejecting_partial cmd (collect_target_results xs f) s = (Inr (), t)"
  shows "forS xs f s = (Inr (), t)"
proof -
  obtain c u where c: "collect_loop xs f [] [] s = (c, u)" by fastforce
  with assms obtain us vs where uv: "c = Inr (us, vs)"
    by (cases c) (auto simp: rejecting_partial_def collect_target_results_def bindS_def catchS_def raiseS_def)
  with c assms have "vs = []" "t = u"
    by (auto simp: rejecting_partial_def collect_target_results_def bindS_def catchS_def raiseS_def retS_def
        split: if_splits)
  with collect_loop_success [of xs f "[]" s us u] c uv show ?thesis by simp
qed

lemma collect_all_succeed:
  assumes "forS xs f s = (Inr (), t)"
  shows "collect_target_results xs f s = (Inr (Succeeded xs), t)"
proof -
  have "collect_loop xs f us [] s = (Inr (us @ xs, []), t)" for us
    using assms
  proof (induction xs arbitrary: us s)
    case Nil
    then show ?case by (simp add: retS_def)
  next
    case (Cons x xs)
    obtain r u where "f x s = (r, u)" by fastforce
    with Cons show ?case by (cases r) auto
  qed
  from this [of "[]"] show ?thesis by (simp add: collect_target_results_def retS_def)
qed

subsection \<open>Control words after enabling and disabling\<close>

lemma keeps_on_rt: "keeps g f \<Longrightarrow> keeps (\<lambda>st. g (rt st)) (on_rt f)"
  unfolding keeps_def on_rt_def by (auto split: prod.split) (metis snd_conv)

lemma keeps_rt_ask [keeps_intros]: "keeps g (ask f)"
  by (simp add: ask_def keeps_prims)

definition controlword_held :: "'d axis_runtime \<Rightarrow> 'd axis_runtime \<Rightarrow> bool" where
  "controlword_held r r' \<longleftrightarrow>
     axis_bindings r' = axis_bindings r \<and> runtime_ok r' = runtime_ok r \<and>
     (\<forall>n. axis_valid r n \<longrightarrow> rx_field r' n ''controlword'' = rx_field r n ''controlword'')"

lemma controlword_held_keeps: "keeps held_fields f \<Longrightarrow> f r = (x, r') \<Longrightarrow> controlword_held r r'"
  using held_fieldsD [of r' r] keeps_eqD [of held_fields f r x r'] by (simp add: controlword_held_def)

lemma set_axis_controlword_valid:
  "axis_valid r n \<Longrightarrow> set_axis_controlword (int n) cw r = set_rx (int n) ''controlword'' cw r"
  using rx.put_succeeds [of r n "''controlword''" cw]
  by (cases "set_rx (int n) ''controlword'' cw r") (simp add: set_axis_controlword_def catchS_def)

text \<open>Every axis of a list gets a control word, each after work that keeps the others. \<open>pr\<close> gives the
  runtime in the state of the loop.\<close>

lemma controlwords_loop:
  fixes s :: 's and pr :: "'s \<Rightarrow> 'd axis_runtime"
  assumes "runtime_ok (pr s)" "\<forall>i \<in> set axes. 0 \<le> i \<and> i < int (axis_total (pr s))"
    and work: "\<And>i. keeps (\<lambda>s. held_fields (pr s)) (w i)"
    and store: "\<And>i s x t. wr i s = (x, t) \<Longrightarrow> set_axis_controlword i cw (pr s) = (x, pr t)"
    and run: "forS axes (\<lambda>i. bindS (w i) (\<lambda>_. wr i)) s = (Inr (), s')"
  shows "axis_bindings (pr s') = axis_bindings (pr s) \<and> runtime_ok (pr s') \<and>
    (\<forall>n < axis_total (pr s). rx_field (pr s') n ''controlword'' =
       (if int n \<in> set axes then Some (PInt cw) else rx_field (pr s) n ''controlword''))"
  using assms(1,2) run
proof (induction axes arbitrary: s)
  case Nil
  then show ?case by (simp add: retS_def)
next
  case (Cons i axes)
  let ?r = "pr s"
  obtain n where n: "i = int n" "n < axis_total ?r" using Cons.prems(2) by (auto elim: nonneg_int_cases)
  obtain a s1 where s1: "w i s = (Inr a, s1)"
    using Cons.prems(3) by (auto simp: bindS_def split: prod.splits sum.splits)
  have held: "controlword_held ?r (pr s1)"
    using held_fieldsD [OF keeps_eqD [OF work s1]] by (simp add: controlword_held_def)
  then have v1: "axis_valid (pr s1) m" if "m < axis_total ?r" for m
    using that Cons.prems(1) by (simp add: controlword_held_def axis_valid_def)
  obtain x s2 where s2: "wr i s1 = (x, s2)" by fastforce
  have r2: "set_rx (int n) ''controlword'' cw (pr s1) = (x, pr s2)"
    using store [OF s2] set_axis_controlword_valid [OF v1 [OF n(2)]] n(1) by simp
  have x: "x = Inr ()" using rx.put_succeeds [OF v1 [OF n(2)], of "''controlword''" cw] r2 by simp
  have f2: "rx_field (pr s2) m ''controlword'' = (if m = n then Some (PInt cw) else rx_field (pr s1) m ''controlword'')"
    and v2: "axis_valid (pr s2) m" if "m < axis_total ?r" for m
    using rx.put_field [OF v1 [OF n(2)] v1 [OF that], of "''controlword''" cw "''controlword''"]
      rx.put_keeps_valid [of n "''controlword''" cw "pr s1" m] r2 v1 [OF that] by simp_all
  have bind: "axis_bindings (pr s2) = axis_bindings ?r"
    using set_rx_frame(1) [of "int n" "''controlword''" cw "pr s1"] r2 held by (simp add: controlword_held_def)
  have "runtime_ok (pr s2)" using v2 [OF n(2)] by (simp add: axis_valid_def)
  moreover have "forS axes (\<lambda>i. bindS (w i) (\<lambda>_. wr i)) s2 = (Inr (), s')"
    using Cons.prems(3) s1 s2 x by simp
  ultimately have "axis_bindings (pr s') = axis_bindings (pr s2) \<and> runtime_ok (pr s') \<and>
    (\<forall>n < axis_total (pr s2). rx_field (pr s') n ''controlword'' =
       (if int n \<in> set axes then Some (PInt cw) else rx_field (pr s2) n ''controlword''))"
    by (intro Cons.IH) (use Cons.prems(2) bind in auto)
  then show ?case
    using bind f2 held Cons.prems(1) n by (auto simp: controlword_held_def axis_valid_def)
qed

lemma keeps_held_hold [keeps_intros]:
  "keeps (\<lambda>st. held_fields (rt st)) (hold_axis_at_actual_position i)"
proof -
  have "keeps held_fields (group_set_target_position i x)" for i x
    unfolding group_set_target_position_def by (rule keeps_held_set_rx) simp
  then have "keeps held_fields (rt_hold_axes targets axes)" for targets axes
    unfolding rt_hold_axes_def by (intro keeps_intros)
  then have [keeps_intros]: "keeps (\<lambda>st. held_fields (rt st)) (on_rt (rt_hold_axes targets axes))"
    for targets axes by (rule keeps_on_rt)
  show ?thesis
    by (rule keeps_unfold [OF hold_axis_at_actual_position_def]) (intro keeps_intros, simp)
qed

text \<open>Cutting a run that does not raise.\<close>

lemma bindS_Inr_iff:
  "bindS m f s = (Inr b, t) \<longleftrightarrow> (\<exists>a u. m s = (Inr a, u) \<and> f a u = (Inr b, t))"
  by (auto simp: bindS_def split: prod.splits sum.splits)

lemma rejecting_Inr_iff: "rejecting cmd m s = (Inr a, t) \<longleftrightarrow> m s = (Inr a, t)"
  by (auto simp: rejecting_def catchS_def raiseS_def split: prod.splits sum.splits)

lemma on_rt_Inr_iff: "on_rt f st = (Inr a, st') \<longleftrightarrow> (\<exists>r. f (rt st) = (Inr a, r) \<and> st' = st\<lparr>rt := r\<rparr>)"
  by (auto simp: on_rt_def split: prod.splits)

lemma prim_Inr_iff:
  "ask f st = (Inr a, st') \<longleftrightarrow> f (rt st) = Inr a \<and> st' = st"
  "liftE h s = (Inr b, t) \<longleftrightarrow> h s = Inr b \<and> t = s" "retS c s = (Inr d, t) \<longleftrightarrow> d = c \<and> t = s"
  by (auto simp: ask_def liftE_def retS_def)

lemmas run_cuts = bindS_Inr_iff rejecting_Inr_iff on_rt_Inr_iff prim_Inr_iff

lemma disable_run:
  assumes "disable exch upd sd cmd message st = (Inr x, st')"
  obtains axes st1 st2 st3 where "parse_axis_indices (axis_total (rt st)) message = Inr axes"
    and "stop_trajectory_on axes st = (Inr (), st1)" and "stop_homing_on exch upd axes st1 = (Inr (), st2)"
    and "forS axes disable_axis st2 = (Inr (), st3)"
    and "exchange exch 3 (rt (snd (set_controller_targets st3))) = (Inr (), rt st')"
proof -
  obtain axes st1 st2 st3 st4 r' where axes: "parse_axis_indices (axis_total (rt st)) message = Inr axes"
    and st: "stop_trajectory_on axes st = (Inr (), st1)" "stop_homing_on exch upd axes st1 = (Inr (), st2)"
    and st3: "rejecting_partial cmd (collect_target_results axes disable_axis) st2 = (Inr (), st3)"
    and st4: "set_controller_targets st3 = (Inr (), st4)"
    and r': "exchange exch 3 (rt st4) = (Inr (), r')" "st' = st4\<lparr>rt := r'\<rparr>"
    using assms by (auto simp: disable_def run_cuts selected_axes_def)
  show ?thesis
    by (rule that [OF axes st rejecting_partial_success [OF st3]]) (use st4 r' in simp)
qed

lemma keeps_held_targets: "keeps (\<lambda>st. held_fields (rt st)) set_controller_targets"
  by (simp add: keeps_def set_controller_targets_def on_rt_def rt_set_target_positions_def modifyS_def held_fields_def)

text \<open>The bindings and the number of slaves survive the stopping of homing, which changes modes.\<close>

definition shape :: "'d axis_runtime \<Rightarrow> nat list \<times> nat" where
  "shape r = (axis_bindings r, length (slaves (bus r)))"

lemma shapeD: "shape r' = shape r \<Longrightarrow> axis_bindings r' = axis_bindings r \<and> runtime_ok r' = runtime_ok r"
  by (simp add: shape_def runtime_ok_def)

lemma keeps_shape_held: "keeps held_fields f \<Longrightarrow> keeps shape f"
  using held_fieldsD(1,2) by (fastforce simp: keeps_def shape_def)

lemma keeps_shape_set_rx [keeps_intros]: "keeps shape (set_rx i f v)"
  by (simp add: keeps_def shape_def)

lemma keeps_shape_configure [keeps_intros]: "keeps shape (profile_configure_mode_code upd i c)"
proof -
  have "length (slaves (snd (configure_mode_code upd k c m))) = length (slaves m)" for k m
    by (simp add: configure_mode_code_def sdo_write_int_def master_write_sdo_def on_rxpdo_def bindS_def
        liftE_def split: sum.split prod.split)
  then show ?thesis
    by (auto simp: keeps_def shape_def profile_configure_mode_code_def on_bus_op_def split: sum.split prod.split)
      (metis snd_conv)
qed

lemma keeps_shape_motion_mode [keeps_intros]:
  assumes "keeps shape exch"
  shows "keeps (\<lambda>st. shape (rt st)) (configure_motion_mode exch upd mode i)"
proof -
  have "keeps shape (exchange exch n)" for n
    by (induction n) (auto intro!: keeps_intros assms)
  then show ?thesis
    unfolding configure_motion_mode_def op_configure_mode_code_def
    by (intro keeps_intros keeps_on_rt)
qed

lemma keeps_shape_setters [keeps_intros]:
  "keeps (\<lambda>st. shape (rt st)) (set_motion_mode i mode)" "keeps (\<lambda>st. shape (rt st)) update_motion_mode_summary"
  by (simp_all add: keeps_def set_motion_mode_def update_motion_mode_summary_def split: sum.split list.split)

lemma keeps_shape_finish_homing:
  assumes "keeps shape exch"
  shows "keeps (\<lambda>st. shape (rt st)) (finish_homing exch upd result message)"
proof -
  have ex: "keeps shape (exchange exch n)" for n
    by (induction n) (auto intro!: keeps_intros assms)
  have bits: "keeps shape (set_homing_start_bit axes b)" for axes b
    unfolding set_homing_start_bit_def by (intro keeps_intros)
  have restore: "keeps (\<lambda>st. shape (rt st)) (restore_mode exch upd original i)" for original i
    unfolding restore_mode_def by (intro keeps_intros assms)
  show ?thesis
    by (rule keeps_unfold [OF finish_homing_def [unfolded Let_def]])
      (intro keeps_intros keeps_on_rt ex bits keeps_read [of _ "\<lambda>st. on_rt (set_homing_start_bit (hm_axes (homing st)) False)"]
         keeps_read [of _ "\<lambda>st. forS (hm_axes (homing st))
         (restore_mode exch upd (hm_original_modes (homing st)))"] restore, simp)
qed

lemma bindS_retS_left: "bindS (retS x) f = f x"
  by (simp add: bindS_def retS_def fun_eq_iff)

lemma enable_controlwords:
  assumes "runtime_ok (rt st)" and axes: "parse_axis_indices (axis_total (rt st)) message = Inr axes"
    and range: "\<forall>i \<in> set axes. 0 \<le> i \<and> i < int (axis_total (rt st))"
    and exch: "keeps held_fields exch" and n: "n < axis_total (rt st)"
  shows "axis_valid (rt (snd (enable exch sd cmd message st))) n \<and>
    rx_field (rt (snd (enable exch sd cmd message st))) n ''controlword'' =
    (if int n \<in> set axes then Some (PInt 0x000F) else rx_field (rt st) n ''controlword'')"
proof -
  have "\<exists>r. set_controlwords axes 0x000F (rt st) = (Inr (), r) \<and>
      forS axes (\<lambda>i. set_axis_controlword i 0x000F) (rt st) = (Inr (), r)"
    using assms(1) range
  proof (induction axes arbitrary: st)
    case Nil
    then show ?case by (simp add: set_controlwords_def retS_def)
  next
    case (Cons i axes)
    obtain m where m: "i = int m" "axis_valid (rt st) m"
      using Cons.prems by (auto simp: axis_valid_def elim: nonneg_int_cases)
    obtain r1 where r1: "set_rx i ''controlword'' 0x000F (rt st) = (Inr (), r1)"
      using rx.put_succeeds [OF m(2)] m(1) by (metis prod.collapse)
    have "axis_bindings r1 = axis_bindings (rt st) \<and> runtime_ok r1"
      using set_rx_frame(1) [of i "''controlword''" "0x000F" "rt st"]
        set_rx_frame(5) [of i "''controlword''" "0x000F" "rt st"] r1 Cons.prems(1)
      by (simp add: runtime_ok_def)
    then have "\<exists>r. set_controlwords axes 0x000F r1 = (Inr (), r) \<and>
        forS axes (\<lambda>i. set_axis_controlword i 0x000F) r1 = (Inr (), r)"
      using Cons.IH [where st = "st\<lparr>rt := r1\<rparr>"] Cons.prems(2) by simp
    with r1 set_axis_controlword_valid [OF m(2)] m(1) show ?case by (auto simp: set_controlwords_def)
  qed
  then obtain r where r: "forS axes (\<lambda>i. set_axis_controlword i 0x000F) (rt st) = (Inr (), r)" by blast
  have loop: "axis_bindings r = axis_bindings (rt st) \<and> runtime_ok r \<and>
      (\<forall>n < axis_total (rt st). rx_field r n ''controlword'' =
         (if int n \<in> set axes then Some (PInt 0x000F) else rx_field (rt st) n ''controlword''))"
  proof (rule controlwords_loop [where pr = "\<lambda>r. r" and s = "rt st" and w = "\<lambda>_. retS ()"])
    show "forS axes (\<lambda>i. bindS (retS ()) (\<lambda>_. set_axis_controlword i 0x000F)) (rt st) = (Inr (), r)"
      using r by (simp only: bindS_retS_left)
  qed (use assms(1) range in \<open>simp_all add: keeps_prims\<close>)
  have "rejecting_partial cmd (on_rt (set_axes_controlword axes 0x000F)) st = (Inr (), st\<lparr>rt := r\<rparr>)"
    using collect_all_succeed [OF r]
    by (simp add: rejecting_partial_def set_axes_controlword_def on_rt_def bindS_def catchS_def retS_def)
  then have "held_fields (rt (snd (enable exch sd cmd message st))) = held_fields r"
    using keepsD [OF keeps_held_exchange [OF exch, of 3], of r] axes
    by (auto simp: enable_def rejecting_def catchS_def ask_def selected_axes_def liftE_def on_rt_def retS_def bindS_def
        split: prod.split sum.split)
  from held_fieldsD [OF this] loop n show ?thesis by (simp add: axis_valid_def)
qed

lemma disable_controlwords:
  assumes "runtime_ok (rt st)" and "disable exch upd sd cmd message st = (Inr x, st')"
    and "parse_axis_indices (axis_total (rt st)) message = Inr axes" and exch: "keeps held_fields exch"
    and "n < axis_total (rt st)" "int n \<in> set axes"
    and range: "\<forall>i \<in> set axes. 0 \<le> i \<and> i < int (axis_total (rt st))"
  shows "axis_valid (rt st') n \<and> rx_field (rt st') n ''controlword'' = Some (PInt 0x0007)"
proof -
  obtain st1 st2 st3 where run: "stop_trajectory_on axes st = (Inr (), st1)"
    "stop_homing_on exch upd axes st1 = (Inr (), st2)" "forS axes disable_axis st2 = (Inr (), st3)"
    "exchange exch 3 (rt (snd (set_controller_targets st3))) = (Inr (), rt st')"
    by (rule disable_run [OF assms(2)]) (use assms(3) in simp)
  have "rt st1 = rt st"
    using run(1) by (auto simp: stop_trajectory_on_def set_trajectory_inactive_def modifyS_def split: if_splits)
  moreover have "shape (rt st2) = shape (rt st1)"
    using run(2) keeps_eqD [OF keeps_shape_finish_homing [OF keeps_shape_held [OF exch]]]
    by (fastforce simp: stop_homing_on_def split: if_splits)
  ultimately have shape: "axis_bindings (rt st2) = axis_bindings (rt st)" "runtime_ok (rt st2)"
    using shapeD assms(1) by auto
  have loop: "axis_bindings (rt st3) = axis_bindings (rt st2) \<and> runtime_ok (rt st3) \<and>
      (\<forall>n < axis_total (rt st2). rx_field (rt st3) n ''controlword'' =
         (if int n \<in> set axes then Some (PInt 0x0007) else rx_field (rt st2) n ''controlword''))"
  proof (rule controlwords_loop [where pr = rt and w = hold_axis_at_actual_position])
    show "forS axes (\<lambda>i. bindS (hold_axis_at_actual_position i) (\<lambda>_. on_rt (set_axis_controlword i 0x0007))) st2
        = (Inr (), st3)"
      using run(3) by (simp add: disable_axis_def [abs_def])
    show "set_axis_controlword i 0x0007 (rt s) = (x, rt t)"
      if "on_rt (set_axis_controlword i 0x0007) s = (x, t)" for i s x and t :: "'a motion_state"
      using that by (auto simp: on_rt_def split: prod.splits)
  qed (use shape range in \<open>simp_all add: keeps_held_hold\<close>)
  have "held_fields (rt st') = held_fields (rt (snd (set_controller_targets st3)))"
    by (rule keeps_eqD [OF keeps_held_exchange [OF exch] run(4)])
  also have "\<dots> = held_fields (rt st3)" by (rule keepsD [OF keeps_held_targets])
  finally show ?thesis
    using held_fieldsD [of "rt st'" "rt st3"] loop shape assms(5,6)
    by (simp add: axis_valid_def)
qed

subsection \<open>Properties\<close>

text \<open>Enabling and disabling reach the drives. Assume a process data cycle that leaves the outgoing
  fields alone except the target position and the velocity offset, as the cycle of the server does. After
  \<open>enable\<close>, whether or not the cycles that follow fail, every selected axis is sent the control word
  \<open>0x000F\<close> and every other axis the one it had; after a \<open>disable\<close> that is not rejected every selected axis
  is sent \<open>0x0007\<close>.\<close>

theorem enable_disable_controlwords:
  assumes cycle_frame: "keeps held_fields exch"
    and "runtime_ok (rt st)" and "parse_axis_indices (axis_total (rt st)) message = Inr axes"
    and "n < axis_total (rt st)"
  shows "rx_int (rt (snd (enable exch sd cmd message st))) (int n) ''controlword'' =
      (if int n \<in> set axes then Inr 0x000F else rx_int (rt st) (int n) ''controlword'') \<and>
    (\<forall>x st'. disable exch upd sd cmd message st = (Inr x, st') \<and> int n \<in> set axes \<longrightarrow>
      rx_int (rt st') (int n) ''controlword'' = Inr 0x0007)"
proof -
  note range = conjunct2 [OF parse_axis_indices_in_range [OF assms(3)]]
  have valid: "axis_valid (rt st) n" using assms(2,4) by (simp add: axis_valid_def)
  have enable: "rx_int (rt (snd (enable exch sd cmd message st))) (int n) ''controlword'' =
      (if int n \<in> set axes then Inr 0x000F else rx_int (rt st) (int n) ''controlword'')"
    using enable_controlwords [OF assms(2,3) range cycle_frame assms(4), of sd cmd] rx_int_valid [OF valid]
    by (simp add: rx_int_valid int_of_value_def)
  have "rx_int (rt st') (int n) ''controlword'' = Inr 0x0007"
    if "disable exch upd sd cmd message st = (Inr x, st')" "int n \<in> set axes" for x st'
    using disable_controlwords [OF assms(2) that(1) assms(3) cycle_frame assms(4) that(2) range]
    by (simp add: rx_int_valid int_of_value_def)
  with enable show ?thesis by blast
qed

lemma demo_actual_positions: "actual_positions (demo_runtime w0 w1) = Inr [40, 40]"
  by (simp add: actual_positions_def tx_real_def real_of_value_def axis_slave_def py_nth_def py_index_def
      demo_drive_def demo_image_def attribute_def int_of_value_def upt_rec)

lemma demo_hold_axis:
  "\<exists>st'. hold_axis_at_actual_position 1 (demo_motion_state (demo_runtime 0x27 0x27)) = (Inr (), st') \<and>
     axis_valid (rt st') 1"
  by (simp add: hold_axis_at_actual_position_def rt_hold_axes_def on_rt_def bindS_def liftE_def
      on_controller_def modifyS_def retS_def demo_actual_positions py_nth_def py_index_def
      on_generator_def demo_controller_def group_set_target_position_def set_rx_def axis_valid_def runtime_ok_def Let_def
      split: prod.split)

lemma demo_parse: "parse_axis_indices (Suc (Suc 0)) [(''axis'', PInt 1)] = Inr [1]"
  by code_simp

lemma demo_disable_axis: "\<exists>st'. disable_axis 1 (demo_motion_state (demo_runtime 0x27 0x27)) = (Inr (), st')"
proof -
  obtain t where t: "hold_axis_at_actual_position 1 (demo_motion_state (demo_runtime 0x27 0x27)) = (Inr (), t)"
    "axis_valid (rt t) 1" using demo_hold_axis by blast
  then show ?thesis
    using set_axis_controlword_valid [OF t(2), of 7] set_rx_valid [OF t(2), of "''controlword''" 7]
    by (simp add: disable_axis_def run_cuts Let_def)
qed

lemma demo_disable_succeeds:
  "\<exists>st'. disable (retS ()) still_device (\<lambda>_. Inr PNone) ''axis/disable'' [(''axis'', PInt 1)]
      (demo_motion_state (demo_runtime 0x27 0x27)) = (Inr (HData PNone), st')"
proof -
  let ?st = "demo_motion_state (demo_runtime 0x27 0x27)"
  obtain t where "disable_axis 1 ?st = (Inr (), t)" using demo_disable_axis by blast
  then have "collect_target_results [1] disable_axis ?st = (Inr (Succeeded [1]), t)"
    by (intro collect_all_succeed) (simp add: retS_def)
  then show ?thesis
    by (simp add: disable_def run_cuts demo_parse rejecting_partial_def catchS_def selected_axes_def
                stop_trajectory_on_def stop_homing_on_def set_controller_targets_def rt_set_target_positions_def
        modifyS_def inactive_trajectory_state_def inactive_homing_state_def numeral_3_eq_3)
qed

theorem enable_disable_controlwords_witness:
  "\<exists>x st'. disable (retS ()) still_device (\<lambda>_. Inr PNone) ''axis/disable'' [(''axis'', PInt 1)]
      (demo_motion_state (demo_runtime 0x27 0x27)) = (Inr x, st') \<and>
    rx_int (rt st') 1 ''controlword'' = Inr 0x0007"
proof -
  let ?st = "demo_motion_state (demo_runtime 0x27 0x27)"
  obtain st' where run: "disable (retS ()) still_device (\<lambda>_. Inr PNone) ''axis/disable'' [(''axis'', PInt 1)] ?st
      = (Inr (HData PNone), st')" using demo_disable_succeeds by blast
  have "keeps held_fields (retS () :: (unit axis_runtime, exn, unit) op)" by (rule keeps_prims)
  moreover have "runtime_ok (rt ?st)" "axis_total (rt ?st) = 2" by (simp_all add: runtime_ok_def)
  ultimately have "rx_int (rt st') 1 ''controlword'' = Inr 0x0007"
    using run enable_disable_controlwords [of "retS ()" ?st "[(''axis'', PInt 1)]" "[1]" 1
        "\<lambda>_. Inr PNone" "''axis/disable''" still_device] by (simp add: demo_parse)
  with run show ?thesis by blast
qed

end
