(* ===== verification/Recovery_Laws.thy ===== *)
theory Recovery_Laws
  imports Server_Loop Axis_Laws
begin

section \<open>Losing and recovering the bus\<close>

text \<open>
  What the server promises of its diagnostics and of its runtime state when the bus is lost, when it
  is reconnected, and when the reconnect fails. \<open>bus_ready\<close> is the state of a session the recovery
  starts from; every step of a recovery keeps it.
\<close>

subsection \<open>Sessions ready for a recovery\<close>

definition bus_faults :: "DiagnosticDefinition list" where
  "bus_faults = [BUS_CONNECTION_LOST, BUS_RECONNECT_FAILED, BUS_PROCESS_DATA_INCOMPLETE]"

definition bus_key_free :: "(diag_key \<Rightarrow> string) \<Rightarrow> DiagnosticManager \<Rightarrow> DiagnosticDefinition \<Rightarrow> bool" where
  "bus_key_free ids m d \<longleftrightarrow>
     (case view m (key_of (code d) BUS_SOURCE) of
        Some st \<Rightarrow> ddef st = d
      | None \<Rightarrow> ids (key_of (code d) BUS_SOURCE) \<noteq> [] \<and> ids (key_of (code d) BUS_SOURCE) \<notin> used_ids m)"

definition bus_ready :: "(diag_key \<Rightarrow> string) \<Rightarrow> ServerSession \<Rightarrow> bool" where
  "bus_ready ids s \<longleftrightarrow>
     runtime s \<noteq> None \<and> manager_inv (diagnostic_manager s) \<and>
     list_all (bus_key_free ids (diagnostic_manager s)) bus_faults"

definition session_ready :: "(diag_key \<Rightarrow> string) \<Rightarrow> 'd motion_state \<Rightarrow> bool" where
  "session_ready ids st \<longleftrightarrow> (\<exists>s. server_session st = Some s \<and> bus_ready ids s)"

text \<open>New ids of bus diagnostics differ from those of axis diagnostics.\<close>

definition separate_ids :: "(diag_key \<Rightarrow> string) \<Rightarrow> bool" where
  "separate_ids ids \<longleftrightarrow> (\<forall>c c' i. ids (c, BUS, 0) \<noteq> ids (c', AXIS, i))"

text \<open>Reporting a bus fault.\<close>

lemma detect_bus_fault:
  assumes "manager_inv m" and "bus_key_free ids m d"
  obtains st m' where "detect d BUS_SOURCE det ctx now (ids (key_of (code d) BUS_SOURCE)) m = (Inr st, m')"
    and "manager_inv m'" and "view m' = (view m)(key_of (code d) BUS_SOURCE \<mapsto> st)"
    and "ddef st = d" and "resolved_at (history st) = None"
proof (cases "view m (key_of (code d) BUS_SOURCE)")
  case None
  with assms have fresh: "ids (key_of (code d) BUS_SOURCE) \<noteq> []" "ids (key_of (code d) BUS_SOURCE) \<notin> used_ids m"
    by (simp_all add: bus_key_free_def)
  note new = detect_new [OF assms(1) None fresh, of det ctx now]
  show ?thesis
    by (rule that [OF _ new(2,3)]) (use new(1) in \<open>auto simp: opened_def prod_eq_iff\<close>)
next
  case (Some st)
  with assms(2) have "ddef st = d" by (simp add: bus_key_free_def)
  note active = detect_active [OF assms(1) Some]
  show ?thesis
    by (rule that [OF active(1-3)]) (use \<open>ddef st = d\<close> in \<open>simp_all add: reopened_def\<close>)
qed

text \<open>Diagnostics of the axes leave the bus diagnostics alone.\<close>

lemma bus_ready_manager:
  assumes "bus_ready ids s" and "separate_ids ids" and "manager_inv m'"
    and "\<forall>k. fst (snd k) = BUS \<longrightarrow> view m' k = view (diagnostic_manager s) k"
    and "used_ids m' \<subseteq> insert (ids (c, AXIS, i)) (used_ids (diagnostic_manager s))"
  shows "bus_ready ids (s\<lparr>diagnostic_manager := m'\<rparr>)"
proof -
  have "bus_key_free ids m' d" if "bus_key_free ids (diagnostic_manager s) d" for d
  proof -
    have "view m' (key_of (code d) BUS_SOURCE) = view (diagnostic_manager s) (key_of (code d) BUS_SOURCE)"
      using assms(4) by (simp add: key_of_def BUS_SOURCE_def)
    moreover have "ids (key_of (code d) BUS_SOURCE) \<noteq> ids (c, AXIS, i)"
      using assms(2) by (simp add: separate_ids_def key_of_def BUS_SOURCE_def)
    ultimately show ?thesis
      using that assms(5) by (auto simp: bus_key_free_def split: option.splits)
  qed
  then show ?thesis using assms(1,3) by (auto simp: bus_ready_def list_all_iff)
qed

lemma detect_frame:
  assumes "manager_inv m"
  shows "manager_inv (snd (detect d src det ctx now i m))"
    "k \<noteq> key_of (code d) src \<Longrightarrow> view (snd (detect d src det ctx now i m)) k = view m k"
proof -
  have "manager_inv (snd (detect d src det ctx now i m)) \<and>
    (\<forall>k. k \<noteq> key_of (code d) src \<longrightarrow> view (snd (detect d src det ctx now i m)) k = view m k)"
  proof (cases "view m (key_of (code d) src)")
    case None
    show ?thesis
    proof (cases "i = [] \<or> i \<in> used_ids m")
      case True
      then show ?thesis using None assms by (auto simp: detect_def status_for_view Let_def)
    next
      case False
      with detect_new [OF assms None, of i det ctx now] show ?thesis by simp
    qed
  next
    case (Some st)
    then show ?thesis using detect_active [OF assms Some] assms by (cases "ddef st = d") auto
  qed
  then show "manager_inv (snd (detect d src det ctx now i m))"
    "k \<noteq> key_of (code d) src \<Longrightarrow> view (snd (detect d src det ctx now i m)) k = view m k" by blast+
qed

lemma resolve_if_active_effect:
  assumes "manager_inv m"
  obtains m' where "resolve_if_active c src now m = (Inr (), m')" and "manager_inv m'"
    and "view m' = (view m)(key_of c src := Option.bind (view m (key_of c src)) (keep_if_open \<circ> resolved now))"
    and "used_ids m' = used_ids m"
proof (cases "view m (key_of c src)")
  case None
  then show ?thesis by (intro that [of m]) (auto simp: resolve_if_active_def status_for_view assms)
next
  case (Some st)
  note eff = resolve_correct [OF assms Some, of now]
  show ?thesis
  proof (rule that [of "snd (resolve c src now m)"])
    show "resolve_if_active c src now m = (Inr (), snd (resolve c src now m))"
      using Some eff(1) by (cases "resolve c src now m") (simp add: resolve_if_active_def status_for_view retS_def)
  qed (use eff(2,3) Some used_ids_resolve [OF assms] in simp_all)
qed

subsection \<open>Every step of a recovery keeps the session ready\<close>

definition recovers :: "(diag_key \<Rightarrow> string) \<Rightarrow> ('d motion_state, exn, 'a) op \<Rightarrow> bool" where
  "recovers ids f \<longleftrightarrow> triple (session_ready ids) f (\<lambda>_. session_ready ids) (\<lambda>_. session_ready ids)"

named_theorems recovers_intros \<open>operations that keep a session ready for a recovery\<close>

lemma recoversD: "recovers ids f \<Longrightarrow> session_ready ids s \<Longrightarrow> f s = (x, t) \<Longrightarrow> session_ready ids t"
  unfolding recovers_def by (cases x) (auto dest: tripleD)

lemma recovers_prims [recovers_intros]: "recovers ids (retS a)" "recovers ids (raiseS e)" "recovers ids (liftE h)"
  by (simp_all add: recovers_def triple_def opsimps split: sum.split)

lemma recovers_bindS [recovers_intros]:
  "recovers ids f \<Longrightarrow> (\<And>a. recovers ids (g a)) \<Longrightarrow> recovers ids (bindS f g)"
  unfolding recovers_def by (rule triple_bindS)

lemma recovers_catchS [recovers_intros]:
  "recovers ids f \<Longrightarrow> (\<And>e. recovers ids (h e)) \<Longrightarrow> recovers ids (catchS f h)"
  unfolding recovers_def by (rule triple_catchS)

lemma recovers_forS [recovers_intros]: "(\<And>x. recovers ids (f x)) \<Longrightarrow> recovers ids (forS xs f)"
  unfolding recovers_def by (rule triple_forS)

lemma recovers_if [recovers_intros]:
  "recovers ids f \<Longrightarrow> recovers ids g \<Longrightarrow> recovers ids (if b then f else g)"
  by simp

lemma recovers_keeps:
  assumes "keeps server_session f"
  shows "recovers ids f"
  using triple_keeps [OF assms, of "\<lambda>x. \<exists>s. x = Some s \<and> bus_ready ids s"]
  by (simp add: recovers_def session_ready_def [abs_def])

lemma keeps_session_on_rt: "keeps server_session (on_rt f)"
  by (simp add: keeps_def on_rt_def split: prod.split)

lemmas recovers_on_rt [recovers_intros] = recovers_keeps [OF keeps_session_on_rt]

lemma recovers_read: "(\<And>s. recovers ids (f s)) \<Longrightarrow> recovers ids (\<lambda>s. f s s)"
  by (simp add: recovers_def triple_def)

lemma recovers_read_rt [recovers_intros]: "recovers ids (\<lambda>s. on_rt (f s) s)"
  by (rule recovers_read [of _ "\<lambda>s. on_rt (f s)"]) (rule recovers_on_rt)

lemma recovers_manager:
  assumes "separate_ids ids"
    and "\<And>m. manager_inv m \<Longrightarrow> manager_inv (snd (f m)) \<and> (\<forall>k. fst (snd k) = BUS \<longrightarrow> view (snd (f m)) k = view m k) \<and>
      used_ids (snd (f m)) \<subseteq> insert (ids (c, AXIS, i)) (used_ids m)"
  shows "recovers ids (session_manager f)"
  unfolding recovers_def triple_def
proof (intro allI impI)
  fix st :: "'b motion_state"
  assume "session_ready ids st"
  then obtain s where s: "server_session st = Some s" "bus_ready ids s" by (auto simp: session_ready_def)
  then have m: "manager_inv (diagnostic_manager s)" by (simp add: bus_ready_def)
  obtain x m' where f: "f (diagnostic_manager s) = (x, m')" by fastforce
  have "bus_ready ids (s\<lparr>diagnostic_manager := m'\<rparr>)"
    using assms(2) [OF m] f by (intro bus_ready_manager [OF s(2) assms(1)]) auto
  then have "session_ready ids (snd (session_manager f st))"
    using f s(1) by (simp add: session_ready_def session_manager_def on_session_def on_manager_def)
  then show "case session_manager f st of (Inl e, t) \<Rightarrow> session_ready ids t | (Inr a, t) \<Rightarrow> session_ready ids t"
    by (auto split: prod.split sum.split)
qed

lemma axis_diagnostics_recover [recovers_intros]:
  assumes "separate_ids ids"
  shows "recovers ids (session_manager (dropping (detect d (AXIS_SOURCE n) det ctx now (ids (key_of (code d) (AXIS_SOURCE n))))))"
    and "recovers ids (session_manager (resolve_if_active c (AXIS_SOURCE n) now))"
proof -
  have key: "key_of c' (AXIS_SOURCE n) = (c', AXIS, int n)" for c' by (simp add: key_of_def AXIS_SOURCE_def)
  have drop: "snd (dropping f m) = snd (f m)" for f :: "(DiagnosticManager, exn, 'x) op" and m
    by (simp add: dropping_def bindS_def retS_def split: prod.split sum.split)
  show "recovers ids (session_manager (dropping (detect d (AXIS_SOURCE n) det ctx now (ids (key_of (code d) (AXIS_SOURCE n))))))"
    by (rule recovers_manager [OF assms, of _ "code d" "int n"])
      (use detect_frame used_ids_detect in \<open>auto simp: key drop\<close>)
  show "recovers ids (session_manager (resolve_if_active c (AXIS_SOURCE n) now))"
  proof (rule recovers_manager [OF assms, of _ c "int n"])
    fix m assume "manager_inv m"
    then obtain m' where "resolve_if_active c (AXIS_SOURCE n) now m = (Inr (), m')" "manager_inv m'"
      "view m' = (view m)((c, AXIS, int n) := Option.bind (view m (c, AXIS, int n)) (keep_if_open \<circ> resolved now))"
      "used_ids m' = used_ids m" using resolve_if_active_effect [of m c "AXIS_SOURCE n" now] unfolding key by metis
    then show "manager_inv (snd (resolve_if_active c (AXIS_SOURCE n) now m)) \<and>
      (\<forall>k. fst (snd k) = BUS \<longrightarrow> view (snd (resolve_if_active c (AXIS_SOURCE n) now m)) k = view m k) \<and>
      used_ids (snd (resolve_if_active c (AXIS_SOURCE n) now m)) \<subseteq> insert (ids (c, AXIS, int n)) (used_ids m)"
      by auto
  qed
qed

lemma reconnect_attempt_recovers:
  fixes upd :: "'d device_update"
  assumes "separate_ids ids"
  shows "recovers ids (reconnect_attempt pstr ids etext upd link tm now ty axes)"
proof -
  have refresh: "recovers ids (refresh_axis pstr ids etext now ty i :: ('d motion_state, exn, unit) op)" for i
    unfolding refresh_axis_def refresh_failed_def by (intro recovers_intros assms)
  have [recovers_intros]: "recovers ids (refresh_after_recovery pstr ids etext now ty axes :: ('d motion_state, exn, unit) op)"
    unfolding recovers_def triple_def refresh_after_recovery_def
    using recovers_forS [of ids "refresh_axis pstr ids etext now ty" axes, OF refresh]
    by (simp add: recovers_def triple_def)
  have [recovers_intros]: "recovers ids (restore_modes upd)"
    unfolding restore_modes_def [abs_def]
    by (rule recovers_read [of _ "\<lambda>st. forS (f st) g" for f g], rule recovers_forS) (simp add: recovers_on_rt split: prod.split)
  show ?thesis
    unfolding reconnect_attempt_def restore_process_image_def by (intro recovers_intros)
qed

subsection \<open>The diagnostics of a completed reconnect\<close>

lemma resolve_loop:
  assumes "manager_inv m" and "distinct (map status_key sts)"
    and "\<forall>st \<in> set sts. code (ddef st) = c \<and> view m (status_key st) = Some st"
  obtains m' where "forS sts (\<lambda>st. dropping (resolve c (source st) now)) m = (Inr (), m')" and "manager_inv m'"
    and "view m' = (\<lambda>k. if k \<in> status_key ` set sts then Option.bind (view m k) (keep_if_open \<circ> resolved now) else view m k)"
proof -
  have "\<exists>m'. forS sts (\<lambda>st. dropping (resolve c (source st) now)) m = (Inr (), m') \<and> manager_inv m' \<and>
    view m' = (\<lambda>k. if k \<in> status_key ` set sts then Option.bind (view m k) (keep_if_open \<circ> resolved now) else view m k)"
    using assms
  proof (induction sts arbitrary: m)
    case Nil
    then show ?case by (auto simp: retS_def)
  next
    case (Cons st sts)
    have key: "key_of c (source st) = status_key st" and v: "view m (status_key st) = Some st"
      using Cons.prems(3) by (auto simp: status_key_def)
    note eff = resolve_correct [OF Cons.prems(1), of c "source st", unfolded key, OF v, of now]
    obtain m1 where m1: "resolve c (source st) now m = (Inr (resolved now st), m1)" "manager_inv m1"
      "view m1 = (view m)(status_key st := keep_if_open (resolved now st))"
      using eff by (metis prod.collapse)
    have "\<forall>st' \<in> set sts. code (ddef st') = c \<and> view m1 (status_key st') = Some st'"
    proof
      fix st' assume st': "st' \<in> set sts"
      then have "status_key st' \<noteq> status_key st"
        using Cons.prems(2) by (metis distinct.simps(2) image_eqI list.simps(9) set_map)
      with st' Cons.prems(3) m1(3) show "code (ddef st') = c \<and> view m1 (status_key st') = Some st'" by simp
    qed
    from Cons.IH [OF m1(2) _ this] Cons.prems(2) have "\<exists>m'. forS sts (\<lambda>st. dropping (resolve c (source st) now)) m1 = (Inr (), m') \<and> manager_inv m' \<and>
      view m' = (\<lambda>k. if k \<in> status_key ` set sts then Option.bind (view m1 k) (keep_if_open \<circ> resolved now) else view m1 k)"
      by simp
    then obtain m' where
      m': "forS sts (\<lambda>st. dropping (resolve c (source st) now)) m1 = (Inr (), m')" "manager_inv m'"
      "view m' = (\<lambda>k. if k \<in> status_key ` set sts then Option.bind (view m1 k) (keep_if_open \<circ> resolved now) else view m1 k)"
      by blast
    have "forS (st # sts) (\<lambda>st. dropping (resolve c (source st) now)) m = (Inr (), m')"
      using m1(1) m'(1) by (simp add: dropping_def retS_def)
    moreover have "view m' = (\<lambda>k. if k \<in> status_key ` set (st # sts)
        then Option.bind (view m k) (keep_if_open \<circ> resolved now) else view m k)"
    proof
      fix k
      have "status_key st \<notin> status_key ` set sts" using Cons.prems(2) by simp
      then show "view m' k = (if k \<in> status_key ` set (st # sts)
          then Option.bind (view m k) (keep_if_open \<circ> resolved now) else view m k)"
        using m'(3) m1(3) v by (cases "k = status_key st") simp_all
    qed
    ultimately show ?case using m'(2) by blast
  qed
  then show ?thesis using that by blast
qed

lemmas catalogue = BUS_CONNECTION_LOST_def BUS_RECONNECT_FAILED_def BUS_PROCESS_DATA_INCOMPLETE_def AXIS_RESTART_FAILED_def

lemma closed_bus_fault:
  "keep_if_open (resolved now st) = Some st' \<Longrightarrow> keep_if_open (acked now' st') = None"
  by (auto simp: keep_if_open_def resolved_def acked_def cleared_at_def split: if_splits option.splits)

lemma complete_diagnostics_effect:
  assumes "manager_inv m" and "\<forall>d \<in> set bus_faults. \<forall>st. view m (key_of (code d) BUS_SOURCE) = Some st \<longrightarrow> ddef st = d"
  obtains m' where "complete_bus_reconnect_diagnostics now m = (Inr (), m')" and "manager_inv m'"
    and "\<forall>d \<in> set bus_faults. view m' (key_of (code d) BUS_SOURCE) = None"
proof -
  obtain m1 where m1: "resolve_if_active (code BUS_CONNECTION_LOST) BUS_SOURCE now m = (Inr (), m1)" "manager_inv m1"
    "view m1 = (view m)(key_of (code BUS_CONNECTION_LOST) BUS_SOURCE := Option.bind (view m (key_of (code BUS_CONNECTION_LOST) BUS_SOURCE))
       (keep_if_open \<circ> resolved now))" by (rule resolve_if_active_effect [OF assms(1), of "code BUS_CONNECTION_LOST" BUS_SOURCE now])
  obtain m2 where m2: "resolve_if_active (code BUS_RECONNECT_FAILED) BUS_SOURCE now m1 = (Inr (), m2)" "manager_inv m2"
    "view m2 = (view m1)(key_of (code BUS_RECONNECT_FAILED) BUS_SOURCE := Option.bind (view m1 (key_of (code BUS_RECONNECT_FAILED) BUS_SOURCE))
       (keep_if_open \<circ> resolved now))" by (rule resolve_if_active_effect [OF m1(2), of "code BUS_RECONNECT_FAILED" BUS_SOURCE now])
  obtain m3 where m3: "resolve_if_active (code BUS_PROCESS_DATA_INCOMPLETE) BUS_SOURCE now m2 = (Inr (), m3)" "manager_inv m3"
    "view m3 = (view m2)(key_of (code BUS_PROCESS_DATA_INCOMPLETE) BUS_SOURCE := Option.bind (view m2 (key_of (code BUS_PROCESS_DATA_INCOMPLETE) BUS_SOURCE))
       (keep_if_open \<circ> resolved now))" by (rule resolve_if_active_effect [OF m2(2), of "code BUS_PROCESS_DATA_INCOMPLETE" BUS_SOURCE now])
  have sts: "distinct (map status_key (restart_failures m3))"
    "\<forall>st \<in> set (restart_failures m3). code (ddef st) = code AXIS_RESTART_FAILED \<and> view m3 (status_key st) = Some st"
    using active_statuses_keys [OF m3(2)] manager_invD(1) [OF m3(2)] active_statuses_set [OF m3(2)]
    by (simp_all add: restart_failures_def distinct_map_filter)
  obtain m4 where m4: "forS (restart_failures m3) (\<lambda>st. dropping (resolve (code AXIS_RESTART_FAILED) (source st) now)) m3 = (Inr (), m4)"
    "manager_inv m4" "view m4 = (\<lambda>k. if k \<in> status_key ` set (restart_failures m3)
       then Option.bind (view m3 k) (keep_if_open \<circ> resolved now) else view m3 k)"
    by (rule resolve_loop [OF m3(2) sts, of now])
  obtain m5 where m5: "acknowledge_faults (Some BUS_SOURCE) None now m4
      = (Inr (filter (fault_selected (Some BUS_SOURCE) None) (active_statuses m4 None)), m5)" "manager_inv m5"
    "view m5 = (\<lambda>k. case view m4 k of None \<Rightarrow> None
        | Some st \<Rightarrow> if fault_selected (Some BUS_SOURCE) None st then keep_if_open (acked now st) else Some st)"
    using acknowledge_faults_correct [OF m4(2), of "Some BUS_SOURCE" None now] by auto
  have "complete_bus_reconnect_diagnostics now m = (Inr (), m5)"
    using m1(1) m2(1) m3(1) m4(1) m5(1) by (simp add: complete_bus_reconnect_diagnostics_def dropping_def opsimps)
  moreover have "view m5 (key_of (code d) BUS_SOURCE) = None" if d: "d \<in> set bus_faults" for d
  proof -
    let ?k = "key_of (code d) BUS_SOURCE"
    have "\<forall>st \<in> set (restart_failures m3). status_key st \<noteq> ?k"
      using sts(2) d by (auto simp: status_key_def key_of_def bus_faults_def catalogue)
    then have "view m4 ?k = view m3 ?k" using m4(3) by auto
    also have "\<dots> = Option.bind (view m ?k) (keep_if_open \<circ> resolved now)"
      using d m1(3) m2(3) m3(3) by (auto simp: bus_faults_def key_of_def catalogue)
    finally have m4k: "view m4 ?k = Option.bind (view m ?k) (keep_if_open \<circ> resolved now)" .
    show ?thesis
    proof (cases "view m ?k")
      case None
      then show ?thesis using m4k m5(3) by simp
    next
      case (Some st)
      then have st: "ddef st = d" "source st = BUS_SOURCE" using assms(2) d view_SomeD(3) [OF assms(1) Some]
        by (auto simp: status_key_def key_of_def)
      show ?thesis
      proof (cases "keep_if_open (resolved now st)")
        case None
        then show ?thesis using m4k m5(3) Some by simp
      next
        case (Some st')
        have "ddef st' = ddef st \<and> source st' = source st"
          using Some by (auto simp: keep_if_open_def resolved_def split: if_splits)
        then have "fault_selected (Some BUS_SOURCE) None st'"
          using st d by (auto simp: fault_selected_def bus_faults_def catalogue)
        then show ?thesis
          using m4k m5(3) \<open>view m ?k = Some st\<close> Some closed_bus_fault [OF Some] by simp
      qed
    qed
  qed
  ultimately show ?thesis using m5(2) that by blast
qed

subsection \<open>The outcome of a reconnect\<close>

lemma ignoring_succeeds: "ignoring m s = (Inr (), snd (m s))"
  by (auto simp: ignoring_def catchS_def opsimps split: prod.split sum.split)

lemma bus_key_free_ddef: "bus_key_free ids m d \<Longrightarrow> view m (key_of (code d) BUS_SOURCE) = Some st \<Longrightarrow> ddef st = d"
  by (simp add: bus_key_free_def)

lemma global_fault_iff:
  assumes "manager_inv m"
  shows "global_fault m = Inr (\<exists>k d. view m k = Some d \<and> level (ddef d) = LFAULT \<and> stype (source d) \<in> {SERVER, BUS})"
  using has_active_fault_iff [OF assms] by (auto simp: global_fault_def fault_selected_def)

lemma reconnect_failed_effect:
  assumes "session_ready ids st"
  obtains s' d where "reconnect_failed ids etext link now e st
      = (Inl (CommunicationException (Some ''bus_reconnect'')), snd (reconnect_failed ids etext link now e st))"
    and "server_session (snd (reconnect_failed ids etext link now e st)) = Some s'"
    and "runtime_state s' = RBUS_DISCONNECTED"
    and "view (diagnostic_manager s') (key_of (code BUS_RECONNECT_FAILED) BUS_SOURCE) = Some d"
    and "resolved_at (history d) = None"
proof -
  obtain s where s: "server_session st = Some s" "bus_ready ids s" using assms by (auto simp: session_ready_def)
  obtain r where r: "on_rt (ignoring (link_close link)) st = (Inr (), st\<lparr>rt := r\<rparr>)"
    using ignoring_succeeds [of "link_close link" "rt st"] by (auto simp: on_rt_def)
  have free: "manager_inv (diagnostic_manager s)" "bus_key_free ids (diagnostic_manager s) BUS_RECONNECT_FAILED"
    "runtime s \<noteq> None" using s(2) by (simp_all add: bus_ready_def bus_faults_def)
  obtain d m' where d: "detect BUS_RECONNECT_FAILED BUS_SOURCE (Some (etext e)) None now
        (ids (key_of (code BUS_RECONNECT_FAILED) BUS_SOURCE)) (diagnostic_manager s) = (Inr d, m')"
      "manager_inv m'" "view m' = (view (diagnostic_manager s))(key_of (code BUS_RECONNECT_FAILED) BUS_SOURCE \<mapsto> d)"
      "ddef d = BUS_RECONNECT_FAILED" "resolved_at (history d) = None"
    by (rule detect_bus_fault [OF free(1,2)])
  have "reconnect_failed ids etext link now e st = (Inl (CommunicationException (Some ''bus_reconnect'')),
      st\<lparr>rt := r, server_session := Some (s\<lparr>diagnostic_manager := m', runtime_state := RBUS_DISCONNECTED\<rparr>)\<rparr>)"
    using r d(1) s(1) free(3)
    by (simp add: reconnect_failed_def session_manager_def on_session_def on_manager_def record_bus_reconnect_failure_def
        dropping_def set_runtime_state_def opsimps)
  with d(3,5) show ?thesis by (intro that [of "s\<lparr>diagnostic_manager := m', runtime_state := RBUS_DISCONNECTED\<rparr>" d]) simp_all
qed

lemma complete_reconnect_effect:
  assumes "bus_ready ids s"
  obtains s' where "complete_reconnect now s = (Inr (), s')"
    and "\<forall>d \<in> set bus_faults. view (diagnostic_manager s') (key_of (code d) BUS_SOURCE) = None"
    and "runtime_state s' = (if \<exists>k d. view (diagnostic_manager s') k = Some d \<and> level (ddef d) = LFAULT \<and>
        stype (source d) \<in> {SERVER, BUS} then RFAULT else RNORMAL)"
proof -
  have inv: "manager_inv (diagnostic_manager s)"
    and cat: "\<forall>d \<in> set bus_faults. \<forall>st. view (diagnostic_manager s) (key_of (code d) BUS_SOURCE) = Some st \<longrightarrow> ddef st = d"
    using assms bus_key_free_ddef by (auto simp: bus_ready_def list_all_iff)
  obtain m' where m': "complete_bus_reconnect_diagnostics now (diagnostic_manager s) = (Inr (), m')" "manager_inv m'"
    "\<forall>d \<in> set bus_faults. view m' (key_of (code d) BUS_SOURCE) = None"
    by (rule complete_diagnostics_effect [OF inv cat])
  let ?faulted = "\<exists>k d. view m' k = Some d \<and> level (ddef d) = LFAULT \<and> stype (source d) \<in> {SERVER, BUS}"
  have "complete_reconnect now s = (Inr (), s\<lparr>diagnostic_manager := m',
      runtime_state := if ?faulted then RFAULT else RNORMAL\<rparr>)"
    using m'(1) global_fault_iff [OF m'(2)] assms
    by (simp add: complete_reconnect_def on_manager_def set_runtime_state_def bus_ready_def opsimps)
  then show ?thesis by (rule that) (use m'(3) in simp_all)
qed

lemma reconnect_run:
  assumes "server_session st = Some s" "runtime s \<noteq> None" "recovery_in_progress st = None"
    and "reconnect_attempt pstr ids etext upd link tm now BUS_RECONNECT (all_axes (rt st))
      (st\<lparr>recovery_in_progress := Some ''bus_reconnect''\<rparr>) = (x, st2)"
    and "y = (if x = Inr () \<and> tm_late tm then Inl TimeoutError else x)"
  shows "y = Inl e \<Longrightarrow> reconnect_failed ids etext link now e st2 = (Inl e', st3) \<Longrightarrow>
      reconnect_runtime pstr ids etext upd link tm now st = (Inl e', end_recovery st3)"
    and "y = Inr () \<Longrightarrow> on_session (complete_reconnect now) (end_recovery st2) = (Inr (), st3) \<Longrightarrow>
      \<exists>h. reconnect_runtime pstr ids etext upd link tm now st = (Inr h, st3)"
proof -
  define attempt where "attempt = bindS (reconnect_attempt pstr ids etext upd link tm now BUS_RECONNECT (all_axes (rt st)))
      (\<lambda>_. if tm_late tm then raiseS TimeoutError else retS ())"
  have ready: "recover_ready ''bus_reconnect'' ''bus_reconnect_in_progress'' st = (Inr (), st)"
    using assms(1-3) by (simp add: recover_ready_def on_session_def opsimps)
  have attempt: "attempt (st\<lparr>recovery_in_progress := Some ''bus_reconnect''\<rparr>) = (y, st2)"
    unfolding assms(5) attempt_def by (cases x) (simp_all add: assms(4) opsimps)
  note run = reconnect_runtime_def [of pstr ids etext upd link tm now st, folded attempt_def] ready attempt
  show "reconnect_runtime pstr ids etext upd link tm now st = (Inl e', end_recovery st3)"
    if "y = Inl e" "reconnect_failed ids etext link now e st2 = (Inl e', st3)"
    using run that by (simp add: begin_recovery_def finallyS_def catchS_def opsimps)
  show "\<exists>h. reconnect_runtime pstr ids etext upd link tm now st = (Inr h, st3)"
    if "y = Inr ()" "on_session (complete_reconnect now) (end_recovery st2) = (Inr (), st3)"
    using run that by (simp add: begin_recovery_def finallyS_def catchS_def opsimps)
qed

lemma session_end_recovery [simp]:
  "server_session (end_recovery st) = server_session st" "recovery_in_progress (end_recovery st) = None"
  by (simp_all add: end_recovery_def)

subsection \<open>The loss of the bus\<close>

lemma keeps_session_cyclic: "keeps server_session (cyclic_work en)"
proof -
  have ask: "keeps server_session (ask f)" for f :: "'d axis_runtime \<Rightarrow> 'x res" by (simp add: ask_def keeps_prims)
  have targets: "keeps server_session set_controller_targets"
    by (simp add: keeps_def set_controller_targets_def on_rt_def split: prod.split)
  have "keeps server_session hold_faulted_axes"
    unfolding hold_faulted_axes_def by (intro keeps_intros ask targets keeps_session_on_rt) simp
  moreover have "keeps server_session (update_active now)" for now
    by (rule keeps_unfold [OF update_active_def [unfolded Let_def finish_trajectory_def]])
      (intro keeps_intros ask keeps_session_on_rt targets, simp_all)
  ultimately show ?thesis
    unfolding cyclic_work_def by (intro keeps_intros keeps_session_on_rt)
qed

lemma mark_bus_disconnected_effect:
  assumes "server_session st = Some s" "bus_ready ids s"
  obtains st' s' d where "mark_bus_disconnected ids etext link now e st = (Inr (), st')"
    and "server_session st' = Some s'" and "runtime_state s' = RBUS_DISCONNECTED"
    and "view (diagnostic_manager s') (key_of (code BUS_CONNECTION_LOST) BUS_SOURCE) = Some d"
    and "resolved_at (history d) = None"
proof -
  have free: "manager_inv (diagnostic_manager s)" "bus_key_free ids (diagnostic_manager s) BUS_CONNECTION_LOST"
    "runtime s \<noteq> None" using assms(2) by (simp_all add: bus_ready_def bus_faults_def)
  obtain d m' where d: "detect BUS_CONNECTION_LOST BUS_SOURCE (Some (etext e)) None now
        (ids (key_of (code BUS_CONNECTION_LOST) BUS_SOURCE)) (diagnostic_manager s) = (Inr d, m')"
      "manager_inv m'" "view m' = (view (diagnostic_manager s))(key_of (code BUS_CONNECTION_LOST) BUS_SOURCE \<mapsto> d)"
      "ddef d = BUS_CONNECTION_LOST" "resolved_at (history d) = None"
    by (rule detect_bus_fault [OF free(1,2)])
  obtain r where r: "on_rt (ignoring (link_close link)) st = (Inr (), st\<lparr>rt := r\<rparr>)"
    using ignoring_succeeds [of "link_close link" "rt st"] by (auto simp: on_rt_def)
  let ?s = "s\<lparr>diagnostic_manager := m', runtime_state := RBUS_DISCONNECTED\<rparr>"
  have same: "st\<lparr>server_session := Some s\<rparr> = st" using assms(1) by simp
  have "mark_bus_disconnected ids etext link now e st = (Inr (), st\<lparr>rt := r, server_session := Some ?s\<rparr>)"
    using r d(1) assms(1) free(3)
    by (simp add: mark_bus_disconnected_def session_manager_def on_session_def on_manager_def dropping_def
        set_runtime_state_def opsimps same)
  then show ?thesis by (rule that [where s' = ?s and d = d]) (use d(3,5) in simp_all)
qed

subsection \<open>Properties\<close>



text \<open>C8: what a reconnect of the bus leaves behind, on every outcome. No recovery is marked as
  running any more. After a reconnect that is answered with success no bus diagnostic of the
  catalogue is active, and the server is back in normal operation unless another server or bus fault is
  active, in which case it stays in the fault state. Otherwise, whatever step failed and with whatever
  exception, the command is answered with the communication failure, the server is in the
  bus-disconnected state and the reconnect diagnostic is active and unresolved.\<close>

theorem reconnect_outcome:
  assumes "server_session st = Some s" and "bus_ready ids s" and "separate_ids ids"
    and "recovery_in_progress st = None"
    and "reconnect_runtime pstr ids etext upd link tm now st = (res, st')"
  shows "recovery_in_progress st' = None \<and> (\<exists>s'. server_session st' = Some s' \<and>
    (case res of
       Inr _ \<Rightarrow>
         (\<forall>d \<in> {BUS_CONNECTION_LOST, BUS_RECONNECT_FAILED, BUS_PROCESS_DATA_INCOMPLETE}.
            view (diagnostic_manager s') (code d, BUS, 0) = None) \<and>
         runtime_state s' = (if \<exists>k d. view (diagnostic_manager s') k = Some d \<and> level (ddef d) = LFAULT \<and>
           stype (source d) \<in> {SERVER, BUS} then RFAULT else RNORMAL)
     | Inl e \<Rightarrow>
         e = CommunicationException (Some ''bus_reconnect'') \<and> runtime_state s' = RBUS_DISCONNECTED \<and>
         (\<exists>d. view (diagnostic_manager s') (''BUS_RECONNECT_FAILED'', BUS, 0) = Some d \<and>
            resolved_at (history d) = None)))"
proof -
  have runtime: "runtime s \<noteq> None" using assms(2) by (simp add: bus_ready_def)
  have ready: "session_ready ids (st\<lparr>recovery_in_progress := Some ''bus_reconnect''\<rparr>)"
    using assms(1,2) by (simp add: session_ready_def)
  obtain x st2 where att: "reconnect_attempt pstr ids etext upd link tm now BUS_RECONNECT (all_axes (rt st))
      (st\<lparr>recovery_in_progress := Some ''bus_reconnect''\<rparr>) = (x, st2)" by fastforce
  note run = reconnect_run [OF assms(1) runtime assms(4) att refl]
  have st2: "session_ready ids st2"
    by (rule recoversD [OF reconnect_attempt_recovers [OF assms(3)] ready att])
  then obtain s2 where s2: "server_session st2 = Some s2" "bus_ready ids s2" by (auto simp: session_ready_def)
  consider (failed) e where "(if x = Inr () \<and> tm_late tm then Inl TimeoutError else x) = Inl e"
    | (completed) "(if x = Inr () \<and> tm_late tm then Inl TimeoutError else x) = Inr ()"
    by (cases x; cases "tm_late tm") auto
  then show ?thesis
  proof cases
    case failed
    obtain s3 d where f: "reconnect_failed ids etext link now e st2
        = (Inl (CommunicationException (Some ''bus_reconnect'')), snd (reconnect_failed ids etext link now e st2))"
      "server_session (snd (reconnect_failed ids etext link now e st2)) = Some s3" "runtime_state s3 = RBUS_DISCONNECTED"
      "view (diagnostic_manager s3) (key_of (code BUS_RECONNECT_FAILED) BUS_SOURCE) = Some d" "resolved_at (history d) = None"
      by (rule reconnect_failed_effect [OF st2])
    with run(1) [OF failed f(1)] assms(5) show ?thesis
      by (auto simp: key_of_def BUS_SOURCE_def BUS_RECONNECT_FAILED_def)
  next
    case completed
    obtain s3 where c: "complete_reconnect now s2 = (Inr (), s3)"
      "\<forall>d \<in> set bus_faults. view (diagnostic_manager s3) (key_of (code d) BUS_SOURCE) = None"
      "runtime_state s3 = (if \<exists>k d. view (diagnostic_manager s3) k = Some d \<and> level (ddef d) = LFAULT \<and>
        stype (source d) \<in> {SERVER, BUS} then RFAULT else RNORMAL)"
      by (rule complete_reconnect_effect [OF s2(2)])
    have "on_session (complete_reconnect now) (end_recovery st2) = (Inr (), (end_recovery st2)\<lparr>server_session := Some s3\<rparr>)"
      using s2(1) c(1) by (simp add: on_session_def)
    from run(2) [OF completed this] obtain h where "res = Inr h" "st' = (end_recovery st2)\<lparr>server_session := Some s3\<rparr>"
      using assms(5) by auto
    then show ?thesis
      using c(2,3) by (simp add: bus_faults_def key_of_def BUS_SOURCE_def end_recovery_def)
  qed
qed

lemma used_ids_new: "used_ids new_manager = {}"
  by (simp add: new_manager_def)

definition bus_demo_ids :: "diag_key \<Rightarrow> string" where
  "bus_demo_ids k = (if fst (snd k) = BUS then CHR ''b'' # fst k else ''a'')"

lemma demo_bus_ready: "bus_ready bus_demo_ids (new_session ready new_manager (Some 0))" "separate_ids bus_demo_ids"
  by (simp_all add: bus_ready_def new_session_def manager_inv_new bus_faults_def bus_key_free_def view_new used_ids_new
      bus_demo_ids_def key_of_def BUS_SOURCE_def separate_ids_def)

definition no_time :: recovery_times where
  "no_time = \<lparr>tm_attempts = 0, tm_operational_in_time = True, tm_stable_cycles = 0, tm_late = False, tm_elapsed = 0\<rparr>"

theorem reconnect_outcome_witness:
  "\<exists>e st' s'. reconnect_runtime (\<lambda>_. []) bus_demo_ids (\<lambda>_. []) still_device still_link no_time 5
      (demo_motion_state (demo_runtime 0x27 0x27)) = (Inl e, st') \<and> server_session st' = Some s' \<and>
    runtime_state s' = RBUS_DISCONNECTED \<and> recovery_in_progress st' = None"
proof -
  let ?st = "demo_motion_state (demo_runtime 0x27 0x27)"
  obtain res st' where run: "reconnect_runtime (\<lambda>_. []) bus_demo_ids (\<lambda>_. []) still_device still_link no_time 5 ?st = (res, st')"
    by fastforce
  have st: "server_session ?st = Some (new_session ready new_manager (Some 0))" "recovery_in_progress ?st = None"
    by (simp_all add: demo_motion_state_def)
  have "reconnect_attempt (\<lambda>_. []) bus_demo_ids (\<lambda>_. []) still_device still_link no_time 5 BUS_RECONNECT (all_axes (rt ?st))
      (?st\<lparr>recovery_in_progress := Some ''bus_reconnect''\<rparr>) = (Inl TimeoutError, ?st\<lparr>recovery_in_progress := Some ''bus_reconnect''\<rparr>)"
    by (simp add: reconnect_attempt_def no_time_def still_link_def on_rt_def ignoring_def catchS_def opsimps)
  note failed = reconnect_run(1) [OF st(1) _ st(2) this refl, of TimeoutError]
  have "session_ready bus_demo_ids (?st\<lparr>recovery_in_progress := Some ''bus_reconnect''\<rparr>)"
    using demo_bus_ready(1) st(1) by (simp add: session_ready_def)
  then have "reconnect_failed bus_demo_ids (\<lambda>_. []) still_link 5 TimeoutError
      (?st\<lparr>recovery_in_progress := Some ''bus_reconnect''\<rparr>) = (Inl (CommunicationException (Some ''bus_reconnect'')),
      snd (reconnect_failed bus_demo_ids (\<lambda>_. []) still_link 5 TimeoutError
        (?st\<lparr>recovery_in_progress := Some ''bus_reconnect''\<rparr>)))"
    by (rule reconnect_failed_effect)
  from failed [OF _ _ this] run have "\<exists>e. res = Inl e" by (simp add: new_session_def)
  with reconnect_outcome [OF st(1) demo_bus_ready st(2) run] run show ?thesis by auto
qed

definition lost_environment :: "unit environment" where
  "lost_environment = demo_environment\<lparr>en_ids := bus_demo_ids,
     en_link := still_link\<lparr>link_cycle := raiseS (CommunicationException (Some ''processdata''))\<rparr>\<rparr>"


text \<open>The check of the units before the drives are set up.\<close>

definition frame_units :: "'d axis_runtime \<Rightarrow> nat list \<times> unit_converter" where
  "frame_units r = (axis_bindings r, converter r)"

lemma keeps_units_set_rx [keeps_intros]: "keeps frame_units (set_rx i f v)"
  by (simp add: keeps_def frame_units_def)

lemma keeps_units_on_drive [keeps_intros]: "keeps frame_units (on_drive i f)"
  by (simp add: keeps_def on_drive_def on_bus_op_def frame_units_def split: sum.split prod.split)

lemma keeps_units_wrappers [keeps_intros]: "keeps g m \<Longrightarrow> keeps g (ignoring m)" "keeps g m' \<Longrightarrow> keeps g (dropping m')"
  unfolding ignoring_def dropping_def by (intro keeps_intros | assumption)+

lemma keeps_units_setup:
  "keeps frame_units (clear_axis_restart_commands upd)"
  "keeps frame_units (write_csp_interpolation_modes pstr upd modes)"
  "keeps frame_units (synchronize_profile_velocity_command i v)"
proof -
  show "keeps frame_units (clear_axis_restart_commands upd)"
    unfolding clear_axis_restart_commands_def [abs_def]
    by (rule keeps_read [of _ "\<lambda>r. forS (all_axes r) g" for g]) (intro keeps_intros)
  show "keeps frame_units (synchronize_profile_velocity_command i v)"
    unfolding synchronize_profile_velocity_command_def by (intro keeps_intros)
  show "keeps frame_units (write_csp_interpolation_modes pstr upd modes)"
    by (rule keeps_unfold [OF write_csp_interpolation_modes_def])
      (intro keeps_intros keeps_read [of _ "\<lambda>r. forS (zip (all_axes r) modes) g" for g])
qed

lemma initialize_drive_reaches_check:
  fixes r :: "'d axis_runtime"
  assumes "initialize_drive pstr upd link patience ''pv'' interpolation r = (Inr sdo', r')"
  obtains sdo and r1 r2 :: "'d axis_runtime" where "read_startup_axis_sdo pstr r1 = Inr sdo" and "frame_units r1 = frame_units r"
    and "blocked_pv_axes sdo r2 = Inr []" and "frame_units r2 = frame_units r"
proof -
  obtain r1 sdo r3 r2 where r1: "clear_axis_restart_commands upd r = (Inr (), r1)" and sdo: "read_startup_axis_sdo pstr r1 = Inr sdo"
    and sync: "forS (enumerate 0 (su_profile_settings sdo)) (\<lambda>(i, settings).
        bindS (liftE (\<lambda>_. py_nth settings 0)) (synchronize_profile_velocity_command (int i))) r1 = (Inr (), r3)"
    and r2: "write_csp_interpolation_modes pstr upd interpolation r3 = (Inr (), r2)"
    and blocked: "bindS (liftE (blocked_pv_axes sdo)) (\<lambda>blocked. if blocked = [] then retS () else raiseS ValueError) r2 = (Inr (), r2)"
    using assms unfolding initialize_drive_def bindS_Inr_iff prim_Inr_iff
    by (auto simp: bindS_Inr_iff prim_Inr_iff raiseS_def split: if_splits)
  have "keeps frame_units (\<lambda>s. forS (enumerate 0 (su_profile_settings sdo)) (\<lambda>(i, settings).
        bindS (liftE (\<lambda>_. py_nth settings 0)) (synchronize_profile_velocity_command (int i))) s)"
    by (intro keeps_intros keeps_units_setup)
  from keeps_eqD [OF this sync] keeps_eqD [OF keeps_units_setup(1) r1] keeps_eqD [OF keeps_units_setup(2) r2]
  have "frame_units r1 = frame_units r" "frame_units r2 = frame_units r" by simp_all
  moreover have "blocked_pv_axes sdo r2 = Inr []"
    using blocked by (auto simp: bindS_Inr_iff prim_Inr_iff raiseS_def split: if_splits)
  ultimately show ?thesis using that sdo by blast
qed

text \<open>C37: profile velocity as the initial motion mode never starts. The units of the axes are read
  into the unit converter only after \<open>initialize_drive\<close>; with the converter a new runtime has and at
  least one axis the initialization raises, whatever the drives report.\<close>

theorem initial_pv_never_starts:
  fixes r :: "'d axis_runtime"
  assumes "0 < axis_total r" and "converter r = new_converter (axis_total r)"
  shows "\<exists>e. fst (initialize_drive pstr upd link patience ''pv'' interpolation r) = Inl e"
proof (rule ccontr)
  assume "\<not> ?thesis"
  then obtain sdo' r' where "initialize_drive pstr upd link patience ''pv'' interpolation r = (Inr sdo', r')"
    by (metis prod.collapse sum.exhaust)
  then obtain sdo and r1 r2 :: "'d axis_runtime" where run: "read_startup_axis_sdo pstr r1 = Inr sdo" "frame_units r1 = frame_units r"
    "blocked_pv_axes sdo r2 = Inr []" "frame_units r2 = frame_units r"
    by (rule initialize_drive_reaches_check)
  have "length (su_user_position_units sdo) = axis_total r1"
    using run(1) by (auto simp: read_startup_axis_sdo_def read_axis_user_position_units_def Let_def split: if_splits)
  then have n: "0 < length (su_user_position_units sdo)" "length (su_user_position_units sdo) = axis_total r"
    using run(2) assms(1) by (simp_all add: frame_units_def)
  have conv: "converter r2 = new_converter (axis_total r)" using run(4) assms(2) by (simp add: frame_units_def)
  obtain bs where bs: "list_all2 (\<lambda>i b. bindE (py_nth (replicate (axis_total r) None) (int i)) (\<lambda>u. Inr (\<not> pv_allowed u)) = Inr b)
      [0..<axis_total r] bs" "filter snd (zip [0..<axis_total r] bs) = []"
    using run(3) n conv by (auto simp: blocked_pv_axes_def filterE_def mapE_Inr_iff new_converter_def)
  have len: "length bs = axis_total r" using list_all2_lengthD [OF bs(1)] by simp
  have "bs ! 0"
    using list_all2_nthD [OF bs(1), of 0] assms(1) by (simp add: pv_allowed_def py_nth_def py_index_def)
  moreover have "(0, bs ! 0) \<in> set (zip [0..<axis_total r] bs)"
    using len assms(1) by (auto simp: set_zip intro!: exI [of _ 0])
  ultimately show False using bs(2) by (auto simp: filter_empty_conv)
qed

theorem initial_pv_never_starts_witness:
  "\<exists>e. fst (initialize_drive (\<lambda>_. []) still_device still_link (\<lambda>_. 5) ''pv'' [0, 0] (demo_runtime 0x27 0x27)) = Inl e"
  by (rule initial_pv_never_starts) (simp_all add: demo_runtime_def numeral_2_eq_2)

text \<open>Acknowledging the initialization fault a second time.\<close>

lemma acknowledge_twice:
  assumes "manager_inv m" and v: "view m (key_of (code SERVER_INITIALIZATION_FAILED) SERVER_SOURCE) = Some st"
    and "acknowledged_at (history st) \<noteq> None"
  shows "fst (acknowledge_initialization_fault now m) = Inl KeyError"
proof -
  let ?k = "key_of (code SERVER_INITIALIZATION_FAILED) SERVER_SOURCE"
  obtain m' where m': "resolve (code SERVER_INITIALIZATION_FAILED) SERVER_SOURCE now m = (Inr (resolved now st), m')"
    "manager_inv m'" "view m' = (view m)(?k := keep_if_open (resolved now st))"
    using resolve_correct [OF assms(1) v, of now] by (metis prod.collapse)
  have cleared: "keep_if_open (resolved now st) = None"
    using assms(3) by (auto simp: keep_if_open_def resolved_def cleared_at_def split: option.splits)
  have "by_id m' (diagnostic_id st) = None"
  proof (rule ccontr)
    assume "by_id m' (diagnostic_id st) \<noteq> None"
    then obtain st'' where st'': "by_id m' (diagnostic_id st) = Some st''" by blast
    note in_m' = by_id_SomeD [OF m'(2) st'']
    have "status_key st'' \<noteq> ?k" using in_m'(1) m'(3) cleared by (metis fun_upd_same option.distinct(1))
    then have "view m (status_key st'') = Some st''" using in_m'(1) m'(3) by (metis fun_upd_other)
    from view_SomeD(2) [OF assms(1) this] view_SomeD(2) [OF assms(1) v] in_m'(2)
    have "st'' = st" by (metis option.inject)
    with view_SomeD(3) [OF assms(1) v] \<open>status_key st'' \<noteq> ?k\<close> show False by simp
  qed
  then show ?thesis
    using m'(1) acknowledge_absent [of m' "diagnostic_id st" now]
    by (simp add: acknowledge_initialization_fault_def resolve_initialization_fault_def bindS_def dropping_def resolved_def)
qed

text \<open>C38: a reconnect that succeeds is reported as failed. When an operator has acknowledged the
  initialization fault before, the reconnect of a server whose initialization failed raises \<open>KeyError\<close>
  after the bus, the drives and the full server state are up: the session is marked ready and normal, the
  caller gets the exception, and the degraded state is not replaced by the full one.\<close>

theorem acknowledged_fault_breaks_reconnect:
  assumes "server_session st = Some s"
    and "initialize_runtime_session pstr ids upd link patience cf now create s = (Inr (Some (r, sdo)), s1)"
    and "build_initialized_server_state cf now s1 sdo r = (Inr ms, r')"
    and "manager_inv (diagnostic_manager s1)"
    and "view (diagnostic_manager s1) (''SERVER_INITIALIZATION_FAILED'', SERVER, 0) = Some d"
    and "acknowledged_at (history d) \<noteq> None"
  shows "\<exists>s'. reconnect_failed_initialization pstr ids etext upd link patience False cf now create st =
      (Inl KeyError, st\<lparr>server_session := Some s'\<rparr>) \<and> initialization_status s' = ready \<and> runtime_state s' = RNORMAL"
proof -
  have key: "view (diagnostic_manager s1) (key_of (code SERVER_INITIALIZATION_FAILED) SERVER_SOURCE) = Some d"
    using assms(5) by (simp add: key_of_def SERVER_INITIALIZATION_FAILED_def SERVER_SOURCE_def)
  obtain m' where m': "acknowledge_initialization_fault now (diagnostic_manager s1) = (Inl KeyError, m')"
    using acknowledge_twice [OF assms(4) key assms(6), of now] by (metis prod.collapse)
  have "recover_initialization pstr ids etext upd link patience False cf now create s
      = (Inl KeyError, (mark_ready s1)\<lparr>diagnostic_manager := m'\<rparr>)"
    using assms(2,3) m' by (simp add: recover_initialization_def bindS_def modifyS_def on_manager_def mark_ready_def)
  then show ?thesis
    using assms(1)
    by (intro exI [of _ "(mark_ready s1)\<lparr>diagnostic_manager := m'\<rparr>"])
      (simp add: reconnect_failed_initialization_def mark_ready_def)
qed

definition acked_fault :: DiagnosticStatus where
  "acked_fault = \<lparr>diagnostic_id = ''f'', ddef = SERVER_INITIALIZATION_FAILED, source = SERVER_SOURCE,
     history = \<lparr>occurred_at = 1, acknowledged_at = Some 2, resolved_at = None\<rparr>, detail = None, dcontext = None\<rparr>"

definition acked_manager :: DiagnosticManager where
  "acked_manager = \<lparr>by_key = [((''SERVER_INITIALIZATION_FAILED'', SERVER, 0), ''f'')], by_id = [''f'' \<mapsto> acked_fault],
     used_ids = {''f''}\<rparr>"

definition failed_session :: ServerSession where
  "failed_session = new_session ready acked_manager None"

definition degraded_state :: server_state where
  "degraded_state = \<lparr>server_mode = ''basic'', init_status = ready, server_session = Some failed_session,
     command_authority_owner = Some 1\<rparr>"

text \<open>A bus without axes.\<close>

definition empty_runtime :: "unit axis_runtime" where
  "empty_runtime = \<lparr>bus = demo_master\<lparr>slaves := []\<rparr>, axis_bindings = [], controller = demo_controller,
     converter = new_converter 0, axis_parameters = \<lparr>ap_cache = empty_cache, ap_axes = []\<rparr>\<rparr>"

definition demo_settings :: server_settings where
  "demo_settings = \<lparr>cf_server_mode = ''basic'', cf_initial_motion_mode = ''pp'', cf_csp_interpolation_mode = 0, cf_csp_jerk = 0,
     cf_bus_reconnect_timeout = 30, cf_axis_restart_timeout = 30, cf_axis_restart_disable_settle_time = 1\<rparr>"

definition empty_sdo :: startup_sdo where
  "empty_sdo = \<lparr>su_user_position_units = [], su_converting_unit_exponents = [], su_software_position_limits = [],
     su_profile_settings = [], su_motion_limits = []\<rparr>"

lemma without_axes:
  assumes "axis_bindings r = []"
  shows "require_txpdo_fields r = Inr ()" "clear_axis_restart_commands upd r = (Inr (), r)"
    "read_startup_axis_sdo pstr r = Inr empty_sdo" "write_csp_interpolation_modes pstr upd [] r = (Inr (), r)"
    "configure_motion_mode_without_exchange upd mode r = (Inr (), r)"
    "rt_sync_to_actual r = (Inr (), r\<lparr>controller := sync_trajectory_to_actual_positions [] (controller r)\<rparr>)"
    "enable_drives (retS ()) patience r = (Inr (), r)"
proof -
  show "enable_drives (retS ()) patience r = (Inr (), r)"
    using assms by (simp add: enable_drives_def faulted_axes_def filterE_def ENABLE_SEQUENCE_def set_controlword_all_def
      wait_status_all.simps all_have_status_def dropping_def opsimps upt_rec)
qed (use assms in \<open>simp_all add: require_txpdo_fields_def clear_axis_restart_commands_def read_startup_axis_sdo_def
     read_axis_user_position_units_def read_axis_converting_unit_exponents_def read_axis_software_position_limits_def
     read_axis_profile_settings_def read_axis_motion_limits_def empty_sdo_def write_csp_interpolation_modes_def
     configure_motion_mode_without_exchange_def rt_sync_to_actual_def actual_positions_def opsimps\<close>)

lemma empty_initialize:
  "\<exists>r. initialize_drive (\<lambda>_. []) still_device still_link (\<lambda>_. 0) ''pp'' [] empty_runtime = (Inr empty_sdo, r) \<and>
    axis_bindings r = [] \<and> converter r = new_converter 0"
proof -
  have "exchange (retS ()) n r = (Inr (), r)" for n and r :: "unit axis_runtime" by (induction n) (simp_all add: opsimps)
  moreover have "axis_bindings empty_runtime = []" "converter empty_runtime = new_converter 0"
    by (simp_all add: empty_runtime_def)
  ultimately show ?thesis
    by (simp add: initialize_drive_def bindS_Inr_iff prim_Inr_iff without_axes still_link_def empty_sdo_def)
qed

lemma empty_build:
  assumes "axis_bindings r = []" "converter r = new_converter 0"
  shows "\<exists>ms r'. build_initialized_server_state demo_settings 3 s empty_sdo r = (Inr ms, r')"
  using assms
  by (simp add: build_initialized_server_state_def install_startup_values_def on_converter_def configure_def axis_values_def
     empty_sdo_def new_converter_def metadata_def actual_positions_def opsimps)

lemma acked_manager_facts:
  "manager_inv acked_manager" "view acked_manager (''SERVER_INITIALIZATION_FAILED'', SERVER, 0) = Some acked_fault"
  by (simp_all add: manager_inv_def acked_manager_def acked_fault_def view_def status_key_def key_of_def
      SERVER_INITIALIZATION_FAILED_def SERVER_SOURCE_def cleared_at_def)

theorem acknowledged_fault_breaks_reconnect_witness:
  "\<exists>s'. reconnect_failed_initialization (\<lambda>_. []) (\<lambda>_. ''x'') (\<lambda>_. []) still_device still_link (\<lambda>_. 0) False
      demo_settings 3 (Inr empty_runtime) degraded_state = (Inl KeyError, degraded_state\<lparr>server_session := Some s'\<rparr>) \<and>
    initialization_status s' = ready \<and> runtime_state s' = RNORMAL"
proof -
  obtain r where r: "initialize_drive (\<lambda>_. []) still_device still_link (\<lambda>_. 0) ''pp'' [] empty_runtime = (Inr empty_sdo, r)"
    "axis_bindings r = []" "converter r = new_converter 0" using empty_initialize by blast
  let ?s1 = "failed_session\<lparr>runtime := Some 0\<rparr>"
  obtain ms r' where b: "build_initialized_server_state demo_settings 3 ?s1 empty_sdo r = (Inr ms, r')"
    using empty_build [OF r(2,3)] by blast
  have "initialize_runtime_session (\<lambda>_. []) (\<lambda>_. ''x'') still_device still_link (\<lambda>_. 0) demo_settings 3 (Inr empty_runtime)
      failed_session = (Inr (Some (r, empty_sdo)), ?s1)"
    using r(1) by (simp add: initialize_runtime_session_def dropping_def attach_runtime_def still_link_def demo_settings_def
      empty_runtime_def opsimps)
  moreover have "server_session degraded_state = Some failed_session" by (simp add: degraded_state_def)
  moreover have "manager_inv (diagnostic_manager ?s1)"
    "view (diagnostic_manager ?s1) (''SERVER_INITIALIZATION_FAILED'', SERVER, 0) = Some acked_fault"
    "acknowledged_at (history acked_fault) \<noteq> None"
    using acked_manager_facts by (simp_all add: failed_session_def new_session_def acked_fault_def)
  ultimately show ?thesis using b by (intro acknowledged_fault_breaks_reconnect)
qed

end
