(* ===== verification/Trajectory_Laws.thy ===== *)
theory Trajectory_Laws
  imports Trajectory
begin

section \<open>Laws of trajectories\<close>

text \<open>
  Two laws of the trajectories of \<^verbatim>\<open>motion_server/control/csp_trajectory.py\<close> and
  \<^verbatim>\<open>trajectory_verifier.py\<close>: the generator, which keeps its own clock and searches its segment in
  every cycle, samples a curve that is given in closed form; and a trajectory to a single target, which
  the server expands itself, passes the verifier and is run within the limits the verifier guards.
\<close>

subsection \<open>The curve\<close>

definition trajectory_curve :: "generator \<Rightarrow> traj_point list \<Rightarrow> real \<Rightarrow> real \<times> real \<times> real" where
  "trajectory_curve g points t =
     (let i = length (takeWhile (\<lambda>p. time_from_start p < t) (tl points)); p = points ! i; q = points ! Suc i
      in interpolate_trajectory_move_segment g p q (t - time_from_start p) (time_from_start q - time_from_start p))"

lemma find_from_takeWhile:
  "find_timed_segment_from i ps t =
     (if list_ex (\<lambda>q. t \<le> time_from_start q) (tl ps)
      then Some (i + length (takeWhile (\<lambda>q. time_from_start q < t) (tl ps))) else None)"
  by (induction i ps t rule: find_timed_segment_from.induct) auto

lemma find_timed_segment_takeWhile:
  assumes "2 \<le> length (timed_points g)" and "t \<le> time_from_start (last (timed_points g))"
  shows "find_timed_segment g t = length (takeWhile (\<lambda>p. time_from_start p < t) (tl (timed_points g)))"
proof -
  have "tl (timed_points g) \<noteq> []" using assms(1) by (cases "timed_points g" rule: remdups_adj.cases) auto
  then have "last (timed_points g) \<in> set (tl (timed_points g))" by (metis last_in_set last_tl)
  then show ?thesis
    using assms(2) by (auto simp: find_timed_segment_def find_from_takeWhile list_ex_iff)
qed

text \<open>A generator that runs a timed trajectory, and one cycle of it.\<close>

definition running :: "traj_point list \<Rightarrow> string \<Rightarrow> string \<Rightarrow> real \<Rightarrow> generator \<Rightarrow> bool" where
  "running points profile csp t g \<longleftrightarrow>
     timed_active g \<and> timed_points g = points \<and> timed_elapsed g = t \<and>
     trajectory_move_profile g = profile \<and> csp_profile g = csp"

lemma set_trajectory_running:
  "2 \<le> length points \<Longrightarrow>
     running points (classify_trajectory_move_profile points) (csp_profile g) 0 (set_trajectory_move points g)"
  by (cases points) (simp_all add: running_def set_trajectory_move_def Let_def)

lemma curve_profiles:
  "trajectory_move_profile g = trajectory_move_profile h \<Longrightarrow> csp_profile g = csp_profile h \<Longrightarrow>
     trajectory_curve g points t = trajectory_curve h points t"
  by (simp add: trajectory_curve_def interpolate_trajectory_move_segment_def Let_def)

lemma running_step:
  fixes vmax acc dec j :: real
  assumes "running points profile csp t g" and "2 \<le> length points" and "1 / 10 ^ 9 \<le> ct"
    and "t + ct / 2 < time_from_start (last points)"
  defines "g' \<equiv> snd (update ct vmax acc dec (Some j) g)"
  shows "running points profile csp (t + ct) g'"
    and "(command_position g', command_velocity g', command_acceleration g') = trajectory_curve g points t"
proof -
  have ct: "max ct (1 / 10 ^ 9) = ct" using assms(3) by (rule max_absorb1)
  have pos: "0 < ct" using assms(3) less_le_trans [of 0 "1 / 10 ^ 9" ct] by simp
  have g: "timed_active g" "timed_points g = points" "timed_elapsed g = t" "trajectory_move_profile g = profile"
    "csp_profile g = csp" using assms(1) by (simp_all add: running_def)
  have g': "g' = update_timed_trajectory ct g"
    unfolding g'_def update_def Let_def ct using g(1) by simp
  have seg: "find_timed_segment g t = length (takeWhile (\<lambda>p. time_from_start p < t) (tl points))"
    using find_timed_segment_takeWhile [of g t] g(2) assms(2,4) pos by simp
  have ne: "points \<noteq> []" using assms(2) by auto
  have eq: "update_timed_trajectory ct g = (case trajectory_curve g points t of (p, v, a) \<Rightarrow>
      g\<lparr>timed_segment := length (takeWhile (\<lambda>p. time_from_start p < t) (tl points)), command_position := p, command_velocity := v,
        command_acceleration := a, target_position := p, timed_elapsed := t + ct\<rparr>)"
    using assms(4) ne g pos by (simp add: update_timed_trajectory_def trajectory_curve_def Let_def seg)
  show "running points profile csp (t + ct) g'"
    using g by (simp add: g' eq running_def split: prod.split)
  show "(command_position g', command_velocity g', command_acceleration g') = trajectory_curve g points t"
    by (simp add: g' eq split: prod.split)
qed

lemma running_cycles:
  assumes "2 \<le> length points" and "1 / 10 ^ 9 \<le> ct" and "real m * ct + ct / 2 < time_from_start (last points)"
  shows "running points (classify_trajectory_move_profile points) (csp_profile g) (real m * ct)
    (cycles ct vmax acc dec j m (set_trajectory_move points g))"
  using assms(3)
proof (induction m)
  case 0
  then show ?case using set_trajectory_running [OF assms(1)] by (simp add: cycles_def)
next
  case (Suc m)
  have "0 < ct" using assms(2) less_le_trans [of 0 "1 / 10 ^ 9" ct] by simp
  with Suc.prems have "real m * ct + ct / 2 < time_from_start (last points)" by (simp add: algebra_simps)
  with running_step(1) [OF Suc.IH assms(1,2)] show ?case by (simp add: cycles_Suc algebra_simps)
qed

subsection \<open>Bounds of the move shapes\<close>

lemma square_small: "0 \<le> r \<Longrightarrow> r \<le> 1 / 4 \<Longrightarrow> 0 \<le> r * r \<and> r * r \<le> (1 / 16 :: real)"
  using mult_mono [of r "1 / 4" r "1 / 4"] by simp

lemma trapezoid_shape_bounds:
  assumes "trapezoid_shape s = (p, v, a)"
  shows "0 \<le> p \<and> p \<le> 1 \<and> \<bar>v\<bar> \<le> 1.875 \<and> \<bar>a\<bar> \<le> 5.773502691896258"
proof -
  define u where "u = clamp01 s"
  have u: "0 \<le> u" "u \<le> 1" by (auto simp: u_def)
  consider "u < 1 / 4" | "1 / 4 \<le> u" "u \<le> 3 / 4" | "3 / 4 < u" by linarith
  then show ?thesis
  proof cases
    case 1
    then have "p = 8 / 3 * (u * u)" "v = 16 / 3 * u" "a = 16 / 3"
      using assms by (simp_all add: trapezoid_shape_def Let_def u_def [symmetric])
    moreover from this(1) have "0 \<le> p" using zero_le_square [of u] by linarith
    ultimately show ?thesis using 1 u square_small [of u] by simp
  next
    case 2
    then show ?thesis
      using assms u by (auto simp: trapezoid_shape_def Let_def u_def [symmetric])
  next
    case 3
    define r where "r = 1 - u"
    have r: "0 \<le> r" "r \<le> 1 / 4" using 3 u by (simp_all add: r_def)
    have "(8 - 8 * u) * (1 - u) = 8 * (r * r)" by (simp add: r_def algebra_simps)
    then have "p = 1 - 8 / 3 * (r * r)" "v = 16 / 3 * r" "a = - 16 / 3"
      using 3 assms by (auto simp: trapezoid_shape_def Let_def u_def [symmetric] r_def)
    then show ?thesis using r square_small [OF r] by auto
  qed
qed

lemma quintic_shape_bounds:
  assumes "quintic_shape s = (p, v, a)"
  shows "0 \<le> p \<and> p \<le> 1 \<and> \<bar>v\<bar> \<le> 1.875 \<and> \<bar>a\<bar> \<le> 5.773502691896258"
proof -
  have c: "0 \<le> clamp01 s" "clamp01 s \<le> 1" by auto
  show ?thesis
    using assms blend_bounds [OF c] blend_velocity_bounds [OF c] blend_acceleration_bound [OF c]
    by (auto simp: quintic_shape_blend)
qed

lemma point_move_bounds:
  assumes T: "1 / 10 ^ 9 \<le> T" and "interpolate_point_move_segment profile p q t T = (x, v, a)"
  shows "\<bar>v\<bar> \<le> 1.875 * \<bar>tp_position q - tp_position p\<bar> / T"
    and "\<bar>a\<bar> \<le> 5.773502691896258 * \<bar>tp_position q - tp_position p\<bar> / (T * T)"
proof -
  have pos: "0 < T" using T less_le_trans [of 0 "1 / 10 ^ 9" T] by simp
  define d where "d = tp_position q - tp_position p"
  define sh where "sh = (if profile = ''trapezoid'' then trapezoid_shape (max 0 (min T t) / T) else quintic_shape (max 0 (min T t) / T))"
  obtain p' v' a' where sh: "sh = (p', v', a')" by (cases sh)
  have eqs: "v = d * v' / T" "a = d * a' / (T * T)"
    using assms(2) sh T by (auto simp: interpolate_point_move_segment_def Let_def sh_def d_def max_absorb1 split: if_splits)
  have bounds: "\<bar>v'\<bar> \<le> 1.875" "\<bar>a'\<bar> \<le> 5.773502691896258"
    using sh trapezoid_shape_bounds quintic_shape_bounds by (auto simp: sh_def split: if_splits)
  have "\<bar>d * v'\<bar> \<le> 1.875 * \<bar>d\<bar>" "\<bar>d * a'\<bar> \<le> 5.773502691896258 * \<bar>d\<bar>"
    using mult_left_mono [OF bounds(1), of "\<bar>d\<bar>"] mult_left_mono [OF bounds(2), of "\<bar>d\<bar>"]
    by (simp_all add: abs_mult mult.commute)
  note le = this
  have abs: "\<bar>v\<bar> = \<bar>d * v'\<bar> / T" "\<bar>a\<bar> = \<bar>d * a'\<bar> / (T * T)"
    using pos by (simp_all add: eqs abs_divide abs_mult)
  show "\<bar>v\<bar> \<le> 1.875 * \<bar>tp_position q - tp_position p\<bar> / T"
    unfolding abs d_def [symmetric] by (rule divide_right_mono [OF le(1)]) (use pos in simp)
  show "\<bar>a\<bar> \<le> 5.773502691896258 * \<bar>tp_position q - tp_position p\<bar> / (T * T)"
    unfolding abs d_def [symmetric] by (rule divide_right_mono [OF le(2)]) simp
qed

text \<open>A duration of at least \<open>rest_duration\<close> keeps a move within the guarded limits.\<close>

lemma rest_duration_limits:
  assumes "rest_duration l D \<le> T" and "0 < T" and "0 \<le> D" and "guarded_limits l = (vl, al)"
  shows "1.875 * D / T \<le> vl" and "5.773502691896258 * D / (T * T) \<le> al"
proof -
  have lim: "0 < vl" "0 < al" using assms(4) by (auto simp: guarded_limits_def min_def max_def)
  have "1.875 * D / vl \<le> T" and root: "sqrt (5.773502691896258 * D / al) \<le> T"
    using assms(1,4) by (auto simp: rest_duration_def)
  then show "1.875 * D / T \<le> vl" using lim assms(2) by (simp add: field_simps)
  have "5.773502691896258 * D / al \<le> T * T"
    using sqrt_le_D [OF root] by (simp add: power2_eq_square)
  then show "5.773502691896258 * D / (T * T) \<le> al" using lim assms(2) by (simp add: field_simps)
qed

subsection \<open>The expanded move\<close>

lemma estimate_loop_bounds:
  assumes "estimate_loop mc d xs = Inr T"
  shows "d \<le> T" and "\<lbrakk>(i, x, y) \<in> set xs; scaled_limits mc i = Inr l\<rbrakk> \<Longrightarrow> rest_duration l \<bar>y - x\<bar> \<le> T"
    and "(i, x, y) \<in> set xs \<Longrightarrow> \<exists>l. scaled_limits mc i = Inr l"
proof -
  have "d \<le> T \<and> (\<forall>(i, x, y) \<in> set xs. \<exists>l. scaled_limits mc i = Inr l \<and> rest_duration l \<bar>y - x\<bar> \<le> T)"
    using assms
  proof (induction mc d xs rule: estimate_loop.induct)
    case (2 mc d i x y rest)
    then obtain l where l: "scaled_limits mc i = Inr l" "estimate_loop mc (max d (rest_duration l \<bar>y - x\<bar>)) rest = Inr T"
      by (auto simp: bindE_eq_Inr)
    from 2(1) [OF l(2)] show ?case using l(1) by auto
  qed auto
  then show "d \<le> T" "\<lbrakk>(i, x, y) \<in> set xs; scaled_limits mc i = Inr l\<rbrakk> \<Longrightarrow> rest_duration l \<bar>y - x\<bar> \<le> T"
    "(i, x, y) \<in> set xs \<Longrightarrow> \<exists>l. scaled_limits mc i = Inr l"
    by fastforce+
qed

lemma check_axes_rest:
  assumes "\<And>k. k < length axes \<Longrightarrow> check_axis_segment mc n dt p q (j + k) (axes ! k) = Inr None"
  shows "check_axes mc n dt p q j axes = Inr None"
  using assms
proof (induction axes arbitrary: j)
  case (Cons i axes)
  have "check_axis_segment mc n dt p q j i = Inr None" using Cons.prems [of 0] by simp
  moreover have "check_axes mc n dt p q (Suc j) axes = Inr None"
    using Cons.prems [of "Suc _"] by (intro Cons.IH) simp
  ultimately show ?case by (simp add: first_error_def)
qed simp

text \<open>What \<open>expand_single_point\<close> makes of a target.\<close>

lemma expand_single_pointD:
  assumes "expand_single_point axes [p] mc = Inr points" and "length (wp_positions p) = length axes"
  obtains current T where "points = [\<lparr>wp_positions = current, wp_time_from_start = 0, wp_velocities = None, wp_accelerations = None\<rparr>,
      \<lparr>wp_positions = wp_positions p, wp_time_from_start = T, wp_velocities = None, wp_accelerations = None\<rparr>]"
    and "length current = length axes" and "cycle_time mc \<le> T"
    and "\<forall>k < length axes. \<exists>l. scaled_limits mc (axes ! k) = Inr l \<and>
      rest_duration l \<bar>wp_positions p ! k - current ! k\<bar> \<le> T"
proof -
  obtain current T0 where c: "command_positions mc axes = Inr current"
    and T0: "estimate_loop mc 0 (zip axes (zip current (wp_positions p))) = Inr T0"
    and points: "points = [\<lparr>wp_positions = current, wp_time_from_start = 0, wp_velocities = None, wp_accelerations = None\<rparr>,
      \<lparr>wp_positions = wp_positions p, wp_time_from_start = max T0 (cycle_time mc), wp_velocities = None, wp_accelerations = None\<rparr>]"
    using assms(1) by (auto simp: expand_single_point_def estimate_trajectory_duration_def bindE_eq_Inr)
  have len: "length current = length axes" using mapE_length c by (auto simp: command_positions_def)
  have "\<exists>l. scaled_limits mc (axes ! k) = Inr l \<and> rest_duration l \<bar>wp_positions p ! k - current ! k\<bar> \<le> max T0 (cycle_time mc)"
    if k: "k < length axes" for k
  proof -
    have "(axes ! k, current ! k, wp_positions p ! k) \<in> set (zip axes (zip current (wp_positions p)))"
      using k len assms(2) by (auto simp: set_zip intro!: exI [of _ k])
    with estimate_loop_bounds(2,3) [OF T0] show ?thesis by (meson le_max_iff_disj)
  qed
  then show ?thesis by (intro that [OF points len]) simp_all
qed

lemma expanded_accepted:
  assumes "expand_single_point axes [p] mc = Inr points" and "length (wp_positions p) = length axes"
    and "0 < cycle_time mc"
  shows "validate_trajectory_limits mc axes points = Inr None"
proof -
  obtain current T where points: "points = [\<lparr>wp_positions = current, wp_time_from_start = 0, wp_velocities = None, wp_accelerations = None\<rparr>,
      \<lparr>wp_positions = wp_positions p, wp_time_from_start = T, wp_velocities = None, wp_accelerations = None\<rparr>]"
    and len: "length current = length axes" and T: "cycle_time mc \<le> T"
    and lim: "\<forall>k < length axes. \<exists>l. scaled_limits mc (axes ! k) = Inr l \<and>
      rest_duration l \<bar>wp_positions p ! k - current ! k\<bar> \<le> T"
    by (rule expand_single_pointD [OF assms(1,2)])
  let ?p = "points ! 0" and ?q = "points ! 1"
  have "check_axis_segment mc 1 T ?p ?q (0 + k) (axes ! k) = Inr None" if k: "k < length axes" for k
  proof -
    obtain l where l: "scaled_limits mc (axes ! k) = Inr l" "rest_duration l \<bar>wp_positions p ! k - current ! k\<bar> \<le> T"
      using lim k by blast
    have "\<exists>d. required_segment_duration_for_axis mc (axes ! k) ?p ?q k (cycle_time mc) = Inr d \<and> d \<le> T"
      using l T k len assms(2)
      by (auto simp: required_segment_duration_for_axis_def points py_nth_valid Let_def split: prod.split)
    then obtain d where "required_segment_duration_for_axis mc (axes ! k) ?p ?q k (cycle_time mc) = Inr d" "\<not> T + 1 / 10 ^ 9 < d"
      by force
    then show ?thesis
      using l(1) by (simp add: check_axis_segment_def first_error_def check_waypoint_def check_cubic_ends_def point_value_def points)
  qed
  then have "check_axes mc 1 T ?p ?q 0 axes = Inr None" by (rule check_axes_rest)
  then show ?thesis
    using T assms(3) by (simp add: validate_trajectory_limits_def points first_error_def)
qed

definition demo_target :: way_point where
  "demo_target = \<lparr>wp_positions = [30, 60], wp_time_from_start = 0, wp_velocities = None, wp_accelerations = None\<rparr>"

lemma expanded_point_move:
  assumes "2 \<le> length points" "list_all (\<lambda>p. tp_velocity p = None) points"
  shows "classify_trajectory_move_profile points = ''point_move''"
  using assms by (cases points) (auto simp: classify_trajectory_move_profile_def)

lemma expanded_within_limits:
  assumes "expand_single_point axes [p] mc = Inr points" and "length (wp_positions p) = length axes"
    and "k < length axes" and "scaled_limits mc (axes ! k) = Inr l" and "guarded_limits l = (vl, al)"
    and "axis_timed_points points k = Inr tps" and ct: "1 / 10 ^ 9 \<le> cycle_time mc"
    and "real m * cycle_time mc + cycle_time mc / 2 < wp_time_from_start (last points)"
  shows "\<bar>command_velocity (cycles (cycle_time mc) vmax acc dec j (Suc m) (set_trajectory_move tps g))\<bar> \<le> vl \<and>
    \<bar>command_acceleration (cycles (cycle_time mc) vmax acc dec j (Suc m) (set_trajectory_move tps g))\<bar> \<le> al"
proof -
  obtain current T where points: "points = [\<lparr>wp_positions = current, wp_time_from_start = 0, wp_velocities = None, wp_accelerations = None\<rparr>,
      \<lparr>wp_positions = wp_positions p, wp_time_from_start = T, wp_velocities = None, wp_accelerations = None\<rparr>]"
    and len: "length current = length axes" and T: "cycle_time mc \<le> T"
    and lim: "\<forall>k < length axes. \<exists>l. scaled_limits mc (axes ! k) = Inr l \<and>
      rest_duration l \<bar>wp_positions p ! k - current ! k\<bar> \<le> T"
    by (rule expand_single_pointD [OF assms(1,2)])
  let ?ct = "cycle_time mc" and ?D = "\<bar>wp_positions p ! k - current ! k\<bar>"
  let ?a = "\<lparr>tp_position = current ! k, tp_velocity = None, tp_acceleration = None, time_from_start = 0\<rparr>"
    and ?b = "\<lparr>tp_position = wp_positions p ! k, tp_velocity = None, tp_acceleration = None, time_from_start = T\<rparr>"
  have tps: "tps = [?a, ?b]"
    using assms(2,3,6) len by (auto simp: axis_timed_points_def axis_timed_point_def points point_value_def)
  let ?c = "cycles ?ct vmax acc dec j m (set_trajectory_move tps g)" and ?t = "real m * ?ct"
  have time: "?t + ?ct / 2 < T" using assms(8) by (simp add: points)
  have pm: "classify_trajectory_move_profile tps = ''point_move''" by (rule expanded_point_move) (simp_all add: tps)
  have run: "running tps ''point_move'' (csp_profile g) ?t ?c"
    using running_cycles [of tps ?ct m g vmax acc dec j] time ct pm by (simp add: tps)
  have pos: "0 < ?ct" using ct less_le_trans [of 0 "1 / 10 ^ 9" ?ct] by simp
  let ?c' = "snd (update ?ct vmax acc dec (Some j) ?c)"
  have sample: "(command_position ?c', command_velocity ?c', command_acceleration ?c') = trajectory_curve ?c tps ?t"
    using running_step(2) [OF run _ ct] time by (simp add: tps)
  also have "\<dots> = interpolate_point_move_segment (csp_profile ?c) ?a ?b ?t T"
    using run time pos by (simp add: running_def trajectory_curve_def tps interpolate_trajectory_move_segment_def)
  finally have "interpolate_point_move_segment (csp_profile ?c) ?a ?b ?t T = (command_position ?c', command_velocity ?c', command_acceleration ?c')" ..
  note bounds = point_move_bounds [OF _ this]
  have "rest_duration l ?D \<le> T" using lim assms(3,4) by fastforce
  note limits = rest_duration_limits [OF this _ _ assms(5)]
  have "1 / 10 ^ 9 \<le> T" "0 < T" using ct T pos by linarith+
  note T' = this
  have "\<bar>command_velocity ?c'\<bar> \<le> vl"
    using order_trans [OF bounds(1) [OF T'(1)]] limits(1) [OF T'(2)] by simp
  moreover have "\<bar>command_acceleration ?c'\<bar> \<le> al"
    using order_trans [OF bounds(2) [OF T'(1)]] limits(2) [OF T'(2)] by simp
  ultimately show ?thesis by (simp add: cycles_Suc)
qed

subsection \<open>Properties\<close>

text \<open>C10: a cyclic trajectory is its curve. Whatever the number of way points and their profile, the
  generator, which advances its own clock and searches its segment anew in every cycle, commands in
  cycle \<open>m + 1\<close> the position, velocity and acceleration the closed-form curve through the way points has
  at the time \<open>m\<close> cycles after the start, until half a cycle before the last point.\<close>

theorem cycles_sample_trajectory_curve:
  assumes "2 \<le> length points" and "1 / 10 ^ 9 \<le> ct" and "real m * ct + ct / 2 < time_from_start (last points)"
  shows "(command_position (cycles ct vmax acc dec j (Suc m) (set_trajectory_move points g)),
      command_velocity (cycles ct vmax acc dec j (Suc m) (set_trajectory_move points g)),
      command_acceleration (cycles ct vmax acc dec j (Suc m) (set_trajectory_move points g)))
    = trajectory_curve (set_trajectory_move points g) points (real m * ct)"
proof -
  let ?c = "cycles ct vmax acc dec j m (set_trajectory_move points g)"
  note run = running_cycles [OF assms, of g vmax acc dec j]
  have "trajectory_curve ?c points (real m * ct) = trajectory_curve (set_trajectory_move points g) points (real m * ct)"
    using run set_trajectory_running [OF assms(1), of g] by (intro curve_profiles) (simp_all add: running_def)
  with running_step(2) [OF run assms(1-3), of vmax acc dec j] show ?thesis by (simp add: cycles_Suc)
qed

theorem cycles_sample_trajectory_curve_witness:
  "(command_position (cycles (1 / 100) 5 20 30 100 (Suc 50) (set_trajectory_move [demo_point, demo_point2] demo_generator)),
      command_velocity (cycles (1 / 100) 5 20 30 100 (Suc 50) (set_trajectory_move [demo_point, demo_point2] demo_generator)),
      command_acceleration (cycles (1 / 100) 5 20 30 100 (Suc 50) (set_trajectory_move [demo_point, demo_point2] demo_generator)))
    = trajectory_curve (set_trajectory_move [demo_point, demo_point2] demo_generator) [demo_point, demo_point2] (real 50 * (1 / 100))"
  by (rule cycles_sample_trajectory_curve) (simp_all add: demo_point2_def)

text \<open>C9: a trajectory to a single target is accepted and stays within the limits. The two-point trajectory
  the server makes of a single target passes its own verifier, and when the generator of an axis runs
  it, with the trapezoidal or the quintic profile, the commanded velocity and acceleration are in every
  cycle at most the velocity limit and the smaller of the acceleration and deceleration limits of the axis
  (each limit guarded from below by \<open>10^-9\<close>).\<close>

theorem single_target_trajectory_within_limits:
  assumes "expand_single_point axes [p] mc = Inr points" and "length (wp_positions p) = length axes"
    and "1 / 10 ^ 9 \<le> cycle_time mc"
    and "k < length axes" and "scaled_limits mc (axes ! k) = Inr l" and "guarded_limits l = (vl, al)"
    and "axis_timed_points points k = Inr tps"
    and "real m * cycle_time mc + cycle_time mc / 2 < wp_time_from_start (last points)"
  shows "validate_trajectory_limits mc axes points = Inr None \<and>
    \<bar>command_velocity (cycles (cycle_time mc) vmax acc dec j (Suc m) (set_trajectory_move tps g))\<bar> \<le> vl \<and>
    \<bar>command_acceleration (cycles (cycle_time mc) vmax acc dec j (Suc m) (set_trajectory_move tps g))\<bar> \<le> al"
proof -
  have "0 < cycle_time mc" using assms(3) less_le_trans [of 0 "1 / 10 ^ 9" "cycle_time mc"] by simp
  from expanded_accepted [OF assms(1,2) this] expanded_within_limits [OF assms(1,2,4-7,3,8)] show ?thesis by simp
qed

theorem single_target_trajectory_within_limits_witness:
  "\<exists>points tps. expand_single_point [0, 1] [demo_target] demo_controller = Inr points \<and>
    axis_timed_points points 1 = Inr tps \<and> validate_trajectory_limits demo_controller [0, 1] points = Inr None \<and>
    \<bar>command_velocity (cycles (1 / 100) 5 20 30 100 (Suc 1) (set_trajectory_move tps demo_generator))\<bar> \<le> 1000"
proof -
  let ?l = "\<lparr>al_velocity = 1000, al_acceleration = 1000, al_deceleration = 1000\<rparr>"
  have mc: "cycle_time demo_controller = 1 / 100" by (simp add: demo_controller_def)
  have lim: "scaled_limits demo_controller 0 = Inr ?l" "scaled_limits demo_controller 1 = Inr ?l"
    by (simp_all add: scaled_limits_def demo_controller_def py_nth_def py_index_def)
  have current: "command_positions demo_controller [0, 1] = Inr [0, 0]"
    by (simp add: command_positions_def demo_controller_def py_nth_def py_index_def)
  define T where "T = max (max (max 0 (rest_duration ?l 30)) (rest_duration ?l 60)) (1 / 100)"
  define points where "points = [\<lparr>wp_positions = [0, 0], wp_time_from_start = 0, wp_velocities = None, wp_accelerations = None\<rparr>,
      \<lparr>wp_positions = [30, 60], wp_time_from_start = T, wp_velocities = None, wp_accelerations = None\<rparr>]"
  have "1.875 * 60 / 1000 \<le> rest_duration ?l 60" by (simp add: rest_duration_def guarded_limits_def)
  then have "1 * (1 / 100) + (1 / 100) / 2 < T" by (simp add: T_def)
  moreover have expand: "expand_single_point [0, 1] [demo_target] demo_controller = Inr points"
    by (simp add: expand_single_point_def current estimate_trajectory_duration_def lim mc demo_target_def points_def T_def)
  moreover obtain tps where "axis_timed_points points 1 = Inr tps"
    by (simp add: axis_timed_points_def axis_timed_point_def points_def point_value_def py_nth_def py_index_def)
  ultimately show ?thesis
    using single_target_trajectory_within_limits [of "[0, 1]" demo_target demo_controller points 1 ?l 1000 1000 tps 1
        5 20 30 100 demo_generator] lim mc
    by (auto simp: demo_target_def points_def guarded_limits_def)
qed

end
