(* ===== verification/Distributed_Clock.thy ===== *)
theory Distributed_Clock
  imports Mock_Master
begin

section \<open>The distributed clock\<close>

text \<open>
  Models \<open>DcPhaseLock\<close> and \<open>DcCycleScheduler\<close> of \<^verbatim>\<open>ethercat/distributed_clock.py\<close>: the controller
  that keeps the server's cycle at a fixed phase of the bus clock, and the deadline of the next cycle
  when the phase is reached by an absolute wait. Readings of the monotonic clock and of the bus
  clock are arguments; the statistics an update adds are returned with it. The wall-clock stub
  \<open>DistributedClock\<close> is the source of bus clock readings of the in-process master and is not modelled.
\<close>

subsection \<open>The phase lock\<close>

record dc_phase_lock =
  pl_enabled :: bool
  pl_cycle_time_ns :: int
  pl_phase_offset_ns :: int
  pl_kp :: real
  pl_ki :: real
  pl_max_correction :: real
  integral_error_s :: real
  correction_s :: real

definition new_phase_lock :: "bool \<Rightarrow> real \<Rightarrow> int \<Rightarrow> real \<Rightarrow> real \<Rightarrow> real \<Rightarrow> dc_phase_lock" where
  "new_phase_lock enabled ct offset kp ki max_correction =
     \<lparr>pl_enabled = enabled, pl_cycle_time_ns = max 1 (py_round (ct * 1000000000)), pl_phase_offset_ns = offset,
      pl_kp = kp, pl_ki = ki, pl_max_correction = \<bar>max_correction\<bar>, integral_error_s = 0, correction_s = 0\<rparr>"

definition target_phase_ns :: "dc_phase_lock \<Rightarrow> int" where
  "target_phase_ns pl = (pl_cycle_time_ns pl - pl_phase_offset_ns pl) mod pl_cycle_time_ns pl"

definition correction :: "dc_phase_lock \<Rightarrow> real" where
  "correction pl = (if pl_enabled pl then correction_s pl else 0)"

definition wrapped_phase_error_ns :: "int \<Rightarrow> dc_phase_lock \<Rightarrow> int" where
  "wrapped_phase_error_ns dc pl =
     (let actual_phase = dc mod pl_cycle_time_ns pl;
          error = actual_phase - target_phase_ns pl;
          half_cycle = pl_cycle_time_ns pl div 2
      in if error > half_cycle then error - pl_cycle_time_ns pl
         else if error < - half_cycle then error + pl_cycle_time_ns pl
         else error)"

definition clamp :: "real \<Rightarrow> real \<Rightarrow> real \<Rightarrow> real" where
  "clamp value minimum maximum = max minimum (min maximum value)"

definition lock_update :: "int option \<Rightarrow> dc_phase_lock \<Rightarrow> (string \<times> real) list \<times> dc_phase_lock" where
  "lock_update dc_time pl =
     (case dc_time of
        None \<Rightarrow> ([], pl)
      | Some dc \<Rightarrow>
          let phase_error_s = of_int (wrapped_phase_error_ns dc pl) / 1000000000
          in if \<not> pl_enabled pl then
               ([(''dc_phase_error'', phase_error_s), (''dc_phase_correction'', 0)],
                pl\<lparr>integral_error_s := 0, correction_s := 0\<rparr>)
             else
               let limit = pl_max_correction pl;
                   integral = clamp (integral_error_s pl + phase_error_s) (- limit) limit;
                   c = clamp (- (pl_kp pl * phase_error_s + pl_ki pl * integral)) (- limit) limit
               in ([(''dc_phase_error'', phase_error_s), (''dc_phase_correction'', c)],
                   pl\<lparr>integral_error_s := integral, correction_s := c\<rparr>))"

subsection \<open>The scheduler\<close>

text \<open>\<open>bus_now\<close> is the result of \<open>get_dc_time_ns\<close>, read only when no input has been received yet.\<close>

definition estimate_dc_time_ns :: "master_times \<Rightarrow> int \<Rightarrow> int \<Rightarrow> int" where
  "estimate_dc_time_ns t bus_now monotonic_ns =
     (case last_rx_monotonic_ns t of
        None \<Rightarrow> bus_now
      | Some rx \<Rightarrow>
          if last_rx_dc_time_ns t = 0 then bus_now else last_rx_dc_time_ns t + monotonic_ns - rx)"

definition estimate_transmit_dc_time_ns :: "master_times \<Rightarrow> int \<Rightarrow> int" where
  "estimate_transmit_dc_time_ns t bus_now =
     (case last_tx_monotonic_ns t of None \<Rightarrow> bus_now | Some tx \<Rightarrow> estimate_dc_time_ns t bus_now tx)"

definition cycle_wait_ns :: "dc_phase_lock \<Rightarrow> int \<Rightarrow> int" where
  "cycle_wait_ns pl dc_now_ns =
     (let wait = target_phase_ns pl - dc_now_ns mod pl_cycle_time_ns pl
      in if wait \<le> 0 then wait + pl_cycle_time_ns pl else wait)"

definition absolute_cycle_deadline :: "dc_phase_lock \<Rightarrow> master_times \<Rightarrow> int \<Rightarrow> int \<Rightarrow> real \<times> real" where
  "absolute_cycle_deadline pl t bus_now now =
     (let wait = cycle_wait_ns pl (estimate_dc_time_ns t bus_now now)
      in (of_int (now + wait) / 1000000000, of_int wait / 1000000000))"

subsection \<open>Lemmas\<close>

definition lock_inv :: "dc_phase_lock \<Rightarrow> bool" where
  "lock_inv pl \<longleftrightarrow> 0 < pl_cycle_time_ns pl \<and> 0 \<le> pl_max_correction pl \<and>
     \<bar>integral_error_s pl\<bar> \<le> pl_max_correction pl \<and> \<bar>correction_s pl\<bar> \<le> pl_max_correction pl"

lemma new_phase_lock_inv: "lock_inv (new_phase_lock enabled ct offset kp ki m)"
  by (simp add: lock_inv_def new_phase_lock_def)

lemma clamp_bound: "0 \<le> m \<Longrightarrow> \<bar>clamp x (- m) m\<bar> \<le> m"
  by (auto simp: clamp_def)

lemma lock_update_inv: "lock_inv pl \<Longrightarrow> lock_inv (snd (lock_update dc pl))"
  by (cases dc) (simp_all add: lock_update_def lock_inv_def Let_def clamp_bound)

lemma lock_update_frame [simp]:
  "pl_max_correction (snd (lock_update dc pl)) = pl_max_correction pl"
  "pl_cycle_time_ns (snd (lock_update dc pl)) = pl_cycle_time_ns pl"
  "pl_phase_offset_ns (snd (lock_update dc pl)) = pl_phase_offset_ns pl"
  by (cases dc; simp add: lock_update_def Let_def)+

lemma target_phase_range:
  assumes "0 < pl_cycle_time_ns pl"
  shows "0 \<le> target_phase_ns pl" "target_phase_ns pl < pl_cycle_time_ns pl"
  using assms by (simp_all add: target_phase_ns_def)

lemma wrapped_error_bound:
  assumes "0 < pl_cycle_time_ns pl"
  shows "2 * \<bar>wrapped_phase_error_ns dc pl\<bar> \<le> pl_cycle_time_ns pl"
proof -
  define x where "x = dc mod pl_cycle_time_ns pl"
  have "0 \<le> x" "x < pl_cycle_time_ns pl" using assms by (simp_all add: x_def)
  with target_phase_range [OF assms] show ?thesis
    unfolding wrapped_phase_error_ns_def Let_def x_def [symmetric] by (auto simp: abs_if)
qed

lemma wrapped_error_phase:
  "(target_phase_ns pl + wrapped_phase_error_ns dc pl) mod pl_cycle_time_ns pl = dc mod pl_cycle_time_ns pl"
  by (simp add: wrapped_phase_error_ns_def Let_def mod_diff_right_eq)

lemma cycle_wait_range:
  assumes "0 < pl_cycle_time_ns pl"
  shows "0 < cycle_wait_ns pl dc" "cycle_wait_ns pl dc \<le> pl_cycle_time_ns pl"
proof -
  define x where "x = dc mod pl_cycle_time_ns pl"
  have "0 \<le> x" "x < pl_cycle_time_ns pl" using assms by (simp_all add: x_def)
  with target_phase_range [OF assms] show "0 < cycle_wait_ns pl dc" "cycle_wait_ns pl dc \<le> pl_cycle_time_ns pl"
    unfolding cycle_wait_ns_def Let_def x_def [symmetric] by auto
qed

lemma cycle_wait_phase:
  assumes "0 < pl_cycle_time_ns pl"
  shows "(dc + cycle_wait_ns pl dc) mod pl_cycle_time_ns pl = target_phase_ns pl"
proof -
  have "(dc + (target_phase_ns pl - dc mod pl_cycle_time_ns pl)) mod pl_cycle_time_ns pl = target_phase_ns pl mod pl_cycle_time_ns pl"
    by (metis add_diff_cancel_left' add_diff_eq diff_add_cancel mod_diff_right_eq)
  then show ?thesis
    using target_phase_range [OF assms] by (simp add: cycle_wait_ns_def Let_def add.assoc [symmetric])
qed

subsection \<open>Properties\<close>

text \<open>The phase lock is bounded. From a new lock on, whatever clock readings the cycles bring, the
  correction of the cycle time never exceeds the configured maximum and neither does the integral
  part, so it cannot wind up; the phase error it reacts to is the distance of the reading to the target
  phase modulo the cycle, taken in the shorter direction: at most half a cycle.\<close>

theorem phase_lock_bounded:
  assumes "pl = fold (\<lambda>dc pl. snd (lock_update dc pl)) readings (new_phase_lock enabled ct offset kp ki m)"
  shows "\<bar>correction pl\<bar> \<le> \<bar>m\<bar> \<and> \<bar>integral_error_s pl\<bar> \<le> \<bar>m\<bar> \<and>
    2 * \<bar>wrapped_phase_error_ns dc pl\<bar> \<le> pl_cycle_time_ns pl \<and>
    (target_phase_ns pl + wrapped_phase_error_ns dc pl) mod pl_cycle_time_ns pl = dc mod pl_cycle_time_ns pl"
proof -
  have "lock_inv (fold (\<lambda>dc pl. snd (lock_update dc pl)) readings pl0) \<and>
      pl_max_correction (fold (\<lambda>dc pl. snd (lock_update dc pl)) readings pl0) = pl_max_correction pl0"
    if "lock_inv pl0" for pl0
    using that by (induction readings arbitrary: pl0) (simp_all add: lock_update_inv)
  from this [OF new_phase_lock_inv] have "lock_inv pl" "pl_max_correction pl = \<bar>m\<bar>"
    by (simp_all add: assms new_phase_lock_def)
  then show ?thesis
    using wrapped_error_bound wrapped_error_phase by (auto simp: lock_inv_def correction_def)
qed

theorem phase_lock_bounded_witness:
  "\<bar>correction (fold (\<lambda>dc pl. snd (lock_update dc pl)) [Some 2700000, None, Some 9000001]
     (new_phase_lock True (1 / 1000) 250000 2 3 (- 1 / 10000)))\<bar> \<le> \<bar>- 1 / 10000\<bar>"
  using phase_lock_bounded [OF refl, of "[Some 2700000, None, Some 9000001]" True "1 / 1000" 250000 2 3 "- 1 / 10000"]
  by blast

text \<open>The absolute deadline meets the phase. With a positive cycle time the next cycle is
  scheduled strictly after now and at most one cycle later, at a moment at which the estimated bus
  clock stands exactly at the target phase.\<close>

theorem absolute_deadline_meets_phase:
  assumes "0 < pl_cycle_time_ns pl" and "absolute_cycle_deadline pl t bus_now now = (deadline, wait)"
  shows "\<exists>w. 0 < w \<and> w \<le> pl_cycle_time_ns pl \<and> wait = of_int w / 1000000000 \<and>
    deadline = of_int (now + w) / 1000000000 \<and>
    (estimate_dc_time_ns t bus_now now + w) mod pl_cycle_time_ns pl = target_phase_ns pl"
  using cycle_wait_range [OF assms(1)] cycle_wait_phase [OF assms(1)] assms(2)
  by (intro exI [of _ "cycle_wait_ns pl (estimate_dc_time_ns t bus_now now)"])
    (simp add: absolute_cycle_deadline_def Let_def)

theorem absolute_deadline_meets_phase_witness:
  "\<exists>w. 0 < w \<and> w \<le> 1000000 \<and> (estimate_dc_time_ns no_times 5300000 77 + w) mod 1000000 = 750000"
proof -
  let ?pl = "new_phase_lock True (1 / 1000) 250000 2 3 (1 / 10000)"
  have ct: "pl_cycle_time_ns ?pl = 1000000"
    using py_round_of_int [of 1000000] by (simp add: new_phase_lock_def)
  moreover have "target_phase_ns ?pl = 750000"
    using ct by (simp add: target_phase_ns_def new_phase_lock_def)
  ultimately show ?thesis
    using absolute_deadline_meets_phase [of ?pl no_times 5300000 77 "fst (absolute_cycle_deadline ?pl no_times 5300000 77)"
        "snd (absolute_cycle_deadline ?pl no_times 5300000 77)"] by auto
qed

end
