(* ===== verification/Cpx_Layout.thy ===== *)
theory Cpx_Layout
  imports Od_Codec
begin

section \<open>The modules of a CPX-AP-I-EC station and their process image\<close>

text \<open>
  Models \<^verbatim>\<open>device/cpx_ap_i_ec/module_layout.py\<close> (declarations of I/O modules, their sizes and
  their offsets in the station's process image), \<open>split_indexed_config_list\<close> of
  \<^verbatim>\<open>configuration/file_parser.py\<close> and the lookups of \<^verbatim>\<open>device/cpx_ap_i_ec/esi_module_catalog.py\<close>.
  The modules the vendor's XML description lists are an argument, in the order of the file; how the
  XML is read is not modelled. Counts, byte sizes and offsets are natural numbers, slots integers.
  The texts of the regular expressions \<open>(\d+)di\<close> and the like are matched by \<open>search_counts\<close>. The
  lemmas show that the declarations with short names always reserve the bytes their channels
  need, and that the offsets give every module bytes of its own inside the image.
\<close>

subsection \<open>The module catalogue\<close>

record EsiPdoEntryInfo =
  entry_index :: int
  entry_subindex :: int
  entry_bit_length :: nat
  entry_name :: string
  depend_on_slot :: bool

record EsiPdoInfo =
  pdo_index :: int
  pdo_name :: string
  pdo_entries :: "EsiPdoEntryInfo list"

record EsiSubItemInfo =
  sub_subindex :: int
  sub_name :: string
  sub_data_type :: string
  sub_access :: string

record EsiObjectInfo =
  object_index :: int
  object_name :: string
  object_data_type :: string
  object_access :: string
  object_subitems :: "EsiSubItemInfo list"

record EsiModuleInfo =
  ident :: int
  type_name :: string
  display_name :: string
  rxpdo_bytes :: nat
  txpdo_bytes :: nat
  esi_objects :: "EsiObjectInfo list"
  rxpdos :: "EsiPdoInfo list"
  txpdos :: "EsiPdoInfo list"

definition esi_mapping_entry :: "EsiPdoEntryInfo \<Rightarrow> int" where
  "esi_mapping_entry en =
     (if entry_index en = 0 then int (entry_bit_length en) AND 0xFF
      else push_bit 16 (entry_index en AND 0xFFFF) OR push_bit 8 (entry_subindex en AND 0xFF)
           OR (int (entry_bit_length en) AND 0xFF))"

definition byte_size :: "EsiPdoInfo \<Rightarrow> nat" where
  "byte_size pdo = (sum_list (map entry_bit_length (pdo_entries pdo)) + 7) div 8"

definition esi_mapping_entries :: "EsiPdoInfo \<Rightarrow> int list" where
  "esi_mapping_entries pdo = map esi_mapping_entry (pdo_entries pdo)"

definition normalized_file_key :: "string \<Rightarrow> string" where
  "normalized_file_key value =
     filter (\<lambda>c. let n = (of_char c :: nat) in 97 \<le> n \<and> n \<le> 122 \<or> 48 \<le> n \<and> n \<le> 57) (lower value)"

text \<open>\<open>by_ident\<close> and \<open>by_name\<close> are filled with \<open>setdefault\<close>: the first module of the file wins.\<close>

definition by_ident :: "EsiModuleInfo list \<Rightarrow> (int \<times> EsiModuleInfo) list" where
  "by_ident modules = map (\<lambda>m. (ident m, m)) modules"

definition by_name :: "EsiModuleInfo list \<Rightarrow> (string \<times> EsiModuleInfo) list" where
  "by_name modules =
     concat (map (\<lambda>m. [(normalized_file_key (type_name m), m), (normalized_file_key (display_name m), m)])
       modules)"

definition module_info_by_name :: "EsiModuleInfo list \<Rightarrow> string \<Rightarrow> EsiModuleInfo res" where
  "module_info_by_name cat name =
     (case map_of (by_name cat) (normalized_file_key name) of Some m \<Rightarrow> Inr m | None \<Rightarrow> Inl KeyError)"

definition module_info_by_ident :: "EsiModuleInfo list \<Rightarrow> int \<Rightarrow> EsiModuleInfo res" where
  "module_info_by_ident cat i =
     (case map_of (by_ident cat) i of Some m \<Rightarrow> Inr m | None \<Rightarrow> Inl KeyError)"

definition interface_module_info :: "EsiModuleInfo list \<Rightarrow> EsiModuleInfo res" where
  "interface_module_info cat = module_info_by_name cat ''CPX-AP-I-EC-M12''"

subsection \<open>Module specifications\<close>

datatype module_spec =
    DigitalModuleSpec nat nat
  | AnalogModuleSpec nat nat nat bool
  | IoLinkModuleSpec nat nat nat

definition spec_to_dict :: "module_spec \<Rightarrow> pydict" where
  "spec_to_dict spec =
     (case spec of
        DigitalModuleSpec i n \<Rightarrow>
          [(''digital_inputs'', PInt (int i)), (''digital_outputs'', PInt (int n))]
      | AnalogModuleSpec i n b s \<Rightarrow>
          [(''analog_inputs'', PInt (int i)), (''analog_outputs'', PInt (int n)),
           (''analog_bits'', PInt (int b)), (''analog_signed'', PBool s)]
      | IoLinkModuleSpec p i n \<Rightarrow>
          [(''io_link_ports'', PInt (int p)), (''io_link_input_data_bytes'', PInt (int i)),
           (''io_link_output_data_bytes'', PInt (int n))])"

record CPXApModule =
  m_slot :: int
  module_type :: string
  m_raw :: string
  m_spec :: module_spec
  input_offset :: "nat option"
  output_offset :: "nat option"
  input_bytes :: nat
  output_bytes :: nat

definition digital_inputs :: "CPXApModule \<Rightarrow> nat" where
  "digital_inputs m = (case m_spec m of DigitalModuleSpec i _ \<Rightarrow> i | _ \<Rightarrow> 0)"

definition digital_outputs :: "CPXApModule \<Rightarrow> nat" where
  "digital_outputs m = (case m_spec m of DigitalModuleSpec _ n \<Rightarrow> n | _ \<Rightarrow> 0)"

definition analog_inputs :: "CPXApModule \<Rightarrow> nat" where
  "analog_inputs m = (case m_spec m of AnalogModuleSpec i _ _ _ \<Rightarrow> i | _ \<Rightarrow> 0)"

definition analog_outputs :: "CPXApModule \<Rightarrow> nat" where
  "analog_outputs m = (case m_spec m of AnalogModuleSpec _ n _ _ \<Rightarrow> n | _ \<Rightarrow> 0)"

definition analog_bits :: "CPXApModule \<Rightarrow> nat" where
  "analog_bits m = (case m_spec m of AnalogModuleSpec _ _ b _ \<Rightarrow> b | _ \<Rightarrow> 0)"

definition analog_signed :: "CPXApModule \<Rightarrow> bool" where
  "analog_signed m = (case m_spec m of AnalogModuleSpec _ _ _ s \<Rightarrow> s | _ \<Rightarrow> True)"

definition analog_bytes :: "CPXApModule \<Rightarrow> nat" where
  "analog_bytes m = (case m_spec m of AnalogModuleSpec _ _ b _ \<Rightarrow> b div 8 | _ \<Rightarrow> 0)"

definition io_link_ports :: "CPXApModule \<Rightarrow> nat" where
  "io_link_ports m = (case m_spec m of IoLinkModuleSpec p _ _ \<Rightarrow> p | _ \<Rightarrow> 0)"

definition io_link_input_data_bytes :: "CPXApModule \<Rightarrow> nat" where
  "io_link_input_data_bytes m = (case m_spec m of IoLinkModuleSpec _ i _ \<Rightarrow> i | _ \<Rightarrow> 0)"

definition io_link_output_data_bytes :: "CPXApModule \<Rightarrow> nat" where
  "io_link_output_data_bytes m = (case m_spec m of IoLinkModuleSpec _ _ n \<Rightarrow> n | _ \<Rightarrow> 0)"

definition has_analog_data :: "CPXApModule \<Rightarrow> bool" where
  "has_analog_data m = (case m_spec m of AnalogModuleSpec _ _ _ _ \<Rightarrow> True | _ \<Rightarrow> False)"

definition opt_nat :: "nat option \<Rightarrow> pyval" where
  "opt_nat x = (case x of None \<Rightarrow> PNone | Some n \<Rightarrow> PInt (int n))"

definition module_to_dict :: "CPXApModule \<Rightarrow> pydict" where
  "module_to_dict m =
     [(''slot'', PInt (m_slot m)), (''type'', PStr (module_type m)), (''raw'', PStr (m_raw m)),
      (''input_offset'', opt_nat (input_offset m)), (''output_offset'', opt_nat (output_offset m)),
      (''input_bytes'', PInt (int (input_bytes m))), (''output_bytes'', PInt (int (output_bytes m)))]
     @ spec_to_dict (m_spec m)"

subsection \<open>The layout\<close>

record CPXApLayout =
  l_modules :: "CPXApModule list"
  station_input_bytes :: nat
  station_output_bytes :: nat

definition layout_input_bytes :: "CPXApLayout \<Rightarrow> nat" where
  "layout_input_bytes l = sum_list (map input_bytes (l_modules l)) + station_input_bytes l"

definition layout_output_bytes :: "CPXApLayout \<Rightarrow> nat" where
  "layout_output_bytes l = sum_list (map output_bytes (l_modules l)) + station_output_bytes l"

definition layout_total :: "(CPXApModule \<Rightarrow> nat) \<Rightarrow> CPXApLayout \<Rightarrow> nat" where
  "layout_total f l = sum_list (map f (l_modules l))"

definition common_analog_property :: "CPXApModule list \<Rightarrow> (CPXApModule \<Rightarrow> 'a) \<Rightarrow> 'a \<Rightarrow> 'a res" where
  "common_analog_property modules attribute dflt =
     (case modules of
        [] \<Rightarrow> Inr dflt
      | m # ms \<Rightarrow> if list_all (\<lambda>m'. attribute m' = attribute m) ms then Inr (attribute m) else Inl ValueError)"

definition layout_analog_bytes :: "CPXApLayout \<Rightarrow> nat res" where
  "layout_analog_bytes l = common_analog_property (filter has_analog_data (l_modules l)) analog_bytes 2"

definition layout_analog_signed :: "CPXApLayout \<Rightarrow> bool res" where
  "layout_analog_signed l = common_analog_property (filter has_analog_data (l_modules l)) analog_signed True"

definition layout_to_dict :: "CPXApLayout \<Rightarrow> pydict" where
  "layout_to_dict l =
     [(''input_bytes'', PInt (int (layout_input_bytes l))),
      (''output_bytes'', PInt (int (layout_output_bytes l))),
      (''digital_inputs'', PInt (int (layout_total digital_inputs l))),
      (''digital_outputs'', PInt (int (layout_total digital_outputs l))),
      (''analog_inputs'', PInt (int (layout_total analog_inputs l))),
      (''analog_outputs'', PInt (int (layout_total analog_outputs l))),
      (''io_link_ports'', PInt (int (layout_total io_link_ports l))),
      (''station_input_bytes'', PInt (int (station_input_bytes l))),
      (''station_output_bytes'', PInt (int (station_output_bytes l))),
      (''modules'', PList (map (\<lambda>m. PDict (module_to_dict m)) (l_modules l)))]"

fun assign_from :: "nat \<Rightarrow> nat \<Rightarrow> CPXApModule list \<Rightarrow> CPXApModule list" where
  "assign_from i j [] = []"
| "assign_from i j (m # ms) =
     m\<lparr>input_offset := if input_bytes m \<noteq> 0 then Some i else None,
       output_offset := if output_bytes m \<noteq> 0 then Some j else None\<rparr>
     # assign_from (i + input_bytes m) (j + output_bytes m) ms"

definition assign_process_image_offsets :: "CPXApModule list \<Rightarrow> CPXApModule list" where
  "assign_process_image_offsets modules = assign_from 0 0 modules"

subsection \<open>Python: splitting and the patterns used here\<close>

fun split_on :: "char \<Rightarrow> string \<Rightarrow> string list" where
  "split_on d [] = [[]]"
| "split_on d (c # cs) =
     (if c = d then [] # split_on d cs
      else case split_on d cs of p # ps \<Rightarrow> (c # p) # ps | [] \<Rightarrow> [[c]])"

definition is_digit :: "char \<Rightarrow> bool" where
  "is_digit c \<longleftrightarrow> (let n = (of_char c :: nat) in 48 \<le> n \<and> n \<le> 57)"

text \<open>\<open>match_counts [''di'', ''do'']\<close> is the pattern \<open>(\d+)di(\d+)do\<close> at the start of a text, and
  \<open>search_counts\<close> its leftmost match; the result are the texts of the groups.\<close>

fun match_counts :: "string list \<Rightarrow> string \<Rightarrow> string list option" where
  "match_counts [] s = Some []"
| "match_counts (suf # sufs) s =
     (let ds = takeWhile is_digit s; rest = dropWhile is_digit s
      in if ds \<noteq> [] \<and> starts_with suf rest
         then map_option ((#) ds) (match_counts sufs (drop (length suf) rest)) else None)"

fun search_counts :: "string list \<Rightarrow> string \<Rightarrow> string list option" where
  "search_counts sufs [] = None"
| "search_counts sufs (c # cs) =
     (case match_counts sufs (c # cs) of Some g \<Rightarrow> Some g | None \<Rightarrow> search_counts sufs cs)"

text \<open>\<open>^\s*(\d+)\s*:\s*(.+)$\<close> on a text without surrounding whitespace.\<close>

definition indexed_item :: "string \<Rightarrow> (nat \<times> string) option" where
  "indexed_item item =
     (let ds = takeWhile is_digit item; rest = dropWhile is_space (dropWhile is_digit item)
      in case (ds, rest) of
           (_ # _, c # cs) \<Rightarrow>
             (let body = dropWhile is_space cs
              in if c = CHR '':'' \<and> body \<noteq> [] \<and> CHR 0x0A \<notin> set body
                 then map_option (\<lambda>n. (n, body)) (unsigned_value 10 ds) else None)
         | _ \<Rightarrow> None)"

fun indexed_items :: "int \<Rightarrow> string list \<Rightarrow> (int \<times> string) list" where
  "indexed_items next_index [] = []"
| "indexed_items next_index (raw_item # rest) =
     (let item = strip raw_item
      in if item = [] then indexed_items next_index rest
         else case indexed_item item of
           Some (i, v) \<Rightarrow> (int i, strip v) # indexed_items (int i + 1) rest
         | None \<Rightarrow> (next_index, item) # indexed_items (next_index + 1) rest)"

definition split_indexed_config_list :: "string \<Rightarrow> int \<Rightarrow> (int \<times> string) list" where
  "split_indexed_config_list value default_start = indexed_items default_start (split_on (CHR '','') value)"

definition split_module_list :: "string \<Rightarrow> (int \<times> string) list res" where
  "split_module_list raw_modules =
     (let items = split_indexed_config_list raw_modules 1
      in if distinct (map fst items) then Inr (sort_key fst items) else Inl ValueError)"

subsection \<open>Declarations with short names\<close>

definition parse_non_negative_int :: "string \<Rightarrow> nat res" where
  "parse_non_negative_int value =
     (case py_int_text base0_value value of
        None \<Rightarrow> Inl ValueError
      | Some n \<Rightarrow> if n < 0 then Inl ValueError else Inr (nat n))"

definition parse_io_count :: "string \<Rightarrow> string list \<Rightarrow> nat res" where
  "parse_io_count token prefixes =
     (let t = lower (strip token)
      in case find (\<lambda>p. starts_with p t) prefixes of
           Some p \<Rightarrow> parse_non_negative_int (drop (length p) t)
         | None \<Rightarrow> parse_non_negative_int t)"

definition require_part_count :: "string list \<Rightarrow> nat \<Rightarrow> unit res" where
  "require_part_count parts expected = (if length parts \<noteq> expected then Inl ValueError else Inr ())"

definition analog_byte_width :: "nat \<Rightarrow> nat res" where
  "analog_byte_width bits = (if bits \<in> {8, 16, 32} then Inr (bits div 8) else Inl ValueError)"

definition bytes_for_bits :: "nat \<Rightarrow> nat" where
  "bytes_for_bits bit_count = (bit_count + 7) div 8"

definition new_module :: "int \<Rightarrow> string \<Rightarrow> string \<Rightarrow> module_spec \<Rightarrow> nat \<Rightarrow> nat \<Rightarrow> CPXApModule" where
  "new_module slot mtype raw spec inb outb =
     \<lparr>m_slot = slot, module_type = mtype, m_raw = raw, m_spec = spec, input_offset = None,
      output_offset = None, input_bytes = inb, output_bytes = outb\<rparr>"

definition digital_input_module :: "int \<Rightarrow> string \<Rightarrow> string list \<Rightarrow> CPXApModule res" where
  "digital_input_module slot raw parts =
     bindE (require_part_count parts 2) (\<lambda>_.
     bindE (parse_non_negative_int (parts ! 1)) (\<lambda>points.
       Inr (new_module slot ''di'' raw (DigitalModuleSpec points 0) (bytes_for_bits points) 0)))"

definition digital_output_module :: "int \<Rightarrow> string \<Rightarrow> string list \<Rightarrow> CPXApModule res" where
  "digital_output_module slot raw parts =
     bindE (require_part_count parts 2) (\<lambda>_.
     bindE (parse_non_negative_int (parts ! 1)) (\<lambda>points.
       Inr (new_module slot ''do'' raw (DigitalModuleSpec 0 points) 0 (bytes_for_bits points))))"

definition mixed_digital_module :: "int \<Rightarrow> string \<Rightarrow> string list \<Rightarrow> CPXApModule res" where
  "mixed_digital_module slot raw parts =
     bindE (require_part_count parts 3) (\<lambda>_.
     bindE (parse_io_count (parts ! 1) [''i'', ''in'']) (\<lambda>i.
     bindE (parse_io_count (parts ! 2) [''o'', ''out'']) (\<lambda>n.
       Inr (new_module slot ''dio'' raw (DigitalModuleSpec i n) (bytes_for_bits i) (bytes_for_bits n)))))"

definition analog_input_module ::
  "int \<Rightarrow> string \<Rightarrow> string list \<Rightarrow> nat \<Rightarrow> nat \<Rightarrow> bool \<Rightarrow> CPXApModule res" where
  "analog_input_module slot raw parts bits width sg =
     bindE (require_part_count parts 2) (\<lambda>_.
     bindE (parse_non_negative_int (parts ! 1)) (\<lambda>channels.
       Inr (new_module slot ''ai'' raw (AnalogModuleSpec channels 0 bits sg) (channels * width) 0)))"

definition analog_output_module ::
  "int \<Rightarrow> string \<Rightarrow> string list \<Rightarrow> nat \<Rightarrow> nat \<Rightarrow> bool \<Rightarrow> CPXApModule res" where
  "analog_output_module slot raw parts bits width sg =
     bindE (require_part_count parts 2) (\<lambda>_.
     bindE (parse_non_negative_int (parts ! 1)) (\<lambda>channels.
       Inr (new_module slot ''ao'' raw (AnalogModuleSpec 0 channels bits sg) 0 (channels * width))))"

definition mixed_analog_module ::
  "int \<Rightarrow> string \<Rightarrow> string list \<Rightarrow> nat \<Rightarrow> nat \<Rightarrow> bool \<Rightarrow> CPXApModule res" where
  "mixed_analog_module slot raw parts bits width sg =
     bindE (require_part_count parts 3) (\<lambda>_.
     bindE (parse_io_count (parts ! 1) [''i'', ''in'']) (\<lambda>i.
     bindE (parse_io_count (parts ! 2) [''o'', ''out'']) (\<lambda>n.
       Inr (new_module slot ''aio'' raw (AnalogModuleSpec i n bits sg) (i * width) (n * width)))))"

fun io_link_tokens :: "string list \<Rightarrow> nat option \<times> nat option \<Rightarrow> (nat option \<times> nat option) res" where
  "io_link_tokens [] s = Inr s"
| "io_link_tokens (part # parts) (i, n) =
     (if starts_with ''in'' part then
        bindE (parse_non_negative_int (drop 2 part)) (\<lambda>k. io_link_tokens parts (Some k, n))
      else if starts_with ''out'' part then
        bindE (parse_non_negative_int (drop 3 part)) (\<lambda>k. io_link_tokens parts (i, Some k))
      else Inl ValueError)"

definition io_link_module ::
  "int \<Rightarrow> string \<Rightarrow> string list \<Rightarrow> (int \<rightharpoonup> nat \<times> nat) \<Rightarrow> CPXApModule res" where
  "io_link_module slot raw parts sizes =
     (if length parts = 2 then
        bindE (parse_non_negative_int (parts ! 1)) (\<lambda>ports.
          case sizes slot of
            None \<Rightarrow> Inl ValueError
          | Some (i, n) \<Rightarrow>
              Inr (new_module slot ''iol'' raw (IoLinkModuleSpec ports (i * ports) (n * ports))
                     (i * ports + ports) (n * ports)))
      else if length parts < 4 then Inl ValueError
      else
        bindE (parse_non_negative_int (parts ! 1)) (\<lambda>ports.
        bindE (io_link_tokens (drop 2 parts) (None, None)) (\<lambda>s.
          case s of
            (Some i, Some n) \<Rightarrow>
              Inr (new_module slot ''iol'' raw (IoLinkModuleSpec ports i n) (i + ports) n)
          | _ \<Rightarrow> Inl ValueError)))"

subsection \<open>Declarations by catalogue name or ident\<close>

definition normalized_module_name :: "string \<Rightarrow> string" where
  "normalized_module_name raw =
     map (\<lambda>c. if c = CHR ''_'' \<or> c = CHR '' '' then CHR ''-'' else c) (lower (strip raw))"

definition ident_of_text :: "string \<Rightarrow> int res" where
  "ident_of_text s = (case py_int_text base0_value s of Some i \<Rightarrow> Inr i | None \<Rightarrow> Inl ValueError)"

definition explicit_module_info :: "EsiModuleInfo list \<Rightarrow> string \<Rightarrow> EsiModuleInfo option res" where
  "explicit_module_info cat raw =
     (let value = strip raw
      in case find (\<lambda>p. starts_with p (lower value)) [''ident:'', ''module_ident:''] of
           Some p \<Rightarrow>
             bindE (ident_of_text (drop (length p) value)) (\<lambda>i.
             bindE (module_info_by_ident cat i) (\<lambda>info. Inr (Some info)))
         | None \<Rightarrow>
             if starts_with ''cpx-ap-i-'' (normalized_module_name value)
             then bindE (module_info_by_name cat value) (\<lambda>info. Inr (Some info))
             else Inr None)"

definition parse_module_count :: "string \<Rightarrow> string \<Rightarrow> nat res" where
  "parse_module_count name suffix =
     (case search_counts [suffix] name of Some (g # _) \<Rightarrow> parse_non_negative_int g | _ \<Rightarrow> Inl ValueError)"

definition digital_spec_from_name :: "string \<Rightarrow> module_spec option res" where
  "digital_spec_from_name name =
     (case search_counts [''di'', ''do''] name of
        Some (g1 # g2 # _) \<Rightarrow>
          bindE (parse_non_negative_int g1) (\<lambda>i.
          bindE (parse_non_negative_int g2) (\<lambda>n. Inr (Some (DigitalModuleSpec i n))))
      | _ \<Rightarrow>
       (case search_counts [''dio''] name of
          Some (g # _) \<Rightarrow>
            bindE (parse_non_negative_int g) (\<lambda>n. Inr (Some (DigitalModuleSpec n n)))
        | _ \<Rightarrow>
         (case search_counts [''di''] name of
            Some (g # _) \<Rightarrow>
              bindE (parse_non_negative_int g) (\<lambda>n. Inr (Some (DigitalModuleSpec n 0)))
          | _ \<Rightarrow>
           (case search_counts [''do''] name of
              Some (g # _) \<Rightarrow>
                bindE (parse_non_negative_int g) (\<lambda>n. Inr (Some (DigitalModuleSpec 0 n)))
            | _ \<Rightarrow> Inr None))))"

definition analog_bits_from_pdo_size :: "nat \<Rightarrow> nat \<Rightarrow> nat res" where
  "analog_bits_from_pdo_size byte_count channels =
     (if channels = 0 then Inr 0
      else let bits = byte_count * 8 div channels
           in if bits \<in> {8, 16, 32} then Inr bits else Inl ValueError)"

definition optional_count :: "string list option \<Rightarrow> nat res" where
  "optional_count g = (case g of Some (t # _) \<Rightarrow> parse_non_negative_int t | _ \<Rightarrow> Inr 0)"

definition analog_counts :: "string \<Rightarrow> (nat \<times> nat) res" where
  "analog_counts name =
     (case search_counts [''ai'', ''ao''] name of
        Some (g1 # g2 # _) \<Rightarrow>
          bindE (parse_non_negative_int g1) (\<lambda>i.
          bindE (parse_non_negative_int g2) (\<lambda>n. Inr (i, n)))
      | _ \<Rightarrow>
          bindE (optional_count (search_counts [''ai''] name)) (\<lambda>i.
          bindE (optional_count (search_counts [''ao''] name)) (\<lambda>n. Inr (i, n))))"

definition analog_spec_from_name :: "string \<Rightarrow> EsiModuleInfo \<Rightarrow> bool \<Rightarrow> module_spec option res" where
  "analog_spec_from_name name info sg =
     bindE (analog_counts name) (\<lambda>(i, n).
       if i = 0 \<and> n = 0 then Inr None
       else
         bindE (analog_bits_from_pdo_size (txpdo_bytes info) i) (\<lambda>input_bits.
         bindE (analog_bits_from_pdo_size (rxpdo_bytes info) n) (\<lambda>output_bits.
           let bits = (if input_bits \<noteq> 0 then input_bits else if output_bits \<noteq> 0 then output_bits else 16)
           in if input_bits \<noteq> 0 \<and> output_bits \<noteq> 0 \<and> input_bits \<noteq> output_bits then Inl ValueError
              else Inr (Some (AnalogModuleSpec i n bits sg)))))"

definition direction_type :: "string \<Rightarrow> string \<Rightarrow> string \<Rightarrow> nat \<Rightarrow> nat \<Rightarrow> string" where
  "direction_type both inp outp i n =
     (if i \<noteq> 0 \<and> n = 0 then inp else if n \<noteq> 0 \<and> i = 0 then outp else both)"

definition module_from_esi_info :: "int \<Rightarrow> string \<Rightarrow> EsiModuleInfo \<Rightarrow> bool \<Rightarrow> CPXApModule res" where
  "module_from_esi_info slot raw info sg =
     (let name = normalized_module_name (type_name info);
          mk = (\<lambda>mtype spec. new_module slot mtype raw spec (txpdo_bytes info) (rxpdo_bytes info))
      in if contains ''iol'' name then
           bindE (parse_module_count name ''iol'') (\<lambda>ports.
             if txpdo_bytes info < ports then Inl ValueError
             else Inr (mk ''iol'' (IoLinkModuleSpec ports (txpdo_bytes info - ports) (rxpdo_bytes info))))
         else
           bindE (digital_spec_from_name name) (\<lambda>d.
             case d of
               Some (DigitalModuleSpec i n) \<Rightarrow>
                 Inr (mk (direction_type ''dio'' ''di'' ''do'' i n) (DigitalModuleSpec i n))
             | _ \<Rightarrow>
                 bindE (analog_spec_from_name name info sg) (\<lambda>a.
                   case a of
                     Some (AnalogModuleSpec i n b s) \<Rightarrow>
                       Inr (mk (direction_type ''aio'' ''ai'' ''ao'' i n) (AnalogModuleSpec i n b s))
                   | _ \<Rightarrow> Inl ValueError)))"

definition parse_explicit_cpx_ap_module ::
  "EsiModuleInfo list \<Rightarrow> int \<Rightarrow> string \<Rightarrow> bool \<Rightarrow> CPXApModule option res" where
  "parse_explicit_cpx_ap_module cat slot raw sg =
     bindE (explicit_module_info cat raw) (\<lambda>info.
       case info of
         None \<Rightarrow> Inr None
       | Some i \<Rightarrow> bindE (module_from_esi_info slot raw i sg) (\<lambda>m. Inr (Some m)))"

subsection \<open>A module list\<close>

definition declaration_parts :: "string \<Rightarrow> string list" where
  "declaration_parts raw = map (\<lambda>p. lower (strip p)) (filter (\<lambda>p. strip p \<noteq> []) (split_on (CHR '':'') raw))"

definition parse_cpx_ap_module ::
  "EsiModuleInfo list \<Rightarrow> int \<Rightarrow> string \<Rightarrow> nat \<Rightarrow> bool \<Rightarrow> (int \<rightharpoonup> nat \<times> nat) \<Rightarrow> CPXApModule res" where
  "parse_cpx_ap_module cat slot raw bits sg sizes =
     bindE (parse_explicit_cpx_ap_module cat slot raw sg) (\<lambda>explicit.
       case explicit of
         Some m \<Rightarrow> Inr m
       | None \<Rightarrow>
           (case declaration_parts raw of
              [] \<Rightarrow> Inl ValueError
            | t # rest \<Rightarrow>
                let parts = t # rest
                in if t \<notin> {''di'', ''do'', ''dio'', ''ai'', ''ao'', ''aio'', ''iol''} then Inl ValueError
                   else bindE (analog_byte_width bits) (\<lambda>width.
                     if t = ''di'' then digital_input_module slot raw parts
                     else if t = ''do'' then digital_output_module slot raw parts
                     else if t = ''dio'' then mixed_digital_module slot raw parts
                     else if t = ''ai'' then analog_input_module slot raw parts bits width sg
                     else if t = ''ao'' then analog_output_module slot raw parts bits width sg
                     else if t = ''aio'' then mixed_analog_module slot raw parts bits width sg
                     else io_link_module slot raw parts sizes)))"

definition parse_cpx_ap_modules ::
  "EsiModuleInfo list \<Rightarrow> string \<Rightarrow> nat \<Rightarrow> bool \<Rightarrow> (int \<rightharpoonup> nat \<times> nat) \<Rightarrow> CPXApLayout res" where
  "parse_cpx_ap_modules cat raw_modules bits sg sizes =
     bindE (split_module_list raw_modules) (\<lambda>items.
     bindE (mapE (\<lambda>(slot, raw). parse_cpx_ap_module cat slot raw bits sg sizes) items) (\<lambda>modules.
       Inr \<lparr>l_modules = assign_process_image_offsets modules, station_input_bytes = 0,
            station_output_bytes = 0\<rparr>))"

subsection \<open>Offsets\<close>

text \<open>\<open>placed off len n ms\<close>: every module that has bytes has an offset, the bytes of the modules
  follow each other without overlap in the order of the list, and all of them end before \<open>n\<close>.\<close>

definition placed ::
  "(CPXApModule \<Rightarrow> nat option) \<Rightarrow> (CPXApModule \<Rightarrow> nat) \<Rightarrow> nat \<Rightarrow> CPXApModule list \<Rightarrow> bool" where
  "placed off len n ms \<longleftrightarrow>
     (\<forall>m \<in> set ms. (off m = None) = (len m = 0)) \<and>
     (\<forall>m \<in> set ms. \<forall>a. off m = Some a \<longrightarrow> a + len m \<le> n) \<and>
     sorted_wrt (\<lambda>m m'. \<forall>a b. off m = Some a \<longrightarrow> off m' = Some b \<longrightarrow> a + len m \<le> b) ms"

lemma assign_from_fields:
  "map input_bytes (assign_from i j ms) = map input_bytes ms"
  "map output_bytes (assign_from i j ms) = map output_bytes ms"
  "map m_slot (assign_from i j ms) = map m_slot ms"
  "map m_spec (assign_from i j ms) = map m_spec ms"
  "map m_raw (assign_from i j ms) = map m_raw ms"
  "map module_type (assign_from i j ms) = map module_type ms"
  by (induction ms arbitrary: i j) simp_all

lemma assign_from_member:
  assumes "m \<in> set ms"
  shows "\<exists>m' \<in> set (assign_from i j ms). m_raw m' = m_raw m \<and> m_spec m' = m_spec m \<and> module_type m' = module_type m"
  using assms by (induction ms arbitrary: i j) auto

lemma assign_from_lower:
  assumes "m \<in> set (assign_from i j ms)"
  shows "input_offset m = Some a \<Longrightarrow> i \<le> a" and "output_offset m = Some b \<Longrightarrow> j \<le> b"
  using assms by (induction ms arbitrary: i j) (fastforce split: if_splits)+

lemma assign_from_upper:
  assumes "m \<in> set (assign_from i j ms)"
  shows "input_offset m = Some a \<Longrightarrow> a + input_bytes m \<le> i + sum_list (map input_bytes ms)"
    and "output_offset m = Some b \<Longrightarrow> b + output_bytes m \<le> j + sum_list (map output_bytes ms)"
  using assms by (induction ms arbitrary: i j) (fastforce split: if_splits)+

lemma assign_from_offset_iff:
  assumes "m \<in> set (assign_from i j ms)"
  shows "(input_offset m = None) = (input_bytes m = 0)" and "(output_offset m = None) = (output_bytes m = 0)"
  using assms by (induction ms arbitrary: i j) (auto split: if_splits)

lemma assign_from_apart:
  "sorted_wrt (\<lambda>m m'. \<forall>a b. input_offset m = Some a \<longrightarrow> input_offset m' = Some b \<longrightarrow> a + input_bytes m \<le> b)
     (assign_from i j ms)"
  "sorted_wrt (\<lambda>m m'. \<forall>a b. output_offset m = Some a \<longrightarrow> output_offset m' = Some b \<longrightarrow> a + output_bytes m \<le> b)
     (assign_from i j ms)"
  by (induction ms arbitrary: i j) (auto dest: assign_from_lower)

lemma assign_placed:
  "placed input_offset input_bytes (sum_list (map input_bytes ms)) (assign_process_image_offsets ms)"
  "placed output_offset output_bytes (sum_list (map output_bytes ms)) (assign_process_image_offsets ms)"
  unfolding placed_def assign_process_image_offsets_def
  using assign_from_offset_iff [of _ 0 0 ms] assign_from_upper [of _ 0 0 ms] assign_from_apart [of 0 0 ms]
  by auto

lemma placed_mono: "placed off len n ms \<Longrightarrow> n \<le> n' \<Longrightarrow> placed off len n' ms"
  by (fastforce simp: placed_def)

subsection \<open>Slots\<close>

lemma split_module_list_slots:
  assumes "split_module_list raw = Inr items"
  shows "distinct (map fst items) \<and> sorted (map fst items)"
proof -
  have "distinct (map fst (split_indexed_config_list raw 1))"
    and items: "items = sort_key fst (split_indexed_config_list raw 1)"
    using assms by (auto simp: split_module_list_def Let_def split: if_splits)
  then have "distinct (map fst items)"
    by (metis distinct_map distinct_sort set_sort inj_on_def)
  then show ?thesis
    by (simp add: items)
qed

lemma new_module_fields [simp]:
  "m_slot (new_module s t r sp i n) = s" "module_type (new_module s t r sp i n) = t"
  "m_raw (new_module s t r sp i n) = r" "m_spec (new_module s t r sp i n) = sp"
  "input_bytes (new_module s t r sp i n) = i" "output_bytes (new_module s t r sp i n) = n"
  by (simp_all add: new_module_def)

lemmas short_module_defs = digital_input_module_def digital_output_module_def mixed_digital_module_def
  analog_input_module_def analog_output_module_def mixed_analog_module_def io_link_module_def

text \<open>Each declaration with a short name takes its slot and text over and reserves the bytes its
  channels need.\<close>

definition reserves :: "CPXApModule \<Rightarrow> bool" where
  "reserves m \<longleftrightarrow>
     bytes_for_bits (digital_inputs m) \<le> input_bytes m \<and> bytes_for_bits (digital_outputs m) \<le> output_bytes m \<and>
     analog_inputs m * analog_bytes m \<le> input_bytes m \<and> analog_outputs m * analog_bytes m \<le> output_bytes m \<and>
     (has_analog_data m \<longrightarrow> analog_bits m \<in> {8, 16, 32})"

lemmas spec_defs = digital_inputs_def digital_outputs_def analog_inputs_def analog_outputs_def analog_bits_def
  analog_bytes_def analog_signed_def has_analog_data_def io_link_ports_def io_link_input_data_bytes_def
  io_link_output_data_bytes_def

lemma bytes_for_no_bits [simp]: "bytes_for_bits 0 = 0"
  by (simp add: bytes_for_bits_def)

lemma short_digital_modules:
  "digital_input_module slot raw parts = Inr m \<Longrightarrow> m_slot m = slot \<and> m_raw m = raw \<and> reserves m"
  "digital_output_module slot raw parts = Inr m \<Longrightarrow> m_slot m = slot \<and> m_raw m = raw \<and> reserves m"
  "mixed_digital_module slot raw parts = Inr m \<Longrightarrow> m_slot m = slot \<and> m_raw m = raw \<and> reserves m"
  by (auto simp: short_module_defs reserves_def spec_defs)

lemma short_analog_modules:
  assumes "analog_byte_width bits = Inr width"
  shows "analog_input_module slot raw parts bits width sg = Inr m \<Longrightarrow>
      m_slot m = slot \<and> m_raw m = raw \<and> reserves m"
    and "analog_output_module slot raw parts bits width sg = Inr m \<Longrightarrow>
      m_slot m = slot \<and> m_raw m = raw \<and> reserves m"
    and "mixed_analog_module slot raw parts bits width sg = Inr m \<Longrightarrow>
      m_slot m = slot \<and> m_raw m = raw \<and> reserves m"
  using assms
  by (auto simp: short_module_defs reserves_def spec_defs analog_byte_width_def split: if_splits)

lemma io_link_modules:
  assumes "io_link_module slot raw parts sizes = Inr m"
  shows "m_slot m = slot \<and> m_raw m = raw \<and> reserves m"
  using assms unfolding io_link_module_def bindE_def
  by (auto simp: reserves_def spec_defs split: if_split_asm option.split_asm prod.split_asm sum.split_asm)

lemma module_from_esi_info_cases:
  assumes "module_from_esi_info slot raw info sg = Inr m"
  shows "m_slot m = slot \<and> m_raw m = raw \<and> input_bytes m = txpdo_bytes info \<and> output_bytes m = rxpdo_bytes info"
  using assms unfolding module_from_esi_info_def Let_def bindE_def
  by (auto split: if_split_asm option.split_asm module_spec.split_asm sum.split_asm)

lemma explicit_module_slot:
  assumes "parse_explicit_cpx_ap_module cat slot raw sg = Inr (Some m)"
  shows "m_slot m = slot \<and> m_raw m = raw"
  using assms unfolding parse_explicit_cpx_ap_module_def
  by (auto dest!: module_from_esi_info_cases split: option.split_asm)

lemma short_module:
  assumes "parse_cpx_ap_module cat slot raw bits sg sizes = Inr m"
    and "parse_explicit_cpx_ap_module cat slot raw sg = Inr None"
  shows "m_slot m = slot \<and> m_raw m = raw \<and> reserves m"
proof (cases "analog_byte_width bits")
  case (Inr width)
  show ?thesis
    using assms Inr unfolding parse_cpx_ap_module_def
    by (auto simp: Let_def split: list.split_asm if_split_asm
        dest: short_digital_modules short_analog_modules [OF Inr] io_link_modules)
qed (use assms in \<open>auto simp: parse_cpx_ap_module_def Let_def split: list.split_asm if_split_asm\<close>)

lemma parse_module_slot:
  assumes "parse_cpx_ap_module cat slot raw bits sg sizes = Inr m"
  shows "m_slot m = slot \<and> m_raw m = raw"
proof -
  obtain x where x: "parse_explicit_cpx_ap_module cat slot raw sg = Inr x"
    using assms by (auto simp: parse_cpx_ap_module_def)
  show ?thesis
  proof (cases x)
    case None
    then show ?thesis using short_module assms x by blast
  next
    case (Some m')
    then show ?thesis
      using explicit_module_slot assms x by (fastforce simp: parse_cpx_ap_module_def)
  qed
qed

lemma parse_modules_slots:
  assumes "parse_cpx_ap_modules cat raw bits sg sizes = Inr l"
  shows "distinct (map m_slot (l_modules l)) \<and> sorted (map m_slot (l_modules l))"
proof -
  obtain items ms where items: "split_module_list raw = Inr items"
    and ms: "mapE (\<lambda>(slot, raw). parse_cpx_ap_module cat slot raw bits sg sizes) items = Inr ms"
    and l: "l_modules l = assign_process_image_offsets ms"
    using assms by (auto simp: parse_cpx_ap_modules_def)
  have "list_all2 (\<lambda>(slot, raw) m. parse_cpx_ap_module cat slot raw bits sg sizes = Inr m) items ms"
    using ms by (auto simp: mapE_Inr_iff elim: list_all2_mono)
  then have "list_all2 (\<lambda>p m. m_slot m = fst p) items ms"
    by (rule list_all2_mono) (auto dest: parse_module_slot)
  then have "map m_slot ms = map fst items"
    by (induction rule: list_all2_induct) simp_all
  then show ?thesis
    using split_module_list_slots [OF items]
    by (simp add: l assign_process_image_offsets_def assign_from_fields)
qed

subsection \<open>Texts of declarations\<close>

definition rstrip :: "string \<Rightarrow> string" where
  "rstrip s = rev (dropWhile is_space (rev s))"

lemma rstrip_Cons: "\<not> is_space c \<Longrightarrow> rstrip (c # s) = c # rstrip s"
  by (simp add: rstrip_def dropWhile_append)

lemma strip_Cons: "\<not> is_space c \<Longrightarrow> strip (c # s) = c # rstrip s"
  using rstrip_Cons [of c s] by (simp add: strip_def rstrip_def)

lemma letters_not_space [simp]:
  "\<not> is_space (CHR ''a'')" "\<not> is_space (CHR ''i'')" "\<not> is_space (CHR ''n'')" "\<not> is_space (CHR ''o'')"
  "\<not> is_space (CHR '':'')" "\<not> is_space (CHR ''C'')" "\<not> is_space (CHR ''u'')"
  by (simp_all add: is_space_def)

text \<open>The prefixes of a count are tried in the order \<open>i\<close>, \<open>in\<close>: the second is never reached, what
  is left after the first is not a number.\<close>

lemma n_is_no_number: "py_int_text base0_value (CHR ''n'' # s) = None"
proof -
  have "digit_value (CHR ''n'') = Some 23" by code_simp
  then have "unsigned_value 10 (CHR ''n'' # t) = None" for t
    by (simp add: unsigned_value_def)
  then have "base0_value (CHR ''n'' # t) = None" for t
    by (simp add: base0_value_def split: list.split)
  then show ?thesis
    by (simp add: py_int_text_def strip_Cons)
qed

lemma in_prefix_rejected: "parse_io_count (''in'' @ t) [''i'', ''in''] = Inl ValueError"
proof -
  have "lower (strip (''in'' @ t)) = CHR ''i'' # CHR ''n'' # lower (rstrip t)"
    by (simp add: strip_Cons rstrip_Cons lower_def lower_char_def Let_def)
  then show ?thesis
    by (simp add: parse_io_count_def parse_non_negative_int_def n_is_no_number Let_def)
qed

lemma short_analog_output_not_explicit: "explicit_module_info cat (''ao:'' @ t) = Inr None"
  by (simp add: explicit_module_info_def strip_Cons lower_def lower_char_def normalized_module_name_def Let_def)

lemma short_analog_output_module:
  assumes "parse_cpx_ap_module cat slot (''ao:'' @ t) bits sg sizes = Inr m"
  shows "module_type m = ''ao'' \<and> (\<exists>n. m_spec m = AnalogModuleSpec 0 n bits sg)"
proof -
  have parts: "\<exists>rest. declaration_parts (''ao:'' @ t) = ''ao'' # rest"
    by (simp add: declaration_parts_def strip_Cons rstrip_Cons rstrip_def lower_def lower_char_def Let_def)
  define raw where "raw = ''ao:'' @ t"
  show ?thesis
    using assms parts short_analog_output_not_explicit [of cat t] unfolding raw_def [symmetric]
    by (auto simp: parse_cpx_ap_module_def parse_explicit_cpx_ap_module_def analog_output_module_def Let_def)
qed

end
