(* ===== verification/Cpx_Config.thy ===== *)
theory Cpx_Config
  imports Cpx_Layout Io_Link
begin

section \<open>Configuration of a CPX-AP-I-EC station\<close>

text \<open>
  Models \<^verbatim>\<open>device/cpx_ap_i_ec/module_resolver.py\<close> (which catalogue entry a declared module is),
  \<^verbatim>\<open>device/cpx_ap_i_ec/io_config.py\<close> (the configuration built from the module and port
  declarations), \<^verbatim>\<open>device/cpx_ap_i_ec/pdo_configuration.py\<close> (the process data objects of the
  station and the check against the device) and the constructor and identity check of
  \<^verbatim>\<open>device/cpx_ap_i_ec/profile.py\<close>. \<open>cat\<close> is the list of modules of the vendor description,
  \<open>iodd\<close> the lookup of an IO-Link device description by its key. The lemmas show that a built
  configuration has the sizes of the catalogue and disjoint regions, and which of the documented
  short names no station can be built from.
\<close>

subsection \<open>Resolving modules\<close>

definition DEFAULT_MODULE_NAMES :: "((string \<times> nat list) \<times> string) list" where
  "DEFAULT_MODULE_NAMES =
     [((''di'', [8]), ''CPX-AP-I-8DI-M8-3P''), ((''di'', [16]), ''CPX-AP-I-16DI-M8-3P''),
      ((''do'', [8]), ''CPX-AP-I-8DO-M8-3P''), ((''dio'', [4, 4]), ''CPX-AP-I-4DI4DO-M8-3P''),
      ((''dio'', [16, 16]), ''CPX-AP-I-16DIO-M8-3P''), ((''ai'', [4]), ''CPX-AP-I-4AI-U-I-RTD-M12''),
      ((''aio'', [4, 4]), ''CPX-AP-I-4AI4AO-U-I-M12'')]"

definition explicit_module_ident :: "string \<Rightarrow> int option res" where
  "explicit_module_ident raw =
     (let value = lower (strip raw)
      in case find (\<lambda>p. starts_with p value) [''ident:'', ''module_ident:''] of
           Some p \<Rightarrow> bindE (ident_of_text (drop (length p) value)) (\<lambda>i. Inr (Some i))
         | None \<Rightarrow> Inr None)"

definition module_info_from_raw_name :: "EsiModuleInfo list \<Rightarrow> string \<Rightarrow> EsiModuleInfo option" where
  "module_info_from_raw_name cat raw =
     (let value = normalized_module_name raw
      in if \<not> starts_with ''cpx-ap-i-'' value then None
         else case module_info_by_name cat value of Inr info \<Rightarrow> Some info | Inl e \<Rightarrow> None)"

definition io_link_bytes_per_port :: "CPXApModule \<Rightarrow> nat res" where
  "io_link_bytes_per_port m =
     (let i = io_link_input_data_bytes m; n = io_link_output_data_bytes m; ports = io_link_ports m
      in if ports = 0 then Inl ValueError
         else if i mod ports \<noteq> 0 \<or> n mod ports \<noteq> 0 then Inl ValueError
         else if i div ports \<noteq> n div ports then Inl ValueError
         else Inr (i div ports))"

definition io_link_module_info :: "EsiModuleInfo list \<Rightarrow> CPXApModule \<Rightarrow> EsiModuleInfo res" where
  "io_link_module_info cat m =
     (if io_link_ports m \<noteq> 4 then Inl ValueError
      else bindE (io_link_bytes_per_port m) (\<lambda>b.
        case module_info_by_name cat (''CPX-AP-I-4IOL-M12 Variant '' @ nat_str b) of
          Inr info \<Rightarrow> Inr info | Inl e \<Rightarrow> Inl ValueError))"

definition default_module_key :: "CPXApModule \<Rightarrow> string \<times> nat list" where
  "default_module_key m =
     (let t = module_type m
      in if t = ''di'' then (t, [digital_inputs m])
         else if t = ''do'' then (t, [digital_outputs m])
         else if t = ''dio'' then (t, [digital_inputs m, digital_outputs m])
         else if t = ''ai'' then (t, [analog_inputs m])
         else if t = ''ao'' then (t, [analog_outputs m])
         else if t = ''aio'' then (t, [analog_inputs m, analog_outputs m])
         else (t, []))"

definition default_module_info :: "EsiModuleInfo list \<Rightarrow> CPXApModule \<Rightarrow> EsiModuleInfo res" where
  "default_module_info cat m =
     (case map_of DEFAULT_MODULE_NAMES (default_module_key m) of
        None \<Rightarrow> Inl ValueError
      | Some name \<Rightarrow> (case module_info_by_name cat name of Inr info \<Rightarrow> Inr info | Inl e \<Rightarrow> Inl ValueError))"

definition is_io_link :: "CPXApModule \<Rightarrow> bool" where
  "is_io_link m = (case m_spec m of IoLinkModuleSpec _ _ _ \<Rightarrow> True | _ \<Rightarrow> False)"

definition module_info :: "EsiModuleInfo list \<Rightarrow> CPXApModule \<Rightarrow> EsiModuleInfo res" where
  "module_info cat m =
     bindE (explicit_module_ident (m_raw m)) (\<lambda>explicit.
       case explicit of
         Some i \<Rightarrow> module_info_by_ident cat i
       | None \<Rightarrow>
           (case module_info_from_raw_name cat (m_raw m) of
              Some info \<Rightarrow> Inr info
            | None \<Rightarrow> if is_io_link m then io_link_module_info cat m else default_module_info cat m))"

definition module_ident :: "EsiModuleInfo list \<Rightarrow> CPXApModule \<Rightarrow> int res" where
  "module_ident cat m =
     bindE (explicit_module_ident (m_raw m)) (\<lambda>explicit.
       case explicit of
         Some i \<Rightarrow> Inr i
       | None \<Rightarrow>
           (case module_info_from_raw_name cat (m_raw m) of
              Some info \<Rightarrow> Inr (ident info)
            | None \<Rightarrow>
                bindE (if is_io_link m then io_link_module_info cat m else default_module_info cat m)
                  (\<lambda>info. Inr (ident info))))"

definition module_display_name :: "EsiModuleInfo list \<Rightarrow> CPXApModule \<Rightarrow> string res" where
  "module_display_name cat m =
     (case module_info_from_raw_name cat (m_raw m) of
        Some info \<Rightarrow> Inr (type_name info)
      | None \<Rightarrow>
          bindE (explicit_module_ident (m_raw m)) (\<lambda>explicit.
          bindE (case explicit of
                   Some i \<Rightarrow> module_info_by_ident cat i
                 | None \<Rightarrow> if is_io_link m then io_link_module_info cat m else default_module_info cat m)
            (\<lambda>info. Inr (type_name info))))"

definition expected_module_idents :: "EsiModuleInfo list \<Rightarrow> CPXApLayout \<Rightarrow> int list res" where
  "expected_module_idents cat l =
     bindE (interface_module_info cat) (\<lambda>info.
     bindE (mapE (module_ident cat) (l_modules l)) (\<lambda>ids. Inr (ident info # ids)))"

definition module_info_for_ap_module :: "EsiModuleInfo list \<Rightarrow> CPXApLayout \<Rightarrow> int \<Rightarrow> EsiModuleInfo res" where
  "module_info_for_ap_module cat l number =
     (if number = 0 then interface_module_info cat
      else case find (\<lambda>m. m_slot m = number) (l_modules l) of
        Some m \<Rightarrow> module_info cat m
      | None \<Rightarrow> Inl ValueError)"

fun forE :: "('a \<Rightarrow> unit res) \<Rightarrow> 'a list \<Rightarrow> unit res" where
  "forE f [] = Inr ()"
| "forE f (x # xs) = bindE (f x) (\<lambda>_. forE f xs)"

definition validate_layout_against_esi :: "EsiModuleInfo list \<Rightarrow> CPXApLayout \<Rightarrow> unit res" where
  "validate_layout_against_esi cat l =
     forE (\<lambda>m. bindE (module_info cat m) (\<lambda>info.
       if output_bytes m \<noteq> rxpdo_bytes info then Inl ValueError
       else if input_bytes m \<noteq> txpdo_bytes info then Inl ValueError
       else Inr ())) (l_modules l)"

definition module_with_esi_pdo_size :: "EsiModuleInfo list \<Rightarrow> CPXApModule \<Rightarrow> CPXApModule res" where
  "module_with_esi_pdo_size cat m =
     bindE (module_info cat m) (\<lambda>info.
       if output_bytes m = rxpdo_bytes info \<and> input_bytes m = txpdo_bytes info then Inr m
       else Inr (m\<lparr>input_bytes := txpdo_bytes info, output_bytes := rxpdo_bytes info\<rparr>))"

definition layout_with_esi_pdo_sizes :: "EsiModuleInfo list \<Rightarrow> CPXApLayout \<Rightarrow> CPXApLayout res" where
  "layout_with_esi_pdo_sizes cat l =
     bindE (mapE (module_with_esi_pdo_size cat) (l_modules l)) (\<lambda>modules.
     bindE (interface_module_info cat) (\<lambda>info.
       Inr \<lparr>l_modules = assign_process_image_offsets modules, station_input_bytes = txpdo_bytes info,
            station_output_bytes = rxpdo_bytes info\<rparr>))"

subsection \<open>IO-Link ports\<close>

record IoLinkPortConfig =
  pc_selector :: string
  pc_device_name :: string
  pc_profile :: "int option"

definition none_device_keys :: "string list" where
  "none_device_keys = ['''', ''none'', ''null'', ''-'']"

definition from_declaration :: "string \<Rightarrow> IoLinkPortConfig res" where
  "from_declaration declaration =
     (let parts = map strip (split_on (CHR '':'') declaration)
      in if length parts \<notin> {2, 3} \<or> parts ! 0 = [] \<or> length parts = 3 \<and> parts ! 2 = [] then Inl ValueError
         else
           bindE (if length parts = 3
                  then bindE (int_of_text (parts ! 2)) (\<lambda>n. if n < 0 then Inl ValueError else Inr (Some n))
                  else Inr None) (\<lambda>profile.
             if profile \<noteq> None \<and> lower (parts ! 1) \<in> set none_device_keys then Inl ValueError
             else Inr \<lparr>pc_selector = parts ! 0, pc_device_name = parts ! 1, pc_profile = profile\<rparr>))"

definition to_declaration :: "IoLinkPortConfig \<Rightarrow> string" where
  "to_declaration p =
     pc_selector p @ '':'' @ pc_device_name p
     @ (case pc_profile p of None \<Rightarrow> [] | Some n \<Rightarrow> '':'' @ int_str n)"

record IoLinkModuleRef =
  ref_ordinal :: nat
  ref_slot :: int
  ref_ports :: nat

fun io_link_refs :: "EsiModuleInfo list \<Rightarrow> IoLinkModuleRef list \<Rightarrow> (int \<times> string) list \<Rightarrow> IoLinkModuleRef list res" where
  "io_link_refs cat refs [] = Inr refs"
| "io_link_refs cat refs ((slot, raw) # items) =
     bindE (parse_explicit_cpx_ap_module cat slot raw True) (\<lambda>explicit.
       case explicit of
         Some m \<Rightarrow>
           io_link_refs cat
             (if module_type m = ''iol''
              then refs @ [\<lparr>ref_ordinal = length refs, ref_slot = slot, ref_ports = io_link_ports m\<rparr>]
              else refs) items
       | None \<Rightarrow>
           (case declaration_parts raw of
              [] \<Rightarrow> io_link_refs cat refs items
            | t # rest \<Rightarrow>
                if t \<noteq> ''iol'' then io_link_refs cat refs items
                else case rest of
                  [] \<Rightarrow> Inl ValueError
                | n # _ \<Rightarrow>
                    bindE (parse_non_negative_int n) (\<lambda>ports.
                      io_link_refs cat
                        (refs @ [\<lparr>ref_ordinal = length refs, ref_slot = slot, ref_ports = ports\<rparr>]) items)))"

definition io_link_module_refs :: "EsiModuleInfo list \<Rightarrow> string \<Rightarrow> IoLinkModuleRef list res" where
  "io_link_module_refs cat raw_modules =
     io_link_refs cat [] (sort_key fst (split_indexed_config_list raw_modules 1))"

definition parse_io_link_selector :: "string \<Rightarrow> IoLinkModuleRef list \<Rightarrow> (int \<times> string) res" where
  "parse_io_link_selector selector_text refs =
     (let sel = lower (strip selector_text)
      in if CHR ''.'' \<notin> set sel then
           (case refs of [r] \<Rightarrow> Inr (ref_slot r, sel) | _ \<Rightarrow> Inl ValueError)
         else
           let module_text = takeWhile (\<lambda>c. c \<noteq> CHR ''.'') sel;
               port_text = tl (dropWhile (\<lambda>c. c \<noteq> CHR ''.'') sel)
           in if starts_with ''iol'' module_text then
                bindE (parse_non_negative_int (if drop 3 module_text = [] then ''0'' else drop 3 module_text)) (\<lambda>n.
                  if n < length refs then Inr (ref_slot (refs ! n), port_text) else Inl ValueError)
              else bindE (parse_non_negative_int module_text) (\<lambda>n. Inr (int n, port_text)))"

definition parse_io_link_port_item ::
  "string \<Rightarrow> IoLinkModuleRef list \<Rightarrow> ((int \<times> nat) \<times> string \<times> int option) res" where
  "parse_io_link_port_item item refs =
     bindE (from_declaration item) (\<lambda>declaration.
     bindE (parse_io_link_selector (pc_selector declaration) refs) (\<lambda>(md, port_text).
     bindE (parse_non_negative_int port_text) (\<lambda>port.
       if md < 1 then Inl ValueError
       else Inr ((md, port), pc_device_name declaration, pc_profile declaration))))"

record IoLinkDeviceBinding =
  bd_module :: int
  bd_port :: nat
  bd_device :: IoddDeviceInfo
  bd_profile :: IoddProcessDataInfo

definition process_data_size :: "IoLinkDeviceBinding \<Rightarrow> nat \<times> nat" where
  "process_data_size b = (pd_input_bytes (bd_profile b), pd_output_bytes (bd_profile b))"

definition split_env_list :: "string \<Rightarrow> string list" where
  "split_env_list value = filter (\<lambda>s. s \<noteq> []) (map strip (split_on (CHR '','') value))"

definition normalized_none_key :: "string \<Rightarrow> bool" where
  "normalized_none_key value \<longleftrightarrow> lower (strip value) \<in> set none_device_keys"

fun parse_bindings ::
  "(string \<Rightarrow> IoddDeviceInfo res) \<Rightarrow> IoLinkModuleRef list \<Rightarrow> (int \<times> nat) list \<Rightarrow> string list
     \<Rightarrow> IoLinkDeviceBinding list res" where
  "parse_bindings iodd refs seen [] = Inr []"
| "parse_bindings iodd refs seen (item # items) =
     bindE (parse_io_link_port_item item refs) (\<lambda>(selector, device_key, profile_number).
       if selector \<in> set seen then Inl ValueError
       else if normalized_none_key device_key then parse_bindings iodd refs (selector # seen) items
       else
         bindE (iodd (normalized_file_key device_key)) (\<lambda>dev.
         bindE (select_process_data_profile dev profile_number) (\<lambda>p.
         bindE (parse_bindings iodd refs (selector # seen) items) (\<lambda>rest.
           Inr (\<lparr>bd_module = fst selector, bd_port = snd selector, bd_device = dev, bd_profile = p\<rparr> # rest)))))"

definition parse_io_link_device_bindings_from_value ::
  "(string \<Rightarrow> IoddDeviceInfo res) \<Rightarrow> string \<Rightarrow> IoLinkModuleRef list \<Rightarrow> IoLinkDeviceBinding list res" where
  "parse_io_link_device_bindings_from_value iodd raw_ports refs =
     parse_bindings iodd refs [] (split_env_list raw_ports)"

definition IO_LINK_VARIANT_BYTES_PER_PORT :: "nat list" where
  "IO_LINK_VARIANT_BYTES_PER_PORT = [2, 4, 8, 16, 32]"

definition selected_io_link_variant_bytes :: "nat \<Rightarrow> nat res" where
  "selected_io_link_variant_bytes required =
     (case find (\<lambda>c. required \<le> c) IO_LINK_VARIANT_BYTES_PER_PORT of Some c \<Rightarrow> Inr c | None \<Rightarrow> Inl ValueError)"

definition required_bytes_by_module :: "IoLinkDeviceBinding list \<Rightarrow> int \<Rightarrow> nat" where
  "required_bytes_by_module bindings m =
     fold (\<lambda>b n. max n (max (fst (process_data_size b)) (snd (process_data_size b))))
       (filter (\<lambda>b. bd_module b = m) bindings) 0"

definition inferred_io_link_module_sizes :: "IoLinkDeviceBinding list \<Rightarrow> (int \<rightharpoonup> nat \<times> nat) res" where
  "inferred_io_link_module_sizes bindings =
     bindE (mapE (\<lambda>b. selected_io_link_variant_bytes (required_bytes_by_module bindings (bd_module b))) bindings)
       (\<lambda>vs. Inr (map_of (zip (map bd_module bindings) (map (\<lambda>v. (v, v)) vs))))"

subsection \<open>The configuration\<close>

record CPXIoConfig =
  io_id :: string
  c_layout :: CPXApLayout
  io_link_devices :: "IoLinkDeviceBinding list"
  module_pdo_index_stride :: int

definition config_input_bytes :: "CPXIoConfig \<Rightarrow> nat" where
  "config_input_bytes c = layout_input_bytes (c_layout c)"

definition config_output_bytes :: "CPXIoConfig \<Rightarrow> nat" where
  "config_output_bytes c = layout_output_bytes (c_layout c)"

definition normalized_io_id :: "string option \<Rightarrow> string res" where
  "normalized_io_id i =
     (case i of None \<Rightarrow> Inl ValueError | Some s \<Rightarrow> if strip s = [] then Inl ValueError else Inr (strip s))"

definition validate_config :: "EsiModuleInfo list \<Rightarrow> CPXIoConfig \<Rightarrow> unit res" where
  "validate_config cat c =
     (if l_modules (c_layout c) = [] then Inl ValueError else validate_layout_against_esi cat (c_layout c))"

definition validate_io_link_bindings :: "CPXIoConfig \<Rightarrow> unit res" where
  "validate_io_link_bindings c =
     forE (\<lambda>b.
       case map_of (rev (map (\<lambda>m. (m_slot m, m)) (l_modules (c_layout c)))) (bd_module b) of
         None \<Rightarrow> Inl ValueError
       | Some m \<Rightarrow>
           if module_type m \<noteq> ''iol'' then Inl ValueError
           else if bd_port b \<ge> io_link_ports m then Inl ValueError
           else if fst (process_data_size b) * io_link_ports m > io_link_input_data_bytes m
                \<or> snd (process_data_size b) * io_link_ports m > io_link_output_data_bytes m then Inl ValueError
           else Inr ()) (io_link_devices c)"

definition build_cpx_io_config ::
  "EsiModuleInfo list \<Rightarrow> (string \<Rightarrow> IoddDeviceInfo res) \<Rightarrow> string option \<Rightarrow> string \<Rightarrow> string \<Rightarrow> int
     \<Rightarrow> CPXIoConfig res" where
  "build_cpx_io_config cat iodd i raw_modules raw_ports stride =
     bindE (normalized_io_id i) (\<lambda>name.
       if strip raw_modules = [] then Inl ValueError
       else
         bindE (io_link_module_refs cat raw_modules) (\<lambda>refs.
         bindE (if refs = [] then Inr [] else parse_io_link_device_bindings_from_value iodd raw_ports refs) (\<lambda>devices.
         bindE (inferred_io_link_module_sizes devices) (\<lambda>sizes.
         bindE (parse_cpx_ap_modules cat raw_modules 16 True sizes) (\<lambda>lay.
         bindE (layout_with_esi_pdo_sizes cat lay) (\<lambda>lay'.
           let c = \<lparr>io_id = name, c_layout = lay', io_link_devices = sort_key bd_module (sort_key bd_port devices),
                    module_pdo_index_stride = stride\<rparr>
           in bindE (validate_config cat c) (\<lambda>_.
              bindE (validate_io_link_bindings c) (\<lambda>_. Inr c))))))))"

subsection \<open>Process data objects\<close>

definition RXPDO_INDEXES :: "int list" where
  "RXPDO_INDEXES = map int [0x1710..<0x1717]"

definition TXPDO_INDEXES :: "int list" where
  "TXPDO_INDEXES = map int [0x1B10..<0x1B17]"

definition selected_fixed_pdo :: "(int \<rightharpoonup> EsiPdoInfo) \<Rightarrow> int list \<Rightarrow> nat \<Rightarrow> EsiPdoInfo res" where
  "selected_fixed_pdo catalog indexes required_bytes =
     (case find (\<lambda>p. byte_size p \<ge> max 1 required_bytes) (sort_key byte_size (List.map_filter catalog indexes)) of
        Some p \<Rightarrow> Inr p | None \<Rightarrow> Inl ValueError)"

record CPXPdoBlock =
  blk_index :: int
  blk_subindex :: int
  blk_name :: string
  blk_field :: string
  blk_byte_length :: nat

definition pdo_blocks :: "EsiPdoInfo \<Rightarrow> string \<Rightarrow> CPXPdoBlock list" where
  "pdo_blocks pdo direction =
     map (\<lambda>en. \<lparr>blk_index = entry_index en, blk_subindex = entry_subindex en, blk_name = entry_name en,
                blk_field = direction @ ''_block_'' @ int_str (entry_subindex en),
                blk_byte_length = (entry_bit_length en + 7) div 8\<rparr>)
       (filter (\<lambda>en. entry_index en \<noteq> 0) (pdo_entries pdo))"

definition blk_mapping_entry :: "CPXPdoBlock \<Rightarrow> int" where
  "blk_mapping_entry b =
     push_bit 16 (blk_index b) OR push_bit 8 (blk_subindex b) OR int (blk_byte_length b * 8)"

definition module_entries :: "(EsiModuleInfo \<Rightarrow> EsiPdoInfo list) \<Rightarrow> int \<Rightarrow> int \<times> EsiModuleInfo \<Rightarrow> int list" where
  "module_entries direction stride = (\<lambda>(slot, info).
     concat (map (\<lambda>pdo. map (\<lambda>en. esi_mapping_entry
       (if depend_on_slot en \<and> entry_index en \<noteq> 0 then en\<lparr>entry_index := entry_index en + slot * stride\<rparr> else en))
       (pdo_entries pdo)) (direction info)))"

definition module_mapping_entries ::
  "EsiModuleInfo list \<Rightarrow> CPXApLayout \<Rightarrow> (EsiModuleInfo \<Rightarrow> EsiPdoInfo list) \<Rightarrow> int \<Rightarrow> int list res" where
  "module_mapping_entries cat l direction stride =
     bindE (interface_module_info cat) (\<lambda>itf.
     bindE (mapE (\<lambda>m. bindE (module_info cat m) (\<lambda>info. Inr (m_slot m, info))) (l_modules l)) (\<lambda>infos.
       Inr (concat (map (module_entries direction stride) ((0, itf) # infos)))))"

definition process_image_size :: "int list \<Rightarrow> int" where
  "process_image_size entries = (sum_list (map (\<lambda>en. en AND 0xFF) entries) + 7) div 8"

abbreviation "PdoCatalogMismatchException \<equiv> Exn CPdoCatalogMismatch []"
abbreviation "DeviceLayoutInvalidException \<equiv> Exn CDeviceLayoutInvalid []"
abbreviation "DeviceIdentityMismatchException \<equiv> Exn CDeviceIdentityMismatch []"

definition validate_process_image_mapping :: "int list \<Rightarrow> int list \<Rightarrow> int list \<Rightarrow> int list \<Rightarrow> int res" where
  "validate_process_image_mapping mod_entries fixed_entries device_entries optional_tail =
     (if device_entries = mod_entries \<or> device_entries = fixed_entries then Inr (process_image_size device_entries)
      else if optional_tail \<noteq> [] \<and> device_entries = mod_entries @ optional_tail
        then Inr (process_image_size device_entries)
      else Inl PdoCatalogMismatchException)"

text \<open>The station's own description: fixed process data objects by index and objects by index and
  subindex.\<close>

record EsiCatalog =
  cat_modules :: "EsiModuleInfo list"
  cat_vendor_id :: int
  cat_product_code :: int
  cat_objects :: "(int \<times> int) list"
  cat_rxpdos :: "int \<rightharpoonup> EsiPdoInfo"
  cat_txpdos :: "int \<rightharpoonup> EsiPdoInfo"

definition rxpdo_info :: "EsiCatalog \<Rightarrow> CPXIoConfig \<Rightarrow> EsiPdoInfo res" where
  "rxpdo_info esi c = selected_fixed_pdo (cat_rxpdos esi) RXPDO_INDEXES (config_output_bytes c)"

definition txpdo_info :: "EsiCatalog \<Rightarrow> CPXIoConfig \<Rightarrow> EsiPdoInfo res" where
  "txpdo_info esi c = selected_fixed_pdo (cat_txpdos esi) TXPDO_INDEXES (config_input_bytes c)"

definition validate_actual_process_image ::
  "EsiCatalog \<Rightarrow> CPXIoConfig \<Rightarrow> int list \<Rightarrow> int list \<Rightarrow> (int \<times> int) res" where
  "validate_actual_process_image esi c output_entries input_entries =
     bindE (module_mapping_entries (cat_modules esi) (c_layout c) rxpdos (module_pdo_index_stride c)) (\<lambda>mo.
     bindE (rxpdo_info esi c) (\<lambda>fo.
     bindE (validate_process_image_mapping mo (esi_mapping_entries fo) output_entries [0x71010008]) (\<lambda>ob.
     bindE (module_mapping_entries (cat_modules esi) (c_layout c) txpdos (module_pdo_index_stride c)) (\<lambda>mi.
     bindE (txpdo_info esi c) (\<lambda>fi.
     bindE (validate_process_image_mapping mi (esi_mapping_entries fi) input_entries []) (\<lambda>ib.
       Inr (ob, ib)))))))"

definition REQUIRED_STATION_OD :: "(int \<times> int) list" where
  "REQUIRED_STATION_OD =
     [(0x1001, 0), (0x1018, 1), (0x1018, 2), (0x1018, 3), (0x1018, 4), (0x1C12, 0), (0x1C13, 0),
      (0x27F0, 1), (0x27F0, 2), (0x27F0, 3), (0x27F0, 4), (0x27F0, 5), (0x27F0, 6), (0x27F0, 7),
      (0xF030, 0), (0xF050, 0)]"

definition validate_required_station_od :: "EsiCatalog \<Rightarrow> unit res" where
  "validate_required_station_od esi =
     forE (\<lambda>k. if k \<in> set (cat_objects esi) then Inr () else Inl RuntimeError) REQUIRED_STATION_OD"

definition module_object_found :: "EsiModuleInfo \<Rightarrow> int \<Rightarrow> int \<Rightarrow> bool" where
  "module_object_found info index subindex \<longleftrightarrow>
     list_ex (\<lambda>obj. object_index obj = index \<and>
       (subindex = 0 \<or> list_ex (\<lambda>s. sub_subindex s = subindex) (object_subitems obj))) (esi_objects info)"

definition validate_io_link_required_od :: "EsiModuleInfo list \<Rightarrow> CPXApLayout \<Rightarrow> unit res" where
  "validate_io_link_required_od cat l =
     forE (\<lambda>m. if module_type m \<noteq> ''iol'' then Inr ()
               else bindE (module_info cat m) (\<lambda>info.
                 if module_object_found info 0x2001 1 then Inr () else Inl RuntimeError)) (l_modules l)"

definition cpx_validate_catalog_support :: "EsiCatalog \<Rightarrow> CPXIoConfig \<Rightarrow> unit res" where
  "cpx_validate_catalog_support esi c =
     bindE (validate_required_station_od esi) (\<lambda>_.
     bindE (validate_layout_against_esi (cat_modules esi) (c_layout c)) (\<lambda>_.
       validate_io_link_required_od (cat_modules esi) (c_layout c)))"

subsection \<open>The device profile\<close>

definition except :: "exn_class list \<Rightarrow> exn \<Rightarrow> 'a res \<Rightarrow> 'a res" where
  "except classes e' r =
     (case r of Inr x \<Rightarrow> Inr x | Inl e \<Rightarrow> if list_ex (isinstance e) classes then Inl e' else Inl e)"

fun join_texts :: "char \<Rightarrow> string list \<Rightarrow> string" where
  "join_texts c [] = []"
| "join_texts c [s] = s"
| "join_texts c (s # ss) = s @ [c] @ join_texts c ss"

definition new_cpx_profile ::
  "EsiCatalog \<Rightarrow> (string \<Rightarrow> IoddDeviceInfo res) \<Rightarrow> string option \<Rightarrow> (int \<times> string) list \<Rightarrow> IoLinkPortConfig list
     \<Rightarrow> int \<Rightarrow> CPXIoConfig res" where
  "new_cpx_profile esi iodd logical_id modules ports stride =
     bindE (except [CTypeError, CValueError] DeviceLayoutInvalidException
       (build_cpx_io_config (cat_modules esi) iodd logical_id
          (join_texts (CHR '','') (map (\<lambda>(slot, t). int_str slot @ '':'' @ t) modules))
          (join_texts (CHR '','') (map to_declaration ports)) stride)) (\<lambda>c.
     bindE (except [CKeyError, CRuntimeError, CTypeError, CValueError] PdoCatalogMismatchException
       (cpx_validate_catalog_support esi c)) (\<lambda>_. Inr c))"

definition cpx_validate_identity :: "EsiCatalog \<Rightarrow> int option \<Rightarrow> int option \<Rightarrow> unit res" where
  "cpx_validate_identity esi vendor_id product_code =
     (case (vendor_id, product_code) of
        (Some v, Some p) \<Rightarrow>
          if v \<noteq> cat_vendor_id esi \<or> p \<noteq> cat_product_code esi then Inl DeviceIdentityMismatchException else Inr ()
      | _ \<Rightarrow> Inl DeviceIdentityMismatchException)"

subsection \<open>What a built configuration satisfies\<close>

lemma forE_Inr: "forE f xs = Inr () \<longleftrightarrow> (\<forall>x \<in> set xs. f x = Inr ())"
  by (induction xs) auto

lemma build_config_cases:
  assumes "build_cpx_io_config cat iodd i raw_modules raw_ports stride = Inr c"
  obtains sizes lay where "parse_cpx_ap_modules cat raw_modules 16 True sizes = Inr lay"
    and "layout_with_esi_pdo_sizes cat lay = Inr (c_layout c)"
    and "validate_config cat c = Inr ()" and "validate_io_link_bindings c = Inr ()"
  using assms unfolding build_cpx_io_config_def Let_def
  by (auto split: if_split_asm)

lemma esi_size_fields:
  assumes "module_with_esi_pdo_size cat m = Inr m'"
  shows "m_slot m' = m_slot m \<and> m_raw m' = m_raw m \<and> m_spec m' = m_spec m \<and> module_type m' = module_type m"
  using assms by (auto simp: module_with_esi_pdo_size_def split: if_splits)

lemma esi_layout_modules:
  assumes "layout_with_esi_pdo_sizes cat lay = Inr lay'"
  obtains ms where "list_all2 (\<lambda>m m'. module_with_esi_pdo_size cat m = Inr m') (l_modules lay) ms"
    and "l_modules lay' = assign_process_image_offsets ms"
  using assms by (auto simp: layout_with_esi_pdo_sizes_def mapE_Inr_iff)

lemma esi_layout_slots:
  assumes "layout_with_esi_pdo_sizes cat lay = Inr lay'"
  shows "map m_slot (l_modules lay') = map m_slot (l_modules lay)"
proof -
  obtain ms where ms: "list_all2 (\<lambda>m m'. module_with_esi_pdo_size cat m = Inr m') (l_modules lay) ms"
    and l: "l_modules lay' = assign_process_image_offsets ms"
    using assms by (rule esi_layout_modules)
  from ms have "map m_slot ms = map m_slot (l_modules lay)"
    by (induction rule: list_all2_induct) (simp_all add: esi_size_fields)
  then show ?thesis
    by (simp add: l assign_process_image_offsets_def assign_from_fields)
qed

lemma esi_layout_placed:
  assumes "layout_with_esi_pdo_sizes cat lay = Inr lay'"
  shows "placed input_offset input_bytes (layout_input_bytes lay') (l_modules lay')"
    and "placed output_offset output_bytes (layout_output_bytes lay') (l_modules lay')"
proof -
  obtain ms where l: "l_modules lay' = assign_process_image_offsets ms"
    using assms by (rule esi_layout_modules)
  have "sum_list (map input_bytes ms) \<le> layout_input_bytes lay'"
    and "sum_list (map output_bytes ms) \<le> layout_output_bytes lay'"
    by (simp_all add: l layout_input_bytes_def layout_output_bytes_def assign_process_image_offsets_def
        assign_from_fields)
  then show "placed input_offset input_bytes (layout_input_bytes lay') (l_modules lay')"
    and "placed output_offset output_bytes (layout_output_bytes lay') (l_modules lay')"
    using assign_placed [of ms] by (auto simp: l intro: placed_mono)
qed

text \<open>The module type \<open>iol\<close> and the IO-Link specification go together.\<close>

definition typed :: "CPXApModule \<Rightarrow> bool" where
  "typed m \<longleftrightarrow> (module_type m = ''iol'' \<longleftrightarrow> is_io_link m)"

lemma short_modules_typed:
  "digital_input_module slot raw parts = Inr m \<Longrightarrow> typed m"
  "digital_output_module slot raw parts = Inr m \<Longrightarrow> typed m"
  "mixed_digital_module slot raw parts = Inr m \<Longrightarrow> typed m"
  "analog_input_module slot raw parts bits width sg = Inr m \<Longrightarrow> typed m"
  "analog_output_module slot raw parts bits width sg = Inr m \<Longrightarrow> typed m"
  "mixed_analog_module slot raw parts bits width sg = Inr m \<Longrightarrow> typed m"
  by (auto simp: short_module_defs typed_def is_io_link_def)

lemma io_link_module_typed: "io_link_module slot raw parts sizes = Inr m \<Longrightarrow> typed m"
  unfolding io_link_module_def bindE_def
  by (auto simp: typed_def is_io_link_def split: if_split_asm option.split_asm prod.split_asm sum.split_asm)

lemma esi_module_typed: "module_from_esi_info slot raw info sg = Inr m \<Longrightarrow> typed m"
  unfolding module_from_esi_info_def Let_def bindE_def
  by (auto simp: typed_def is_io_link_def direction_type_def
      split: if_split_asm option.split_asm module_spec.split_asm sum.split_asm)

lemma parse_module_typed:
  assumes "parse_cpx_ap_module cat slot raw bits sg sizes = Inr m"
  shows "typed m"
proof -
  obtain x where x: "parse_explicit_cpx_ap_module cat slot raw sg = Inr x"
    using assms by (auto simp: parse_cpx_ap_module_def)
  show ?thesis
  proof (cases x)
    case None
    then show ?thesis
      using assms x unfolding parse_cpx_ap_module_def
      by (cases "analog_byte_width bits")
        (auto simp: Let_def split: list.split_asm if_split_asm
          dest: short_modules_typed io_link_module_typed)
  next
    case (Some m')
    then have "m' = m" using assms x by (simp add: parse_cpx_ap_module_def)
    then show ?thesis
      using x Some unfolding parse_explicit_cpx_ap_module_def
      by (auto dest!: esi_module_typed split: option.split_asm)
  qed
qed

lemma list_all2_right:
  "list_all2 P xs ys \<Longrightarrow> y \<in> set ys \<Longrightarrow> \<exists>x \<in> set xs. P x y"
  by (induction rule: list_all2_induct) auto

lemma assign_typed:
  assumes "\<forall>m \<in> set ms. typed m"
  shows "\<forall>m \<in> set (assign_process_image_offsets ms). typed m"
proof -
  have "\<forall>m \<in> set (assign_from i j ms). typed m" for i j
    using assms by (induction ms arbitrary: i j) (auto simp: typed_def is_io_link_def)
  then show ?thesis by (simp add: assign_process_image_offsets_def)
qed

lemma built_typed:
  assumes "build_cpx_io_config cat iodd i raw_modules raw_ports stride = Inr c"
  shows "\<forall>m \<in> set (l_modules (c_layout c)). typed m"
proof -
  obtain sizes lay where lay: "parse_cpx_ap_modules cat raw_modules 16 True sizes = Inr lay"
    and esi: "layout_with_esi_pdo_sizes cat lay = Inr (c_layout c)"
    using assms by (rule build_config_cases)
  obtain items ms where ms: "list_all2 (\<lambda>p m. (case p of (slot, raw) \<Rightarrow>
        parse_cpx_ap_module cat slot raw 16 True sizes) = Inr m) items ms"
    and l: "l_modules lay = assign_process_image_offsets ms"
    using lay by (auto simp: parse_cpx_ap_modules_def mapE_Inr_iff)
  have "typed m" if m: "m \<in> set ms" for m
  proof -
    obtain slot raw where "parse_cpx_ap_module cat slot raw 16 True sizes = Inr m"
      using list_all2_right [OF ms m] by auto
    then show ?thesis by (rule parse_module_typed)
  qed
  then have lay_typed: "\<forall>m \<in> set (l_modules lay). typed m"
    unfolding l by (intro assign_typed ballI)
  obtain ms' where ms': "list_all2 (\<lambda>m m'. module_with_esi_pdo_size cat m = Inr m') (l_modules lay) ms'"
    and l': "l_modules (c_layout c) = assign_process_image_offsets ms'"
    using esi by (rule esi_layout_modules)
  have "typed m" if m: "m \<in> set ms'" for m
  proof -
    obtain m0 where "m0 \<in> set (l_modules lay)" "module_with_esi_pdo_size cat m0 = Inr m"
      using list_all2_right [OF ms' m] by auto
    then show ?thesis
      using esi_size_fields [of cat m0 m] lay_typed by (simp add: typed_def is_io_link_def)
  qed
  then show ?thesis
    unfolding l' by (intro assign_typed ballI)
qed

lemma built_layout:
  assumes "build_cpx_io_config cat iodd i raw_modules raw_ports stride = Inr c"
  shows "l_modules (c_layout c) \<noteq> [] \<and>
    distinct (map m_slot (l_modules (c_layout c))) \<and> sorted (map m_slot (l_modules (c_layout c))) \<and>
    placed input_offset input_bytes (config_input_bytes c) (l_modules (c_layout c)) \<and>
    placed output_offset output_bytes (config_output_bytes c) (l_modules (c_layout c)) \<and>
    (\<forall>m \<in> set (l_modules (c_layout c)). \<exists>info. module_info cat m = Inr info \<and>
       input_bytes m = txpdo_bytes info \<and> output_bytes m = rxpdo_bytes info)"
proof -
  obtain sizes lay where lay: "parse_cpx_ap_modules cat raw_modules 16 True sizes = Inr lay"
    and esi: "layout_with_esi_pdo_sizes cat lay = Inr (c_layout c)"
    and valid: "validate_config cat c = Inr ()"
    using assms by (rule build_config_cases)
  have "\<forall>m \<in> set (l_modules (c_layout c)). \<exists>info. module_info cat m = Inr info \<and>
      input_bytes m = txpdo_bytes info \<and> output_bytes m = rxpdo_bytes info"
    using valid by (fastforce simp: validate_config_def validate_layout_against_esi_def forE_Inr split: if_splits)
  then show ?thesis
    using valid parse_modules_slots [OF lay] esi_layout_slots [OF esi] esi_layout_placed [OF esi]
    by (simp add: validate_config_def config_input_bytes_def config_output_bytes_def split: if_splits)
qed

text \<open>C18: a station configuration that is built has at least one module, one module per slot in
  the order of the slots, the sizes of the vendor description for each of them, and its modules
  occupy disjoint parts of the input image and of the output image, all inside the images.\<close>

theorem built_station_layout:
  assumes "build_cpx_io_config cat iodd i raw_modules raw_ports stride = Inr c"
  shows "l_modules (c_layout c) \<noteq> [] \<and>
    distinct (map m_slot (l_modules (c_layout c))) \<and> sorted (map m_slot (l_modules (c_layout c))) \<and>
    placed input_offset input_bytes (config_input_bytes c) (l_modules (c_layout c)) \<and>
    placed output_offset output_bytes (config_output_bytes c) (l_modules (c_layout c)) \<and>
    (\<forall>m \<in> set (l_modules (c_layout c)). \<exists>info. module_info cat m = Inr info \<and>
       input_bytes m = txpdo_bytes info \<and> output_bytes m = rxpdo_bytes info)"
  using built_layout [OF assms] .

definition demo_catalogue :: "EsiModuleInfo list" where
  "demo_catalogue =
     [\<lparr>ident = 0x2000, type_name = ''CPX-AP-I-EC-M12'', display_name = ''M'', rxpdo_bytes = 0,
       txpdo_bytes = 2, esi_objects = [], rxpdos = [], txpdos = []\<rparr>,
      \<lparr>ident = 0x2008, type_name = ''CPX-AP-I-4DI4DO-M8-3P'', display_name = ''M'',
       rxpdo_bytes = 1, txpdo_bytes = 1, esi_objects = [], rxpdos = [], txpdos = []\<rparr>,
      \<lparr>ident = 0x200A, type_name = ''CPX-AP-I-4AI4AO-U-I-M12'', display_name = ''M'',
       rxpdo_bytes = 8, txpdo_bytes = 8, esi_objects = [], rxpdos = [], txpdos = []\<rparr>]"

definition demo_modules :: string where
  "demo_modules = ''1: dio:4:4,2: aio:i4:o4''"

definition demo_station :: CPXIoConfig where
  "demo_station =
     \<lparr>io_id = ''io0'',
      c_layout = \<lparr>l_modules =
        [\<lparr>m_slot = 1, module_type = ''dio'', m_raw = ''dio:4:4'', m_spec = DigitalModuleSpec 4 4,
          input_offset = Some 0, output_offset = Some 0, input_bytes = 1, output_bytes = 1\<rparr>,
         \<lparr>m_slot = 2, module_type = ''aio'', m_raw = ''aio:i4:o4'', m_spec = AnalogModuleSpec 4 4 16 True,
          input_offset = Some 1, output_offset = Some 1, input_bytes = 8, output_bytes = 8\<rparr>],
        station_input_bytes = 2, station_output_bytes = 0\<rparr>,
      io_link_devices = [], module_pdo_index_stride = 1\<rparr>"

lemma demo_station_refs: "io_link_module_refs demo_catalogue demo_modules = Inr []"
  by code_simp

lemma demo_station_parsed:
  "parse_cpx_ap_modules demo_catalogue demo_modules 16 True Map.empty =
     Inr \<lparr>l_modules = l_modules (c_layout demo_station), station_input_bytes = 0, station_output_bytes = 0\<rparr>"
  by code_simp

lemma demo_station_sizes:
  "layout_with_esi_pdo_sizes demo_catalogue
     \<lparr>l_modules = l_modules (c_layout demo_station), station_input_bytes = 0, station_output_bytes = 0\<rparr> =
     Inr (c_layout demo_station)"
  by code_simp

lemma demo_station_valid:
  "validate_config demo_catalogue demo_station = Inr ()" "validate_io_link_bindings demo_station = Inr ()"
  by code_simp+

lemmas demo_station_steps = demo_station_refs demo_station_parsed demo_station_sizes demo_station_valid

lemma demo_station_built:
  "build_cpx_io_config demo_catalogue (\<lambda>_. Inl OSError) (Some ''io0'') demo_modules [] 1 = Inr demo_station"
proof -
  have "normalized_io_id (Some ''io0'') = Inr ''io0''" "strip demo_modules \<noteq> []" by code_simp+
  moreover have "\<lparr>io_id = ''io0'', c_layout = c_layout demo_station, io_link_devices = [],
      module_pdo_index_stride = 1\<rparr> = demo_station"
    by (simp add: demo_station_def)
  ultimately show ?thesis
    using demo_station_steps by (simp add: build_cpx_io_config_def inferred_io_link_module_sizes_def)
qed

theorem built_station_layout_witness:
  "distinct (map m_slot (l_modules (c_layout demo_station))) \<and> config_output_bytes demo_station = 9 \<and>
   placed output_offset output_bytes (config_output_bytes demo_station) (l_modules (c_layout demo_station))"
proof -
  have "config_output_bytes demo_station = 9" by code_simp
  then show ?thesis
    using built_station_layout [OF demo_station_built] by simp
qed

lemma list_all2_left:
  "list_all2 P xs ys \<Longrightarrow> x \<in> set xs \<Longrightarrow> \<exists>y \<in> set ys. P x y"
  by (induction rule: list_all2_induct) auto

lemma short_analog_output_info:
  assumes "m_raw m = ''ao:'' @ t" and "module_type m = ''ao''" and "\<not> is_io_link m"
  shows "module_info cat m = Inl ValueError"
proof -
  have "explicit_module_ident (m_raw m) = Inr None" "module_info_from_raw_name cat (m_raw m) = None"
    by (simp_all add: assms(1) explicit_module_ident_def module_info_from_raw_name_def strip_Cons lower_def
        lower_char_def normalized_module_name_def Let_def)
  moreover have "default_module_info cat m = Inl ValueError"
    by (simp add: default_module_info_def default_module_key_def DEFAULT_MODULE_NAMES_def assms(2))
  ultimately show ?thesis
    using assms(3) by (simp add: module_info_def)
qed

text \<open>C36: no station can be built from a module list that declares an analog output module with
  its documented short name: the table of default modules has no entry for any such module.\<close>

theorem short_analog_output_never_builds:
  assumes "(slot, ''ao:'' @ t) \<in> set (split_indexed_config_list raw_modules 1)"
  shows "build_cpx_io_config cat iodd i raw_modules raw_ports stride \<noteq> Inr c"
proof
  define raw where "raw = ''ao:'' @ t"
  assume "build_cpx_io_config cat iodd i raw_modules raw_ports stride = Inr c"
  then obtain sizes lay where lay: "parse_cpx_ap_modules cat raw_modules 16 True sizes = Inr lay"
    and esi: "layout_with_esi_pdo_sizes cat lay = Inr (c_layout c)"
    by (rule build_config_cases)
  obtain items ms where items: "split_module_list raw_modules = Inr items"
    and ms: "list_all2 (\<lambda>p m. (case p of (slot, raw) \<Rightarrow> parse_cpx_ap_module cat slot raw 16 True sizes) = Inr m)
        items ms"
    and l: "l_modules lay = assign_process_image_offsets ms"
    using lay by (auto simp: parse_cpx_ap_modules_def mapE_Inr_iff)
  have "(slot, raw) \<in> set items"
    using items assms by (auto simp: split_module_list_def Let_def raw_def split: if_splits)
  then obtain m where m: "m \<in> set ms" "parse_cpx_ap_module cat slot raw 16 True sizes = Inr m"
    using list_all2_left [OF ms] by auto
  obtain m' where m': "m' \<in> set (l_modules lay)" and same: "m_raw m' = m_raw m" "m_spec m' = m_spec m"
      "module_type m' = module_type m"
    using assign_from_member [OF m(1), of 0 0] unfolding l assign_process_image_offsets_def by blast
  have "module_info cat m' = Inl ValueError"
    using short_analog_output_module [OF m(2) [unfolded raw_def]] parse_module_slot [OF m(2)] same
    by (intro short_analog_output_info [of _ t]) (auto simp: raw_def is_io_link_def)
  moreover obtain ms' where "list_all2 (\<lambda>m m'. module_with_esi_pdo_size cat m = Inr m') (l_modules lay) ms'"
    using esi by (rule esi_layout_modules)
  ultimately show False
    using list_all2_left [OF _ m'] by (fastforce simp: module_with_esi_pdo_size_def)
qed

theorem short_analog_output_never_builds_witness:
  "split_indexed_config_list ''1: di:16,2: ao:2'' 1 = [(1, ''di:16''), (2, ''ao:2'')] \<and>
   build_cpx_io_config demo_catalogue (\<lambda>_. Inl OSError) (Some ''io1'') ''1: di:16,2: ao:2'' [] 1 \<noteq> Inr demo_station"
proof -
  have items: "split_indexed_config_list ''1: di:16,2: ao:2'' 1 = [(1, ''di:16''), (2, ''ao:2'')]" by code_simp
  show ?thesis
    using short_analog_output_never_builds [of 2 "''2''" "''1: di:16,2: ao:2''"] items by simp
qed

end
