(* ===== verification/Cpx_Image.thy ===== *)
theory Cpx_Image
  imports Cpx_Config
begin

section \<open>The process image of a CPX-AP-I-EC station\<close>

text \<open>
  Models \<^verbatim>\<open>device/cpx_ap_i_ec/pdo_codec.py\<close> (bits, analog values and IO-Link bytes in the image),
  \<^verbatim>\<open>device/cpx_ap_i_ec/pdo.py\<close> (the output and input values the server keeps per slot) and
  \<^verbatim>\<open>device/virtual_cpx_ap_i_ec/module.py\<close> (a simulated module). The image is a list of bytes; the
  values are kept in a map from slots. A value a client passes is a \<^typ>\<open>pyval\<close>, so the type checks
  of the setters are written out. The locale \<open>image_writer\<close> states what writing one module's values
  and reading them back promise each other; the image of a whole station follows once for outputs
  (server to module) and once for inputs (module to server).
\<close>

subsection \<open>Reading and writing the image\<close>

definition write_digital_bits :: "bytes \<Rightarrow> bool list \<Rightarrow> nat \<Rightarrow> nat \<Rightarrow> bytes" where
  "write_digital_bits payload values byte_offset count =
     fold (\<lambda>i p.
       if \<not> (i < length values \<and> values ! i) then p
       else let b = byte_offset + i div 8
            in if b < length p then p[b := p ! b OR push_bit (i mod 8) 1] else p)
       [0..<count] payload"

definition read_digital_bits :: "bytes \<Rightarrow> nat \<Rightarrow> nat \<Rightarrow> bool list" where
  "read_digital_bits payload count byte_offset =
     map (\<lambda>i. let b = byte_offset + i div 8
              in b < length payload \<and> payload ! b AND push_bit (i mod 8) 1 \<noteq> 0) [0..<count]"

text \<open>\<open>int(value).to_bytes(byte_width, "little", signed=...)\<close> and the slice assignment of a part of
  the image with as many bytes.\<close>

definition value_to_bytes :: "int \<Rightarrow> nat \<Rightarrow> bool \<Rightarrow> bytes res" where
  "value_to_bytes v width sg =
     (if sg then (if - (256 ^ width) \<le> 2 * v \<and> 2 * v < 256 ^ width then Inr (int_le width v) else Inl OverflowError)
      else (if 0 \<le> v \<and> v < 256 ^ width then Inr (int_le width v) else Inl OverflowError))"

definition value_from_bytes :: "bytes \<Rightarrow> bool \<Rightarrow> int" where
  "value_from_bytes bs sg = (if sg then le_sint bs else le_uint bs)"

definition put_bytes :: "nat \<Rightarrow> bytes \<Rightarrow> bytes \<Rightarrow> bytes" where
  "put_bytes start bs p = take start p @ bs @ drop (start + length bs) p"

fun analog_loop :: "int list \<Rightarrow> nat \<Rightarrow> nat \<Rightarrow> bool \<Rightarrow> nat list \<Rightarrow> bytes \<Rightarrow> bytes res" where
  "analog_loop values byte_offset width sg [] payload = Inr payload"
| "analog_loop values byte_offset width sg (i # is) payload =
     (let v = (if i < length values then values ! i else 0);
          start = byte_offset + i * width
      in if start + width > length payload then Inr payload
         else bindE (value_to_bytes v width sg) (\<lambda>bs.
           analog_loop values byte_offset width sg is (put_bytes start bs payload)))"

definition write_analog_values :: "bytes \<Rightarrow> int list \<Rightarrow> nat \<Rightarrow> nat \<Rightarrow> nat \<Rightarrow> bool \<Rightarrow> bytes res" where
  "write_analog_values payload values byte_offset count width sg =
     analog_loop values byte_offset width sg [0..<count] payload"

definition read_analog_values :: "bytes \<Rightarrow> nat \<Rightarrow> nat \<Rightarrow> nat \<Rightarrow> bool \<Rightarrow> int list" where
  "read_analog_values payload count byte_offset width sg =
     map (\<lambda>i. let start = byte_offset + i * width
              in if start + width > length payload then 0
                 else value_from_bytes (take width (drop start payload)) sg) [0..<count]"

definition read_bytes :: "bytes \<Rightarrow> nat \<Rightarrow> nat \<Rightarrow> bytes" where
  "read_bytes payload byte_offset byte_count =
     (if byte_offset \<ge> length payload then zeros (int byte_count)
      else let bs = take (min (byte_offset + byte_count) (length payload) - byte_offset) (drop byte_offset payload)
           in bs @ zeros (int byte_count - int (length bs)))"

definition write_bytes :: "bytes \<Rightarrow> bytes \<Rightarrow> nat \<Rightarrow> nat \<Rightarrow> bytes" where
  "write_bytes payload values byte_offset byte_count =
     (let cut = take byte_count values;
          source = cut @ zeros (int byte_count - int (length cut))
      in if byte_offset \<ge> length payload then payload
         else let write_end = min (byte_offset + byte_count) (length payload)
              in take byte_offset payload @ take (write_end - byte_offset) source @ drop write_end payload)"

subsection \<open>Values per module\<close>

record module_values =
  v_digital :: "bool list"
  v_analog :: "int list"
  v_io_link :: bytes

definition create_module_output :: "CPXApModule \<Rightarrow> module_values" where
  "create_module_output m =
     \<lparr>v_digital = replicate (digital_outputs m) False, v_analog = replicate (analog_outputs m) 0,
      v_io_link = zeros (int (if module_type m = ''iol'' then output_bytes m else 0))\<rparr>"

definition create_module_input :: "CPXApModule \<Rightarrow> module_values" where
  "create_module_input m =
     \<lparr>v_digital = replicate (digital_inputs m) False, v_analog = replicate (analog_inputs m) 0,
      v_io_link = zeros (int (if module_type m = ''iol'' then input_bytes m else 0))\<rparr>"

record CPXRxPDO =
  rx_config :: CPXIoConfig
  module_outputs :: "int \<rightharpoonup> module_values"
  rx_payload :: bytes

record CPXTxPDO =
  tx_config :: CPXIoConfig
  module_inputs :: "int \<rightharpoonup> module_values"
  tx_payload :: bytes

definition new_rxpdo :: "CPXIoConfig \<Rightarrow> nat option \<Rightarrow> CPXRxPDO" where
  "new_rxpdo c mapping_bytes =
     \<lparr>rx_config = c,
      module_outputs = map_of (rev (map (\<lambda>m. (m_slot m, create_module_output m))
        (filter (\<lambda>m. output_bytes m \<noteq> 0) (l_modules (c_layout c))))),
      rx_payload = zeros (int (case mapping_bytes of None \<Rightarrow> config_output_bytes c | Some n \<Rightarrow> n))\<rparr>"

definition new_txpdo :: "CPXIoConfig \<Rightarrow> nat option \<Rightarrow> CPXTxPDO" where
  "new_txpdo c mapping_bytes =
     \<lparr>tx_config = c,
      module_inputs = map_of (rev (map (\<lambda>m. (m_slot m, create_module_input m))
        (filter (\<lambda>m. input_bytes m \<noteq> 0) (l_modules (c_layout c))))),
      tx_payload = zeros (int (case mapping_bytes of None \<Rightarrow> config_input_bytes c | Some n \<Rightarrow> n))\<rparr>"

definition rx_resize :: "int \<Rightarrow> CPXRxPDO \<Rightarrow> CPXRxPDO" where
  "rx_resize byte_count rx = rx\<lparr>rx_payload := zeros (max 0 byte_count)\<rparr>"

definition tx_resize :: "int \<Rightarrow> CPXTxPDO \<Rightarrow> CPXTxPDO" where
  "tx_resize byte_count tx = tx\<lparr>tx_payload := zeros (max 0 byte_count)\<rparr>"

definition slot_values :: "(int \<rightharpoonup> module_values) \<Rightarrow> int \<Rightarrow> module_values res" where
  "slot_values vals slot = (case vals slot of Some v \<Rightarrow> Inr v | None \<Rightarrow> Inl KeyError)"

text \<open>\<open>output_channel\<close> and \<open>input_channel\<close> differ in their messages only.\<close>

definition channel_of :: "'a list \<Rightarrow> pyval \<Rightarrow> nat res" where
  "channel_of values channel =
     (case channel of
        PInt i \<Rightarrow> if i < 0 \<or> i \<ge> int (length values) then Inl ValueError else Inr (nat i)
      | _ \<Rightarrow> Inl TypeError)"

definition module_by_slot :: "CPXIoConfig \<Rightarrow> int \<Rightarrow> CPXApModule res" where
  "module_by_slot c slot =
     (case find (\<lambda>m. m_slot m = slot) (l_modules (c_layout c)) of Some m \<Rightarrow> Inr m | None \<Rightarrow> Inl KeyError)"

definition validate_analog_value :: "CPXApModule \<Rightarrow> pyval \<Rightarrow> int res" where
  "validate_analog_value m value =
     (case value of
        PInt v \<Rightarrow>
          let bits = analog_bits m;
              minimum = (if analog_signed m then - (2 ^ (bits - 1)) else 0);
              maximum = (if analog_signed m then 2 ^ (bits - 1) - 1 else 2 ^ bits - 1)
          in if analog_signed m \<and> bits = 0 then Inl ValueError
             else if v < minimum \<or> v > maximum then Inl ValueError else Inr v
      | _ \<Rightarrow> Inl TypeError)"

definition update_slot :: "int \<Rightarrow> module_values \<Rightarrow> CPXRxPDO \<Rightarrow> CPXRxPDO" where
  "update_slot slot v rx = rx\<lparr>module_outputs := (module_outputs rx)(slot \<mapsto> v)\<rparr>"

definition set_module_digital_output :: "pyval \<Rightarrow> pyval \<Rightarrow> pyval \<Rightarrow> (CPXRxPDO, exn, unit) op" where
  "set_module_digital_output slot index value rx =
     (case value of
        PBool b \<Rightarrow>
          (case bindE (int_of_value slot) (\<lambda>s.
                bindE (slot_values (module_outputs rx) s) (\<lambda>v.
                bindE (channel_of (v_digital v) index) (\<lambda>i.
                  Inr (update_slot s (v\<lparr>v_digital := (v_digital v)[i := b]\<rparr>) rx)))) of
             Inr rx' \<Rightarrow> (Inr (), rx') | Inl e \<Rightarrow> (Inl e, rx))
      | _ \<Rightarrow> (Inl TypeError, rx))"

definition set_module_analog_output :: "pyval \<Rightarrow> pyval \<Rightarrow> pyval \<Rightarrow> (CPXRxPDO, exn, unit) op" where
  "set_module_analog_output slot index value rx =
     (case bindE (int_of_value slot) (\<lambda>s.
           bindE (module_by_slot (rx_config rx) s) (\<lambda>m.
           bindE (slot_values (module_outputs rx) s) (\<lambda>v.
           bindE (channel_of (v_analog v) index) (\<lambda>i.
           bindE (validate_analog_value m value) (\<lambda>x.
             Inr (update_slot s (v\<lparr>v_analog := (v_analog v)[i := x]\<rparr>) rx)))))) of
        Inr rx' \<Rightarrow> (Inr (), rx') | Inl e \<Rightarrow> (Inl e, rx))"

definition set_io_link_output :: "pyval \<Rightarrow> bytes \<Rightarrow> (CPXRxPDO, exn, unit) op" where
  "set_io_link_output slot payload rx =
     (case bindE (int_of_value slot) (\<lambda>s.
           bindE (slot_values (module_outputs rx) s) (\<lambda>v.
             if length payload \<noteq> length (v_io_link v) then Inl ValueError
             else Inr (update_slot s (v\<lparr>v_io_link := payload\<rparr>) rx))) of
        Inr rx' \<Rightarrow> (Inr (), rx') | Inl e \<Rightarrow> (Inl e, rx))"

definition get_module_digital_output :: "CPXRxPDO \<Rightarrow> int \<Rightarrow> int \<Rightarrow> bool res" where
  "get_module_digital_output rx slot index =
     bindE (slot_values (module_outputs rx) slot) (\<lambda>v. py_nth (v_digital v) index)"

definition get_module_analog_output :: "CPXRxPDO \<Rightarrow> int \<Rightarrow> int \<Rightarrow> int res" where
  "get_module_analog_output rx slot index =
     bindE (slot_values (module_outputs rx) slot) (\<lambda>v. py_nth (v_analog v) index)"

definition get_io_link_output :: "CPXRxPDO \<Rightarrow> int \<Rightarrow> bytes res" where
  "get_io_link_output rx slot = bindE (slot_values (module_outputs rx) slot) (\<lambda>v. Inr (v_io_link v))"

definition get_module_digital_input :: "CPXTxPDO \<Rightarrow> int \<Rightarrow> int \<Rightarrow> bool res" where
  "get_module_digital_input tx slot index =
     bindE (slot_values (module_inputs tx) slot) (\<lambda>v. py_nth (v_digital v) index)"

definition get_module_analog_input :: "CPXTxPDO \<Rightarrow> int \<Rightarrow> int \<Rightarrow> int res" where
  "get_module_analog_input tx slot index =
     bindE (slot_values (module_inputs tx) slot) (\<lambda>v. py_nth (v_analog v) index)"

definition get_io_link_input :: "CPXTxPDO \<Rightarrow> int \<Rightarrow> bytes res" where
  "get_io_link_input tx slot = bindE (slot_values (module_inputs tx) slot) (\<lambda>v. Inr (v_io_link v))"

subsection \<open>The codec of the server\<close>

definition write_output_values :: "CPXApModule \<Rightarrow> nat \<Rightarrow> module_values option \<Rightarrow> bytes \<Rightarrow> bytes res" where
  "write_output_values m off vals p =
     bindE (if digital_outputs m \<noteq> 0 then
              (case vals of None \<Rightarrow> Inl KeyError
               | Some v \<Rightarrow> Inr (write_digital_bits p (v_digital v) off (digital_outputs m)))
            else Inr p) (\<lambda>p.
     bindE (if analog_outputs m \<noteq> 0 then
              (case vals of None \<Rightarrow> Inl KeyError
               | Some v \<Rightarrow> write_analog_values p (v_analog v) off (analog_outputs m) (analog_bytes m) (analog_signed m))
            else Inr p) (\<lambda>p.
       if module_type m = ''iol''
       then Inr (write_bytes p (case vals of None \<Rightarrow> [] | Some v \<Rightarrow> v_io_link v) off (output_bytes m))
       else Inr p))"

definition encode_output_module :: "(int \<rightharpoonup> module_values) \<Rightarrow> CPXApModule \<Rightarrow> bytes \<Rightarrow> bytes res" where
  "encode_output_module vals m p =
     (case output_offset m of None \<Rightarrow> Inr p | Some off \<Rightarrow> write_output_values m off (vals (m_slot m)) p)"

fun encode_modules :: "('m \<Rightarrow> bytes \<Rightarrow> bytes res) \<Rightarrow> 'm list \<Rightarrow> bytes \<Rightarrow> bytes res" where
  "encode_modules f [] p = Inr p"
| "encode_modules f (m # ms) p = bindE (f m p) (encode_modules f ms)"

definition cpx_encode_rxpdo :: "(CPXRxPDO, exn, bytes) op" where
  "cpx_encode_rxpdo rx =
     (case encode_modules (encode_output_module (module_outputs rx)) (l_modules (c_layout (rx_config rx)))
             (zeros (int (length (rx_payload rx)))) of
        Inr p \<Rightarrow> (Inr p, rx\<lparr>rx_payload := p\<rparr>)
      | Inl e \<Rightarrow> (Inl e, rx))"

text \<open>\<open>decode_input_module\<close> replaces the entries of the slot's values that the module has.\<close>

definition read_input_values :: "CPXApModule \<Rightarrow> nat \<Rightarrow> bytes \<Rightarrow> module_values \<Rightarrow> module_values" where
  "read_input_values m off payload v =
     (let v1 = (if digital_inputs m \<noteq> 0
                then v\<lparr>v_digital := read_digital_bits payload (digital_inputs m) off\<rparr> else v);
          v2 = (if analog_inputs m \<noteq> 0
                then v1\<lparr>v_analog := read_analog_values payload (analog_inputs m) off (analog_bytes m)
                                     (analog_signed m)\<rparr> else v1)
      in if module_type m = ''iol''
         then v2\<lparr>v_io_link := read_bytes payload off (input_bytes m)\<rparr> else v2)"

definition decode_input_module :: "bytes \<Rightarrow> CPXApModule \<Rightarrow> (CPXTxPDO, exn, unit) op" where
  "decode_input_module payload m tx =
     (case input_offset m of
        None \<Rightarrow> (Inr (), tx)
      | Some off \<Rightarrow>
          if digital_inputs m = 0 \<and> analog_inputs m = 0 \<and> module_type m \<noteq> ''iol'' then (Inr (), tx)
          else case module_inputs tx (m_slot m) of
            None \<Rightarrow> (Inl KeyError, tx)
          | Some v \<Rightarrow>
              (Inr (), tx\<lparr>module_inputs := (module_inputs tx)(m_slot m \<mapsto> read_input_values m off payload v)\<rparr>))"

definition cpx_decode_txpdo :: "bytes \<Rightarrow> (CPXTxPDO, exn, unit) op" where
  "cpx_decode_txpdo payload tx =
     forS (l_modules (c_layout (tx_config tx))) (decode_input_module payload) (tx\<lparr>tx_payload := payload\<rparr>)"

subsection \<open>A simulated module\<close>

record VirtualApModule =
  vm_module :: CPXApModule
  vm_inputs :: module_values
  vm_outputs :: module_values

definition new_virtual_module :: "CPXApModule \<Rightarrow> VirtualApModule" where
  "new_virtual_module m =
     \<lparr>vm_module = m, vm_inputs = create_module_input m, vm_outputs = create_module_output m\<rparr>"

definition read_output_values :: "CPXApModule \<Rightarrow> nat \<Rightarrow> bytes \<Rightarrow> module_values \<Rightarrow> module_values" where
  "read_output_values m off payload v =
     (let v1 = (if digital_outputs m \<noteq> 0
                then v\<lparr>v_digital := read_digital_bits payload (digital_outputs m) off\<rparr> else v);
          v2 = (if analog_outputs m \<noteq> 0
                then v1\<lparr>v_analog := read_analog_values payload (analog_outputs m) off (analog_bytes m)
                                     (analog_signed m)\<rparr> else v1)
      in if module_type m = ''iol''
         then v2\<lparr>v_io_link := read_bytes payload off (output_bytes m)\<rparr> else v2)"

definition consume_output_image :: "bytes \<Rightarrow> VirtualApModule \<Rightarrow> VirtualApModule" where
  "consume_output_image payload vm =
     (case output_offset (vm_module vm) of
        None \<Rightarrow> vm
      | Some off \<Rightarrow> vm\<lparr>vm_outputs := read_output_values (vm_module vm) off payload (vm_outputs vm)\<rparr>)"

definition publish_input_image :: "VirtualApModule \<Rightarrow> bytes \<Rightarrow> bytes res" where
  "publish_input_image vm p =
     (let m = vm_module vm; v = vm_inputs vm
      in case input_offset m of
           None \<Rightarrow> Inr p
         | Some off \<Rightarrow>
             let p1 = (if digital_inputs m \<noteq> 0 then write_digital_bits p (v_digital v) off (digital_inputs m) else p)
             in bindE (if analog_inputs m \<noteq> 0
                       then write_analog_values p1 (v_analog v) off (analog_inputs m) (analog_bytes m) (analog_signed m)
                       else Inr p1) (\<lambda>p2.
                  if module_type m = ''iol'' then Inr (write_bytes p2 (v_io_link v) off (input_bytes m)) else Inr p2))"

definition set_digital_input :: "pyval \<Rightarrow> pyval \<Rightarrow> (VirtualApModule, exn, unit) op" where
  "set_digital_input channel value vm =
     (case value of
        PBool b \<Rightarrow>
          (case channel_of (v_digital (vm_inputs vm)) channel of
             Inr i \<Rightarrow> (Inr (), vm\<lparr>vm_inputs := (vm_inputs vm)\<lparr>v_digital := (v_digital (vm_inputs vm))[i := b]\<rparr>\<rparr>)
           | Inl e \<Rightarrow> (Inl e, vm))
      | _ \<Rightarrow> (Inl TypeError, vm))"

definition set_analog_input :: "pyval \<Rightarrow> pyval \<Rightarrow> (VirtualApModule, exn, unit) op" where
  "set_analog_input channel value vm =
     (case bindE (channel_of (v_analog (vm_inputs vm)) channel) (\<lambda>i.
           bindE (validate_analog_value (vm_module vm) value) (\<lambda>x. Inr (i, x))) of
        Inr (i, x) \<Rightarrow> (Inr (), vm\<lparr>vm_inputs := (vm_inputs vm)\<lparr>v_analog := (v_analog (vm_inputs vm))[i := x]\<rparr>\<rparr>)
      | Inl e \<Rightarrow> (Inl e, vm))"

definition set_io_link_input :: "bytes \<Rightarrow> (VirtualApModule, exn, unit) op" where
  "set_io_link_input payload vm =
     (if length payload \<noteq> length (v_io_link (vm_inputs vm)) then (Inl ValueError, vm)
      else (Inr (), vm\<lparr>vm_inputs := (vm_inputs vm)\<lparr>v_io_link := payload\<rparr>\<rparr>))"

definition reset_module_inputs :: "VirtualApModule \<Rightarrow> VirtualApModule" where
  "reset_module_inputs vm =
     vm\<lparr>vm_inputs := \<lparr>v_digital = replicate (length (v_digital (vm_inputs vm))) False,
        v_analog = replicate (length (v_analog (vm_inputs vm))) 0,
        v_io_link = zeros (int (length (v_io_link (vm_inputs vm))))\<rparr>\<rparr>"

subsection \<open>Single values in the image\<close>

text \<open>\<open>same_outside lo n p q\<close>: the images \<open>p\<close> and \<open>q\<close> differ at most in the \<open>n\<close> bytes from \<open>lo\<close> on.\<close>

definition same_outside :: "nat \<Rightarrow> nat \<Rightarrow> bytes \<Rightarrow> bytes \<Rightarrow> bool" where
  "same_outside lo n p q \<longleftrightarrow>
     length q = length p \<and> (\<forall>k < length p. k < lo \<or> lo + n \<le> k \<longrightarrow> q ! k = p ! k)"

lemma same_outside_refl [simp]: "same_outside lo n p p"
  by (simp add: same_outside_def)

lemma bit_byte_iff: "(w :: 8 word) AND 2 ^ k = 0 \<longleftrightarrow> \<not> bit w k"
  by (rule and_exp_eq_0_iff_not_bit)

lemma digital_bits_written:
  "length (write_digital_bits p xs off n) = length p \<and>
   (\<forall>k < length p. \<forall>b. bit (write_digital_bits p xs off n ! k) b \<longleftrightarrow>
      bit (p ! k) b \<or> (\<exists>i < n. i < length xs \<and> xs ! i \<and> off + i div 8 = k \<and> i mod 8 = b))"
proof (induction n)
  case 0
  then show ?case by (simp add: write_digital_bits_def)
next
  case (Suc n)
  let ?q = "write_digital_bits p xs off n"
  have step: "write_digital_bits p xs off (Suc n) =
      (if n < length xs \<and> xs ! n \<and> off + n div 8 < length ?q
       then ?q[off + n div 8 := ?q ! (off + n div 8) OR push_bit (n mod 8) 1] else ?q)"
    by (simp add: write_digital_bits_def Let_def)
  have bit1: "bit (2 ^ (n mod 8) :: 8 word) b \<longleftrightarrow> n mod 8 = b" for b
    by (auto simp: bit_exp_iff)
  show ?case
    using Suc by (auto simp: step nth_list_update bit_or_iff bit1 less_Suc_eq)
qed

lemma digital_bits_outside: "same_outside off (bytes_for_bits n) p (write_digital_bits p xs off n)"
proof -
  have "write_digital_bits p xs off n ! k = p ! k"
    if "k < length p" "k < off \<or> off + bytes_for_bits n \<le> k" for k
  proof (rule bit_eqI)
    fix b
    have "off + i div 8 \<noteq> k" if "i < n" for i
      using that \<open>k < off \<or> off + bytes_for_bits n \<le> k\<close> unfolding bytes_for_bits_def by linarith
    then show "bit (write_digital_bits p xs off n ! k) b = bit (p ! k) b"
      using digital_bits_written [of p xs off n] that(1) by blast
  qed
  then show ?thesis
    using digital_bits_written [of p xs off n] by (simp add: same_outside_def)
qed

lemma digital_bits_read_back:
  assumes "off + bytes_for_bits n \<le> length p" and "length xs = n"
    and "\<forall>k. off \<le> k \<and> k < off + bytes_for_bits n \<longrightarrow> p ! k = 0"
  shows "read_digital_bits (write_digital_bits p xs off n) n off = xs"
proof (rule nth_equalityI)
  show "length (read_digital_bits (write_digital_bits p xs off n) n off) = length xs"
    by (simp add: read_digital_bits_def assms(2))
  fix i assume "i < length (read_digital_bits (write_digital_bits p xs off n) n off)"
  then have i: "i < n" by (simp add: read_digital_bits_def)
  then have k: "off + i div 8 < length p" "off + i div 8 < off + bytes_for_bits n"
    using assms(1) unfolding bytes_for_bits_def by linarith+
  have same: "j = i" if "j div 8 = i div 8" "j mod 8 = i mod 8" for j :: nat
    using that by (metis div_mult_mod_eq)
  have "bit (write_digital_bits p xs off n ! (off + i div 8)) (i mod 8) \<longleftrightarrow>
      bit (p ! (off + i div 8)) (i mod 8) \<or>
      (\<exists>j < n. j < length xs \<and> xs ! j \<and> off + j div 8 = off + i div 8 \<and> j mod 8 = i mod 8)"
    using digital_bits_written [of p xs off n] k(1) by blast
  also have "\<dots> \<longleftrightarrow> xs ! i"
    using same i assms(2,3) k(2) by auto
  finally show "read_digital_bits (write_digital_bits p xs off n) n off ! i = xs ! i"
    using i k(1) digital_bits_written [of p xs off n]
    by (simp add: read_digital_bits_def bit_byte_iff)
qed

lemma put_bytes_nth:
  assumes "start + length bs \<le> length p"
  shows "length (put_bytes start bs p) = length p"
    and "k < length p \<Longrightarrow> put_bytes start bs p ! k =
      (if start \<le> k \<and> k < start + length bs then bs ! (k - start) else p ! k)"
  using assms by (auto simp: put_bytes_def nth_append)

lemma take_drop_put_bytes:
  assumes "start + length bs \<le> length p"
  shows "take (length bs) (drop start (put_bytes start bs p)) = bs"
  using assms by (simp add: put_bytes_def)

lemma take_drop_cong:
  assumes "length q = length p" and "start + w \<le> length p"
    and "\<And>k. start \<le> k \<Longrightarrow> k < start + w \<Longrightarrow> q ! k = p ! k"
  shows "take w (drop start q) = take w (drop start p)"
  using assms by (intro nth_equalityI) auto

definition analog_in_range :: "nat \<Rightarrow> bool \<Rightarrow> int \<Rightarrow> bool" where
  "analog_in_range width sg v \<longleftrightarrow>
     (if sg then - (256 ^ width) \<le> 2 * v \<and> 2 * v < 256 ^ width else 0 \<le> v \<and> v < 256 ^ width)"

lemma value_to_bytes_in_range: "analog_in_range width sg v \<Longrightarrow> value_to_bytes v width sg = Inr (int_le width v)"
  by (simp add: analog_in_range_def value_to_bytes_def split: if_splits)

lemma value_bytes_roundtrip:
  assumes "analog_in_range width sg v"
  shows "value_from_bytes (int_le width v) sg = v"
  using assms le_sint_int_le [of width v] le_uint_int_le [of width v]
  by (auto simp: analog_in_range_def value_from_bytes_def split: if_splits)

lemma analog_values_written:
  assumes "\<forall>v \<in> set xs. analog_in_range width sg v" and "k + d \<le> length xs"
    and "off + (k + d) * width \<le> length p"
  shows "\<exists>q. analog_loop xs off width sg [k..<k + d] p = Inr q \<and>
     same_outside (off + k * width) (d * width) p q \<and>
     (\<forall>i. k \<le> i \<and> i < k + d \<longrightarrow> take width (drop (off + i * width) q) = int_le width (xs ! i))"
  using assms(2,3)
proof (induction d arbitrary: k p)
  case 0
  then show ?case by auto
next
  case (Suc d)
  let ?start = "off + k * width"
  let ?p = "put_bytes ?start (int_le width (xs ! k)) p"
  have fits: "?start + width \<le> length p"
    using Suc.prems(2) by (simp add: algebra_simps)
  have k: "k < length xs" "analog_in_range width sg (xs ! k)"
    using Suc.prems(1) assms(1) by auto
  have len: "length ?p = length p"
    using put_bytes_nth(1) [of ?start "int_le width (xs ! k)" p] fits by simp
  have "[k..<k + Suc d] = k # [Suc k..<Suc k + d]"
    by (simp add: upt_rec)
  then have loop: "analog_loop xs off width sg [k..<k + Suc d] p =
      analog_loop xs off width sg [Suc k..<Suc k + d] ?p"
    using fits k by (simp add: Let_def value_to_bytes_in_range)
  obtain q where q: "analog_loop xs off width sg [Suc k..<Suc k + d] ?p = Inr q"
    and out: "same_outside (off + Suc k * width) (d * width) ?p q"
    and vals: "\<forall>i. Suc k \<le> i \<and> i < Suc k + d \<longrightarrow> take width (drop (off + i * width) q) = int_le width (xs ! i)"
    using Suc.IH [of "Suc k" ?p] Suc.prems by (auto simp: len)
  have first: "take width (drop ?start q) = int_le width (xs ! k)"
  proof -
    have "take width (drop ?start q) = take width (drop ?start ?p)"
      using out fits by (intro take_drop_cong) (auto simp: same_outside_def len)
    then show ?thesis
      using take_drop_put_bytes [of ?start "int_le width (xs ! k)" p] fits by simp
  qed
  have "same_outside ?start (Suc d * width) p q"
    using out put_bytes_nth [of ?start "int_le width (xs ! k)" p] fits
    by (auto simp: same_outside_def len algebra_simps)
  moreover have "\<forall>i. k \<le> i \<and> i < k + Suc d \<longrightarrow> take width (drop (off + i * width) q) = int_le width (xs ! i)"
    using vals first by (metis Suc_leI add_Suc_shift le_neq_implies_less)
  ultimately show ?case
    using loop q by auto
qed

lemma write_bytes_put:
  assumes "off + n \<le> length p" and "length v = n"
  shows "write_bytes p v off n = put_bytes off v p"
proof (cases "off \<ge> length p")
  case True
  then have "length v = 0" using assms by linarith
  then have "v = []" by simp
  then show ?thesis using True by (simp add: write_bytes_def put_bytes_def Let_def)
next
  case False
  then show ?thesis using assms by (simp add: write_bytes_def put_bytes_def Let_def zeros_def)
qed

lemma read_bytes_take:
  assumes "off + n \<le> length p"
  shows "read_bytes p off n = take n (drop off p)"
  using assms by (simp add: read_bytes_def Let_def zeros_def)

subsection \<open>The values of one module in the image\<close>

text \<open>What the server and a simulated module do with the image has one shape for both directions:
  \<open>d\<close> bits, \<open>a\<close> values of \<open>w\<close> bytes, or \<open>n\<close> bytes of an IO-Link module.\<close>

definition put_values ::
  "nat \<Rightarrow> nat \<Rightarrow> nat \<Rightarrow> bool \<Rightarrow> bool \<Rightarrow> nat \<Rightarrow> nat \<Rightarrow> module_values \<Rightarrow> bytes \<Rightarrow> bytes res" where
  "put_values d a w sg iol n off v p =
     bindE (if a \<noteq> 0 then write_analog_values (if d \<noteq> 0 then write_digital_bits p (v_digital v) off d else p)
                            (v_analog v) off a w sg
            else Inr (if d \<noteq> 0 then write_digital_bits p (v_digital v) off d else p)) (\<lambda>p.
       if iol then Inr (write_bytes p (v_io_link v) off n) else Inr p)"

definition get_values ::
  "nat \<Rightarrow> nat \<Rightarrow> nat \<Rightarrow> bool \<Rightarrow> bool \<Rightarrow> nat \<Rightarrow> nat \<Rightarrow> bytes \<Rightarrow> module_values \<Rightarrow> module_values" where
  "get_values d a w sg iol n off p v =
     \<lparr>v_digital = if d \<noteq> 0 then read_digital_bits p d off else v_digital v,
      v_analog = if a \<noteq> 0 then read_analog_values p a off w sg else v_analog v,
      v_io_link = if iol then read_bytes p off n else v_io_link v\<rparr>"

definition one_kind :: "nat \<Rightarrow> nat \<Rightarrow> nat \<Rightarrow> bool \<Rightarrow> nat \<Rightarrow> bool" where
  "one_kind d a w iol n \<longleftrightarrow>
     bytes_for_bits d \<le> n \<and> a * w \<le> n \<and> (d = 0 \<or> a = 0) \<and> (iol \<longrightarrow> d = 0 \<and> a = 0)"

definition shape_ok :: "nat \<Rightarrow> nat \<Rightarrow> nat \<Rightarrow> bool \<Rightarrow> bool \<Rightarrow> nat \<Rightarrow> module_values \<Rightarrow> bool" where
  "shape_ok d a w sg iol n v \<longleftrightarrow>
     length (v_digital v) = d \<and> length (v_analog v) = a \<and> length (v_io_link v) = (if iol then n else 0) \<and>
     (\<forall>x \<in> set (v_analog v). analog_in_range w sg x)"

lemma same_outside_mono:
  "same_outside lo n p q \<Longrightarrow> n \<le> n' \<Longrightarrow> same_outside lo n' p q"
  by (auto simp: same_outside_def)

lemma put_values_digital:
  assumes "one_kind d a w iol n" and "shape_ok d a w sg iol n v" and "off + n \<le> length p" and "d \<noteq> 0"
  shows "\<exists>q. put_values d a w sg iol n off v p = Inr q \<and> same_outside off n p q \<and>
     ((\<forall>k. off \<le> k \<and> k < off + n \<longrightarrow> p ! k = 0) \<longrightarrow> (\<forall>v'. shape_ok d a w sg iol n v' \<longrightarrow>
        get_values d a w sg iol n off q v' = v))"
proof -
  have kinds: "a = 0" "\<not> iol" "bytes_for_bits d \<le> n" using assms(1,4) by (auto simp: one_kind_def)
  let ?q = "write_digital_bits p (v_digital v) off d"
  have "read_digital_bits ?q d off = v_digital v" if "\<forall>k. off \<le> k \<and> k < off + n \<longrightarrow> p ! k = 0"
    using that kinds assms(2,3) by (intro digital_bits_read_back) (auto simp: shape_ok_def)
  then show ?thesis
    using kinds assms(2,4) same_outside_mono [OF digital_bits_outside kinds(3), of off p "v_digital v"]
    by (auto simp: put_values_def get_values_def shape_ok_def)
qed

lemma put_values_analog:
  assumes "one_kind d a w iol n" and "shape_ok d a w sg iol n v" and "off + n \<le> length p" and "a \<noteq> 0"
  shows "\<exists>q. put_values d a w sg iol n off v p = Inr q \<and> same_outside off n p q \<and>
     (\<forall>v'. shape_ok d a w sg iol n v' \<longrightarrow> get_values d a w sg iol n off q v' = v)"
proof -
  have kinds: "d = 0" "\<not> iol" "a * w \<le> n" using assms(1,4) by (auto simp: one_kind_def)
  have len: "length (v_analog v) = a" and rng: "\<forall>x \<in> set (v_analog v). analog_in_range w sg x"
    using assms(2) by (auto simp: shape_ok_def)
  obtain q where q: "write_analog_values p (v_analog v) off a w sg = Inr q"
    and out: "same_outside off (a * w) p q"
    and vals: "\<forall>i < a. take w (drop (off + i * w) q) = int_le w (v_analog v ! i)"
    using analog_values_written [of "v_analog v" w sg 0 a off p] len rng kinds(3) assms(3)
    by (auto simp: write_analog_values_def)
  have bound: "off + i * w + w \<le> length q" if "i < a" for i
  proof -
    have "Suc i * w \<le> a * w" using that by (intro mult_le_mono1) simp
    then show ?thesis using out kinds(3) assms(3) by (simp add: same_outside_def)
  qed
  have "read_analog_values q a off w sg = v_analog v"
  proof (rule nth_equalityI)
    show "length (read_analog_values q a off w sg) = length (v_analog v)"
      by (simp add: read_analog_values_def len)
    fix i assume "i < length (read_analog_values q a off w sg)"
    then have i: "i < a" by (simp add: read_analog_values_def)
    then have "analog_in_range w sg (v_analog v ! i)" using rng len by simp
    then show "read_analog_values q a off w sg ! i = v_analog v ! i"
      using i vals bound [OF i] by (simp add: read_analog_values_def value_bytes_roundtrip)
  qed
  then show ?thesis
    using kinds q assms(2,4) same_outside_mono [OF out kinds(3)]
    by (auto simp: put_values_def get_values_def shape_ok_def)
qed

lemma put_values_io_link:
  assumes "one_kind d a w iol n" and "shape_ok d a w sg iol n v" and "off + n \<le> length p" and "iol"
  shows "\<exists>q. put_values d a w sg iol n off v p = Inr q \<and> same_outside off n p q \<and>
     (\<forall>v'. shape_ok d a w sg iol n v' \<longrightarrow> get_values d a w sg iol n off q v' = v)"
proof -
  have kinds: "d = 0" "a = 0" using assms(1,4) by (auto simp: one_kind_def)
  have len: "length (v_io_link v) = n" using assms(2,4) by (simp add: shape_ok_def)
  let ?q = "put_bytes off (v_io_link v) p"
  have fits: "off + length (v_io_link v) \<le> length p" using assms(3) len by simp
  have w: "write_bytes p (v_io_link v) off n = ?q" using assms(3) len by (rule write_bytes_put)
  have out: "same_outside off n p ?q"
    using put_bytes_nth [OF fits] len by (auto simp: same_outside_def)
  have r: "read_bytes ?q off n = v_io_link v"
    using take_drop_put_bytes [OF fits] len read_bytes_take [of off n ?q] out assms(3)
    by (simp add: same_outside_def)
  show ?thesis
    using kinds w out r assms(2,4) by (auto simp: put_values_def get_values_def shape_ok_def)
qed

lemma put_get_values:
  assumes "one_kind d a w iol n" and "shape_ok d a w sg iol n v" and "off + n \<le> length p"
  shows "\<exists>q. put_values d a w sg iol n off v p = Inr q \<and> same_outside off n p q \<and>
     ((\<forall>k. off \<le> k \<and> k < off + n \<longrightarrow> p ! k = 0) \<longrightarrow> (\<forall>v'. shape_ok d a w sg iol n v' \<longrightarrow>
        get_values d a w sg iol n off q v' = v))"
proof -
  consider "d \<noteq> 0" | "a \<noteq> 0" | "iol" | "d = 0 \<and> a = 0 \<and> \<not> iol" by auto
  then show ?thesis
  proof cases
    case 1
    then show ?thesis using put_values_digital [OF assms] by blast
  next
    case 2
    then show ?thesis using put_values_analog [OF assms] by blast
  next
    case 3
    then show ?thesis using put_values_io_link [OF assms] by blast
  next
    case 4
    then show ?thesis using assms(2) by (auto simp: put_values_def get_values_def shape_ok_def)
  qed
qed

lemma get_values_cong:
  assumes "one_kind d a w iol n" and "off + n \<le> length p" and "length q = length p"
    and "\<forall>k. off \<le> k \<and> k < off + n \<longrightarrow> q ! k = p ! k"
  shows "get_values d a w sg iol n off q v = get_values d a w sg iol n off p v"
proof -
  have sizes: "bytes_for_bits d \<le> n" "a * w \<le> n" using assms(1) by (auto simp: one_kind_def)
  have "read_digital_bits q d off = read_digital_bits p d off"
  proof -
    have "off + i div 8 < off + n" if "i < d" for i
      using that sizes(1) unfolding bytes_for_bits_def by linarith
    then show ?thesis using assms(3,4) by (auto simp: read_digital_bits_def Let_def)
  qed
  moreover have "read_analog_values q a off w sg = read_analog_values p a off w sg"
  proof -
    have "take w (drop (off + i * w) q) = take w (drop (off + i * w) p)" if "i < a" for i
    proof -
      have "Suc i * w \<le> a * w" using that by (intro mult_le_mono1) simp
      then show ?thesis
        using sizes(2) assms(2-4) by (intro take_drop_cong) auto
    qed
    then show ?thesis using assms(3) by (auto simp: read_analog_values_def Let_def)
  qed
  moreover have "read_bytes q off n = read_bytes p off n"
    using assms(2-4) take_drop_cong [of q p off n] by (simp add: read_bytes_take)
  ultimately show ?thesis by (simp add: get_values_def)
qed

subsection \<open>The image of a station\<close>

text \<open>\<open>put m\<close> writes the values \<open>val m\<close> of one module into its part of the image and \<open>get m\<close> reads
  that part. The laws make the images of all modules independent of each other.\<close>

locale image_writer =
  fixes put :: "'m \<Rightarrow> bytes \<Rightarrow> bytes res"
    and get :: "'m \<Rightarrow> bytes \<Rightarrow> 'v"
    and lo :: "'m \<Rightarrow> nat"
    and len :: "'m \<Rightarrow> nat"
    and val :: "'m \<Rightarrow> 'v"
    and ok :: "'m \<Rightarrow> bool"
  assumes put_get: "ok m \<Longrightarrow> lo m + len m \<le> length p \<Longrightarrow>
      \<exists>q. put m p = Inr q \<and> same_outside (lo m) (len m) p q \<and>
        ((\<forall>k. lo m \<le> k \<and> k < lo m + len m \<longrightarrow> p ! k = 0) \<longrightarrow> get m q = val m)"
    and get_cong: "ok m \<Longrightarrow> lo m + len m \<le> length p \<Longrightarrow> length q = length p \<Longrightarrow>
      \<forall>k. lo m \<le> k \<and> k < lo m + len m \<longrightarrow> q ! k = p ! k \<Longrightarrow> get m q = get m p"
begin

definition apart :: "'m \<Rightarrow> 'm \<Rightarrow> bool" where
  "apart m m' \<longleftrightarrow> len m = 0 \<or> len m' = 0 \<or> lo m + len m \<le> lo m'"

definition blank :: "bytes \<Rightarrow> 'm \<Rightarrow> bool" where
  "blank p m \<longleftrightarrow> (\<forall>k. lo m \<le> k \<and> k < lo m + len m \<longrightarrow> p ! k = 0)"

lemma blank_after_put:
  assumes "same_outside (lo m) (len m) p q" and "apart m m'" and "lo m' + len m' \<le> length p" and "blank p m'"
  shows "blank q m'"
  unfolding blank_def
proof (intro allI impI)
  fix k assume k: "lo m' \<le> k \<and> k < lo m' + len m'"
  then have "k < lo m \<or> lo m + len m \<le> k" and "k < length p"
    using assms(2,3) by (auto simp: apart_def)
  then show "q ! k = 0"
    using assms(1,4) k by (auto simp: same_outside_def blank_def)
qed

lemma encode_all:
  assumes "\<forall>m \<in> set ms. ok m \<and> lo m + len m \<le> length p \<and> blank p m" and "sorted_wrt apart ms"
  shows "\<exists>q. encode_modules put ms p = Inr q \<and> length q = length p \<and> (\<forall>m \<in> set ms. get m q = val m) \<and>
    (\<forall>k < length p. (\<forall>m \<in> set ms. k < lo m \<or> lo m + len m \<le> k) \<longrightarrow> q ! k = p ! k)"
  using assms
proof (induction ms arbitrary: p)
  case Nil
  then show ?case by simp
next
  case (Cons m ms)
  obtain p1 where p1: "put m p = Inr p1" "same_outside (lo m) (len m) p p1" "get m p1 = val m"
    using Cons.prems(1) put_get [of m p] unfolding blank_def by (metis list.set_intros(1))
  have len1: "length p1 = length p" using p1(2) by (simp add: same_outside_def)
  have "\<forall>m' \<in> set ms. ok m' \<and> lo m' + len m' \<le> length p1 \<and> blank p1 m'"
    using Cons.prems blank_after_put [OF p1(2)] by (auto simp: len1)
  then obtain q where q: "encode_modules put ms p1 = Inr q" "length q = length p1"
      "\<forall>m' \<in> set ms. get m' q = val m'"
    and out: "\<forall>k < length p1. (\<forall>m' \<in> set ms. k < lo m' \<or> lo m' + len m' \<le> k) \<longrightarrow> q ! k = p1 ! k"
    using Cons.IH [of p1] Cons.prems(2) by auto
  have "q ! k = p1 ! k" if "lo m \<le> k \<and> k < lo m + len m" for k
  proof -
    have "\<forall>m' \<in> set ms. k < lo m' \<or> lo m' + len m' \<le> k"
      using Cons.prems(2) that by (fastforce simp: apart_def)
    moreover have "k < length p1" using Cons.prems(1) that len1 by auto
    ultimately show ?thesis using out by blast
  qed
  then have "get m q = get m p1"
    using Cons.prems(1) q(2) by (intro get_cong) (auto simp: len1)
  moreover have "\<forall>k < length p. (\<forall>m' \<in> set (m # ms). k < lo m' \<or> lo m' + len m' \<le> k) \<longrightarrow> q ! k = p ! k"
    using out p1(2) by (auto simp: same_outside_def)
  ultimately show ?case
    using p1 q len1 by auto
qed

end

definition module_ok :: "CPXApModule \<Rightarrow> bool" where
  "module_ok m \<longleftrightarrow> reserves m \<and> typed m"

definition outputs_ok :: "CPXApModule \<Rightarrow> module_values \<Rightarrow> bool" where
  "outputs_ok m = shape_ok (digital_outputs m) (analog_outputs m) (analog_bytes m) (analog_signed m)
     (module_type m = ''iol'') (output_bytes m)"

definition inputs_ok :: "CPXApModule \<Rightarrow> module_values \<Rightarrow> bool" where
  "inputs_ok m = shape_ok (digital_inputs m) (analog_inputs m) (analog_bytes m) (analog_signed m)
     (module_type m = ''iol'') (input_bytes m)"

lemma module_one_kind:
  assumes "module_ok m"
  shows "one_kind (digital_outputs m) (analog_outputs m) (analog_bytes m) (module_type m = ''iol'') (output_bytes m)"
    and "one_kind (digital_inputs m) (analog_inputs m) (analog_bytes m) (module_type m = ''iol'') (input_bytes m)"
  using assms
  by (auto simp: module_ok_def reserves_def one_kind_def typed_def is_io_link_def spec_defs split: module_spec.splits)

lemma write_output_values_put:
  "write_output_values m off (Some v) p =
     put_values (digital_outputs m) (analog_outputs m) (analog_bytes m) (analog_signed m) (module_type m = ''iol'')
       (output_bytes m) off v p"
  by (simp add: write_output_values_def put_values_def)

lemma publish_put:
  "input_offset (vm_module vm) = Some off \<Longrightarrow> vm_module vm = m \<Longrightarrow> publish_input_image vm p =
     put_values (digital_inputs m) (analog_inputs m) (analog_bytes m) (analog_signed m) (module_type m = ''iol'')
       (input_bytes m) off (vm_inputs vm) p"
  by (simp add: publish_input_image_def put_values_def Let_def)

lemma read_values_get:
  "read_output_values m off p v =
     get_values (digital_outputs m) (analog_outputs m) (analog_bytes m) (analog_signed m) (module_type m = ''iol'')
       (output_bytes m) off p v"
  "read_input_values m off p v =
     get_values (digital_inputs m) (analog_inputs m) (analog_bytes m) (analog_signed m) (module_type m = ''iol'')
       (input_bytes m) off p v"
  by (simp_all add: read_output_values_def read_input_values_def get_values_def Let_def)

lemma outputs_put_get:
  assumes "module_ok m" and "outputs_ok m v" and "off + output_bytes m \<le> length p"
  shows "\<exists>q. write_output_values m off (Some v) p = Inr q \<and> same_outside off (output_bytes m) p q \<and>
     ((\<forall>k. off \<le> k \<and> k < off + output_bytes m \<longrightarrow> p ! k = 0) \<longrightarrow> (\<forall>v'. outputs_ok m v' \<longrightarrow>
        read_output_values m off q v' = v))"
  using put_get_values [OF module_one_kind(1) [OF assms(1)] assms(2) [unfolded outputs_ok_def] assms(3)]
  by (simp add: write_output_values_put read_values_get outputs_ok_def)

lemma inputs_put_get:
  assumes "module_ok m" and "inputs_ok m (vm_inputs vm)" and "vm_module vm = m" and "input_offset m = Some off"
    and "off + input_bytes m \<le> length p"
  shows "\<exists>q. publish_input_image vm p = Inr q \<and> same_outside off (input_bytes m) p q \<and>
     ((\<forall>k. off \<le> k \<and> k < off + input_bytes m \<longrightarrow> p ! k = 0) \<longrightarrow> (\<forall>v'. inputs_ok m v' \<longrightarrow>
        read_input_values m off q v' = vm_inputs vm))"
  using put_get_values [OF module_one_kind(2) [OF assms(1)] assms(2) [unfolded inputs_ok_def] assms(5)]
    publish_put [of vm off m p] assms(3,4)
  by (simp add: read_values_get inputs_ok_def)

abbreviation place :: "nat option \<Rightarrow> nat" where
  "place off \<equiv> (case off of None \<Rightarrow> 0 | Some a \<Rightarrow> a)"

abbreviation extent :: "nat option \<Rightarrow> nat \<Rightarrow> nat" where
  "extent off n \<equiv> (case off of None \<Rightarrow> 0 | Some a \<Rightarrow> n)"

text \<open>Server to modules: \<open>vals\<close> are the values of the server, \<open>vm\<close> the simulated modules before they
  read the image.\<close>

interpretation outputs: image_writer "encode_output_module vals"
  "\<lambda>m p. vm_outputs (consume_output_image p (vm m))"
  "\<lambda>m. place (output_offset m)" "\<lambda>m. extent (output_offset m) (output_bytes m)"
  "\<lambda>m. case output_offset m of None \<Rightarrow> vm_outputs (vm m) | Some _ \<Rightarrow> the (vals (m_slot m))"
  "\<lambda>m. vm_module (vm m) = m \<and> module_ok m \<and> outputs_ok m (vm_outputs (vm m)) \<and>
     (output_offset m \<noteq> None \<longrightarrow> (\<exists>v. vals (m_slot m) = Some v \<and> outputs_ok m v))"
  for vals vm
proof unfold_locales
  fix m and p :: bytes
  assume ok: "vm_module (vm m) = m \<and> module_ok m \<and> outputs_ok m (vm_outputs (vm m)) \<and>
      (output_offset m \<noteq> None \<longrightarrow> (\<exists>v. vals (m_slot m) = Some v \<and> outputs_ok m v))"
    and fits: "place (output_offset m) + extent (output_offset m) (output_bytes m) \<le> length p"
  show "\<exists>q. encode_output_module vals m p = Inr q \<and>
      same_outside (place (output_offset m)) (extent (output_offset m) (output_bytes m)) p q \<and>
      ((\<forall>k. place (output_offset m) \<le> k \<and> k < place (output_offset m) + extent (output_offset m) (output_bytes m) \<longrightarrow>
          p ! k = 0) \<longrightarrow>
       vm_outputs (consume_output_image q (vm m)) =
         (case output_offset m of None \<Rightarrow> vm_outputs (vm m) | Some _ \<Rightarrow> the (vals (m_slot m))))"
  proof (cases "output_offset m")
    case None
    then show ?thesis using ok by (simp add: encode_output_module_def consume_output_image_def)
  next
    case (Some off)
    then obtain v where v: "vals (m_slot m) = Some v" "outputs_ok m v" using ok by auto
    obtain q where "write_output_values m off (Some v) p = Inr q" "same_outside off (output_bytes m) p q"
        "(\<forall>k. off \<le> k \<and> k < off + output_bytes m \<longrightarrow> p ! k = 0) \<longrightarrow>
          read_output_values m off q (vm_outputs (vm m)) = v"
      using outputs_put_get [OF _ v(2), of off p] Some ok fits by auto
    then show ?thesis
      using Some ok v(1) by (intro exI [of _ q]) (simp add: encode_output_module_def consume_output_image_def)
  qed
next
  fix m and p q :: bytes
  assume "vm_module (vm m) = m \<and> module_ok m \<and> outputs_ok m (vm_outputs (vm m)) \<and>
      (output_offset m \<noteq> None \<longrightarrow> (\<exists>v. vals (m_slot m) = Some v \<and> outputs_ok m v))"
    and "place (output_offset m) + extent (output_offset m) (output_bytes m) \<le> length p" and "length q = length p"
    and "\<forall>k. place (output_offset m) \<le> k \<and> k < place (output_offset m) + extent (output_offset m) (output_bytes m)
        \<longrightarrow> q ! k = p ! k"
  then show "vm_outputs (consume_output_image q (vm m)) = vm_outputs (consume_output_image p (vm m))"
    by (cases "output_offset m")
      (auto simp: consume_output_image_def read_values_get intro!: get_values_cong [OF module_one_kind(1)])
qed

text \<open>Modules to server: \<open>vm\<close> are the simulated modules, \<open>old\<close> the values of the server before.\<close>

definition received_inputs :: "(CPXApModule \<Rightarrow> module_values) \<Rightarrow> CPXApModule \<Rightarrow> bytes \<Rightarrow> module_values" where
  "received_inputs old m p = (case input_offset m of None \<Rightarrow> old m | Some off \<Rightarrow> read_input_values m off p (old m))"

interpretation inputs: image_writer "\<lambda>m. publish_input_image (vm m)" "received_inputs old"
  "\<lambda>m. place (input_offset m)" "\<lambda>m. extent (input_offset m) (input_bytes m)"
  "\<lambda>m. case input_offset m of None \<Rightarrow> old m | Some _ \<Rightarrow> vm_inputs (vm m)"
  "\<lambda>m. vm_module (vm m) = m \<and> module_ok m \<and> inputs_ok m (vm_inputs (vm m)) \<and>
     (input_offset m \<noteq> None \<longrightarrow> inputs_ok m (old m))"
  for vm old
proof unfold_locales
  fix m and p :: bytes
  assume ok: "vm_module (vm m) = m \<and> module_ok m \<and> inputs_ok m (vm_inputs (vm m)) \<and>
      (input_offset m \<noteq> None \<longrightarrow> inputs_ok m (old m))"
    and fits: "place (input_offset m) + extent (input_offset m) (input_bytes m) \<le> length p"
  show "\<exists>q. publish_input_image (vm m) p = Inr q \<and>
      same_outside (place (input_offset m)) (extent (input_offset m) (input_bytes m)) p q \<and>
      ((\<forall>k. place (input_offset m) \<le> k \<and> k < place (input_offset m) + extent (input_offset m) (input_bytes m) \<longrightarrow>
          p ! k = 0) \<longrightarrow>
       received_inputs old m q = (case input_offset m of None \<Rightarrow> old m | Some _ \<Rightarrow> vm_inputs (vm m)))"
  proof (cases "input_offset m")
    case None
    then show ?thesis using ok by (simp add: publish_input_image_def received_inputs_def Let_def)
  next
    case (Some off)
    obtain q where "publish_input_image (vm m) p = Inr q" "same_outside off (input_bytes m) p q"
        "(\<forall>k. off \<le> k \<and> k < off + input_bytes m \<longrightarrow> p ! k = 0) \<longrightarrow> read_input_values m off q (old m) = vm_inputs (vm m)"
      using inputs_put_get [of m "vm m" off p] Some ok fits by auto
    then show ?thesis
      using Some by (intro exI [of _ q]) (simp add: received_inputs_def)
  qed
next
  fix m and p q :: bytes
  assume "vm_module (vm m) = m \<and> module_ok m \<and> inputs_ok m (vm_inputs (vm m)) \<and>
      (input_offset m \<noteq> None \<longrightarrow> inputs_ok m (old m))"
    and "place (input_offset m) + extent (input_offset m) (input_bytes m) \<le> length p" and "length q = length p"
    and "\<forall>k. place (input_offset m) \<le> k \<and> k < place (input_offset m) + extent (input_offset m) (input_bytes m)
        \<longrightarrow> q ! k = p ! k"
  then show "received_inputs old m q = received_inputs old m p"
    by (cases "input_offset m")
      (auto simp: received_inputs_def read_values_get intro!: get_values_cong [OF module_one_kind(2)])
qed

subsection \<open>Setting outputs\<close>

datatype output_change =
    WriteDigital pyval pyval pyval
  | WriteAnalog pyval pyval pyval
  | WriteIoLink pyval bytes

fun perform_write :: "output_change \<Rightarrow> (CPXRxPDO, exn, unit) op" where
  "perform_write (WriteDigital slot index value) = set_module_digital_output slot index value"
| "perform_write (WriteAnalog slot index value) = set_module_analog_output slot index value"
| "perform_write (WriteIoLink slot payload) = set_io_link_output slot payload"

definition perform_writes :: "output_change list \<Rightarrow> CPXRxPDO \<Rightarrow> CPXRxPDO" where
  "perform_writes ws rx = fold (\<lambda>w rx. snd (perform_write w rx)) ws rx"

definition station_ok :: "CPXIoConfig \<Rightarrow> bool" where
  "station_ok c \<longleftrightarrow>
     distinct (map m_slot (l_modules (c_layout c))) \<and>
     placed input_offset input_bytes (config_input_bytes c) (l_modules (c_layout c)) \<and>
     placed output_offset output_bytes (config_output_bytes c) (l_modules (c_layout c)) \<and>
     (\<forall>m \<in> set (l_modules (c_layout c)). module_ok m)"

definition rx_ok :: "CPXRxPDO \<Rightarrow> bool" where
  "rx_ok rx \<longleftrightarrow>
     (\<forall>m \<in> set (l_modules (c_layout (rx_config rx))). \<forall>v.
        module_outputs rx (m_slot m) = Some v \<longrightarrow> outputs_ok m v) \<and>
     (\<forall>m \<in> set (l_modules (c_layout (rx_config rx))). output_bytes m \<noteq> 0 \<longrightarrow> module_outputs rx (m_slot m) \<noteq> None)"

lemma zero_in_range: "analog_in_range w sg 0"
  by (simp add: analog_in_range_def)

lemma created_values_ok: "outputs_ok m (create_module_output m)" "inputs_ok m (create_module_input m)"
  by (simp_all add: outputs_ok_def inputs_ok_def shape_ok_def create_module_output_def create_module_input_def
      zero_in_range zeros_def)

lemma distinct_keys_map_of_rev:
  assumes "distinct (map f xs)" and "x \<in> set xs"
  shows "map_of (rev (map (\<lambda>x. (f x, g x)) (filter P xs))) (f x) = (if P x then Some (g x) else None)"
proof -
  have "distinct (map f (filter P xs))" using assms(1) by (rule distinct_map_filter)
  then have d: "distinct (map fst (rev (map (\<lambda>x. (f x, g x)) (filter P xs))))"
    by (simp add: rev_map [symmetric] comp_def)
  show ?thesis
  proof (cases "P x")
    case True
    then show ?thesis using map_of_is_SomeI [OF d] assms(2) by simp
  next
    case False
    have "y = x" if "y \<in> set xs" "f y = f x" for y
      using assms that by (meson distinct_map inj_onD)
    then show ?thesis using False by (auto simp: map_of_eq_None_iff)
  qed
qed

lemma new_rxpdo_ok:
  assumes "station_ok c"
  shows "rx_ok (new_rxpdo c n)"
  using assms distinct_keys_map_of_rev [of m_slot "l_modules (c_layout c)" _ create_module_output "\<lambda>m. output_bytes m \<noteq> 0"]
  by (auto simp: station_ok_def rx_ok_def new_rxpdo_def created_values_ok split: if_splits)

lemma validated_in_range:
  assumes "validate_analog_value m x = Inr i" and "has_analog_data m" and "reserves m"
  shows "analog_in_range (analog_bytes m) (analog_signed m) i"
proof -
  have bits: "analog_bits m = 8 \<or> analog_bits m = 16 \<or> analog_bits m = 32" "analog_bytes m = analog_bits m div 8"
    using assms(2,3) by (auto simp: reserves_def spec_defs split: module_spec.splits)
  then show ?thesis
    using assms(1) by (auto simp: validate_analog_value_def analog_in_range_def Let_def split: pyval.splits if_splits)
qed

lemma shape_ok_update:
  assumes "shape_ok d a w sg iol n v"
  shows "shape_ok d a w sg iol n (v\<lparr>v_digital := (v_digital v)[i := b]\<rparr>)"
    and "analog_in_range w sg x \<Longrightarrow> shape_ok d a w sg iol n (v\<lparr>v_analog := (v_analog v)[i := x]\<rparr>)"
    and "length p = length (v_io_link v) \<Longrightarrow> shape_ok d a w sg iol n (v\<lparr>v_io_link := p\<rparr>)"
  using assms by (auto simp: shape_ok_def dest!: set_update_subset_insert [THEN subsetD])

lemma rx_ok_update:
  assumes "rx_ok rx" and "\<And>m. m \<in> set (l_modules (c_layout (rx_config rx))) \<Longrightarrow> m_slot m = s \<Longrightarrow> outputs_ok m v"
  shows "rx_ok (update_slot s v rx)"
  using assms by (auto simp: rx_ok_def update_slot_def)

lemma set_digital_ok:
  assumes "rx_ok rx"
  shows "rx_ok (snd (set_module_digital_output slot index b rx)) \<and>
    rx_config (snd (set_module_digital_output slot index b rx)) = rx_config rx \<and>
    rx_payload (snd (set_module_digital_output slot index b rx)) = rx_payload rx"
proof -
  have "rx_ok (update_slot s (v\<lparr>v_digital := (v_digital v)[i := y]\<rparr>) rx)"
    if "module_outputs rx s = Some v" for s v i y
    using assms that shape_ok_update(1) by (intro rx_ok_update) (auto simp: rx_ok_def outputs_ok_def)
  then show ?thesis
    using assms
    by (auto simp: set_module_digital_output_def slot_values_def bindE_def update_slot_def
        split: pyval.split sum.split option.split)
qed

lemma set_io_link_ok:
  assumes "rx_ok rx"
  shows "rx_ok (snd (set_io_link_output slot p rx)) \<and>
    rx_config (snd (set_io_link_output slot p rx)) = rx_config rx \<and>
    rx_payload (snd (set_io_link_output slot p rx)) = rx_payload rx"
proof -
  have "rx_ok (update_slot s (v\<lparr>v_io_link := p\<rparr>) rx)"
    if "module_outputs rx s = Some v" "length p = length (v_io_link v)" for s v
    using assms that shape_ok_update(3) by (intro rx_ok_update) (auto simp: rx_ok_def outputs_ok_def)
  then show ?thesis
    using assms
    by (auto simp: set_io_link_output_def slot_values_def bindE_def update_slot_def
        split: sum.split option.split)
qed

lemma module_by_slot_unique:
  assumes "distinct (map m_slot (l_modules (c_layout c)))" and "module_by_slot c s = Inr m0"
    and "m \<in> set (l_modules (c_layout c))" and "m_slot m = s"
  shows "m = m0"
proof -
  have "m0 \<in> set (l_modules (c_layout c))" "m_slot m0 = s"
    using assms(2) by (auto simp: module_by_slot_def find_Some_iff split: option.splits)
  then show ?thesis
    using assms by (metis distinct_map inj_onD)
qed

lemma set_analog_ok:
  assumes "rx_ok rx" and "station_ok (rx_config rx)"
  shows "rx_ok (snd (set_module_analog_output slot index x rx)) \<and>
    rx_config (snd (set_module_analog_output slot index x rx)) = rx_config rx \<and>
    rx_payload (snd (set_module_analog_output slot index x rx)) = rx_payload rx"
proof -
  have "rx_ok (update_slot s (v\<lparr>v_analog := (v_analog v)[i := y]\<rparr>) rx)"
    if v: "module_outputs rx s = Some v" and m0: "module_by_slot (rx_config rx) s = Inr m0"
      and i: "channel_of (v_analog v) index = Inr i" and y: "validate_analog_value m0 x = Inr y" for s v m0 i y
  proof (rule rx_ok_update [OF assms(1)])
    fix m assume m: "m \<in> set (l_modules (c_layout (rx_config rx)))" "m_slot m = s"
    then have "m = m0"
      using module_by_slot_unique [OF _ m0] assms(2) by (auto simp: station_ok_def)
    have ok: "outputs_ok m v" using assms(1) m v by (auto simp: rx_ok_def)
    then have "has_analog_data m"
      using i by (auto simp: channel_of_def outputs_ok_def shape_ok_def spec_defs
          split: pyval.splits if_splits module_spec.splits)
    then have "analog_in_range (analog_bytes m) (analog_signed m) y"
      using validated_in_range y \<open>m = m0\<close> assms(2) m(1) by (auto simp: station_ok_def module_ok_def)
    then show "outputs_ok m (v\<lparr>v_analog := (v_analog v)[i := y]\<rparr>)"
      using ok shape_ok_update(2) by (simp add: outputs_ok_def)
  qed
  then show ?thesis
    using assms(1)
    by (auto simp: set_module_analog_output_def slot_values_def bindE_def update_slot_def
        split: sum.split option.split)
qed

lemma perform_write_ok:
  assumes "rx_ok rx" and "station_ok (rx_config rx)"
  shows "rx_ok (snd (perform_write w rx)) \<and> rx_config (snd (perform_write w rx)) = rx_config rx \<and>
    rx_payload (snd (perform_write w rx)) = rx_payload rx"
  using set_digital_ok [OF assms(1)] set_analog_ok [OF assms] set_io_link_ok [OF assms(1)]
  by (cases w) simp_all

lemma perform_writes_ok:
  assumes "rx_ok rx" and "station_ok (rx_config rx)"
  shows "rx_ok (perform_writes ws rx) \<and> rx_config (perform_writes ws rx) = rx_config rx \<and>
    rx_payload (perform_writes ws rx) = rx_payload rx"
  using assms
proof (induction ws arbitrary: rx)
  case Nil
  then show ?case by (simp add: perform_writes_def)
next
  case (Cons w ws)
  have "perform_writes (w # ws) rx = perform_writes ws (snd (perform_write w rx))"
    by (simp add: perform_writes_def)
  then show ?case
    using Cons.IH [of "snd (perform_write w rx)"] perform_write_ok [OF Cons.prems, of w] Cons.prems(2) by simp
qed

subsection \<open>One exchange of process data\<close>

text \<open>The part of \<open>VirtualCpxApDevice.model_update\<close> that moves values: every module reads the output
  image, then all publish their inputs into a fresh input image.\<close>

definition virtual_update :: "bytes \<Rightarrow> nat \<Rightarrow> VirtualApModule list \<Rightarrow> (bytes \<times> VirtualApModule list) res" where
  "virtual_update output_image input_size vms =
     (let vms' = map (consume_output_image output_image) vms
      in bindE (encode_modules publish_input_image vms' (zeros (int input_size))) (\<lambda>p. Inr (p, vms')))"

lemma encode_modules_map: "encode_modules f (map g xs) p = encode_modules (\<lambda>x. f (g x)) xs p"
proof (induction xs arbitrary: p)
  case Nil
  then show ?case by simp
next
  case (Cons x xs)
  then show ?case by (cases "f (g x) p") simp_all
qed

lemma consume_keeps [simp]:
  "vm_module (consume_output_image p vm) = vm_module vm" "vm_inputs (consume_output_image p vm) = vm_inputs vm"
  by (simp_all add: consume_output_image_def split: option.split)

lemma publish_consumed: "publish_input_image (consume_output_image p vm) = publish_input_image vm"
  by (simp add: fun_eq_iff publish_input_image_def)

lemma nth_zeros: "k < n \<Longrightarrow> zeros (int n) ! k = 0" "length (zeros (int n)) = n"
  by (simp_all add: zeros_def)

lemma placed_outputs:
  assumes "placed output_offset output_bytes n ms"
  shows "sorted_wrt outputs.apart ms" and "\<forall>m \<in> set ms. place (output_offset m) + extent (output_offset m) (output_bytes m) \<le> n"
  using assms by (auto simp: placed_def outputs.apart_def split: option.splits elim!: sorted_wrt_mono_rel [rotated])

lemma placed_inputs:
  assumes "placed input_offset input_bytes n ms"
  shows "sorted_wrt inputs.apart ms" and "\<forall>m \<in> set ms. place (input_offset m) + extent (input_offset m) (input_bytes m) \<le> n"
  using assms by (auto simp: placed_def inputs.apart_def split: option.splits elim!: sorted_wrt_mono_rel [rotated])

lemma outputs_encoded:
  assumes "station_ok (rx_config rx)" and "rx_ok rx" and "config_output_bytes (rx_config rx) \<le> length (rx_payload rx)"
    and "\<forall>m \<in> set (l_modules (c_layout (rx_config rx))). vm_module (vm m) = m \<and> outputs_ok m (vm_outputs (vm m))"
  shows "\<exists>p. fst (cpx_encode_rxpdo rx) = Inr p \<and> length p = length (rx_payload rx) \<and>
    (\<forall>m \<in> set (l_modules (c_layout (rx_config rx))). output_offset m \<noteq> None \<longrightarrow>
       module_outputs rx (m_slot m) = Some (vm_outputs (consume_output_image p (vm m))))"
proof -
  let ?ms = "l_modules (c_layout (rx_config rx))" and ?n = "length (rx_payload rx)"
  have pl: "placed output_offset output_bytes ?n ?ms"
    using assms(1,3) by (auto simp: station_ok_def intro: placed_mono)
  have some: "\<exists>v. module_outputs rx (m_slot m) = Some v \<and> outputs_ok m v"
    if "m \<in> set ?ms" "output_offset m \<noteq> None" for m
  proof -
    have "output_bytes m \<noteq> 0" using that pl by (auto simp: placed_def)
    then show ?thesis using that assms(2) unfolding rx_ok_def by blast
  qed
  have fit: "place (output_offset m) + extent (output_offset m) (output_bytes m) \<le> ?n" if "m \<in> set ?ms" for m
    using placed_outputs(2) [OF pl] that by blast
  have "\<exists>q. encode_modules (encode_output_module (module_outputs rx)) ?ms (zeros (int ?n)) = Inr q \<and>
      length q = length (zeros (int ?n)) \<and>
      (\<forall>m \<in> set ?ms. vm_outputs (consume_output_image q (vm m)) =
         (case output_offset m of None \<Rightarrow> vm_outputs (vm m) | Some _ \<Rightarrow> the (module_outputs rx (m_slot m)))) \<and>
      (\<forall>k < length (zeros (int ?n)). (\<forall>m \<in> set ?ms. k < place (output_offset m) \<or>
         place (output_offset m) + extent (output_offset m) (output_bytes m) \<le> k) \<longrightarrow> q ! k = zeros (int ?n) ! k)"
  proof (rule outputs.encode_all [OF _ placed_outputs(1) [OF pl]], intro ballI conjI)
    fix m assume m: "m \<in> set ?ms"
    show "vm_module (vm m) = m" "outputs_ok m (vm_outputs (vm m))" using assms(4) m by auto
    show "module_ok m" using assms(1) m by (simp add: station_ok_def)
    show "output_offset m \<noteq> None \<longrightarrow> (\<exists>v. module_outputs rx (m_slot m) = Some v \<and> outputs_ok m v)"
      using some [OF m] by blast
    show "place (output_offset m) + extent (output_offset m) (output_bytes m) \<le> length (zeros (int ?n))"
      using fit [OF m] by (simp add: nth_zeros)
    show "outputs.blank (zeros (int ?n)) m"
      using fit [OF m] unfolding outputs.blank_def by (auto simp: nth_zeros)
  qed
  then obtain q where "encode_modules (encode_output_module (module_outputs rx)) ?ms (zeros (int ?n)) = Inr q"
      "length q = ?n"
      "\<forall>m \<in> set ?ms. vm_outputs (consume_output_image q (vm m)) =
         (case output_offset m of None \<Rightarrow> vm_outputs (vm m) | Some _ \<Rightarrow> the (module_outputs rx (m_slot m)))"
    by (auto simp: nth_zeros)
  then show ?thesis
    using some by (intro exI [of _ q]) (fastforce simp: cpx_encode_rxpdo_def)
qed

lemma decode_module_step:
  assumes "input_offset m = Some off" and "module_inputs tx (m_slot m) = Some v"
  shows "\<exists>tx'. decode_input_module q m tx = (Inr (), tx') \<and>
    module_inputs tx' = (module_inputs tx)(m_slot m \<mapsto> read_input_values m off q v)"
proof (cases "digital_inputs m = 0 \<and> analog_inputs m = 0 \<and> module_type m \<noteq> ''iol''")
  case True
  then have "read_input_values m off q v = v" by (simp add: read_input_values_def)
  then show ?thesis using True assms by (simp add: decode_input_module_def fun_upd_idem)
next
  case False
  then show ?thesis using assms by (auto simp: decode_input_module_def)
qed

lemma inputs_decoded:
  assumes "distinct (map m_slot ms)"
    and "\<forall>m \<in> set ms. input_offset m \<noteq> None \<longrightarrow> module_inputs tx (m_slot m) \<noteq> None"
  shows "\<exists>tx'. forS ms (decode_input_module q) tx = (Inr (), tx') \<and>
    (\<forall>m \<in> set ms. input_offset m \<noteq> None \<longrightarrow> module_inputs tx' (m_slot m) =
       Some (received_inputs (\<lambda>m. the (module_inputs tx (m_slot m))) m q)) \<and>
    (\<forall>s. s \<notin> m_slot ` set ms \<longrightarrow> module_inputs tx' s = module_inputs tx s)"
  using assms
proof (induction ms arbitrary: tx)
  case Nil
  then show ?case by (simp add: retS_def)
next
  case (Cons m ms)
  obtain tx1 where step: "decode_input_module q m tx = (Inr (), tx1)"
    and here: "input_offset m \<noteq> None \<longrightarrow> module_inputs tx1 (m_slot m) =
        Some (received_inputs (\<lambda>m. the (module_inputs tx (m_slot m))) m q)"
    and others: "\<forall>s. s \<noteq> m_slot m \<longrightarrow> module_inputs tx1 s = module_inputs tx s"
  proof (cases "input_offset m")
    case None
    then show ?thesis using that [of tx] by (simp add: decode_input_module_def)
  next
    case (Some off)
    then obtain v where "module_inputs tx (m_slot m) = Some v" using Cons.prems(2) by auto
    then show ?thesis
      using decode_module_step [OF Some, of tx v q] Some that by (auto simp: received_inputs_def)
  qed
  have rest: "m_slot m' \<noteq> m_slot m" if "m' \<in> set ms" for m'
    using Cons.prems(1) that by (metis distinct.simps(2) image_eqI list.set_map list.simps(9))
  then obtain tx' where tx': "forS ms (decode_input_module q) tx1 = (Inr (), tx')"
      "\<forall>m' \<in> set ms. input_offset m' \<noteq> None \<longrightarrow> module_inputs tx' (m_slot m') =
         Some (received_inputs (\<lambda>m. the (module_inputs tx1 (m_slot m))) m' q)"
      "\<forall>s. s \<notin> m_slot ` set ms \<longrightarrow> module_inputs tx' s = module_inputs tx1 s"
    using Cons.IH [of tx1] Cons.prems others by auto
  moreover have "received_inputs (\<lambda>m. the (module_inputs tx1 (m_slot m))) m' q =
      received_inputs (\<lambda>m. the (module_inputs tx (m_slot m))) m' q" if "m' \<in> set ms" for m'
  proof -
    have "module_inputs tx1 (m_slot m') = module_inputs tx (m_slot m')" using rest [OF that] others by blast
    then show ?thesis by (simp add: received_inputs_def split: option.split)
  qed
  moreover have "m_slot m \<notin> m_slot ` set ms" using Cons.prems(1) by simp
  ultimately show ?case
    using step here others by (intro exI [of _ tx']) auto
qed

lemma inputs_published:
  assumes "station_ok c" and "config_input_bytes c \<le> k"
    and "\<forall>m \<in> set (l_modules (c_layout c)). vm_module (vm m) = m \<and> inputs_ok m (vm_inputs (vm m))"
    and "\<forall>m \<in> set (l_modules (c_layout c)). input_offset m \<noteq> None \<longrightarrow> inputs_ok m (old m)"
  shows "\<exists>q. encode_modules (\<lambda>m. publish_input_image (vm m)) (l_modules (c_layout c)) (zeros (int k)) = Inr q \<and>
    length q = k \<and>
    (\<forall>m \<in> set (l_modules (c_layout c)). input_offset m \<noteq> None \<longrightarrow> received_inputs old m q = vm_inputs (vm m))"
proof -
  let ?ms = "l_modules (c_layout c)"
  have pl: "placed input_offset input_bytes k ?ms"
    using assms(1,2) by (auto simp: station_ok_def intro: placed_mono)
  have fit: "place (input_offset m) + extent (input_offset m) (input_bytes m) \<le> k" if "m \<in> set ?ms" for m
    using placed_inputs(2) [OF pl] that by blast
  have "\<exists>q. encode_modules (\<lambda>m. publish_input_image (vm m)) ?ms (zeros (int k)) = Inr q \<and>
      length q = length (zeros (int k)) \<and>
      (\<forall>m \<in> set ?ms. received_inputs old m q = (case input_offset m of None \<Rightarrow> old m | Some _ \<Rightarrow> vm_inputs (vm m))) \<and>
      (\<forall>i < length (zeros (int k)). (\<forall>m \<in> set ?ms. i < place (input_offset m) \<or>
         place (input_offset m) + extent (input_offset m) (input_bytes m) \<le> i) \<longrightarrow> q ! i = zeros (int k) ! i)"
  proof (rule inputs.encode_all [OF _ placed_inputs(1) [OF pl]], intro ballI conjI)
    fix m assume m: "m \<in> set ?ms"
    show "vm_module (vm m) = m" "inputs_ok m (vm_inputs (vm m))" using assms(3) m by auto
    show "module_ok m" using assms(1) m by (simp add: station_ok_def)
    show "input_offset m \<noteq> None \<longrightarrow> inputs_ok m (old m)" using assms(4) m by blast
    show "place (input_offset m) + extent (input_offset m) (input_bytes m) \<le> length (zeros (int k))"
      using fit [OF m] by (simp add: nth_zeros)
    show "inputs.blank (zeros (int k)) m"
      using fit [OF m] unfolding inputs.blank_def by (auto simp: nth_zeros)
  qed
  then show ?thesis by (auto simp: nth_zeros)
qed

lemma built_station_ok:
  assumes "build_cpx_io_config cat iodd i raw_modules raw_ports stride = Inr c"
    and "\<forall>m \<in> set (l_modules (c_layout c)). reserves m"
  shows "station_ok c"
  using built_layout [OF assms(1)] built_typed [OF assms(1)] assms(2)
  by (simp add: station_ok_def module_ok_def)

lemma new_txpdo_inputs:
  assumes "station_ok c" and "m \<in> set (l_modules (c_layout c))" and "input_offset m \<noteq> None"
  shows "module_inputs (new_txpdo c n) (m_slot m) = Some (create_module_input m)"
proof -
  have "input_bytes m \<noteq> 0" using assms by (auto simp: station_ok_def placed_def)
  then show ?thesis
    using assms(1,2)
      distinct_keys_map_of_rev [of m_slot "l_modules (c_layout c)" m create_module_input "\<lambda>m. input_bytes m \<noteq> 0"]
    by (simp add: station_ok_def new_txpdo_def)
qed

text \<open>C11: for a station built from its declarations, whose modules reserve at least the bytes
  their channels need, one exchange of process data is faithful in both directions whatever output
  writes clients made before and however large the images are above the station's own size: the
  server encodes its outputs, every simulated module ends with exactly the outputs the server
  holds for its slot, and the server decodes exactly the inputs of every module.\<close>

theorem station_exchange:
  assumes "build_cpx_io_config cat iodd i raw_modules raw_ports stride = Inr c"
    and "\<forall>m \<in> set (l_modules (c_layout c)). reserves m"
    and "config_output_bytes c \<le> n" and "config_input_bytes c \<le> k"
    and "\<forall>m \<in> set (l_modules (c_layout c)).
      vm_module (vm m) = m \<and> inputs_ok m (vm_inputs (vm m)) \<and> outputs_ok m (vm_outputs (vm m))"
    and "rx = perform_writes ws (new_rxpdo c (Some n))"
  shows "\<exists>p q vms tx. fst (cpx_encode_rxpdo rx) = Inr p \<and> length p = n \<and>
    virtual_update p k (map vm (l_modules (c_layout c))) = Inr (q, vms) \<and> length q = k \<and>
    cpx_decode_txpdo q (new_txpdo c (Some k)) = (Inr (), tx) \<and>
    (\<forall>vm' \<in> set vms. output_offset (vm_module vm') \<noteq> None \<longrightarrow>
       module_outputs rx (m_slot (vm_module vm')) = Some (vm_outputs vm')) \<and>
    (\<forall>m \<in> set (l_modules (c_layout c)). input_offset m \<noteq> None \<longrightarrow>
       module_inputs tx (m_slot m) = Some (vm_inputs (vm m)))"
proof -
  let ?ms = "l_modules (c_layout c)" and ?tx = "new_txpdo c (Some k)"
  have st: "station_ok c" using assms(1,2) by (rule built_station_ok)
  have conf: "rx_config (new_rxpdo c (Some n)) = c" "length (rx_payload (new_rxpdo c (Some n))) = n"
      "tx_config ?tx = c"
    by (simp_all add: new_rxpdo_def new_txpdo_def zeros_def)
  have rx: "rx_ok rx" "rx_config rx = c" "length (rx_payload rx) = n"
    using perform_writes_ok [OF new_rxpdo_ok [OF st], of "Some n" ws] st assms(6) conf by simp_all
  obtain p where p: "fst (cpx_encode_rxpdo rx) = Inr p" "length p = n"
      "\<forall>m \<in> set ?ms. output_offset m \<noteq> None \<longrightarrow>
         module_outputs rx (m_slot m) = Some (vm_outputs (consume_output_image p (vm m)))"
    using outputs_encoded [of rx vm] st rx assms(3,5) by auto
  define old where "old = (\<lambda>m :: CPXApModule. the (module_inputs ?tx (m_slot m)))"
  have old: "\<forall>m \<in> set ?ms. input_offset m \<noteq> None \<longrightarrow> inputs_ok m (old m)"
    using new_txpdo_inputs [OF st] created_values_ok(2) by (simp add: old_def)
  obtain q where q: "encode_modules (\<lambda>m. publish_input_image (vm m)) ?ms (zeros (int k)) = Inr q" "length q = k"
      "\<forall>m \<in> set ?ms. input_offset m \<noteq> None \<longrightarrow> received_inputs old m q = vm_inputs (vm m)"
    using inputs_published [OF st assms(4) _ old, of vm] assms(5) by auto
  have upd: "virtual_update p k (map vm ?ms) = Inr (q, map (consume_output_image p) (map vm ?ms))"
    unfolding virtual_update_def Let_def encode_modules_map publish_consumed q(1) by simp
  have "\<forall>m \<in> set ?ms. input_offset m \<noteq> None \<longrightarrow> module_inputs (?tx\<lparr>tx_payload := q\<rparr>) (m_slot m) \<noteq> None"
    using new_txpdo_inputs [OF st] by simp
  then obtain tx where "forS ?ms (decode_input_module q) (?tx\<lparr>tx_payload := q\<rparr>) = (Inr (), tx)"
      "\<forall>m \<in> set ?ms. input_offset m \<noteq> None \<longrightarrow> module_inputs tx (m_slot m) = Some (received_inputs old m q)"
    using inputs_decoded [of ?ms "?tx\<lparr>tx_payload := q\<rparr>" q] st by (auto simp: station_ok_def old_def)
  then have tx: "cpx_decode_txpdo q ?tx = (Inr (), tx)"
      "\<forall>m \<in> set ?ms. input_offset m \<noteq> None \<longrightarrow> module_inputs tx (m_slot m) = Some (vm_inputs (vm m))"
    using q(3) conf(3) by (simp_all add: cpx_decode_txpdo_def)
  have "\<forall>vm' \<in> set (map (consume_output_image p) (map vm ?ms)). output_offset (vm_module vm') \<noteq> None \<longrightarrow>
      module_outputs rx (m_slot (vm_module vm')) = Some (vm_outputs vm')"
    using p(3) assms(5) by simp
  then show ?thesis
    using p(1,2) upd q(2) tx by blast
qed

theorem station_exchange_witness:
  "\<exists>p q vms tx. fst (cpx_encode_rxpdo (perform_writes [WriteDigital (PInt 1) (PInt 2) (PBool True),
       WriteAnalog (PInt 2) (PInt 3) (PInt (- 12345))] (new_rxpdo demo_station (Some 12)))) = Inr p \<and> length p = 12 \<and>
     virtual_update p 16 (map new_virtual_module (l_modules (c_layout demo_station))) = Inr (q, vms) \<and>
     cpx_decode_txpdo q (new_txpdo demo_station (Some 16)) = (Inr (), tx)"
proof -
  have res: "\<forall>m \<in> set (l_modules (c_layout demo_station)). reserves m"
    by (simp add: demo_station_def reserves_def spec_defs bytes_for_bits_def)
  have sizes: "config_output_bytes demo_station \<le> 12" "config_input_bytes demo_station \<le> 16"
    by (simp_all add: demo_station_def config_output_bytes_def config_input_bytes_def layout_output_bytes_def
        layout_input_bytes_def)
  have vms: "\<forall>m \<in> set (l_modules (c_layout demo_station)). vm_module (new_virtual_module m) = m \<and>
      inputs_ok m (vm_inputs (new_virtual_module m)) \<and> outputs_ok m (vm_outputs (new_virtual_module m))"
    by (simp add: new_virtual_module_def created_values_ok)
  show ?thesis
    using station_exchange [OF demo_station_built res sizes vms refl] by blast
qed

end
