(* ===== verification/Io_Handlers.thy ===== *)
theory Io_Handlers
  imports Cpx_Image Api
begin

section \<open>I/O requests\<close>

text \<open>
  Models \<^verbatim>\<open>motion_server/handlers/command/io_output_write.py\<close> (clients set outputs),
  \<^verbatim>\<open>motion_server/handlers/simulation_io_input.py\<close> (clients set the inputs of simulated modules),
  the device selection of \<^verbatim>\<open>motion_server/device_manager/io_device_group.py\<close> and the I/O part of
  \<^verbatim>\<open>motion_server/api/encoder.py\<close> (what clients read). The state is the list of I/O devices in bus
  order, each with its output and input images. \<open>pstr\<close> is Python's \<open>str\<close> of a value that is not a
  string. The lemmas show which writes change what, what a rejected write leaves behind, and what
  happens to a list of writes that names a slot without outputs.
\<close>

subsection \<open>Devices\<close>

record io_device =
  dev_id :: string
  dev_slave_index :: int
  dev_profile :: string
  dev_rx :: CPXRxPDO
  dev_tx :: CPXTxPDO

definition opt_get :: "pydict \<Rightarrow> string \<Rightarrow> pyval" where
  "opt_get message key = (case map_of message key of Some v \<Rightarrow> v | None \<Rightarrow> PNone)"

definition get_or :: "pydict \<Rightarrow> string \<Rightarrow> pyval \<Rightarrow> pyval" where
  "get_or message key dflt = (case map_of message key of Some v \<Rightarrow> v | None \<Rightarrow> dflt)"

fun select_from :: "(pyval \<Rightarrow> string) \<Rightarrow> pyval \<Rightarrow> pyval \<Rightarrow> nat \<Rightarrow> io_device list \<Rightarrow> nat res" where
  "select_from pstr ioid slave_index n [] = Inl ValueError"
| "select_from pstr ioid slave_index n (d # ds) =
     (if ioid \<noteq> PNone \<and> dev_id d = py_str pstr ioid then Inr n
      else if slave_index \<noteq> PNone then
        bindE (int_of_value slave_index) (\<lambda>s.
          if dev_slave_index d = s then Inr n else select_from pstr ioid slave_index (Suc n) ds)
      else select_from pstr ioid slave_index (Suc n) ds)"

definition selected_device :: "(pyval \<Rightarrow> string) \<Rightarrow> io_device list \<Rightarrow> pyval \<Rightarrow> pyval \<Rightarrow> nat res" where
  "selected_device pstr devices ioid slave_index =
     (if ioid = PNone \<and> slave_index = PNone
      then (if length devices = 1 then Inr 0 else Inl ValueError)
      else select_from pstr ioid slave_index 0 devices)"

subsection \<open>Writing outputs\<close>

text \<open>\<open>bytes.fromhex\<close>: pairs of hexadecimal digits, whitespace between the pairs.\<close>

definition nibble :: "char \<Rightarrow> nat option" where
  "nibble c = (case digit_value c of Some d \<Rightarrow> if d < 16 then Some d else None | None \<Rightarrow> None)"

definition hex_space :: "char \<Rightarrow> bool" where
  "hex_space c \<longleftrightarrow> c \<in> {CHR '' '', CHR 0x09, CHR 0x0A, CHR 0x0B, CHR 0x0C, CHR 0x0D}"

fun fromhex :: "string \<Rightarrow> bytes res" where
  "fromhex [] = Inr []"
| "fromhex [c] = (if hex_space c then Inr [] else Inl ValueError)"
| "fromhex (c # c' # cs) =
     (if hex_space c then fromhex (c' # cs)
      else case (nibble c, nibble c') of
        (Some d, Some d') \<Rightarrow> bindE (fromhex cs) (\<lambda>bs. Inr (of_nat (16 * d + d') # bs))
      | _ \<Rightarrow> Inl ValueError)"

definition iterate :: "pyval \<Rightarrow> pyval list res" where
  "iterate v =
     (case v of
        PList vs \<Rightarrow> Inr vs
      | PDict d \<Rightarrow> Inr (map (\<lambda>(k, _). PStr k) d)
      | PBytes bs \<Rightarrow> Inr (map (\<lambda>b. PInt (uint b)) bs)
      | PStr s \<Rightarrow> Inr (map (\<lambda>c. PStr [c]) s)
      | _ \<Rightarrow> Inl TypeError)"

definition parse_output_payload :: "pyval \<Rightarrow> bytes res" where
  "parse_output_payload payload =
     (case payload of
        PStr s \<Rightarrow>
          (let v = strip s; v = (if starts_with ''0x'' v then drop 2 v else v)
           in if v = [] then Inr [] else fromhex v)
      | _ \<Rightarrow>
          bindE (iterate payload) (\<lambda>items.
            mapE (\<lambda>x. bindE (int_of_value x) (\<lambda>i. Inr (word_of_int (i AND 0xFF)))) items))"

definition parse_bool :: "pyval \<Rightarrow> bool res" where
  "parse_bool value =
     (case value of
        PStr s \<Rightarrow>
          (let t = lower (strip s)
           in if t \<in> {''1'', ''true'', ''on'', ''yes''} then Inr True
              else if t \<in> {''0'', ''false'', ''off'', ''no''} then Inr False
              else Inl (InvalidArgumentException ''value'' ''must be boolean'' None))
      | v \<Rightarrow> Inr (truthy v))"

definition require_field :: "pydict \<Rightarrow> string \<Rightarrow> pyval res" where
  "require_field message field =
     (case map_of message field of
        Some v \<Rightarrow> Inr v | None \<Rightarrow> Inl (InvalidArgumentException field ''is required'' None))"

definition output_request :: "(pyval \<Rightarrow> string) \<Rightarrow> pydict \<Rightarrow> output_change res" where
  "output_request pstr message =
     bindE (require_field message ''slot'') (\<lambda>slot.
       let kind = lower (strip (py_str pstr (get_or message ''kind'' (get_or message ''output_type'' (PStr [])))))
       in if kind \<in> {''do'', ''digital'', ''digital_output''} then
            bindE (require_field message ''channel'') (\<lambda>channel.
            bindE (require_field message ''value'') (\<lambda>value.
            bindE (parse_bool value) (\<lambda>b. Inr (WriteDigital slot channel (PBool b)))))
          else if kind \<in> {''ao'', ''analog'', ''analog_output''} then
            bindE (require_field message ''channel'') (\<lambda>channel.
            bindE (require_field message ''value'') (\<lambda>value.
            bindE (int_of_value value) (\<lambda>i. Inr (WriteAnalog slot channel (PInt i)))))
          else if kind \<in> {''iol'', ''io_link'', ''iolink''} then
            bindE (parse_output_payload (get_or message ''payload'' (get_or message ''data'' (PStr [])))) (\<lambda>p.
              Inr (WriteIoLink slot p))
          else Inl ValueError)"

definition apply_output_write :: "(pyval \<Rightarrow> string) \<Rightarrow> pydict \<Rightarrow> (CPXRxPDO, exn, unit) op" where
  "apply_output_write pstr message =
     bindS (liftE (\<lambda>_. output_request pstr message)) perform_write"

definition output_target :: "pydict \<Rightarrow> nat \<Rightarrow> pydict" where
  "output_target message index =
     (let io = get_or message ''io'' (opt_get message ''id'')
      in [(''io'', if io = PNone then PInt (int index) else io), (''slot'', opt_get message ''slot'')]
         @ (case map_of message ''channel'' of Some v \<Rightarrow> [(''channel'', v)] | None \<Rightarrow> []))"

definition output_exception :: "exn \<Rightarrow> exn" where
  "output_exception e =
     (if isinstance e CInvalidArgument then e
      else if isinstance e CAttributeError \<or> isinstance e COSError
        then DeviceAccessException (Some ''io_output_write'')
      else if isinstance e CTypeError \<or> isinstance e CValueError
        then InvalidArgumentException ''output'' ''is invalid for the selected I/O target'' None
      else e)"

definition on_device :: "nat \<Rightarrow> (CPXRxPDO, exn, unit) op \<Rightarrow> (io_device list, exn, unit) op" where
  "on_device n f devices =
     (case f (dev_rx (devices ! n)) of
        (r, rx) \<Rightarrow> (r, devices[n := (devices ! n)\<lparr>dev_rx := rx\<rparr>]))"

definition write_output_target :: "(pyval \<Rightarrow> string) \<Rightarrow> pydict \<Rightarrow> (io_device list, exn, nat) op" where
  "write_output_target pstr message devices =
     (let selector = get_or message ''io'' (opt_get message ''id'')
      in case selected_device pstr devices selector (opt_get message ''slave_index'') of
           Inl e \<Rightarrow>
             (Inl (if isinstance e CTypeError \<or> isinstance e CValueError
                   then ResourceNotFoundException ''io'' selector else e), devices)
         | Inr n \<Rightarrow>
             (case on_device n (apply_output_write pstr message) devices of
                (Inr _, t) \<Rightarrow> (Inr n, t)
              | (Inl e, t) \<Rightarrow> (Inl (output_exception e), t)))"

text \<open>The result: the device written, the targets of a list of writes, or a partial failure.\<close>

datatype write_result =
    Written nat
  | WrittenTargets "pydict target_results"

definition merged_request :: "pydict \<Rightarrow> pydict \<Rightarrow> pydict" where
  "merged_request message item =
     fold (\<lambda>(k, v) d. dict_set d k v) item
       (filter (\<lambda>(k, _). k \<noteq> ''writes'' \<and> k \<noteq> ''request_id'') message)"

definition write_requests :: "pydict \<Rightarrow> pyval list \<Rightarrow> pydict list res" where
  "write_requests message writes =
     mapE (\<lambda>(index, item).
       case item of
         PDict d \<Rightarrow> Inr (merged_request message d)
       | _ \<Rightarrow> Inl (InvalidArgumentException ''writes'' (''item '' @ nat_str index @ '' must be an object'') None))
       (enumerate 0 writes)"

fun target_part :: "(pydict \<times> pydict) target_results \<Rightarrow> pydict target_results" where
  "target_part (Succeeded xs) = Succeeded (map fst xs)"
| "target_part (PartialFailure xs ys) = PartialFailure (map fst xs) (map (\<lambda>(x, e). (fst x, e)) ys)"

definition write_outputs :: "(pyval \<Rightarrow> string) \<Rightarrow> pydict \<Rightarrow> (io_device list, exn, write_result) op" where
  "write_outputs pstr message =
     (case opt_get message ''writes'' of
        PNone \<Rightarrow> bindS (write_output_target pstr message) (\<lambda>n. retS (Written n))
      | PList (w # ws) \<Rightarrow>
          bindS (liftE (\<lambda>_. write_requests message (w # ws))) (\<lambda>requests.
          bindS (collect_target_results
                   (map (\<lambda>(index, request). (output_target request index, request)) (enumerate 0 requests))
                   (\<lambda>(target, request). bindS (write_output_target pstr request) (\<lambda>_. retS ()))) (\<lambda>r.
            retS (WrittenTargets (target_part r))))
      | _ \<Rightarrow> raiseS (InvalidArgumentException ''writes'' ''must be a non-empty list'' None))"

subsection \<open>What clients read\<close>

definition hex_char :: "nat \<Rightarrow> char" where
  "hex_char d = (if d < 10 then char_of (48 + d) else char_of (87 + d))"

definition payload_hex :: "bytes \<Rightarrow> string" where
  "payload_hex bs = concat (map (\<lambda>b. [hex_char (unat b div 16), hex_char (unat b mod 16)]) bs)"

definition io_link_channel_payloads :: "bytes \<Rightarrow> nat \<Rightarrow> nat \<Rightarrow> (nat \<times> bytes) list" where
  "io_link_channel_payloads payload ports data_bytes =
     (if ports = 0 then []
      else let n = data_bytes div ports
           in map (\<lambda>port. (port, take n (drop (port * n) payload))) [0..<ports])"

definition input_channel :: "CPXIoConfig \<Rightarrow> CPXApModule \<Rightarrow> bool \<Rightarrow> bytes \<Rightarrow> nat \<times> bytes \<Rightarrow> pydict" where
  "input_channel c m process_data_valid payload = (\<lambda>(port, data).
     (let q = io_link_input_data_bytes m + port;
          qualifier = (if q < length payload then Some (uint (payload ! q)) else None);
          valid = process_data_valid \<and> (case qualifier of None \<Rightarrow> False | Some x \<Rightarrow> x AND 0xA0 = 0xA0);
          profile = map_of (rev (map (\<lambda>b. (bd_port b, bd_profile b))
                      (filter (\<lambda>b. bd_module b = m_slot m) (io_link_devices c)))) port;
          (st, decoded) = decode_process_data profile data valid
      in [(''port'', PInt (int port)), (''data'', PStr (payload_hex data)),
          (''qualifier'', case qualifier of None \<Rightarrow> PNone | Some x \<Rightarrow> PInt x), (''decode_status'', PStr st),
          (''decoded'', case decoded of None \<Rightarrow> PNone | Some d \<Rightarrow> PDict d)]))"

definition io_link_input_channels :: "bytes \<Rightarrow> CPXApModule \<Rightarrow> CPXIoConfig \<Rightarrow> bool \<Rightarrow> pydict list" where
  "io_link_input_channels payload m c process_data_valid =
     map (input_channel c m process_data_valid payload)
       (io_link_channel_payloads payload (io_link_ports m) (io_link_input_data_bytes m))"

definition io_module_input_values :: "CPXApModule \<Rightarrow> CPXTxPDO \<Rightarrow> bool \<Rightarrow> pydict res" where
  "io_module_input_values m tx process_data_valid =
     bindE (slot_values (module_inputs tx) (m_slot m)) (\<lambda>v. Inr (
       (if digital_inputs m \<noteq> 0 then [(''digital'', PList (map PBool (v_digital v)))] else [])
       @ (if analog_inputs m \<noteq> 0 then [(''analog'', PList (map PInt (v_analog v)))] else [])
       @ (if module_type m = ''iol'' then
            [(''io_link'', PStr (payload_hex (v_io_link v))),
             (''io_link_channels'', PList (map PDict (io_link_input_channels (v_io_link v) m (tx_config tx)
                process_data_valid)))]
          else [])))"

definition io_module_output_values :: "CPXApModule \<Rightarrow> CPXRxPDO \<Rightarrow> pydict res" where
  "io_module_output_values m rx =
     bindE (slot_values (module_outputs rx) (m_slot m)) (\<lambda>v. Inr (
       (if digital_outputs m \<noteq> 0 then [(''digital'', PList (map PBool (v_digital v)))] else [])
       @ (if analog_outputs m \<noteq> 0 then [(''analog'', PList (map PInt (v_analog v)))] else [])
       @ (if module_type m = ''iol'' then
            [(''io_link'', PStr (payload_hex (v_io_link v))),
             (''io_link_channels'', PList (map (\<lambda>(port, data).
                PDict [(''port'', PInt (int port)), (''data'', PStr (payload_hex data))])
                (io_link_channel_payloads (v_io_link v) (io_link_ports m) (io_link_output_data_bytes m))))]
          else [])))"

definition io_module_snapshot ::
  "EsiModuleInfo list \<Rightarrow> CPXApModule \<Rightarrow> CPXRxPDO \<Rightarrow> CPXTxPDO \<Rightarrow> bool \<Rightarrow> pydict res" where
  "io_module_snapshot cat m rx tx process_data_valid =
     bindE (module_display_name cat m) (\<lambda>name.
     bindE (if input_bytes m \<noteq> 0
            then bindE (io_module_input_values m tx process_data_valid) (\<lambda>d. Inr [(''inputs'', PDict d)]) else Inr []) (\<lambda>i.
     bindE (if output_bytes m \<noteq> 0
            then bindE (io_module_output_values m rx) (\<lambda>d. Inr [(''outputs'', PDict d)]) else Inr []) (\<lambda>n.
       Inr (module_to_dict m @ [(''name'', PStr name)] @ i @ n))))"

definition flatten_module_values ::
  "CPXApModule list \<Rightarrow> (int \<rightharpoonup> module_values) \<Rightarrow> (CPXApModule \<Rightarrow> nat) \<Rightarrow> (module_values \<Rightarrow> 'a list) \<Rightarrow> 'a list res" where
  "flatten_module_values modules vals count part =
     bindE (mapE (\<lambda>m. bindE (slot_values vals (m_slot m)) (\<lambda>v. Inr (part v))) (filter (\<lambda>m. count m \<noteq> 0) modules))
       (\<lambda>xss. Inr (concat xss))"

definition io_device_snapshot :: "EsiModuleInfo list \<Rightarrow> io_device \<Rightarrow> bool \<Rightarrow> bool \<Rightarrow> pydict res" where
  "io_device_snapshot cat d include_raw process_data_valid =
     (let rx = dev_rx d; tx = dev_tx d; ms = l_modules (c_layout (rx_config rx));
          tms = l_modules (c_layout (tx_config tx))
      in bindE (flatten_module_values tms (module_inputs tx) digital_inputs v_digital) (\<lambda>di.
         bindE (flatten_module_values ms (module_outputs rx) digital_outputs v_digital) (\<lambda>dout.
         bindE (flatten_module_values tms (module_inputs tx) analog_inputs v_analog) (\<lambda>ai.
         bindE (flatten_module_values ms (module_outputs rx) analog_outputs v_analog) (\<lambda>ao.
         bindE (mapE (\<lambda>m. io_module_snapshot cat m rx tx process_data_valid) ms) (\<lambda>mods.
           Inr ([(''id'', PStr (dev_id d)), (''slave_index'', PInt (dev_slave_index d)),
                 (''profile'', PStr (dev_profile d)), (''input_bytes'', PInt (int (length (tx_payload tx)))),
                 (''output_bytes'', PInt (int (length (rx_payload rx)))),
                 (''digital_inputs'', PList (map PBool di)), (''digital_outputs'', PList (map PBool dout)),
                 (''analog_inputs'', PList (map PInt ai)), (''analog_outputs'', PList (map PInt ao)),
                 (''modules'', PList (map PDict mods))]
                @ (if include_raw then [(''input_image'', PStr (payload_hex (tx_payload tx))),
                      (''output_image'', PStr (payload_hex (rx_payload rx)))] else []))))))))"

text \<open>The handler: a snapshot of the device written, or the targets of a list of writes.\<close>

definition output_write ::
  "(pyval \<Rightarrow> string) \<Rightarrow> EsiModuleInfo list \<Rightarrow> bool \<Rightarrow> pydict \<Rightarrow> (io_device list, exn, pydict + pydict target_results) op" where
  "output_write pstr cat process_data_valid message =
     bindS (write_outputs pstr message) (\<lambda>r.
       case r of
         Written n \<Rightarrow>
           liftE (\<lambda>devices. bindE (io_device_snapshot cat (devices ! n) (truthy (get_or message ''raw'' (PBool False)))
             process_data_valid) (\<lambda>d. Inr (Inl d)))
       | WrittenTargets (Succeeded ts) \<Rightarrow> retS (Inl [(''targets'', PList (map PDict ts))])
       | WrittenTargets (PartialFailure ts fs) \<Rightarrow> retS (Inr (PartialFailure ts fs)))"

definition input_read :: "(pyval \<Rightarrow> string) \<Rightarrow> EsiModuleInfo list \<Rightarrow> bool \<Rightarrow> pydict \<Rightarrow> io_device list \<Rightarrow> pydict res" where
  "input_read pstr cat process_data_valid message devices =
     (let selector = get_or message ''io'' (opt_get message ''id'')
      in case selected_device pstr devices selector (opt_get message ''slave_index'') of
           Inl e \<Rightarrow> Inl (if isinstance e CAttributeError then ServerNotReadyException (Some ''I/O devices are unavailable'')
                        else if isinstance e CTypeError \<or> isinstance e CValueError
                        then ResourceNotFoundException ''io'' selector else e)
         | Inr n \<Rightarrow>
             bindE (io_device_snapshot cat (devices ! n) (truthy (get_or message ''raw'' (PBool False)))
               process_data_valid) (\<lambda>d. Inr (dict_del (dict_del d ''type'') ''ok'')))"

subsection \<open>Inputs of simulated modules\<close>

record sim_device =
  sim_id :: string
  sim_slave_index :: int
  sim_modules :: "(int \<times> VirtualApModule) list"

record sim_state =
  simulation_api_enabled :: bool
  backend_is_mock :: bool
  sim_devices :: "sim_device list"

definition input_snapshot :: "VirtualApModule \<Rightarrow> pydict" where
  "input_snapshot vm =
     (let v = vm_inputs vm
      in [(''slot'', PInt (m_slot (vm_module vm))), (''type'', PStr (module_type (vm_module vm))),
          (''inputs'', PDict (
             (if v_digital v \<noteq> [] then [(''digital'', PList (map PBool (v_digital v)))] else [])
             @ (if v_analog v \<noteq> [] then [(''analog'', PList (map PInt (v_analog v)))] else [])
             @ (if module_type (vm_module vm) = ''iol'' then [(''io_link'', PStr (payload_hex (v_io_link v)))] else [])))])"

definition device_input_snapshot :: "sim_device \<Rightarrow> pydict" where
  "device_input_snapshot d =
     [(''modules'', PList (map PDict (filter (\<lambda>s. map_of s ''inputs'' \<noteq> Some (PDict []))
        (map (\<lambda>(_, vm). input_snapshot vm) (sim_modules d)))))]"

definition require_simulation_available :: "sim_state \<Rightarrow> unit res" where
  "require_simulation_available st =
     (if \<not> simulation_api_enabled st
      then Inl (UnsupportedOperationException ''virtual_io_simulation'' (Some ''simulation_api_disabled''))
      else if \<not> backend_is_mock st
      then Inl (UnsupportedOperationException ''virtual_io_simulation'' (Some ''mock_backend_required''))
      else Inr ())"

fun find_record :: "string \<Rightarrow> nat \<Rightarrow> sim_device list \<Rightarrow> nat option" where
  "find_record ioid n [] = None"
| "find_record ioid n (d # ds) = (if sim_id d = ioid then Some n else find_record ioid (Suc n) ds)"

definition selected_virtual_cpx :: "sim_state \<Rightarrow> string \<Rightarrow> nat res" where
  "selected_virtual_cpx st ioid =
     bindE (require_simulation_available st) (\<lambda>_.
       case find_record ioid 0 (sim_devices st) of
         Some n \<Rightarrow> Inr n | None \<Rightarrow> Inl (ResourceNotFoundException ''virtual_io'' (PStr ioid)))"

definition optional_io_id :: "(pyval \<Rightarrow> string) \<Rightarrow> pydict \<Rightarrow> string option res" where
  "optional_io_id pstr message =
     (case map_of message ''io'' of
        None \<Rightarrow> Inr None
      | Some v \<Rightarrow>
          if strip (py_str pstr v) = [] then Inl (InvalidArgumentException ''io'' ''must not be empty'' None)
          else Inr (Some (strip (py_str pstr v))))"

definition required_io_id :: "(pyval \<Rightarrow> string) \<Rightarrow> pydict \<Rightarrow> string res" where
  "required_io_id pstr message =
     bindE (optional_io_id pstr message) (\<lambda>x.
       case x of None \<Rightarrow> Inl (InvalidRequestException ''io is required'') | Some i \<Rightarrow> Inr i)"

definition request_int :: "pydict \<Rightarrow> string \<Rightarrow> bool \<Rightarrow> int option res" where
  "request_int message field required =
     (case map_of message field of
        None \<Rightarrow> if required then Inl (InvalidRequestException (field @ '' is required'')) else Inr None
      | Some (PBool _) \<Rightarrow> Inl (InvalidArgumentException field ''must be an integer'' None)
      | Some v \<Rightarrow>
          (case int_of_value v of
             Inl e \<Rightarrow> Inl (if isinstance e CTypeError \<or> isinstance e CValueError
                          then InvalidArgumentException field ''must be an integer'' None else e)
           | Inr i \<Rightarrow> if i < 0 then Inl (InvalidArgumentException field ''must be >= 0'' None) else Inr (Some i)))"

definition parse_raw_payload :: "pyval \<Rightarrow> bytes res" where
  "parse_raw_payload value =
     (case value of
        PStr s \<Rightarrow>
          (let t = strip s; t = (if starts_with ''0x'' (lower t) then drop 2 t else t)
           in case fromhex t of
                Inr bs \<Rightarrow> Inr bs
              | Inl e \<Rightarrow> Inl (InvalidArgumentException ''payload'' ''must be hexadecimal bytes'' None))
      | PBytes bs \<Rightarrow> Inr bs
      | PList items \<Rightarrow>
          mapE (\<lambda>item.
            case item of
              PInt i \<Rightarrow>
                if 0 \<le> i \<and> i \<le> 255 then Inr (word_of_int i)
                else Inl (InvalidArgumentException ''payload'' ''byte list values must be integers in 0..255'' None)
            | _ \<Rightarrow> Inl (InvalidArgumentException ''payload'' ''byte list values must be integers in 0..255'' None)) items
      | _ \<Rightarrow> Inl (InvalidArgumentException ''payload'' ''must be hexadecimal text or a byte list'' None))"

definition required_int :: "pydict \<Rightarrow> string \<Rightarrow> int res" where
  "required_int message field =
     bindE (request_int message field True) (\<lambda>x. case x of Some i \<Rightarrow> Inr i | None \<Rightarrow> Inl TypeError)"

text \<open>The request as a change of one module; exceptions outside \<open>InvalidArgumentException\<close> that are
  type or value errors are reported as an invalid input.\<close>

definition input_change :: "string \<Rightarrow> pydict \<Rightarrow> (VirtualApModule, exn, unit) op" where
  "input_change kind message =
     (if kind = ''digital'' then
        bindS (liftE (\<lambda>_. required_int message ''channel'')) (\<lambda>channel.
          case map_of message ''value'' of
            Some (PBool b) \<Rightarrow> set_digital_input (PInt channel) (PBool b)
          | _ \<Rightarrow> raiseS (InvalidArgumentException ''value'' ''must be a JSON boolean for digital input'' None))
      else if kind = ''analog'' then
        bindS (liftE (\<lambda>_. required_int message ''channel'')) (\<lambda>channel.
          case map_of message ''value'' of
            Some (PInt i) \<Rightarrow> set_analog_input (PInt channel) (PInt i)
          | _ \<Rightarrow> raiseS (InvalidArgumentException ''value'' ''must be an integer for analog input'' None))
      else
        (case map_of message ''payload'' of
           None \<Rightarrow> raiseS (InvalidRequestException ''payload is required'')
         | Some v \<Rightarrow> bindS (liftE (\<lambda>_. parse_raw_payload v)) set_io_link_input))"

definition input_exception :: "exn \<Rightarrow> exn" where
  "input_exception e =
     (if isinstance e CInvalidArgument then e
      else if isinstance e CTypeError \<or> isinstance e CValueError
        then InvalidArgumentException ''input'' ''is invalid for the selected virtual I/O target'' None
      else e)"

definition update_module :: "nat \<Rightarrow> int \<Rightarrow> VirtualApModule \<Rightarrow> sim_state \<Rightarrow> sim_state" where
  "update_module n slot vm st =
     st\<lparr>sim_devices := (sim_devices st)[n := (sim_devices st ! n)\<lparr>sim_modules :=
        map (\<lambda>(s, v). (s, if s = slot then vm else v)) (sim_modules (sim_devices st ! n))\<rparr>]\<rparr>"

definition snapshot_of :: "sim_device list \<Rightarrow> pydict" where
  "snapshot_of ds =
     [(''available'', PBool True), (''backend'', PStr ''mock''),
      (''devices'', PList (map (\<lambda>d. PDict ([(''id'', PStr (sim_id d)), (''slave_index'', PInt (sim_slave_index d))]
         @ device_input_snapshot d)) ds))]"

definition simulation_snapshot :: "string option \<Rightarrow> sim_state \<Rightarrow> pydict res" where
  "simulation_snapshot ioid st =
     bindE (require_simulation_available st) (\<lambda>_.
       case ioid of
         None \<Rightarrow> Inr (snapshot_of (sim_devices st))
       | Some i \<Rightarrow>
           (case find_record i 0 (sim_devices st) of
              Some n \<Rightarrow> Inr (snapshot_of [sim_devices st ! n])
            | None \<Rightarrow> Inl (ResourceNotFoundException ''virtual_io'' (PStr i))))"

definition write_input :: "(pyval \<Rightarrow> string) \<Rightarrow> pydict \<Rightarrow> (sim_state, exn, pydict) op" where
  "write_input pstr message =
     bindS (liftE (\<lambda>_. required_io_id pstr message)) (\<lambda>ioid.
     bindS (liftE (\<lambda>_. required_int message ''slot'')) (\<lambda>slot.
       let kind = lower (strip (py_str pstr (get_or message ''kind'' (PStr []))))
       in if kind \<notin> {''digital'', ''analog'', ''io_link''}
          then raiseS (InvalidArgumentException ''kind'' ''must be digital, analog, or io_link'' None)
          else
            bindS (liftE (\<lambda>st. selected_virtual_cpx st ioid)) (\<lambda>n st.
              case map_of (sim_modules (sim_devices st ! n)) slot of
                None \<Rightarrow> (Inl (ResourceNotFoundException ''module'' (PInt slot)), st)
              | Some vm \<Rightarrow>
                  (case input_change kind message vm of
                     (Inl e, vm') \<Rightarrow> (Inl (input_exception e), update_module n slot vm' st)
                   | (Inr _, vm') \<Rightarrow>
                       (let st' = update_module n slot vm' st in (simulation_snapshot (Some ioid) st', st'))))))"

definition read_inputs :: "(pyval \<Rightarrow> string) \<Rightarrow> pydict \<Rightarrow> sim_state \<Rightarrow> pydict res" where
  "read_inputs pstr message st =
     bindE (optional_io_id pstr message) (\<lambda>ioid. simulation_snapshot ioid st)"

definition reset_inputs :: "(pyval \<Rightarrow> string) \<Rightarrow> pydict \<Rightarrow> (sim_state, exn, pydict) op" where
  "reset_inputs pstr message =
     bindS (liftE (\<lambda>_. required_io_id pstr message)) (\<lambda>ioid.
     bindS (liftE (\<lambda>_. request_int message ''slot'' False)) (\<lambda>slot.
     bindS (liftE (\<lambda>st. selected_virtual_cpx st ioid)) (\<lambda>n st.
       let ms = sim_modules (sim_devices st ! n);
           ms' = map (\<lambda>(s, v). (s, if slot = None \<or> slot = Some s then reset_module_inputs v else v)) ms;
           st' = st\<lparr>sim_devices := (sim_devices st)[n := (sim_devices st ! n)\<lparr>sim_modules := ms'\<rparr>]\<rparr>
       in case slot of
            Some s \<Rightarrow>
              if s \<notin> fst ` set ms then (Inl (ResourceNotFoundException ''module'' (PInt s)), st)
              else (simulation_snapshot (Some ioid) st', st')
          | None \<Rightarrow> (simulation_snapshot (Some ioid) st', st'))))"

subsection \<open>What a write changes\<close>

lemma perform_write_failed: "perform_write w rx = (Inl e, rx') \<Longrightarrow> rx' = rx"
  by (cases w) (auto simp: set_module_digital_output_def set_module_analog_output_def set_io_link_output_def
      split: pyval.split_asm sum.split_asm)

definition write_slot :: "output_change \<Rightarrow> pyval" where
  "write_slot w = (case w of WriteDigital s _ _ \<Rightarrow> s | WriteAnalog s _ _ \<Rightarrow> s | WriteIoLink s _ \<Rightarrow> s)"

lemma perform_write_done:
  assumes "perform_write w rx = (Inr (), rx')"
  shows "\<exists>s v v'. int_of_value (write_slot w) = Inr s \<and> module_outputs rx s = Some v \<and> rx' = update_slot s v' rx \<and>
    length (v_digital v') = length (v_digital v) \<and> length (v_analog v') = length (v_analog v) \<and>
    length (v_io_link v') = length (v_io_link v)"
proof (cases w)
  case (WriteDigital slot index b)
  then show ?thesis
    using assms
    by (auto simp: write_slot_def set_module_digital_output_def slot_values_def
        split: pyval.split_asm sum.split_asm option.split_asm)
      (rule exI, rule conjI, rule refl, simp)
next
  case (WriteAnalog slot index x)
  then show ?thesis
    using assms
    by (auto simp: write_slot_def set_module_analog_output_def slot_values_def
        split: sum.split_asm option.split_asm)
      (rule exI, rule conjI, rule refl, simp)
next
  case (WriteIoLink slot p)
  then show ?thesis
    using assms
    by (auto simp: write_slot_def set_io_link_output_def slot_values_def bindE_def
        split: sum.split_asm option.split_asm if_split_asm)
qed

lemma apply_output_write_cases:
  "apply_output_write pstr message rx =
     (case output_request pstr message of Inl e \<Rightarrow> (Inl e, rx) | Inr w \<Rightarrow> perform_write w rx)"
  by (simp add: apply_output_write_def bindS_def liftE_def split: sum.split)

lemma select_from_range: "select_from pstr i s n ds = Inr k \<Longrightarrow> n \<le> k \<and> k < n + length ds"
  by (induction ds arbitrary: n) (fastforce split: if_splits)+

lemma selected_device_range: "selected_device pstr ds i s = Inr k \<Longrightarrow> k < length ds"
  using select_from_range [of pstr i s 0 ds k] by (auto simp: selected_device_def split: if_splits)

text \<open>C19: a single output write that fails leaves every I/O device as it was; one that succeeds
  changes one slot of one device, a slot that has outputs, and keeps the number of channels and
  bytes of that slot.\<close>

theorem output_write_local:
  assumes "write_output_target pstr message devices = (r, devices')"
  shows "(\<forall>e. r = Inl e \<longrightarrow> devices' = devices) \<and>
    (\<forall>n. r = Inr n \<longrightarrow> n < length devices \<and>
      (\<exists>s v v'. map_of message ''slot'' \<noteq> None \<and> int_of_value (the (map_of message ''slot'')) = Inr s \<and>
         module_outputs (dev_rx (devices ! n)) s = Some v \<and>
         devices' = devices[n := (devices ! n)\<lparr>dev_rx := update_slot s v' (dev_rx (devices ! n))\<rparr>] \<and>
         length (v_digital v') = length (v_digital v) \<and> length (v_analog v') = length (v_analog v) \<and>
         length (v_io_link v') = length (v_io_link v)))"
proof (cases "selected_device pstr devices (get_or message ''io'' (opt_get message ''id'')) (opt_get message ''slave_index'')")
  case (Inl e)
  then show ?thesis using assms by (auto simp: write_output_target_def Let_def)
next
  case (Inr n)
  let ?rx = "dev_rx (devices ! n)"
  obtain x rx where ap: "apply_output_write pstr message ?rx = (x, rx)" by fastforce
  have w: "write_output_target pstr message devices =
      (case x of Inr _ \<Rightarrow> Inr n | Inl e \<Rightarrow> Inl (output_exception e), devices[n := (devices ! n)\<lparr>dev_rx := rx\<rparr>])"
    using Inr ap by (cases x) (simp_all add: write_output_target_def on_device_def Let_def)
  have n: "n < length devices" using Inr by (rule selected_device_range)
  show ?thesis
  proof (cases x)
    case (Inl e)
    then have "rx = ?rx"
      using ap perform_write_failed by (auto simp: apply_output_write_cases split: sum.split_asm)
    then show ?thesis using assms w Inl n by auto
  next
    case (Inr u)
    then obtain wr where wr: "output_request pstr message = Inr wr" "perform_write wr ?rx = (Inr (), rx)"
      using ap by (auto simp: apply_output_write_cases split: sum.split_asm)
    have "\<exists>v. map_of message ''slot'' = Some v \<and> write_slot wr = v"
      using wr(1) unfolding output_request_def Let_def
      by (auto simp: require_field_def write_slot_def split: option.split_asm if_split_asm)
    then show ?thesis
      using perform_write_done [OF wr(2)] assms w Inr n by auto
  qed
qed

lemma demo_station_outputs:
  "module_outputs (new_rxpdo demo_station (Some 12)) =
     [1 \<mapsto> \<lparr>v_digital = [False, False, False, False], v_analog = [], v_io_link = []\<rparr>,
      2 \<mapsto> \<lparr>v_digital = [], v_analog = [0, 0, 0, 0], v_io_link = []\<rparr>]"
  by (simp add: demo_station_def new_rxpdo_def create_module_output_def spec_defs zeros_def numeral_eq_Suc fun_eq_iff)

definition demo_io :: io_device where
  "demo_io = \<lparr>dev_id = ''io0'', dev_slave_index = 1, dev_profile = ''cpx_ap_i_ec'',
     dev_rx = new_rxpdo demo_station (Some 12), dev_tx = new_txpdo demo_station (Some 16)\<rparr>"

definition demo_write :: "int \<Rightarrow> pydict" where
  "demo_write slot = [(''slot'', PInt slot), (''kind'', PStr ''do''), (''channel'', PInt 2), (''value'', PBool True)]"

definition demo_written :: CPXRxPDO where
  "demo_written = update_slot 1 \<lparr>v_digital = [False, False, True, False], v_analog = [], v_io_link = []\<rparr>
     (new_rxpdo demo_station (Some 12))"

lemma demo_request: "output_request pstr (demo_write s) = Inr (WriteDigital (PInt s) (PInt 2) (PBool True))"
proof -
  have "lower (strip ''do'') = ''do''" by code_simp
  then show ?thesis
    by (simp add: output_request_def demo_write_def require_field_def get_or_def py_str_def parse_bool_def truthy_def)
qed

lemma demo_write_done:
  "write_output_target pstr (demo_write 1) [demo_io] = (Inr 0, [demo_io\<lparr>dev_rx := demo_written\<rparr>])"
proof -
  have "perform_write (WriteDigital (PInt 1) (PInt 2) (PBool True)) (dev_rx demo_io) = (Inr (), demo_written)"
    by (simp add: demo_io_def demo_written_def set_module_digital_output_def int_of_value_def slot_values_def
        demo_station_outputs channel_of_def)
  moreover have "selected_device pstr [demo_io] PNone PNone = Inr 0"
    by (simp add: selected_device_def)
  moreover have "get_or (demo_write 1) ''io'' (opt_get (demo_write 1) ''id'') = PNone"
      "opt_get (demo_write 1) ''slave_index'' = PNone"
    by (simp_all add: demo_write_def get_or_def opt_get_def)
  ultimately show ?thesis
    by (simp add: write_output_target_def on_device_def apply_output_write_cases demo_request)
qed

theorem output_write_local_witness:
  "write_output_target (\<lambda>_. []) (demo_write 1) [demo_io] = (Inr 0, [demo_io\<lparr>dev_rx := demo_written\<rparr>]) \<and>
   (\<exists>v. module_outputs (dev_rx demo_io) 1 = Some v)"
proof -
  have "\<exists>s v. int_of_value (the (map_of (demo_write 1) ''slot'')) = Inr s \<and> module_outputs (dev_rx demo_io) s = Some v"
    using output_write_local [OF demo_write_done [of "\<lambda>_. []"]] by auto
  then show ?thesis
    using demo_write_done by (simp add: demo_write_def int_of_value_def)
qed

subsection \<open>Lists of writes\<close>

lemma write_without_outputs:
  assumes "output_request pstr message = Inr w" and "int_of_value (write_slot w) = Inr s"
    and "module_outputs rx s = None"
  shows "perform_write w rx = (Inl KeyError, rx)"
proof (cases w)
  case (WriteDigital slot index b)
  have "\<exists>x. b = PBool x"
    using assms(1) WriteDigital unfolding output_request_def Let_def by (auto split: if_split_asm)
  then show ?thesis
    using assms(2,3) WriteDigital by (auto simp: write_slot_def set_module_digital_output_def slot_values_def)
next
  case (WriteAnalog slot index x)
  then show ?thesis
    using assms(2,3)
    by (simp add: write_slot_def set_module_analog_output_def slot_values_def module_by_slot_def split: option.split)
next
  case (WriteIoLink slot p)
  then show ?thesis
    using assms(2,3) by (simp add: write_slot_def set_io_link_output_def slot_values_def)
qed

lemma target_without_outputs:
  assumes "selected_device pstr devices (get_or message ''io'' (opt_get message ''id''))
      (opt_get message ''slave_index'') = Inr n"
    and "output_request pstr message = Inr w" and "int_of_value (write_slot w) = Inr s"
    and "module_outputs (dev_rx (devices ! n)) s = None"
  shows "write_output_target pstr message devices = (Inl KeyError, devices)"
proof -
  have "n < length devices" using assms(1) by (rule selected_device_range)
  moreover have "apply_output_write pstr message (dev_rx (devices ! n)) = (Inl KeyError, dev_rx (devices ! n))"
    using write_without_outputs [OF assms(2-4)] assms(2) by (simp add: apply_output_write_cases)
  moreover have "output_exception KeyError = KeyError"
    by (simp add: output_exception_def isinstance_def mro_def numeral_eq_Suc)
  ultimately show ?thesis
    using assms(1) by (simp add: write_output_target_def on_device_def)
qed

text \<open>C35: a list of two output writes whose second item names a slot without outputs is answered
  as an internal failure, while the first write stays applied and is reported to nobody: the
  \<open>KeyError\<close> of the second item is not among the exceptions the handler translates.\<close>

theorem unknown_slot_aborts_writes:
  assumes "opt_get message ''writes'' = PList [PDict a, PDict b]"
    and "write_output_target pstr (merged_request message a) devices = (Inr n, devices')"
    and "selected_device pstr devices' (get_or (merged_request message b) ''io'' (opt_get (merged_request message b) ''id''))
      (opt_get (merged_request message b) ''slave_index'') = Inr k"
    and "output_request pstr (merged_request message b) = Inr w" and "int_of_value (write_slot w) = Inr s"
    and "module_outputs (dev_rx (devices' ! k)) s = None"
  shows "write_outputs pstr message devices = (Inl KeyError, devices') \<and> f_code (map_exception KeyError) = INTERNAL_FAILURE"
proof -
  have second: "write_output_target pstr (merged_request message b) devices' = (Inl KeyError, devices')"
    using assms(3-6) by (rule target_without_outputs)
  have requests: "write_requests message [PDict a, PDict b] = Inr [merged_request message a, merged_request message b]"
    by (simp add: write_requests_def)
  have "isinstance KeyError CMotionServer = False" and "f_code (map_exception KeyError) = INTERNAL_FAILURE"
    by code_simp+
  then show ?thesis
    using assms(1,2) second requests
    by (simp add: write_outputs_def collect_target_results_def bindS_def liftE_def retS_def)
qed

theorem unknown_slot_aborts_writes_witness:
  "write_outputs (\<lambda>_. []) [(''writes'', PList [PDict (demo_write 1), PDict (demo_write 9)])] [demo_io] =
     (Inl KeyError, [demo_io\<lparr>dev_rx := demo_written\<rparr>])"
proof -
  let ?msg = "[(''writes'', PList [PDict (demo_write 1), PDict (demo_write 9)])]"
  have m: "merged_request ?msg (demo_write s) = demo_write s" for s
    by (simp add: merged_request_def demo_write_def dict_set_def)
  have "module_outputs (dev_rx ([demo_io\<lparr>dev_rx := demo_written\<rparr>] ! 0)) 9 = None"
    by (simp add: demo_written_def update_slot_def demo_station_outputs)
  moreover have "selected_device (\<lambda>_. []) [demo_io\<lparr>dev_rx := demo_written\<rparr>]
      (get_or (demo_write 9) ''io'' (opt_get (demo_write 9) ''id'')) (opt_get (demo_write 9) ''slave_index'') = Inr 0"
    by (simp add: demo_write_def get_or_def opt_get_def selected_device_def)
  moreover have "opt_get ?msg ''writes'' = PList [PDict (demo_write 1), PDict (demo_write 9)]"
    by (simp add: opt_get_def)
  ultimately show ?thesis
    using unknown_slot_aborts_writes [of ?msg "demo_write 1" "demo_write 9" "\<lambda>_. []" "[demo_io]" 0
        "[demo_io\<lparr>dev_rx := demo_written\<rparr>]" 0 _ 9]
      demo_write_done [of "\<lambda>_. []"] demo_request [of "\<lambda>_. []" 9]
    by (simp add: m write_slot_def int_of_value_def)
qed

end
