(* ===== verification/Gateway.thy ===== *)
theory Gateway
  imports Io_Handlers Virtual_Od Parameter_Cache
begin

section \<open>Parameter gateways of a CPX-AP-I-EC station\<close>

text \<open>
  AP parameters of the modules and ISDU parameters of IO-Link devices are reached through a gateway
  object of the station: the server writes the address and the data into its subindices, starts the
  access by writing the direction and polls the status. This theory models the server's side of the
  exchange (\<^verbatim>\<open>motion_server/handlers/parameter_access/ap.py\<close> and \<^verbatim>\<open>iol.py\<close>,
  \<^verbatim>\<open>device/cpx_ap_i_ec/ap_parameter_access.py\<close>, \<^verbatim>\<open>ap_module_idents.py\<close>, \<^verbatim>\<open>isdu_gateway.py\<close>)
  over an arbitrary SDO port, and the station's side (\<^verbatim>\<open>device/virtual_cpx_ap_i_ec/device.py\<close>). A
  deadline is a number of polls. The locale \<open>gateway_object\<close> states what the server relies on; it is
  interpreted on the dictionary of the simulated station, so that the lemmas show which request
  reaches the gateway and what the server makes of the answer.
\<close>

subsection \<open>The server's side\<close>

record 's sdo_port =
  sdo_wr :: "int \<Rightarrow> int \<Rightarrow> bytes \<Rightarrow> ('s, exn, unit) op"
  sdo_rd :: "int \<Rightarrow> int \<Rightarrow> nat \<Rightarrow> ('s, exn, bytes) op"

definition port_write :: "'s sdo_port \<Rightarrow> struct_format \<Rightarrow> int \<Rightarrow> int \<Rightarrow> int \<Rightarrow> ('s, exn, unit) op" where
  "port_write port fm index subindex v =
     bindS (liftE (\<lambda>_. struct_pack fm (PInt v))) (\<lambda>payload. sdo_wr port index subindex payload)"

definition port_read :: "'s sdo_port \<Rightarrow> struct_format \<Rightarrow> int \<Rightarrow> int \<Rightarrow> ('s, exn, int) op" where
  "port_read port fm index subindex =
     bindS (sdo_rd port index subindex (calcsize fm)) (\<lambda>payload.
       if length payload < calcsize fm then raiseS (DeviceAccessException (Some ''sdo_read_short_payload''))
       else liftE (\<lambda>_. bindE (struct_unpack fm (take (calcsize fm) payload)) int_of_value))"

text \<open>The two gateways differ in the object, the widths of the fields and the size of the data; the
  ISDU handler adds the failed step to a rejection (\<open>isdu_sdo_step\<close>), the AP handler adds nothing
  (\<open>ap_sdo_step\<close>).\<close>

record gateway_format =
  gw_index :: int
  gw_f2 :: struct_format
  gw_f3 :: struct_format
  gw_f4 :: struct_format
  gw_f6 :: struct_format
  gw_max :: nat
  gw_step :: "string \<Rightarrow> int \<Rightarrow> pyval \<Rightarrow> exn \<Rightarrow> exn"

definition catch_step :: "gateway_format \<Rightarrow> string \<Rightarrow> int \<Rightarrow> pyval \<Rightarrow> ('s, exn, 'a) op \<Rightarrow> ('s, exn, 'a) op" where
  "catch_step gw step subindex value m s =
     (case m s of (Inl e, t) \<Rightarrow> (Inl (gw_step gw step subindex value e), t) | (Inr a, t) \<Rightarrow> (Inr a, t))"

definition AP_PARAMETER_ACCESS_INDEX :: int where
  "AP_PARAMETER_ACCESS_INDEX = 0x27F0"

definition AP_MAX_DATA_BYTES :: nat where
  "AP_MAX_DATA_BYTES = 512"

definition ISDU_MAX_DATA_BYTES :: nat where
  "ISDU_MAX_DATA_BYTES = 238"

definition STATUS_BUSY :: int where
  "STATUS_BUSY = 0xFFFF"

definition ap_format :: gateway_format where
  "ap_format = \<lparr>gw_index = AP_PARAMETER_ACCESS_INDEX, gw_f2 = F_H, gw_f3 = F_I, gw_f4 = F_H, gw_f6 = F_H,
     gw_max = AP_MAX_DATA_BYTES, gw_step = (\<lambda>_ _ _ e. e)\<rparr>"

definition isdu_access_object_index :: "int \<Rightarrow> int \<Rightarrow> int" where
  "isdu_access_object_index md stride = 0x2001 + md * stride"

definition rejected_step :: "int \<Rightarrow> string \<Rightarrow> int \<Rightarrow> pyval \<Rightarrow> exn \<Rightarrow> exn" where
  "rejected_step index step subindex value e =
     (if isinstance e CDeviceRejected then
        DeviceRejectedException
          (case map_of (attrs e) ''operation'' of Some (PStr op) \<Rightarrow> Some op | _ \<Rightarrow> None)
          (case map_of (attrs e) ''device_code'' of Some v \<Rightarrow> v | None \<Rightarrow> PNone)
          (PStr step) (PStr (''0x'' @ hex_text 4 index)) (PInt subindex) value
      else e)"

definition isdu_format :: "int \<Rightarrow> gateway_format" where
  "isdu_format index = \<lparr>gw_index = index, gw_f2 = F_B, gw_f3 = F_H, gw_f4 = F_B, gw_f6 = F_B,
     gw_max = ISDU_MAX_DATA_BYTES, gw_step = rejected_step index\<rparr>"

text \<open>The address of a parameter: \<open>(module + 1, parameter, instance)\<close> for AP,
  \<open>(port, index, subindex)\<close> for ISDU.\<close>

type_synonym gateway_address = "int \<times> int \<times> int"

definition write_field ::
  "'s sdo_port \<Rightarrow> gateway_format \<Rightarrow> string \<Rightarrow> struct_format \<Rightarrow> int \<Rightarrow> int \<Rightarrow> ('s, exn, unit) op" where
  "write_field port gw step fm subindex v =
     catch_step gw step subindex (PInt v) (port_write port fm (gw_index gw) subindex v)"

definition write_header ::
  "'s sdo_port \<Rightarrow> gateway_format \<Rightarrow> gateway_address \<Rightarrow> int option \<Rightarrow> int option \<Rightarrow> ('s, exn, unit) op" where
  "write_header port gw a len direction =
     bindS (write_field port gw ''write port'' (gw_f2 gw) 2 (fst a)) (\<lambda>_.
     bindS (write_field port gw ''write isdu index'' (gw_f3 gw) 3 (fst (snd a))) (\<lambda>_.
     bindS (write_field port gw ''write isdu subindex'' (gw_f4 gw) 4 (snd (snd a))) (\<lambda>_.
     bindS (case len of Some n \<Rightarrow> write_field port gw ''write data length'' (gw_f6 gw) 6 n | None \<Rightarrow> retS ()) (\<lambda>_.
       case direction of Some d \<Rightarrow> write_field port gw ''write direction'' F_B 1 d | None \<Rightarrow> retS ()))))"

definition write_data_payload :: "'s sdo_port \<Rightarrow> gateway_format \<Rightarrow> bytes \<Rightarrow> ('s, exn, unit) op" where
  "write_data_payload port gw payload =
     catch_step gw ''write data'' 7 (PStr (payload_hex (payload @ zeros (int (gw_max gw) - int (length payload)))))
       (sdo_wr port (gw_index gw) 7 (payload @ zeros (int (gw_max gw) - int (length payload))))"

fun poll_status :: "'s sdo_port \<Rightarrow> gateway_format \<Rightarrow> nat \<Rightarrow> ('s, exn, int) op" where
  "poll_status port gw n =
     bindS (catch_step gw ''read isdu error'' 5 PNone (port_read port F_H (gw_index gw) 5)) (\<lambda>status.
       if status \<noteq> STATUS_BUSY then retS status
       else case n of 0 \<Rightarrow> retS status | Suc k \<Rightarrow> poll_status port gw k)"

declare poll_status.simps [simp del]

definition require_success :: "string \<Rightarrow> int \<Rightarrow> ('s, exn, unit) op" where
  "require_success operation stat =
     (if stat = 0 then retS ()
      else if stat = STATUS_BUSY then raiseS (OperationTimeoutException (Some operation) (PFloat 1))
      else raiseS (DeviceRejectedException (Some operation) (PInt stat) PNone PNone PNone PNone))"

text \<open>The write and the read of a parameter; the read returns the length the gateway reports and at
  most the requested bytes.\<close>

definition gateway_write ::
  "'s sdo_port \<Rightarrow> gateway_format \<Rightarrow> nat \<Rightarrow> string \<Rightarrow> gateway_address \<Rightarrow> bytes \<Rightarrow> ('s, exn, int) op" where
  "gateway_write port gw polls operation a payload =
     bindS (write_header port gw a (Some (int (length payload))) None) (\<lambda>_.
     bindS (write_data_payload port gw payload) (\<lambda>_.
     bindS (write_field port gw ''write direction'' F_B 1 1) (\<lambda>_.
     bindS (poll_status port gw polls) (\<lambda>status.
     bindS (require_success operation status) (\<lambda>_. retS status)))))"

definition gateway_read ::
  "'s sdo_port \<Rightarrow> gateway_format \<Rightarrow> nat \<Rightarrow> string \<Rightarrow> gateway_address \<Rightarrow> int \<Rightarrow> ('s, exn, int \<times> int \<times> bytes) op" where
  "gateway_read port gw polls operation a len =
     bindS (write_header port gw a None (Some 0)) (\<lambda>_.
     bindS (poll_status port gw polls) (\<lambda>status.
     bindS (require_success operation status) (\<lambda>_.
     bindS (catch_step gw ''read data length'' 6 PNone (port_read port (gw_f6 gw) (gw_index gw) 6)) (\<lambda>data_length.
     bindS (catch_step gw ''read data'' 7 (PInt (int (gw_max gw))) (sdo_rd port (gw_index gw) 7 (gw_max gw))) (\<lambda>data.
       retS (status, data_length, take (nat (min len (min (max 0 data_length) (int (gw_max gw))))) data))))))"

text \<open>The steps of the AP handler.\<close>

definition write_ap_access_header ::
  "'s sdo_port \<Rightarrow> gateway_address \<Rightarrow> int option \<Rightarrow> int option \<Rightarrow> ('s, exn, unit) op" where
  "write_ap_access_header port = write_header port ap_format"

definition write_ap_data_payload :: "'s sdo_port \<Rightarrow> bytes \<Rightarrow> ('s, exn, unit) op" where
  "write_ap_data_payload port = write_data_payload port ap_format"

definition poll_ap_status :: "'s sdo_port \<Rightarrow> nat \<Rightarrow> ('s, exn, int) op" where
  "poll_ap_status port = poll_status port ap_format"

definition require_ap_success :: "int \<Rightarrow> ('s, exn, unit) op" where
  "require_ap_success = require_success ''ap_parameter_access''"

definition ap_access_module_number :: "int \<Rightarrow> int" where
  "ap_access_module_number md = md + 1"

text \<open>\<open>write_ap_uint32_parameter\<close> of the device layer, with the same steps.\<close>

definition write_ap_header :: "'s sdo_port \<Rightarrow> gateway_address \<Rightarrow> int \<Rightarrow> ('s, exn, unit) op" where
  "write_ap_header port a len = write_header port ap_format a (Some len) None"

definition write_ap_uint32_parameter ::
  "'s sdo_port \<Rightarrow> nat \<Rightarrow> int \<Rightarrow> int \<Rightarrow> int \<Rightarrow> int \<Rightarrow> ('s, exn, int) op" where
  "write_ap_uint32_parameter port polls md parameter_id inst value =
     bindS (write_ap_header port (ap_access_module_number md, parameter_id, inst) 4) (\<lambda>_.
     bindS (liftE (\<lambda>_. if 0 \<le> value \<and> value < 2 ^ 32 then Inr (int_le 4 value) else Inl OverflowError)) (\<lambda>payload.
     bindS (write_data_payload port ap_format payload) (\<lambda>_.
     bindS (write_field port ap_format ''write direction'' F_B 1 1) (\<lambda>_.
     bindS (poll_status port ap_format polls) (\<lambda>status.
     bindS (require_success ''ap_parameter_write'' status) (\<lambda>_. retS status))))))"

subsection \<open>Module lists\<close>

definition MAX_MODULE_IDENTS :: int where
  "MAX_MODULE_IDENTS = 80"

definition read_module_idents :: "'s sdo_port \<Rightarrow> int \<Rightarrow> ('s, exn, int list) op" where
  "read_module_idents port index =
     bindS (port_read port F_B index 0) (\<lambda>count.
       if count > MAX_MODULE_IDENTS then raiseS RuntimeError
       else
         let step = (\<lambda>sub m. bindS m (\<lambda>xs. bindS (port_read port F_I index sub) (\<lambda>x. retS (xs @ [x]))))
         in fold step [1..count] (retS []))"

definition write_configured_module_idents :: "'s sdo_port \<Rightarrow> int list \<Rightarrow> ('s, exn, unit) op" where
  "write_configured_module_idents port idents =
     bindS (forS (enumerate 1 idents) (\<lambda>(sub, i). port_write port F_I 0xF030 (int sub) i)) (\<lambda>_.
       port_write port F_B 0xF030 0 (int (length idents)))"

definition validate_module_idents :: "int list \<Rightarrow> int list \<Rightarrow> ('s, exn, unit) op" where
  "validate_module_idents expected actual = (if expected = actual then retS () else raiseS RuntimeError)"

definition configure_ap_module_idents ::
  "'s sdo_port \<Rightarrow> EsiModuleInfo list \<Rightarrow> CPXIoConfig \<Rightarrow> ('s, exn, int list) op" where
  "configure_ap_module_idents port cat c =
     bindS (liftE (\<lambda>_. expected_module_idents cat (c_layout c))) (\<lambda>expected.
       if int (length expected) > MAX_MODULE_IDENTS then raiseS ValueError
       else
         bindS (read_module_idents port 0xF050) (\<lambda>detected.
         bindS (validate_module_idents expected detected) (\<lambda>_.
         bindS (write_configured_module_idents port expected) (\<lambda>_.
         bindS (read_module_idents port 0xF030) (\<lambda>configured.
         bindS (validate_module_idents detected configured) (\<lambda>_. retS configured))))))"

definition configure_io_link_variants ::
  "'s sdo_port \<Rightarrow> nat \<Rightarrow> EsiModuleInfo list \<Rightarrow> CPXIoConfig \<Rightarrow> ('s, exn, unit) op" where
  "configure_io_link_variants port polls cat c =
     forS (l_modules (c_layout c)) (\<lambda>m.
       if \<not> is_io_link m then retS ()
       else bindS (liftE (\<lambda>_. module_ident cat m)) (\<lambda>i.
         bindS (write_ap_uint32_parameter port polls (m_slot m) 20090 0 i) (\<lambda>_. retS ())))"

subsection \<open>The station's side\<close>

record gateway_request =
  gr_direction :: int
  gr_address :: gateway_address
  gr_length :: int
  gr_data :: bytes

record cpx_station =
  st_modules :: "(int \<times> VirtualApModule) list"
  st_stride :: int
  last_ap_request :: "gateway_request option"
  last_isdu_requests :: "int \<rightharpoonup> gateway_request"

definition read_int_od :: "int \<Rightarrow> int \<Rightarrow> VirtualOdModel \<Rightarrow> int res" where
  "read_int_od index subindex od = bindE (read_od od index (Some subindex)) int_of_value"

definition read_bytes_od :: "int \<Rightarrow> int \<Rightarrow> VirtualOdModel \<Rightarrow> bytes res" where
  "read_bytes_od index subindex od = bindE (read_od od index (Some subindex)) bytes_of_value"

text \<open>The request the subindices hold; the raw subindex 2 is the AP access module or the IO-Link
  port.\<close>

definition gateway_request_of :: "int \<Rightarrow> VirtualOdModel \<Rightarrow> gateway_request res" where
  "gateway_request_of index od =
     bindE (read_int_od index 6 od) (\<lambda>len.
     bindE (read_int_od index 1 od) (\<lambda>direction.
     bindE (read_int_od index 2 od) (\<lambda>a.
     bindE (read_int_od index 3 od) (\<lambda>b.
     bindE (read_int_od index 4 od) (\<lambda>c.
     bindE (read_bytes_od index 7 od) (\<lambda>data.
       Inr \<lparr>gr_direction = direction, gr_address = (a, b, c), gr_length = len, gr_data = py_take len data\<rparr>))))))"

definition apply_gateway_response :: "int \<Rightarrow> int \<times> bytes \<Rightarrow> (VirtualOdModel, exn, unit) op" where
  "apply_gateway_response index response =
     bindS (liftE (read_bytes_od index 7)) (\<lambda>old.
       if length (snd response) > length old then raiseS ValueError
       else
         bindS (write_internal index (PInt (fst response)) (Some 5)) (\<lambda>_.
         bindS (write_internal index (PInt (int (length (snd response)))) (Some 6)) (\<lambda>_.
           write_internal index (PBytes (snd response @ zeros (int (length old) - int (length (snd response)))))
             (Some 7))))"

text \<open>A gateway is a function of the request, \<open>None\<close> the missing gateway, which answers with status
  zero and no data.\<close>

type_synonym gateway = "(gateway_request \<Rightarrow> int \<times> bytes) option"

definition gateway_response :: "gateway \<Rightarrow> gateway_request \<Rightarrow> int \<times> bytes" where
  "gateway_response g request = (case g of None \<Rightarrow> (0, []) | Some f \<Rightarrow> f request)"

definition dispatch_ap_request :: "gateway \<Rightarrow> cpx_station \<Rightarrow> VirtualOdModel \<Rightarrow> (exn + unit) \<times> cpx_station \<times> VirtualOdModel" where
  "dispatch_ap_request g st od =
     (case gateway_request_of AP_PARAMETER_ACCESS_INDEX od of
        Inl e \<Rightarrow> (Inl e, st, od)
      | Inr request \<Rightarrow>
          (case apply_gateway_response AP_PARAMETER_ACCESS_INDEX (gateway_response g request) od of
             (r, od') \<Rightarrow> (r, st\<lparr>last_ap_request := Some request\<rparr>, od')))"

definition dispatch_isdu_request ::
  "gateway \<Rightarrow> int \<Rightarrow> int \<Rightarrow> cpx_station \<Rightarrow> VirtualOdModel \<Rightarrow> (exn + unit) \<times> cpx_station \<times> VirtualOdModel" where
  "dispatch_isdu_request g slot index st od =
     (case gateway_request_of index od of
        Inl e \<Rightarrow> (Inl e, st, od)
      | Inr request \<Rightarrow>
          (case apply_gateway_response index (gateway_response g request) od of
             (r, od') \<Rightarrow> (r, st\<lparr>last_isdu_requests := (last_isdu_requests st)(slot \<mapsto> request)\<rparr>, od')))"

definition dispatch_gateway_request ::
  "gateway \<Rightarrow> (int \<Rightarrow> gateway) \<Rightarrow> cpx_station \<Rightarrow> VirtualOdModel \<Rightarrow> (exn + unit) \<times> cpx_station \<times> VirtualOdModel" where
  "dispatch_gateway_request ap isdu st od =
     (if last_write_key od = Some (AP_PARAMETER_ACCESS_INDEX, 1) then dispatch_ap_request ap st od
      else
        case find (\<lambda>(slot, vm). module_type (vm_module vm) = ''iol'' \<and>
               last_write_key od = Some (isdu_access_object_index slot (st_stride st), 1)) (st_modules st) of
          Some (slot, _) \<Rightarrow>
            dispatch_isdu_request (isdu slot) slot (isdu_access_object_index slot (st_stride st)) st od
        | None \<Rightarrow> (Inr (), st, od))"

definition read_process_image :: "CPXPdoBlock list \<Rightarrow> VirtualOdModel \<Rightarrow> bytes res" where
  "read_process_image blocks od =
     bindE (mapE (\<lambda>b. read_bytes_od (blk_index b) (blk_subindex b) od) blocks) (\<lambda>xs. Inr (concat xs))"

fun write_process_image :: "bytes \<Rightarrow> CPXPdoBlock list \<Rightarrow> (VirtualOdModel, exn, unit) op" where
  "write_process_image payload [] = retS ()"
| "write_process_image payload (b # bs) =
     bindS (write_internal (blk_index b) (PBytes (take (blk_byte_length b) payload)) (Some (blk_subindex b))) (\<lambda>_.
       write_process_image (drop (blk_byte_length b) payload) bs)"

definition exchange_images ::
  "CPXPdoBlock list \<Rightarrow> CPXPdoBlock list \<Rightarrow> nat \<Rightarrow> cpx_station device_update" where
  "exchange_images rx_blocks tx_blocks input_size st od =
     (case read_process_image rx_blocks od of
        Inl e \<Rightarrow> (Some e, st, od)
      | Inr img \<Rightarrow>
          (case virtual_update img input_size (map snd (st_modules st)) of
             Inl e \<Rightarrow> (Some e, st\<lparr>st_modules := map (\<lambda>(s, vm). (s, consume_output_image img vm)) (st_modules st)\<rparr>, od)
           | Inr (p, vms) \<Rightarrow>
               (case write_process_image p tx_blocks od of
                  (r, od') \<Rightarrow>
                    ((case r of Inl e \<Rightarrow> Some e | Inr _ \<Rightarrow> None),
                     st\<lparr>st_modules := zip (map fst (st_modules st)) vms\<rparr>, od'))))"

definition station_update ::
  "gateway \<Rightarrow> (int \<Rightarrow> gateway) \<Rightarrow> CPXPdoBlock list \<Rightarrow> CPXPdoBlock list \<Rightarrow> nat \<Rightarrow> cpx_station device_update" where
  "station_update ap isdu rx_blocks tx_blocks input_size st od =
     (case dispatch_gateway_request ap isdu st od of
        (Inl e, st', od') \<Rightarrow> (Some e, st', od')
      | (Inr _, st', od') \<Rightarrow> exchange_images rx_blocks tx_blocks input_size st' od')"

text \<open>The SDO access of the server to a simulated station.\<close>

definition station_port :: "(pyval \<Rightarrow> string) \<Rightarrow> 'd device_update \<Rightarrow> 'd mock_slave sdo_port" where
  "station_port pstr upd =
     \<lparr>sdo_wr = slave_write_sdo upd,
      sdo_rd = (\<lambda>i k n. liftE (slave_read_sdo pstr i k (Some (int n))))\<rparr>"

subsection \<open>The exchange over a gateway object\<close>

text \<open>What the server relies on. \<open>fld s k\<close> is the value of subindex \<open>k\<close> of the gateway object, \<open>asked s\<close>
  the last request that reached the gateway, \<open>reply\<close> its answer to a request.\<close>

definition field_format :: "gateway_format \<Rightarrow> int \<Rightarrow> struct_format" where
  "field_format gw k =
     (if k = 2 then gw_f2 gw else if k = 3 then gw_f3 gw else if k = 4 then gw_f4 gw
      else if k = 6 then gw_f6 gw else F_H)"

definition padded :: "nat \<Rightarrow> bytes \<Rightarrow> bytes" where
  "padded n p = p @ zeros (int n - int (length p))"

lemma length_padded: "length p \<le> n \<Longrightarrow> length (padded n p) = n"
  by (simp add: padded_def zeros_def nat_diff_distrib)

definition address_fits :: "gateway_format \<Rightarrow> gateway_address \<Rightarrow> bool" where
  "address_fits gw a \<longleftrightarrow>
     in_range (gw_f2 gw) (fst a) \<and> in_range (gw_f3 gw) (fst (snd a)) \<and> in_range (gw_f4 gw) (snd (snd a))"

definition access_error :: "string \<Rightarrow> int \<Rightarrow> exn" where
  "access_error operation v =
     (if v = STATUS_BUSY then OperationTimeoutException (Some operation) (PFloat 1)
      else DeviceRejectedException (Some operation) (PInt v) PNone PNone PNone PNone)"

locale gateway_object =
  fixes port :: "'s sdo_port" and gw :: gateway_format and ready :: "'s \<Rightarrow> bool"
    and fld :: "'s \<Rightarrow> int \<Rightarrow> pyval" and asked :: "'s \<Rightarrow> gateway_request option"
    and reply :: "gateway_request \<Rightarrow> int \<times> bytes"
  assumes integer_fields: "fm \<in> {gw_f2 gw, gw_f3 gw, gw_f4 gw, gw_f6 gw} \<Longrightarrow> fm \<noteq> F_bool \<and> fm \<noteq> F_f"
    and length_fits: "m \<le> gw_max gw \<Longrightarrow> in_range (gw_f6 gw) (int m)"
    and reply_fits: "ready s \<Longrightarrow> 0 \<le> fst (reply r) \<and> fst (reply r) < 65536 \<and> length (snd (reply r)) \<le> gw_max gw"
    and ready_typed: "ready s \<Longrightarrow> \<exists>n p. fld s 6 = PInt n \<and> fld s 7 = PBytes p \<and> length p = gw_max gw"
    and write_int: "ready s \<Longrightarrow> k \<in> {2, 3, 4, 6} \<Longrightarrow> in_range (field_format gw k) v \<Longrightarrow>
      \<exists>t. sdo_wr port (gw_index gw) k (int_le (calcsize (field_format gw k)) v) s = (Inr (), t) \<and>
          ready t \<and> fld t = (fld s)(k := PInt v)"
    and write_bytes: "ready s \<Longrightarrow> length p = gw_max gw \<Longrightarrow>
      \<exists>t. sdo_wr port (gw_index gw) 7 p s = (Inr (), t) \<and> ready t \<and> fld t = (fld s)(7 := PBytes p)"
    and write_start: "ready s \<Longrightarrow> fld s 2 = PInt a \<Longrightarrow> fld s 3 = PInt b \<Longrightarrow> fld s 4 = PInt c \<Longrightarrow>
      fld s 6 = PInt n \<Longrightarrow> fld s 7 = PBytes p \<Longrightarrow> d \<in> {0, 1} \<Longrightarrow>
      r = \<lparr>gr_direction = d, gr_address = (a, b, c), gr_length = n, gr_data = py_take n p\<rparr> \<Longrightarrow>
      \<exists>t. sdo_wr port (gw_index gw) 1 (int_le 1 d) s = (Inr (), t) \<and> ready t \<and> asked t = Some r \<and>
          fld t = (fld s)(1 := PInt d, 5 := PInt (fst (reply r)), 6 := PInt (int (length (snd (reply r)))),
                          7 := PBytes (padded (gw_max gw) (snd (reply r))))"
    and read_int: "ready s \<Longrightarrow> k \<in> {5, 6} \<Longrightarrow> fld s k = PInt v \<Longrightarrow> in_range (field_format gw k) v \<Longrightarrow>
      sdo_rd port (gw_index gw) k (calcsize (field_format gw k)) s =
        (Inr (int_le (calcsize (field_format gw k)) v), s)"
    and read_bytes: "ready s \<Longrightarrow> fld s 7 = PBytes p \<Longrightarrow> length p = gw_max gw \<Longrightarrow>
      sdo_rd port (gw_index gw) 7 (gw_max gw) s = (Inr p, s)"
begin

lemma catch_step_ok: "m s = (Inr x, t) \<Longrightarrow> catch_step gw step k v m s = (Inr x, t)"
  by (simp add: catch_step_def)

lemma format_integer: "k \<in> {2, 3, 4, 5, 6} \<Longrightarrow> field_format gw k \<noteq> F_bool \<and> field_format gw k \<noteq> F_f"
  using integer_fields by (auto simp: field_format_def)

lemma write_field_ok:
  assumes "ready s" and "k \<in> {2, 3, 4, 6}" and "in_range (field_format gw k) v"
  shows "\<exists>t. write_field port gw step (field_format gw k) k v s = (Inr (), t) \<and> ready t \<and>
           fld t = (fld s)(k := PInt v)"
proof -
  have "field_format gw k \<noteq> F_bool" "field_format gw k \<noteq> F_f" using format_integer assms(2) by auto
  then have "struct_pack (field_format gw k) (PInt v) = Inr (int_le (calcsize (field_format gw k)) v)"
    using assms(3) by (rule pack_unpack_integer)
  then show ?thesis
    using write_int [OF assms] by (auto simp: write_field_def port_write_def opsimps intro!: catch_step_ok)
qed

lemma read_field_ok:
  assumes "ready s" and "k \<in> {5, 6}" and "fld s k = PInt v" and "in_range (field_format gw k) v"
  shows "catch_step gw step k w (port_read port (field_format gw k) (gw_index gw) k) s = (Inr v, s)"
proof -
  have "field_format gw k \<noteq> F_bool" "field_format gw k \<noteq> F_f" using format_integer assms(2) by auto
  then have "struct_unpack (field_format gw k) (int_le (calcsize (field_format gw k)) v) = Inr (PInt v)"
    using assms(4) by (rule pack_unpack_integer)
  then show ?thesis
    using read_int [OF assms] by (intro catch_step_ok) (simp add: port_read_def opsimps int_of_value_def)
qed

lemma header_ok:
  assumes "ready s" and "address_fits gw a"
  shows "\<exists>t. bindS (write_field port gw x (gw_f2 gw) 2 (fst a)) (\<lambda>_.
      bindS (write_field port gw y (gw_f3 gw) 3 (fst (snd a))) (\<lambda>_.
      bindS (write_field port gw z (gw_f4 gw) 4 (snd (snd a))) f)) s = f () t \<and> ready t \<and>
      fld t = (fld s)(2 := PInt (fst a), 3 := PInt (fst (snd a)), 4 := PInt (snd (snd a)))"
proof -
  note w = write_field_ok [where k = 2] write_field_ok [where k = 3] write_field_ok [where k = 4]
  obtain t1 where t1: "write_field port gw x (gw_f2 gw) 2 (fst a) s = (Inr (), t1)" "ready t1"
    "fld t1 = (fld s)(2 := PInt (fst a))"
    using w(1) [OF assms(1), of "fst a" x] assms(2) by (auto simp: field_format_def address_fits_def)
  obtain t2 where t2: "write_field port gw y (gw_f3 gw) 3 (fst (snd a)) t1 = (Inr (), t2)" "ready t2"
    "fld t2 = (fld t1)(3 := PInt (fst (snd a)))"
    using w(2) [OF t1(2), of "fst (snd a)" y] assms(2) by (auto simp: field_format_def address_fits_def)
  obtain t3 where t3: "write_field port gw z (gw_f4 gw) 4 (snd (snd a)) t2 = (Inr (), t3)" "ready t3"
    "fld t3 = (fld t2)(4 := PInt (snd (snd a)))"
    using w(3) [OF t2(2), of "snd (snd a)" z] assms(2) by (auto simp: field_format_def address_fits_def)
  show ?thesis using t1 t2 t3 by (intro exI [of _ t3]) simp
qed

lemma start_ok:
  assumes "ready s" and "fld s 2 = PInt a" and "fld s 3 = PInt b" and "fld s 4 = PInt c"
    and "fld s 6 = PInt n" and "fld s 7 = PBytes p" and "d \<in> {0, 1}"
    and "r = \<lparr>gr_direction = d, gr_address = (a, b, c), gr_length = n, gr_data = py_take n p\<rparr>"
  shows "\<exists>t. write_field port gw step F_B 1 d s = (Inr (), t) \<and> ready t \<and> asked t = Some r \<and>
    fld t 5 = PInt (fst (reply r)) \<and> fld t 6 = PInt (int (length (snd (reply r)))) \<and>
    fld t 7 = PBytes (padded (gw_max gw) (snd (reply r)))"
proof -
  have "struct_pack F_B (PInt d) = Inr (int_le 1 d)"
    using pack_unpack_integer(1) [of F_B d] assms(7) by (auto simp: in_range_def signed_format_def)
  with write_start [OF assms] show ?thesis
    by (auto simp: write_field_def port_write_def opsimps intro!: catch_step_ok)
qed

lemma poll_status_ok:
  assumes "ready s" and "fld s 5 = PInt v" and "0 \<le> v" and "v < 65536"
  shows "poll_status port gw n s = (Inr v, s)"
proof (induction n)
  have *: "catch_step gw step 5 w (port_read port F_H (gw_index gw) 5) s = (Inr v, s)" for step w
    using read_field_ok [of s 5 v step w] assms by (simp add: field_format_def in_range_def signed_format_def)
  case 0
  show ?case by (subst poll_status.simps) (simp add: * opsimps)
  case (Suc n)
  then show ?case by (subst poll_status.simps) (simp add: * opsimps)
qed

lemma success_outcome:
  "bindS (require_success operation v) f s =
     (if v = 0 then f () s else (Inl (access_error operation v), s))"
  by (simp add: require_success_def access_error_def opsimps)

lemma write_exchange:
  assumes "ready s" and "address_fits gw a" and len: "length payload \<le> gw_max gw"
    and r: "r = \<lparr>gr_direction = 1, gr_address = a, gr_length = int (length payload), gr_data = payload\<rparr>"
  shows "\<exists>t. gateway_write port gw n operation a payload s =
      (if fst (reply r) = 0 then Inr 0 else Inl (access_error operation (fst (reply r))), t) \<and>
      ready t \<and> asked t = Some r"
proof -
  obtain t1 where t1: "ready t1" "fld t1 = (fld s)(2 := PInt (fst a), 3 := PInt (fst (snd a)), 4 := PInt (snd (snd a)))"
    "write_header port gw a (Some (int (length payload))) None s =
       bindS (write_field port gw ''write data length'' (gw_f6 gw) 6 (int (length payload))) (\<lambda>_. retS ()) t1"
    using header_ok [OF assms(1,2), where f = "\<lambda>_. bindS (write_field port gw ''write data length'' (gw_f6 gw) 6
        (int (length payload))) (\<lambda>_. retS ())" and x = "''write port''" and y = "''write isdu index''"
        and z = "''write isdu subindex''"] by (auto simp: write_header_def)
  obtain t2 where t2: "write_field port gw ''write data length'' (gw_f6 gw) 6 (int (length payload)) t1 = (Inr (), t2)"
    "ready t2" "fld t2 = (fld t1)(6 := PInt (int (length payload)))"
    using write_field_ok [OF t1(1), of 6 "int (length payload)" "''write data length''"] length_fits [OF len]
    by (auto simp: field_format_def)
  have "length (payload @ zeros (int (gw_max gw) - int (length payload))) = gw_max gw"
    using len by (simp add: zeros_def)
  then obtain t3 where t3: "write_data_payload port gw payload t2 = (Inr (), t3)" "ready t3"
    "fld t3 = (fld t2)(7 := PBytes (payload @ zeros (int (gw_max gw) - int (length payload))))"
    using write_bytes [OF t2(2)] unfolding write_data_payload_def by (metis catch_step_ok)
  have "r = \<lparr>gr_direction = 1, gr_address = (fst a, fst (snd a), snd (snd a)), gr_length = int (length payload),
      gr_data = py_take (int (length payload)) (payload @ zeros (int (gw_max gw) - int (length payload)))\<rparr>"
    unfolding r by (simp add: py_take_def slice_bound_def)
  then obtain t4 where t4: "write_field port gw ''write direction'' F_B 1 1 t3 = (Inr (), t4)" "ready t4"
    "asked t4 = Some r" "fld t4 5 = PInt (fst (reply r))"
    using start_ok [OF t3(2), of "fst a" "fst (snd a)" "snd (snd a)" "int (length payload)" _ 1 r "''write direction''"]
      t3(3) t2(3) t1(2) by auto
  have "poll_status port gw n t4 = (Inr (fst (reply r)), t4)"
    using poll_status_ok [OF t4(2,4)] reply_fits [OF t4(2)] by simp
  then show ?thesis
    using t1(3) t2(1) t3(1) t4 by (intro exI [of _ t4]) (simp add: gateway_write_def success_outcome opsimps)
qed

lemma read_exchange:
  assumes "ready s" and "address_fits gw a" and "0 \<le> len"
  shows "\<exists>r t. gr_direction r = 0 \<and> gr_address r = a \<and> ready t \<and> asked t = Some r \<and>
      gateway_read port gw n operation a len s =
        (if fst (reply r) = 0 then Inr (0, int (length (snd (reply r))), take (nat len) (snd (reply r)))
         else Inl (access_error operation (fst (reply r))), t)"
proof -
  obtain t1 where t1: "ready t1" "fld t1 = (fld s)(2 := PInt (fst a), 3 := PInt (fst (snd a)), 4 := PInt (snd (snd a)))"
    "write_header port gw a None (Some 0) s = write_field port gw ''write direction'' F_B 1 0 t1"
    using header_ok [OF assms(1,2), where f = "\<lambda>_. bindS (retS ()) (\<lambda>_. write_field port gw ''write direction'' F_B 1 0)"
        and x = "''write port''" and y = "''write isdu index''" and z = "''write isdu subindex''"]
    by (auto simp: write_header_def bindS_prims(1))
  obtain k p where kp: "fld s 6 = PInt k" "fld s 7 = PBytes p" using ready_typed [OF assms(1)] by blast
  define r where "r = \<lparr>gr_direction = 0, gr_address = a, gr_length = k, gr_data = py_take k p\<rparr>"
  then obtain t2 where t2: "write_field port gw ''write direction'' F_B 1 0 t1 = (Inr (), t2)" "ready t2"
    "asked t2 = Some r" "fld t2 5 = PInt (fst (reply r))" "fld t2 6 = PInt (int (length (snd (reply r))))"
    "fld t2 7 = PBytes (padded (gw_max gw) (snd (reply r)))"
    using start_ok [OF t1(1), of "fst a" "fst (snd a)" "snd (snd a)" k p 0 r "''write direction''"] t1(2) kp by auto
  note fits = reply_fits [OF t2(2), of r]
  have poll: "poll_status port gw n t2 = (Inr (fst (reply r)), t2)"
    using poll_status_ok [OF t2(2,4)] fits by simp
  have l6: "catch_step gw ''read data length'' 6 PNone (port_read port (gw_f6 gw) (gw_index gw) 6) t2 =
      (Inr (int (length (snd (reply r)))), t2)"
    using read_field_ok [OF t2(2) _ t2(5)] length_fits fits by (simp add: field_format_def)
  have "length (padded (gw_max gw) (snd (reply r))) = gw_max gw"
    using fits by (simp add: length_padded)
  then have d7: "catch_step gw ''read data'' 7 (PInt (int (gw_max gw))) (sdo_rd port (gw_index gw) 7 (gw_max gw)) t2 =
      (Inr (padded (gw_max gw) (snd (reply r))), t2)"
    using read_bytes [OF t2(2,6)] by (intro catch_step_ok)
  have "take (nat (min len (min (max 0 (int (length (snd (reply r))))) (int (gw_max gw)))))
      (padded (gw_max gw) (snd (reply r))) = take (nat len) (snd (reply r))"
    using fits assms(3) by (auto simp: padded_def min_def nat_le_iff)
  then have "gateway_read port gw n operation a len s =
      (if fst (reply r) = 0 then Inr (0, int (length (snd (reply r))), take (nat len) (snd (reply r)))
       else Inl (access_error operation (fst (reply r))), t2)"
    using t1(3) t2(1) poll l6 d7 by (simp add: gateway_read_def success_outcome opsimps)
  then show ?thesis using t2(2,3) by (intro exI [of _ r] exI [of _ t2]) (simp add: r_def)
qed

end

subsection \<open>The gateways of the simulated station\<close>

text \<open>Values and definitions of the dictionary, by storage key.\<close>

definition od_vals :: "VirtualOdModel \<Rightarrow> int \<times> int \<rightharpoonup> pyval" where
  "od_vals od k = map_option ve_value (map_of (od_entries od) k)"

definition od_defs :: "VirtualOdModel \<Rightarrow> int \<times> int \<rightharpoonup> VirtualOdDefinition" where
  "od_defs od k = map_option ve_definition (map_of (od_entries od) k)"

lemma read_od_vals: "od_vals od (i, k) = Some v \<Longrightarrow> read_od od i (Some k) = Inr v"
  by (auto simp: od_vals_def read_od_def storage_key_def)

lemma bridge_definition_defs: "od_defs od (i, k) = Some d \<Longrightarrow> bridge_definition i k od = Inr d"
  by (auto simp: od_defs_def bridge_definition_def od_definition_def storage_key_def)

lemma write_internal_vals:
  assumes "od_vals od (i, k) = Some w"
  obtains od' where "write_internal i v (Some k) od = (Inr (), od')"
    and "od_vals od' = (od_vals od)((i, k) \<mapsto> v)" and "od_defs od' = od_defs od"
    and "last_write_key od' = last_write_key od"
proof -
  obtain en where en: "map_of (od_entries od) (i, k) = Some en" using assms by (auto simp: od_vals_def)
  show thesis
    by (rule that [of "put_entry (i, k) (en\<lparr>ve_value := v\<rparr>) od"])
      (auto simp: write_internal_def storage_key_def en od_vals_def od_defs_def fun_eq_iff put_entry_def update_conv')
qed

lemma bridge_write_vals:
  assumes d: "od_defs od (i, k) = Some d" and "lower (vd_access d) \<noteq> ''ro''"
    and "decode_od_value (vd_data_type d) p = Inr v"
  obtains od' where "bridge_write_sdo i k p od = (Inr (), od')"
    and "od_vals od' = (od_vals od)((i, k) \<mapsto> v)" and "od_defs od' = od_defs od"
    and "last_write_key od' = Some (i, k)"
proof -
  obtain w where "od_vals od (i, k) = Some w" using d by (auto simp: od_vals_def od_defs_def)
  then obtain od1 where od1: "write_internal i v (Some k) od = (Inr (), od1)"
    "od_vals od1 = (od_vals od)((i, k) \<mapsto> v)" "od_defs od1 = od_defs od" by (rule write_internal_vals)
  show thesis
    by (rule that [of "od1\<lparr>last_write_key := Some (i, k), write_generation := write_generation od1 + 1\<rparr>"])
      (use od1 assms bridge_definition_defs [OF d] in
        \<open>auto simp: bridge_write_sdo_def write_od_def opsimps storage_key_def od_vals_def od_defs_def fun_eq_iff\<close>)
qed

abbreviation block_key :: "CPXPdoBlock \<Rightarrow> int \<times> int" where
  "block_key b \<equiv> (blk_index b, blk_subindex b)"

definition holds_bytes :: "VirtualOdModel \<Rightarrow> int \<times> int \<Rightarrow> bool" where
  "holds_bytes od k \<longleftrightarrow> (\<exists>p. od_vals od k = Some (PBytes p))"

lemma read_process_image_ok:
  assumes "\<forall>b \<in> set bs. holds_bytes od (block_key b)"
  shows "\<exists>img. read_process_image bs od = Inr img"
proof -
  have "\<exists>p. read_bytes_od (blk_index b) (blk_subindex b) od = Inr p" if "b \<in> set bs" for b
    using assms that by (auto simp: holds_bytes_def read_bytes_od_def bytes_of_value_def dest!: read_od_vals)
  then have "mapE (\<lambda>b. read_bytes_od (blk_index b) (blk_subindex b) od) bs =
      Inr (map (\<lambda>b. SOME p. read_bytes_od (blk_index b) (blk_subindex b) od = Inr p) bs)"
    by (intro mapE_total ballI) (metis (mono_tags, lifting) someI_ex)
  then show ?thesis by (simp add: read_process_image_def)
qed

lemma write_process_image_ok:
  assumes "\<forall>b \<in> set bs. holds_bytes od (block_key b)"
  shows "\<exists>od'. write_process_image p bs od = (Inr (), od') \<and> od_defs od' = od_defs od \<and>
    (\<forall>k. k \<notin> block_key ` set bs \<longrightarrow> od_vals od' k = od_vals od k) \<and>
    (\<forall>k. holds_bytes od k \<longrightarrow> holds_bytes od' k)"
  using assms
proof (induction bs arbitrary: p od)
  case Nil
  then show ?case by (simp add: opsimps)
next
  case (Cons b bs)
  then obtain w where "od_vals od (block_key b) = Some w" by (auto simp: holds_bytes_def)
  then obtain od1 where w: "write_internal (blk_index b) (PBytes (take (blk_byte_length b) p)) (Some (blk_subindex b)) od = (Inr (), od1)"
    "od_vals od1 = (od_vals od)(block_key b \<mapsto> PBytes (take (blk_byte_length b) p))" "od_defs od1 = od_defs od"
    by (rule write_internal_vals)
  have keep: "holds_bytes od k \<Longrightarrow> holds_bytes od1 k" for k using w(2) by (auto simp: holds_bytes_def)
  with Cons.prems have "\<forall>b \<in> set bs. holds_bytes od1 (block_key b)" by auto
  from Cons.IH [OF this, of "drop (blk_byte_length b) p"] obtain od' where
    IH: "write_process_image (drop (blk_byte_length b) p) bs od1 = (Inr (), od')" "od_defs od' = od_defs od1"
    "\<forall>k. k \<notin> block_key ` set bs \<longrightarrow> od_vals od' k = od_vals od1 k"
    "\<forall>k. holds_bytes od1 k \<longrightarrow> holds_bytes od' k" by blast
  show ?case
    using w IH keep by (intro exI [of _ od']) auto
qed

text \<open>The process image can be exchanged: its objects hold bytes and the inputs of the modules fit.\<close>

definition images_ok ::
  "CPXPdoBlock list \<Rightarrow> CPXPdoBlock list \<Rightarrow> nat \<Rightarrow> cpx_station \<Rightarrow> VirtualOdModel \<Rightarrow> bool" where
  "images_ok rx tx sz st od \<longleftrightarrow>
     (\<forall>b \<in> set rx \<union> set tx. holds_bytes od (block_key b)) \<and>
     (\<exists>p. encode_modules publish_input_image (map snd (st_modules st)) (zeros (int sz)) = Inr p)"

lemma encode_consumed:
  "encode_modules publish_input_image (map (consume_output_image img) vms) p = encode_modules publish_input_image vms p"
  by (induction vms arbitrary: p) (auto simp: publish_consumed bindE_def split: sum.split)

definition same_slots :: "cpx_station \<Rightarrow> cpx_station \<Rightarrow> bool" where
  "same_slots st st' \<longleftrightarrow>
     map (\<lambda>(k, vm). (k, vm_module vm)) (st_modules st') = map (\<lambda>(k, vm). (k, vm_module vm)) (st_modules st) \<and>
     st_stride st' = st_stride st \<and> last_ap_request st' = last_ap_request st \<and>
     last_isdu_requests st' = last_isdu_requests st"

lemma exchange_images_ok:
  assumes "images_ok rx tx sz st od"
  shows "\<exists>st' od'. exchange_images rx tx sz st od = (None, st', od') \<and> images_ok rx tx sz st' od' \<and>
    same_slots st st' \<and> od_defs od' = od_defs od \<and>
    (\<forall>k. k \<notin> block_key ` set tx \<longrightarrow> od_vals od' k = od_vals od k)"
proof -
  obtain img where img: "read_process_image rx od = Inr img"
    using assms read_process_image_ok [of rx od] by (auto simp: images_ok_def)
  define vms where "vms = map (consume_output_image img) (map snd (st_modules st))"
  obtain p where p: "encode_modules publish_input_image vms (zeros (int sz)) = Inr p"
    using assms unfolding vms_def encode_consumed by (auto simp: images_ok_def)
  obtain od' where od': "write_process_image p tx od = (Inr (), od')" "od_defs od' = od_defs od"
    "\<forall>k. k \<notin> block_key ` set tx \<longrightarrow> od_vals od' k = od_vals od k"
    "\<forall>k. holds_bytes od k \<longrightarrow> holds_bytes od' k"
    using assms write_process_image_ok [of tx od p] by (auto simp: images_ok_def)
  define st' where "st' = st\<lparr>st_modules := zip (map fst (st_modules st)) vms\<rparr>"
  have len: "length vms = length (st_modules st)" by (simp add: vms_def)
  have "exchange_images rx tx sz st od = (None, st', od')"
    using img p od'(1) by (simp add: exchange_images_def virtual_update_def vms_def st'_def)
  moreover have "images_ok rx tx sz st' od'"
    using assms od'(4) p len by (auto simp: images_ok_def st'_def)
  moreover have "same_slots st st'"
    by (auto simp: same_slots_def st'_def vms_def zip_map_map zip_same_conv_map o_def case_prod_beta)
  ultimately show ?thesis using od'(2,3) by blast
qed

datatype gateway_target = Ap | Isdu int

fun target_format :: "int \<Rightarrow> gateway_target \<Rightarrow> gateway_format" where
  "target_format stride Ap = ap_format"
| "target_format stride (Isdu slot) = isdu_format (isdu_access_object_index slot stride)"

fun target_reply :: "gateway \<Rightarrow> (int \<Rightarrow> gateway) \<Rightarrow> gateway_target \<Rightarrow> gateway_request \<Rightarrow> int \<times> bytes" where
  "target_reply ap isdu Ap = gateway_response ap"
| "target_reply ap isdu (Isdu slot) = gateway_response (isdu slot)"

fun target_asked :: "gateway_target \<Rightarrow> cpx_station \<Rightarrow> gateway_request option" where
  "target_asked Ap st = last_ap_request st"
| "target_asked (Isdu slot) st = last_isdu_requests st slot"

text \<open>The target of a station: the AP gateway always, an ISDU gateway for a slot with an IO-Link
  master.\<close>

fun has_target :: "gateway_target \<Rightarrow> cpx_station \<Rightarrow> bool" where
  "has_target Ap st = True"
| "has_target (Isdu slot) st \<longleftrightarrow>
     st_stride st \<noteq> 0 \<and> isdu_access_object_index slot (st_stride st) \<noteq> AP_PARAMETER_ACCESS_INDEX \<and>
     (\<exists>m. (slot, m) \<in> set (map (\<lambda>(k, vm). (k, vm_module vm)) (st_modules st)) \<and> module_type m = ''iol'')"

definition dispatched ::
  "gateway_target \<Rightarrow> gateway_request \<Rightarrow> cpx_station \<Rightarrow> cpx_station" where
  "dispatched g r st =
     (case g of Ap \<Rightarrow> st\<lparr>last_ap_request := Some r\<rparr>
      | Isdu slot \<Rightarrow> st\<lparr>last_isdu_requests := (last_isdu_requests st)(slot \<mapsto> r)\<rparr>)"

lemma dispatch_target:
  assumes "has_target g st" and "last_write_key od = Some (gw_index (target_format (st_stride st) g), 1)"
    and "gateway_request_of (gw_index (target_format (st_stride st) g)) od = Inr r"
    and "apply_gateway_response (gw_index (target_format (st_stride st) g)) (target_reply ap isdu g r) od = (Inr (), od')"
  shows "dispatch_gateway_request ap isdu st od = (Inr (), dispatched g r st, od')"
proof (cases g)
  case Ap
  with assms show ?thesis
    by (simp add: dispatch_gateway_request_def dispatch_ap_request_def dispatched_def ap_format_def)
next
  case (Isdu slot)
  let ?P = "\<lambda>(k, vm). module_type (vm_module vm) = ''iol'' \<and>
      last_write_key od = Some (isdu_access_object_index k (st_stride st), 1)"
  have ix: "last_write_key od = Some (isdu_access_object_index slot (st_stride st), 1)"
    using assms(2) Isdu by (simp add: isdu_format_def)
  obtain vm where vm: "(slot, vm) \<in> set (st_modules st)" "module_type (vm_module vm) = ''iol''"
    using assms(1) Isdu by auto
  have "find ?P (st_modules st) \<noteq> None" using vm ix by (auto simp: find_None_iff)
  then obtain x where x: "find ?P (st_modules st) = Some x" by blast
  then have "?P x" by (auto simp: find_Some_iff)
  then have "fst x = slot"
    using ix assms(1) Isdu by (cases x) (auto simp: isdu_access_object_index_def)
  then show ?thesis
    using assms ix x Isdu by (cases x) (simp add: dispatch_gateway_request_def dispatch_isdu_request_def dispatched_def isdu_format_def)
qed

lemma no_dispatch:
  "last_write_key od = Some (i, k) \<Longrightarrow> k \<noteq> 1 \<Longrightarrow> dispatch_gateway_request ap isdu st od = (Inr (), st, od)"
  by (auto simp: dispatch_gateway_request_def find_None_iff split: option.split prod.split dest: find_Some_iff [THEN iffD1])

text \<open>The gateway object is in the dictionary with fields of the widths the server uses.\<close>

definition scalar_field :: "VirtualOdModel \<Rightarrow> int \<times> int \<Rightarrow> struct_format \<Rightarrow> bool" where
  "scalar_field od k fm \<longleftrightarrow>
     (\<exists>d. od_defs od k = Some d \<and> map_of DATA_TYPE_FORMATS (normalize_od_data_type (vd_data_type d)) = Some fm \<and>
        (snd k \<noteq> 5 \<longrightarrow> lower (vd_access d) \<noteq> ''ro''))"

definition gateway_wired :: "gateway_format \<Rightarrow> VirtualOdModel \<Rightarrow> bool" where
  "gateway_wired gw od \<longleftrightarrow>
     scalar_field od (gw_index gw, 1) F_B \<and>
     (\<forall>k \<in> {2, 3, 4, 5, 6}. scalar_field od (gw_index gw, k) (field_format gw k)) \<and>
     (\<exists>d. od_defs od (gw_index gw, 7) = Some d \<and> lower (vd_access d) \<noteq> ''ro'' \<and>
        is_byte_array_type (normalize_od_data_type (vd_data_type d)))"

definition gateway_typed :: "gateway_format \<Rightarrow> VirtualOdModel \<Rightarrow> bool" where
  "gateway_typed gw od \<longleftrightarrow>
     (\<forall>k \<in> {1, 2, 3, 4, 5, 6}. \<exists>v. od_vals od (gw_index gw, k) = Some (PInt v)) \<and>
     (\<exists>p. od_vals od (gw_index gw, 7) = Some (PBytes p) \<and> length p = gw_max gw)"

definition replies_fit :: "nat \<Rightarrow> (gateway_request \<Rightarrow> int \<times> bytes) \<Rightarrow> bool" where
  "replies_fit n reply \<longleftrightarrow>
     (\<forall>r. 0 \<le> fst (reply r) \<and> fst (reply r) < 65536 \<and> length (snd (reply r)) \<le> n)"

definition gateway_ready ::
  "gateway \<Rightarrow> (int \<Rightarrow> gateway) \<Rightarrow> CPXPdoBlock list \<Rightarrow> CPXPdoBlock list \<Rightarrow> nat \<Rightarrow> int \<Rightarrow> gateway_target
   \<Rightarrow> cpx_station mock_slave \<Rightarrow> bool" where
  "gateway_ready ap isdu rx tx sz stride g s \<longleftrightarrow>
     (let gw = target_format stride g in
      replies_fit (gw_max gw) (target_reply ap isdu g) \<and> st_stride (device s) = stride \<and>
      has_target g (device s) \<and> images_ok rx tx sz (device s) (device_od s) \<and>
      (\<forall>b \<in> set rx \<union> set tx. blk_index b \<noteq> gw_index gw) \<and>
      gateway_wired gw (device_od s) \<and> gateway_typed gw (device_od s))"

definition gateway_field :: "int \<Rightarrow> cpx_station mock_slave \<Rightarrow> int \<Rightarrow> pyval" where
  "gateway_field i s k = (case od_vals (device_od s) (i, k) of Some v \<Rightarrow> v | None \<Rightarrow> PNone)"

lemma has_target_same: "same_slots st st' \<Longrightarrow> has_target g st' = has_target g st"
  unfolding same_slots_def by (cases g) (simp_all only: has_target.simps)

lemma target_asked_same: "same_slots st st' \<Longrightarrow> target_asked g st' = target_asked g st"
  by (cases g) (simp_all add: same_slots_def)

lemma dispatched_facts:
  "st_stride (dispatched g r st) = st_stride st" "has_target g' (dispatched g r st) = has_target g' st"
  "images_ok rx tx sz (dispatched g r st) od = images_ok rx tx sz st od"
  "target_asked g (dispatched g r st) = Some r"
  by (cases g; cases g'; simp add: dispatched_def images_ok_def)+

text \<open>One SDO write to a field of the gateway object: the dictionary takes the value, the station
  answers if the write was the start of an access, and the images are exchanged.\<close>

lemma images_ok_outside:
  assumes "images_ok rx tx sz st od" and "\<forall>b \<in> set rx \<union> set tx. od_vals od' (block_key b) = od_vals od (block_key b)"
  shows "images_ok rx tx sz st od'"
  using assms unfolding images_ok_def holds_bytes_def by auto

lemma finish_write:
  assumes "bridge_write_sdo i k p (device_od s) = (Inr (), od1)"
    and "dispatch_gateway_request ap isdu (device s) od1 = (Inr (), st2, od2)"
    and "images_ok rx tx sz st2 od2" and apart: "\<forall>b \<in> set rx \<union> set tx. blk_index b \<noteq> i"
  shows "\<exists>t. slave_write_sdo (station_update ap isdu rx tx sz) i k p s = (Inr (), t) \<and>
    images_ok rx tx sz (device t) (device_od t) \<and> same_slots st2 (device t) \<and>
    od_defs (device_od t) = od_defs od2 \<and> (\<forall>j. od_vals (device_od t) (i, j) = od_vals od2 (i, j))"
proof -
  obtain st' od' where e: "exchange_images rx tx sz st2 od2 = (None, st', od')" "images_ok rx tx sz st' od'"
    "same_slots st2 st'" "od_defs od' = od_defs od2"
    "\<forall>k. k \<notin> block_key ` set tx \<longrightarrow> od_vals od' k = od_vals od2 k"
    using exchange_images_ok [OF assms(3)] by blast
  have "(i, j) \<notin> block_key ` set tx" for j using apart by auto
  then show ?thesis
    using assms(1,2) e
    by (intro exI [of _ "s\<lparr>device := st', device_od := od'\<rparr>"])
      (simp add: slave_write_sdo_def on_od_def slave_model_update_def station_update_def)
qed

lemma gateway_wired_defs: "od_defs od' = od_defs od \<Longrightarrow> gateway_wired gw od' = gateway_wired gw od"
  by (simp add: gateway_wired_def scalar_field_def)

lemma gateway_ready_after:
  assumes "gateway_ready ap isdu rx tx sz stride g s"
    and "st_stride st2 = st_stride (device s)" and "has_target g st2 = has_target g (device s)"
    and "images_ok rx tx sz (device t) (device_od t)" and "same_slots st2 (device t)"
    and "od_defs (device_od t) = od_defs (device_od s)"
    and "gateway_typed (target_format stride g) (device_od t)"
  shows "gateway_ready ap isdu rx tx sz stride g t"
  using assms has_target_same [OF assms(5), of g] gateway_wired_defs [OF assms(6)]
  by (auto simp: gateway_ready_def Let_def same_slots_def)

lemma plain_write:
  assumes ready: "gateway_ready ap isdu rx tx sz stride g s" and i: "i = gw_index (target_format stride g)"
    and d: "od_defs (device_od s) (i, k) = Some d" "lower (vd_access d) \<noteq> ''ro''"
    and v: "decode_od_value (vd_data_type d) p = Inr v" and "k \<noteq> 1"
    and typed: "\<And>od. (\<forall>j. od_vals od (i, j) = ((od_vals (device_od s))((i, k) \<mapsto> v)) (i, j)) \<Longrightarrow>
       gateway_typed (target_format stride g) od"
  shows "\<exists>t. slave_write_sdo (station_update ap isdu rx tx sz) i k p s = (Inr (), t) \<and>
    gateway_ready ap isdu rx tx sz stride g t \<and> gateway_field i t = (gateway_field i s)(k := v)"
proof -
  obtain od1 where od1: "bridge_write_sdo i k p (device_od s) = (Inr (), od1)"
    "od_vals od1 = (od_vals (device_od s))((i, k) \<mapsto> v)" "od_defs od1 = od_defs (device_od s)"
    "last_write_key od1 = Some (i, k)"
    using bridge_write_vals [OF d v] .
  have apart: "\<forall>b \<in> set rx \<union> set tx. blk_index b \<noteq> i" and im: "images_ok rx tx sz (device s) (device_od s)"
    using ready i by (auto simp: gateway_ready_def Let_def)
  have "images_ok rx tx sz (device s) od1"
    using apart od1(2) by (intro images_ok_outside [OF im]) auto
  from finish_write [OF od1(1) no_dispatch [OF od1(4) \<open>k \<noteq> 1\<close>] this apart] obtain t where
    t: "slave_write_sdo (station_update ap isdu rx tx sz) i k p s = (Inr (), t)"
    "images_ok rx tx sz (device t) (device_od t)" "same_slots (device s) (device t)"
    "od_defs (device_od t) = od_defs od1" "\<forall>j. od_vals (device_od t) (i, j) = od_vals od1 (i, j)" by blast
  have "gateway_typed (target_format stride g) (device_od t)" using t(5) od1(2) by (intro typed) auto
  then have "gateway_ready ap isdu rx tx sz stride g t"
    using gateway_ready_after [OF ready refl refl t(2,3)] t(4) od1(3) by simp
  then show ?thesis
    using t(1,5) od1(2) by (intro exI [of _ t]) (auto simp: gateway_field_def fun_eq_iff)
qed

lemma integer_payload:
  assumes "map_of DATA_TYPE_FORMATS (normalize_od_data_type dt) = Some fm" and "fm \<noteq> F_bool" "fm \<noteq> F_f" "in_range fm v"
  shows "decode_od_value dt (int_le (calcsize fm) v) = Inr (PInt v)"
    and "encode_od_value pstr dt (PInt v) n = Inr (int_le (calcsize fm) v)"
  using pack_unpack_integer [OF assms(2-4)] decode_scalar [OF assms(1)] encode_scalar [OF assms(1)] assms(3)
  by (simp_all add: int_of_value_def)

lemma target_facts:
  "gw_f2 (target_format stride g) \<notin> {F_bool, F_f}" "gw_f3 (target_format stride g) \<notin> {F_bool, F_f}"
  "gw_f4 (target_format stride g) \<notin> {F_bool, F_f}" "gw_f6 (target_format stride g) \<notin> {F_bool, F_f}"
  "k \<le> gw_max (target_format stride g) \<Longrightarrow> in_range (gw_f6 (target_format stride g)) (int k)"
  by (cases g; simp add: ap_format_def isdu_format_def in_range_def signed_format_def AP_MAX_DATA_BYTES_def
      ISDU_MAX_DATA_BYTES_def)+

lemma response_applied:
  assumes "gateway_typed gw od" and "length (snd response) \<le> gw_max gw"
  shows "\<exists>od'. apply_gateway_response (gw_index gw) response od = (Inr (), od') \<and> od_defs od' = od_defs od \<and>
    od_vals od' = (od_vals od)((gw_index gw, 5) \<mapsto> PInt (fst response),
      (gw_index gw, 6) \<mapsto> PInt (int (length (snd response))),
      (gw_index gw, 7) \<mapsto> PBytes (padded (gw_max gw) (snd response)))"
proof -
  let ?i = "gw_index gw"
  obtain w5 w6 p where w: "od_vals od (?i, 5) = Some (PInt w5)" "od_vals od (?i, 6) = Some (PInt w6)"
    "od_vals od (?i, 7) = Some (PBytes p)" "length p = gw_max gw" using assms(1) by (auto simp: gateway_typed_def)
  obtain od1 where o1: "write_internal ?i (PInt (fst response)) (Some 5) od = (Inr (), od1)"
    "od_vals od1 = (od_vals od)((?i, 5) \<mapsto> PInt (fst response))" "od_defs od1 = od_defs od"
    using write_internal_vals [OF w(1)] by blast
  have "od_vals od1 (?i, 6) = Some (PInt w6)" using o1(2) w(2) by simp
  then obtain od2 where o2: "write_internal ?i (PInt (int (length (snd response)))) (Some 6) od1 = (Inr (), od2)"
    "od_vals od2 = (od_vals od1)((?i, 6) \<mapsto> PInt (int (length (snd response))))" "od_defs od2 = od_defs od1"
    using write_internal_vals by blast
  have "od_vals od2 (?i, 7) = Some (PBytes p)" using o1(2) o2(2) w(3) by simp
  then obtain od3 where o3: "write_internal ?i (PBytes (padded (gw_max gw) (snd response))) (Some 7) od2 = (Inr (), od3)"
    "od_vals od3 = (od_vals od2)((?i, 7) \<mapsto> PBytes (padded (gw_max gw) (snd response)))" "od_defs od3 = od_defs od2"
    using write_internal_vals by blast
  have "read_bytes_od ?i 7 od = Inr p" using read_od_vals [OF w(3)] by (simp add: read_bytes_od_def bytes_of_value_def)
  then show ?thesis
    using o1 o2 o3 w(4) assms(2) by (intro exI [of _ od3]) (simp add: apply_gateway_response_def opsimps padded_def)
qed

lemma field_value:
  "gateway_typed gw od \<Longrightarrow> k \<in> {1, 2, 3, 4, 5, 6} \<Longrightarrow> \<exists>v. od_vals od (gw_index gw, k) = Some (PInt v)"
  by (auto simp: gateway_typed_def)

lemma gateway_typed_update:
  assumes "gateway_typed gw od" and "\<forall>j. od_vals od' (gw_index gw, j) = ((od_vals od)((gw_index gw, k) \<mapsto> v)) (gw_index gw, j)"
    and "k \<in> {1, 2, 3, 4, 5, 6} \<and> (\<exists>x. v = PInt x) \<or> k = 7 \<and> (\<exists>p. v = PBytes p \<and> length p = gw_max gw)"
  shows "gateway_typed gw od'"
  using assms unfolding gateway_typed_def by auto

lemma start_write:
  assumes ready: "gateway_ready ap isdu rx tx sz stride g s" and gw: "gw = target_format stride g"
    and f: "gateway_field (gw_index gw) s 2 = PInt a" "gateway_field (gw_index gw) s 3 = PInt b"
      "gateway_field (gw_index gw) s 4 = PInt c" "gateway_field (gw_index gw) s 6 = PInt n"
      "gateway_field (gw_index gw) s 7 = PBytes p"
    and d: "d \<in> {0, 1}"
    and r: "r = \<lparr>gr_direction = d, gr_address = (a, b, c), gr_length = n, gr_data = py_take n p\<rparr>"
    and reply: "target_reply ap isdu g r = (status5, data)"
  shows "\<exists>t. slave_write_sdo (station_update ap isdu rx tx sz) (gw_index gw) 1 (int_le 1 d) s = (Inr (), t) \<and>
    gateway_ready ap isdu rx tx sz stride g t \<and> target_asked g (device t) = Some r \<and>
    gateway_field (gw_index gw) t = (gateway_field (gw_index gw) s)(1 := PInt d, 5 := PInt status5,
      6 := PInt (int (length data)), 7 := PBytes (padded (gw_max gw) data))"
proof -
  let ?i = "gw_index gw"
  have gr: "replies_fit (gw_max gw) (target_reply ap isdu g)" "st_stride (device s) = stride"
    "has_target g (device s)" "images_ok rx tx sz (device s) (device_od s)"
    "\<forall>b \<in> set rx \<union> set tx. blk_index b \<noteq> ?i" "gateway_wired gw (device_od s)" "gateway_typed gw (device_od s)"
    using ready gw by (auto simp: gateway_ready_def Let_def)
  obtain df where df: "od_defs (device_od s) (?i, 1) = Some df" "lower (vd_access df) \<noteq> ''ro''"
    "map_of DATA_TYPE_FORMATS (normalize_od_data_type (vd_data_type df)) = Some F_B"
    using gr(6) by (auto simp: gateway_wired_def scalar_field_def)
  have v: "decode_od_value (vd_data_type df) (int_le 1 d) = Inr (PInt d)"
    using integer_payload(1) [OF df(3), of d] d by (auto simp: in_range_def signed_format_def)
  obtain od1 where od1: "bridge_write_sdo ?i 1 (int_le 1 d) (device_od s) = (Inr (), od1)"
    "od_vals od1 = (od_vals (device_od s))((?i, 1) \<mapsto> PInt d)" "od_defs od1 = od_defs (device_od s)"
    "last_write_key od1 = Some (?i, 1)"
    using bridge_write_vals [OF df(1,2) v] .
  have typed1: "gateway_typed gw od1"
    using od1(2) by (intro gateway_typed_update [OF gr(7), of od1 1 "PInt d"]) auto
  have vals: "od_vals od1 (?i, 2) = Some (PInt a)" "od_vals od1 (?i, 3) = Some (PInt b)"
    "od_vals od1 (?i, 4) = Some (PInt c)" "od_vals od1 (?i, 6) = Some (PInt n)" "od_vals od1 (?i, 7) = Some (PBytes p)"
    "od_vals od1 (?i, 1) = Some (PInt d)"
    using f od1(2) by (auto simp: gateway_field_def split: option.splits)
  have rq: "gateway_request_of ?i od1 = Inr r"
    using vals [THEN read_od_vals]
    by (simp add: gateway_request_of_def read_int_od_def read_bytes_od_def int_of_value_def bytes_of_value_def r)
  have "length data \<le> gw_max gw" using gr(1) reply unfolding replies_fit_def by (metis snd_conv)
  then obtain od2 where od2: "apply_gateway_response ?i (target_reply ap isdu g r) od1 = (Inr (), od2)"
    "od_defs od2 = od_defs od1"
    "od_vals od2 = (od_vals od1)((?i, 5) \<mapsto> PInt status5, (?i, 6) \<mapsto> PInt (int (length data)),
       (?i, 7) \<mapsto> PBytes (padded (gw_max gw) data))"
    using response_applied [OF typed1, of "(status5, data)"] reply by auto
  have disp: "dispatch_gateway_request ap isdu (device s) od1 = (Inr (), dispatched g r (device s), od2)"
    using dispatch_target [of g "device s" od1 r ap isdu od2] gr(2,3) od1(4) rq od2(1) gw by simp
  have "images_ok rx tx sz (dispatched g r (device s)) od2"
    unfolding dispatched_facts using gr(5) od1(2) od2(3) by (intro images_ok_outside [OF gr(4)]) auto
  from finish_write [OF od1(1) disp this gr(5)] obtain t where
    t: "slave_write_sdo (station_update ap isdu rx tx sz) ?i 1 (int_le 1 d) s = (Inr (), t)"
    "images_ok rx tx sz (device t) (device_od t)" "same_slots (dispatched g r (device s)) (device t)"
    "od_defs (device_od t) = od_defs od2" "\<forall>j. od_vals (device_od t) (?i, j) = od_vals od2 (?i, j)" by blast
  have "gateway_typed gw (device_od t)"
    using t(5) od2(3) typed1 length_padded [OF \<open>length data \<le> gw_max gw\<close>] by (auto simp: gateway_typed_def)
  then have "gateway_ready ap isdu rx tx sz stride g t"
    using gateway_ready_after [OF ready _ _ t(2,3)] dispatched_facts t(4) od1(3) od2(2) gw by simp
  then show ?thesis
    using t(1,5) od1(2) od2(3) target_asked_same [OF t(3), of g] dispatched_facts(4)
    by (intro exI [of _ t]) (auto simp: gateway_field_def fun_eq_iff)
qed

interpretation station_gateway: gateway_object "station_port pstr (station_update ap isdu rx tx sz)"
  "target_format stride g" "gateway_ready ap isdu rx tx sz stride g"
  "gateway_field (gw_index (target_format stride g))" "\<lambda>s. target_asked g (device s)" "target_reply ap isdu g"
proof
  let ?gw = "target_format stride g"
  let ?ready = "gateway_ready ap isdu rx tx sz stride g"
  show "fm \<in> {gw_f2 ?gw, gw_f3 ?gw, gw_f4 ?gw, gw_f6 ?gw} \<Longrightarrow> fm \<noteq> F_bool \<and> fm \<noteq> F_f" for fm
    using target_facts(1-4) [of stride g] by auto
  show "m \<le> gw_max ?gw \<Longrightarrow> in_range (gw_f6 ?gw) (int m)" for m by (rule target_facts(5))
  show "?ready s \<Longrightarrow> 0 \<le> fst (target_reply ap isdu g r) \<and> fst (target_reply ap isdu g r) < 65536 \<and>
      length (snd (target_reply ap isdu g r)) \<le> gw_max ?gw" for s r
    by (simp add: gateway_ready_def replies_fit_def Let_def)
  show "?ready s \<Longrightarrow> \<exists>n p. gateway_field (gw_index ?gw) s 6 = PInt n \<and> gateway_field (gw_index ?gw) s 7 = PBytes p \<and>
      length p = gw_max ?gw" for s
    by (auto simp: gateway_ready_def gateway_typed_def gateway_field_def Let_def)
  show "\<exists>t. sdo_wr (station_port pstr (station_update ap isdu rx tx sz)) (gw_index ?gw) k
        (int_le (calcsize (field_format ?gw k)) v) s = (Inr (), t) \<and> ?ready t \<and>
        gateway_field (gw_index ?gw) t = (gateway_field (gw_index ?gw) s)(k := PInt v)"
    if "?ready s" "k \<in> {2, 3, 4, 6}" "in_range (field_format ?gw k) v" for s k v
  proof -
    note h = that
    have fm: "field_format ?gw k \<noteq> F_bool" "field_format ?gw k \<noteq> F_f"
      using target_facts(1-4) [of stride g] h(2) by (auto simp: field_format_def)
    obtain d where d: "od_defs (device_od s) (gw_index ?gw, k) = Some d" "lower (vd_access d) \<noteq> ''ro''"
      "map_of DATA_TYPE_FORMATS (normalize_od_data_type (vd_data_type d)) = Some (field_format ?gw k)"
      using h(1,2) by (auto simp: gateway_ready_def gateway_wired_def scalar_field_def Let_def)
    have "gateway_typed ?gw (device_od s)" using h(1) by (simp add: gateway_ready_def Let_def)
    then have typed: "gateway_typed ?gw od"
      if "\<forall>j. od_vals od (gw_index ?gw, j) = ((od_vals (device_od s))((gw_index ?gw, k) \<mapsto> PInt v)) (gw_index ?gw, j)" for od
      using that \<open>k \<in> {2, 3, 4, 6}\<close> by (intro gateway_typed_update [of ?gw "device_od s" od k "PInt v"]) auto
    with plain_write [OF h(1) refl d(1,2) integer_payload(1) [OF d(3) fm h(3)]] h(2)
    show ?thesis by (auto simp: station_port_def)
  qed
  show "\<exists>t. sdo_wr (station_port pstr (station_update ap isdu rx tx sz)) (gw_index ?gw) 7 p s = (Inr (), t) \<and>
      ?ready t \<and> gateway_field (gw_index ?gw) t = (gateway_field (gw_index ?gw) s)(7 := PBytes p)"
    if "?ready s" "length p = gw_max ?gw" for s p
  proof -
    note h = that
    obtain d where d: "od_defs (device_od s) (gw_index ?gw, 7) = Some d" "lower (vd_access d) \<noteq> ''ro''"
      "is_byte_array_type (normalize_od_data_type (vd_data_type d))"
      using h(1) by (auto simp: gateway_ready_def gateway_wired_def Let_def)
    have "gateway_typed ?gw (device_od s)" using h(1) by (simp add: gateway_ready_def Let_def)
    then have "gateway_typed ?gw od"
      if "\<forall>j. od_vals od (gw_index ?gw, j) = ((od_vals (device_od s))((gw_index ?gw, 7) \<mapsto> PBytes p)) (gw_index ?gw, j)" for od
      using that \<open>length p = gw_max ?gw\<close>
      by (intro gateway_typed_update [of ?gw "device_od s" od 7 "PBytes p"]) auto
    moreover have "decode_od_value (vd_data_type d) p = Inr (PBytes p)" using d(3) by (simp add: decode_od_value_def)
    ultimately show ?thesis
      using plain_write [OF h(1) refl d(1,2)] by (auto simp: station_port_def)
  qed
  show "\<exists>t. sdo_wr (station_port pstr (station_update ap isdu rx tx sz)) (gw_index ?gw) 1 (int_le 1 d) s = (Inr (), t) \<and>
      ?ready t \<and> target_asked g (device t) = Some r \<and>
      gateway_field (gw_index ?gw) t = (gateway_field (gw_index ?gw) s)(1 := PInt d,
        5 := PInt (fst (target_reply ap isdu g r)), 6 := PInt (int (length (snd (target_reply ap isdu g r)))),
        7 := PBytes (padded (gw_max ?gw) (snd (target_reply ap isdu g r))))"
    if "?ready s" "gateway_field (gw_index ?gw) s 2 = PInt a" "gateway_field (gw_index ?gw) s 3 = PInt b"
      "gateway_field (gw_index ?gw) s 4 = PInt c" "gateway_field (gw_index ?gw) s 6 = PInt n"
      "gateway_field (gw_index ?gw) s 7 = PBytes p" "d \<in> {0, 1}"
      "r = \<lparr>gr_direction = d, gr_address = (a, b, c), gr_length = n, gr_data = py_take n p\<rparr>" for s a b c n p d r
    using start_write [OF that(1) refl that(2-8), of "fst (target_reply ap isdu g r)" "snd (target_reply ap isdu g r)"]
    by (simp add: station_port_def)
  show "sdo_rd (station_port pstr (station_update ap isdu rx tx sz)) (gw_index ?gw) k (calcsize (field_format ?gw k)) s =
      (Inr (int_le (calcsize (field_format ?gw k)) v), s)"
    if "?ready s" "k \<in> {5, 6}" "gateway_field (gw_index ?gw) s k = PInt v" "in_range (field_format ?gw k) v" for s k v
  proof -
    note h = that
    have fm: "field_format ?gw k \<noteq> F_bool" "field_format ?gw k \<noteq> F_f"
      using target_facts(1-4) [of stride g] h(2) by (auto simp: field_format_def)
    obtain d where d: "od_defs (device_od s) (gw_index ?gw, k) = Some d"
      "map_of DATA_TYPE_FORMATS (normalize_od_data_type (vd_data_type d)) = Some (field_format ?gw k)"
      using h(1,2) by (auto simp: gateway_ready_def gateway_wired_def scalar_field_def Let_def)
    have "od_vals (device_od s) (gw_index ?gw, k) = Some (PInt v)"
      using h(3) by (auto simp: gateway_field_def split: option.splits)
    then show ?thesis
      using integer_payload(2) [OF d(2) fm h(4)] bridge_definition_defs [OF d(1)]
      by (simp add: station_port_def slave_read_sdo_def bridge_read_sdo_def opsimps read_od_vals)
  qed
  show "sdo_rd (station_port pstr (station_update ap isdu rx tx sz)) (gw_index ?gw) 7 (gw_max ?gw) s = (Inr p, s)"
    if "?ready s" "gateway_field (gw_index ?gw) s 7 = PBytes p" "length p = gw_max ?gw" for s p
  proof -
    note h = that
    obtain d where d: "od_defs (device_od s) (gw_index ?gw, 7) = Some d"
      "is_byte_array_type (normalize_od_data_type (vd_data_type d))"
      using h(1) by (auto simp: gateway_ready_def gateway_wired_def Let_def)
    have "od_vals (device_od s) (gw_index ?gw, 7) = Some (PBytes p)"
      using h(2) by (auto simp: gateway_field_def split: option.splits)
    moreover have "encode_od_value pstr (vd_data_type d) (PBytes p) (Some (int (gw_max ?gw))) = Inr p"
      using d(2) h(3) by (simp add: encode_od_value_def bytes_of_value_def py_take_def slice_bound_def zeros_def)
    ultimately show ?thesis
      using bridge_definition_defs [OF d(1)]
      by (simp add: station_port_def slave_read_sdo_def bridge_read_sdo_def opsimps read_od_vals)
  qed
qed

subsection \<open>Properties\<close>

text \<open>The value the device layer writes to select an IO-Link variant is sent as an AP parameter
  of four bytes.\<close>

lemma write_ap_uint32_gateway_write:
  assumes "0 \<le> v" and "v < 2 ^ 32"
  shows "write_ap_uint32_parameter port n md parameter_id inst v s =
    gateway_write port ap_format n ''ap_parameter_write'' (ap_access_module_number md, parameter_id, inst) (int_le 4 v) s"
  using assms
  by (simp add: write_ap_uint32_parameter_def gateway_write_def write_ap_header_def bindS_def opsimps liftE_def
      split: prod.split sum.split)



definition demo_field :: "int \<Rightarrow> int \<Rightarrow> string \<Rightarrow> pyval \<Rightarrow> (int \<times> int) \<times> VirtualOdEntry" where
  "demo_field i k t v =
     ((i, k), \<lparr>ve_definition = \<lparr>vd_index = i, vd_subindex = k, vd_name = [], vd_data_type = t, vd_bit_size = 8,
        vd_access = ''rw'', vd_default = v, vd_role = None, vd_rxpdo = False, vd_txpdo = False\<rparr>, ve_value = v\<rparr>)"

definition demo_gateway_slave :: "cpx_station mock_slave" where
  "demo_gateway_slave =
     \<lparr>device = \<lparr>st_modules = map (\<lambda>m. (m_slot m, new_virtual_module m)) (l_modules (c_layout demo_station)),
        st_stride = 1, last_ap_request = None, last_isdu_requests = Map.empty\<rparr>,
      device_od = \<lparr>od_entries =
        [demo_field 0x27F0 1 ''USINT'' (PInt 0), demo_field 0x27F0 2 ''UINT'' (PInt 0),
         demo_field 0x27F0 3 ''UDINT'' (PInt 0), demo_field 0x27F0 4 ''UINT'' (PInt 0),
         demo_field 0x27F0 5 ''UINT'' (PInt 0), demo_field 0x27F0 6 ''UINT'' (PInt 0),
         demo_field 0x27F0 7 ''byte_array'' (PBytes (zeros 512)),
         demo_field 0x7000 1 ''byte_array'' (PBytes (zeros 12)), demo_field 0x6000 1 ''byte_array'' (PBytes (zeros 16))],
        last_write_key = None, write_generation = 0\<rparr>,
      slave_conf = motion_server_default, slave_product_code = None\<rparr>"

definition demo_rx_block :: CPXPdoBlock where
  "demo_rx_block = \<lparr>blk_index = 0x7000, blk_subindex = 1, blk_name = [], blk_field = [], blk_byte_length = 12\<rparr>"

definition demo_tx_block :: CPXPdoBlock where
  "demo_tx_block = \<lparr>blk_index = 0x6000, blk_subindex = 1, blk_name = [], blk_field = [], blk_byte_length = 16\<rparr>"

definition demo_gateway :: "gateway_request \<Rightarrow> int \<times> bytes" where
  "demo_gateway r = (if gr_direction r = 0 then (0, [7, 8, 9]) else (if gr_data r = [] then 5 else 0, []))"

lemma demo_inputs_published:
  "encode_modules publish_input_image (map new_virtual_module (l_modules (c_layout demo_station))) (zeros 16) = Inr (zeros 16)"
  by code_simp

lemma demo_types:
  "map_of DATA_TYPE_FORMATS (normalize_od_data_type ''USINT'') = Some F_B"
  "map_of DATA_TYPE_FORMATS (normalize_od_data_type ''UINT'') = Some F_H"
  "map_of DATA_TYPE_FORMATS (normalize_od_data_type ''UDINT'') = Some F_I"
  "is_byte_array_type (normalize_od_data_type ''byte_array'')" "lower ''rw'' \<noteq> ''ro''"
  by code_simp+

lemma demo_gateway_ready:
  "gateway_ready (Some demo_gateway) (\<lambda>_. None) [demo_rx_block] [demo_tx_block] 16 1 Ap demo_gateway_slave"
proof -
  have "replies_fit 512 (gateway_response (Some demo_gateway))"
    by (simp add: replies_fit_def gateway_response_def demo_gateway_def)
  moreover have "images_ok [demo_rx_block] [demo_tx_block] 16 (device demo_gateway_slave) (device_od demo_gateway_slave)"
    using demo_inputs_published
    by (simp add: images_ok_def holds_bytes_def od_vals_def demo_gateway_slave_def demo_field_def demo_rx_block_def
        demo_tx_block_def o_def)
  moreover have "gateway_wired ap_format (device_od demo_gateway_slave)"
    by (simp add: gateway_wired_def scalar_field_def od_defs_def demo_gateway_slave_def demo_field_def ap_format_def
        AP_PARAMETER_ACCESS_INDEX_def field_format_def demo_types)
  moreover have "gateway_typed ap_format (device_od demo_gateway_slave)"
    by (simp add: gateway_typed_def od_vals_def demo_gateway_slave_def demo_field_def ap_format_def
        AP_PARAMETER_ACCESS_INDEX_def AP_MAX_DATA_BYTES_def zeros_def)
  moreover have "st_stride (device demo_gateway_slave) = 1" by (simp add: demo_gateway_slave_def)
  ultimately show ?thesis
    by (simp add: gateway_ready_def ap_format_def AP_PARAMETER_ACCESS_INDEX_def AP_MAX_DATA_BYTES_def
        demo_rx_block_def demo_tx_block_def)
qed

lemma demo_address: "address_fits (target_format 1 Ap) (2, 20090, 0)"
  by (simp add: address_fits_def ap_format_def in_range_def signed_format_def)



end
