(* ===== verification/Parameter_Access.thy ===== *)
theory Parameter_Access
  imports Gateway Motion_Handlers
begin

section \<open>Parameter requests of clients\<close>

text \<open>
  Models the handlers of \<^verbatim>\<open>motion_server/handlers/parameter_access\<close>: AP parameters of a station
  (\<^verbatim>\<open>ap.py\<close>), ISDU parameters of IO-Link devices (\<^verbatim>\<open>iol.py\<close>) and objects of the EtherCAT
  dictionaries (\<^verbatim>\<open>ethercat.py\<close>, \<open>save_parameters\<close> apart), with the typed access of
  \<^verbatim>\<open>ethercat/sdo_access.py\<close>. The state is the bus behind an SDO port per slave and the
  parameter cache; the I/O devices are an argument, \<open>pstr\<close> is Python's \<open>str\<close> of a value that is not a
  string, \<open>polls\<close> the number of status reads within the deadline. The lemmas are in
  \<^verbatim>\<open>Parameter_Laws\<close>.
\<close>

subsection \<open>Values of a request\<close>

definition has_key :: "pydict \<Rightarrow> string \<Rightarrow> bool" where
  "has_key message k \<longleftrightarrow> map_of message k \<noteq> None"

definition parse_request_int :: "pydict \<Rightarrow> string \<Rightarrow> string \<Rightarrow> int option \<Rightarrow> int res" where
  "parse_request_int message key field dflt =
     (case map_of message key of
        None \<Rightarrow>
          (case dflt of Some d \<Rightarrow> Inr d | None \<Rightarrow> Inl (InvalidArgumentException field ''is required'' None))
      | Some v \<Rightarrow>
          (case parse_int v of
             Inr i \<Rightarrow> Inr i
           | Inl _ \<Rightarrow> Inl (InvalidArgumentException field ''must be an integer'' (Some v))))"

definition request_type :: "(pyval \<Rightarrow> string) \<Rightarrow> pydict \<Rightarrow> string" where
  "request_type pstr message = lower (strip (py_str pstr (get_or message ''data_type'' (PStr ''bytes''))))"

text \<open>\<open>AP_DATA_FORMATS\<close>, \<open>ISDU_DATA_FORMATS\<close> and the formats behind \<open>SDO_READERS\<close> and \<open>SDO_WRITERS\<close>.\<close>

definition ACCESS_FORMATS :: "(string \<times> struct_format) list" where
  "ACCESS_FORMATS =
     [(''int8'', F_b), (''uint8'', F_B), (''uint16'', F_H), (''int16'', F_h), (''int32'', F_i),
      (''uint32'', F_I), (''udint'', F_I), (''float32'', F_f)]"

definition HEX_TYPES :: "string list" where
  "HEX_TYPES = [''bytes'', ''hex'', ''byte_array'']"

definition TEXT_TYPES :: "string list" where
  "TEXT_TYPES = [''char'', ''string'', ''ascii'']"

definition parse_length :: "pydict \<Rightarrow> string \<Rightarrow> int res" where
  "parse_length message data_type =
     (if has_key message ''length'' then parse_request_int message ''length'' ''length'' None
      else case map_of ACCESS_FORMATS data_type of Some fm \<Rightarrow> Inr (int (calcsize fm)) | None \<Rightarrow> Inr 0)"

definition validate_length :: "string \<Rightarrow> int \<Rightarrow> unit res" where
  "validate_length data_type len =
     (case map_of ACCESS_FORMATS data_type of
        None \<Rightarrow> Inr ()
      | Some fm \<Rightarrow>
          if len \<noteq> int (calcsize fm)
          then Inl (InvalidArgumentException ''length''
                 (''must be '' @ int_text (int (calcsize fm)) @ '' for '' @ data_type) None)
          else Inr ())"

definition validate_raw_length :: "string \<Rightarrow> pydict \<Rightarrow> string \<Rightarrow> int \<Rightarrow> unit res" where
  "validate_raw_length what message data_type len =
     (if data_type \<notin> set (HEX_TYPES @ TEXT_TYPES) then Inr ()
      else if \<not> has_key message ''length'' \<and> \<not> has_key message ''value''
        then Inl (InvalidArgumentException ''length'' (''is required for raw '' @ what @ '' reads'') None)
      else if len \<le> 0 \<and> \<not> has_key message ''value''
        then Inl (InvalidArgumentException ''length'' ''must be greater than 0'' None)
      else Inr ())"

definition parse_hex_payload :: "pyval \<Rightarrow> bytes res" where
  "parse_hex_payload v =
     (case v of
        PStr s \<Rightarrow>
          (let t = strip s; t = (if starts_with ''0x'' t then drop 2 t else t);
               t = (if odd (length t) then CHR ''0'' # t else t)
           in fromhex t)
      | _ \<Rightarrow>
          bindE (iterate v) (\<lambda>items.
            mapE (\<lambda>x. bindE (int_of_value x) (\<lambda>i. Inr (word_of_int (i AND 0xFF)))) items))"

text \<open>\<open>str.encode("ascii")\<close> and \<open>int(str(value), 0)\<close>.\<close>

definition strict_ascii :: "string \<Rightarrow> bytes res" where
  "strict_ascii s =
     (if list_all (\<lambda>c. (of_char c :: nat) < 0x80) s then Inr (map (\<lambda>c. of_nat (of_char c)) s) else Inl ValueError)"

definition int_of_str :: "(pyval \<Rightarrow> string) \<Rightarrow> pyval \<Rightarrow> int res" where
  "int_of_str pstr v =
     (case py_int_text base0_value (py_str pstr v) of Some i \<Rightarrow> Inr i | None \<Rightarrow> Inl ValueError)"

definition invalid_value :: "string \<Rightarrow> pyval \<Rightarrow> exn" where
  "invalid_value data_type v =
     InvalidArgumentException ''value'' (''is invalid for '' @ data_type) (Some v)"

definition encode_payload :: "(pyval \<Rightarrow> string) \<Rightarrow> string \<Rightarrow> pyval \<Rightarrow> string \<Rightarrow> bytes res" where
  "encode_payload pstr unsupported v data_type =
     (if data_type \<notin> set (HEX_TYPES @ TEXT_TYPES) \<and> map_of ACCESS_FORMATS data_type = None
      then Inl (InvalidArgumentException ''data_type'' unsupported (Some (PStr data_type)))
      else
        case
          (if data_type \<in> set HEX_TYPES then parse_hex_payload v
           else if data_type \<in> set TEXT_TYPES then strict_ascii (py_str pstr v)
           else if data_type = ''float32'' then bindE (float_of_value v) (\<lambda>x. struct_pack F_f (PFloat x))
           else bindE (int_of_str pstr v) (\<lambda>i. struct_pack (the (map_of ACCESS_FORMATS data_type)) (PInt i))) of
          Inr p \<Rightarrow> Inr p
        | Inl e \<Rightarrow>
            if isinstance e CTypeError \<or> isinstance e CValueError \<or> isinstance e COverflowError \<or> isinstance e CStructError
            then Inl (invalid_value data_type v) else Inl e)"

definition write_payload :: "string \<Rightarrow> pydict \<Rightarrow> string \<Rightarrow> int \<Rightarrow> bytes \<Rightarrow> bytes res" where
  "write_payload what message data_type len p =
     (if data_type \<notin> set (HEX_TYPES @ TEXT_TYPES) \<or> \<not> has_key message ''length'' then Inr p
      else if int (length p) > len
        then Inl (InvalidArgumentException ''value''
               (''is longer than the requested '' @ what @ '' payload length'') None)
      else Inr (p @ zeros (len - int (length p))))"

definition rstrip_zeros :: "bytes \<Rightarrow> bytes" where
  "rstrip_zeros p = rev (dropWhile (\<lambda>b. b = 0) (rev p))"

definition decode_payload :: "string \<Rightarrow> string \<Rightarrow> bytes \<Rightarrow> string \<Rightarrow> pyval res" where
  "decode_payload unsupported short_payload p data_type =
     (if data_type \<in> set HEX_TYPES then Inr (PStr (payload_hex p))
      else if data_type \<in> set TEXT_TYPES then Inr (PStr (ascii_decode (rstrip_zeros p)))
      else case map_of ACCESS_FORMATS data_type of
        None \<Rightarrow> Inl (InvalidArgumentException ''data_type'' unsupported (Some (PStr data_type)))
      | Some fm \<Rightarrow>
          if length p < calcsize fm then Inl (DeviceAccessException (Some short_payload))
          else struct_unpack fm (take (calcsize fm) p))"

definition encode_ap_payload :: "(pyval \<Rightarrow> string) \<Rightarrow> pyval \<Rightarrow> string \<Rightarrow> bytes res" where
  "encode_ap_payload pstr = encode_payload pstr ''is not a supported AP parameter data type''"

definition decode_ap_payload :: "bytes \<Rightarrow> string \<Rightarrow> pyval res" where
  "decode_ap_payload = decode_payload ''is not a supported AP parameter data type'' ''ap_parameter_short_payload''"

definition encode_isdu_payload :: "(pyval \<Rightarrow> string) \<Rightarrow> pyval \<Rightarrow> string \<Rightarrow> bytes res" where
  "encode_isdu_payload pstr = encode_payload pstr ''is not a supported ISDU data type''"

definition decode_isdu_payload :: "bytes \<Rightarrow> string \<Rightarrow> pyval res" where
  "decode_isdu_payload = decode_payload ''is not a supported ISDU data type'' ''iolink_isdu_short_payload''"

subsection \<open>I/O devices of a request\<close>

definition is_digits :: "string \<Rightarrow> bool" where
  "is_digits s \<longleftrightarrow> s \<noteq> [] \<and> list_all (\<lambda>c. 48 \<le> (of_char c :: nat) \<and> (of_char c :: nat) \<le> 57) s"

definition digits_number :: "string \<Rightarrow> nat" where
  "digits_number s = (case unsigned_value 10 s of Some n \<Rightarrow> n | None \<Rightarrow> 0)"

definition slave_index_by_io_index :: "io_device list \<Rightarrow> int \<Rightarrow> int res" where
  "slave_index_by_io_index devices i =
     (if i < 0 \<or> int (length devices) \<le> i then Inl ValueError else Inr (dev_slave_index (devices ! nat i)))"

definition io_slave_index :: "(pyval \<Rightarrow> string) \<Rightarrow> io_device list \<Rightarrow> pyval \<Rightarrow> int res" where
  "io_slave_index pstr devices selector =
     (case selector of
        PInt i \<Rightarrow> slave_index_by_io_index devices i
      | PBool b \<Rightarrow> slave_index_by_io_index devices (if b then 1 else 0)
      | _ \<Rightarrow>
          (let t = strip (py_str pstr selector)
           in if is_digits t then slave_index_by_io_index devices (int (digits_number t))
              else case find (\<lambda>d. dev_id d = t) devices of
                Some d \<Rightarrow> Inr (dev_slave_index d) | None \<Rightarrow> Inl ValueError))"

definition io_not_found :: "pyval \<Rightarrow> 'a res \<Rightarrow> 'a res" where
  "io_not_found selector r =
     (case r of
        Inl e \<Rightarrow> if isinstance e CTypeError \<or> isinstance e CValueError
                 then Inl (ResourceNotFoundException ''io'' selector) else Inl e
      | Inr x \<Rightarrow> Inr x)"

fun source_index_from :: "(pyval \<Rightarrow> string) \<Rightarrow> pyval \<Rightarrow> int \<Rightarrow> nat \<Rightarrow> io_device list \<Rightarrow> int option" where
  "source_index_from pstr selector si n [] = None"
| "source_index_from pstr selector si n (d # ds) =
     (if dev_id d = py_str pstr selector \<or> dev_slave_index d = si then Some (int n)
      else source_index_from pstr selector si (Suc n) ds)"

definition io_source_index :: "(pyval \<Rightarrow> string) \<Rightarrow> io_device list \<Rightarrow> pyval \<Rightarrow> int \<Rightarrow> int" where
  "io_source_index pstr devices selector si =
     (case source_index_from pstr selector si 0 devices of
        Some n \<Rightarrow> n
      | None \<Rightarrow>
          (let t = lower (strip (py_str pstr selector))
           in if starts_with ''io'' t \<and> is_digits (drop 2 t) then int (digits_number (drop 2 t))
              else if is_digits t then int (digits_number t) else si))"

text \<open>The bus behind an SDO port and the parameter cache of the runtime.\<close>

record 's access_state =
  access_bus :: 's
  access_cache :: parameter_cache

definition on_port :: "('s, exn, 'a) op \<Rightarrow> ('s access_state, exn, 'a) op" where
  "on_port m s = (case m (access_bus s) of (r, b) \<Rightarrow> (r, s\<lparr>access_bus := b\<rparr>))"

definition cache_access ::
  "parameter_address \<Rightarrow> pyval \<Rightarrow> string \<Rightarrow> pyval \<Rightarrow> string \<Rightarrow> int \<Rightarrow> ('s access_state, exn, unit) op" where
  "cache_access a v data_type raw src now s =
     (case mk_address a of
        Inl e \<Rightarrow> (Inl e, s)
      | Inr a' \<Rightarrow>
          (case update_runtime_parameter_cache a' v data_type ''rw'' raw src now (access_cache s) of
             (r, c) \<Rightarrow> ((case r of Inl e \<Rightarrow> Inl e | Inr _ \<Rightarrow> Inr ()), s\<lparr>access_cache := c\<rparr>)))"

definition io_address :: "int \<Rightarrow> string \<Rightarrow> parameter_address" where
  "io_address i domain =
     \<lparr>pa_source_type = ''io'', pa_source_index = i, pa_domain = domain, pa_index = None, pa_subindex = None,
      pa_module = None, pa_port = None, pa_parameter_id = None, pa_instance = None, pa_role = None\<rparr>"

subsection \<open>AP parameters\<close>

record ap_request =
  ap_io :: pyval
  ap_module :: int
  ap_parameter_id :: int
  ap_instance :: int
  ap_length :: int
  ap_data_type :: string

definition parse_ap_int :: "pydict \<Rightarrow> string \<Rightarrow> string option \<Rightarrow> int option \<Rightarrow> int res" where
  "parse_ap_int message field alias dflt =
     parse_request_int message
       (if has_key message field then field else case alias of Some a \<Rightarrow> a | None \<Rightarrow> field) field dflt"

definition require_range :: "string \<Rightarrow> string \<Rightarrow> int \<Rightarrow> int \<Rightarrow> int \<Rightarrow> unit res" where
  "require_range field reason lo hi v =
     (if v < lo \<or> v > hi then Inl (InvalidArgumentException field reason None) else Inr ())"

definition parse_ap_parameter_request :: "(pyval \<Rightarrow> string) \<Rightarrow> pydict \<Rightarrow> bool \<Rightarrow> ap_request res" where
  "parse_ap_parameter_request pstr message require_value =
     (if \<not> has_key message ''io'' then Inl (InvalidRequestException ''AP parameter commands require io'')
      else if \<not> has_key message ''module'' \<and> \<not> has_key message ''slot''
        then Inl (InvalidRequestException ''AP parameter commands require module'')
      else if \<not> has_key message ''parameter_id''
        then Inl (InvalidArgumentException ''parameter_id'' ''is required'' None)
      else if require_value \<and> \<not> has_key message ''value''
        then Inl (InvalidArgumentException ''value'' ''is required'' None)
      else
        let data_type = request_type pstr message in
        bindE (parse_ap_int message ''module'' (Some ''slot'') None) (\<lambda>md.
        bindE (parse_ap_int message ''parameter_id'' None None) (\<lambda>pid.
        bindE (parse_ap_int message ''instance'' None (Some 0)) (\<lambda>inst.
        bindE (parse_length message data_type) (\<lambda>len.
        bindE (require_range ''module'' ''is outside uint16 range'' 0 0xFFFF md) (\<lambda>_.
        bindE (require_range ''parameter_id'' ''is outside uint32 range'' 0 0xFFFFFFFF pid) (\<lambda>_.
        bindE (require_range ''instance'' ''is outside uint16 range'' 0 0xFFFF inst) (\<lambda>_.
        bindE (require_range ''length'' ''is outside the AP payload range'' 0 (int AP_MAX_DATA_BYTES) len) (\<lambda>_.
        bindE (validate_length data_type len) (\<lambda>_.
        bindE (validate_raw_length ''AP'' message data_type len) (\<lambda>_.
          Inr \<lparr>ap_io = opt_get message ''io'', ap_module = md, ap_parameter_id = pid, ap_instance = inst,
               ap_length = len, ap_data_type = data_type\<rparr>)))))))))))"

definition validate_ap_target :: "(pyval \<Rightarrow> string) \<Rightarrow> io_device list \<Rightarrow> ap_request \<Rightarrow> int res" where
  "validate_ap_target pstr devices q =
     bindE (io_not_found (ap_io q)
       (bindE (io_slave_index pstr devices (ap_io q)) (\<lambda>si.
        bindE (selected_device pstr devices PNone (PInt si)) (\<lambda>k. Inr (si, k))))) (\<lambda>(si, k).
       if ap_module q = 0 then Inr si
       else if list_ex (\<lambda>m. m_slot m = ap_module q) (l_modules (c_layout (rx_config (dev_rx (devices ! k)))))
         then Inr si
       else Inl (ResourceNotFoundException ''ap_module''
              (PStr (py_str pstr (ap_io q) @ '':'' @ int_text (ap_module q)))))"

definition ap_address :: "ap_request \<Rightarrow> gateway_address" where
  "ap_address q = (ap_access_module_number (ap_module q), ap_parameter_id q, ap_instance q)"

definition ap_runtime_parameter_address ::
  "(pyval \<Rightarrow> string) \<Rightarrow> io_device list \<Rightarrow> ap_request \<Rightarrow> int \<Rightarrow> parameter_address" where
  "ap_runtime_parameter_address pstr devices q si =
     (io_address (io_source_index pstr devices (ap_io q) si) ''ap_parameter'')
       \<lparr>pa_module := Some (ap_module q), pa_parameter_id := Some (ap_parameter_id q),
        pa_instance := Some (ap_instance q)\<rparr>"

definition ap_parameter_data :: "ap_request \<Rightarrow> pydict \<Rightarrow> pyval" where
  "ap_parameter_data q extra =
     PDict ([(''io'', ap_io q), (''object_index'', PStr (''0x'' @ hex_text 4 AP_PARAMETER_ACCESS_INDEX)),
       (''module'', PInt (ap_module q)), (''ap_access_module'', PInt (ap_access_module_number (ap_module q))),
       (''parameter_id'', PInt (ap_parameter_id q)),
       (''parameter_id_hex'', PStr (''0x'' @ hex_text 8 (ap_parameter_id q))),
       (''instance'', PInt (ap_instance q)), (''data_type'', PStr (ap_data_type q))] @ extra)"

definition read_ap_parameter ::
  "(pyval \<Rightarrow> string) \<Rightarrow> (int \<Rightarrow> 's sdo_port) \<Rightarrow> nat \<Rightarrow> io_device list \<Rightarrow> int \<Rightarrow> pydict
   \<Rightarrow> ('s access_state, exn, pyval) op" where
  "read_ap_parameter pstr ports polls devices now message =
     bindS (liftE (\<lambda>_. parse_ap_parameter_request pstr message False)) (\<lambda>q.
     bindS (liftE (\<lambda>_. validate_ap_target pstr devices q)) (\<lambda>si.
     bindS (on_port (gateway_read (ports si) ap_format polls ''ap_parameter_access'' (ap_address q) (ap_length q)))
       (\<lambda>(stat, data_length, payload).
     bindS (liftE (\<lambda>_. decode_ap_payload payload (ap_data_type q))) (\<lambda>v.
     bindS (cache_access (ap_runtime_parameter_address pstr devices q si) v (ap_data_type q)
         (PStr (payload_hex payload)) ''device_readback'' now) (\<lambda>_.
       retS (ap_parameter_data q [(''status'', PInt stat), (''length'', PInt data_length),
         (''data'', PStr (payload_hex payload)), (''value'', v)]))))))"

definition write_ap_parameter ::
  "(pyval \<Rightarrow> string) \<Rightarrow> (int \<Rightarrow> 's sdo_port) \<Rightarrow> nat \<Rightarrow> io_device list \<Rightarrow> int \<Rightarrow> pydict
   \<Rightarrow> ('s access_state, exn, pyval) op" where
  "write_ap_parameter pstr ports polls devices now message =
     bindS (liftE (\<lambda>_. parse_ap_parameter_request pstr message True)) (\<lambda>q.
     bindS (liftE (\<lambda>_. validate_ap_target pstr devices q)) (\<lambda>si.
     bindS (liftE (\<lambda>_. encode_ap_payload pstr (opt_get message ''value'') (ap_data_type q))) (\<lambda>encoded.
       if length encoded > AP_MAX_DATA_BYTES
       then raiseS (InvalidArgumentException ''value'' ''exceeds the AP payload limit'' None)
       else
         bindS (liftE (\<lambda>_. write_payload ''AP'' message (ap_data_type q) (ap_length q) encoded)) (\<lambda>payload.
         bindS (on_port (gateway_write (ports si) ap_format polls ''ap_parameter_access'' (ap_address q) payload))
           (\<lambda>stat.
         bindS (cache_access (ap_runtime_parameter_address pstr devices q si) (opt_get message ''value'')
             (ap_data_type q) (PStr (payload_hex payload)) ''device_write'' now) (\<lambda>_.
           retS (ap_parameter_data q [(''status'', PInt stat), (''length'', PInt (int (length payload))),
             (''data'', PStr (payload_hex payload))])))))))"

subsection \<open>ISDU parameters of IO-Link devices\<close>

record isdu_request =
  iq_io :: pyval
  iq_module :: int
  iq_port :: int
  iq_index :: int
  iq_subindex :: int
  iq_length :: int
  iq_data_type :: string

definition parse_isdu_int :: "pydict \<Rightarrow> string \<Rightarrow> int option \<Rightarrow> int res" where
  "parse_isdu_int message field dflt = parse_request_int message field field dflt"

definition parse_isdu_request :: "(pyval \<Rightarrow> string) \<Rightarrow> pydict \<Rightarrow> bool \<Rightarrow> isdu_request res" where
  "parse_isdu_request pstr message require_value =
     (if \<not> has_key message ''io'' then Inl (InvalidRequestException ''IO-Link ISDU commands require io'')
      else if \<not> has_key message ''module'' then Inl (InvalidArgumentException ''module'' ''is required'' None)
      else if \<not> has_key message ''port'' then Inl (InvalidArgumentException ''port'' ''is required'' None)
      else if \<not> has_key message ''index'' then Inl (InvalidArgumentException ''index'' ''is required'' None)
      else if require_value \<and> \<not> has_key message ''value''
        then Inl (InvalidArgumentException ''value'' ''is required'' None)
      else
        let data_type = request_type pstr message in
        bindE (parse_isdu_int message ''module'' None) (\<lambda>md.
        bindE (parse_isdu_int message ''port'' None) (\<lambda>p.
        bindE (parse_isdu_int message ''index'' None) (\<lambda>i.
        bindE (parse_isdu_int message ''subindex'' (Some 0)) (\<lambda>sub.
        bindE (parse_length message data_type) (\<lambda>len.
        bindE (require_range ''module'' ''must be in range 1..255'' 1 0xFF md) (\<lambda>_.
        bindE (require_range ''port'' ''is outside uint8 range'' 0 0xFF p) (\<lambda>_.
        bindE (require_range ''index'' ''is outside uint16 range'' 0 0xFFFF i) (\<lambda>_.
        bindE (require_range ''subindex'' ''is outside uint8 range'' 0 0xFF sub) (\<lambda>_.
        bindE (require_range ''length'' ''is outside the ISDU payload range'' 0 (int ISDU_MAX_DATA_BYTES) len) (\<lambda>_.
        bindE (validate_length data_type len) (\<lambda>_.
        bindE (validate_raw_length ''ISDU'' message data_type len) (\<lambda>_.
          Inr \<lparr>iq_io = opt_get message ''io'', iq_module = md, iq_port = p, iq_index = i, iq_subindex = sub,
               iq_length = len, iq_data_type = data_type\<rparr>)))))))))))))"

definition io_config_for_request :: "(pyval \<Rightarrow> string) \<Rightarrow> io_device list \<Rightarrow> isdu_request \<Rightarrow> CPXIoConfig res" where
  "io_config_for_request pstr devices q =
     bindE (io_not_found (iq_io q) (selected_device pstr devices (iq_io q) PNone)) (\<lambda>k.
       Inr (rx_config (dev_rx (devices ! k))))"

definition iodd_binding_for_request ::
  "(pyval \<Rightarrow> string) \<Rightarrow> io_device list \<Rightarrow> isdu_request \<Rightarrow> IoLinkDeviceBinding res" where
  "iodd_binding_for_request pstr devices q =
     bindE (io_config_for_request pstr devices q) (\<lambda>c.
       case find (\<lambda>b. bd_module b = iq_module q \<and> int (bd_port b) = iq_port q) (io_link_devices c) of
         Some b \<Rightarrow> Inr b
       | None \<Rightarrow> Inl (ResourceNotFoundException ''iolink_port_binding''
           (PStr (py_str pstr (iq_io q) @ '':'' @ int_text (iq_module q) @ '':'' @ int_text (iq_port q)))))"

definition iodd_variable_for_index :: "IoLinkDeviceBinding \<Rightarrow> int \<Rightarrow> IoddVariableInfo res" where
  "iodd_variable_for_index b i =
     (case find (\<lambda>v. var_index v = i) (iodd_variables (bd_device b)) of
        Some v \<Rightarrow> Inr v | None \<Rightarrow> Inl (ResourceNotFoundException ''iolink_parameter'' (PInt i)))"

definition validate_iodd_variable_access :: "IoddVariableInfo \<Rightarrow> string \<Rightarrow> unit res" where
  "validate_iodd_variable_access v acc =
     (let rights = lower (strip (var_access v))
      in if acc = ''read'' \<and> contains ''r'' rights then Inr ()
         else if acc = ''write'' \<and> contains ''w'' rights then Inr ()
         else Inl (PermissionDeniedException (Some (''iolink_isdu_'' @ acc))))"

definition validate_iodd_subindex :: "IoddVariableInfo \<Rightarrow> isdu_request \<Rightarrow> unit res" where
  "validate_iodd_subindex v q =
     (if iq_subindex q = 0 then Inr ()
      else if iq_subindex q \<notin> set (var_subindices v)
        then Inl (ResourceNotFoundException ''iolink_subindex''
               (PStr (int_text (iq_index q) @ '':'' @ int_text (iq_subindex q))))
      else Inr ())"

definition validate_isdu_request_against_iodd ::
  "(pyval \<Rightarrow> string) \<Rightarrow> io_device list \<Rightarrow> isdu_request \<Rightarrow> string \<Rightarrow> unit res" where
  "validate_isdu_request_against_iodd pstr devices q acc =
     bindE (iodd_binding_for_request pstr devices q) (\<lambda>b.
     bindE (iodd_variable_for_index b (iq_index q)) (\<lambda>v.
     bindE (validate_iodd_variable_access v acc) (\<lambda>_. validate_iodd_subindex v q)))"

definition resolve_isdu_access_object :: "(pyval \<Rightarrow> string) \<Rightarrow> io_device list \<Rightarrow> isdu_request \<Rightarrow> int res" where
  "resolve_isdu_access_object pstr devices q =
     bindE (io_config_for_request pstr devices q) (\<lambda>c.
       Inr (isdu_access_object_index (iq_module q) (module_pdo_index_stride c)))"

definition validate_isdu_target :: "(pyval \<Rightarrow> string) \<Rightarrow> io_device list \<Rightarrow> isdu_request \<Rightarrow> int res" where
  "validate_isdu_target pstr devices q = io_not_found (iq_io q) (io_slave_index pstr devices (iq_io q))"

definition isdu_address :: "isdu_request \<Rightarrow> gateway_address" where
  "isdu_address q = (iq_port q, iq_index q, iq_subindex q)"

definition iol_runtime_parameter_address ::
  "(pyval \<Rightarrow> string) \<Rightarrow> io_device list \<Rightarrow> isdu_request \<Rightarrow> int \<Rightarrow> parameter_address" where
  "iol_runtime_parameter_address pstr devices q si =
     (io_address (io_source_index pstr devices (iq_io q) si) ''iol_isdu'')
       \<lparr>pa_module := Some (iq_module q), pa_port := Some (iq_port q),
        pa_parameter_id := Some (iq_index q), pa_subindex := Some (iq_subindex q)\<rparr>"

definition isdu_data :: "isdu_request \<Rightarrow> int \<Rightarrow> pydict \<Rightarrow> pyval" where
  "isdu_data q obj extra =
     PDict ([(''io'', iq_io q), (''object_index'', PStr (''0x'' @ hex_text 4 obj)),
       (''module'', PInt (iq_module q)), (''port'', PInt (iq_port q)), (''index'', PInt (iq_index q)),
       (''index_hex'', PStr (''0x'' @ hex_text 4 (iq_index q))), (''subindex'', PInt (iq_subindex q)),
       (''subindex_hex'', PStr (''0x'' @ hex_text 2 (iq_subindex q))), (''data_type'', PStr (iq_data_type q))] @ extra)"

definition read_iol_parameter ::
  "(pyval \<Rightarrow> string) \<Rightarrow> (int \<Rightarrow> 's sdo_port) \<Rightarrow> nat \<Rightarrow> io_device list \<Rightarrow> int \<Rightarrow> pydict
   \<Rightarrow> ('s access_state, exn, pyval) op" where
  "read_iol_parameter pstr ports polls devices now message =
     bindS (liftE (\<lambda>_. parse_isdu_request pstr message False)) (\<lambda>q.
     bindS (liftE (\<lambda>_. validate_isdu_request_against_iodd pstr devices q ''read'')) (\<lambda>_.
     bindS (liftE (\<lambda>_. resolve_isdu_access_object pstr devices q)) (\<lambda>object_index.
     bindS (liftE (\<lambda>_. validate_isdu_target pstr devices q)) (\<lambda>si.
     bindS (on_port (gateway_read (ports si) (isdu_format object_index) polls ''iolink_isdu_access'' (isdu_address q)
         (iq_length q))) (\<lambda>(stat, data_length, payload).
     bindS (liftE (\<lambda>_. decode_isdu_payload payload (iq_data_type q))) (\<lambda>v.
     bindS (cache_access (iol_runtime_parameter_address pstr devices q si) v (iq_data_type q)
         (PStr (payload_hex payload)) ''device_readback'' now) (\<lambda>_.
       retS (isdu_data q object_index [(''status'', PInt stat), (''length'', PInt data_length),
         (''data'', PStr (payload_hex payload)), (''value'', v)]))))))))"

definition write_iol_parameter ::
  "(pyval \<Rightarrow> string) \<Rightarrow> (int \<Rightarrow> 's sdo_port) \<Rightarrow> nat \<Rightarrow> io_device list \<Rightarrow> int \<Rightarrow> pydict
   \<Rightarrow> ('s access_state, exn, pyval) op" where
  "write_iol_parameter pstr ports polls devices now message =
     bindS (liftE (\<lambda>_. parse_isdu_request pstr message True)) (\<lambda>q.
     bindS (liftE (\<lambda>_. validate_isdu_request_against_iodd pstr devices q ''write'')) (\<lambda>_.
     bindS (liftE (\<lambda>_. resolve_isdu_access_object pstr devices q)) (\<lambda>object_index.
     bindS (liftE (\<lambda>_. validate_isdu_target pstr devices q)) (\<lambda>si.
     bindS (liftE (\<lambda>_. encode_isdu_payload pstr (opt_get message ''value'') (iq_data_type q))) (\<lambda>encoded.
       if length encoded > ISDU_MAX_DATA_BYTES
       then raiseS (InvalidArgumentException ''value'' ''exceeds the ISDU payload limit'' None)
       else
         bindS (liftE (\<lambda>_. write_payload ''ISDU'' message (iq_data_type q) (iq_length q) encoded)) (\<lambda>payload.
         bindS (on_port (gateway_write (ports si) (isdu_format object_index) polls ''iolink_isdu_access''
             (isdu_address q) payload)) (\<lambda>stat.
         bindS (cache_access (iol_runtime_parameter_address pstr devices q si) (opt_get message ''value'')
             (iq_data_type q) (PStr (payload_hex payload)) ''device_write'' now) (\<lambda>_.
           retS (isdu_data q object_index [(''status'', PInt stat), (''length'', PInt (int (length payload))),
             (''data'', PStr (payload_hex payload))])))))))))"

subsection \<open>Objects of the EtherCAT dictionaries\<close>

definition SDO_STRING_TYPES :: "string list" where
  "SDO_STRING_TYPES = [''char'', ''string'', ''ascii'', ''visible_string'']"

definition normalize_sdo_data_type :: "(pyval \<Rightarrow> string) \<Rightarrow> pyval \<Rightarrow> string" where
  "normalize_sdo_data_type pstr data_type =
     (let t = lower (strip (if truthy data_type then py_str pstr data_type else ''uint32''))
      in if starts_with ''string('' t then ''string''
         else if t \<in> {''stringt'', ''visible-string'', ''visible_string''} then ''string''
         else if t \<in> set SDO_STRING_TYPES then ''string'' else t)"

definition parse_sdo_length :: "(pyval \<Rightarrow> string) \<Rightarrow> pydict \<Rightarrow> string \<Rightarrow> int option res" where
  "parse_sdo_length pstr message data_type =
     (if data_type \<noteq> ''string'' then Inr None
      else if has_key message ''length'' then
        bindE (parse_request_int message ''length'' ''length'' None) (\<lambda>len.
          if len \<le> 0 then Inl (InvalidArgumentException ''length'' ''must be greater than 0'' None)
          else Inr (Some len))
      else
        let raw = lower (strip (py_str pstr (get_or message ''data_type'' (PStr [])))) in
        if starts_with ''string('' raw \<and> raw \<noteq> [] \<and> last raw = CHR '')'' then
          (case parse_int (PStr (butlast (drop 7 raw))) of
             Inl _ \<Rightarrow> Inl (InvalidArgumentException ''data_type'' ''contains an invalid string length'' None)
           | Inr len \<Rightarrow>
               if len \<le> 0
               then Inl (InvalidArgumentException ''data_type'' ''string length must be greater than 0'' None)
               else Inr (Some len))
        else Inl (InvalidArgumentException ''length'' ''is required for string SDO access'' None))"

record sdo_request =
  sq_target :: pyval
  sq_index :: int
  sq_subindex :: int
  sq_data_type :: string
  sq_length :: "int option"

definition parse_sdo_request :: "(pyval \<Rightarrow> string) \<Rightarrow> nat \<Rightarrow> pydict \<Rightarrow> (int \<times> sdo_request) res" where
  "parse_sdo_request pstr axes_total message =
     (let data_type = normalize_sdo_data_type pstr (get_or message ''data_type'' (PStr ''uint32'')) in
      if has_key message ''axes'' \<or> \<not> has_key message ''axis''
      then Inl (InvalidRequestException ''Parameter commands require axis and do not accept axes'')
      else
        bindE (parse_request_int message ''axis'' ''axis'' None) (\<lambda>axis.
        bindE (parse_request_int message ''index'' ''index'' None) (\<lambda>i.
        bindE (parse_request_int message ''subindex'' ''subindex'' (Some 0)) (\<lambda>sub.
          if axis < 0 \<or> int axes_total \<le> axis then Inl (ResourceNotFoundException ''axis'' (PInt axis))
          else
            bindE (parse_sdo_length pstr message data_type) (\<lambda>len.
              Inr (axis, \<lparr>sq_target = PInt axis, sq_index = i, sq_subindex = sub, sq_data_type = data_type,
                sq_length = len\<rparr>))))))"

definition parse_io_sdo_request :: "(pyval \<Rightarrow> string) \<Rightarrow> pydict \<Rightarrow> sdo_request res" where
  "parse_io_sdo_request pstr message =
     (let data_type = normalize_sdo_data_type pstr (get_or message ''data_type'' (PStr ''uint32'')) in
      if \<not> has_key message ''io'' then Inl (InvalidRequestException ''I/O parameter commands require io'')
      else
        bindE (parse_request_int message ''index'' ''index'' None) (\<lambda>i.
        bindE (parse_request_int message ''subindex'' ''subindex'' (Some 0)) (\<lambda>sub.
        bindE (parse_sdo_length pstr message data_type) (\<lambda>len.
          Inr \<lparr>sq_target = opt_get message ''io'', sq_index = i, sq_subindex = sub, sq_data_type = data_type,
               sq_length = len\<rparr>))))"

definition unsupported_sdo_type :: "string \<Rightarrow> exn" where
  "unsupported_sdo_type data_type =
     InvalidArgumentException ''data_type'' ''is not a supported SDO data type'' (Some (PStr data_type))"

definition read_sdo_value :: "'s sdo_port \<Rightarrow> sdo_request \<Rightarrow> ('s, exn, pyval) op" where
  "read_sdo_value port q =
     (if sq_data_type q = ''string'' then
        bindS (sdo_rd port (sq_index q) (sq_subindex q) (case sq_length q of Some n \<Rightarrow> nat n | None \<Rightarrow> 0))
          (\<lambda>p. retS (PStr (ascii_decode (takeWhile (\<lambda>b. b \<noteq> 0) p))))
      else case map_of ACCESS_FORMATS (sq_data_type q) of
        None \<Rightarrow> raiseS (unsupported_sdo_type (sq_data_type q))
      | Some fm \<Rightarrow>
          bindS (sdo_rd port (sq_index q) (sq_subindex q) (calcsize fm)) (\<lambda>p.
            if length p < calcsize fm then raiseS (DeviceAccessException (Some ''sdo_read_short_payload''))
            else liftE (\<lambda>_. struct_unpack fm (take (calcsize fm) p))))"

definition sdo_value_of :: "(pyval \<Rightarrow> string) \<Rightarrow> string \<Rightarrow> pyval \<Rightarrow> pyval res" where
  "sdo_value_of pstr data_type raw =
     (case (if data_type = ''float32'' then bindE (float_of_value raw) (\<lambda>x. Inr (PFloat x))
            else bindE (int_of_str pstr raw) (\<lambda>i. Inr (PInt i))) of
        Inr v \<Rightarrow> Inr v
      | Inl e \<Rightarrow>
          if isinstance e CTypeError \<or> isinstance e CValueError \<or> isinstance e COverflowError
          then Inl (invalid_value data_type raw) else Inl e)"

definition write_sdo_value :: "(pyval \<Rightarrow> string) \<Rightarrow> 's sdo_port \<Rightarrow> sdo_request \<Rightarrow> pyval \<Rightarrow> ('s, exn, pyval) op" where
  "write_sdo_value pstr port q raw =
     (if sq_data_type q = ''string'' then
        bindS (sdo_wr port (sq_index q) (sq_subindex q) (ascii_encode (py_str pstr raw))) (\<lambda>_.
          retS (PStr (py_str pstr raw)))
      else case map_of ACCESS_FORMATS (sq_data_type q) of
        None \<Rightarrow> raiseS (unsupported_sdo_type (sq_data_type q))
      | Some fm \<Rightarrow>
          bindS (liftE (\<lambda>_. sdo_value_of pstr (sq_data_type q) raw)) (\<lambda>v.
          bindS (liftE (\<lambda>_. struct_pack fm v)) (\<lambda>p.
          bindS (sdo_wr port (sq_index q) (sq_subindex q) p) (\<lambda>_. retS v))))"

definition sdo_value_response :: "(pyval \<Rightarrow> string) \<Rightarrow> string \<Rightarrow> pyval \<Rightarrow> pydict res" where
  "sdo_value_response pstr data_type v =
     (if data_type = ''string''
      then Inr [(''value'', v), (''hex'', PStr (''0x'' @ payload_hex (ascii_encode (py_str pstr v))))]
      else if data_type = ''float32'' then Inr [(''value'', v), (''hex'', PNone)]
      else bindE (int_of_value v) (\<lambda>i.
        Inr [(''value'', PInt i), (''hex'', PStr (''0x'' @ hex_text 8 (i AND 0xFFFFFFFF)))]))"

definition parameter_data :: "(pyval \<Rightarrow> string) \<Rightarrow> string \<Rightarrow> sdo_request \<Rightarrow> pyval \<Rightarrow> pydict res" where
  "parameter_data pstr target q v =
     bindE (sdo_value_response pstr (sq_data_type q) v) (\<lambda>r.
       Inr ([(target, sq_target q), (''index'', PInt (sq_index q)), (''subindex'', PInt (sq_subindex q)),
         (''data_type'', PStr (sq_data_type q))] @ r))"

definition od_address :: "string \<Rightarrow> int \<Rightarrow> sdo_request \<Rightarrow> parameter_address" where
  "od_address source_type i q =
     (io_address i ''ethercat_od'')
       \<lparr>pa_source_type := source_type, pa_index := Some (sq_index q), pa_subindex := Some (sq_subindex q)\<rparr>"

definition required_sdo_write_value :: "pydict \<Rightarrow> pyval res" where
  "required_sdo_write_value message =
     (case map_of message ''value'' of
        Some v \<Rightarrow> Inr v | None \<Rightarrow> Inl (InvalidArgumentException ''value'' ''is required'' None))"

definition length_item :: "sdo_request \<Rightarrow> pydict" where
  "length_item q = [(''length'', case sq_length q of Some n \<Rightarrow> PInt n | None \<Rightarrow> PNone)]"

definition read_parameter ::
  "(pyval \<Rightarrow> string) \<Rightarrow> (int \<Rightarrow> 's sdo_port) \<Rightarrow> nat \<Rightarrow> int \<Rightarrow> pydict \<Rightarrow> ('s access_state, exn, pyval) op" where
  "read_parameter pstr axis_port axes_total now message =
     bindS (liftE (\<lambda>_. parse_sdo_request pstr axes_total message)) (\<lambda>(axis, q).
     bindS (on_port (read_sdo_value (axis_port axis) q)) (\<lambda>v.
     bindS (cache_access (od_address ''axis'' axis q) v (sq_data_type q) PNone ''device_readback'' now) (\<lambda>_.
     bindS (liftE (\<lambda>_. parameter_data pstr ''axis'' q v)) (\<lambda>data.
       retS (PDict (data @ length_item q))))))"

definition write_parameter ::
  "(pyval \<Rightarrow> string) \<Rightarrow> (int \<Rightarrow> 's sdo_port) \<Rightarrow> nat \<Rightarrow> int \<Rightarrow> pydict \<Rightarrow> ('s access_state, exn, pyval) op" where
  "write_parameter pstr axis_port axes_total now message =
     bindS (liftE (\<lambda>_. parse_sdo_request pstr axes_total message)) (\<lambda>(axis, q).
     bindS (liftE (\<lambda>_. required_sdo_write_value message)) (\<lambda>raw.
     bindS (on_port (write_sdo_value pstr (axis_port axis) q raw)) (\<lambda>v.
     bindS (cache_access (od_address ''axis'' axis q) v (sq_data_type q) PNone ''device_write'' now) (\<lambda>_.
     bindS (liftE (\<lambda>_. parameter_data pstr ''axis'' q v)) (\<lambda>data. retS (PDict data))))))"

definition is_cpx_isdu_access_object :: "int \<Rightarrow> bool" where
  "is_cpx_isdu_access_object i \<longleftrightarrow> 0x2001 \<le> i \<and> i \<le> 0x2FF1 \<and> (i - 0x2001) mod 0x10 = 0"

definition validate_io_parameter_access :: "bool \<Rightarrow> int \<Rightarrow> unit res" where
  "validate_io_parameter_access expert_mode i =
     (if is_cpx_isdu_access_object i \<and> \<not> expert_mode
      then Inl (UnsupportedOperationException ''io_ethercat_parameter_access''
             (Some ''Use the dedicated IO-Link ISDU command for this object''))
      else Inr ())"

definition read_io_parameter ::
  "(pyval \<Rightarrow> string) \<Rightarrow> (int \<Rightarrow> 's sdo_port) \<Rightarrow> bool \<Rightarrow> io_device list \<Rightarrow> int \<Rightarrow> pydict
   \<Rightarrow> ('s access_state, exn, pyval) op" where
  "read_io_parameter pstr ports expert_mode devices now message =
     bindS (liftE (\<lambda>_. parse_io_sdo_request pstr message)) (\<lambda>q.
     bindS (liftE (\<lambda>_. io_not_found (sq_target q) (io_slave_index pstr devices (sq_target q)))) (\<lambda>si.
     bindS (liftE (\<lambda>_. validate_io_parameter_access expert_mode (sq_index q))) (\<lambda>_.
     bindS (on_port (read_sdo_value (ports si) q)) (\<lambda>v.
     bindS (cache_access (od_address ''io'' (io_source_index pstr devices (sq_target q) si) q) v (sq_data_type q) PNone
         ''device_readback'' now) (\<lambda>_.
     bindS (liftE (\<lambda>_. parameter_data pstr ''io'' q v)) (\<lambda>data.
       retS (PDict (data @ length_item q))))))))"

definition write_io_parameter ::
  "(pyval \<Rightarrow> string) \<Rightarrow> (int \<Rightarrow> 's sdo_port) \<Rightarrow> bool \<Rightarrow> io_device list \<Rightarrow> int \<Rightarrow> pydict
   \<Rightarrow> ('s access_state, exn, pyval) op" where
  "write_io_parameter pstr ports expert_mode devices now message =
     bindS (liftE (\<lambda>_. parse_io_sdo_request pstr message)) (\<lambda>q.
     bindS (liftE (\<lambda>_. io_not_found (sq_target q) (io_slave_index pstr devices (sq_target q)))) (\<lambda>si.
     bindS (liftE (\<lambda>_. validate_io_parameter_access expert_mode (sq_index q))) (\<lambda>_.
     bindS (liftE (\<lambda>_. required_sdo_write_value message)) (\<lambda>raw.
     bindS (on_port (write_sdo_value pstr (ports si) q raw)) (\<lambda>v.
     bindS (cache_access (od_address ''io'' (io_source_index pstr devices (sq_target q) si) q) v (sq_data_type q) PNone
         ''device_write'' now) (\<lambda>_.
     bindS (liftE (\<lambda>_. parameter_data pstr ''io'' q v)) (\<lambda>data. retS (PDict data))))))))"

end
