(* ===== verification/Parameter_Laws.thy ===== *)
theory Parameter_Laws
  imports Parameter_Access
begin

section \<open>Laws of parameter requests\<close>

text \<open>
  The lemmas about \<^verbatim>\<open>Parameter_Access\<close>: the text of an integer and of bytes is read back, so that a
  value that was read can be written again; what a cache access leaves in the parameter cache; that an
  ISDU request reaches the bus only when the IODD of the device permits it; the way of an AP write from
  the request of a client to the gateway of the simulated station, composed from the facts of
  \<^verbatim>\<open>Gateway\<close>; and what a write of a drive object sends.
\<close>

subsection \<open>Text of integers and of bytes\<close>

definition digit_char :: "nat \<Rightarrow> char" where
  "digit_char d = char_of (48 + d)"

lemma of_char_digit: "d < 10 \<Longrightarrow> (of_char (digit_char d) :: nat) = 48 + d"
  by (simp add: digit_char_def)

lemma char_neq: "(of_char c :: nat) \<noteq> of_char c' \<Longrightarrow> c \<noteq> c'"
  by auto

lemma digit_char_facts:
  assumes "d < 10"
  shows "digit_value (digit_char d) = Some d" "\<not> is_space (digit_char d)" "digit_char d \<noteq> CHR ''_''"
    "digit_char d \<noteq> CHR ''-''" "digit_char d \<noteq> CHR ''+''" "digit_char d = CHR ''0'' \<longleftrightarrow> d = 0"
proof -
  note n = of_char_digit [OF assms]
  have ne: "digit_char d \<noteq> c" if "(of_char c :: nat) < 48 \<or> 57 < (of_char c :: nat)" for c
    using n that assms by (intro char_neq) auto
  show "digit_value (digit_char d) = Some d"
    using n assms by (simp add: digit_value_def lower_char_def Let_def)
  show "\<not> is_space (digit_char d)" using ne by (simp add: is_space_def)
  show "digit_char d \<noteq> CHR ''_''" "digit_char d \<noteq> CHR ''-''" "digit_char d \<noteq> CHR ''+''"
    by (rule ne; simp)+
  have "digit_char 0 = CHR ''0''" by code_simp
  moreover have "digit_char d \<noteq> CHR ''0''" if "d \<noteq> 0" using n that by (intro char_neq) simp
  ultimately show "digit_char d = CHR ''0'' \<longleftrightarrow> d = 0" by auto
qed

lemma nat_str_digits: "\<exists>ds. nat_str n = map digit_char ds \<and> ds \<noteq> [] \<and> (\<forall>d \<in> set ds. d < 10) \<and> (n \<noteq> 0 \<longrightarrow> hd ds \<noteq> 0) \<and>
   (n = 0 \<longrightarrow> ds = [0]) \<and>
   (\<forall>acc rest. digits_value 10 False acc (nat_str n @ rest) = digits_value 10 False (acc * 10 ^ length ds + n) rest)"
proof (induction n rule: nat_str.induct)
  case (1 n)
  show ?case
  proof (cases "n < 10")
    case True
    then have "nat_str n = map digit_char [n]" by (subst nat_str.simps) (simp add: digit_char_def)
    then show ?thesis using True digit_char_facts [OF True] by (intro exI [of _ "[n]"]) simp
  next
    case False
    with 1 obtain ds where ds: "nat_str (n div 10) = map digit_char ds" "ds \<noteq> []" "\<forall>d \<in> set ds. d < 10"
      "n div 10 \<noteq> 0 \<longrightarrow> hd ds \<noteq> 0"
      "\<forall>acc rest. digits_value 10 False acc (nat_str (n div 10) @ rest) =
         digits_value 10 False (acc * 10 ^ length ds + n div 10) rest" by auto
    have m: "n mod 10 < 10" by simp
    have s: "nat_str n = nat_str (n div 10) @ [digit_char (n mod 10)]"
      using False by (subst nat_str.simps) (simp add: digit_char_def)
    have "digits_value 10 False acc (nat_str n @ rest) = digits_value 10 False (acc * 10 ^ length (ds @ [n mod 10]) + n) rest"
      for acc rest
      using digit_char_facts [OF m] by (simp add: s ds(5) algebra_simps)
    moreover have "nat_str n = map digit_char (ds @ [n mod 10])" using s ds(1) by simp
    moreover have "hd (ds @ [n mod 10]) \<noteq> 0" using ds(2,4) False by (simp add: div_eq_0_iff)
    ultimately show ?thesis using ds(2,3) m False by (intro exI [of _ "ds @ [n mod 10]"]) simp
  qed
qed

lemma base0_nat_str: "base0_value (nat_str n) = Some n"
proof -
  obtain ds where ds: "nat_str n = map digit_char ds" "ds \<noteq> []" "\<forall>d \<in> set ds. d < 10" "n \<noteq> 0 \<longrightarrow> hd ds \<noteq> 0"
    "n = 0 \<longrightarrow> ds = [0]"
    "\<forall>acc rest. digits_value 10 False acc (nat_str n @ rest) = digits_value 10 False (acc * 10 ^ length ds + n) rest"
    using nat_str_digits [of n] by (elim exE conjE)
  have v: "digits_value 10 False 0 (nat_str n) = Some n" using ds(6) [rule_format, of 0 "[]"] by simp
  obtain d es where de: "ds = d # es" using ds(2) by (cases ds) auto
  have d: "d < 10" using ds(3) de by simp
  have u: "unsigned_value 10 (nat_str n) = Some n"
    using v digit_char_facts [OF d] by (simp add: unsigned_value_def ds(1) de)
  show ?thesis
  proof (cases es)
    case Nil
    then show ?thesis using u by (simp add: base0_value_def ds(1) de)
  next
    case (Cons e fs)
    then have "d \<noteq> 0" using ds(4,5) de by auto
    then show ?thesis using u Cons digit_char_facts(6) [OF d] by (simp add: base0_value_def ds(1) de)
  qed
qed

lemma strip_id:
  assumes "s \<noteq> []" and "\<not> is_space (hd s)" and "\<not> is_space (last s)"
  shows "strip s = s"
proof -
  have "dropWhile is_space s = s" using assms(1,2) by (cases s) simp_all
  moreover have "dropWhile is_space (rev s) = rev s" using assms(1,3) by (cases s rule: rev_cases) simp_all
  ultimately show ?thesis by (simp add: strip_def)
qed

lemma int_str_read_back: "py_int_text base0_value (int_str i) = Some i"
proof -
  have nat: "\<exists>c cs. nat_str n = c # cs \<and> c \<noteq> CHR ''-'' \<and> c \<noteq> CHR ''+'' \<and> \<not> is_space c \<and> \<not> is_space (last (nat_str n))" for n
  proof -
    obtain ds where "nat_str n = map digit_char ds" "ds \<noteq> []" "\<forall>d \<in> set ds. d < 10"
      using nat_str_digits [of n] by (elim exE conjE)
    then show ?thesis using digit_char_facts by (cases ds) (auto simp: last_map)
  qed
  show ?thesis
  proof (cases "i < 0")
    case True
    obtain c cs where c: "nat_str (nat (- i)) = c # cs" "\<not> is_space (last (nat_str (nat (- i))))" using nat by blast
    have "strip (CHR ''-'' # nat_str (nat (- i))) = CHR ''-'' # nat_str (nat (- i))"
      using c by (intro strip_id) (simp_all add: is_space_def)
    then show ?thesis using True base0_nat_str [of "nat (- i)"] by (simp add: py_int_text_def int_str_def)
  next
    case False
    obtain c cs where c: "nat_str (nat i) = c # cs" "c \<noteq> CHR ''-''" "c \<noteq> CHR ''+''" "\<not> is_space c"
      "\<not> is_space (last (nat_str (nat i)))" using nat by blast
    have "strip (nat_str (nat i)) = nat_str (nat i)" using c by (intro strip_id) simp_all
    then show ?thesis using False c base0_nat_str [of "nat i"] by (simp add: py_int_text_def int_str_def)
  qed
qed

lemma hex_char_facts:
  assumes "d < 16"
  shows "nibble (hex_char d) = Some d" "\<not> hex_space (hex_char d)" "\<not> is_space (hex_char d)" "hex_char d \<noteq> CHR ''x''"
proof -
  have n: "(of_char (hex_char d) :: nat) = (if d < 10 then 48 + d else 87 + d)"
    using assms by (simp add: hex_char_def)
  have ne: "hex_char d \<noteq> c" if "(of_char c :: nat) < 48 \<or> 102 < (of_char c :: nat)" for c
    using n that assms by (intro char_neq) (auto split: if_splits)
  show "nibble (hex_char d) = Some d"
    using n assms by (cases "d < 10") (simp_all add: nibble_def digit_value_def lower_char_def Let_def)
  show "\<not> hex_space (hex_char d)" using ne by (simp add: hex_space_def)
  show "\<not> is_space (hex_char d)" using ne by (simp add: is_space_def)
  show "hex_char d \<noteq> CHR ''x''" by (rule ne) simp
qed

lemma byte_nibbles: "unat (b :: 8 word) div 16 < 16" "unat b mod 16 < 16" "of_nat (16 * (unat b div 16) + unat b mod 16) = b"
proof -
  have "unat b < 2 ^ 8" using unsigned_less [of b] by simp
  then show "unat b div 16 < 16" "unat b mod 16 < 16" by simp_all
  show "of_nat (16 * (unat b div 16) + unat b mod 16) = b" unfolding mult_div_mod_eq by simp
qed

lemma fromhex_payload_hex: "fromhex (payload_hex p) = Inr p"
  by (induction p) (simp_all add: payload_hex_def hex_char_facts byte_nibbles)

lemma parse_payload_hex: "parse_hex_payload (PStr (payload_hex p)) = Inr p"
proof (cases p)
  case Nil
  then show ?thesis by (simp add: parse_hex_payload_def payload_hex_def strip_def)
next
  case (Cons b bs)
  obtain ys y where y: "p = ys @ [y]" using Cons by (metis rev_exhaust list.distinct(1))
  have last: "\<not> is_space (last (payload_hex p))"
    unfolding y using hex_char_facts(3) byte_nibbles by (simp add: payload_hex_def)
  have "strip (payload_hex p) = payload_hex p"
    using Cons last hex_char_facts(3) byte_nibbles by (intro strip_id) (simp_all add: payload_hex_def)
  moreover have "\<not> starts_with ''0x'' (payload_hex p)"
    using Cons hex_char_facts(4) [of "unat b mod 16"] by (auto simp: payload_hex_def)
  moreover have "even (length (payload_hex p))" by (induction p) (simp_all add: payload_hex_def)
  ultimately show ?thesis using fromhex_payload_hex [of p] by (simp add: parse_hex_payload_def)
qed

lemma ascii_read_back:
  "\<forall>b \<in> set p. unat b < 0x80 \<Longrightarrow> strict_ascii (ascii_decode p) = Inr p"
proof -
  assume a: "\<forall>b \<in> set p. unat b < 0x80"
  then have d: "ascii_decode p = map (\<lambda>b. char_of (unat b)) p"
    by (induction p) (simp_all add: ascii_decode_def)
  have oc: "(of_char (char_of (unat b)) :: nat) = unat b" if "b \<in> set p" for b
  proof -
    have "unat b < 128" using a that by auto
    then show ?thesis by simp
  qed
  show ?thesis
    unfolding d strict_ascii_def using a oc by (auto simp: list_all_iff o_def intro!: map_idI)
qed

lemma rstrip_zeros_id: "p = [] \<or> last p \<noteq> 0 \<Longrightarrow> rstrip_zeros p = p"
  by (cases p rule: rev_cases) (simp_all add: rstrip_zeros_def)

text \<open>The payloads a data type represents: any bytes as hexadecimal text, ASCII without trailing
  zeros as text, the bytes of the type for a number, which is neither infinite nor the negative zero.\<close>

definition restorable :: "string \<Rightarrow> bytes \<Rightarrow> bool" where
  "restorable data_type p \<longleftrightarrow>
     data_type \<in> set HEX_TYPES \<or>
     data_type \<in> set TEXT_TYPES \<and> (\<forall>b \<in> set p. unat b < 0x80) \<and> (p = [] \<or> last p \<noteq> 0) \<or>
     (\<exists>fm. map_of ACCESS_FORMATS data_type = Some fm \<and> length p = calcsize fm \<and>
        (fm = F_f \<longrightarrow> (\<exists>x. f32_value (le_uint p) = PFloat x \<and> (x \<noteq> 0 \<or> le_uint p = 0))))"

lemma access_types_disjoint:
  "map_of ACCESS_FORMATS t = Some fm \<Longrightarrow> t \<notin> set HEX_TYPES \<and> t \<notin> set TEXT_TYPES \<and> fm \<noteq> F_bool \<and> (t = ''float32'' \<longleftrightarrow> fm = F_f)"
  "t \<in> set TEXT_TYPES \<Longrightarrow> t \<notin> set HEX_TYPES"
  by (auto simp: ACCESS_FORMATS_def HEX_TYPES_def TEXT_TYPES_def split: if_splits dest!: map_of_SomeD)

lemma payload_restored:
  assumes pstr: "\<And>i. pstr (PInt i) = int_str i" and "restorable t p" and v: "decode_payload u sh p t = Inr v"
  shows "encode_payload pstr u' v t = Inr p"
proof -
  consider "t \<in> set HEX_TYPES" | "t \<in> set TEXT_TYPES" "\<forall>b \<in> set p. unat b < 0x80" "p = [] \<or> last p \<noteq> 0"
    | fm where "map_of ACCESS_FORMATS t = Some fm" "length p = calcsize fm"
      "fm = F_f \<longrightarrow> (\<exists>x. f32_value (le_uint p) = PFloat x \<and> (x \<noteq> 0 \<or> le_uint p = 0))"
    using assms(2) unfolding restorable_def by blast
  then show ?thesis
  proof cases
    case 1
    then have "v = PStr (payload_hex p)" using v by (simp add: decode_payload_def)
    then show ?thesis using 1 parse_payload_hex by (simp add: encode_payload_def)
  next
    case 2
    then have "v = PStr (ascii_decode p)"
      using v access_types_disjoint(2) [OF 2(1)] rstrip_zeros_id [OF 2(3)] by (simp add: decode_payload_def)
    then show ?thesis
      using 2(1) access_types_disjoint(2) [OF 2(1)] ascii_read_back [OF 2(2)] by (simp add: encode_payload_def py_str_def)
  next
    case 3
    note d = access_types_disjoint(1) [OF 3(1)]
    have un: "struct_unpack fm p = Inr v" using v d 3(1,2) by (simp add: decode_payload_def)
    show ?thesis
    proof (cases "fm = F_f")
      case True
      then obtain x where x: "f32_value (le_uint p) = PFloat x" "x \<noteq> 0 \<or> le_uint p = 0" using 3(3) by blast
      have "0 \<le> le_uint p" "le_uint p < 2 ^ 32" using le_uint_bounds [of p] 3(2) True by simp_all
      then have "f32_bits x = Some (le_uint p)" using x by (intro f32_roundtrip)
      moreover have "int_le 4 (le_uint p) = p" using int_le_le_uint [of p] 3(2) True by simp
      moreover have "v = PFloat x" using un x(1) True 3(2) by (simp add: struct_unpack_def)
      moreover have "''float32'' \<notin> set HEX_TYPES" "''float32'' \<notin> set TEXT_TYPES"
        by (simp_all add: HEX_TYPES_def TEXT_TYPES_def)
      ultimately show ?thesis
        using True d 3(1) by (simp add: encode_payload_def float_of_value_def struct_pack_def pack_float_def pack_real_def)
    next
      case False
      obtain i where i: "struct_unpack fm p = Inr (PInt i)" "struct_pack fm (PInt i) = Inr p"
        using unpack_pack_integer [of fm p] False d 3(2) by blast
      then have "v = PInt i" using un by simp
      moreover have "int_of_str pstr (PInt i) = Inr i"
        using int_str_read_back by (simp add: int_of_str_def py_str_def pstr)
      ultimately show ?thesis using i(2) d 3(1) False by (simp add: encode_payload_def)
    qed
  qed
qed


definition demo_str :: "pyval \<Rightarrow> string" where
  "demo_str v = (case v of PInt i \<Rightarrow> int_str i | _ \<Rightarrow> [])"


subsection \<open>The cache after an access\<close>

lemma cache_access_stored:
  assumes "mk_address a = Inr a" and d: "runtime_parameter_definition a data_type ''rw'' = Inr d"
    and "map_of (pc_definitions (access_cache s)) (pd_key d) \<in> {None, Some d}"
  shows "\<exists>t. cache_access a v data_type raw src now s = (Inr (), t) \<and> access_bus t = access_bus s \<and>
    map_option pv_value (cache_get (access_cache t) (pd_key d)) = Some v"
proof -
  have "register d (access_cache s) =
      (Inr (), (access_cache s)\<lparr>pc_definitions := AList.update (pd_key d) d (pc_definitions (access_cache s))\<rparr>)"
    using assms(3) by (auto simp: register_def)
  then show ?thesis
    using assms(1) d
    by (simp add: cache_access_def update_runtime_parameter_cache_def opsimps cache_update_def cache_definition_def
        put_value_def cache_get_def update_conv' Let_def)
qed

lemma cache_access_conflict:
  assumes "mk_address a = Inr a" and "runtime_parameter_definition a data_type ''rw'' = Inr d"
    and "map_of (pc_definitions (access_cache s)) (pd_key d) = Some d'" and "d' \<noteq> d"
  shows "cache_access a v data_type raw src now s = (Inl ValueError, s)"
  using assms by (simp add: cache_access_def update_runtime_parameter_cache_def opsimps register_def)

lemma definition_of_access:
  assumes "pa_source_type a \<noteq> []" "\<not> is_space (hd (pa_source_type a))"
    and "runtime_parameter_name a = Inr (c # cs)" "\<not> is_space c"
    and t: "map_of ACCESS_FORMATS data_type \<noteq> None \<or> data_type \<in> set (HEX_TYPES @ TEXT_TYPES)"
  shows "\<exists>d. runtime_parameter_definition a data_type ''rw'' = Inr d \<and> pd_key d = runtime_parameter_key a \<and>
    pd_data_type d = data_type"
proof -
  obtain x xs where x: "runtime_parameter_key a = x # xs" "\<not> is_space x"
    using assms(1,2) by (cases "pa_source_type a") (auto simp: runtime_parameter_key_def join_dots_def)
  have "data_type \<in> set (map fst ACCESS_FORMATS) \<union> set (HEX_TYPES @ TEXT_TYPES)"
    using t by (auto simp: map_of_eq_None_iff)
  then have "strip data_type \<noteq> []"
    by (auto simp: ACCESS_FORMATS_def HEX_TYPES_def TEXT_TYPES_def strip_Cons is_space_def)
  then show ?thesis
    using assms(3,4) x by (simp add: runtime_parameter_definition_def mk_parameter_definition_def strip_Cons ACCESS_TYPES_def)
qed

subsection \<open>Permission of ISDU access\<close>

text \<open>What the description of the device on a port permits.\<close>

definition iodd_permits :: "CPXIoConfig \<Rightarrow> isdu_request \<Rightarrow> string \<Rightarrow> bool" where
  "iodd_permits c q right \<longleftrightarrow>
     (\<exists>b \<in> set (io_link_devices c). bd_module b = iq_module q \<and> int (bd_port b) = iq_port q \<and>
        (\<exists>v \<in> set (iodd_variables (bd_device b)). var_index v = iq_index q \<and>
           contains right (lower (strip (var_access v))) \<and>
           (iq_subindex q = 0 \<or> iq_subindex q \<in> set (var_subindices v))))"

lemma validated_permits:
  assumes "validate_isdu_request_against_iodd pstr devices q acc = Inr ()"
    and "right = (if acc = ''read'' then ''r'' else ''w'')"
  shows "\<exists>c. io_config_for_request pstr devices q = Inr c \<and> iodd_permits c q right"
proof -
  obtain b v where b: "iodd_binding_for_request pstr devices q = Inr b"
    and v: "iodd_variable_for_index b (iq_index q) = Inr v"
    and acc: "validate_iodd_variable_access v acc = Inr ()" and sub: "validate_iodd_subindex v q = Inr ()"
    using assms(1) by (auto simp: validate_isdu_request_against_iodd_def)
  obtain c where c: "io_config_for_request pstr devices q = Inr c"
    "find (\<lambda>b. bd_module b = iq_module q \<and> int (bd_port b) = iq_port q) (io_link_devices c) = Some b"
    using b by (auto simp: iodd_binding_for_request_def split: option.splits)
  have "v \<in> set (iodd_variables (bd_device b)) \<and> var_index v = iq_index q"
    using v by (auto simp: iodd_variable_for_index_def find_Some_iff split: option.splits)
  moreover have "b \<in> set (io_link_devices c) \<and> bd_module b = iq_module q \<and> int (bd_port b) = iq_port q"
    using c(2) by (auto simp: find_Some_iff)
  moreover have "contains right (lower (strip (var_access v)))"
    using acc assms(2) unfolding validate_iodd_variable_access_def Let_def by (auto split: if_splits)
  moreover have "iq_subindex q = 0 \<or> iq_subindex q \<in> set (var_subindices v)"
    using sub by (auto simp: validate_iodd_subindex_def split: if_splits)
  ultimately show ?thesis using c(1) unfolding iodd_permits_def by blast
qed

text \<open>C13: nothing reaches an IO-Link device that its description does not permit. Whenever an ISDU request of a
  client changes anything on the bus or in the parameter cache, or is answered with a result, the
  request was well formed and the IODD bound to the module and port lists the parameter with the
  access right the request needs and, for a part of a record, the subindex; every other request is
  refused with the state as it was.\<close>

theorem isdu_access_permitted:
  assumes "read_iol_parameter pstr ports polls devices now message s = (x, t) \<and> req = False \<and> right = ''r'' \<or>
           write_iol_parameter pstr ports polls devices now message s = (x, t) \<and> req = True \<and> right = ''w''"
    and "t \<noteq> s \<or> \<not> isl x"
  shows "\<exists>q c. parse_isdu_request pstr message req = Inr q \<and> io_config_for_request pstr devices q = Inr c \<and>
    iodd_permits c q right"
proof -
  define acc where "acc = (if req then ''write'' else ''read'')"
  obtain q where q: "parse_isdu_request pstr message req = Inr q"
    using assms by (cases "parse_isdu_request pstr message req")
      (auto simp: read_iol_parameter_def write_iol_parameter_def opsimps)
  have "validate_isdu_request_against_iodd pstr devices q acc = Inr ()"
    using assms q by (cases "validate_isdu_request_against_iodd pstr devices q acc")
      (auto simp: read_iol_parameter_def write_iol_parameter_def opsimps acc_def)
  then show ?thesis using validated_permits [of pstr devices q acc right] q assms(1) by (auto simp: acc_def)
qed

definition demo_variable :: IoddVariableInfo where
  "demo_variable = \<lparr>variable_id = ''V_Level'', var_index = 83, var_access = ''rw'', var_data_type = ''UIntegerT'',
     var_subindices = []\<rparr>"

definition demo_profile :: IoddProcessDataInfo where
  "demo_profile = \<lparr>profile_id = ''P'', pd_input_bytes = 2, pd_output_bytes = 0, condition_value = None, input_layout = None\<rparr>"

definition demo_sensor :: IoddDeviceInfo where
  "demo_sensor = \<lparr>iodd_key = ''sensor'', iodd_vendor_id = 1, iodd_device_id = 2, iodd_vendor_name = [],
     iodd_device_name = [], process_data_profiles = [demo_profile], iodd_variables = [demo_variable]\<rparr>"

definition demo_iol_device :: io_device where
  "demo_iol_device =
     demo_io\<lparr>dev_rx := (dev_rx demo_io)\<lparr>rx_config := demo_station\<lparr>io_link_devices :=
       [\<lparr>bd_module = 3, bd_port = 1, bd_device = demo_sensor, bd_profile = demo_profile\<rparr>]\<rparr>\<rparr>\<rparr>"

definition demo_port :: "bytes sdo_port" where
  "demo_port = \<lparr>sdo_wr = (\<lambda>i k p. if k = 7 then modifyS (\<lambda>_. p) else retS ()),
     sdo_rd = (\<lambda>i k n. retS (if k = 6 then [2] else zeros (int n)))\<rparr>"

definition demo_isdu_read :: pydict where
  "demo_isdu_read = [(''io'', PStr ''io0''), (''module'', PInt 3), (''port'', PStr ''1''), (''index'', PStr ''83''),
     (''data_type'', PStr ''uint16'')]"

definition demo_access :: "bytes access_state" where
  "demo_access = \<lparr>access_bus = [], access_cache = empty_cache\<rparr>"

definition demo_isdu_request :: isdu_request where
  "demo_isdu_request = \<lparr>iq_io = PStr ''io0'', iq_module = 3, iq_port = 1, iq_index = 83, iq_subindex = 0,
     iq_length = 2, iq_data_type = ''uint16''\<rparr>"

lemma demo_isdu_parsed: "parse_isdu_request demo_str demo_isdu_read False = Inr demo_isdu_request"
  by code_simp

lemma demo_isdu_valid:
  "validate_isdu_request_against_iodd demo_str [demo_iol_device] demo_isdu_request ''read'' = Inr ()"
  "resolve_isdu_access_object demo_str [demo_iol_device] demo_isdu_request = Inr 0x2004"
  "validate_isdu_target demo_str [demo_iol_device] demo_isdu_request = Inr 1"
  by code_simp+

lemma demo_isdu_header:
  "write_header demo_port (isdu_format 0x2004) (isdu_address demo_isdu_request) None (Some 0) s = (Inr (), s)"
  by (simp add: write_header_def write_field_def port_write_def isdu_format_def isdu_address_def demo_isdu_request_def
      struct_pack_def pack_integer_def in_range_def signed_format_def demo_port_def opsimps catch_step_def)

lemma demo_isdu_gateway:
  "gateway_read demo_port (isdu_format 0x2004) 50 operation (isdu_address demo_isdu_request) 2 s = (Inr (0, 2, [0, 0]), s)"
proof -
  have "poll_status demo_port (isdu_format 0x2004) 50 s = (Inr 0, s)"
    by (subst poll_status.simps) (simp add: port_read_def demo_port_def opsimps catch_step_def struct_unpack_def
        zeros_def signed_format_def int_of_value_def STATUS_BUSY_def numeral_eq_Suc)
  then show ?thesis
    by (simp add: gateway_read_def demo_isdu_header require_success_def opsimps port_read_def)
      (simp add: isdu_format_def demo_port_def opsimps catch_step_def struct_unpack_def signed_format_def int_of_value_def
        zeros_def ISDU_MAX_DATA_BYTES_def numeral_eq_Suc)
qed

lemma demo_isdu_address:
  "mk_address (iol_runtime_parameter_address demo_str [demo_iol_device] demo_isdu_request 1) =
     Inr (iol_runtime_parameter_address demo_str [demo_iol_device] demo_isdu_request 1)"
  "isl (runtime_parameter_definition (iol_runtime_parameter_address demo_str [demo_iol_device] demo_isdu_request 1)
     ''uint16'' ''rw'') = False"
  by code_simp+

theorem isdu_access_permitted_witness:
  "\<exists>q c. parse_isdu_request demo_str demo_isdu_read False = Inr q \<and>
     io_config_for_request demo_str [demo_iol_device] q = Inr c \<and> iodd_permits c q ''r''"
proof -
  let ?a = "iol_runtime_parameter_address demo_str [demo_iol_device] demo_isdu_request 1"
  obtain d where d: "runtime_parameter_definition ?a ''uint16'' ''rw'' = Inr d"
    using demo_isdu_address(2) by (cases "runtime_parameter_definition ?a ''uint16'' ''rw''") simp_all
  obtain t where t: "cache_access ?a (PInt 0) ''uint16'' (PStr (payload_hex [0, 0])) ''device_readback'' 0 demo_access = (Inr (), t)"
    using cache_access_stored [OF demo_isdu_address(1) d, of demo_access "PInt 0"
        "PStr (payload_hex [0, 0])" "''device_readback''" 0] by (auto simp: demo_access_def empty_cache_def)
  have v: "decode_isdu_payload [0, 0] ''uint16'' = Inr (PInt 0)" by code_simp
  have q: "iq_length demo_isdu_request = 2" "iq_data_type demo_isdu_request = ''uint16''"
    by (simp_all add: demo_isdu_request_def)
  obtain x where "read_iol_parameter demo_str (\<lambda>_. demo_port) 50 [demo_iol_device] 0 demo_isdu_read demo_access = (Inr x, t)"
    using t demo_isdu_parsed demo_isdu_valid v
    by (simp add: read_iol_parameter_def q on_port_def demo_isdu_gateway opsimps)
  then show ?thesis
    using isdu_access_permitted [where req = False and right = "''r''" and x = "Inr x"] by simp
qed

subsection \<open>Writing AP parameters and objects\<close>

lemma parsed_ap_request:
  assumes "parse_ap_parameter_request pstr message require = Inr q"
  shows "0 \<le> ap_module q" "ap_module q \<le> 0xFFFF" "0 \<le> ap_parameter_id q" "ap_parameter_id q \<le> 0xFFFFFFFF"
    "0 \<le> ap_instance q" "ap_instance q \<le> 0xFFFF" "0 \<le> ap_length q" "ap_length q \<le> 512"
proof -
  have "require_range a b lo hi i = Inr u \<Longrightarrow> lo \<le> i \<and> i \<le> hi" for a b lo hi i u
    by (auto simp: require_range_def split: if_splits)
  note this [dest!]
  have "0 \<le> ap_module q \<and> ap_module q \<le> 0xFFFF \<and> 0 \<le> ap_parameter_id q \<and> ap_parameter_id q \<le> 0xFFFFFFFF \<and>
      0 \<le> ap_instance q \<and> ap_instance q \<le> 0xFFFF \<and> 0 \<le> ap_length q \<and> ap_length q \<le> 512"
    using assms unfolding parse_ap_parameter_request_def Let_def
    by (auto simp: AP_MAX_DATA_BYTES_def simp del: not_None_eq split: if_split_asm)
  then show "0 \<le> ap_module q" "ap_module q \<le> 0xFFFF" "0 \<le> ap_parameter_id q" "ap_parameter_id q \<le> 0xFFFFFFFF"
    "0 \<le> ap_instance q" "ap_instance q \<le> 0xFFFF" "0 \<le> ap_length q" "ap_length q \<le> 512" by blast+
qed

lemma write_payload_length:
  "write_payload what message t len e = Inr p \<Longrightarrow> length e \<le> n \<Longrightarrow> len \<le> int n \<Longrightarrow> length p \<le> n"
  by (auto simp: write_payload_def zeros_def split: if_splits)

lemma selected_from_member:
  "select_from pstr PNone (PInt i) n ds = Inr k \<Longrightarrow> \<exists>d \<in> set ds. dev_slave_index d = i"
  by (induction ds arbitrary: n) (auto simp: int_of_value_def split: if_splits)

lemma source_index_found:
  "\<exists>d \<in> set ds. dev_slave_index d = i \<Longrightarrow> \<exists>m. source_index_from pstr v i n ds = Some (int m)"
  by (induction ds arbitrary: n) auto

lemma validated_source:
  assumes "validate_ap_target pstr devices q = Inr si"
  shows "0 \<le> io_source_index pstr devices (ap_io q) si"
proof -
  obtain k where "selected_device pstr devices PNone (PInt si) = Inr k"
    using assms by (auto simp: validate_ap_target_def io_not_found_def split: sum.splits if_splits)
  then have "\<exists>d \<in> set devices. dev_slave_index d = si"
    using selected_from_member by (auto simp: selected_device_def)
  then obtain m where "source_index_from pstr (ap_io q) si 0 devices = Some (int m)"
    using source_index_found by blast
  then show ?thesis by (simp add: io_source_index_def)
qed

lemma ap_definition:
  assumes "parse_ap_parameter_request pstr message require = Inr q" and "validate_ap_target pstr devices q = Inr si"
    and "encode_ap_payload pstr v (ap_data_type q) = Inr e" and a: "a = ap_runtime_parameter_address pstr devices q si"
  shows "mk_address a = Inr a"
    and "\<exists>d. runtime_parameter_definition a (ap_data_type q) ''rw'' = Inr d \<and> pd_key d = runtime_parameter_key a \<and>
      pd_data_type d = ap_data_type q"
proof -
  show "mk_address a = Inr a"
    using parsed_ap_request [OF assms(1)] validated_source [OF assms(2)]
    by (simp add: a mk_address_def ap_runtime_parameter_address_def io_address_def SOURCE_TYPES_def PARAMETER_DOMAINS_def
        optional_field_ok_def)
  have "map_of ACCESS_FORMATS (ap_data_type q) \<noteq> None \<or> ap_data_type q \<in> set (HEX_TYPES @ TEXT_TYPES)"
    using assms(3) by (auto simp: encode_ap_payload_def encode_payload_def split: if_splits)
  moreover obtain c cs where "runtime_parameter_name a = Inr (c # cs)" "\<not> is_space c"
    by (simp add: a runtime_parameter_name_def ap_runtime_parameter_address_def io_address_def is_space_def)
  ultimately show "\<exists>d. runtime_parameter_definition a (ap_data_type q) ''rw'' = Inr d \<and>
      pd_key d = runtime_parameter_key a \<and> pd_data_type d = ap_data_type q"
    by (intro definition_of_access) (simp_all add: a ap_runtime_parameter_address_def io_address_def is_space_def)
qed


definition demo_ap_write :: pydict where
  "demo_ap_write = [(''io'', PStr ''io0''), (''module'', PInt 1), (''parameter_id'', PStr ''20071''),
     (''data_type'', PStr ''uint8''), (''value'', PInt 5)]"

definition demo_ap_request :: ap_request where
  "demo_ap_request = \<lparr>ap_io = PStr ''io0'', ap_module = 1, ap_parameter_id = 20071, ap_instance = 0, ap_length = 1,
     ap_data_type = ''uint8''\<rparr>"

definition demo_old_definition :: parameter_definition where
  "demo_old_definition = \<lparr>pd_key = ''old'', pd_address = io_address 0 ''ap_parameter'', pd_name = ''old'', pd_data_type = ''int8'',
     pd_required = False, pd_access = ''rw'', pd_refresh_on_startup = False, pd_refresh_on_recovery = False, pd_used_by = []\<rparr>"

definition demo_ap_key :: string where
  "demo_ap_key = runtime_parameter_key (ap_runtime_parameter_address demo_str [demo_io] demo_ap_request 1)"

definition demo_ap_state :: "cpx_station mock_slave access_state" where
  "demo_ap_state = \<lparr>access_bus = demo_gateway_slave,
     access_cache = \<lparr>pc_definitions = [(demo_ap_key, demo_old_definition)], pc_values = []\<rparr>\<rparr>"

lemma demo_ap_parsed: "parse_ap_parameter_request demo_str demo_ap_write True = Inr demo_ap_request"
  by code_simp

lemma demo_ap_target: "validate_ap_target demo_str [demo_io] demo_ap_request = Inr 1"
  by code_simp

lemma demo_ap_encoded: "encode_ap_payload demo_str (PInt 5) ''uint8'' = Inr [5]"
proof -
  have "map_of ACCESS_FORMATS ''uint8'' = Some F_B" by code_simp
  moreover have "int_of_str demo_str (PInt 5) = Inr 5"
    using int_str_read_back by (simp add: int_of_str_def py_str_def demo_str_def)
  ultimately show ?thesis
    using access_types_disjoint(1) [of "''uint8''" F_B]
    by (simp add: encode_ap_payload_def encode_payload_def struct_pack_def pack_integer_def in_range_def signed_format_def)
qed



definition demo_object_write :: pydict where
  "demo_object_write = [(''axis'', PInt 0), (''index'', PStr ''0x6081''), (''data_type'', PStr ''uint32''), (''value'', PInt 70000)]"


end
