(* ===== verification/Spec2Isabelle.thy ===== *)
theory Spec2Isabelle
  imports Virtual_Servo Recovery_Laws Trajectory_Laws Distributed_Clock Parameter_Laws
begin

text \<open>
  Verification of the Motion Server: a server that commands CiA 402 servo drives and Festo CPX-AP
  I/O stations on an EtherCAT bus for clients that send JSON lines over TCP. The theories model the
  Python sources under \<^verbatim>\<open>src/motion_server\<close>, \<^verbatim>\<open>src/device\<close> and \<^verbatim>\<open>src/ethercat\<close>.

  \<^bold>\<open>The program.\<close> Clients connect to the server (\<^verbatim>\<open>app/client_transport.py\<close>); a request is a JSON object
  that the router (\<^verbatim>\<open>api/router.py\<close>) checks against the command specification, the state of the
  session and the owner of the command authority before a handler runs. Handlers work on the axis
  runtime: setpoints go into the motion controller, which computes a position command per cycle with a
  trajectory generator per axis, or directly into the outgoing process images of the drives; settings
  and parameters are read and written by SDO access and kept in a parameter cache. Every cycle the
  server computes the commands, exchanges the process images with the bus, lets the diagnostic monitor
  compare the result with what is expected and serves its connections. When the bus is lost the server
  serves clients without cycles until it is reconnected. In simulation the slaves of the bus are a servo
  model and a model of the I/O station behind object dictionaries.

  \<^bold>\<open>Conventions.\<close> A Python operation that may raise is a function into \<open>exn + 'a\<close> (\<open>Inl\<close> the exception with
  its class and the attributes the sources read); an operation on a state is a function from the state to a
  result and a new state, so that an operation that raises keeps what it changed before. The
  combinators \<open>bindE\<close>, \<open>bindS\<close>, \<open>catchS\<close> and \<open>forS\<close> of \<^verbatim>\<open>Prelude\<close> compose both. Values of requests, of
  object dictionaries and of caches are of the type \<open>pyval\<close>. Records have the fields of the source's
  classes, definitions the names of its functions where they are free. Integers of Python are \<open>int\<close>,
  bytes of an image words of 8 bits, and where a width matters (\<open>struct\<close>, process data) the range checks and the
  conversions are written out. Floats are real numbers: rounding is modelled only where a value is
  packed as \<open>float32\<close>. A dictionary whose order is observable is an association list.

  \<^bold>\<open>Theories and sources.\<close>
  \<^item> \<^verbatim>\<open>Prelude\<close>, \<^verbatim>\<open>Op_Logic\<close>: operations, errors and Python text and numbers; triples and frame rules.
  \<^item> \<^verbatim>\<open>Failures\<close> (\<^verbatim>\<open>motion_server/failure\<close>), \<^verbatim>\<open>Diagnostics\<close> (\<^verbatim>\<open>motion_server/diagnostic\<close>), \<^verbatim>\<open>Init_Session\<close>
    (\<^verbatim>\<open>app/initialization.py\<close>, \<^verbatim>\<open>app/session.py\<close>): exceptions and what clients see of them, the life cycle of
    diagnostics, the runtime state.
  \<^item> \<^verbatim>\<open>Api\<close> (\<^verbatim>\<open>motion_server/api\<close>), \<^verbatim>\<open>Client_Transport\<close>, \<^verbatim>\<open>Command_Registry\<close>, \<^verbatim>\<open>Server_Loop\<close> (\<^verbatim>\<open>server.py\<close>): routing
    and admission of requests, connections and framing, dispatch, and the server as a step relation.
  \<^item> \<^verbatim>\<open>Csp_Generator\<close>, \<^verbatim>\<open>Motion_Controller\<close>, \<^verbatim>\<open>Trajectory\<close>, \<^verbatim>\<open>Trajectory_Laws\<close> (\<^verbatim>\<open>motion_server/control\<close>), \<^verbatim>\<open>Units\<close>:
    trajectory generation, verification of trajectories, unit conversion.
  \<^item> \<^verbatim>\<open>Axis_Runtime\<close>, \<^verbatim>\<open>Axis_Laws\<close>, \<^verbatim>\<open>Motion_Handlers\<close>, \<^verbatim>\<open>Axis_Settings\<close>, \<^verbatim>\<open>Startup\<close>, \<^verbatim>\<open>Recovery\<close>,
    \<^verbatim>\<open>Recovery_Laws\<close>, \<^verbatim>\<open>Runtime_Monitor\<close>, \<^verbatim>\<open>Parameter_Cache\<close>: the runtime of the axes, the command handlers on it,
    starting and recovering it, and watching it.
  \<^item> \<^verbatim>\<open>Od_Codec\<close>, \<^verbatim>\<open>Pdo_Image\<close>, \<^verbatim>\<open>Virtual_Od\<close>, \<^verbatim>\<open>Mock_Master\<close>, \<^verbatim>\<open>Cmmt_Profile\<close>, \<^verbatim>\<open>Distributed_Clock\<close>
    (\<^verbatim>\<open>ethercat\<close>, \<^verbatim>\<open>device/cmmt\<close>, \<^verbatim>\<open>device/virtual_device\<close>): values as bytes, process images, object
    dictionaries, the master, the drive profile, the phase of the cycle.
  \<^item> \<^verbatim>\<open>Cia402\<close>, \<^verbatim>\<open>Virtual_Servo\<close> (\<^verbatim>\<open>device/cia402\<close>, \<^verbatim>\<open>device/virtual_servo_drive\<close>): the power state machine
    and the simulated drive.
  \<^item> \<^verbatim>\<open>Cpx_Layout\<close>, \<^verbatim>\<open>Cpx_Config\<close>, \<^verbatim>\<open>Io_Link\<close>, \<^verbatim>\<open>Cpx_Image\<close>, \<^verbatim>\<open>Io_Handlers\<close>, \<^verbatim>\<open>Gateway\<close>,
    \<^verbatim>\<open>Parameter_Access\<close>, \<^verbatim>\<open>Parameter_Laws\<close> (\<^verbatim>\<open>device/cpx_ap_i_ec\<close>, \<^verbatim>\<open>device/io_link\<close>,
    \<^verbatim>\<open>device/virtual_cpx_ap_i_ec\<close>, \<^verbatim>\<open>handlers/parameter_access\<close>): the layout and the image of an I/O station, the
    requests on it, and its parameters behind gateway objects.

  \<^bold>\<open>Interfaces.\<close> Where one part relies on another the laws are a locale, interpreted on the model's own
  definitions: \<open>status_lifecycle\<close> (the diagnostic manager), \<open>owner_preserving_handlers\<close> and \<open>authority_discipline\<close>
  (what the service loop asks of the handlers; the command registry provides it), \<open>field_store\<close> (outgoing
  fields of the axes), \<open>bus_profiles\<close> (device profiles prepare an image without disturbing the master's
  bookkeeping), \<open>standing_drive\<close> (a drive that is not enabled stands), \<open>image_writer\<close> (module values in a
  station's image, for outputs and for inputs) and \<open>gateway_object\<close> (the protocol of a parameter gateway, provided by
  the object dictionary of the simulated station for the AP gateway and for every ISDU gateway).

  \<^bold>\<open>What the theorems show.\<close>
  \<^item> Admission: a command reaches its handler only from the owner of the authority, in a mode and a state that
    admit it, and a faulted axis or a lost bus locks the commands; the authority always belongs to a connected
    client, over all interleavings of cycles and connections (\<open>Server_Loop\<close>). Framing does not depend
    on how the byte stream is cut.
  \<^item> Motion: point moves stay within their limits and arrive, the trapezoidal profile does not overshoot, a timed
    trajectory ends and is sampled as the curve of its definition, an expanded trajectory passes the verifier; the
    simulated drive moves only when enabled.
  \<^item> Bus and dictionaries: encoding and decoding are inverse for single values and whole images; a process data
    cycle moves exactly the mapped fields; dictionaries stay well typed.
  \<^item> Diagnostics and recovery: the working counter watchdog, the path from a drive's status word to the
    refused command, the effect of losing the bus and of reconnecting it.
  \<^item> I/O: a built station gives every module bytes of its own; what is written on one side of the
    image is read on the other; a parameter access hands the gateway exactly the client's address and bytes,
    and an ISDU access only when the device description permits it; what was read can be written back.
  \<^item> Errors: theorems of kind error state where the code answers an input otherwise than it means to.

  \<^bold>\<open>Bounds and fuel.\<close> A loop that ends at a deadline gets the number of rounds the deadline leaves, so every count
  is covered: polls of a gateway, attempts of a reconnect, rounds of a startup wait. Loops over data are structural.
  Class resolution in \<open>Failures\<close> walks four levels, the depth of the hierarchy. The search for a trajectory duration
  stretches at most 24 times, the bound of the source. The server is an inductive relation on steps,
  each with an environment of its own: what clocks, sockets and the JSON library return is an argument
  of the step.

  \<^bold>\<open>Not modelled.\<close> The control panels, the ROS nodes, packaging, scripts and reference clients (graphical or
  thin clients and deployment files); \<^verbatim>\<open>pysoem_master.py\<close>, which calls the library of a real network (the bus of the
  model is the in-process master; a transport is an argument where the startup needs one); reading
  of configuration files and of the vendor's XML, JSON and IODD descriptions, which are data the models
  take as arguments; building the object dictionary of the simulated I/O station (the theorems ask for a dictionary
  with the gateway objects); the status views, which format the modelled state and change nothing; log output,
  messages of exceptions, statistics and the waiting between cycles. Floating point is exact, so the
  bounds of the trajectories hold up to the rounding of the machine.
\<close>

end
